(* ===== verification/Py_Prelude.thy ===== *)
theory Py_Prelude
  imports Complex_Main
begin

text \<open>
  The shared prelude of the development.

  It holds the model of the Python values that cross a trust boundary (decoded JSON), the
  exceptions the sources raise and catch, the two small effect types the components are
  written in (\<open>'a res\<close> for code that may raise, \<open>('s, 'a) act\<close> for code that may raise
  while its state changes stay visible), association lists that keep insertion order as a
  Python \<open>dict\<close> does, the generic step system with its reachability and invariant locale,
  and the locale of hold timers (\<open>since = since if since is not None else now\<close>) that the
  controllers of the repository share.

  Floating point seconds are exact rationals: rounding of the binary format is not
  modelled, every comparison and difference is the exact one. Infinities and NaN, which
  \<open>json.loads\<close> accepts, are separate values and rejected where the code rejects them.
  Characters are the 256 values of \<^typ>\<open>char\<close>; the sources compare strings, bound their
  length and match ASCII classes only.
\<close>

section \<open>Collections of facts\<close>

named_theorems py_simps \<open>evaluation of Python values\<close>
named_theorems wp_simps \<open>weakest preconditions of effectful code\<close>
named_theorems act_simps \<open>evaluation of effectful code\<close>

section \<open>Python values\<close>

type_synonym seconds = rat

datatype pyfloat = Fin rat | PosInf | NegInf | NaN

datatype py =
    PNone
  | PBool bool
  | PInt int
  | PFloat pyfloat
  | PStr string
  | PList "py list"
  | PDict "(string \<times> py) list"

text \<open>
  The exceptions, among them the subclasses of \<open>ValueError\<close> the sources define. \<open>Diverged\<close> has
  no counterpart in the sources: a loop whose end depends on the clock is given a bound of
  iterations, and \<open>Diverged\<close> says that the bound was used up. \<open>Killed\<close> stands for the end of the
  process in the middle of a call; no handler sees it.
\<close>

datatype exn =
    KeyError | TypeError | AttributeError | OverflowError | IndexError | AssertionError
  | OSError | BlockingIOError | FileNotFoundError
  | ValueError string | ObservationRejected string
  | ClockRejected string | PolicyError string
  | SubprocessError | EOFError | KeyboardInterrupt | Diverged
  | PermissionError | JSONDecodeError | UnicodeDecodeError | DatabaseError | Killed
  | ProtocolError string | RuntimeError string | OutcomeUnknown py | EffectRejected string

fun is_value_error :: "exn \<Rightarrow> bool" where
  "is_value_error (ValueError s) = True"
| "is_value_error (ObservationRejected s) = True"
| "is_value_error (ClockRejected s) = True"
| "is_value_error (PolicyError s) = True"
| "is_value_error JSONDecodeError = True"
| "is_value_error UnicodeDecodeError = True"
| "is_value_error (ProtocolError s) = True"
| "is_value_error e = False"

fun is_os_error :: "exn \<Rightarrow> bool" where
  "is_os_error OSError = True"
| "is_os_error BlockingIOError = True"
| "is_os_error FileNotFoundError = True"
| "is_os_error PermissionError = True"
| "is_os_error e = False"

text \<open>What \<open>except Exception\<close> catches.\<close>

definition is_exception :: "exn \<Rightarrow> bool" where
  "is_exception e \<longleftrightarrow> e \<notin> {KeyboardInterrupt, Diverged, Killed}"

type_synonym 'a res = "exn + 'a"

definition bindE :: "'a res \<Rightarrow> ('a \<Rightarrow> 'b res) \<Rightarrow> 'b res" where
  "bindE m f = (case m of Inl e \<Rightarrow> Inl e | Inr x \<Rightarrow> f x)"

definition requireE :: "bool \<Rightarrow> exn \<Rightarrow> unit res" where
  "requireE c e = (if c then Inr () else Inl e)"

text \<open>\<open>a and b and c\<close> where an operand may raise: evaluated left to right, short-circuit.\<close>

fun allE :: "bool res list \<Rightarrow> bool res" where
  "allE [] = Inr True"
| "allE (x # xs) = bindE x (\<lambda>b. if b then allE xs else Inr False)"

definition checkE :: "bool res list \<Rightarrow> exn \<Rightarrow> unit res" where
  "checkE xs e = bindE (allE xs) (\<lambda>b. requireE b e)"

fun mapE :: "('a \<Rightarrow> 'b res) \<Rightarrow> 'a list \<Rightarrow> 'b list res" where
  "mapE f [] = Inr []"
| "mapE f (x # xs) = bindE (f x) (\<lambda>y. bindE (mapE f xs) (\<lambda>ys. Inr (y # ys)))"

lemma bindE_simps [simp]: "bindE (Inl e) f = Inl e" "bindE (Inr x) f = f x"
  by (simp_all add: bindE_def)

lemma bindE_eq_Inr [simp]: "bindE m f = Inr y \<longleftrightarrow> (\<exists>x. m = Inr x \<and> f x = Inr y)"
  by (cases m) auto

lemma bindE_eq_Inl: "bindE m f = Inl e \<longleftrightarrow> m = Inl e \<or> (\<exists>x. m = Inr x \<and> f x = Inl e)"
  by (cases m) auto

lemma requireE_eq_Inr [simp]: "requireE c e = Inr u \<longleftrightarrow> c"
  by (simp add: requireE_def)

lemma requireE_eq_Inl [simp]: "requireE c e = Inl e' \<longleftrightarrow> \<not> c \<and> e' = e"
  by (auto simp: requireE_def)

lemma requireE_True [simp]: "requireE True e = Inr ()" "requireE False e = Inl e"
  by (simp_all add: requireE_def)

lemma allE_eq_True [simp]: "allE xs = Inr True \<longleftrightarrow> (\<forall>x \<in> set xs. x = Inr True)"
proof (induction xs)
  case (Cons x xs)
  then show ?case by (cases x) auto
qed simp

lemma checkE_eq_Inr [simp]: "checkE xs e = Inr u \<longleftrightarrow> (\<forall>x \<in> set xs. x = Inr True)"
  by (auto simp: checkE_def dest: allE_eq_True [THEN iffD2])

text \<open>The exceptions a computation may raise.\<close>

definition raises_in :: "(exn \<Rightarrow> bool) \<Rightarrow> 'a res \<Rightarrow> bool" where
  "raises_in P r \<longleftrightarrow> (\<forall>e. r = Inl e \<longrightarrow> P e)"

lemma raises_in_intros:
  "raises_in P (Inr x)" "P e \<Longrightarrow> raises_in P (Inl e)" "P e \<Longrightarrow> raises_in P (requireE c e)"
  "raises_in P m \<Longrightarrow> (\<And>x. raises_in P (f x)) \<Longrightarrow> raises_in P (bindE m f)"
  by (auto simp: raises_in_def bindE_eq_Inl)

lemma raises_inD: "raises_in P r \<Longrightarrow> r = Inl e \<Longrightarrow> P e"
  by (simp add: raises_in_def)

section \<open>State changes that survive an exception\<close>

type_synonym ('s, 'a) act = "'s \<Rightarrow> 'a res \<times> 's"

definition retS :: "'a \<Rightarrow> ('s, 'a) act" where
  "retS x s = (Inr x, s)"

definition raiseS :: "exn \<Rightarrow> ('s, 'a) act" where
  "raiseS e s = (Inl e, s)"

definition bindS :: "('s, 'a) act \<Rightarrow> ('a \<Rightarrow> ('s, 'b) act) \<Rightarrow> ('s, 'b) act" where
  "bindS m f s = (case m s of (Inl e, s') \<Rightarrow> (Inl e, s') | (Inr x, s') \<Rightarrow> f x s')"

definition liftS :: "'a res \<Rightarrow> ('s, 'a) act" where
  "liftS r s = (r, s)"

definition modS :: "('s \<Rightarrow> 's) \<Rightarrow> ('s, unit) act" where
  "modS f s = (Inr (), f s)"

definition getS :: "('s \<Rightarrow> 'a) \<Rightarrow> ('s, 'a) act" where
  "getS f s = (Inr (f s), s)"

definition catchS :: "('s, 'a) act \<Rightarrow> (exn \<Rightarrow> ('s, 'a) act) \<Rightarrow> ('s, 'a) act" where
  "catchS m h s = (case m s of (Inl e, s') \<Rightarrow> h e s' | (Inr x, s') \<Rightarrow> (Inr x, s'))"

text \<open>\<open>except BaseException\<close>: everything but the end of the process.\<close>

definition catch_all :: "('s, 'a) act \<Rightarrow> (exn \<Rightarrow> ('s, 'a) act) \<Rightarrow> ('s, 'a) act" where
  "catch_all m h = catchS m (\<lambda>e. if e = Killed then raiseS Killed else h e)"

definition attemptS :: "('s, 'a) act \<Rightarrow> ('s, 'a res) act" where
  "attemptS m s = (case m s of (r, t) \<Rightarrow> (Inr r, t))"

text \<open>The fate of a database transaction: committed, refused and rolled back, or committed with the caller failing right after.\<close>

datatype tx = Committed | Refused exn | CommittedThen exn

definition requireS :: "bool \<Rightarrow> exn \<Rightarrow> ('s, unit) act" where
  "requireS c e = liftS (requireE c e)"

lemma act_eval [simp, act_simps]:
  "retS x s = (Inr x, s)" "raiseS e s = (Inl e, s)" "liftS r s = (r, s)"
  "modS f s = (Inr (), f s)" "getS g s = (Inr (g s), s)"
  "requireS c e s = (requireE c e, s)"
  by (simp_all add: retS_def raiseS_def liftS_def modS_def getS_def requireS_def)

lemma bindS_eq_Inr:
  "bindS m f s = (Inr y, t) \<longleftrightarrow> (\<exists>x s'. m s = (Inr x, s') \<and> f x s' = (Inr y, t))"
  by (auto simp: bindS_def split: prod.splits sum.splits)

lemma bindS_eq_Inl:
  "bindS m f s = (Inl e, t) \<longleftrightarrow>
     m s = (Inl e, t) \<or> (\<exists>x s'. m s = (Inr x, s') \<and> f x s' = (Inl e, t))"
  by (auto simp: bindS_def split: prod.splits sum.splits)

lemma bindS_run [act_simps]:
  "m s = (Inr x, s') \<Longrightarrow> bindS m f s = f x s'"
  "m s = (Inl e, s') \<Longrightarrow> bindS m f s = (Inl e, s')"
  by (simp_all add: bindS_def)

text \<open>A predicate kept by every part of a composite is kept by the composite.\<close>

definition keepsS :: "('s \<Rightarrow> bool) \<Rightarrow> ('s, 'a) act \<Rightarrow> bool" where
  "keepsS P m \<longleftrightarrow> (\<forall>s. P s \<longrightarrow> P (snd (m s)))"

lemma keepsS_intros:
  "keepsS P (retS x)" "keepsS P (raiseS e)" "keepsS P (liftS r)" "keepsS P (getS g)"
  "keepsS P (requireS c e)"
  by (simp_all add: keepsS_def)

lemma keepsS_bind: "keepsS P m \<Longrightarrow> (\<And>x. keepsS P (f x)) \<Longrightarrow> keepsS P (bindS m f)"
  by (fastforce simp: keepsS_def bindS_def split: prod.splits sum.splits)

lemma keepsS_catch: "keepsS P m \<Longrightarrow> (\<And>e. keepsS P (h e)) \<Longrightarrow> keepsS P (catchS m h)"
  by (fastforce simp: keepsS_def catchS_def split: prod.splits sum.splits)

lemma keepsS_mod: "(\<And>s. P s \<Longrightarrow> P (f s)) \<Longrightarrow> keepsS P (modS f)"
  by (simp add: keepsS_def)

text \<open>
  Weakest preconditions: \<open>Q\<close> for a result and \<open>R\<close> for an exception, both of the final state.
\<close>

definition wpS :: "('s, 'a) act \<Rightarrow> ('a \<Rightarrow> 's \<Rightarrow> bool) \<Rightarrow> (exn \<Rightarrow> 's \<Rightarrow> bool) \<Rightarrow> 's \<Rightarrow> bool" where
  "wpS m Q R s = (case m s of (Inl e, t) \<Rightarrow> R e t | (Inr x, t) \<Rightarrow> Q x t)"

lemma wpS_ret [wp_simps]: "wpS (retS x) Q R s \<longleftrightarrow> Q x s" "wpS (raiseS e) Q R s \<longleftrightarrow> R e s"
  by (simp_all add: wpS_def)

lemma wpS_bind [wp_simps]: "wpS (bindS m f) Q R s \<longleftrightarrow> wpS m (\<lambda>x. wpS (f x) Q R) R s"
  by (auto simp: wpS_def bindS_def split: prod.splits sum.splits)

lemma wpS_catch [wp_simps]: "wpS (catchS m k) Q R s \<longleftrightarrow> wpS m Q (\<lambda>e. wpS (k e) Q R) s"
  by (auto simp: wpS_def catchS_def split: prod.splits sum.splits)

lemma wpS_lift [wp_simps]: "wpS (liftS r) Q R s \<longleftrightarrow> (case r of Inl e \<Rightarrow> R e s | Inr x \<Rightarrow> Q x s)"
  by (simp add: wpS_def)

lemma wpS_get [wp_simps]: "wpS (getS h) Q R s \<longleftrightarrow> Q (h s) s"
  by (simp add: wpS_def)

lemma wpS_mod [wp_simps]: "wpS (modS g) Q R s \<longleftrightarrow> Q () (g s)"
  by (simp add: wpS_def)

lemma wpS_require [wp_simps]: "wpS (requireS c e) Q R s \<longleftrightarrow> (if c then Q () s else R e s)"
  by (cases c) (simp_all add: wpS_def)

lemma wpS_if [wp_simps]: "wpS (if c then m else m') Q R s \<longleftrightarrow> (if c then wpS m Q R s else wpS m' Q R s)"
  by simp

lemma wpS_mono:
  assumes "wpS m Q R s" and "\<And>x t. Q x t \<Longrightarrow> Q' x t" and "\<And>e t. R e t \<Longrightarrow> R' e t"
  shows "wpS m Q' R' s"
  using assms by (auto simp: wpS_def split: prod.splits sum.splits)

lemma wpS_Inr: "wpS m Q R s \<Longrightarrow> m s = (Inr x, t) \<Longrightarrow> Q x t" by (simp add: wpS_def)

lemma wpS_Inl: "wpS m Q R s \<Longrightarrow> m s = (Inl e, t) \<Longrightarrow> R e t" by (simp add: wpS_def)

lemma keepsS_wp: "keepsS P m \<longleftrightarrow> (\<forall>s. P s \<longrightarrow> wpS m (\<lambda>_. P) (\<lambda>_. P) s)"
  by (auto simp: keepsS_def wpS_def split: prod.splits sum.splits) (metis snd_conv sum.exhaust surjective_pairing)+

section \<open>Dictionaries in insertion order\<close>

fun aset :: "'k \<Rightarrow> 'v \<Rightarrow> ('k \<times> 'v) list \<Rightarrow> ('k \<times> 'v) list" where
  "aset k v [] = [(k, v)]"
| "aset k v ((k', v') # xs) = (if k' = k then (k, v) # xs else (k', v') # aset k v xs)"

definition adel :: "'k \<Rightarrow> ('k \<times> 'v) list \<Rightarrow> ('k \<times> 'v) list" where
  "adel k xs = filter (\<lambda>(k', _). k' \<noteq> k) xs"

fun aupdate :: "('k \<times> 'v) list \<Rightarrow> ('k \<times> 'v) list \<Rightarrow> ('k \<times> 'v) list" where
  "aupdate xs [] = xs"
| "aupdate xs ((k, v) # ys) = aupdate (aset k v xs) ys"

lemma map_of_aset [simp]: "map_of (aset k v xs) = (map_of xs)(k \<mapsto> v)"
  by (induction k v xs rule: aset.induct) auto

lemma map_of_adel [simp]: "map_of (adel k xs) = (map_of xs)(k := None)"
  by (induction xs) (auto simp: adel_def)

lemma keys_aset: "fst ` set (aset k v xs) = insert k (fst ` set xs)"
  by (induction k v xs rule: aset.induct) auto

lemma distinct_aset: "distinct (map fst xs) \<Longrightarrow> distinct (map fst (aset k v xs))"
proof (induction k v xs rule: aset.induct)
  case (2 k v k' v' xs)
  then show ?case using keys_aset [of k v xs] by (auto simp: image_iff)
qed simp

section \<open>Reading decoded JSON\<close>

fun num_of :: "py \<Rightarrow> pyfloat option" where
  "num_of (PBool b) = Some (Fin (if b then 1 else 0))"
| "num_of (PInt n) = Some (Fin (of_int n))"
| "num_of (PFloat x) = Some x"
| "num_of v = None"

text \<open>
  Python's \<open>==\<close>: numbers (and booleans) compare by value, dictionaries ignore order, NaN is
  unequal to everything.
\<close>

fun py_eq :: "py \<Rightarrow> py \<Rightarrow> bool"
  and py_eqs :: "py list \<Rightarrow> py list \<Rightarrow> bool"
  and py_sub :: "(string \<times> py) list \<Rightarrow> (string \<times> py) list \<Rightarrow> bool" where
  "py_eq PNone w = (w = PNone)"
| "py_eq (PStr s) w = (w = PStr s)"
| "py_eq (PList xs) w = (case w of PList ys \<Rightarrow> py_eqs xs ys | _ \<Rightarrow> False)"
| "py_eq (PDict xs) w = (case w of PDict ys \<Rightarrow> length xs = length ys \<and> py_sub xs ys | _ \<Rightarrow> False)"
| "py_eq (PBool b) w = (num_of w = Some (Fin (if b then 1 else 0)))"
| "py_eq (PInt n) w = (num_of w = Some (Fin (of_int n)))"
| "py_eq (PFloat x) w = (x \<noteq> NaN \<and> num_of w = Some x)"
| "py_eqs [] ys = (ys = [])"
| "py_eqs (x # xs) ys = (case ys of [] \<Rightarrow> False | y # ys' \<Rightarrow> py_eq x y \<and> py_eqs xs ys')"
| "py_sub [] ys = True"
| "py_sub ((k, v) # xs) ys =
     (case map_of ys k of None \<Rightarrow> False | Some w \<Rightarrow> py_eq v w \<and> py_sub xs ys)"

lemma py_eq_str [simp, py_simps]: "py_eq v (PStr s) \<longleftrightarrow> v = PStr s"
  by (cases v) auto

lemma py_eq_none [simp, py_simps]: "py_eq v PNone \<longleftrightarrow> v = PNone"
  by (cases v) auto

fun py_truthy :: "py \<Rightarrow> bool" where
  "py_truthy PNone = False"
| "py_truthy (PBool b) = b"
| "py_truthy (PInt n) = (n \<noteq> 0)"
| "py_truthy (PFloat x) = (x \<noteq> Fin 0)"
| "py_truthy (PStr s) = (s \<noteq> [])"
| "py_truthy (PList xs) = (xs \<noteq> [])"
| "py_truthy (PDict xs) = (xs \<noteq> [])"

definition py_or :: "py \<Rightarrow> py \<Rightarrow> py" where
  "py_or a b = (if py_truthy a then a else b)"

text \<open>\<open>v[k]\<close> with a string key, \<open>v.get(k)\<close>, \<open>v.get(k, d)\<close> and \<open>k in v\<close>.\<close>

fun py_getitem :: "py \<Rightarrow> string \<Rightarrow> py res" where
  "py_getitem (PDict xs) k = (case map_of xs k of None \<Rightarrow> Inl KeyError | Some v \<Rightarrow> Inr v)"
| "py_getitem v k = Inl TypeError"

fun py_get_dflt :: "py \<Rightarrow> string \<Rightarrow> py \<Rightarrow> py res" where
  "py_get_dflt (PDict xs) k d = (case map_of xs k of None \<Rightarrow> Inr d | Some v \<Rightarrow> Inr v)"
| "py_get_dflt v k d = Inl AttributeError"

definition py_get :: "py \<Rightarrow> string \<Rightarrow> py res" where
  "py_get v k = py_get_dflt v k PNone"

definition dget :: "(string \<times> py) list \<Rightarrow> string \<Rightarrow> py" where
  "dget xs k = (case map_of xs k of None \<Rightarrow> PNone | Some v \<Rightarrow> v)"

fun is_str :: "py \<Rightarrow> bool" where "is_str (PStr s) = True" | "is_str v = False"
fun is_dict :: "py \<Rightarrow> bool" where "is_dict (PDict s) = True" | "is_dict v = False"
fun is_list :: "py \<Rightarrow> bool" where "is_list (PList s) = True" | "is_list v = False"
fun is_bool :: "py \<Rightarrow> bool" where "is_bool (PBool s) = True" | "is_bool v = False"

text \<open>\<open>type(v) is int\<close>: a \<open>bool\<close> is not of this type.\<close>

fun is_int :: "py \<Rightarrow> bool" where "is_int (PInt n) = True" | "is_int v = False"

text \<open>\<open>type(v) in (int, float) and math.isfinite(v)\<close> and the number it is.\<close>

fun finite_num :: "py \<Rightarrow> rat option" where
  "finite_num (PInt n) = Some (of_int n)"
| "finite_num (PFloat (Fin q)) = Some q"
| "finite_num v = None"

definition finiteE :: "py \<Rightarrow> exn \<Rightarrow> rat res" where
  "finiteE v e = (case finite_num v of None \<Rightarrow> Inl e | Some q \<Rightarrow> Inr q)"

lemma finiteE_Inr [simp]: "finiteE v e = Inr q \<longleftrightarrow> finite_num v = Some q"
  by (simp add: finiteE_def split: option.splits)

fun str_len :: "py \<Rightarrow> nat" where "str_len (PStr s) = length s" | "str_len v = 0"

lemma is_str_iff: "is_str v \<longleftrightarrow> (\<exists>s. v = PStr s)" by (cases v) auto
lemma is_dict_iff: "is_dict v \<longleftrightarrow> (\<exists>xs. v = PDict xs)" by (cases v) auto
lemma is_int_iff: "is_int v \<longleftrightarrow> (\<exists>n. v = PInt n)" by (cases v) auto
lemma is_bool_iff: "is_bool v \<longleftrightarrow> (\<exists>b. v = PBool b)" by (cases v) auto
lemma is_list_iff: "is_list v \<longleftrightarrow> (\<exists>xs. v = PList xs)" by (cases v) auto

lemmas py_type_iffs = is_str_iff is_dict_iff is_int_iff is_bool_iff is_list_iff

lemma py_getitem_Inr: "py_getitem v k = Inr w \<longleftrightarrow> (\<exists>xs. v = PDict xs \<and> map_of xs k = Some w)"
  by (cases v) (auto split: option.splits)

lemma py_getitem_exn: "py_getitem v k = Inl e \<Longrightarrow> e = KeyError \<or> e = TypeError"
  by (cases v) (auto split: option.splits)

text \<open>A path of subscripts, and a test of what it leads to.\<close>

fun dig :: "py \<Rightarrow> string list \<Rightarrow> py res" where
  "dig v [] = Inr v"
| "dig v (k # ks) = bindE (py_getitem v k) (\<lambda>w. dig w ks)"

definition at_path :: "py \<Rightarrow> string list \<Rightarrow> (py \<Rightarrow> bool) \<Rightarrow> bool res" where
  "at_path v ks P = bindE (dig v ks) (\<lambda>x. Inr (P x))"

definition same_at :: "py \<Rightarrow> string list \<Rightarrow> py \<Rightarrow> string list \<Rightarrow> bool res" where
  "same_at v ks w ls = bindE (dig v ks) (\<lambda>x. bindE (dig w ls) (\<lambda>y. Inr (py_eq x y)))"

definition has :: "py \<Rightarrow> string \<Rightarrow> (py \<Rightarrow> bool) \<Rightarrow> bool res" where
  "has v k P = bindE (py_getitem v k) (\<lambda>x. Inr (P x))"

definition has2 :: "py \<Rightarrow> string \<Rightarrow> string \<Rightarrow> (py \<Rightarrow> bool) \<Rightarrow> bool res" where
  "has2 v k k' P = bindE (py_getitem v k) (\<lambda>x. has x k' P)"

definition replace_char :: "char \<Rightarrow> string \<Rightarrow> string \<Rightarrow> string" where
  "replace_char c w s = concat (map (\<lambda>d. if d = c then w else [d]) s)"

text \<open>\<open>upper\<close> and \<open>lower\<close> of ASCII text.\<close>

definition upper_ascii :: "string \<Rightarrow> string" where
  "upper_ascii = map (\<lambda>c. let n = (of_char c :: nat) in if 97 \<le> n \<and> n \<le> 122 then char_of (n - 32) else c)"

definition lower_ascii :: "string \<Rightarrow> string" where
  "lower_ascii = map (\<lambda>c. let n = (of_char c :: nat) in if 65 \<le> n \<and> n \<le> 90 then char_of (n + 32) else c)"

fun starts_with :: "string \<Rightarrow> string \<Rightarrow> bool" where
  "starts_with [] s = True"
| "starts_with (c # cs) [] = False"
| "starts_with (c # cs) (d # ds) = (c = d \<and> starts_with cs ds)"

fun contains :: "string \<Rightarrow> string \<Rightarrow> bool" where
  "contains w [] = (w = [])"
| "contains w (c # cs) = (starts_with w (c # cs) \<or> contains w cs)"

lemma raises_in_getitem: "P KeyError \<Longrightarrow> P TypeError \<Longrightarrow> raises_in P (py_getitem v k)"
  by (auto simp: raises_in_def dest: py_getitem_exn)

section \<open>Conversions\<close>

definition digit_val :: "char \<Rightarrow> nat option" where
  "digit_val c = (let n = (of_char c :: nat) in if 48 \<le> n \<and> n \<le> 57 then Some (n - 48) else None)"

fun digits_to_int :: "int \<Rightarrow> string \<Rightarrow> int option" where
  "digits_to_int acc [] = Some acc"
| "digits_to_int acc (c # cs) =
     (case digit_val c of None \<Rightarrow> None | Some d \<Rightarrow> digits_to_int (10 * acc + int d) cs)"

text \<open>\<open>int(v)\<close>: truncation of floats, decimal strings with optional sign and single underscores.\<close>

definition is_space :: "char \<Rightarrow> bool" where
  "is_space c \<longleftrightarrow> (of_char c :: nat) \<in> {9, 10, 11, 12, 13, 28, 29, 30, 31, 32, 133, 160}"

definition strip :: "string \<Rightarrow> string" where
  "strip s = rev (dropWhile is_space (rev (dropWhile is_space s)))"

fun int_digits :: "bool \<Rightarrow> int \<Rightarrow> string \<Rightarrow> int option" where
  "int_digits after_digit acc [] = (if after_digit then Some acc else None)"
| "int_digits after_digit acc (c # cs) =
     (if c = CHR ''_'' then (if after_digit then int_digits False acc cs else None)
      else (case digit_val c of None \<Rightarrow> None | Some d \<Rightarrow> int_digits True (10 * acc + int d) cs))"

definition parse_int :: "string \<Rightarrow> int option" where
  "parse_int s = (case strip s of
       [] \<Rightarrow> None
     | c # cs \<Rightarrow> if c = CHR ''-'' then map_option uminus (int_digits False 0 cs)
                 else if c = CHR ''+'' then int_digits False 0 cs
                 else int_digits False 0 (c # cs))"

definition trunc :: "rat \<Rightarrow> int" where
  "trunc q = (if q \<ge> 0 then floor q else - floor (- q))"

fun py_int :: "py \<Rightarrow> int res" where
  "py_int (PInt n) = Inr n"
| "py_int (PBool b) = Inr (if b then 1 else 0)"
| "py_int (PFloat (Fin q)) = Inr (trunc q)"
| "py_int (PFloat NaN) = Inl (ValueError ''cannot convert float NaN to integer'')"
| "py_int (PFloat x) = Inl OverflowError"
| "py_int (PStr s) = (case parse_int s of None \<Rightarrow> Inl (ValueError ''invalid literal'') | Some n \<Rightarrow> Inr n)"
| "py_int v = Inl TypeError"

text \<open>Decimal notation and \<open>str(v)\<close>; the \<open>repr\<close> of floats and containers is an argument.\<close>

function nat_str :: "nat \<Rightarrow> string" where
  "nat_str n = (if n < 10 then [char_of (48 + n)] else nat_str (n div 10) @ [char_of (48 + n mod 10)])"
  by pat_completeness auto
termination by (relation "measure id") auto

declare nat_str.simps [simp del]

definition int_str :: "int \<Rightarrow> string" where
  "int_str z = (if z < 0 then CHR ''-'' # nat_str (nat (- z)) else nat_str (nat z))"

fun py_str :: "(py \<Rightarrow> string) \<Rightarrow> py \<Rightarrow> string" where
  "py_str rp (PStr s) = s"
| "py_str rp (PInt n) = int_str n"
| "py_str rp (PBool b) = (if b then ''True'' else ''False'')"
| "py_str rp PNone = ''None''"
| "py_str rp v = rp v"

definition hex_lower :: "char \<Rightarrow> bool" where
  "hex_lower c \<longleftrightarrow> c \<in> set ''0123456789abcdef''"

text \<open>\<open>round(x, n)\<close>: to the nearest multiple of \<open>10 ^ -n\<close>, ties to the even multiple.\<close>

definition round_even :: "rat \<Rightarrow> int" where
  "round_even x =
     (let f = floor x; d = x - of_int f
      in if d < 1 / 2 then f else if d > 1 / 2 then f + 1 else if even f then f else f + 1)"

definition py_round :: "nat \<Rightarrow> rat \<Rightarrow> rat" where
  "py_round n x = of_int (round_even (x * 10 ^ n)) / 10 ^ n"

text \<open>Instants are integer microseconds (\<open>datetime\<close>); a difference in seconds is exact.\<close>

type_synonym instant = int

definition total_seconds :: "int \<Rightarrow> seconds" where
  "total_seconds us = of_int us / 1000000"

lemma total_seconds_mono: "a \<le> b \<Longrightarrow> total_seconds a \<le> total_seconds b"
  by (simp add: total_seconds_def divide_right_mono)

lemma total_seconds_diff: "total_seconds (a - b) = total_seconds a - total_seconds b"
  by (simp add: total_seconds_def diff_divide_distrib)

section \<open>Reachability and invariants\<close>

inductive reach :: "('s \<Rightarrow> bool) \<Rightarrow> ('s \<Rightarrow> 's \<Rightarrow> bool) \<Rightarrow> 's \<Rightarrow> bool"
  for ini stp where
  reach_init: "ini s \<Longrightarrow> reach ini stp s"
| reach_step: "reach ini stp s \<Longrightarrow> stp s t \<Longrightarrow> reach ini stp t"

text \<open>
  The contract of a component with an invariant: it holds initially and every step keeps
  it. Clients obtain it for every reachable state.
\<close>

locale invariant_system =
  fixes ini :: "'s \<Rightarrow> bool" and stp :: "'s \<Rightarrow> 's \<Rightarrow> bool" and inv :: "'s \<Rightarrow> bool"
  assumes inv_init: "ini s \<Longrightarrow> inv s"
    and inv_step: "inv s \<Longrightarrow> stp s t \<Longrightarrow> inv t"
begin

lemma reachable_inv: "reach ini stp s \<Longrightarrow> inv s"
  by (induction rule: reach.induct) (auto intro: inv_init inv_step)

end

section \<open>Runs\<close>

fun run :: "('s \<Rightarrow> 'e \<Rightarrow> 's) \<Rightarrow> 's \<Rightarrow> 'e list \<Rightarrow> 's" where
  "run f s [] = s"
| "run f s (e # es) = run f (f s e) es"

lemma run_append [simp]: "run f s (xs @ ys) = run f (run f s xs) ys"
  by (induction xs arbitrary: s) auto

fun trail :: "('s \<Rightarrow> 'e \<Rightarrow> 's) \<Rightarrow> 's \<Rightarrow> 'e list \<Rightarrow> ('s \<times> 'e) list" where
  "trail f s [] = []"
| "trail f s (e # es) = (s, e) # trail f (f s e) es"

lemma trail_append [simp]: "trail f s (xs @ ys) = trail f s xs @ trail f (run f s xs) ys"
  by (induction xs arbitrary: s) auto

lemma length_trail [simp]: "length (trail f s es) = length es"
  by (induction es arbitrary: s) auto

lemma trail_inv:
  assumes "\<And>s e. P s \<Longrightarrow> P (f s e)" and "P s" and "(u, e) \<in> set (trail f s es)"
  shows "P u"
  using assms(2,3) by (induction es arbitrary: s) (auto intro: assms(1))

lemma run_inv:
  assumes "\<And>s e. P s \<Longrightarrow> P (f s e)" and "P s"
  shows "P (run f s es)"
  using assms(2) by (induction es arbitrary: s) (auto intro: assms(1))

lemma in_trail: "x \<in> set xs \<Longrightarrow> \<exists>u. (u, x) \<in> set (trail f s xs)"
  by (induction xs arbitrary: s) auto

section \<open>Frames\<close>

text \<open>
  A relation every part of a composite stays within is one the composite stays within, provided it
  composes. The locale is the interface a component offers to show what its code never does: it names
  the relation between the state before and after, and the lemmas carry it through the code.
\<close>

definition withinS :: "('s \<Rightarrow> 's \<Rightarrow> bool) \<Rightarrow> ('s, 'a) act \<Rightarrow> bool" where
  "withinS R m \<longleftrightarrow> (\<forall>s. R s (snd (m s)))"

lemma withinS_if: "(c \<Longrightarrow> withinS R m) \<Longrightarrow> (\<not> c \<Longrightarrow> withinS R m') \<Longrightarrow> withinS R (if c then m else m')" by simp

lemma withinS_option:
  "(x = None \<Longrightarrow> withinS R m) \<Longrightarrow> (\<And>y. x = Some y \<Longrightarrow> withinS R (f y)) \<Longrightarrow> withinS R (case x of None \<Rightarrow> m | Some y \<Rightarrow> f y)"
  by (cases x) auto

lemma withinS_sum:
  "(\<And>e. x = Inl e \<Longrightarrow> withinS R (g e)) \<Longrightarrow> (\<And>y. x = Inr y \<Longrightarrow> withinS R (f y)) \<Longrightarrow> withinS R (case x of Inl e \<Rightarrow> g e | Inr y \<Rightarrow> f y)"
  by (cases x) auto

lemma withinS_prod: "(\<And>a b. x = (a, b) \<Longrightarrow> withinS R (f a b)) \<Longrightarrow> withinS R (case x of (a, b) \<Rightarrow> f a b)"
  by (cases x) auto

lemma withinS_let: "(\<And>y. y = x \<Longrightarrow> withinS R (f y)) \<Longrightarrow> withinS R (let y = x in f y)" by simp

lemma withinS_mod: "(\<And>s. R s (f s)) \<Longrightarrow> withinS R (modS f)" by (simp add: withinS_def)

lemma withinS_mono: "withinS R m \<Longrightarrow> (\<And>s t. R s t \<Longrightarrow> Q s t) \<Longrightarrow> withinS Q m" by (simp add: withinS_def)

lemma withinS_wp: "withinS R m \<Longrightarrow> (\<And>x t. R s t \<Longrightarrow> Q x t) \<Longrightarrow> (\<And>e t. R s t \<Longrightarrow> E e t) \<Longrightarrow> wpS m Q E s"
  by (auto simp: withinS_def wpS_def split: prod.splits sum.splits) (metis snd_conv)+

locale state_frame =
  fixes R :: "'s \<Rightarrow> 's \<Rightarrow> bool"
  assumes R_refl: "R s s"
    and R_trans: "R s t \<Longrightarrow> R t u \<Longrightarrow> R s u"
begin

lemma within_basic:
  "withinS R (retS x)" "withinS R (raiseS e)" "withinS R (liftS r)" "withinS R (getS g)" "withinS R (requireS c e)"
  by (simp_all add: withinS_def R_refl)

lemma within_bind:
  assumes "withinS R m" and "\<And>x. withinS R (f x)"
  shows "withinS R (bindS m f)"
  unfolding withinS_def
proof
  fix s
  obtain r t where m: "m s = (r, t)" by fastforce
  with assms(1) have st: "R s t" by (metis withinS_def snd_conv)
  show "R s (snd (bindS m f s))"
  proof (cases r)
    case (Inr x)
    with assms(2) [of x] have "R t (snd (f x t))" by (simp add: withinS_def)
    with m st Inr show ?thesis by (auto simp: bindS_def intro: R_trans)
  qed (use m st in \<open>simp add: bindS_def\<close>)
qed

lemma within_catch:
  assumes "withinS R m" and "\<And>e. withinS R (h e)"
  shows "withinS R (catchS m h)"
  unfolding withinS_def
proof
  fix s
  obtain r t where m: "m s = (r, t)" by fastforce
  with assms(1) have st: "R s t" by (metis withinS_def snd_conv)
  show "R s (snd (catchS m h s))"
  proof (cases r)
    case (Inl e)
    with assms(2) [of e] have "R t (snd (h e t))" by (simp add: withinS_def)
    with m st Inl show ?thesis by (auto simp: catchS_def intro: R_trans)
  qed (use m st in \<open>simp add: catchS_def\<close>)
qed

lemma within_lift_bind: "(\<And>x. r = Inr x \<Longrightarrow> withinS R (f x)) \<Longrightarrow> withinS R (bindS (liftS r) f)"
  by (cases r) (simp_all add: withinS_def bindS_def R_refl)

lemmas within_intros = within_basic within_bind within_catch withinS_if withinS_option withinS_sum withinS_prod withinS_let

lemma within_run: "(\<And>e. withinS R (f e)) \<Longrightarrow> R s (run (\<lambda>s e. snd (f e s)) s es)"
proof (induction es arbitrary: s)
  case (Cons e es)
  then have "R s (snd (f e s))" by (simp add: withinS_def)
  with Cons show ?case by (auto intro: R_trans)
qed (simp add: R_refl)

end

section \<open>Hold timers\<close>

definition hold :: "bool \<Rightarrow> seconds \<Rightarrow> seconds option \<Rightarrow> seconds option" where
  "hold c now since = (if c then Some (case since of None \<Rightarrow> now | Some t \<Rightarrow> t) else None)"

text \<open>
  A hold timer remembers the reading at which its condition began to hold without a
  break. The laws are the two outcomes of one step; the client's fact is that a running
  timer is backed by an unbroken suffix of the history.
\<close>

locale hold_timer =
  fixes stp :: "'s \<Rightarrow> 'e \<Rightarrow> 's" and since :: "'s \<Rightarrow> seconds option"
    and tm :: "'e \<Rightarrow> seconds" and cond :: "'s \<Rightarrow> 'e \<Rightarrow> bool"
  assumes since_step: "since (stp s e) = hold (cond s e) (tm e) (since s)"
begin

lemma since_unbroken:
  assumes "since s = None" and "since (run stp s es) = Some t"
  shows "\<exists>pre e post. es = pre @ e # post \<and> tm e = t \<and>
           (\<forall>(u, x) \<in> set (trail stp (run stp s pre) (e # post)). cond u x)"
  using assms(2)
proof (induction es arbitrary: t rule: rev_induct)
  case Nil
  with assms(1) show ?case by simp
next
  case (snoc x es)
  let ?u = "run stp s es"
  from snoc.prems have c: "cond ?u x" and
    t: "t = (case since ?u of None \<Rightarrow> tm x | Some t \<Rightarrow> t)"
    by (auto simp: since_step hold_def split: if_splits)
  show ?case
  proof (cases "since ?u")
    case None
    with t c show ?thesis by (intro exI [of _ es] exI [of _ x] exI [of _ "[]"]) auto
  next
    case (Some t')
    with snoc.IH obtain pre e post where "es = pre @ e # post" "tm e = t'"
      "\<forall>(u, x) \<in> set (trail stp (run stp s pre) (e # post)). cond u x" by blast
    with Some t c show ?thesis
      by (intro exI [of _ pre] exI [of _ e] exI [of _ "post @ [x]"]) auto
  qed
qed

text \<open>Conversely an unbroken suffix keeps the first reading (or an earlier one).\<close>

lemma unbroken_since:
  assumes "es \<noteq> []" and "\<forall>(u, x) \<in> set (trail stp s es). cond u x"
  shows "since (run stp s es) = Some (case since s of None \<Rightarrow> tm (hd es) | Some t \<Rightarrow> t)"
  using assms
proof (induction es arbitrary: s)
  case Nil
  then show ?case by simp
next
  case (Cons e es)
  then have c: "cond s e" by simp
  show ?case
  proof (cases es)
    case Nil
    with c show ?thesis by (cases "since s") (simp_all add: since_step hold_def)
  next
    case (Cons e' es')
    with Cons.IH [of "stp s e"] Cons.prems c show ?thesis
      by (cases "since s") (simp_all add: since_step hold_def)
  qed
qed

end

end
