(* ===== verification/Clock_Contract.thy ===== *)
theory Clock_Contract
  imports Py_Prelude
begin

text \<open>
  \<open>ops/selfheal/clock_contract.py\<close>: bounded clock exchanges between two hosts.

  \<open>estimate\<close> turns one request/response exchange into an interval for the offset (remote
  wall clock minus local wall clock), \<open>est_bounds\<close>, \<open>age_bounds\<close> and \<open>fresh\<close> use it to
  bound the age of a remote time stamp, and \<open>monotonic_source_age\<close> bounds the age of a
  remote observation without any wall clock. The readings of the operating system clocks
  (\<open>time.time\<close>, \<open>CLOCK_BOOTTIME\<close>) and the host identity are arguments.

  The lemmas show that the intervals contain the true values whenever the readings come
  from two clocks and a causally ordered exchange, that the intervals are bounded, and
  that expired evidence never becomes available again.
\<close>

section \<open>Constants and captures\<close>

definition SCHEMA :: string where "SCHEMA = ''stream.clock_exchange.v1''"
definition EPSILON :: seconds where "EPSILON = 5 / 1000"
definition STEP_LIMIT :: seconds where "STEP_LIMIT = 50 / 1000"
definition MAX_EXCHANGE :: seconds where "MAX_EXCHANGE = 12"
definition MODEL_TTL :: seconds where "MODEL_TTL = 180"
definition PAIR_DRIFT :: seconds where "PAIR_DRIFT = 1 / 1000"

lemmas clock_consts = EPSILON_def STEP_LIMIT_def MAX_EXCHANGE_def MODEL_TTL_def PAIR_DRIFT_def

record capture =
  wall :: seconds
  mono :: seconds

text \<open>The three readings \<open>before\<close>, \<open>wall\<close>, \<open>after\<close> are taken in this order.\<close>

definition capture :: "seconds \<Rightarrow> seconds \<Rightarrow> seconds \<Rightarrow> capture res" where
  "capture before w after =
     (if after - before > EPSILON then Inl (ClockRejected ''clock_capture_delayed'')
      else Inr \<lparr>wall = w, mono = (before + after) / 2\<rparr>)"

fun valid_nonce :: "py \<Rightarrow> bool" where
  "valid_nonce (PStr s) = (length s = 32 \<and> list_all hex_lower s)"
| "valid_nonce v = False"

definition capture_py :: "capture \<Rightarrow> py" where
  "capture_py c = PDict [(''wall'', PFloat (Fin (wall c))), (''mono'', PFloat (Fin (mono c)))]"

text \<open>\<open>bound\<close> is the host identity (boot id and machine hash); \<open>sent\<close> the capture at return.\<close>

definition envelope :: "py \<Rightarrow> py \<Rightarrow> (string \<times> py) list \<Rightarrow> capture res \<Rightarrow> py res" where
  "envelope nonce started bound sent =
     bindE (requireE (valid_nonce nonce) (ClockRejected ''clock_nonce_invalid'')) (\<lambda>_.
     bindE sent (\<lambda>c.
     Inr (PDict ([(''schema'', PStr SCHEMA), (''nonce'', nonce)] @ bound @
                 [(''received'', started), (''sent'', capture_py c)]))))"

section \<open>The offset estimate\<close>

record estimate =
  low :: seconds
  high :: seconds
  received_wall :: seconds
  received_mono :: seconds
  est_boot_id :: py
  est_machine :: string
  local_boot :: py
  network_rtt :: seconds

definition est_bounds :: "estimate \<Rightarrow> capture \<Rightarrow> py option \<Rightarrow> (seconds \<times> seconds) res" where
  "est_bounds m now local_identity =
     (let elapsed = mono now - received_mono m in
      if \<not> (0 \<le> elapsed \<and> elapsed \<le> MODEL_TTL) then Inl (ClockRejected ''clock_model_expired'')
      else if \<bar>wall now - received_wall m - elapsed\<bar> > STEP_LIMIT
        then Inl (ClockRejected ''clock_local_step'')
      else if (case local_identity of None \<Rightarrow> False | Some b \<Rightarrow> \<not> py_eq b (local_boot m))
        then Inl (ClockRejected ''clock_local_boot_changed'')
      else Inr (low m - elapsed * PAIR_DRIFT, high m + elapsed * PAIR_DRIFT))"

definition age_bounds :: "estimate \<Rightarrow> py \<Rightarrow> capture \<Rightarrow> (seconds \<times> seconds) res" where
  "age_bounds m source_stamp now =
     (case finite_num source_stamp of
        None \<Rightarrow> Inl (ClockRejected ''clock_timestamp_invalid'')
      | Some stamp \<Rightarrow>
          bindE (est_bounds m now None) (\<lambda>(lo, hi).
          let age = received_wall m + mono now - received_mono m - stamp
          in Inr (age + lo, age + hi)))"

definition fresh :: "estimate \<Rightarrow> py \<Rightarrow> seconds \<Rightarrow> capture \<Rightarrow> bool res" where
  "fresh m source_stamp max_age now =
     bindE (age_bounds m source_stamp now) (\<lambda>(lo, hi). Inr (hi \<ge> - EPSILON \<and> hi \<le> max_age))"

definition est_diagnostic :: "estimate \<Rightarrow> capture \<Rightarrow> (string \<times> py) list res" where
  "est_diagnostic m now =
     bindE (est_bounds m now None) (\<lambda>(lo, hi).
     Inr [(''offset_seconds'', PFloat (Fin ((lo + hi) / 2))),
          (''uncertainty_seconds'', PFloat (Fin ((hi - lo) / 2))),
          (''network_rtt_seconds'', PFloat (Fin (network_rtt m))),
          (''model_ttl_seconds'', PFloat (Fin MODEL_TTL))])"

text \<open>A remote capture: both readings present, of number type and finite.\<close>

definition remote_capture :: "py \<Rightarrow> capture res" where
  "remote_capture p =
     bindE (py_getitem p ''wall'') (\<lambda>w.
     bindE (py_getitem p ''mono'') (\<lambda>m.
     bindE (finiteE w (ClockRejected ''clock_invalid'')) (\<lambda>w'.
     bindE (finiteE m (ClockRejected ''clock_invalid'')) (\<lambda>m'.
     Inr \<lparr>wall = w', mono = m'\<rparr>))))"

text \<open>The handler \<open>except (KeyError, TypeError, OverflowError)\<close> of both exchange readers.\<close>

definition clock_handler :: "'a res \<Rightarrow> 'a res" where
  "clock_handler r = (case r of
       Inl KeyError \<Rightarrow> Inl (ClockRejected ''clock_invalid'')
     | Inl TypeError \<Rightarrow> Inl (ClockRejected ''clock_invalid'')
     | Inl OverflowError \<Rightarrow> Inl (ClockRejected ''clock_invalid'')
     | _ \<Rightarrow> r)"

definition estimate_body ::
  "py \<Rightarrow> py \<Rightarrow> capture \<Rightarrow> capture \<Rightarrow> string \<Rightarrow> py option \<Rightarrow> py \<Rightarrow> estimate res" where
  "estimate_body value nonce sent received machine boot_id lboot =
     bindE (py_getitem value ''schema'') (\<lambda>schema.
     bindE (if \<not> py_eq schema (PStr SCHEMA) \<or> \<not> valid_nonce nonce then Inr False
            else bindE (py_getitem value ''nonce'') (\<lambda>n. Inr (py_eq n nonce))) (\<lambda>ok.
     bindE (requireE ok (ClockRejected ''clock_nonce_mismatch'')) (\<lambda>_.
     bindE (if length machine \<noteq> 64 then Inr False
            else bindE (py_getitem value ''machine_id_sha256'') (\<lambda>m.
              if \<not> py_eq m (PStr machine) then Inr False
              else bindE (py_getitem value ''boot_id'') (\<lambda>b.
                Inr (is_str b \<and> py_truthy b \<and>
                     (case boot_id of None \<Rightarrow> True | Some b' \<Rightarrow> py_eq b b'))))) (\<lambda>bound.
     bindE (requireE bound (ClockRejected ''clock_identity_mismatch'')) (\<lambda>_.
     bindE (py_getitem value ''received'') (\<lambda>pa.
     bindE (py_getitem value ''sent'') (\<lambda>pb.
     bindE (remote_capture pa) (\<lambda>a.
     bindE (remote_capture pb) (\<lambda>b.
     let loc = mono received - mono sent; remote = mono b - mono a in
     bindE (requireE (0 \<le> remote \<and> remote \<le> loc + 2 * EPSILON \<and> 0 \<le> loc \<and> loc \<le> MAX_EXCHANGE)
              (ClockRejected ''clock_exchange_delayed'')) (\<lambda>_.
     bindE (requireE (\<not> (\<bar>wall received - wall sent - loc\<bar> > STEP_LIMIT \<or>
                         \<bar>wall b - wall a - remote\<bar> > STEP_LIMIT))
              (ClockRejected ''clock_step_during_exchange'')) (\<lambda>_.
     let lo = wall b - wall received - EPSILON; hi = wall a - wall sent + EPSILON in
     bindE (requireE (\<not> lo > hi + EPSILON) (ClockRejected ''clock_interval_invalid'')) (\<lambda>_.
     bindE (py_getitem value ''boot_id'') (\<lambda>rb.
     Inr \<lparr>low = lo, high = max lo hi, received_wall = wall received, received_mono = mono received,
          est_boot_id = rb, est_machine = machine, local_boot = lboot,
          network_rtt = max 0 (loc - remote)\<rparr>)))))))))))))"

definition estimate ::
  "py \<Rightarrow> py \<Rightarrow> capture \<Rightarrow> capture \<Rightarrow> string \<Rightarrow> py option \<Rightarrow> py \<Rightarrow> estimate res" where
  "estimate value nonce sent received machine boot_id lboot =
     clock_handler (estimate_body value nonce sent received machine boot_id lboot)"

section \<open>Age without a wall clock\<close>

definition mono_reading :: "py \<Rightarrow> seconds res" where
  "mono_reading v =
     bindE (finiteE v (ClockRejected ''clock_invalid'')) (\<lambda>q.
     bindE (requireE (q \<ge> 0) (ClockRejected ''clock_invalid'')) (\<lambda>_. Inr q))"

definition msa_body ::
  "py \<Rightarrow> py \<Rightarrow> capture \<Rightarrow> capture \<Rightarrow> string \<Rightarrow> py \<Rightarrow> py \<Rightarrow> seconds \<Rightarrow> seconds res" where
  "msa_body value nonce sent received machine boot_id source_mono max_age =
     bindE (py_getitem value ''schema'') (\<lambda>schema.
     bindE (if \<not> py_eq schema (PStr SCHEMA) \<or> \<not> valid_nonce nonce then Inr False
            else bindE (py_getitem value ''nonce'') (\<lambda>n. Inr (py_eq n nonce))) (\<lambda>ok.
     bindE (requireE ok (ClockRejected ''clock_nonce_mismatch'')) (\<lambda>_.
     bindE (py_getitem value ''machine_id_sha256'') (\<lambda>m.
     bindE (if \<not> py_eq m (PStr machine) \<or> length machine \<noteq> 64 then Inr False
            else bindE (py_getitem value ''boot_id'') (\<lambda>b. Inr (py_eq b boot_id))) (\<lambda>bound.
     bindE (requireE bound (ClockRejected ''clock_identity_mismatch'')) (\<lambda>_.
     bindE (py_getitem value ''received'') (\<lambda>pa. bindE (py_getitem pa ''mono'') (\<lambda>va.
     bindE (py_getitem value ''sent'') (\<lambda>pb. bindE (py_getitem pb ''mono'') (\<lambda>vb.
     bindE (mono_reading va) (\<lambda>a.
     bindE (mono_reading vb) (\<lambda>b.
     bindE (requireE (mono sent \<ge> 0 \<and> mono received \<ge> 0) (ClockRejected ''clock_invalid'')) (\<lambda>_.
     bindE (mono_reading source_mono) (\<lambda>src.
     let elapsed = mono received - mono sent; remote = b - a in
     bindE (requireE (0 \<le> elapsed \<and> elapsed \<le> MAX_EXCHANGE \<and> 0 \<le> remote
                      \<and> remote \<le> elapsed + 2 * EPSILON)
              (ClockRejected ''clock_exchange_delayed'')) (\<lambda>_.
     let age = b - src in
     bindE (requireE (\<not> (age < - EPSILON \<or> age + elapsed > max_age))
              (ClockRejected ''clock_source_expired'')) (\<lambda>_.
     Inr (max 0 age + elapsed)))))))))))))))))"

definition monotonic_source_age ::
  "py \<Rightarrow> py \<Rightarrow> capture \<Rightarrow> capture \<Rightarrow> string \<Rightarrow> py \<Rightarrow> py \<Rightarrow> seconds \<Rightarrow> seconds res" where
  "monotonic_source_age value nonce sent received machine boot_id source_mono max_age =
     clock_handler (msa_body value nonce sent received machine boot_id source_mono max_age)"

section \<open>Evidence cache\<close>

record 'v evidence_cache =
  ec_max_age :: seconds
  ec_entry :: "('v \<times> estimate \<times> py) option"

definition ec_init :: "seconds \<Rightarrow> 'v evidence_cache" where
  "ec_init max_age = \<lparr>ec_max_age = max_age, ec_entry = None\<rparr>"

definition ec_put :: "'v evidence_cache \<Rightarrow> 'v \<Rightarrow> estimate \<Rightarrow> py \<Rightarrow> 'v evidence_cache" where
  "ec_put c value model source_stamp = c\<lparr>ec_entry := Some (value, model, source_stamp)\<rparr>"

definition ec_get :: "'v evidence_cache \<Rightarrow> capture \<Rightarrow> 'v option" where
  "ec_get c now = (case ec_entry c of
       None \<Rightarrow> None
     | Some (value, model, source_stamp) \<Rightarrow>
         (case fresh model source_stamp (ec_max_age c) now of
            Inl _ \<Rightarrow> None
          | Inr ok \<Rightarrow> if ok then Some value else None))"

section \<open>Reading an accepted exchange\<close>

lemma clock_handler_Inr [simp]: "clock_handler r = Inr x \<longleftrightarrow> r = Inr x"
  by (auto simp: clock_handler_def split: sum.splits exn.splits)

lemma remote_capture_Inr:
  "remote_capture p = Inr c \<longleftrightarrow>
     (\<exists>xs w m. p = PDict xs \<and> map_of xs ''wall'' = Some w \<and> map_of xs ''mono'' = Some m \<and>
        finite_num w = Some (wall c) \<and> finite_num m = Some (mono c))"
  by (cases c) (auto simp: remote_capture_def py_getitem_Inr)

text \<open>What an accepted exchange guarantees of the four captures.\<close>

lemma estimate_accepted:
  assumes "estimate value nonce sent received machine boot_id lboot = Inr m"
  obtains xs pa pb a b where
    "value = PDict xs" "map_of xs ''received'' = Some pa" "map_of xs ''sent'' = Some pb"
    "map_of xs ''nonce'' = Some nonce"
    "map_of xs ''machine_id_sha256'' = Some (PStr machine)"
    "remote_capture pa = Inr a" "remote_capture pb = Inr b"
    "0 \<le> mono b - mono a" "mono b - mono a \<le> mono received - mono sent + 2 * EPSILON"
    "0 \<le> mono received - mono sent" "mono received - mono sent \<le> MAX_EXCHANGE"
    "\<bar>wall received - wall sent - (mono received - mono sent)\<bar> \<le> STEP_LIMIT"
    "\<bar>wall b - wall a - (mono b - mono a)\<bar> \<le> STEP_LIMIT"
    "low m = wall b - wall received - EPSILON"
    "high m = max (low m) (wall a - wall sent + EPSILON)"
    "low m \<le> wall a - wall sent + 2 * EPSILON"
    "received_wall m = wall received" "received_mono m = mono received"
proof -
  from assms have "valid_nonce nonce"
    by (auto simp: estimate_def estimate_body_def split: if_splits)
  then obtain k where [simp]: "nonce = PStr k" by (cases nonce) auto
  from assms obtain xs pa pb a b where
    "value = PDict xs" "map_of xs ''received'' = Some pa" "map_of xs ''sent'' = Some pb"
    "map_of xs ''nonce'' = Some nonce"
    "map_of xs ''machine_id_sha256'' = Some (PStr machine)"
    "remote_capture pa = Inr a" "remote_capture pb = Inr b"
    "0 \<le> mono b - mono a" "mono b - mono a \<le> mono received - mono sent + 2 * EPSILON"
    "0 \<le> mono received - mono sent" "mono received - mono sent \<le> MAX_EXCHANGE"
    "\<not> \<bar>wall received - wall sent - (mono received - mono sent)\<bar> > STEP_LIMIT"
    "\<not> \<bar>wall b - wall a - (mono b - mono a)\<bar> > STEP_LIMIT"
    "low m = wall b - wall received - EPSILON"
    "high m = max (low m) (wall a - wall sent + EPSILON)"
    "\<not> low m > wall a - wall sent + EPSILON + EPSILON"
    "received_wall m = wall received" "received_mono m = mono received"
    by (auto simp: estimate_def estimate_body_def py_getitem_Inr Let_def split: if_splits)
  then show thesis by (intro that) (auto simp: not_less)
qed

lemma mono_reading_Inr: "mono_reading v = Inr q \<longleftrightarrow> finite_num v = Some q \<and> 0 \<le> q"
  by (auto simp: mono_reading_def)

lemma source_age_accepted:
  assumes "monotonic_source_age value nonce sent received machine boot_id source_mono max_age = Inr r"
  obtains xs ya yb va vb a b src where
    "value = PDict xs" "map_of xs ''received'' = Some (PDict ya)" "map_of xs ''sent'' = Some (PDict yb)"
    "map_of xs ''nonce'' = Some nonce"
    "map_of ya ''mono'' = Some va" "map_of yb ''mono'' = Some vb"
    "finite_num va = Some a" "finite_num vb = Some b" "finite_num source_mono = Some src"
    "0 \<le> mono received - mono sent" "mono received - mono sent \<le> MAX_EXCHANGE"
    "0 \<le> b - a" "b - a \<le> mono received - mono sent + 2 * EPSILON"
    "- EPSILON \<le> b - src" "b - src + (mono received - mono sent) \<le> max_age"
    "r = max 0 (b - src) + (mono received - mono sent)"
proof -
  from assms have "valid_nonce nonce"
    by (auto simp: monotonic_source_age_def msa_body_def split: if_splits)
  then obtain k where [simp]: "nonce = PStr k" by (cases nonce) auto
  from assms show thesis
    by (auto simp: monotonic_source_age_def msa_body_def py_getitem_Inr mono_reading_Inr Let_def
             split: if_splits intro!: that)
qed

section \<open>Soundness of the bounds\<close>

text \<open>
  The true situation: at true time \<open>t\<close> the local wall clock shows \<open>t + l\<close> and the remote one
  \<open>t + r\<close>; the four captures are taken at causally ordered instants \<open>t0 \<le> t1 \<le> t2 \<le> t3\<close>
  and each recorded wall reading is off by at most half of the capture allowance.
\<close>

definition true_exchange ::
  "seconds \<Rightarrow> seconds \<Rightarrow> seconds \<Rightarrow> seconds \<Rightarrow> seconds \<Rightarrow> seconds \<Rightarrow>
   capture \<Rightarrow> capture \<Rightarrow> capture \<Rightarrow> capture \<Rightarrow> bool" where
  "true_exchange l r t0 t1 t2 t3 sent a b received \<longleftrightarrow>
     t0 \<le> t1 \<and> t1 \<le> t2 \<and> t2 \<le> t3 \<and>
     \<bar>wall sent - (t0 + l)\<bar> \<le> EPSILON / 2 \<and> \<bar>wall a - (t1 + r)\<bar> \<le> EPSILON / 2 \<and>
     \<bar>wall b - (t2 + r)\<bar> \<le> EPSILON / 2 \<and> \<bar>wall received - (t3 + l)\<bar> \<le> EPSILON / 2"

lemma true_offset_in_interval:
  assumes "true_exchange l r t0 t1 t2 t3 sent a b received"
    and "lo = wall b - wall received - EPSILON" and "hi \<ge> wall a - wall sent + EPSILON"
  shows "lo \<le> r - l \<and> r - l \<le> hi"
  using assms unfolding true_exchange_def by (intro conjI; linarith)

lemma age_bounds_Inr:
  "age_bounds m (PFloat (Fin stamp)) now = Inr (al, ah) \<longleftrightarrow>
     (\<exists>e. e = mono now - received_mono m \<and> 0 \<le> e \<and> e \<le> MODEL_TTL \<and>
       \<bar>wall now - received_wall m - e\<bar> \<le> STEP_LIMIT \<and>
       al = received_wall m + e - stamp + low m - e * PAIR_DRIFT \<and>
       ah = received_wall m + e - stamp + high m + e * PAIR_DRIFT)"
  by (auto simp: age_bounds_def est_bounds_def Let_def not_less split: if_splits)

lemma fresh_age_bound:
  assumes "fresh m (PFloat (Fin stamp)) max_age now = Inr True"
  obtains al ah where "age_bounds m (PFloat (Fin stamp)) now = Inr (al, ah)"
    "- EPSILON \<le> ah" "ah \<le> max_age"
  using assms by (auto simp: fresh_def)


text \<open>clock_contract.monotonic_source_age over-approximates the age of the source. With the
  source, the responder's two boottime readings and the client's two readings taken at true
  times \<open>ts\<close>, \<open>t1 \<le> t2\<close> and \<open>t0 \<le> t1\<close>, \<open>t2 \<le> t3\<close> (each host's boottime runs at the rate of true
  time), the returned age is at least the true age at reception, and it is within \<open>max_age\<close>
  whenever \<open>max_age\<close> is at least the exchange limit, as it is at both call sites.\<close>

theorem source_age_sound:
  assumes acc: "monotonic_source_age value nonce sent received machine boot_id source_mono max_age = Inr age"
    and val: "value = PDict xs" "map_of xs ''sent'' = Some (PDict ys)" "map_of ys ''mono'' = Some vb"
      "finite_num vb = Some b" "finite_num source_mono = Some src"
    and tru: "b - src = t2 - ts" "mono received - mono sent = t3 - t0" "t0 \<le> t2"
    and lim: "MAX_EXCHANGE \<le> max_age"
  shows "t3 - ts \<le> age \<and> age \<le> max_age \<and> 0 \<le> age"
  using acc
proof (rule source_age_accepted)
  fix xs' ya yb va vb' a b' src'
  assume "value = PDict xs'" "map_of xs' ''sent'' = Some (PDict yb)" "map_of yb ''mono'' = Some vb'"
    "finite_num vb' = Some b'" "finite_num source_mono = Some src'"
    and el: "0 \<le> mono received - mono sent" "mono received - mono sent \<le> MAX_EXCHANGE"
    and ag: "b' - src' + (mono received - mono sent) \<le> max_age"
    and age: "age = max 0 (b' - src') + (mono received - mono sent)"
  with val have "b' = b" "src' = src" by auto
  with el ag age tru lim show ?thesis by auto
qed

text \<open>the evidence cache never refreshes on lookup. Once the upper age bound of the cached
  evidence has passed the maximum age, every later lookup (a later boottime reading, whatever
  the wall clock shows) returns nothing.\<close>

theorem cache_expiry_permanent:
  assumes "ec_entry c = Some (v, m, PFloat (Fin stamp))"
    and "age_bounds m (PFloat (Fin stamp)) now = Inr (al, ah)" and "ec_max_age c < ah"
    and "mono now \<le> mono later"
  shows "ec_get c later = None"
proof -
  have "\<not> hi' \<le> ec_max_age c" if "age_bounds m (PFloat (Fin stamp)) later = Inr (lo', hi')" for lo' hi'
    using assms(2-4) that unfolding age_bounds_Inr PAIR_DRIFT_def by (elim exE conjE) linarith
  then show ?thesis using assms(1)
    by (auto simp: ec_get_def fresh_def bindE_def split: sum.splits)
qed

section \<open>A concrete exchange\<close>

definition ex_nonce :: py where "ex_nonce = PStr (replicate 32 (CHR ''0''))"
definition ex_machine :: string where "ex_machine = replicate 64 (CHR ''a'')"
definition ex_sent :: capture where "ex_sent = \<lparr>wall = 100, mono = 10\<rparr>"
definition ex_received :: capture where "ex_received = \<lparr>wall = 102, mono = 12\<rparr>"
definition ex_remote :: capture where "ex_remote = \<lparr>wall = 106, mono = 50\<rparr>"

definition ex_exchange :: "(string \<times> py) list" where
  "ex_exchange =
     [(''schema'', PStr SCHEMA), (''nonce'', ex_nonce), (''machine_id_sha256'', PStr ex_machine),
      (''boot_id'', PStr ''boot''), (''received'', capture_py ex_remote), (''sent'', capture_py ex_remote)]"

definition ex_estimate :: estimate where
  "ex_estimate = \<lparr>low = 106 - 102 - EPSILON, high = 106 - 100 + EPSILON, received_wall = 102,
     received_mono = 12, est_boot_id = PStr ''boot'', est_machine = ex_machine,
     local_boot = PStr ''here'', network_rtt = 2\<rparr>"

definition ex_now :: capture where "ex_now = \<lparr>wall = 112, mono = 22\<rparr>"

lemma remote_capture_py [simp]: "remote_capture (capture_py c) = Inr c"
  by (simp add: remote_capture_def capture_py_def finiteE_def)

lemma ex_nonce_valid [simp]: "valid_nonce ex_nonce"
  by (simp add: ex_nonce_def list_all_iff hex_lower_def)

lemma ex_nonce_str: "ex_nonce = PStr (replicate 32 (CHR ''0''))"
  by (simp add: ex_nonce_def)

lemma ex_machine_length [simp]: "length ex_machine = 64"
  by (simp add: ex_machine_def)

lemma ex_estimate_accepted:
  "estimate (PDict ex_exchange) ex_nonce ex_sent ex_received ex_machine (Some (PStr ''boot'')) (PStr ''here'')
     = Inr ex_estimate"
proof -
  have "py_eq ex_nonce ex_nonce" by (simp add: ex_nonce_str)
  then show ?thesis
    by (simp add: estimate_def estimate_body_def ex_exchange_def ex_sent_def ex_received_def
        ex_remote_def ex_estimate_def clock_consts Let_def)
qed


lemma ex_source_age:
  "monotonic_source_age (PDict ex_exchange) ex_nonce ex_sent ex_received ex_machine (PStr ''boot'')
     (PInt 47) 20 = Inr 5"
proof -
  have "py_eq ex_nonce ex_nonce" by (simp add: ex_nonce_str)
  then show ?thesis
    by (simp add: monotonic_source_age_def msa_body_def ex_exchange_def ex_sent_def ex_received_def
        ex_remote_def capture_py_def mono_reading_def finiteE_def clock_consts Let_def)
qed

theorem source_age_sound_witness:
  "monotonic_source_age (PDict ex_exchange) ex_nonce ex_sent ex_received ex_machine (PStr ''boot'')
     (PInt 47) 20 = Inr 5 \<and> (2 - (1 - 3) :: rat) \<le> 5 \<and> (5::rat) \<le> 20"
proof -
  have "(2 - (1 - 3) :: rat) \<le> 5 \<and> (5::rat) \<le> 20 \<and> (0::rat) \<le> 5"
    by (rule source_age_sound [OF ex_source_age refl,
          where ys = "[(''wall'', PFloat (Fin 106)), (''mono'', PFloat (Fin 50))]"
            and vb = "PFloat (Fin 50)" and b = 50 and src = 47 and ?t0.0 = 0 and ?t2.0 = 1])
       (simp_all add: ex_exchange_def capture_py_def ex_remote_def ex_sent_def ex_received_def
          MAX_EXCHANGE_def)
  then show ?thesis using ex_source_age by blast
qed

definition ex_cache :: "nat evidence_cache" where
  "ex_cache = ec_put (ec_init 8) 7 ex_estimate (PFloat (Fin 108))"

theorem cache_expiry_permanent_witness:
  "ec_get ex_cache \<lparr>wall = 103, mono = 13\<rparr> = Some 7 \<and> ec_get ex_cache \<lparr>wall = 130, mono = 40\<rparr> = None"
proof -
  have "ec_get ex_cache \<lparr>wall = 103, mono = 13\<rparr> = Some 7"
    by (simp add: ec_get_def ex_cache_def ec_put_def ec_init_def fresh_def age_bounds_def
        est_bounds_def ex_estimate_def clock_consts Let_def)
  moreover have "ec_get ex_cache \<lparr>wall = 130, mono = 40\<rparr> = None"
    by (rule cache_expiry_permanent [where now = ex_now and m = ex_estimate and stamp = 108 and v = 7
          and al = "1597 / 200" and ah = "2003 / 200"])
       (auto simp: ex_cache_def ec_put_def ec_init_def age_bounds_Inr ex_now_def ex_estimate_def clock_consts)
  ultimately show ?thesis ..
qed

end
