(* ===== verification/Route_Assessment.thy ===== *)
theory Route_Assessment
  imports Py_Prelude
begin

text \<open>
  \<open>ops/selfheal/route_assessment.py\<close>: the transport witness, the progress deadline, the clock
  diagnostics timer and the durable bookmark of the current cause.

  Each class is a record (or an optional record) with one function per method that returns
  the result and the next state. The SHA-256 digest of the exported document and the random
  identifier of a new cause are arguments. Writing the bookmark to disk is not modelled; the
  document that is written is \<open>cause_py\<close>, and \<open>cb_load\<close> is the check made when it is read back.
\<close>

section \<open>Domains\<close>

definition DOMAINS :: "string list" where
  "DOMAINS = [''HEALTHY'', ''MEDIA_FAILURE'', ''CLOCK_FAULT'', ''OBSERVATION_LOST'', ''INITIALIZING'']"

definition domain_for_missing :: "string \<Rightarrow> string" where
  "domain_for_missing reason =
     (if reason = ''baseline_required'' then ''INITIALIZING'' else ''OBSERVATION_LOST'')"

section \<open>Transport witness\<close>

record 'd witness_sample =
  ws_generation :: string
  ws_stamp :: string
  ws_bytes :: int
  ws_digest :: 'd
  ws_at :: seconds

record verdict =
  v_status :: string
  v_reason :: string

fun nonfinite :: "py \<Rightarrow> bool" where
  "nonfinite (PFloat (Fin q)) = False"
| "nonfinite (PFloat x) = True"
| "nonfinite (PList xs) = list_ex nonfinite xs"
| "nonfinite (PDict xs) = list_ex (\<lambda>(k, v). nonfinite v) xs"
| "nonfinite v = False"

text \<open>\<open>json.dumps(value, sort_keys=True, allow_nan=False)\<close> raises on a non-finite number.\<close>

definition digest_of :: "(py \<Rightarrow> 'd) \<Rightarrow> py \<Rightarrow> 'd res" where
  "digest_of dg v = (if nonfinite v then Inl (ValueError ''out_of_range_float'') else Inr (dg v))"

definition pending_key :: "py \<Rightarrow> string \<Rightarrow> bool res" where
  "pending_key value k =
     bindE (py_get_dflt value ''tcp_metrics'' (PDict [])) (\<lambda>tm.
     bindE (py_get tm k) (\<lambda>x. case x of PInt n \<Rightarrow> Inr (n > 0) | _ \<Rightarrow> Inr False))"

definition pending_work :: "py \<Rightarrow> bool res" where
  "pending_work value =
     bindE (pending_key value ''notsent'') (\<lambda>a.
     if a then Inr True else pending_key value ''unacked'')"

text \<open>The fields read before any comparison with the previous sample.\<close>

definition witness_fields :: "(py \<Rightarrow> 'd) \<Rightarrow> py \<Rightarrow> seconds \<Rightarrow> 'd witness_sample res" where
  "witness_fields dg value now =
     bindE (py_getitem value ''schema'') (\<lambda>schema.
     bindE (requireE (py_eq schema (PStr ''stream_v3.ffmpeg_transport.v1'')) (ValueError [])) (\<lambda>_.
     bindE (py_getitem value ''ffmpeg_generation'') (\<lambda>generation.
     bindE (py_getitem value ''observed_at'') (\<lambda>stamp.
     bindE (py_getitem value ''ack_bytes_observed_total'') (\<lambda>count.
     case generation of PStr g \<Rightarrow> (case stamp of PStr s \<Rightarrow> (case count of PInt n \<Rightarrow>
         if g = [] \<or> s = [] \<or> n < 0 then Inl (ValueError [])
         else bindE (digest_of dg value) (\<lambda>d.
           Inr \<lparr>ws_generation = g, ws_stamp = s, ws_bytes = n, ws_digest = d, ws_at = now\<rparr>)
       | _ \<Rightarrow> Inl (ValueError [])) | _ \<Rightarrow> Inl (ValueError [])) | _ \<Rightarrow> Inl (ValueError []))))))"

definition in_window :: "seconds \<Rightarrow> 'd witness_sample \<Rightarrow> bool" where
  "in_window now p \<longleftrightarrow> 0 < now - ws_at p \<and> now - ws_at p \<le> 45"

text \<open>Comparison of a well-formed sample with the previous one.\<close>

definition witness_compare ::
  "'d witness_sample option \<Rightarrow> 'd witness_sample \<Rightarrow> py \<Rightarrow> seconds \<Rightarrow>
   verdict res \<times> 'd witness_sample option" where
  "witness_compare previous current value now =
     (case previous of
        None \<Rightarrow> (Inr \<lparr>v_status = ''UNKNOWN'', v_reason = ''local_transport_baseline''\<rparr>, Some current)
      | Some p \<Rightarrow>
          if ws_generation current = ws_generation p \<and> in_window now p \<and> ws_bytes current > ws_bytes p
            then (Inr \<lparr>v_status = ''FLOWING'', v_reason = ''local_ack_advancing''\<rparr>, Some current)
          else if ws_digest current = ws_digest p \<or> ws_stamp current = ws_stamp p
            then (Inr \<lparr>v_status = ''UNKNOWN'', v_reason = ''local_transport_stale''\<rparr>, Some p)
          else if ws_generation current \<noteq> ws_generation p \<or> \<not> in_window now p
            then (Inr \<lparr>v_status = ''UNKNOWN'', v_reason = ''local_transport_baseline''\<rparr>, Some current)
          else if ws_bytes current - ws_bytes p < 0
            then (Inr \<lparr>v_status = ''UNKNOWN'', v_reason = ''local_transport_counter_regressed''\<rparr>, Some current)
          else if ws_bytes current - ws_bytes p > 0
            then (Inr \<lparr>v_status = ''FLOWING'', v_reason = ''local_ack_advancing''\<rparr>, Some current)
          else
            (bindE (pending_work value) (\<lambda>pending.
             bindE (py_get value ''state'') (\<lambda>st.
             if py_eq st (PStr ''TCP_ACK_STALLED'') \<and> pending
               then Inr \<lparr>v_status = ''STOPPED'', v_reason = ''local_transport_stalled''\<rparr>
             else bindE (py_get value ''fifo_recovering'') (\<lambda>fr.
               if fr = PBool True
                 then Inr \<lparr>v_status = ''STOPPED'', v_reason = ''local_fifo_recovering''\<rparr>
               else Inr \<lparr>v_status = ''UNKNOWN'', v_reason = ''local_transport_unconfirmed''\<rparr>))),
             Some current))"

text \<open>The handler: \<open>except (KeyError, TypeError, ValueError, OverflowError)\<close>.\<close>

definition witness_caught :: "exn \<Rightarrow> bool" where
  "witness_caught e \<longleftrightarrow> e = KeyError \<or> e = TypeError \<or> e = OverflowError \<or> is_value_error e"

definition witness_sample ::
  "(py \<Rightarrow> 'd) \<Rightarrow> 'd witness_sample option \<Rightarrow> py \<Rightarrow> seconds \<Rightarrow> verdict res \<times> 'd witness_sample option" where
  "witness_sample dg previous value now =
     (case (case witness_fields dg value now of
              Inl e \<Rightarrow> (Inl e, None)
            | Inr current \<Rightarrow> witness_compare previous current value now) of
        (Inl e, st) \<Rightarrow>
          (if witness_caught e
             then Inr \<lparr>v_status = ''UNKNOWN'', v_reason = ''local_transport_unavailable''\<rparr> else Inl e, st)
      | (Inr v, st) \<Rightarrow> (Inr v, st))"

section \<open>Progress deadline\<close>

definition AFTER :: seconds where "AFTER = 90"

record deadline =
  d_started :: "seconds option"
  d_last_route_progress :: "seconds option"

definition deadline_init :: deadline where
  "deadline_init = \<lparr>d_started = None, d_last_route_progress = None\<rparr>"

record uncertainty =
  u_unconfirmed_for_sec :: seconds
  u_route_progress_confirmed :: bool
  u_after_sec :: seconds
  u_expired :: bool

definition deadline_next :: "deadline \<Rightarrow> seconds \<Rightarrow> bool \<Rightarrow> bool \<Rightarrow> deadline" where
  "deadline_next d now route_progress inhibited =
     (let d1 = (if d_started d = None \<or> inhibited
                then \<lparr>d_started = Some now, d_last_route_progress = None\<rparr> else d)
      in if route_progress \<and> \<not> inhibited then d1\<lparr>d_last_route_progress := Some now\<rparr> else d1)"

definition deadline_since :: "deadline \<Rightarrow> seconds option" where
  "deadline_since d = (case d_last_route_progress d of None \<Rightarrow> d_started d | Some t \<Rightarrow> Some t)"

definition deadline_observe ::
  "deadline \<Rightarrow> seconds \<Rightarrow> bool \<Rightarrow> bool \<Rightarrow> uncertainty \<times> deadline" where
  "deadline_observe d now route_progress inhibited =
     (let d' = deadline_next d now route_progress inhibited;
          age = max 0 (now - (case deadline_since d' of None \<Rightarrow> now | Some t \<Rightarrow> t))
      in (\<lparr>u_unconfirmed_for_sec = py_round 3 age,
           u_route_progress_confirmed = (route_progress \<and> \<not> inhibited),
           u_after_sec = AFTER, u_expired = (age \<ge> AFTER)\<rparr>, d'))"

section \<open>Clock diagnostics\<close>

record clock_report =
  cr_status :: string
  cr_fault_for_sec :: seconds

text \<open>\<open>status\<close> is \<open>diagnostic.get('clock', {}).get('status')\<close>.\<close>

definition clock_status :: "(string \<times> py) list \<Rightarrow> py" where
  "clock_status diagnostic = (case map_of diagnostic ''clock'' of
      Some (PDict xs) \<Rightarrow> dget xs ''status'' | _ \<Rightarrow> PNone)"

definition clock_fault_next :: "seconds option \<Rightarrow> py \<Rightarrow> seconds \<Rightarrow> bool \<Rightarrow> seconds option" where
  "clock_fault_next fault_since status now inhibited =
     (if inhibited \<or> py_eq status (PStr ''VERIFIED'') then None
      else if py_eq status (PStr ''UNKNOWN'') \<and> fault_since = None then Some now
      else fault_since)"

definition clock_observe ::
  "seconds option \<Rightarrow> py \<Rightarrow> seconds \<Rightarrow> bool \<Rightarrow> clock_report \<times> seconds option" where
  "clock_observe fault_since status now inhibited =
     (let f = clock_fault_next fault_since status now inhibited
      in (\<lparr>cr_status = (if py_eq status (PStr ''VERIFIED'') then ''VERIFIED''
                       else if py_eq status (PStr ''UNKNOWN'') then ''FAULT'' else ''UNAVAILABLE''),
           cr_fault_for_sec = (case f of None \<Rightarrow> 0 | Some t \<Rightarrow> py_round 3 (max 0 (now - t)))\<rparr>, f))"

section \<open>Cause bookmark\<close>

record cause =
  k_id :: string
  k_sequence :: int
  k_opened_boot :: string
  k_origin :: string
  k_origin_reason :: string
  k_fallback_started :: bool
  k_clear_since :: "seconds option"
  k_clear_boot :: "string option"
  k_domain :: string
  k_reason :: string
  k_last_action :: "(string \<times> string) option"

record cause_state =
  b_sequence :: int
  b_current :: "cause option"
  b_last_closed_id :: "string option"

record causal =
  cs_cause_id :: "string option"
  cs_assessment :: string
  cs_reason :: string
  cs_cause_active :: bool
  cs_fallback_active :: "bool option"
  cs_secondary_recovery_blocked :: bool
  cs_cause_event :: "string option"

definition hex_id :: "py \<Rightarrow> bool" where
  "hex_id v = (case v of PStr s \<Rightarrow> length s = 32 \<and> list_all hex_lower s | _ \<Rightarrow> False)"

text \<open>The constructor: \<open>None\<close> stands for a missing file, otherwise its size and decoded content.\<close>

definition cb_load :: "(nat \<times> py res) option \<Rightarrow> py res" where
  "cb_load file = (case file of
     None \<Rightarrow> Inr (PDict [(''schema'', PStr ''stream.route_cause_state.v1''), (''sequence'', PInt 0),
                        (''current'', PNone)])
   | Some (sz, decoded) \<Rightarrow>
       bindE (requireE (sz \<le> 16384) (ValueError ''cause_state_oversized'')) (\<lambda>_.
       bindE decoded (\<lambda>st.
       bindE (py_get st ''schema'') (\<lambda>schema.
       bindE (requireE (py_eq schema (PStr ''stream.route_cause_state.v1'')) (ValueError ''cause_state_invalid'')) (\<lambda>_.
       bindE (py_get st ''sequence'') (\<lambda>sq.
       case sq of
         PInt n \<Rightarrow>
           if n < 0 then Inl (ValueError ''cause_state_invalid'')
           else bindE (py_get st ''current'') (\<lambda>cur.
             if cur = PNone then Inr st
             else (case cur of
               PDict cs \<Rightarrow>
                 (case dget cs ''sequence'' of
                    PInt m \<Rightarrow> if hex_id (dget cs ''id'') \<and> m \<le> n then Inr st
                             else Inl (ValueError ''cause_state_invalid'')
                  | _ \<Rightarrow> Inl (ValueError ''cause_state_invalid''))
             | _ \<Rightarrow> Inl (ValueError ''cause_state_invalid'')))
       | _ \<Rightarrow> Inl (ValueError ''cause_state_invalid'')))))))"

definition cb_init :: cause_state where
  "cb_init = \<lparr>b_sequence = 0, b_current = None, b_last_closed_id = None\<rparr>"

definition opt_py :: "('a \<Rightarrow> py) \<Rightarrow> 'a option \<Rightarrow> py" where
  "opt_py f x = (case x of None \<Rightarrow> PNone | Some v \<Rightarrow> f v)"

definition cause_item_py :: "cause \<Rightarrow> py" where
  "cause_item_py k = PDict
     ([(''id'', PStr (k_id k)), (''sequence'', PInt (k_sequence k)), (''opened_boot'', PStr (k_opened_boot k)),
       (''origin'', PStr (k_origin k)), (''origin_reason'', PStr (k_origin_reason k)),
       (''fallback_started'', PBool (k_fallback_started k)),
       (''clear_since'', opt_py (\<lambda>t. PFloat (Fin t)) (k_clear_since k)),
       (''clear_boot'', opt_py PStr (k_clear_boot k)),
       (''domain'', PStr (k_domain k)), (''reason'', PStr (k_reason k))]
      @ (case k_last_action k of None \<Rightarrow> []
         | Some (a, r) \<Rightarrow> [(''last_action'', PStr a), (''last_action_result'', PStr r)]))"

definition cause_py :: "cause_state \<Rightarrow> py" where
  "cause_py b = PDict
     ([(''schema'', PStr ''stream.route_cause_state.v1''), (''sequence'', PInt (b_sequence b)),
       (''current'', opt_py cause_item_py (b_current b))]
      @ (case b_last_closed_id b of None \<Rightarrow> [] | Some i \<Rightarrow> [(''last_closed_id'', PStr i)]))"

definition is_problem :: "string \<Rightarrow> int option \<Rightarrow> bool" where
  "is_problem domain replicas \<longleftrightarrow>
     domain \<notin> {''HEALTHY'', ''INITIALIZING''} \<or> replicas \<notin> {Some 0, None}"

text \<open>The state change of \<open>update\<close> with its event; \<open>new_id\<close> is the fresh \<open>uuid4().hex\<close>.\<close>

definition cb_transition ::
  "string \<Rightarrow> string \<Rightarrow> cause_state \<Rightarrow> string \<Rightarrow> string \<Rightarrow> int option \<Rightarrow> seconds \<Rightarrow>
   cause_state \<times> string option" where
  "cb_transition boot new_id b domain reason replicas now =
     (if is_problem domain replicas then
        (case b_current b of
           None \<Rightarrow>
             (\<lparr>b_sequence = b_sequence b + 1,
               b_current = Some \<lparr>k_id = new_id, k_sequence = b_sequence b + 1, k_opened_boot = boot,
                 k_origin = (if domain \<noteq> ''HEALTHY'' then domain else ''UNATTRIBUTED_FALLBACK''),
                 k_origin_reason = reason, k_fallback_started = False, k_clear_since = None,
                 k_clear_boot = None, k_domain = domain, k_reason = reason, k_last_action = None\<rparr>,
               b_last_closed_id = b_last_closed_id b\<rparr>, Some ''cause_opened'')
         | Some k \<Rightarrow>
             (b\<lparr>b_current := Some (k\<lparr>k_domain := domain, k_reason := reason, k_clear_since := None\<rparr>)\<rparr>, None))
      else (case b_current b of
           None \<Rightarrow> (b, None)
         | Some k \<Rightarrow>
             if domain = ''HEALTHY'' \<and> replicas = Some 0 then
               (let fresh = (k_clear_since k = None \<or> k_clear_boot k \<noteq> Some boot);
                    k' = (if fresh then k\<lparr>k_clear_since := Some now, k_clear_boot := Some boot\<rparr> else k);
                    since = (case k_clear_since k' of None \<Rightarrow> now | Some t \<Rightarrow> t)
                in if now - since \<ge> 180
                   then (b\<lparr>b_last_closed_id := Some (k_id k), b_current := None\<rparr>, Some ''cause_closed'')
                   else (b\<lparr>b_current := Some k'\<rparr>, if fresh then Some ''cause_resolving'' else None))
             else (b\<lparr>b_current := Some (k\<lparr>k_clear_since := None\<rparr>)\<rparr>, None)))"

definition cb_update ::
  "string \<Rightarrow> string \<Rightarrow> cause_state \<Rightarrow> string \<Rightarrow> string \<Rightarrow> int option \<Rightarrow> seconds \<Rightarrow>
   (causal \<times> cause_state) res" where
  "cb_update boot new_id b domain reason replicas now =
     (if domain \<notin> set DOMAINS then Inl (ValueError ''cause_domain_invalid'')
      else (case cb_transition boot new_id b domain reason replicas now of (b', event) \<Rightarrow>
        Inr (\<lparr>cs_cause_id = map_option k_id (b_current b'), cs_assessment = domain, cs_reason = reason,
              cs_cause_active = (b_current b' \<noteq> None),
              cs_fallback_active = map_option (\<lambda>n. n > 0) replicas,
              cs_secondary_recovery_blocked =
                (domain \<noteq> ''HEALTHY'' \<or> b_current b' \<noteq> None \<or> replicas \<noteq> Some 0),
              cs_cause_event = event\<rparr>, b')))"

definition cb_dispatched :: "cause_state \<Rightarrow> string \<Rightarrow> string \<Rightarrow> cause_state" where
  "cb_dispatched b action result = (case b_current b of
       None \<Rightarrow> b
     | Some k \<Rightarrow> b\<lparr>b_current := Some (k\<lparr>k_last_action := Some (action, result),
                    k_fallback_started := (k_fallback_started k \<or>
                      action = ''START'' \<and> result = ''SUCCEEDED'')\<rparr>)\<rparr>)"

section \<open>Transport witness: what a verdict means\<close>

text \<open>The evidence a verdict other than UNKNOWN stands for.\<close>

definition flowing_evidence :: "'d witness_sample \<Rightarrow> 'd witness_sample \<Rightarrow> seconds \<Rightarrow> bool" where
  "flowing_evidence p c now \<longleftrightarrow>
     ws_generation c = ws_generation p \<and> in_window now p \<and> ws_bytes p < ws_bytes c"

definition stopped_evidence :: "'d witness_sample \<Rightarrow> 'd witness_sample \<Rightarrow> py \<Rightarrow> seconds \<Rightarrow> bool" where
  "stopped_evidence p c value now \<longleftrightarrow>
     ws_generation c = ws_generation p \<and> in_window now p \<and> ws_bytes c = ws_bytes p \<and>
     ws_digest c \<noteq> ws_digest p \<and> ws_stamp c \<noteq> ws_stamp p \<and>
     (pending_work value = Inr True \<and> py_get value ''state'' = Inr (PStr ''TCP_ACK_STALLED'') \<or>
      py_get value ''fifo_recovering'' = Inr (PBool True))"

lemma witness_sample_cases:
  assumes "witness_sample dg previous value now = (Inr v, st)" and "v_status v \<noteq> ''UNKNOWN''"
  obtains p c where "previous = Some p" "witness_fields dg value now = Inr c" "st = Some c"
    "witness_compare previous c value now = (Inr v, st)"
  using assms
  by (auto simp: witness_sample_def witness_compare_def split: sum.splits prod.splits if_splits option.splits)

lemma witness_compare_evidence:
  assumes "witness_compare (Some p) c value now = (Inr v, st)"
  shows "v_status v = ''FLOWING'' \<and> flowing_evidence p c now
       \<or> v_status v = ''STOPPED'' \<and> stopped_evidence p c value now \<or> v_status v = ''UNKNOWN''"
proof -
  let ?adv = "ws_generation c = ws_generation p \<and> in_window now p \<and> ws_bytes c > ws_bytes p"
  let ?stale = "ws_digest c = ws_digest p \<or> ws_stamp c = ws_stamp p"
  consider ?adv | "\<not> ?adv" ?stale
    | "\<not> ?stale" "ws_generation c \<noteq> ws_generation p \<or> \<not> in_window now p"
    | "\<not> ?stale" "ws_generation c = ws_generation p" "in_window now p" "ws_bytes c < ws_bytes p"
    | "\<not> ?stale" "ws_generation c = ws_generation p" "in_window now p" "ws_bytes c = ws_bytes p"
    by force
  then show ?thesis
  proof cases
    case 5
    then show ?thesis using assms
      by (auto simp: witness_compare_def stopped_evidence_def split: if_splits)
  qed (use assms in \<open>auto simp: witness_compare_def flowing_evidence_def\<close>)
qed

text \<open>the local transport witness never overstates its evidence. FLOWING is reported only
  for two samples of one FFmpeg generation at most 45 seconds apart whose acknowledged byte
  counter increased; STOPPED only for a genuinely new document (both digest and stamp changed)
  of the same generation within the window whose counter did not move and which shows pending
  transport work in state TCP_ACK_STALLED or a FIFO recovery.\<close>

theorem witness_verdict_sound:
  assumes "witness_sample dg previous value now = (Inr v, st)"
  shows "v_status v = ''UNKNOWN'' \<or>
    (\<exists>p c. previous = Some p \<and> witness_fields dg value now = Inr c \<and> st = Some c \<and>
       (v_status v = ''FLOWING'' \<and> flowing_evidence p c now \<or>
        v_status v = ''STOPPED'' \<and> stopped_evidence p c value now))"
proof (cases "v_status v = ''UNKNOWN''")
  case False
  with assms obtain p c where "previous = Some p" "witness_fields dg value now = Inr c" "st = Some c"
    "witness_compare previous c value now = (Inr v, st)" by (rule witness_sample_cases)
  with witness_compare_evidence [of p c "value" now v st] False show ?thesis by blast
qed simp

definition ex_export :: "string \<Rightarrow> int \<Rightarrow> py" where
  "ex_export stamp n = PDict [(''schema'', PStr ''stream_v3.ffmpeg_transport.v1''),
     (''ffmpeg_generation'', PStr ''g1''), (''observed_at'', PStr stamp),
     (''ack_bytes_observed_total'', PInt n), (''state'', PStr ''TCP_ACK_STALLED''),
     (''tcp_metrics'', PDict [(''notsent'', PInt 9)])]"

definition ex_witness :: "string witness_sample" where
  "ex_witness = \<lparr>ws_generation = ''g1'', ws_stamp = ''a'', ws_bytes = 7, ws_digest = ''a'', ws_at = 10\<rparr>"

lemma ex_witness_stopped:
  "witness_sample (\<lambda>_. ''b'') (Some ex_witness) (ex_export ''b'' 7) 25 =
     (Inr \<lparr>v_status = ''STOPPED'', v_reason = ''local_transport_stalled''\<rparr>,
      Some \<lparr>ws_generation = ''g1'', ws_stamp = ''b'', ws_bytes = 7, ws_digest = ''b'', ws_at = 25\<rparr>)"
  by (simp add: witness_sample_def witness_fields_def ex_export_def ex_witness_def digest_of_def
      witness_compare_def in_window_def pending_work_def pending_key_def py_get_def)

theorem witness_verdict_sound_witness:
  "\<exists>v st. witness_sample (\<lambda>_. ''b'') (Some ex_witness) (ex_export ''b'' 7) 25 = (Inr v, st) \<and>
     v_status v = ''STOPPED'' \<and> (\<exists>c. stopped_evidence ex_witness c (ex_export ''b'' 7) 25)"
  using witness_verdict_sound [OF ex_witness_stopped] ex_witness_stopped by auto

lemma raises_in_witness_fields: "raises_in witness_caught (witness_fields dg value now)"
  unfolding witness_fields_def digest_of_def
  by (intro raises_in_intros raises_in_getitem)
     (auto simp: witness_caught_def intro!: raises_in_intros split: py.split)

lemma witness_fields_same:
  assumes "witness_fields dg value t = Inr c" "witness_fields dg value t' = Inr c'"
  shows "ws_generation c = ws_generation c' \<and> ws_bytes c = ws_bytes c' \<and> ws_digest c = ws_digest c'"
  using assms by (auto simp: witness_fields_def split: py.splits if_splits)

text \<open>a frozen export is never evidence. Reading one unchanged document again and again,
  at any increasing or decreasing times, yields only UNKNOWN verdicts, however long it is
  repeated and whatever state flag it carries.\<close>

theorem frozen_export_unknown:
  fixes dg :: "py \<Rightarrow> 'd"
  assumes "(s, now) \<in> set (trail (\<lambda>s t. snd (witness_sample dg s value t)) None ts)"
  shows "\<exists>v. fst (witness_sample dg s value now) = Inr v \<and> v_status v = ''UNKNOWN''"
proof -
  let ?f = "\<lambda>s now. snd (witness_sample dg s value now)"
  define same where "same s \<longleftrightarrow>
      (\<forall>p now c. s = Some p \<and> witness_fields dg value now = Inr c \<longrightarrow>
         ws_generation p = ws_generation c \<and> ws_bytes p = ws_bytes c \<and> ws_digest p = ws_digest c)"
    for s :: "'d witness_sample option"
  have fexn: "witness_caught e" if "witness_fields dg value t = Inl e" for t e
    using raises_in_witness_fields that by (rule raises_inD)
  have step: "same (?f s t) \<and> (\<exists>v. fst (witness_sample dg s value t) = Inr v \<and> v_status v = ''UNKNOWN'')"
    if "same s" for s t
  proof (cases "witness_fields dg value t")
    case (Inl e)
    with fexn [OF Inl] show ?thesis by (simp add: witness_sample_def same_def)
  next
    case (Inr c)
    show ?thesis
    proof (cases s)
      case None
      with Inr show ?thesis
        by (auto simp: witness_sample_def witness_compare_def same_def dest: witness_fields_same [OF Inr])
    next
      case (Some p)
      with that Inr have eq: "ws_generation p = ws_generation c" "ws_bytes p = ws_bytes c"
        "ws_digest p = ws_digest c" by (auto simp: same_def)
      with Some Inr that show ?thesis by (simp add: witness_sample_def witness_compare_def)
    qed
  qed
  have start: "same None" by (simp add: same_def)
  have "same (?f u t)" if "same u" for u t using step that by blast
  then have "same s" using trail_inv [of same ?f, OF _ start assms] by blast
  with step show ?thesis by blast
qed

theorem frozen_export_unknown_witness:
  "\<exists>v. fst (witness_sample (\<lambda>_. ''b'')
          (snd (witness_sample (\<lambda>_. ''b'') None (ex_export ''b'' 7) 10)) (ex_export ''b'' 7) 25) = Inr v
       \<and> v_status v = ''UNKNOWN''"
proof -
  let ?w = "witness_sample (\<lambda>_. ''b'')"
  have "(snd (?w None (ex_export ''b'' 7) 10), 25) \<in>
     set (trail (\<lambda>s t. snd (?w s (ex_export ''b'' 7) t)) None [10, 25])"
    by simp
  then show ?thesis by (rule frozen_export_unknown)
qed

text \<open>the witness does not contain every malformed export. Its handler covers KeyError,
  TypeError, ValueError and OverflowError; an export whose \<open>tcp_metrics\<close> is not an object (here
  null) reaches \<open>None.get\<close> on the second unchanged-counter sample and raises AttributeError,
  which neither this handler nor the controller's \<open>except (OSError, ValueError, TypeError)\<close>
  catches.\<close>

theorem witness_attribute_error_escapes:
  assumes "witness_fields dg value now = Inr c" and "map_of xs ''tcp_metrics'' = Some PNone"
    and "value = PDict xs"
    and "ws_generation p = ws_generation c" "ws_bytes p = ws_bytes c" "in_window now p"
    and "ws_digest p \<noteq> ws_digest c" "ws_stamp p \<noteq> ws_stamp c"
  shows "witness_sample dg (Some p) value now = (Inl AttributeError, Some c)"
  using assms
  by (simp add: witness_sample_def witness_compare_def pending_work_def pending_key_def py_get_def
      witness_caught_def)

definition ex_null_export :: "(string \<times> py) list" where
  "ex_null_export = [(''schema'', PStr ''stream_v3.ffmpeg_transport.v1''),
     (''ffmpeg_generation'', PStr ''g1''), (''observed_at'', PStr ''b''),
     (''ack_bytes_observed_total'', PInt 7), (''tcp_metrics'', PNone)]"

theorem witness_attribute_error_escapes_witness:
  "fst (witness_sample (\<lambda>_. ''b'') (Some ex_witness) (PDict ex_null_export) 25) = Inl AttributeError"
proof -
  let ?c = "\<lparr>ws_generation = ''g1'', ws_stamp = ''b'', ws_bytes = 7, ws_digest = ''b'', ws_at = 25\<rparr>"
  have "witness_sample (\<lambda>_. ''b'') (Some ex_witness) (PDict ex_null_export) 25 = (Inl AttributeError, Some ?c)"
    by (rule witness_attribute_error_escapes [where xs = ex_null_export])
       (simp_all add: witness_fields_def ex_null_export_def digest_of_def ex_witness_def in_window_def)
  then show ?thesis by simp
qed

section \<open>Progress deadline: the trace property\<close>

record tick =
  t_now :: seconds
  t_progress :: bool
  t_inhibited :: bool

definition deadline_step :: "deadline \<Rightarrow> tick \<Rightarrow> deadline" where
  "deadline_step d e = deadline_next d (t_now e) (t_progress e) (t_inhibited e)"

definition resets :: "tick \<Rightarrow> bool" where
  "resets e \<longleftrightarrow> t_inhibited e \<or> t_progress e"

lemma deadline_last_reset:
  assumes "es \<noteq> []"
  shows "\<exists>pre e post. es = pre @ e # post \<and> deadline_since (run deadline_step deadline_init es) = Some (t_now e) \<and>
     (pre = [] \<or> resets e) \<and> (\<forall>x \<in> set post. \<not> resets x) \<and>
     d_started (run deadline_step deadline_init es) \<noteq> None"
  using assms
proof (induction es rule: rev_induct)
  case (snoc x es)
  let ?d = "run deadline_step deadline_init es"
  show ?case
  proof (cases "es = [] \<or> resets x")
    case True
    have st: "es = [] \<Longrightarrow> d_started ?d = None" by (simp add: deadline_init_def)
    have ne: "es \<noteq> [] \<Longrightarrow> d_started ?d \<noteq> None" using snoc.IH by blast
    have "deadline_since (deadline_step ?d x) = Some (t_now x) \<and> d_started (deadline_step ?d x) \<noteq> None"
      using True st ne
      by (cases "es = []") (auto simp: deadline_step_def deadline_next_def deadline_since_def resets_def Let_def
            deadline_init_def split: option.splits)
    with True show ?thesis by (intro exI [of _ es] exI [of _ x] exI [of _ "[]"]) auto
  next
    case False
    with snoc.IH obtain pre e post where IH: "es = pre @ e # post" "deadline_since ?d = Some (t_now e)"
      "pre = [] \<or> resets e" "\<forall>x \<in> set post. \<not> resets x" "d_started ?d \<noteq> None" by blast
    with False have "deadline_step ?d x = ?d"
      by (auto simp: deadline_step_def deadline_next_def resets_def)
    with IH False show ?thesis
      by (intro exI [of _ pre] exI [of _ e] exI [of _ "post @ [x]"]) auto
  qed
qed simp

text \<open>the progress deadline expires exactly when 90 seconds have passed without verified
  downstream progress. For every history of observations with non-decreasing clock readings,
  the last report is expired iff the first observation is at least 90 seconds old and no
  observation of the last 90 seconds confirmed route progress or was under maintenance.\<close>

theorem deadline_expires_iff:
  assumes "sorted (map t_now (es @ [e]))"
  shows "u_expired (fst (deadline_observe (run deadline_step deadline_init es) (t_now e) (t_progress e) (t_inhibited e)))
    \<longleftrightarrow> t_now e - t_now (hd (es @ [e])) \<ge> AFTER \<and>
        (\<forall>x \<in> set (es @ [e]). t_now e - t_now x < AFTER \<longrightarrow> \<not> resets x)"
proof -
  obtain pre f post where s: "es @ [e] = pre @ f # post"
    "deadline_since (run deadline_step deadline_init (es @ [e])) = Some (t_now f)"
    "pre = [] \<or> resets f" "\<forall>x \<in> set post. \<not> resets x"
    using deadline_last_reset [of "es @ [e]"] by blast
  have le: "t_now f \<le> t_now e" "\<forall>x \<in> set pre. t_now x \<le> t_now f" "t_now (hd (es @ [e])) \<le> t_now f"
  proof -
    have "sorted (map t_now pre @ t_now f # map t_now post)" using assms s(1) by simp
    then show "\<forall>x \<in> set pre. t_now x \<le> t_now f" by (auto simp: sorted_append)
    then show "t_now (hd (es @ [e])) \<le> t_now f" using s(1) by (cases pre) auto
    have "f \<in> set (es @ [e])" using s(1) by simp
    then show "t_now f \<le> t_now e" using assms by (auto simp: sorted_append)
  qed
  have "u_expired (fst (deadline_observe (run deadline_step deadline_init es) (t_now e) (t_progress e) (t_inhibited e)))
      \<longleftrightarrow> t_now e - t_now f \<ge> AFTER"
    using s(2) le(1) by (simp add: deadline_observe_def deadline_step_def Let_def AFTER_def)
  also have "\<dots> \<longleftrightarrow> t_now e - t_now (hd (es @ [e])) \<ge> AFTER \<and>
        (\<forall>x \<in> set (es @ [e]). t_now e - t_now x < AFTER \<longrightarrow> \<not> resets x)" (is "?l \<longleftrightarrow> ?r")
  proof
    assume ?l
    with le s show ?r by force
  next
    assume ?r
    with s show ?l by (cases pre) force+
  qed
  finally show ?thesis .
qed

theorem deadline_expires_iff_witness:
  "u_expired (fst (deadline_observe
     (run deadline_step deadline_init [\<lparr>t_now = 0, t_progress = True, t_inhibited = False\<rparr>]) 95 False False))"
  using deadline_expires_iff [of "[\<lparr>t_now = 0, t_progress = True, t_inhibited = False\<rparr>]"
      "\<lparr>t_now = 95, t_progress = False, t_inhibited = False\<rparr>"]
  by (simp add: AFTER_def resets_def)

section \<open>Cause bookmark: invariant, round trip and the closing rule\<close>

record observation_event =
  o_new_id :: string
  o_domain :: string
  o_reason :: string
  o_replicas :: "int option"
  o_now :: seconds

definition cb_step :: "string \<Rightarrow> cause_state \<Rightarrow> observation_event \<Rightarrow> cause_state" where
  "cb_step boot b e = fst (cb_transition boot (o_new_id e) b (o_domain e) (o_reason e) (o_replicas e) (o_now e))"

definition cb_event :: "string \<Rightarrow> cause_state \<Rightarrow> observation_event \<Rightarrow> string option" where
  "cb_event boot b e = snd (cb_transition boot (o_new_id e) b (o_domain e) (o_reason e) (o_replicas e) (o_now e))"

definition cause_inv :: "cause_state \<Rightarrow> bool" where
  "cause_inv b \<longleftrightarrow> 0 \<le> b_sequence b \<and>
     (case b_current b of None \<Rightarrow> True
      | Some k \<Rightarrow> k_sequence k \<le> b_sequence b \<and> length (k_id k) = 32 \<and> list_all hex_lower (k_id k))"

lemma cause_inv_step:
  assumes "cause_inv b" and "length (o_new_id e) = 32" and "list_all hex_lower (o_new_id e)"
  shows "cause_inv (cb_step boot b e)"
  using assms
  by (cases "b_current b") (auto simp: cb_step_def cb_transition_def cause_inv_def Let_def)

lemma cause_inv_dispatched: "cause_inv b \<Longrightarrow> cause_inv (cb_dispatched b a r)"
  by (cases "b_current b") (auto simp: cb_dispatched_def cause_inv_def)

lemma cause_py_loads:
  assumes "cause_inv b" and "n \<le> 16384"
  shows "cb_load (Some (n, Inr (cause_py b))) = Inr (cause_py b)"
proof (cases "b_current b")
  case None
  with assms show ?thesis
    by (simp add: cb_load_def cause_py_def py_get_def opt_py_def cause_inv_def)
next
  case (Some k)
  with assms show ?thesis
    by (simp add: cb_load_def cause_py_def py_get_def opt_py_def cause_inv_def cause_item_py_def dget_def
        hex_id_def)
qed

text \<open>the cause bookmark can always be read back. Whatever sequence of observations and
  dispatched actions the controller processes, starting from a fresh bookmark and with fresh
  32-digit identifiers, the document it stores passes the validation of the next start (up to
  the size limit), so a restart never rejects the bookmark the previous process wrote.\<close>

theorem cause_bookmark_reloads:
  assumes "\<forall>e \<in> set es. (case e of Inl x \<Rightarrow> length (o_new_id x) = 32 \<and> list_all hex_lower (o_new_id x)
                              | Inr ar \<Rightarrow> True)"
    and "n \<le> 16384"
  shows "cb_load (Some (n, Inr (cause_py
           (run (\<lambda>b e. case e of Inl x \<Rightarrow> cb_step boot b x | Inr (a, r) \<Rightarrow> cb_dispatched b a r) cb_init es))))
         = Inr (cause_py
           (run (\<lambda>b e. case e of Inl x \<Rightarrow> cb_step boot b x | Inr (a, r) \<Rightarrow> cb_dispatched b a r) cb_init es))"
proof -
  let ?f = "\<lambda>b e. case e of Inl x \<Rightarrow> cb_step boot b x | Inr (a, r) \<Rightarrow> cb_dispatched b a r"
  have "cause_inv (run ?f b es)" if "cause_inv b" for b
    using that assms(1)
  proof (induction es arbitrary: b)
    case (Cons e es)
    then have "cause_inv (?f b e)"
      by (auto simp: cause_inv_step cause_inv_dispatched split: sum.splits prod.splits)
    with Cons show ?case by simp
  qed simp
  moreover have "cause_inv cb_init" by (simp add: cause_inv_def cb_init_def)
  ultimately show ?thesis using cause_py_loads assms(2) by blast
qed

definition ex_fault :: observation_event where
  "ex_fault = \<lparr>o_new_id = replicate 32 (CHR ''a''), o_domain = ''MEDIA_FAILURE'',
     o_reason = ''input_not_live'', o_replicas = Some 0, o_now = 3\<rparr>"

theorem cause_bookmark_reloads_witness:
  "cb_load (Some (400, Inr (cause_py (cb_dispatched (cb_step ''boot'' cb_init ex_fault) ''START'' ''SUCCEEDED''))))
     = Inr (cause_py (cb_dispatched (cb_step ''boot'' cb_init ex_fault) ''START'' ''SUCCEEDED''))"
  using cause_bookmark_reloads [of "[Inl ex_fault, Inr (''START'', ''SUCCEEDED'')]" 400 "''boot''"]
  by (simp add: ex_fault_def list_all_iff hex_lower_def)

text \<open>The settling timer of the current cause, as seen in one boot.\<close>

definition clear_timer :: "string \<Rightarrow> cause_state \<Rightarrow> seconds option" where
  "clear_timer boot b = (case b_current b of None \<Rightarrow> None
     | Some k \<Rightarrow> if k_clear_boot k = Some boot then k_clear_since k else None)"

definition quiet :: "observation_event \<Rightarrow> bool" where
  "quiet e \<longleftrightarrow> o_domain e = ''HEALTHY'' \<and> o_replicas e = Some 0"

definition clearing :: "string \<Rightarrow> cause_state \<Rightarrow> observation_event \<Rightarrow> bool" where
  "clearing boot b e \<longleftrightarrow> quiet e \<and> b_current b \<noteq> None \<and>
     o_now e - (case clear_timer boot b of None \<Rightarrow> o_now e | Some t \<Rightarrow> t) < 180"

lemma quiet_not_problem: "quiet e \<Longrightarrow> \<not> is_problem (o_domain e) (o_replicas e)"
  by (simp add: quiet_def is_problem_def)

interpretation settle: hold_timer "cb_step boot" "clear_timer boot" o_now "clearing boot" for boot
proof
  fix b e
  show "clear_timer boot (cb_step boot b e) = hold (clearing boot b e) (o_now e) (clear_timer boot b)"
  proof (cases "quiet e")
    case True
    then show ?thesis using quiet_not_problem [OF True]
      by (cases "b_current b")
         (auto simp: cb_step_def cb_transition_def clear_timer_def clearing_def hold_def quiet_def Let_def)
  next
    case False
    then show ?thesis
      by (cases "b_current b")
         (auto simp: cb_step_def cb_transition_def clear_timer_def clearing_def hold_def quiet_def)
  qed
qed

text \<open>a cause closes only after a full settling window. When an observation closes the
  current cause, the history of this process ends in an unbroken run of observations that were
  all HEALTHY with zero fallback replicas and that spans at least 180 seconds, provided the
  process started without a running settling timer of its own boot.\<close>

theorem cause_closes_after_settling:
  assumes "clear_timer boot b = None" and "cb_event boot (run (cb_step boot) b es) e = Some ''cause_closed''"
  shows "\<exists>pre f post. es @ [e] = pre @ f # post \<and> o_now e - o_now f \<ge> 180 \<and> (\<forall>x \<in> set (f # post). quiet x)"
proof -
  let ?u = "run (cb_step boot) b es"
  from assms(2) have q: "quiet e" and ne: "b_current ?u \<noteq> None"
    and ge: "o_now e - (case clear_timer boot ?u of None \<Rightarrow> o_now e | Some t \<Rightarrow> t) \<ge> 180"
    by (auto simp: cb_event_def cb_transition_def quiet_def is_problem_def clear_timer_def Let_def
             split: option.splits if_splits)
  from ge obtain t where t: "clear_timer boot ?u = Some t" by (auto split: option.splits)
  with settle.since_unbroken [OF assms(1)] obtain pre f post where
    h: "es = pre @ f # post" "o_now f = t"
      "\<forall>(u, x) \<in> set (trail (cb_step boot) (run (cb_step boot) b pre) (f # post)). clearing boot u x" by blast
  from h(3) have "\<forall>x \<in> set (f # post). quiet x"
    unfolding clearing_def using in_trail [of _ "f # post"] by fast
  with h q ge t show ?thesis by (intro exI [of _ pre] exI [of _ f] exI [of _ "post @ [e]"]) auto
qed

definition ex_quiet :: "seconds \<Rightarrow> observation_event" where
  "ex_quiet t = \<lparr>o_new_id = [], o_domain = ''HEALTHY'', o_reason = ''progress_confirmed'',
     o_replicas = Some 0, o_now = t\<rparr>"

theorem cause_closes_after_settling_witness:
  "cb_event ''boot'' (run (cb_step ''boot'') cb_init [ex_fault, ex_quiet 10, ex_quiet 60]) (ex_quiet 190)
     = Some ''cause_closed'' \<and>
   (\<exists>pre f post. [ex_fault, ex_quiet 10, ex_quiet 60] @ [ex_quiet 190] = pre @ f # post \<and>
      o_now (ex_quiet 190) - o_now f \<ge> 180 \<and> (\<forall>x \<in> set (f # post). quiet x))"
proof -
  have ev: "cb_event ''boot'' (run (cb_step ''boot'') cb_init [ex_fault, ex_quiet 10, ex_quiet 60]) (ex_quiet 190)
      = Some ''cause_closed''"
    by (simp add: cb_event_def cb_step_def cb_transition_def cb_init_def ex_fault_def ex_quiet_def
        is_problem_def Let_def)
  have "clear_timer ''boot'' cb_init = None" by (simp add: clear_timer_def cb_init_def)
  from cause_closes_after_settling [OF this ev] ev show ?thesis by blast
qed

end
