(* ===== verification/Maintenance_State.thy ===== *)
theory Maintenance_State
  imports Py_Prelude
begin

text \<open>
  \<open>ops/selfheal/maintenance_state.py\<close>: the durable maintenance session and the guard that
  other controllers consult before an effect.

  What the operating system reports (the \<open>lstat\<close> of the directory, the opened file with its
  type, size, mode, owner and decoded content) is an argument; the functions are the checks
  made on it. The interleaving of the guard with the session's own changes under the file
  lock is the step relation \<open>lock_step\<close>: the shared holder checks the guard and applies the
  effect, the exclusive holder rewrites the phase.
\<close>

unbundle bit_operations_syntax

section \<open>Session files\<close>

definition SESSION_SCHEMA :: string where "SESSION_SCHEMA = ''stream_v3.manual_maintenance.v1''"

definition PHASES :: "string list" where
  "PHASES = [''NORMAL'', ''PREPARING'', ''AWAITING_SLATE_CONFIRMATION'', ''MAINTENANCE'',
             ''RESUMING'', ''VERIFYING'', ''RESTORING'']"

record file_info =
  fi_regular :: bool
  fi_size :: nat
  fi_mode :: nat
  fi_uid :: nat
  fi_read_len :: nat
  fi_json :: "py res"

text \<open>\<open>open\<close> may fail (\<open>Inl OSError\<close>); \<open>fi_json\<close> is the outcome of decoding the bytes read.\<close>

definition read_json :: "file_info res \<Rightarrow> nat option \<Rightarrow> nat \<Rightarrow> py res" where
  "read_json opened uid limit =
     bindE opened (\<lambda>f.
     bindE (requireE (\<not> (\<not> fi_regular f \<or> fi_size f > limit \<or> fi_mode f AND 18 \<noteq> 0
                         \<or> (case uid of None \<Rightarrow> False | Some u \<Rightarrow> fi_uid f \<noteq> u)))
              (ValueError ''untrusted_state_file'')) (\<lambda>_.
     bindE (requireE (fi_read_len f \<le> limit) (ValueError ''oversized_state'')) (\<lambda>_.
     fi_json f)))"

datatype lstat = Missing | Unreadable | Directory nat nat | Other

record guard =
  g_inhibited :: bool
  g_reason :: string
  g_phase :: string
  g_session_id :: py
  g_overdue :: bool
  g_generation :: "int option"

definition guard_invalid :: guard where
  "guard_invalid = \<lparr>g_inhibited = True, g_reason = ''maintenance_state_invalid'', g_phase = ''UNKNOWN'',
     g_session_id = PNone, g_overdue = False, g_generation = None\<rparr>"

definition guard_value :: "py \<Rightarrow> seconds \<Rightarrow> guard res" where
  "guard_value value now =
     bindE (py_getitem value ''phase'') (\<lambda>phase.
     bindE (py_getitem value ''schema'') (\<lambda>schema.
     bindE (allE [Inr (py_eq schema (PStr SESSION_SCHEMA)),
                  (case phase of PStr p \<Rightarrow> Inr (p \<in> set PHASES)
                     | PList _ \<Rightarrow> Inl TypeError | PDict _ \<Rightarrow> Inl TypeError | _ \<Rightarrow> Inr False),
                  bindE (py_getitem value ''generation'') (\<lambda>g. Inr (is_int g))]) (\<lambda>ok.
     if \<not> ok then Inr guard_invalid
     else
       (case phase of PStr p \<Rightarrow>
          if p \<noteq> ''NORMAL'' then
            bindE (py_getitem value ''deadline'') (\<lambda>dl.
            bindE (py_getitem value ''session_id'') (\<lambda>sid.
            case finite_num dl of
              None \<Rightarrow> Inr guard_invalid
            | Some d \<Rightarrow>
                if \<not> is_str sid \<or> \<not> py_truthy sid then Inr guard_invalid
                else bindE (py_getitem value ''generation'') (\<lambda>g.
                  Inr \<lparr>g_inhibited = True, g_reason = ''manual_maintenance'', g_phase = p,
                       g_session_id = sid, g_overdue = (now \<ge> d),
                       g_generation = (case g of PInt n \<Rightarrow> Some n | _ \<Rightarrow> None)\<rparr>)))
          else
            bindE (py_get value ''session_id'') (\<lambda>sid.
            bindE (py_getitem value ''generation'') (\<lambda>g.
              Inr \<lparr>g_inhibited = False, g_reason = ''normal'', g_phase = p, g_session_id = sid,
                   g_overdue = False, g_generation = (case g of PInt n \<Rightarrow> Some n | _ \<Rightarrow> None)\<rparr>))
        | _ \<Rightarrow> Inr guard_invalid))))"

definition guard :: "lstat \<Rightarrow> file_info res \<Rightarrow> nat \<Rightarrow> seconds \<Rightarrow> guard" where
  "guard dir session uid now = (case dir of
      Missing \<Rightarrow> guard_invalid\<lparr>g_inhibited := False, g_reason := ''not_installed'', g_phase := ''NORMAL''\<rparr>
    | Unreadable \<Rightarrow> guard_invalid
    | Other \<Rightarrow> guard_invalid
    | Directory mode owner \<Rightarrow>
        if mode AND 18 \<noteq> 0 \<or> owner \<noteq> uid then guard_invalid
        else (case bindE (read_json session (Some uid) 65536) (\<lambda>v. guard_value v now) of
                Inl e \<Rightarrow> guard_invalid
              | Inr g \<Rightarrow> g))"

section \<open>Store\<close>

definition store_initial :: py where
  "store_initial = PDict [(''schema'', PStr SESSION_SCHEMA), (''phase'', PStr ''NORMAL''), (''generation'', PInt 0),
     (''session_id'', PNone), (''effects'', PList []), (''history'', PList [])]"

definition store_read :: "file_info res \<Rightarrow> py res" where
  "store_read session =
     bindE (read_json session None 65536) (\<lambda>v.
     bindE (py_get v ''schema'') (\<lambda>schema.
     bindE (if \<not> py_eq schema (PStr SESSION_SCHEMA) then Inr False
            else bindE (py_get v ''phase'') (\<lambda>p. case p of PStr s \<Rightarrow> Inr (s \<in> set PHASES)
                     | PList _ \<Rightarrow> Inl TypeError | PDict _ \<Rightarrow> Inl TypeError | _ \<Rightarrow> Inr False)) (\<lambda>ok.
     bindE (requireE ok (ValueError ''invalid_session'')) (\<lambda>_. Inr v))))"

definition trusted_file :: "nat \<Rightarrow> py \<Rightarrow> file_info res" where
  "trusted_file uid v = Inr \<lparr>fi_regular = True, fi_size = 512, fi_mode = 420, fi_uid = uid,
     fi_read_len = 512, fi_json = Inr v\<rparr>"

section \<open>Facts about the guard\<close>

lemma guard_value_normal:
  assumes "guard_value v now = Inr g" and "\<not> g_inhibited g"
  shows "\<exists>xs. v = PDict xs \<and> map_of xs ''phase'' = Some (PStr ''NORMAL'') \<and>
           map_of xs ''schema'' = Some (PStr SESSION_SCHEMA) \<and> (\<exists>n. map_of xs ''generation'' = Some (PInt n))"
  using assms
  by (auto simp: guard_value_def guard_invalid_def py_getitem_Inr is_int_iff bindE_def
           split: py.splits if_splits option.splits sum.splits)

text \<open>C38: the maintenance guard fails closed. It reports no inhibition only when the session
  directory does not exist, or when the directory and the session file are owned by the
  expected user, not writable by others, and hold a well-formed session in phase NORMAL; every
  unreadable, untrusted or malformed state, and every other phase (overdue or not), inhibits.\<close>

theorem guard_fails_closed:
  assumes "\<not> g_inhibited (guard dir session uid now)"
  shows "dir = Missing \<or>
    (\<exists>mode f xs. dir = Directory mode uid \<and> mode AND 18 = 0 \<and> session = Inr f \<and>
       fi_regular f \<and> fi_uid f = uid \<and> fi_mode f AND 18 = 0 \<and> fi_size f \<le> 65536 \<and>
       fi_json f = Inr (PDict xs) \<and> map_of xs ''phase'' = Some (PStr ''NORMAL'') \<and>
       map_of xs ''schema'' = Some (PStr SESSION_SCHEMA))"
proof (cases dir)
  case (Directory mode owner)
  with assms have m: "mode AND 18 = 0" "owner = uid"
    by (auto simp: guard_def guard_invalid_def split: if_splits)
  with assms Directory obtain g where
    "bindE (read_json session (Some uid) 65536) (\<lambda>v. guard_value v now) = Inr g" "\<not> g_inhibited g"
    by (auto simp: guard_def guard_invalid_def split: sum.splits)
  then obtain v where rv: "read_json session (Some uid) 65536 = Inr v" "guard_value v now = Inr g"
    by auto
  with guard_value_normal [OF rv(2) \<open>\<not> g_inhibited g\<close>] m Directory show ?thesis
    by (auto simp: read_json_def not_less)
qed (use assms in \<open>auto simp: guard_def guard_invalid_def\<close>)

theorem guard_fails_closed_witness:
  "\<not> g_inhibited (guard (Directory 493 0) (trusted_file 0 store_initial) 0 5) \<and>
   (\<exists>xs. store_initial = PDict xs \<and> map_of xs ''phase'' = Some (PStr ''NORMAL''))"
proof -
  have "\<not> g_inhibited (guard (Directory 493 0) (trusted_file 0 store_initial) 0 5)"
    by (simp add: guard_def trusted_file_def store_initial_def read_json_def guard_value_def
        SESSION_SCHEMA_def PHASES_def py_get_def)
  with guard_fails_closed [OF this] show ?thesis
    by (auto simp: trusted_file_def)
qed

section \<open>The lock protocol\<close>

text \<open>
  Any number of guarded clients (\<open>scale_if_allowed\<close>) and maintenance sessions (\<open>Store.lock\<close>)
  run against one lock file. A client takes the lock shared, consults the guard and applies
  its effect only when the guard is not inhibited; a session takes it exclusively, rewrites
  the phase any number of times and releases it. Both lock requests are nonblocking: a request
  that conflicts fails and changes nothing.
\<close>

datatype client_pc = Idle | Locked | Cleared

record lock_state =
  ls_phase :: string
  ls_exclusive :: "nat option"
  ls_clients :: "nat \<Rightarrow> client_pc"
  ls_effects :: "string list"

definition lock_init :: "lock_state \<Rightarrow> bool" where
  "lock_init s \<longleftrightarrow> ls_phase s = ''NORMAL'' \<and> ls_exclusive s = None \<and> (\<forall>i. ls_clients s i = Idle) \<and>
     ls_effects s = []"

inductive lock_step :: "lock_state \<Rightarrow> lock_state \<Rightarrow> bool" where
  client_lock: "ls_clients s i = Idle \<Longrightarrow> ls_exclusive s = None \<Longrightarrow>
     lock_step s (s\<lparr>ls_clients := (ls_clients s)(i := Locked)\<rparr>)"
| client_guard: "ls_clients s i = Locked \<Longrightarrow>
     lock_step s (s\<lparr>ls_clients := (ls_clients s)(i := (if ls_phase s = ''NORMAL'' then Cleared else Idle))\<rparr>)"
| client_effect: "ls_clients s i = Cleared \<Longrightarrow>
     lock_step s (s\<lparr>ls_clients := (ls_clients s)(i := Idle), ls_effects := ls_phase s # ls_effects s\<rparr>)"
| session_lock: "ls_exclusive s = None \<Longrightarrow> (\<forall>i. ls_clients s i = Idle) \<Longrightarrow>
     lock_step s (s\<lparr>ls_exclusive := Some j\<rparr>)"
| session_write: "ls_exclusive s = Some j \<Longrightarrow> p \<in> set PHASES \<Longrightarrow> lock_step s (s\<lparr>ls_phase := p\<rparr>)"
| session_unlock: "ls_exclusive s = Some j \<Longrightarrow> lock_step s (s\<lparr>ls_exclusive := None\<rparr>)"

inductive_cases lock_stepE: "lock_step s t"

definition lock_inv :: "lock_state \<Rightarrow> bool" where
  "lock_inv s \<longleftrightarrow>
     (\<forall>i. ls_clients s i \<noteq> Idle \<longrightarrow> ls_exclusive s = None) \<and>
     (\<forall>i. ls_clients s i = Cleared \<longrightarrow> ls_phase s = ''NORMAL'') \<and>
     (\<forall>p \<in> set (ls_effects s). p = ''NORMAL'')"

interpretation lk: invariant_system lock_init lock_step lock_inv
proof
  fix s :: lock_state
  assume "lock_init s"
  then show "lock_inv s" by (simp add: lock_init_def lock_inv_def)
next
  fix s t
  assume "lock_inv s" "lock_step s t"
  then show "lock_inv t"
    by (elim lock_stepE) (auto simp: lock_inv_def split: if_splits)
qed


definition ex_lock :: lock_state where
  "ex_lock = \<lparr>ls_phase = ''NORMAL'', ls_exclusive = None, ls_clients = (\<lambda>_. Idle), ls_effects = []\<rparr>"


end
