(* ===== verification/Fallback_Controller.thy ===== *)
theory Fallback_Controller
  imports Clock_Contract Route_Assessment Maintenance_State
begin

text \<open>
  \<open>ops/selfheal/fallback_controller.py\<close>: the controller that adds and removes the direct
  YouTube backup.

  The theory follows the file: validation of the relay facts (\<open>copy_route_sample\<close>), the
  observation (\<open>observe_facts\<close>, \<open>observe_direct\<close>), the class \<open>Controller\<close> (\<open>healthy\<close>,
  \<open>combine_transport\<close>, \<open>decide\<close>), the guarded effect (\<open>scale_if_allowed\<close>), the status document
  and the body of the main loop (\<open>controller_cycle\<close>). Network replies, clock readings, the
  Kubernetes replica count, file contents and the outcome of \<open>kubectl\<close> are inputs of one cycle.
  The diagnostic dictionary is an association list threaded through the validation, because
  the code updates it before it raises.
\<close>

section \<open>Constants\<close>

definition START_AFTER :: seconds where "START_AFTER = 30"
definition STOP_AFTER :: seconds where "STOP_AFTER = 300"
definition MAX_SAMPLE_GAP :: seconds where "MAX_SAMPLE_GAP = 45"
definition MAX_FACT_AGE :: seconds where "MAX_FACT_AGE = 20"

type_synonym diagnostic = "(string \<times> py) list"

definition setD :: "string \<Rightarrow> py \<Rightarrow> (diagnostic, unit) act" where
  "setD k v = modS (aset k v)"

definition updD :: "diagnostic \<Rightarrow> (diagnostic, unit) act" where
  "updD kvs = modS (\<lambda>d. aupdate d kvs)"

definition pyf :: "rat \<Rightarrow> py" where "pyf q = PFloat (Fin q)"

section \<open>Time stamps\<close>

definition replace_Z :: "string \<Rightarrow> string" where
  "replace_Z s = concat (map (\<lambda>c. if c = CHR ''Z'' then ''+00:00'' else [c]) s)"

text \<open>
  \<open>fromiso\<close> is \<open>datetime.fromisoformat\<close>: nothing for a ValueError, otherwise whether the stamp
  carries a time zone and its POSIX time. \<open>cap\<close> is the capture made inside \<open>age_bounds\<close>.
\<close>

definition check_timestamp ::
  "(string \<Rightarrow> (bool \<times> seconds) option) \<Rightarrow> py \<Rightarrow> seconds \<Rightarrow> string \<Rightarrow> estimate \<Rightarrow> capture res \<Rightarrow>
   (diagnostic, unit) act" where
  "check_timestamp fromiso value now name model cap =
     bindS (requireS (is_str value \<and> str_len value \<le> 40) (ObservationRejected ''timestamp_invalid'')) (\<lambda>_.
     bindS (liftS (case value of
              PStr s \<Rightarrow> (case fromiso (replace_Z s) of
                 None \<Rightarrow> Inl (ValueError ''isoformat'') | Some x \<Rightarrow> Inr x)
            | _ \<Rightarrow> Inl AttributeError)) (\<lambda>(aware, stamp).
     bindS (requireS aware (ObservationRejected ''timestamp_invalid'')) (\<lambda>_.
     bindS (if name = ''source'' then setD ''source_observed_at'' value else retS ()) (\<lambda>_.
     bindS (setD (name @ ''_age_seconds'') (pyf (py_round 3 (now - stamp)))) (\<lambda>_.
     bindS (liftS (bindE cap (\<lambda>c. age_bounds model (pyf stamp) c))) (\<lambda>(lo, hi).
     bindS (setD (name @ ''_age_bounds_seconds'') (PList [pyf (py_round 6 lo), pyf (py_round 6 hi)])) (\<lambda>_.
     bindS (requireS (hi \<ge> - EPSILON) (ObservationRejected (name @ ''_future''))) (\<lambda>_.
     requireS (hi \<le> MAX_FACT_AGE) (ObservationRejected (name @ ''_stale''))))))))))"

section \<open>Route facts\<close>

text \<open>\<open>counter\<close>: \<open>type(value) is int and value >= 0\<close>.\<close>

definition counter :: "py \<Rightarrow> bool" where
  "counter v = (case v of PInt n \<Rightarrow> n \<ge> 0 | _ \<Rightarrow> False)"

record youtube =
  y_state :: py
  y_error :: bool
  y_outbound :: "int option"
  y_video_packets :: "int option"
  y_audio_packets :: "int option"

record sample =
  s_ready :: bool
  s_bytes_received :: int
  s_identity :: "(string \<times> int \<times> py \<times> string \<times> string) option"
  s_source_monotonic :: "seconds option"
  s_received_monotonic :: seconds
  s_received_boottime :: "seconds option"
  s_copy_updated_at :: "string option"
  s_copy_observation_new :: bool
  s_copy_observation_fresh :: bool
  s_youtube :: "youtube option"
  s_relay_unavailable :: bool
  s_copy_unavailable :: "string option"

definition blank_sample :: "seconds \<Rightarrow> sample" where
  "blank_sample received = \<lparr>s_ready = False, s_bytes_received = 0, s_identity = None,
     s_source_monotonic = None, s_received_monotonic = received, s_received_boottime = None,
     s_copy_updated_at = None, s_copy_observation_new = False, s_copy_observation_fresh = False,
     s_youtube = None, s_relay_unavailable = False, s_copy_unavailable = None\<rparr>"

definition item :: "py \<Rightarrow> string \<Rightarrow> (diagnostic, py) act" where
  "item v k = liftS (py_getitem v k)"

definition needS :: "bool res list \<Rightarrow> string \<Rightarrow> (diagnostic, unit) act" where
  "needS conds reason = liftS (checkE conds (ObservationRejected reason))"

definition positive_counter :: "py \<Rightarrow> bool" where
  "positive_counter v = (case v of PInt n \<Rightarrow> n > 0 | _ \<Rightarrow> False)"

definition nonneg_number :: "py \<Rightarrow> bool" where
  "nonneg_number v = (case finite_num v of None \<Rightarrow> False | Some q \<Rightarrow> q \<ge> 0)"

definition nonempty_str :: "py \<Rightarrow> bool" where
  "nonempty_str v = (case v of PStr s \<Rightarrow> s \<noteq> [] | _ \<Rightarrow> False)"

definition int_of :: "py \<Rightarrow> int" where
  "int_of v = (case v of PInt n \<Rightarrow> n | _ \<Rightarrow> 0)"

definition str_of :: "py \<Rightarrow> string" where
  "str_of v = (case v of PStr s \<Rightarrow> s | _ \<Rightarrow> [])"

definition num_val :: "py \<Rightarrow> seconds" where
  "num_val v = (case finite_num v of None \<Rightarrow> 0 | Some q \<Rightarrow> q)"

text \<open>The declared stop of the relay unit.\<close>

definition offline_input :: py where
  "offline_input = PDict [(''available'', PBool False), (''ready'', PBool False), (''online'', PBool False),
     (''content_state'', PStr ''OFFLINE''), (''connection_id'', PNone), (''bytes'', PInt 0)]"

definition relay_stopped :: "py \<Rightarrow> py \<Rightarrow> py \<Rightarrow> seconds \<Rightarrow> (diagnostic, sample option) act" where
  "relay_stopped availability raw cp received =
     bindS (needS [Inr (py_eq availability (PDict [(''schema'', PStr ''stream_v3.relay_availability.v1''),
              (''state'', PStr ''STOPPED''), (''reason'', PStr ''unit_not_running'')]))]
            ''relay_availability_invalid'') (\<lambda>_.
     bindS (needS [has raw ''relay'' (\<lambda>r. py_eq r (PDict [(''active'', PBool False), (''pid'', PInt 0)])),
              has2 raw ''relay'' ''active'' (\<lambda>x. x = PBool False), has2 raw ''relay'' ''pid'' is_int,
              Inr (cp = PNone), has raw ''input'' (\<lambda>x. py_eq x offline_input),
              has2 raw ''input'' ''available'' (\<lambda>x. x = PBool False),
              has2 raw ''input'' ''ready'' (\<lambda>x. x = PBool False),
              has2 raw ''input'' ''online'' (\<lambda>x. x = PBool False), has2 raw ''input'' ''bytes'' is_int,
              has raw ''destinations'' (\<lambda>x. py_eq x (PDict [])), has raw ''boot_id'' nonempty_str,
              has raw ''monotonic_seconds'' nonneg_number] ''relay_availability_invalid'') (\<lambda>_.
     bindS (updD [(''health'', PStr ''UNHEALTHY''), (''reason'', PStr ''relay_unit_not_running'')]) (\<lambda>_.
     bindS (item raw ''monotonic_seconds'') (\<lambda>ms.
     retS (Some ((blank_sample received)\<lparr>s_source_monotonic := Some (num_val ms),
                  s_relay_unavailable := True\<rparr>))))))"

text \<open>The declared stop or stall of the YouTube copy.\<close>

definition copy_stalled_checks :: "py \<Rightarrow> py \<Rightarrow> py \<Rightarrow> py \<Rightarrow> py \<Rightarrow> py \<Rightarrow> string \<Rightarrow> bool res list" where
  "copy_stalled_checks ca raw cp state pid age destination =
     [Inr (py_eq state (PStr ''STALLED'')),
      Inr (case finite_num age of None \<Rightarrow> False | Some q \<Rightarrow> q > 20),
      has ca ''reason'' (\<lambda>x. py_eq x (PStr ''heartbeat_not_advancing'')),
      Inr (positive_counter pid), Inr (is_dict cp),
      has cp ''schema'' (\<lambda>x. py_eq x (PStr ''stream_v3.youtube_forward.v1'')),
      has cp ''pid'' is_int, has cp ''pid'' (\<lambda>x. py_eq x pid),
      bindE (py_getitem cp ''boot_id'') (\<lambda>b. has raw ''boot_id'' (\<lambda>b'. py_eq b b')),
      has cp ''destination_fingerprint'' (\<lambda>x. py_eq x (PStr destination)),
      has cp ''session'' counter, has cp ''session'' positive_counter,
      has ca ''session'' is_int,
      bindE (py_getitem cp ''session'') (\<lambda>a. has ca ''session'' (\<lambda>b. py_eq a b)),
      has cp ''state'' (\<lambda>x. x \<in> PStr ` {''FLOWING'', ''CONNECTING'', ''ERROR''}),
      has cp ''output_bytes'' counter, has cp ''video_packets'' counter, has cp ''audio_packets'' counter]"

definition copy_unavailable :: "py \<Rightarrow> py \<Rightarrow> py \<Rightarrow> string \<Rightarrow> seconds \<Rightarrow> (diagnostic, sample option) act" where
  "copy_unavailable ca raw cp destination received =
     bindS (needS [has ca ''schema'' (\<lambda>x. py_eq x (PStr ''stream_v3.copy_availability.v1'')),
              has ca ''destination_fingerprint'' (\<lambda>x. py_eq x (PStr destination)),
              has2 raw ''relay'' ''active'' (\<lambda>x. x = PBool True), has2 raw ''relay'' ''pid'' counter,
              has2 raw ''relay'' ''pid'' positive_counter] ''copy_availability_invalid'') (\<lambda>_.
     bindS (item ca ''state'') (\<lambda>state.
     bindS (item ca ''pid'') (\<lambda>pid.
     bindS (if py_eq state (PStr ''STOPPED'')
            then bindS (needS [Inr (is_int pid), Inr (py_eq pid (PInt 0)), Inr (cp = PNone),
                         has ca ''reason'' (\<lambda>x. py_eq x (PStr ''unit_not_running''))]
                        ''copy_availability_invalid'') (\<lambda>_. retS ''copy_unit_not_running'')
            else bindS (item ca ''unobserved_for_sec'') (\<lambda>age.
                 bindS (needS (copy_stalled_checks ca raw cp state pid age destination)
                        ''copy_availability_invalid'') (\<lambda>_. retS ''copy_heartbeat_stalled''))) (\<lambda>reason.
     bindS (needS [has raw ''boot_id'' nonempty_str, has raw ''monotonic_seconds'' nonneg_number]
            ''copy_availability_invalid'') (\<lambda>_.
     bindS (updD [(''health'', PStr ''UNHEALTHY''), (''reason'', PStr reason)]) (\<lambda>_.
     retS (Some ((blank_sample received)\<lparr>s_copy_unavailable := Some reason\<rparr>))))))))"

text \<open>Freshness of the copy observation: whether it is fresh and whether it is new.\<close>

definition copy_observation :: "py \<Rightarrow> seconds \<Rightarrow> (diagnostic, bool \<times> bool) act" where
  "copy_observation observation source_age =
     (if observation = PNone then retS (False, False)
      else bindS (item observation ''age_seconds'') (\<lambda>age.
           bindS (needS [has observation ''schema'' (\<lambda>x. py_eq x (PStr ''stream_v3.copy_observation.v1'')),
                    Inr (nonneg_number age), has observation ''confirmed'' is_bool,
                    has observation ''new_observation'' is_bool] ''copy_observation_invalid'') (\<lambda>_.
           bindS (item observation ''confirmed'') (\<lambda>confirmed.
           bindS (item observation ''new_observation'') (\<lambda>new.
           let mono_fresh = (confirmed = PBool True \<and> num_val age + max 0 source_age \<le> MAX_FACT_AGE)
           in retS (mono_fresh, mono_fresh \<and> new = PBool True))))))"

definition forward_ident :: "py \<Rightarrow> string" where
  "forward_ident cp = ''youtube-forward-'' @ int_str (int_of (dget (case cp of PDict xs \<Rightarrow> xs | _ \<Rightarrow> []) ''pid''))
     @ ''-'' @ int_str (int_of (dget (case cp of PDict xs \<Rightarrow> xs | _ \<Rightarrow> []) ''session''))"

text \<open>The live sample: bound counters of a running relay and copy.\<close>

definition live_sample ::
  "py \<Rightarrow> py \<Rightarrow> string \<Rightarrow> seconds \<Rightarrow> seconds \<Rightarrow> bool \<Rightarrow> bool \<Rightarrow> (diagnostic, sample option) act" where
  "live_sample raw cp destination received boottime mono_fresh copy_new =
     bindS (needS [has cp ''updated_at'' (\<lambda>x. is_str x \<and> str_len x \<le> 40),
                   has cp ''last_progress_at'' (\<lambda>x. is_str x \<and> str_len x \<le> 40)] ''facts_invalid'') (\<lambda>_.
     bindS (needS [has cp ''schema'' (\<lambda>x. py_eq x (PStr ''stream_v3.youtube_forward.v1'')),
              bindE (py_getitem cp ''boot_id'') (\<lambda>b. has raw ''boot_id'' (\<lambda>b'. py_eq b b')),
              has cp ''destination_fingerprint'' (\<lambda>x. py_eq x (PStr destination))] ''copy_binding_mismatch'') (\<lambda>_.
     bindS (needS [has cp ''state'' (\<lambda>x. x \<in> PStr ` {''FLOWING'', ''CONNECTING'', ''ERROR''})] ''facts_invalid'') (\<lambda>_.
     bindS (needS [has cp ''pid'' counter, has cp ''pid'' positive_counter, has cp ''session'' counter,
              has cp ''session'' positive_counter] ''copy_identity_invalid'') (\<lambda>_.
     bindS (item raw ''input'') (\<lambda>incoming.
     bindS (item raw ''destinations'') (\<lambda>ds.
     bindS (item ds ''youtube'') (\<lambda>yt.
     bindS (needS [has yt ''id'' (\<lambda>x. py_eq x (PStr (forward_ident cp))),
              has yt ''state'' (\<lambda>x. x \<in> PStr ` {''forwarding'', ''unknown'', ''idle'', ''connecting''})]
            ''copy_binding_mismatch'') (\<lambda>_.
     bindS (needS [has raw ''boot_id'' nonempty_str, has2 raw ''relay'' ''pid'' counter,
              has2 raw ''relay'' ''pid'' positive_counter, has2 raw ''relay'' ''active'' is_bool] ''facts_invalid'') (\<lambda>_.
     bindS (needS [has incoming ''ready'' is_bool, has incoming ''available'' is_bool] ''facts_invalid'') (\<lambda>_.
     bindS (liftS (allE [has2 raw ''relay'' ''active'' (\<lambda>x. x = PBool True), has incoming ''ready'' (\<lambda>x. x = PBool True),
              has incoming ''available'' (\<lambda>x. x = PBool True)])) (\<lambda>ready.
     bindS (liftS (allE [bindE (py_get_dflt incoming ''content_state'' (PStr ''LIVE'')) (\<lambda>x. Inr (py_eq x (PStr ''LIVE''))),
              bindE (py_get_dflt incoming ''online'' (PBool True)) (\<lambda>x. Inr (x = PBool True))])) (\<lambda>live.
     bindS (item incoming ''connection_id'') (\<lambda>connection.
     bindS (needS [Inr (nonempty_str connection \<or> \<not> ready \<or> \<not> live)] ''facts_invalid'') (\<lambda>_.
     bindS (needS [bindE (py_getitem incoming ''bytes'') (\<lambda>a. bindE (py_getitem cp ''output_bytes'') (\<lambda>b.
              bindE (py_getitem cp ''video_packets'') (\<lambda>c. bindE (py_getitem cp ''audio_packets'') (\<lambda>d.
              Inr (counter a \<and> counter b \<and> counter c \<and> counter d)))))] ''facts_invalid'') (\<lambda>_.
     bindS (needS [has raw ''monotonic_seconds'' nonneg_number] ''facts_invalid'') (\<lambda>_.
     bindS (updD [(''health'', PStr ''UNKNOWN''), (''reason'', PStr ''baseline_required'')]) (\<lambda>_.
     bindS (item raw ''boot_id'') (\<lambda>boot. bindS (item raw ''relay'') (\<lambda>relay. bindS (item relay ''pid'') (\<lambda>rpid.
     bindS (item raw ''monotonic_seconds'') (\<lambda>ms. bindS (item incoming ''bytes'') (\<lambda>bytes.
     bindS (item cp ''updated_at'') (\<lambda>upd. bindS (item cp ''state'') (\<lambda>cstate. bindS (item yt ''state'') (\<lambda>ystate.
     bindS (item cp ''output_bytes'') (\<lambda>ob. bindS (item cp ''video_packets'') (\<lambda>vp. bindS (item cp ''audio_packets'') (\<lambda>ap.
     retS (Some \<lparr>s_ready = (ready \<and> live), s_bytes_received = int_of bytes,
       s_identity = Some (str_of boot, int_of rpid, connection, forward_ident cp, destination),
       s_source_monotonic = Some (num_val ms), s_received_monotonic = received,
       s_received_boottime = Some boottime, s_copy_updated_at = Some (str_of upd),
       s_copy_observation_new = copy_new, s_copy_observation_fresh = mono_fresh,
       s_youtube = Some \<lparr>y_state = ystate, y_error = (\<not> py_eq cstate (PStr ''FLOWING'')),
         y_outbound = Some (int_of ob), y_video_packets = Some (int_of vp), y_audio_packets = Some (int_of ap)\<rparr>,
       s_relay_unavailable = False, s_copy_unavailable = None\<rparr>)))))))))))))))))))))))))))))"

definition route_body ::
  "string \<Rightarrow> py \<Rightarrow> string \<Rightarrow> string \<Rightarrow> seconds \<Rightarrow> seconds \<Rightarrow> seconds \<Rightarrow> (diagnostic, sample option) act" where
  "route_body host_id value machine destination received boottime source_age =
     bindS (liftS (bindE (py_get value ''relay_availability'') (\<lambda>a. if a \<noteq> PNone then Inr True
              else bindE (py_get value ''copy_availability'') (\<lambda>b. Inr (b \<noteq> PNone))))) (\<lambda>negative.
     bindS (needS [Inr (0 \<le> source_age \<and> source_age \<le> MAX_FACT_AGE)] ''source_freshness_unavailable'') (\<lambda>_.
     bindS (item value ''relay'') (\<lambda>raw. bindS (item value ''youtube_copy'') (\<lambda>cp.
     bindS (needS [has value ''schema'' (\<lambda>x. py_eq x (PStr ''stream_v3.route_facts.v1'')),
                   has raw ''schema'' (\<lambda>x. py_eq x (PStr ''stream.relay_raw.v1''))] ''schema_invalid'') (\<lambda>_.
     bindS (needS [has raw ''host_id'' (\<lambda>x. py_eq x (PStr host_id)), Inr (length machine = 64),
                   has raw ''machine_id_sha256'' (\<lambda>x. py_eq x (PStr machine)),
                   Inr (length destination = 64)] ''host_binding_mismatch'') (\<lambda>_.
     bindS (needS [has raw ''observed_at'' (\<lambda>x. is_str x \<and> str_len x \<le> 64)] ''facts_invalid'') (\<lambda>_.
     bindS (item raw ''observed_at'') (\<lambda>oa.
     bindS (updD [(''source_observed_at'', oa), (''source_age_bounds_seconds'', PList [pyf 0, pyf source_age]),
                  (if negative then ''negative_evidence_timing'' else ''media_evidence_timing'', PStr ''bound_boottime'')]) (\<lambda>_.
     bindS (liftS (py_get value ''relay_availability'')) (\<lambda>availability.
     if availability \<noteq> PNone then relay_stopped availability raw cp received
     else bindS (liftS (py_get value ''copy_availability'')) (\<lambda>ca.
       if ca \<noteq> PNone then copy_unavailable ca raw cp destination received
       else bindS (needS [Inr (is_dict cp)] ''copy_facts_missing'') (\<lambda>_.
            bindS (liftS (py_get value ''copy_observation'')) (\<lambda>obs.
            bindS (copy_observation obs source_age) (\<lambda>(mono_fresh, copy_new).
            bindS (needS [Inr mono_fresh] ''copy_freshness_unavailable'') (\<lambda>_.
            live_sample raw cp destination received boottime mono_fresh copy_new)))))))))))))))"

text \<open>The handlers. An exception outside the listed ones would escape; none is raised here.\<close>

definition route_handler :: "exn \<Rightarrow> (diagnostic, sample option) act" where
  "route_handler e = (case e of
       ObservationRejected r \<Rightarrow> bindS (setD ''reason'' (PStr r)) (\<lambda>_. retS None)
     | ClockRejected r \<Rightarrow> bindS (updD [(''reason'', PStr ''clock_unavailable''),
           (''clock'', PDict [(''status'', PStr ''UNKNOWN''), (''reason'', PStr r)])]) (\<lambda>_. retS None)
     | KeyError \<Rightarrow> retS None | ValueError _ \<Rightarrow> retS None | PolicyError _ \<Rightarrow> retS None
     | TypeError \<Rightarrow> retS None | AttributeError \<Rightarrow> retS None | OverflowError \<Rightarrow> retS None
     | _ \<Rightarrow> raiseS e)"

definition copy_route_sample ::
  "string \<Rightarrow> py \<Rightarrow> string \<Rightarrow> string \<Rightarrow> seconds \<Rightarrow> seconds \<Rightarrow> seconds \<Rightarrow> (diagnostic, sample option) act" where
  "copy_route_sample host_id value machine destination received boottime source_age =
     bindS (updD [(''health'', PStr ''UNKNOWN''), (''reason'', PStr ''facts_invalid'')]) (\<lambda>_.
     catchS (route_body host_id value machine destination received boottime source_age) route_handler)"

section \<open>Observation\<close>

text \<open>The outcome of one HTTP request.\<close>

datatype fetch = Fetched py | HttpError int | Timeout | UrlError bool | Failed

record facts_io =
  f_started :: "capture res"
  f_fetch :: fetch
  f_completed :: "capture res"
  f_http_started_at :: string
  f_http_completed_at :: string
  f_nonce :: string
  f_wall :: seconds
  f_label_capture :: "capture res"
  f_local_boot :: py
  f_received :: seconds
  f_boottime :: seconds

record config =
  cf_host_id :: string
  cf_machine :: string
  cf_destination :: string

text \<open>The UTC labels: diagnostic only.\<close>

definition label_checks ::
  "(string \<Rightarrow> (bool \<times> seconds) option) \<Rightarrow> facts_io \<Rightarrow> py \<Rightarrow> estimate \<Rightarrow> (string \<times> string \<times> string) list \<Rightarrow>
   (diagnostic, unit) act" where
  "label_checks fromiso io value model labels =
     foldr (\<lambda>(section, field, name) k.
        bindS (liftS (py_get value section)) (\<lambda>v.
        if v = PNone then k
        else bindS (item v field) (\<lambda>x.
             bindS (check_timestamp fromiso x (f_wall io) name model (f_label_capture io)) (\<lambda>_. k)))) labels (retS ())"

definition clock_labels ::
  "(string \<Rightarrow> (bool \<times> seconds) option) \<Rightarrow> config \<Rightarrow> facts_io \<Rightarrow> py \<Rightarrow> capture \<Rightarrow> capture \<Rightarrow> (diagnostic, unit) act" where
  "clock_labels fromiso cf io value started completed =
     catchS
       (bindS (liftS (py_get_dflt value ''clock'' (PDict []))) (\<lambda>ck.
        bindS (item value ''relay'') (\<lambda>relay. bindS (item relay ''boot_id'') (\<lambda>boot.
        bindS (liftS (estimate ck (PStr (f_nonce io)) started completed (cf_machine cf) (Some boot) (f_local_boot io))) (\<lambda>model.
        bindS (liftS (bindE (f_label_capture io) (\<lambda>c. est_diagnostic model c))) (\<lambda>dg.
        bindS (setD ''clock'' (PDict ((''status'', PStr ''VERIFIED'') # dg))) (\<lambda>_.
        label_checks fromiso io value model
          [(''relay'', ''observed_at'', ''source''), (''youtube_copy'', ''updated_at'', ''copy''),
           (''youtube_copy'', ''last_progress_at'', ''progress'')])))))))
       (\<lambda>e. case e of
          ClockRejected r \<Rightarrow> setD ''clock'' (PDict [(''status'', PStr ''UNKNOWN''), (''reason'', PStr r)])
        | ObservationRejected r \<Rightarrow> setD ''clock'' (PDict [(''status'', PStr ''UNKNOWN''), (''reason'', PStr r)])
        | KeyError \<Rightarrow> setD ''clock'' (PDict [(''status'', PStr ''UNKNOWN''), (''reason'', PStr ''clock_labels_invalid'')])
        | TypeError \<Rightarrow> setD ''clock'' (PDict [(''status'', PStr ''UNKNOWN''), (''reason'', PStr ''clock_labels_invalid'')])
        | ValueError _ \<Rightarrow> setD ''clock'' (PDict [(''status'', PStr ''UNKNOWN''), (''reason'', PStr ''clock_labels_invalid'')])
        | PolicyError _ \<Rightarrow> setD ''clock'' (PDict [(''status'', PStr ''UNKNOWN''), (''reason'', PStr ''clock_labels_invalid'')])
        | _ \<Rightarrow> raiseS e)"

text \<open>
  The request and its \<open>finally\<close> block: a failing capture in the block replaces the exception of
  the request. The second component is the failure of the request, if any.
\<close>

definition fetch_facts :: "facts_io \<Rightarrow> capture \<Rightarrow> (diagnostic, capture) act" where
  "fetch_facts io started =
     bindS (setD ''http_started_at'' (PStr (f_http_started_at io))) (\<lambda>_.
     bindS (setD ''http_completed_at'' (PStr (f_http_completed_at io))) (\<lambda>_.
     bindS (liftS (f_completed io)) (\<lambda>completed.
     bindS (setD ''http_elapsed_seconds'' (pyf (py_round 6 (mono completed - mono started)))) (\<lambda>_.
     retS completed))))"

definition facts_body ::
  "(string \<Rightarrow> (bool \<times> seconds) option) \<Rightarrow> config \<Rightarrow> facts_io \<Rightarrow> py \<Rightarrow> capture \<Rightarrow> capture \<Rightarrow> (diagnostic, sample option) act" where
  "facts_body fromiso cf io value started completed =
     bindS (clock_labels fromiso cf io value started completed) (\<lambda>_.
     bindS (item value ''clock'') (\<lambda>ck.
     bindS (item value ''relay'') (\<lambda>relay. bindS (item relay ''boot_id'') (\<lambda>boot.
     bindS (item relay ''observed_boottime_seconds'') (\<lambda>src.
     bindS (liftS (monotonic_source_age ck (PStr (f_nonce io)) started completed (cf_machine cf) boot src MAX_FACT_AGE)) (\<lambda>age.
     copy_route_sample (cf_host_id cf) value (cf_machine cf) (cf_destination cf) (f_received io) (f_boottime io) age))))))"

definition observe_facts ::
  "(string \<Rightarrow> (bool \<times> seconds) option) \<Rightarrow> config \<Rightarrow> facts_io \<Rightarrow> (diagnostic, sample option) act" where
  "observe_facts fromiso cf io =
     bindS (modS (\<lambda>_. [(''health'', PStr ''UNKNOWN''), (''reason'', PStr ''observation_unavailable'')])) (\<lambda>_.
     catchS
       (bindS (liftS (f_started io)) (\<lambda>started.
        bindS (fetch_facts io started) (\<lambda>completed.
        case f_fetch io of
          Fetched value \<Rightarrow> facts_body fromiso cf io value started completed
        | HttpError code \<Rightarrow> bindS (updD [(''reason'', PStr ''facts_http_unavailable''), (''http_status'', PInt code)]) (\<lambda>_. retS None)
        | Timeout \<Rightarrow> bindS (setD ''reason'' (PStr ''facts_timeout'')) (\<lambda>_. retS None)
        | UrlError timed_out \<Rightarrow>
            bindS (setD ''reason'' (PStr (if timed_out then ''facts_timeout'' else ''facts_transport_error''))) (\<lambda>_. retS None)
        | Failed \<Rightarrow> bindS (setD ''reason'' (PStr ''facts_invalid'')) (\<lambda>_. retS None))))
       (\<lambda>e. case e of
          ClockRejected r \<Rightarrow> bindS (updD [(''reason'', PStr ''clock_unavailable''),
             (''clock'', PDict [(''status'', PStr ''UNKNOWN''), (''reason'', PStr r)])]) (\<lambda>_. retS None)
        | _ \<Rightarrow> bindS (setD ''reason'' (PStr ''facts_invalid'')) (\<lambda>_. retS None)))"

text \<open>\<open>hostname\<close> is \<open>urlsplit(...).hostname or ''\<close>, \<open>rp\<close> the \<open>repr\<close> of other values.\<close>

definition ends_with :: "string \<Rightarrow> string \<Rightarrow> bool" where
  "ends_with s suf \<longleftrightarrow> length suf \<le> length s \<and> drop (length s - length suf) s = suf"

definition provider :: "(string \<Rightarrow> string) \<Rightarrow> (py \<Rightarrow> string) \<Rightarrow> py \<Rightarrow> string option res" where
  "provider hostname rp it =
     bindE (py_get it ''conf'') (\<lambda>conf.
     bindE (py_get (py_or conf (PDict [])) ''dest'') (\<lambda>dest.
     let host = hostname (py_str rp (py_or dest (PStr []))) in
     Inr (if host = ''youtube.com'' \<or> ends_with host ''.youtube.com'' then Some ''youtube''
          else if ends_with host ''.live-video.net'' \<or> ends_with host ''.twitch.tv'' then Some ''twitch''
          else None)))"

fun filterE :: "('a \<Rightarrow> bool res) \<Rightarrow> 'a list \<Rightarrow> 'a list res" where
  "filterE f [] = Inr []"
| "filterE f (x # xs) = bindE (f x) (\<lambda>b. bindE (filterE f xs) (\<lambda>ys. Inr (if b then x # ys else ys)))"

definition youtube_item :: "(string \<Rightarrow> string) \<Rightarrow> (py \<Rightarrow> string) \<Rightarrow> py list \<Rightarrow> py option res" where
  "youtube_item hostname rp items =
     bindE (filterE (\<lambda>i. bindE (provider hostname rp i) (\<lambda>p. Inr (p = Some ''youtube''))) items) (\<lambda>ms.
     Inr (case ms of [m] \<Rightarrow> Some m | _ \<Rightarrow> None))"

definition observe_direct ::
  "(string \<Rightarrow> string) \<Rightarrow> (py \<Rightarrow> string) \<Rightarrow> py \<Rightarrow> py list \<Rightarrow> seconds \<Rightarrow> seconds \<Rightarrow> sample res" where
  "observe_direct hostname rp path items received boottime =
     bindE (youtube_item hostname rp items) (\<lambda>yt.
     bindE (allE [bindE (py_get path ''ready'') (\<lambda>x. Inr (x = PBool True)),
                  bindE (py_get_dflt path ''online'' (PBool True)) (\<lambda>x. Inr (x = PBool True)),
                  bindE (py_get path ''source'') (\<lambda>src.
                    bindE (py_get (py_or src (PDict [])) ''id'') (\<lambda>i. Inr (py_truthy i)))]) (\<lambda>ready.
     bindE (py_get path ''bytesReceived'') (\<lambda>a. bindE (py_get path ''inboundBytes'') (\<lambda>b.
     bindE (py_int (py_or (py_or a b) (PInt 0))) (\<lambda>n.
     bindE (case yt of None \<Rightarrow> Inr None
            | Some y \<Rightarrow> bindE (py_get y ''state'') (\<lambda>st. bindE (py_get y ''lastError'') (\<lambda>er.
                bindE (py_get y ''outboundBytes'') (\<lambda>ob. bindE (py_int (py_or ob (PInt 0))) (\<lambda>o'.
                Inr (Some \<lparr>y_state = st, y_error = py_truthy er, y_outbound = Some o',
                  y_video_packets = None, y_audio_packets = None\<rparr>)))))) (\<lambda>y.
     Inr ((blank_sample received)\<lparr>s_ready := ready, s_bytes_received := n,
           s_received_boottime := Some boottime, s_youtube := y\<rparr>)))))))"

section \<open>The controller\<close>

record controller =
  c_unhealthy_since :: "seconds option"
  c_healthy_since :: "seconds option"
  c_last :: "sample option"
  c_domain :: string
  c_health :: string
  c_reason :: string
  c_healthy_resets_total :: nat
  c_last_reset_at :: "string option"
  c_last_reset_reason :: "string option"
  c_route_progress :: bool
  c_observation_gap :: bool
  c_transport_conflict :: bool

definition controller_init :: controller where
  "controller_init = \<lparr>c_unhealthy_since = None, c_healthy_since = None, c_last = None,
     c_domain = ''INITIALIZING'', c_health = ''UNKNOWN'', c_reason = ''baseline_required'',
     c_healthy_resets_total = 0, c_last_reset_at = None, c_last_reset_reason = None,
     c_route_progress = False, c_observation_gap = False, c_transport_conflict = False\<rparr>"

definition setc :: "string \<Rightarrow> string \<Rightarrow> string \<Rightarrow> controller \<Rightarrow> controller" where
  "setc health domain reason c = c\<lparr>c_health := health, c_domain := domain, c_reason := reason\<rparr>"

definition set_lost :: "string \<Rightarrow> controller \<Rightarrow> controller" where
  "set_lost reason c = c\<lparr>c_domain := ''OBSERVATION_LOST'', c_reason := reason\<rparr>"

definition ocounter :: "int option \<Rightarrow> bool" where
  "ocounter n = (case n of None \<Rightarrow> False | Some k \<Rightarrow> k \<ge> 0)"

definition oless :: "int option \<Rightarrow> int option \<Rightarrow> bool" where
  "oless a b = (case (a, b) of (Some x, Some y) \<Rightarrow> x < y | _ \<Rightarrow> False)"

definition no_youtube :: youtube where
  "no_youtube = \<lparr>y_state = PNone, y_error = False, y_outbound = None, y_video_packets = None, y_audio_packets = None\<rparr>"

definition yt_of :: "sample \<Rightarrow> youtube" where
  "yt_of s = (case s_youtube s of None \<Rightarrow> no_youtube | Some y \<Rightarrow> y)"

definition gap_ok :: "seconds \<Rightarrow> bool" where
  "gap_ok d \<longleftrightarrow> 0 < d \<and> d \<le> MAX_SAMPLE_GAP"

definition boottime_of :: "sample \<Rightarrow> seconds" where
  "boottime_of s = (case s_received_boottime s of None \<Rightarrow> s_received_monotonic s | Some b \<Rightarrow> b)"

definition source_gap :: "sample \<Rightarrow> sample \<Rightarrow> seconds" where
  "source_gap s prev = (let a = (case s_source_monotonic s of None \<Rightarrow> 0 | Some x \<Rightarrow> x)
     in a - (case s_source_monotonic prev of None \<Rightarrow> a | Some x \<Rightarrow> x))"

definition all_advance :: "youtube \<Rightarrow> youtube \<Rightarrow> bool" where
  "all_advance yt before \<longleftrightarrow> (\<forall>f \<in> {y_outbound, y_video_packets, y_audio_packets}.
      ocounter (f yt) \<and> ocounter (f before) \<and> oless (f before) (f yt))"

definition copy_stale :: "sample \<Rightarrow> sample \<Rightarrow> bool" where
  "copy_stale s prev \<longleftrightarrow> s_copy_updated_at s \<noteq> None \<and> s_copy_updated_at s = s_copy_updated_at prev
     \<and> \<not> s_copy_observation_new s
     \<and> \<not> (s_copy_observation_fresh s \<and> all_advance (yt_of s) (yt_of prev))"

text \<open>Binding of two samples: the reason of a rejection, if any.\<close>

definition binding_error :: "sample \<Rightarrow> sample \<Rightarrow> string option" where
  "binding_error s prev =
     (if s_identity s = None then None
      else if s_identity s \<noteq> s_identity prev then Some ''connection_changed''
      else if \<not> gap_ok (source_gap s prev) then Some ''sample_gap''
      else if \<not> gap_ok (boottime_of s - boottime_of prev) then Some ''sample_gap''
      else if copy_stale s prev then Some ''copy_stale''
      else None)"

text \<open>
  The counters that must advance, in the order of the loop: whether the key is optional, the
  reason reported, the new and the previous value.
\<close>

definition counter_keys :: "youtube \<Rightarrow> youtube \<Rightarrow> (bool \<times> string \<times> int option \<times> int option) list" where
  "counter_keys yt before =
     [(False, ''output_not_advancing'', y_outbound yt, y_outbound before),
      (True, ''video_not_advancing'', y_video_packets yt, y_video_packets before),
      (True, ''audio_not_advancing'', y_audio_packets yt, y_audio_packets before)]"

fun counter_checks :: "(bool \<times> string \<times> int option \<times> int option) list \<Rightarrow> string + (bool \<times> string) list" where
  "counter_checks [] = Inr []"
| "counter_checks ((optional, reason, a, b) # ks) =
     (if a = None \<and> b = None \<and> optional then counter_checks ks
      else if \<not> ocounter a \<or> \<not> ocounter b then Inl ''counter_invalid''
      else if oless a b then Inl ''counter_regressed''
      else (case counter_checks ks of Inl e \<Rightarrow> Inl e | Inr cs \<Rightarrow> Inr ((oless b a, reason) # cs)))"

definition input_checks :: "sample \<Rightarrow> sample \<Rightarrow> (bool \<times> string) list" where
  "input_checks s prev =
     [(s_ready s, ''input_not_ready''),
      (s_bytes_received s \<ge> 0 \<and> s_bytes_received prev \<ge> 0 \<and> s_bytes_received s > s_bytes_received prev,
       ''input_not_advancing'')]"

definition healthy_start :: "controller \<Rightarrow> sample option \<Rightarrow> string \<Rightarrow> controller" where
  "healthy_start c smp observation_reason =
     c\<lparr>c_last := (case smp of None \<Rightarrow> c_last c | Some s \<Rightarrow> Some s), c_observation_gap := (smp = None),
       c_route_progress := False, c_transport_conflict := False, c_health := ''UNKNOWN'',
       c_domain := domain_for_missing observation_reason,
       c_reason := (if smp = None then observation_reason else ''baseline_required'')\<rparr>"

text \<open>Comparison of a ready sample with the previous one.\<close>

definition compare_samples :: "controller \<Rightarrow> bool \<Rightarrow> sample \<Rightarrow> sample \<Rightarrow> bool \<times> controller" where
  "compare_samples c resumed s prev =
     (case binding_error s prev of
        Some r \<Rightarrow> (False, set_lost r c)
      | None \<Rightarrow>
          (case counter_checks (counter_keys (yt_of s) (yt_of prev)) of
             Inl r \<Rightarrow> (False, set_lost r c)
           | Inr cs \<Rightarrow>
               (case filter (\<lambda>(ok, _). \<not> ok) (input_checks s prev @ cs) of
                  (_, r) # _ \<Rightarrow> (False, setc ''UNHEALTHY'' ''MEDIA_FAILURE'' r c)
                | [] \<Rightarrow>
                    if \<not> py_eq (y_state (yt_of s)) (PStr ''forwarding'') \<or> y_error (yt_of s)
                      then (False, setc ''UNHEALTHY'' ''MEDIA_FAILURE'' ''output_not_forwarding'' c)
                    else if resumed
                      then (False, c\<lparr>c_route_progress := True, c_domain := ''INITIALIZING'',
                                    c_reason := ''observation_resumed''\<rparr>)
                    else (True, (setc ''HEALTHY'' ''HEALTHY'' ''progress_confirmed'' c)\<lparr>c_route_progress := True\<rparr>))))"

definition healthy :: "controller \<Rightarrow> sample option \<Rightarrow> string \<Rightarrow> bool \<times> controller" where
  "healthy c smp observation_reason =
     (let c1 = healthy_start c smp observation_reason in
      case smp of
        None \<Rightarrow> (False, c1)
      | Some s \<Rightarrow>
          let c2 = c1\<lparr>c_domain := ''INITIALIZING''\<rparr> in
          if \<not> s_ready s then
            (False, setc ''UNHEALTHY'' ''MEDIA_FAILURE''
               (case s_copy_unavailable s of
                  Some r \<Rightarrow> r
                | None \<Rightarrow> if s_relay_unavailable s then ''relay_unit_not_running'' else ''input_not_live'') c2)
          else (case c_last c of
                  None \<Rightarrow> (False, c2)
                | Some prev \<Rightarrow> compare_samples c2 (c_observation_gap c) s prev))"

definition combine_transport :: "controller \<Rightarrow> verdict \<Rightarrow> bool \<times> controller" where
  "combine_transport c w =
     (let c1 = c\<lparr>c_transport_conflict := (v_status w = ''STOPPED'' \<and> c_route_progress c)\<rparr>;
          c2 = (if v_status w = ''STOPPED'' \<and> \<not> c_route_progress c
                then (setc ''UNHEALTHY'' ''MEDIA_FAILURE'' (v_reason w) c1)\<lparr>c_route_progress := False\<rparr> else c1)
      in (c_health c2 = ''HEALTHY'', c2))"

definition count_reset :: "string \<Rightarrow> controller \<Rightarrow> controller" where
  "count_reset now_iso c =
     (if c_healthy_since c \<noteq> None
      then c\<lparr>c_healthy_resets_total := c_healthy_resets_total c + 1, c_last_reset_at := Some now_iso,
            c_last_reset_reason := Some (c_reason c)\<rparr> else c)"

datatype action = START | STOP

definition decide ::
  "string \<Rightarrow> controller \<Rightarrow> seconds \<Rightarrow> bool \<Rightarrow> int option \<Rightarrow> guard option \<Rightarrow> uncertainty option \<Rightarrow>
   action option \<times> controller" where
  "decide now_iso c now ok replicas maintenance uncertainty =
     (if (case maintenance of None \<Rightarrow> False | Some g \<Rightarrow> g_inhibited g)
        then (None, c\<lparr>c_healthy_since := None, c_unhealthy_since := None\<rparr>)
      else if \<not> ok \<and> c_domain c \<noteq> ''MEDIA_FAILURE'' then
        (let c1 = (count_reset now_iso c)\<lparr>c_healthy_since := None, c_unhealthy_since := None\<rparr> in
         if (case uncertainty of None \<Rightarrow> False | Some u \<Rightarrow> u_expired u)
           then (if replicas = Some 0 then Some START else None, c1\<lparr>c_reason := ''youtube_observation_timeout''\<rparr>)
           else (None, c1))
      else
        (let c1 = (if ok
                   then c\<lparr>c_unhealthy_since := None, c_healthy_since := hold True now (c_healthy_since c)\<rparr>
                   else (count_reset now_iso c)\<lparr>c_healthy_since := None,
                          c_unhealthy_since := hold True now (c_unhealthy_since c)\<rparr>) in
         case replicas of
           None \<Rightarrow> (None, c1)
         | Some n \<Rightarrow>
             if n = 0 \<and> \<not> ok \<and> (case c_unhealthy_since c1 of None \<Rightarrow> False | Some t \<Rightarrow> now - t \<ge> START_AFTER)
               then (Some START, c1)
             else if n \<ge> 1 \<and> ok \<and> (case c_healthy_since c1 of None \<Rightarrow> False | Some t \<Rightarrow> now - t \<ge> STOP_AFTER)
               then (Some STOP, c1)
             else (None, c1)))"

section \<open>Status document and guarded effect\<close>

definition opt_time :: "seconds \<Rightarrow> seconds option \<Rightarrow> py" where
  "opt_time now since = (case since of None \<Rightarrow> PInt 0 | Some t \<Rightarrow> pyf (py_round 3 (now - t)))"

definition guard_py :: "guard \<Rightarrow> py" where
  "guard_py g = PDict ([(''inhibited'', PBool (g_inhibited g)), (''reason'', PStr (g_reason g)),
     (''phase'', PStr (g_phase g)), (''session_id'', g_session_id g), (''overdue'', PBool (g_overdue g))]
     @ (case g_generation g of None \<Rightarrow> [] | Some n \<Rightarrow> [(''generation'', PInt n)]))"

definition action_name :: "action \<Rightarrow> string" where
  "action_name a = (case a of START \<Rightarrow> ''START'' | STOP \<Rightarrow> ''STOP'')"

definition diagnostic_keys :: "string list" where
  "diagnostic_keys = [''source_observed_at'', ''source_age_seconds'', ''copy_age_seconds'', ''progress_age_seconds'',
     ''http_status'', ''http_started_at'', ''http_completed_at'', ''http_elapsed_seconds'', ''clock'', ''last_known'',
     ''source_age_bounds_seconds'', ''copy_age_bounds_seconds'', ''progress_age_bounds_seconds'',
     ''negative_evidence_timing'', ''media_evidence_timing'', ''clock_diagnostic'']"

text \<open>The arguments \<open>utc\<close>, \<open>mono_now\<close>, \<open>boot\<close>, \<open>root_path\<close> and \<open>pid\<close> are read from the host.\<close>

definition status_snapshot ::
  "string \<Rightarrow> seconds \<Rightarrow> string \<Rightarrow> string \<Rightarrow> int \<Rightarrow> controller \<Rightarrow> diagnostic \<Rightarrow> seconds \<Rightarrow> int option \<Rightarrow>
   action option \<Rightarrow> string option \<Rightarrow> guard \<Rightarrow> (string \<times> py) list" where
  "status_snapshot utc mono_now boot root_path pid c diagnostic now current act act_result maintenance =
     [(''schema'', PStr ''stream_v3.fallback_controller.v1''), (''observed_at'', PStr utc),
      (''observed_monotonic'', pyf mono_now), (''boot_id'', PStr boot), (''assessment'', PStr (c_domain c)),
      (''automatic_switch_eligible'', PBool (c_domain c = ''MEDIA_FAILURE'' \<or>
         c_reason c \<in> {''observation_no_progress_timeout'', ''youtube_observation_timeout''})),
      (''health'', PStr (c_health c)), (''reason'', PStr (c_reason c)),
      (''transport_evidence_conflict'', PBool (c_transport_conflict c)),
      (''fallback_replicas'', opt_py PInt current),
      (''healthy_for_sec'', opt_time now (c_healthy_since c)),
      (''unhealthy_for_sec'', opt_time now (c_unhealthy_since c)),
      (''start_after_sec'', PInt (floor START_AFTER)), (''stop_after_sec'', PInt (floor STOP_AFTER)),
      (''healthy_resets_total'', PInt (int (c_healthy_resets_total c))),
      (''last_reset_at'', opt_py PStr (c_last_reset_at c)),
      (''last_reset_reason'', opt_py PStr (c_last_reset_reason c)),
      (''action'', opt_py (\<lambda>a. PStr (action_name a)) act), (''action_result'', opt_py PStr act_result),
      (''maintenance_guard_supported'', PBool True), (''maintenance_root'', PStr root_path),
      (''maintenance'', guard_py maintenance), (''controller_pid'', PInt pid)]
     @ map (\<lambda>k. (k, dget diagnostic k)) diagnostic_keys"

text \<open>
  \<open>kubectl\<close> is the outcome of the scale command, \<open>lock\<close> of taking the shared session lock; the
  second component lists the replica counts requested from Kubernetes (at most one).
\<close>

definition scale :: "action \<Rightarrow> guard \<Rightarrow> unit res \<Rightarrow> string res \<times> int list" where
  "scale a g kubectl =
     (if g_inhibited g then (Inr ''INHIBITED'', [])
      else (bindE kubectl (\<lambda>_. Inr ''SUCCEEDED''), [if a = START then 1 else 0]))"

definition scale_if_allowed ::
  "action \<Rightarrow> bool \<Rightarrow> unit res \<Rightarrow> guard \<Rightarrow> unit res \<Rightarrow> string res \<times> int list" where
  "scale_if_allowed a root_exists lock g kubectl =
     (case (if root_exists then (case lock of Inl e \<Rightarrow> (Inl e, []) | Inr _ \<Rightarrow> scale a g kubectl)
            else scale a g kubectl) of
        (Inl e, ns) \<Rightarrow> (if e = BlockingIOError \<or> e = FileNotFoundError then Inr ''INHIBITED'' else Inl e, ns)
      | (Inr r, ns) \<Rightarrow> (Inr r, ns))"

section \<open>One cycle of the main loop\<close>

record 'd loop_state =
  l_controller :: controller
  l_witness :: "'d witness_sample option"
  l_deadline :: deadline
  l_fault_since :: "seconds option"
  l_book :: cause_state
  l_previous_state :: "(string \<times> string \<times> int option \<times> string \<times> bool) option"
  l_last_logged :: seconds

text \<open>
  Everything the cycle reads from its environment, in the order of the calls. \<open>i_book_saved\<close> and
  \<open>i_dispatch_saved\<close> are the outcomes of the two writes of the cause bookmark.
\<close>

record cycle_input =
  i_observe :: "sample option \<times> diagnostic"
  i_replicas :: "int option"
  i_age_check :: seconds
  i_observe_again :: "sample option \<times> diagnostic"
  i_transport :: "py res"
  i_transport_at :: seconds
  i_now :: seconds
  i_guard :: guard
  i_iso :: string
  i_new_id :: string
  i_book_saved :: "unit res"
  i_root_exists :: bool
  i_lock :: "unit res"
  i_guard_at_scale :: guard
  i_kubectl :: "unit res"
  i_dispatch_saved :: "unit res"

record cycle_output =
  r_action :: "action option"
  r_result :: "string option"
  r_scaled :: "int list"
  r_causal :: causal
  r_logged :: bool
  r_crash :: "exn option"

definition observed :: "cycle_input \<Rightarrow> sample option \<times> diagnostic" where
  "observed i = (case fst (i_observe i) of
       Some s \<Rightarrow> if i_age_check i - boottime_of s > 5 then i_observe_again i else i_observe i
     | None \<Rightarrow> i_observe i)"

text \<open>Reading and judging the transport export; only three exceptions are handled here.\<close>

definition local_verdict ::
  "(py \<Rightarrow> 'd) \<Rightarrow> 'd witness_sample option \<Rightarrow> cycle_input \<Rightarrow> verdict res \<times> 'd witness_sample option" where
  "local_verdict dg w i =
     (case (case i_transport i of Inl e \<Rightarrow> (Inl e, w) | Inr v \<Rightarrow> witness_sample dg w v (i_transport_at i)) of
        (Inl e, w') \<Rightarrow>
          (if is_os_error e \<or> e = TypeError \<or> is_value_error e
             then Inr \<lparr>v_status = ''UNKNOWN'', v_reason = ''local_transport_unavailable''\<rparr> else Inl e, w')
      | (Inr v, w') \<Rightarrow> (Inr v, w'))"

text \<open>
  One cycle. \<open>Inl\<close>: it raised before anything was dispatched. \<open>r_crash\<close>: it raised after the dispatch,
  when the bookmark could not be written.
\<close>

definition controller_cycle ::
  "(py \<Rightarrow> 'd) \<Rightarrow> string \<Rightarrow> 'd loop_state \<Rightarrow> cycle_input \<Rightarrow> (cycle_output \<times> 'd loop_state) res" where
  "controller_cycle dg boot st i =
     (let (smp, diagnostic) = observed i;
          (ok0, c1) = healthy (l_controller st) smp (str_of (dget diagnostic ''reason''));
          (lv, w') = local_verdict dg (l_witness st) i in
      bindE lv (\<lambda>loc.
      let (ok, c2) = combine_transport c1 loc;
          now = i_now i;
          (unc, d') = deadline_observe (l_deadline st) now (c_route_progress c2) (g_inhibited (i_guard i));
          (cr, f') = clock_observe (l_fault_since st) (clock_status diagnostic) now (g_inhibited (i_guard i));
          (act, c3) = decide (i_iso i) c2 now ok (i_replicas i) (Some (i_guard i)) (Some unc) in
      bindE (cb_update boot (i_new_id i) (l_book st) (c_domain c3) (c_reason c3) (i_replicas i) now) (\<lambda>(causal, book).
      bindE (i_book_saved i) (\<lambda>_.
      let causal' = causal\<lparr>cs_secondary_recovery_blocked :=
             (cs_secondary_recovery_blocked causal \<or> cr_status cr \<noteq> ''VERIFIED'')\<rparr>;
          (res, scaled) = (case act of
             None \<Rightarrow> (None, [])
           | Some a \<Rightarrow>
               (case scale_if_allowed a (i_root_exists i) (i_lock i) (i_guard_at_scale i) (i_kubectl i) of
                  (Inl e, ns) \<Rightarrow> (Some ''FAILED'', ns)
                | (Inr r, ns) \<Rightarrow> (Some r, ns)));
          book' = (case act of None \<Rightarrow> book | Some a \<Rightarrow> cb_dispatched book (action_name a) (case res of Some r \<Rightarrow> r | None \<Rightarrow> []));
          state = (c_health c3, c_reason c3, i_replicas i, g_phase (i_guard i), g_overdue (i_guard i));
          logged = (Some state \<noteq> l_previous_state st \<or> act \<noteq> None \<or> now - l_last_logged st \<ge> 60)
      in Inr (\<lparr>r_action = act, r_result = res, r_scaled = scaled, r_causal = causal', r_logged = logged,
                r_crash = (if act = None then None else case i_dispatch_saved i of Inl e \<Rightarrow> Some e | Inr _ \<Rightarrow> None)\<rparr>,
              \<lparr>l_controller = c3, l_witness = w', l_deadline = d', l_fault_since = f', l_book = book',
               l_previous_state = (if logged then Some state else l_previous_state st),
               l_last_logged = (if logged then now else l_last_logged st)\<rparr>)))))"

definition loop_init :: "cause_state \<Rightarrow> 'd loop_state" where
  "loop_init book = \<lparr>l_controller = controller_init, l_witness = None, l_deadline = deadline_init,
     l_fault_since = None, l_book = book, l_previous_state = None, l_last_logged = 0\<rparr>"

section \<open>Health: what a confirmed route means\<close>

text \<open>Two bound samples of one live route with every counter advancing.\<close>

definition route_proof :: "sample \<Rightarrow> sample \<Rightarrow> bool" where
  "route_proof prev s \<longleftrightarrow>
     s_ready s \<and> 0 \<le> s_bytes_received prev \<and> s_bytes_received prev < s_bytes_received s \<and>
     (s_identity s \<noteq> None \<longrightarrow> s_identity s = s_identity prev \<and> gap_ok (source_gap s prev) \<and>
        gap_ok (boottime_of s - boottime_of prev) \<and> \<not> copy_stale s prev) \<and>
     oless (y_outbound (yt_of prev)) (y_outbound (yt_of s)) \<and>
     (y_video_packets (yt_of s) \<noteq> None \<longrightarrow> oless (y_video_packets (yt_of prev)) (y_video_packets (yt_of s))) \<and>
     (y_audio_packets (yt_of s) \<noteq> None \<longrightarrow> oless (y_audio_packets (yt_of prev)) (y_audio_packets (yt_of s))) \<and>
     y_state (yt_of s) = PStr ''forwarding'' \<and> \<not> y_error (yt_of s)"

lemma counter_checks_all:
  assumes "counter_checks ks = Inr cs" and "\<forall>(ok, r) \<in> set cs. ok"
  shows "\<forall>(opt, r, a, b) \<in> set ks. (a = None \<and> b = None \<and> opt) \<or> oless b a"
  using assms
proof (induction ks arbitrary: cs)
  case (Cons k ks)
  obtain opt r a b where k: "k = (opt, r, a, b)" by (cases k)
  with Cons show ?case by (auto split: if_splits sum.splits)
qed simp

lemma compare_samples_progress:
  assumes "compare_samples c resumed s prev = (ok, c')" and "c_route_progress c' \<or> ok"
    and "\<not> c_route_progress c"
  shows "route_proof prev s \<and> c_route_progress c' \<and> ok = (\<not> resumed) \<and> (ok \<longrightarrow> c_health c' = ''HEALTHY'')"
proof -
  from assms obtain cs where b: "binding_error s prev = None"
    and k: "counter_checks (counter_keys (yt_of s) (yt_of prev)) = Inr cs"
    and f: "filter (\<lambda>(ok, _). \<not> ok) (input_checks s prev @ cs) = []"
    and y: "y_state (yt_of s) = PStr ''forwarding''" "\<not> y_error (yt_of s)"
    by (auto simp: compare_samples_def set_lost_def setc_def split: option.splits sum.splits list.splits if_splits)
  from f have a: "\<forall>(ok, r) \<in> set (input_checks s prev). ok" "\<forall>(ok, r) \<in> set cs. ok"
    by (auto simp: filter_empty_conv)
  from counter_checks_all [OF k a(2)] have
    "oless (y_outbound (yt_of prev)) (y_outbound (yt_of s))"
    "y_video_packets (yt_of s) \<noteq> None \<longrightarrow> oless (y_video_packets (yt_of prev)) (y_video_packets (yt_of s))"
    "y_audio_packets (yt_of s) \<noteq> None \<longrightarrow> oless (y_audio_packets (yt_of prev)) (y_audio_packets (yt_of s))"
    by (auto simp: counter_keys_def)
  moreover have "s_ready s" "0 \<le> s_bytes_received prev" "s_bytes_received prev < s_bytes_received s"
    using a(1) by (auto simp: input_checks_def)
  moreover have "s_identity s \<noteq> None \<longrightarrow> s_identity s = s_identity prev \<and> gap_ok (source_gap s prev) \<and>
        gap_ok (boottime_of s - boottime_of prev) \<and> \<not> copy_stale s prev"
    using b by (auto simp: binding_error_def split: if_splits)
  moreover have "c_route_progress c' \<and> ok = (\<not> resumed) \<and> (ok \<longrightarrow> c_health c' = ''HEALTHY'')"
    using assms(1) b k f y by (auto simp: compare_samples_def setc_def split: if_splits)
  ultimately show ?thesis using y by (simp add: route_proof_def)
qed

lemma compare_samples_rejects:
  assumes "compare_samples c resumed s prev = (ok, c')" "\<not> c_route_progress c" "c_health c \<noteq> ''HEALTHY''"
  shows "c_health c' = ''HEALTHY'' \<longrightarrow> ok" "c_domain c' \<in> set DOMAINS"
  using assms
  by (auto simp: compare_samples_def set_lost_def setc_def DOMAINS_def
           split: option.splits sum.splits list.splits if_splits)

lemma healthy_start_simps [simp]:
  "c_route_progress (healthy_start c smp r) = False" "c_health (healthy_start c smp r) = ''UNKNOWN''"
  "c_unhealthy_since (healthy_start c smp r) = c_unhealthy_since c"
  "c_healthy_since (healthy_start c smp r) = c_healthy_since c"
  by (simp_all add: healthy_start_def)


lemma healthy_domain: "c_domain (snd (healthy c smp reason)) \<in> set DOMAINS"
proof (cases smp)
  case None
  then show ?thesis
    by (simp add: healthy_def Let_def healthy_start_def domain_for_missing_def DOMAINS_def)
next
  case (Some s)
  let ?c2 = "(healthy_start c smp reason)\<lparr>c_domain := ''INITIALIZING''\<rparr>"
  show ?thesis
  proof (cases "\<not> s_ready s \<or> c_last c = None")
    case True
    with Some show ?thesis by (auto simp: healthy_def Let_def setc_def DOMAINS_def)
  next
    case False
    then obtain prev where "c_last c = Some prev" "s_ready s" by auto
    with Some have "snd (healthy c smp reason) = snd (compare_samples ?c2 (c_observation_gap c) s prev)"
      by (simp add: healthy_def Let_def)
    moreover have "\<not> c_route_progress ?c2" "c_health ?c2 \<noteq> ''HEALTHY''" by simp_all
    ultimately show ?thesis
      using compare_samples_rejects(2) [of ?c2 "c_observation_gap c" s prev, OF surjective_pairing] by simp
  qed
qed

end
