(* ===== verification/Fallback_Loop.thy ===== *)
theory Fallback_Loop
  imports Fallback_Controller
begin

text \<open>
  Runs of the main loop of \<open>ops/selfheal/fallback_controller.py\<close>.

  \<open>Fallback_Controller\<close> holds the code; this theory holds what the code guarantees over a
  history of cycles: when the backup is started, when it is stopped, and that no cycle with an
  inhibiting maintenance record or an unknown replica count changes anything. Both windows of the
  controller (30 seconds of failure, 300 seconds of health) are interpretations of \<open>hold_timer\<close>.
\<close>

section \<open>One cycle, decomposed\<close>

text \<open>The state after the assessment of a cycle, before \<open>decide\<close>, and the decision.\<close>

definition assessed :: "(py \<Rightarrow> 'd) \<Rightarrow> 'd loop_state \<Rightarrow> cycle_input \<Rightarrow> (bool \<times> controller) res" where
  "assessed dg st i =
     bindE (fst (local_verdict dg (l_witness st) i)) (\<lambda>v.
     Inr (combine_transport (snd (healthy (l_controller st) (fst (observed i))
            (str_of (dget (snd (observed i)) ''reason'')))) v))"

definition decided ::
  "'d loop_state \<Rightarrow> cycle_input \<Rightarrow> bool \<Rightarrow> controller \<Rightarrow> action option \<times> controller" where
  "decided st i ok c = decide (i_iso i) c (i_now i) ok (i_replicas i) (Some (i_guard i))
     (Some (fst (deadline_observe (l_deadline st) (i_now i) (c_route_progress c) (g_inhibited (i_guard i)))))"

definition dispatched :: "action option \<Rightarrow> cycle_input \<Rightarrow> int list" where
  "dispatched act i = (case act of None \<Rightarrow> [] | Some a \<Rightarrow>
     snd (scale_if_allowed a (i_root_exists i) (i_lock i) (i_guard_at_scale i) (i_kubectl i)))"

lemma controller_cycle_Inr:
  assumes "controller_cycle dg boot st i = Inr (out, st')"
  obtains ok c where "assessed dg st i = Inr (ok, c)" "decided st i ok c = (r_action out, l_controller st')"
    "l_deadline st' = deadline_next (l_deadline st) (i_now i) (c_route_progress c) (g_inhibited (i_guard i))"
    "r_scaled out = dispatched (r_action out) i"
proof -
  obtain smp dia where o: "observed i = (smp, dia)" by (cases "observed i")
  obtain lv w where l: "local_verdict dg (l_witness st) i = (lv, w)" by (cases "local_verdict dg (l_witness st) i")
  from assms o l obtain v where v: "lv = Inr v"
    by (cases lv) (simp_all add: controller_cycle_def Let_def split_beta)
  obtain ok c where k: "combine_transport (snd (healthy (l_controller st) smp (str_of (dget dia ''reason'')))) v = (ok, c)"
    by (cases "combine_transport (snd (healthy (l_controller st) smp (str_of (dget dia ''reason'')))) v")
  obtain act c3 where d: "decided st i ok c = (act, c3)" by (cases "decided st i ok c")
  have "assessed dg st i = Inr (ok, c)" by (simp add: assessed_def o l v k)
  moreover from assms have "act = r_action out" "c3 = l_controller st'"
    "l_deadline st' = deadline_next (l_deadline st) (i_now i) (c_route_progress c) (g_inhibited (i_guard i))"
    "r_scaled out = dispatched act i"
    using d o l v k
    by (auto simp: controller_cycle_def decided_def dispatched_def deadline_observe_def Let_def split_beta
             split: option.splits sum.splits)
  ultimately show thesis using d that by simp
qed

section \<open>The loop as a run\<close>

text \<open>
  A cycle that raises ends the process (\<open>Inl\<close>). A cycle that raises after its dispatch (\<open>r_crash\<close>)
  can only be the last one of a history; the statements below hold for all cycles alike.
\<close>

definition cyc :: "(py \<Rightarrow> 'd) \<Rightarrow> string \<Rightarrow> 'd loop_state res \<Rightarrow> cycle_input \<Rightarrow> 'd loop_state res" where
  "cyc dg boot s i = bindE s (\<lambda>st. bindE (controller_cycle dg boot st i) (\<lambda>(_, st'). Inr st'))"

definition timer :: "(controller \<Rightarrow> seconds option) \<Rightarrow> 'd loop_state res \<Rightarrow> seconds option" where
  "timer f s = (case s of Inl _ \<Rightarrow> None | Inr st \<Rightarrow> f (l_controller st))"

definition alive :: "(py \<Rightarrow> 'd) \<Rightarrow> string \<Rightarrow> 'd loop_state res \<Rightarrow> cycle_input \<Rightarrow> bool" where
  "alive dg boot s i \<longleftrightarrow> (\<exists>st. s = Inr st \<and> (\<exists>r. controller_cycle dg boot st i = Inr r))"

text \<open>A cycle at which \<open>P ok controller guard\<close> held after the assessment.\<close>

definition cycle_at ::
  "(bool \<Rightarrow> controller \<Rightarrow> guard \<Rightarrow> bool) \<Rightarrow> (py \<Rightarrow> 'd) \<Rightarrow> string \<Rightarrow> 'd loop_state res \<Rightarrow> cycle_input \<Rightarrow> bool" where
  "cycle_at P dg boot s i \<longleftrightarrow> alive dg boot s i \<and>
     (\<exists>st ok c. s = Inr st \<and> assessed dg st i = Inr (ok, c) \<and> P ok c (i_guard i))"

definition ok_at :: "(py \<Rightarrow> 'd) \<Rightarrow> string \<Rightarrow> 'd loop_state res \<Rightarrow> cycle_input \<Rightarrow> bool" where
  "ok_at = cycle_at (\<lambda>ok c g. ok \<and> \<not> g_inhibited g)"

definition failing_at :: "(py \<Rightarrow> 'd) \<Rightarrow> string \<Rightarrow> 'd loop_state res \<Rightarrow> cycle_input \<Rightarrow> bool" where
  "failing_at = cycle_at (\<lambda>ok c g. \<not> ok \<and> c_domain c = ''MEDIA_FAILURE'' \<and> \<not> g_inhibited g)"

definition unproven_at :: "(py \<Rightarrow> 'd) \<Rightarrow> string \<Rightarrow> 'd loop_state res \<Rightarrow> cycle_input \<Rightarrow> bool" where
  "unproven_at = cycle_at (\<lambda>ok c g. \<not> c_route_progress c \<and> \<not> g_inhibited g)"

lemma decide_since:
  "c_healthy_since (snd (decide t c now ok reps (Some g) u)) =
     hold (ok \<and> \<not> g_inhibited g) now (c_healthy_since c)"
  "c_unhealthy_since (snd (decide t c now ok reps (Some g) u)) =
     hold (\<not> ok \<and> c_domain c = ''MEDIA_FAILURE'' \<and> \<not> g_inhibited g) now (c_unhealthy_since c)"
  by (auto simp: decide_def Let_def hold_def count_reset_def split: option.splits)

lemma compare_since_frame:
  "c_healthy_since (snd (compare_samples c r s p)) = c_healthy_since c"
  "c_unhealthy_since (snd (compare_samples c r s p)) = c_unhealthy_since c"
  by (auto simp: compare_samples_def set_lost_def setc_def split: option.splits sum.splits list.splits)

lemma healthy_since_frame:
  "c_healthy_since (snd (healthy c smp r)) = c_healthy_since c"
  "c_unhealthy_since (snd (healthy c smp r)) = c_unhealthy_since c"
  by (auto simp: healthy_def Let_def setc_def compare_since_frame split: option.splits)

lemma combine_since_frame:
  "c_healthy_since (snd (combine_transport c v)) = c_healthy_since c"
  "c_unhealthy_since (snd (combine_transport c v)) = c_unhealthy_since c"
  by (auto simp: combine_transport_def Let_def setc_def)

lemma assessed_Inr:
  assumes "assessed dg st i = Inr (ok, c)"
  obtains v where "c = snd (combine_transport (snd (healthy (l_controller st) (fst (observed i))
            (str_of (dget (snd (observed i)) ''reason'')))) v)"
  using assms by (auto simp: assessed_def) (metis snd_conv)

lemma assessed_since:
  assumes "assessed dg st i = Inr (ok, c)"
  shows "c_healthy_since c = c_healthy_since (l_controller st)"
    "c_unhealthy_since c = c_unhealthy_since (l_controller st)"
  using assms by (auto elim!: assessed_Inr simp: healthy_since_frame combine_since_frame)

lemma timer_cyc:
  fixes dg :: "py \<Rightarrow> 'd"
  assumes "\<And>t c now ok reps g u. f (snd (decide t c now ok reps (Some g) u)) = hold (P ok c g) now (f c)"
    and "\<And>(st :: 'd loop_state) i ok c. assessed dg st i = Inr (ok, c) \<Longrightarrow> f c = f (l_controller st)"
  shows "timer f (cyc dg boot s i) = hold (cycle_at P dg boot s i) (i_now i) (timer f s)"
proof (cases "alive dg boot s i")
  case False
  then show ?thesis
    by (cases s) (auto simp: cyc_def cycle_at_def alive_def timer_def hold_def bindE_def split: sum.splits)
next
  case True
  then obtain st out st' where s: "s = Inr st" "controller_cycle dg boot st i = Inr (out, st')"
    by (auto simp: alive_def)
  from s(2) obtain ok c where a: "assessed dg st i = Inr (ok, c)" "decided st i ok c = (r_action out, l_controller st')"
    by (rule controller_cycle_Inr)
  from a(2) have "f (l_controller st') = hold (P ok c (i_guard i)) (i_now i) (f (l_controller st))"
    using assms(1) assms(2) [OF a(1)] by (metis decided_def snd_conv)
  with True s a(1) show ?thesis by (simp add: timer_def cyc_def cycle_at_def)
qed

text \<open>Both windows of the controller are hold timers of the loop.\<close>

interpretation healthy_window: hold_timer "cyc dg boot" "timer c_healthy_since" i_now "ok_at dg boot" for dg boot
proof
  fix s i
  show "timer c_healthy_since (cyc dg boot s i) = hold (ok_at dg boot s i) (i_now i) (timer c_healthy_since s)"
    unfolding ok_at_def by (rule timer_cyc [OF decide_since(1)]) (rule assessed_since(1))
qed

interpretation failure_window: hold_timer "cyc dg boot" "timer c_unhealthy_since" i_now "failing_at dg boot" for dg boot
proof
  fix s i
  show "timer c_unhealthy_since (cyc dg boot s i) = hold (failing_at dg boot s i) (i_now i) (timer c_unhealthy_since s)"
    unfolding failing_at_def by (rule timer_cyc [OF decide_since(2)]) (rule assessed_since(2))
qed

section \<open>The progress deadline along a run\<close>

definition tick_of :: "(py \<Rightarrow> 'd) \<Rightarrow> 'd loop_state res \<times> cycle_input \<Rightarrow> tick" where
  "tick_of dg p = \<lparr>t_now = i_now (snd p),
     t_progress = (case bindE (fst p) (\<lambda>st. assessed dg st (snd p)) of
        Inl _ \<Rightarrow> False | Inr (ok, c) \<Rightarrow> c_route_progress c),
     t_inhibited = g_inhibited (i_guard (snd p))\<rparr>"

abbreviation loop_start :: "cause_state \<Rightarrow> 'd loop_state res" where
  "loop_start book \<equiv> Inr (loop_init book)"

lemma cyc_Inr:
  assumes "cyc dg boot s i = Inr st'"
  obtains st out where "s = Inr st" "controller_cycle dg boot st i = Inr (out, st')"
  using assms by (auto simp: cyc_def)

lemma run_cyc_alive:
  assumes "run (cyc dg boot) s es = Inr st'"
  shows "\<forall>(u, x) \<in> set (trail (cyc dg boot) s es). alive dg boot u x"
  using assms
proof (induction es arbitrary: st' rule: rev_induct)
  case (snoc x es)
  from snoc.prems obtain st out where "run (cyc dg boot) s es = Inr st" "controller_cycle dg boot st x = Inr (out, st')"
    by (auto elim: cyc_Inr)
  with snoc.IH show ?case by (auto simp: alive_def)
qed simp

lemma run_deadline:
  assumes "run (cyc dg boot) (loop_start book) es = Inr st"
  shows "l_deadline st = run deadline_step deadline_init (map (tick_of dg) (trail (cyc dg boot) (loop_start book) es))"
  using assms
proof (induction es arbitrary: st rule: rev_induct)
  case Nil
  then show ?case by (auto simp: loop_init_def)
next
  case (snoc x es)
  from snoc.prems obtain s0 out where s0: "run (cyc dg boot) (loop_start book) es = Inr s0"
    and c: "controller_cycle dg boot s0 x = Inr (out, st)" by (auto elim: cyc_Inr)
  from c obtain ok k where a: "assessed dg s0 x = Inr (ok, k)"
    and d: "l_deadline st = deadline_next (l_deadline s0) (i_now x) (c_route_progress k) (g_inhibited (i_guard x))"
    by (rule controller_cycle_Inr)
  from snoc.IH [OF s0] d s0 a show ?case by (simp add: tick_of_def deadline_step_def)
qed

lemma unproven_iff:
  assumes "alive dg boot u x"
  shows "unproven_at dg boot u x \<longleftrightarrow> \<not> resets (tick_of dg (u, x))"
proof -
  from assms obtain st r where s: "u = Inr st" "controller_cycle dg boot st x = Inr r" by (auto simp: alive_def)
  moreover obtain out st' where "r = (out, st')" by (cases r)
  ultimately obtain ok c where "assessed dg st x = Inr (ok, c)" by (blast elim: controller_cycle_Inr)
  with s assms show ?thesis by (auto simp: unproven_at_def cycle_at_def tick_of_def resets_def)
qed

lemma deadline_unproven:
  assumes "run (cyc dg boot) (loop_start book) (es @ [i]) = Inr st'"
    and "deadline_since (l_deadline st') = Some t"
  shows "\<exists>pre j post. es @ [i] = pre @ j # post \<and> i_now j = t \<and>
    (\<forall>(u, x) \<in> set (trail (cyc dg boot) (run (cyc dg boot) (loop_start book) (pre @ [j])) post).
       unproven_at dg boot u x)"
proof -
  let ?tr = "trail (cyc dg boot) (loop_start book)"
  let ?ds = "map (tick_of dg) (?tr (es @ [i]))"
  have "?ds \<noteq> []" by simp
  from deadline_last_reset [OF this] obtain dpre d dpost where
    sp: "?ds = dpre @ d # dpost" and t: "deadline_since (run deadline_step deadline_init ?ds) = Some (t_now d)"
    and no: "\<forall>x \<in> set dpost. \<not> resets x" by blast
  define pre where "pre = take (length dpre) (es @ [i])"
  define rest where "rest = drop (length dpre) (es @ [i])"
  have len: "length dpre < length (es @ [i])" using arg_cong [OF sp, of length] by simp
  then obtain j post where r: "rest = j # post" by (cases rest) (auto simp: rest_def)
  have app: "es @ [i] = pre @ j # post" using r by (metis append_take_drop_id pre_def rest_def)
  have "?ds = map (tick_of dg) (?tr pre) @ tick_of dg (run (cyc dg boot) (loop_start book) pre, j) #
      map (tick_of dg) (trail (cyc dg boot) (run (cyc dg boot) (loop_start book) (pre @ [j])) post)"
    unfolding app by simp
  moreover have "length (map (tick_of dg) (?tr pre)) = length dpre"
    using len by (simp add: pre_def)
  ultimately have d: "d = tick_of dg (run (cyc dg boot) (loop_start book) pre, j)"
    and dpost: "dpost = map (tick_of dg) (trail (cyc dg boot) (run (cyc dg boot) (loop_start book) (pre @ [j])) post)"
    using sp by simp_all
  have tj: "i_now j = t" using t assms(2) run_deadline [OF assms(1)] by (simp add: d tick_of_def)
  have al: "\<forall>(u, x) \<in> set (?tr (es @ [i])). alive dg boot u x" using assms(1) by (rule run_cyc_alive)
  have "unproven_at dg boot u x"
    if "(u, x) \<in> set (trail (cyc dg boot) (run (cyc dg boot) (loop_start book) (pre @ [j])) post)" for u x
  proof -
    from that al have "alive dg boot u x" unfolding app by auto
    moreover from that no have "\<not> resets (tick_of dg (u, x))" unfolding dpost by auto
    ultimately show ?thesis by (simp add: unproven_iff)
  qed
  with app tj show ?thesis by blast
qed

section \<open>When the backup is started and stopped\<close>

lemma decide_START:
  assumes "decide t c now ok reps (Some g) (Some u) = (Some START, c')"
  shows "\<not> g_inhibited g \<and> reps = Some 0 \<and> \<not> ok \<and>
    (if c_domain c = ''MEDIA_FAILURE'' then \<exists>s. c_unhealthy_since c' = Some s \<and> now - s \<ge> START_AFTER
     else u_expired u)"
  using assms by (auto simp: decide_def Let_def split: if_splits option.splits)

lemma decide_STOP:
  assumes "decide t c now ok reps (Some g) (Some u) = (Some STOP, c')"
  shows "\<not> g_inhibited g \<and> (\<exists>n \<ge> 1. reps = Some n) \<and> ok \<and>
    (\<exists>s. c_healthy_since c' = Some s \<and> now - s \<ge> STOP_AFTER)"
  using assms by (auto simp: decide_def Let_def split: if_splits option.splits)

lemma decide_fires:
  assumes "c_unhealthy_since (snd (decide t c now False (Some 0) (Some g) u)) = Some s" "now - s \<ge> START_AFTER"
    "c_domain c = ''MEDIA_FAILURE''" "\<not> g_inhibited g"
  shows "fst (decide t c now False (Some 0) (Some g) u) = Some START"
  using assms by (auto simp: decide_def Let_def split: if_splits option.splits)

lemma scale_requests:
  "snd (scale_if_allowed a re lock g k) =
     (if re \<and> lock \<noteq> Inr () \<or> g_inhibited g then [] else [if a = START then 1 else 0])"
  by (cases lock; cases k; simp add: scale_if_allowed_def scale_def)

lemma dispatched_scaled:
  assumes "n \<in> set (dispatched act i)"
  shows "dispatched act i = [n] \<and> act = Some (if n = 1 then START else STOP) \<and> n \<in> {0, 1} \<and>
    \<not> g_inhibited (i_guard_at_scale i) \<and> (i_root_exists i \<longrightarrow> i_lock i = Inr ())"
proof -
  from assms obtain a where a: "act = Some a" by (cases act) (auto simp: dispatched_def)
  with assms show ?thesis by (cases a) (auto simp: dispatched_def scale_requests split: if_splits)
qed

lemma timer_init [simp]: "timer c_healthy_since (loop_start book) = None" "timer c_unhealthy_since (loop_start book) = None"
  by (simp_all add: timer_def loop_init_def controller_init_def)

lemma decided_expired:
  assumes "u_expired (fst (deadline_observe d now p inh))"
  shows "\<exists>t. deadline_since (deadline_next d now p inh) = Some t \<and> now - t \<ge> AFTER"
  using assms by (auto simp: deadline_observe_def Let_def AFTER_def split: option.splits)

text \<open>C7: the direct backup is only ever started on sustained evidence. In every run of the
  controller from its start, a cycle that asks Kubernetes for one replica was decided and
  dispatched without an inhibiting maintenance record, saw a replica count of zero, held the
  session lock if the maintenance directory exists, and ends either an unbroken run of media-failure
  cycles of at least 30 seconds or a period of at least 90 seconds in which no cycle confirmed
  downstream progress and none was under maintenance.\<close>

theorem backup_start_sound:
  assumes "run (cyc dg boot) (loop_start book) es = Inr st"
    and "controller_cycle dg boot st i = Inr (out, st')" and "1 \<in> set (r_scaled out)"
  shows "i_replicas i = Some 0 \<and> \<not> g_inhibited (i_guard i) \<and> \<not> g_inhibited (i_guard_at_scale i) \<and>
    (i_root_exists i \<longrightarrow> i_lock i = Inr ()) \<and> r_action out = Some START \<and> r_scaled out = [1] \<and>
    (\<exists>pre j post. es @ [i] = pre @ j # post \<and>
      (i_now i - i_now j \<ge> START_AFTER \<and>
         (\<forall>(u, x) \<in> set (trail (cyc dg boot) (run (cyc dg boot) (loop_start book) pre) (j # post)).
            failing_at dg boot u x)
       \<or> i_now i - i_now j \<ge> AFTER \<and>
         (\<forall>(u, x) \<in> set (trail (cyc dg boot) (run (cyc dg boot) (loop_start book) (pre @ [j])) post).
            unproven_at dg boot u x)))"
proof -
  have r: "run (cyc dg boot) (loop_start book) (es @ [i]) = Inr st'" using assms(1,2) by (simp add: cyc_def)
  from assms(2) obtain ok c where d: "decided st i ok c = (r_action out, l_controller st')"
    "l_deadline st' = deadline_next (l_deadline st) (i_now i) (c_route_progress c) (g_inhibited (i_guard i))"
    "r_scaled out = dispatched (r_action out) i" by (rule controller_cycle_Inr)
  from assms(3) have e: "r_action out = Some START" "r_scaled out = [1]" "\<not> g_inhibited (i_guard_at_scale i)"
    "i_root_exists i \<longrightarrow> i_lock i = Inr ()" unfolding d(3) by (auto dest!: dispatched_scaled)
  from d(1) e(1) have s: "\<not> g_inhibited (i_guard i) \<and> i_replicas i = Some 0 \<and> \<not> ok \<and>
    (if c_domain c = ''MEDIA_FAILURE'' then \<exists>s. c_unhealthy_since (l_controller st') = Some s \<and> i_now i - s \<ge> START_AFTER
     else u_expired (fst (deadline_observe (l_deadline st) (i_now i) (c_route_progress c) (g_inhibited (i_guard i)))))"
    unfolding decided_def by (intro decide_START) simp
  have "\<exists>pre j post. es @ [i] = pre @ j # post \<and>
      (i_now i - i_now j \<ge> START_AFTER \<and>
         (\<forall>(u, x) \<in> set (trail (cyc dg boot) (run (cyc dg boot) (loop_start book) pre) (j # post)).
            failing_at dg boot u x)
       \<or> i_now i - i_now j \<ge> AFTER \<and>
         (\<forall>(u, x) \<in> set (trail (cyc dg boot) (run (cyc dg boot) (loop_start book) (pre @ [j])) post).
            unproven_at dg boot u x))"
  proof (cases "c_domain c = ''MEDIA_FAILURE''")
    case True
    with s obtain t where t: "timer c_unhealthy_since (run (cyc dg boot) (loop_start book) (es @ [i])) = Some t"
      and le: "i_now i - t \<ge> START_AFTER" unfolding r by (auto simp: timer_def)
    from failure_window.since_unbroken [OF timer_init(2) t] le show ?thesis by (elim exE conjE) blast
  next
    case False
    with s d(2) obtain t where "deadline_since (l_deadline st') = Some t" "i_now i - t \<ge> AFTER"
      using decided_expired by fastforce
    then show ?thesis using deadline_unproven [OF r] by blast
  qed
  with s e show ?thesis by blast
qed

text \<open>C16: the direct backup is only ever stopped after five minutes of proven health. In every
  run of the controller, a cycle that asks for zero replicas saw at least one replica, was decided
  and dispatched without an inhibiting maintenance record, and ends an unbroken run of cycles of at
  least 300 seconds each of which assessed the relay route as healthy.\<close>

theorem backup_stop_sound:
  assumes "run (cyc dg boot) (loop_start book) es = Inr st"
    and "controller_cycle dg boot st i = Inr (out, st')" and "0 \<in> set (r_scaled out)"
  shows "(\<exists>n \<ge> 1. i_replicas i = Some n) \<and> \<not> g_inhibited (i_guard i) \<and> \<not> g_inhibited (i_guard_at_scale i) \<and>
    r_action out = Some STOP \<and> r_scaled out = [0] \<and>
    (\<exists>pre j post. es @ [i] = pre @ j # post \<and> i_now i - i_now j \<ge> STOP_AFTER \<and>
       (\<forall>(u, x) \<in> set (trail (cyc dg boot) (run (cyc dg boot) (loop_start book) pre) (j # post)). ok_at dg boot u x))"
proof -
  have r: "run (cyc dg boot) (loop_start book) (es @ [i]) = Inr st'" using assms(1,2) by (simp add: cyc_def)
  from assms(2) obtain ok c where d: "decided st i ok c = (r_action out, l_controller st')"
    "r_scaled out = dispatched (r_action out) i" by (rule controller_cycle_Inr)
  from assms(3) have e: "r_action out = Some STOP" "r_scaled out = [0]" "\<not> g_inhibited (i_guard_at_scale i)"
    unfolding d(2) by (auto dest!: dispatched_scaled)
  from d(1) e(1) have s: "\<not> g_inhibited (i_guard i) \<and> (\<exists>n \<ge> 1. i_replicas i = Some n) \<and> ok \<and>
    (\<exists>s. c_healthy_since (l_controller st') = Some s \<and> i_now i - s \<ge> STOP_AFTER)"
    unfolding decided_def by (intro decide_STOP) simp
  then obtain t where t: "timer c_healthy_since (run (cyc dg boot) (loop_start book) (es @ [i])) = Some t"
    and le: "i_now i - t \<ge> STOP_AFTER" unfolding r by (auto simp: timer_def)
  from healthy_window.since_unbroken [OF timer_init(1) t] obtain pre j post where
    w: "es @ [i] = pre @ j # post" "i_now j = t"
      "\<forall>(u, x) \<in> set (trail (cyc dg boot) (run (cyc dg boot) (loop_start book) pre) (j # post)). ok_at dg boot u x"
    by (elim exE conjE)
  have "i_now i - i_now j \<ge> STOP_AFTER" using le w(2) by simp
  with s e w(1,3) show ?thesis by (intro conjI exI [of _ pre]) blast+
qed


text \<open>C17: sustained failure starts the backup. If the loop is at a cycle that ends an unbroken
  run of media-failure cycles whose first and last readings are at least 30 seconds apart, the
  replica count reads zero and neither the lock nor the maintenance record stands in the way, that
  cycle asks Kubernetes for one replica, and reports SUCCEEDED when the command succeeds.\<close>

theorem sustained_failure_starts_backup:
  assumes "run (cyc dg boot) (loop_start book) pre = s0"
    and "\<forall>(u, x) \<in> set (trail (cyc dg boot) s0 (es @ [i])). failing_at dg boot u x"
    and "i_now i - i_now (hd (es @ [i])) \<ge> START_AFTER" and "sorted (map i_now (pre @ es @ [i]))"
    and "i_replicas i = Some 0" and "i_root_exists i \<longrightarrow> i_lock i = Inr ()"
    and "\<not> g_inhibited (i_guard_at_scale i)"
  shows "\<exists>st out st'. run (cyc dg boot) s0 es = Inr st \<and> controller_cycle dg boot st i = Inr (out, st') \<and>
    r_scaled out = [1] \<and> (i_kubectl i = Inr () \<longrightarrow> r_result out = Some ''SUCCEEDED'')"
proof -
  let ?s = "run (cyc dg boot) s0 es"
  from assms(2) have f: "failing_at dg boot ?s i" by simp
  then obtain st out st' where st: "?s = Inr st" "controller_cycle dg boot st i = Inr (out, st')"
    by (auto simp: failing_at_def cycle_at_def alive_def)
  from st(2) obtain ok c where d: "assessed dg st i = Inr (ok, c)" "decided st i ok c = (r_action out, l_controller st')"
    "r_scaled out = dispatched (r_action out) i" by (rule controller_cycle_Inr)
  from f st d(1) have c: "\<not> ok" "c_domain c = ''MEDIA_FAILURE''" "\<not> g_inhibited (i_guard i)"
    by (auto simp: failing_at_def cycle_at_def)
  have since: "timer c_unhealthy_since (run (cyc dg boot) s0 (es @ [i])) =
      Some (case timer c_unhealthy_since s0 of None \<Rightarrow> i_now (hd (es @ [i])) | Some t \<Rightarrow> t)"
    by (rule failure_window.unbroken_since [OF _ assms(2)]) simp
  have "t \<le> i_now (hd (es @ [i]))" if "timer c_unhealthy_since s0 = Some t" for t
  proof -
    from that assms(1) obtain a j b where "pre = a @ j # b" "i_now j = t"
      using failure_window.since_unbroken [OF timer_init(2), of dg boot book pre t] by blast
    with assms(4) show ?thesis by (cases es) (auto simp: sorted_append)
  qed
  with since st assms(3) obtain t where t: "c_unhealthy_since (l_controller st') = Some t" "i_now i - t \<ge> START_AFTER"
    by (cases "timer c_unhealthy_since s0") (force simp: timer_def cyc_def)+
  have "r_action out = Some START"
    using decide_fires [of "i_iso i" c "i_now i" "i_guard i" _ t] d(2) t c assms(5) unfolding decided_def
    by (metis fst_conv snd_conv)
  moreover from this have "r_scaled out = [1]" using d(3) assms(6,7) by (simp add: dispatched_def scale_requests)
  moreover have "r_result out = Some ''SUCCEEDED''" if "i_kubectl i = Inr ()"
    using st(2) that \<open>r_action out = Some START\<close> assms(6,7)
    by (cases "i_root_exists i") (auto simp: controller_cycle_def scale_if_allowed_def scale_def Let_def split_beta)
  ultimately show ?thesis using st by blast
qed


section \<open>Quiet and failing cycles\<close>

lemma combine_domain:
  "c_domain c \<in> set DOMAINS \<Longrightarrow> c_domain (snd (combine_transport c v)) \<in> set DOMAINS"
  by (auto simp: combine_transport_def Let_def setc_def DOMAINS_def)

lemma decide_domain: "c_domain (snd (decide t c now ok reps g u)) = c_domain c"
  by (auto simp: decide_def Let_def count_reset_def split: option.splits)

lemma cb_update_total:
  assumes "d \<in> set DOMAINS"
  obtains r where "cb_update boot new_id b d reason reps now = Inr r"
  using assms by (auto simp: cb_update_def split_beta)

lemma local_verdict_raises:
  assumes "fst (local_verdict dg w i) = Inl e"
  shows "\<not> is_os_error e \<and> e \<noteq> TypeError \<and> \<not> is_value_error e"
  using assms by (auto simp: local_verdict_def split: sum.splits prod.splits if_splits)

text \<open>a cycle of the controller ends the process before its dispatch only in two ways: the local
  transport export raises something that is neither an OSError, a TypeError nor a ValueError, or the
  cause bookmark cannot be written. Every assessment lies in the closed set of domains, so the bookmark
  cannot reject it, and a failing kubectl, lock or guard is reported instead of raised.\<close>

theorem cycle_raises_only_transport:
  "controller_cycle dg boot st i = Inl e \<longleftrightarrow>
     (case fst (local_verdict dg (l_witness st) i) of
        Inl e' \<Rightarrow> e = e' \<and> \<not> is_os_error e \<and> e \<noteq> TypeError \<and> \<not> is_value_error e
      | Inr _ \<Rightarrow> i_book_saved i = Inl e)"
proof (cases "fst (local_verdict dg (l_witness st) i)")
  case (Inl e')
  then have "controller_cycle dg boot st i = Inl e'" by (simp add: controller_cycle_def Let_def split_beta)
  with Inl local_verdict_raises [OF Inl] show ?thesis by auto
next
  case (Inr v)
  let ?k = "combine_transport (snd (healthy (l_controller st) (fst (observed i)) (str_of (dget (snd (observed i)) ''reason'')))) v"
  have dm: "c_domain (snd (decided st i (fst ?k) (snd ?k))) \<in> set DOMAINS"
    unfolding decided_def decide_domain by (intro combine_domain healthy_domain)
  obtain r where "cb_update boot (i_new_id i) (l_book st) (c_domain (snd (decided st i (fst ?k) (snd ?k))))
      (c_reason (snd (decided st i (fst ?k) (snd ?k)))) (i_replicas i) (i_now i) = Inr r"
    by (rule cb_update_total [OF dm])
  then have "controller_cycle dg boot st i = Inl e \<longleftrightarrow> i_book_saved i = Inl e"
    using Inr unfolding controller_cycle_def decided_def
    by (cases "i_book_saved i") (simp_all add: Let_def split_beta)
  with Inr show ?thesis by simp
qed

text \<open>nothing happens under maintenance or without a replica count. A cycle whose decision
  sees an inhibiting record or no replica count takes no action and issues no command; and whatever
  was decided, no command is issued when the record inhibits at dispatch or the session lock is not
  obtained.\<close>

theorem inhibited_cycle_inert:
  assumes "controller_cycle dg boot st i = Inr (out, st')"
  shows "(g_inhibited (i_guard i) \<or> i_replicas i = None \<longrightarrow> r_action out = None \<and> r_scaled out = []) \<and>
    (g_inhibited (i_guard_at_scale i) \<or> i_root_exists i \<and> i_lock i \<noteq> Inr () \<longrightarrow> r_scaled out = [])"
proof -
  from assms obtain ok c where d: "decided st i ok c = (r_action out, l_controller st')"
    "r_scaled out = dispatched (r_action out) i" by (rule controller_cycle_Inr)
  have "r_action out = None" if "g_inhibited (i_guard i) \<or> i_replicas i = None"
    using d(1) that by (auto simp: decided_def decide_def Let_def split: if_splits)
  then show ?thesis unfolding d(2) by (auto simp: dispatched_def scale_requests split: option.splits)
qed

section \<open>Concrete runs\<close>

definition ex_guard :: guard where
  "ex_guard = \<lparr>g_inhibited = False, g_reason = ''normal'', g_phase = ''NORMAL'', g_session_id = PNone,
     g_overdue = False, g_generation = None\<rparr>"

definition ex_cycle :: "sample option \<Rightarrow> int \<Rightarrow> seconds \<Rightarrow> cycle_input" where
  "ex_cycle smp reps now = \<lparr>i_observe = (smp, []), i_replicas = Some reps, i_age_check = now,
     i_observe_again = (smp, []), i_transport = Inl OSError, i_transport_at = now, i_now = now,
     i_guard = ex_guard, i_iso = ''t'', i_new_id = ''0'', i_book_saved = Inr (), i_root_exists = True, i_lock = Inr (),
     i_guard_at_scale = ex_guard, i_kubectl = Inr (), i_dispatch_saved = Inr ()\<rparr>"

definition ex_down :: "seconds \<Rightarrow> cycle_input" where
  "ex_down now = ex_cycle (Some (blank_sample now)) 0 now"

definition ex_live :: "seconds \<Rightarrow> int \<Rightarrow> sample" where
  "ex_live now n = (blank_sample now)\<lparr>s_ready := True, s_bytes_received := n,
     s_youtube := Some \<lparr>y_state = PStr ''forwarding'', y_error = False, y_outbound = Some n,
       y_video_packets = None, y_audio_packets = None\<rparr>\<rparr>"

definition ex_up :: "seconds \<Rightarrow> int \<Rightarrow> cycle_input" where
  "ex_up now n = ex_cycle (Some (ex_live now n)) 1 now"

lemmas ex_cycle_defs = ex_down_def ex_up_def ex_live_def ex_cycle_def ex_guard_def blank_sample_def
lemmas loop_defs = controller_cycle_def local_verdict_def observed_def boottime_of_def healthy_def healthy_start_def
  domain_for_missing_def setc_def set_lost_def combine_transport_def deadline_observe_def deadline_next_def
  deadline_since_def deadline_init_def clock_observe_def clock_fault_next_def clock_status_def decide_def
  count_reset_def cb_update_def cb_transition_def cb_dispatched_def DOMAINS_def scale_if_allowed_def scale_def
  loop_init_def controller_init_def cb_init_def hold_def START_AFTER_def STOP_AFTER_def AFTER_def dget_def str_of_def
  is_problem_def compare_samples_def binding_error_def input_checks_def counter_keys_def yt_of_def ocounter_def oless_def
  action_name_def Let_def

lemma ex_down_run:
  "\<exists>st out st'. run (cyc (\<lambda>_. ()) ''b'') (loop_start cb_init) [ex_down 0] = Inr st \<and>
     controller_cycle (\<lambda>_. ()) ''b'' st (ex_down 30) = Inr (out, st') \<and> r_scaled out = [1]"
  by (simp add: cyc_def loop_defs ex_cycle_defs)

lemma ex_up_run:
  "\<exists>st out st'. run (cyc (\<lambda>_. ()) ''b'') (loop_start cb_init) [ex_up 0 1, ex_up 10 2] = Inr st \<and>
     controller_cycle (\<lambda>_. ()) ''b'' st (ex_up 310 3) = Inr (out, st') \<and> r_scaled out = [0]"
  by (simp add: cyc_def loop_defs ex_cycle_defs)

theorem backup_start_sound_witness:
  "\<exists>st out st'. controller_cycle (\<lambda>_. ()) ''b'' st (ex_down 30) = Inr (out, st') \<and> r_action out = Some START \<and>
     (\<exists>pre j post. [ex_down 0] @ [ex_down 30] = pre @ j # post \<and> i_now (ex_down 30) - i_now j \<ge> START_AFTER)"
proof -
  obtain st out st' where r: "run (cyc (\<lambda>_. ()) ''b'') (loop_start cb_init) [ex_down 0] = Inr st"
    "controller_cycle (\<lambda>_. ()) ''b'' st (ex_down 30) = Inr (out, st')" "r_scaled out = [1]"
    using ex_down_run by blast
  have le: "AFTER \<ge> START_AFTER" by (simp add: AFTER_def START_AFTER_def)
  have "1 \<in> set (r_scaled out)" using r(3) by simp
  from backup_start_sound [OF r(1,2) this] r(2) le show ?thesis by (meson order_trans)
qed

theorem backup_stop_sound_witness:
  "\<exists>st out st'. controller_cycle (\<lambda>_. ()) ''b'' st (ex_up 310 3) = Inr (out, st') \<and> r_action out = Some STOP \<and>
     (\<exists>pre j post. [ex_up 0 1, ex_up 10 2] @ [ex_up 310 3] = pre @ j # post \<and> i_now (ex_up 310 3) - i_now j \<ge> STOP_AFTER)"
proof -
  obtain st out st' where r: "run (cyc (\<lambda>_. ()) ''b'') (loop_start cb_init) [ex_up 0 1, ex_up 10 2] = Inr st"
    "controller_cycle (\<lambda>_. ()) ''b'' st (ex_up 310 3) = Inr (out, st')" "r_scaled out = [0]"
    using ex_up_run by blast
  have "0 \<in> set (r_scaled out)" using r(3) by simp
  from backup_stop_sound [OF r(1,2) this] r(2) show ?thesis by meson
qed

lemma ex_down_failing:
  assumes "controller_cycle dg boot st (ex_down t) = Inr r"
  shows "failing_at dg boot (Inr st) (ex_down t)"
proof -
  obtain c where "assessed dg st (ex_down t) = Inr (False, c)" "c_domain c = ''MEDIA_FAILURE''"
    by (simp add: assessed_def loop_defs ex_cycle_defs)
  with assms show ?thesis by (auto simp: failing_at_def cycle_at_def alive_def ex_cycle_defs)
qed

theorem sustained_failure_starts_backup_witness:
  "\<exists>st out st'. run (cyc (\<lambda>_. ()) ''b'') (loop_start cb_init) [ex_down 0] = Inr st \<and>
     controller_cycle (\<lambda>_. ()) ''b'' st (ex_down 30) = Inr (out, st') \<and> r_result out = Some ''SUCCEEDED''"
proof -
  obtain st out st' where r: "run (cyc (\<lambda>_. ()) ''b'') (loop_start cb_init) [ex_down 0] = Inr st"
    "controller_cycle (\<lambda>_. ()) ''b'' st (ex_down 30) = Inr (out, st')"
    using ex_down_run by blast
  obtain out0 where "controller_cycle (\<lambda>_. ()) ''b'' (loop_init cb_init) (ex_down 0) = Inr (out0, st)"
    using r(1) by (auto elim: cyc_Inr)
  from ex_down_failing [OF this] ex_down_failing [OF r(2)] r(1) show ?thesis
    using sustained_failure_starts_backup [of "\<lambda>_. ()" "''b''" cb_init "[]" "loop_start cb_init" "[ex_down 0]" "ex_down 30"]
    by (auto simp: START_AFTER_def ex_cycle_defs)
qed

theorem cycle_raises_only_transport_witness:
  "controller_cycle (\<lambda>_. ()) ''b'' (loop_init cb_init) ((ex_down 0)\<lparr>i_transport := Inl AttributeError\<rparr>) = Inl AttributeError"
  using cycle_raises_only_transport [of "\<lambda>_. ()" "''b''" "loop_init cb_init" "(ex_down 0)\<lparr>i_transport := Inl AttributeError\<rparr>"
      AttributeError]
  by (simp add: local_verdict_def)

theorem inhibited_cycle_inert_witness:
  "\<exists>out st'. controller_cycle (\<lambda>_. ()) ''b'' (loop_init cb_init) ((ex_down 0)\<lparr>i_replicas := None\<rparr>) = Inr (out, st') \<and>
     r_action out = None"
proof -
  obtain out st' where r: "controller_cycle (\<lambda>_. ()) ''b'' (loop_init cb_init) ((ex_down 0)\<lparr>i_replicas := None\<rparr>) = Inr (out, st')"
    by (simp add: loop_defs ex_cycle_defs)
  from inhibited_cycle_inert [OF r] r show ?thesis by simp
qed


end
