(* ===== verification/Forward_Keeper.thy ===== *)
theory Forward_Keeper
  imports Py_Prelude
begin

text \<open>
  \<open>ops/selfheal/forward_keeper.py\<close>: the process that keeps the MediaMTX forwards healthy and
  renews the Twitch session once per day.

  The class \<open>Keeper\<close> is the record \<open>keeper\<close> with \<open>desired\<close>, \<open>heal\<close> and \<open>renewal\<close>; \<open>reconcile\<close>,
  \<open>Helix.status\<close>, the reload of the state file and the body of the main loop follow. Replies of
  MediaMTX and Twitch are inputs (a value or an exception). The configured destinations come from
  the provisioned configuration and carry a string under \<open>dest\<close>; what MediaMTX reports is untrusted
  and stays an arbitrary JSON value. Wall-clock instants are integers of microseconds.
\<close>

section \<open>Constants and destinations\<close>

definition BAD_SECONDS :: seconds where "BAD_SECONDS = 30"
definition HEAL_INTERVAL :: seconds where "HEAL_INTERVAL = 60"
definition OFFLINE_MIN :: seconds where "OFFLINE_MIN = 120"
definition OFFLINE_MAX :: seconds where "OFFLINE_MAX = 600"
definition VERIFY_MAX :: seconds where "VERIFY_MAX = 180"
definition AGE_LIMIT :: seconds where "AGE_LIMIT = 46 * 3600"

record forward =
  fw_dest :: string
  fw_options :: "(string \<times> py) list"

definition HEALING_DEST :: forward where
  "HEALING_DEST = \<lparr>fw_dest = ''rtmp://127.0.0.1:1/stream-v3-healing'', fw_options = []\<rparr>"

definition is_twitch :: "string \<Rightarrow> bool" where
  "is_twitch dest \<longleftrightarrow> contains ''live-video.net'' dest \<or> contains ''twitch'' dest"

section \<open>Dates\<close>

text \<open>\<open>wall.astimezone(JST).date().isoformat()\<close>: the civil date of a day number.\<close>

definition jst_day :: "instant \<Rightarrow> int" where
  "jst_day wall = (wall + 9 * 3600 * 1000000) div (86400 * 1000000)"

definition civil :: "int \<Rightarrow> int \<times> int \<times> int" where
  "civil days =
     (let z = days + 719468; era = z div 146097; doe = z mod 146097;
          yoe = (doe - doe div 1460 + doe div 36524 - doe div 146096) div 365;
          doy = doe - (365 * yoe + yoe div 4 - yoe div 100);
          mp = (5 * doy + 2) div 153;
          d = doy - (153 * mp + 2) div 5 + 1;
          m = (if mp < 10 then mp + 3 else mp - 9)
      in (yoe + era * 400 + (if m \<le> 2 then 1 else 0), m, d))"

definition pad :: "nat \<Rightarrow> int \<Rightarrow> string" where
  "pad n k = replicate (n - length (int_str k)) CHR ''0'' @ int_str k"

definition isoformat :: "int \<Rightarrow> string" where
  "isoformat days = (case civil days of (y, m, d) \<Rightarrow> pad 4 y @ ''-'' @ pad 2 m @ ''-'' @ pad 2 d)"

definition jst_today :: "instant \<Rightarrow> string" where
  "jst_today wall = isoformat (jst_day wall)"

section \<open>The keeper\<close>

datatype kphase = IDLE | WAIT_OFFLINE | VERIFY

record keeper =
  k_destinations :: "forward list"
  k_bad_since :: "string \<rightharpoonup> seconds"
  k_last_heal :: "string \<rightharpoonup> seconds"
  k_previous_samples :: "string \<rightharpoonup> (string \<times> py) list"
  k_removed :: "string option"
  k_phase :: kphase
  k_phase_at :: seconds
  k_last_renewal_date :: py
  k_old_stream_id :: py
  k_current :: "forward list"

definition keeper_new :: "forward list \<Rightarrow> keeper" where
  "keeper_new ds = \<lparr>k_destinations = ds, k_bad_since = Map.empty, k_last_heal = Map.empty,
     k_previous_samples = Map.empty, k_removed = None, k_phase = IDLE, k_phase_at = 0,
     k_last_renewal_date = PStr [], k_old_stream_id = PStr [], k_current = ds\<rparr>"

fun desired_list :: "kphase \<Rightarrow> string option \<Rightarrow> forward list \<Rightarrow> forward list" where
  "desired_list ph removed [] = []"
| "desired_list ph removed (d # ds) =
     (if ph = WAIT_OFFLINE \<and> is_twitch (fw_dest d) then desired_list ph removed ds
      else if removed = Some (fw_dest d) then HEALING_DEST # desired_list ph removed ds
      else d # desired_list ph removed ds)"

definition desired :: "keeper \<Rightarrow> forward list" where
  "desired k = desired_list (k_phase k) (k_removed k) (k_destinations k)"

definition apply_desired :: "keeper \<Rightarrow> keeper" where
  "apply_desired k = k\<lparr>k_current := desired k\<rparr>"

text \<open>The values a \<open>for\<close> loop visits.\<close>

fun py_iter :: "py \<Rightarrow> py list res" where
  "py_iter (PList xs) = Inr xs"
| "py_iter (PDict kvs) = Inr (map (\<lambda>(k, _). PStr k) kvs)"
| "py_iter (PStr s) = Inr (map (\<lambda>c. PStr [c]) s)"
| "py_iter v = Inl TypeError"

text \<open>\<open>(item.get('conf') or {}).get('dest')\<close>, and membership in the set of configured strings.\<close>

definition item_dest :: "py \<Rightarrow> py res" where
  "item_dest item = bindE (py_get item ''conf'') (\<lambda>conf. py_get (py_or conf (PDict [])) ''dest'')"

definition configured_dest :: "keeper \<Rightarrow> py \<Rightarrow> string option res" where
  "configured_dest k v = (case v of
       PStr s \<Rightarrow> Inr (if s \<in> fw_dest ` set (k_destinations k) then Some s else None)
     | PList _ \<Rightarrow> Inl TypeError | PDict _ \<Rightarrow> Inl TypeError | _ \<Rightarrow> Inr None)"

definition int_increased :: "py \<Rightarrow> py \<Rightarrow> bool" where
  "int_increased count before = (case (count, before) of (PInt c, PInt b) \<Rightarrow> c > b \<and> b \<ge> 0 | _ \<Rightarrow> False)"

definition forwarding_ok :: "(string \<times> py) list \<Rightarrow> (string \<times> py) list \<Rightarrow> bool" where
  "forwarding_ok item previous \<longleftrightarrow>
     py_eq (dget item ''state'') (PStr ''forwarding'') \<and> \<not> py_truthy (dget item ''lastError'') \<and>
     py_eq (dget previous ''state'') (PStr ''forwarding'') \<and> \<not> py_truthy (dget previous ''lastError'') \<and>
     py_eq (dget item ''id'') (dget previous ''id'') \<and>
     int_increased (dget item ''outboundBytes'') (dget previous ''outboundBytes'')"

definition heal_allowed :: "keeper \<Rightarrow> string \<Rightarrow> seconds \<Rightarrow> seconds \<Rightarrow> bool" where
  "heal_allowed k dest now since \<longleftrightarrow> now - since \<ge> BAD_SECONDS \<and>
     now - (case k_last_heal k dest of None \<Rightarrow> - 1000000000 | Some t \<Rightarrow> t) \<ge> HEAL_INTERVAL"

fun heal_items :: "seconds \<Rightarrow> keeper \<Rightarrow> py list \<Rightarrow> (forward list option \<times> keeper) res" where
  "heal_items now k [] = Inr (None, k)"
| "heal_items now k (item # items) =
     bindE (item_dest item) (\<lambda>v.
     bindE (configured_dest k v) (\<lambda>dst.
     case (dst, item) of
       (Some dest, PDict kvs) \<Rightarrow>
         (let previous = (case k_previous_samples k dest of None \<Rightarrow> [] | Some p \<Rightarrow> p);
              k1 = k\<lparr>k_previous_samples := (k_previous_samples k)(dest \<mapsto> kvs)\<rparr> in
          if forwarding_ok kvs previous
            then heal_items now (k1\<lparr>k_bad_since := (k_bad_since k1)(dest := None)\<rparr>) items
          else
            (let since = (case k_bad_since k dest of None \<Rightarrow> now | Some t \<Rightarrow> t);
                 k2 = k1\<lparr>k_bad_since := (k_bad_since k1)(dest \<mapsto> since)\<rparr> in
             if heal_allowed k2 dest now since
               then (let k3 = k2\<lparr>k_last_heal := (k_last_heal k2)(dest \<mapsto> now),
                                 k_bad_since := (k_bad_since k2)(dest := None), k_removed := Some dest\<rparr>
                     in Inr (Some (desired k3), apply_desired k3))
             else heal_items now k2 items))
     | _ \<Rightarrow> heal_items now k items))"

definition heal :: "seconds \<Rightarrow> bool \<Rightarrow> py \<Rightarrow> keeper \<Rightarrow> (forward list option \<times> keeper) res" where
  "heal now ready items k =
     (if k_removed k \<noteq> None
        then (let k1 = k\<lparr>k_removed := None\<rparr> in Inr (Some (desired k1), apply_desired k1))
      else if \<not> ready then Inr (None, k\<lparr>k_bad_since := Map.empty, k_previous_samples := Map.empty\<rparr>)
      else bindE (py_iter items) (heal_items now k))"

section \<open>Daily renewal\<close>

text \<open>A start time of the Twitch session carries whether it has a time zone.\<close>

record twitch =
  w_status :: string
  w_stream_id :: py
  w_started_at :: "(bool \<times> instant) option"

definition session_age :: "instant \<Rightarrow> twitch \<Rightarrow> seconds res" where
  "session_age wall tw = (case w_started_at tw of
       None \<Rightarrow> Inr 0
     | Some (aware, t) \<Rightarrow> if aware then Inr (total_seconds (wall - t)) else Inl TypeError)"

definition renewal ::
  "seconds \<Rightarrow> instant \<Rightarrow> bool \<Rightarrow> twitch \<Rightarrow> keeper \<Rightarrow> (forward list option \<times> keeper) res" where
  "renewal now wall ready tw k =
     (let today = PStr (jst_today wall) in
      case k_phase k of
        IDLE \<Rightarrow>
          if \<not> ready \<or> w_status tw \<noteq> ''LIVE'' then Inr (None, k)
          else bindE (session_age wall tw) (\<lambda>age.
            let due_daily = (py_truthy (k_last_renewal_date k) \<and> \<not> py_eq today (k_last_renewal_date k));
                k1 = (if \<not> py_truthy (k_last_renewal_date k) then k\<lparr>k_last_renewal_date := today\<rparr> else k) in
            if \<not> (due_daily \<or> age \<ge> AGE_LIMIT) then Inr (None, k1)
            else (let k2 = k1\<lparr>k_phase := WAIT_OFFLINE, k_phase_at := now, k_old_stream_id := w_stream_id tw,
                              k_last_renewal_date := today\<rparr>
                  in Inr (Some (desired k2), apply_desired k2)))
      | WAIT_OFFLINE \<Rightarrow>
          (let waited = now - k_phase_at k in
           if (w_status tw = ''OFFLINE'' \<and> waited \<ge> OFFLINE_MIN) \<or> waited \<ge> OFFLINE_MAX
             then (let k1 = k\<lparr>k_phase := VERIFY, k_phase_at := now\<rparr> in Inr (Some (desired k1), apply_desired k1))
           else Inr (None, k))
      | VERIFY \<Rightarrow>
          (let new_live = (w_status tw = ''LIVE'' \<and> \<not> py_eq (w_stream_id tw) (PStr []) \<and>
                 \<not> py_eq (w_stream_id tw) (k_old_stream_id k)) in
           Inr (None, if new_live \<or> now - k_phase_at k \<ge> VERIFY_MAX \<or> \<not> ready then k\<lparr>k_phase := IDLE\<rparr> else k)))"

definition phase_name :: "kphase \<Rightarrow> string" where
  "phase_name p = (case p of IDLE \<Rightarrow> ''IDLE'' | WAIT_OFFLINE \<Rightarrow> ''WAIT_OFFLINE'' | VERIFY \<Rightarrow> ''VERIFY'')"

definition to_state :: "keeper \<Rightarrow> py" where
  "to_state k = PDict [(''phase'', PStr (phase_name (k_phase k))), (''last_renewal_date'', k_last_renewal_date k),
     (''old_stream_id'', k_old_stream_id k)]"

section \<open>Reconciliation\<close>

text \<open>\<open>rp\<close> is \<open>repr\<close> of values other than strings, which \<open>str()\<close> falls back to.\<close>

fun dests_of :: "(py \<Rightarrow> string) \<Rightarrow> py list \<Rightarrow> string list res" where
  "dests_of rp [] = Inr []"
| "dests_of rp (f # fs) =
     bindE (py_get (py_or f (PDict [])) ''dest'') (\<lambda>d.
     bindE (dests_of rp fs) (\<lambda>ds. Inr (py_str rp (py_or d (PStr [])) # ds)))"

definition configured_dests :: "(py \<Rightarrow> string) \<Rightarrow> py \<Rightarrow> string list option res" where
  "configured_dests rp path_config =
     (case path_config of
        PDict kvs \<Rightarrow> (case dget kvs ''forward'' of
            PList fs \<Rightarrow> bindE (dests_of rp fs) (\<lambda>ds. Inr (Some ds))
          | _ \<Rightarrow> Inr None)
      | _ \<Rightarrow> Inr None)"

text \<open>The first component is the result, the second whether the PATCH request was made.\<close>

definition reconcile ::
  "(py \<Rightarrow> string) \<Rightarrow> py res \<Rightarrow> unit res \<Rightarrow> py res \<Rightarrow> forward list \<Rightarrow> string res \<times> bool" where
  "reconcile rp before patch after target =
     (case bindE before (configured_dests rp) of
        Inl e \<Rightarrow> (Inl e, False)
      | Inr c \<Rightarrow>
          if c = Some (map fw_dest target) then (Inr ''in_sync'', False)
          else (case patch of
                  Inl e \<Rightarrow> (Inr ''failed'', True)
                | Inr _ \<Rightarrow> (bindE (bindE after (configured_dests rp)) (\<lambda>c'.
                    Inr (if c' = Some (map fw_dest target) then ''patched'' else ''unconfirmed'')), True)))"

section \<open>Twitch status\<close>

record helix =
  h_token :: py
  h_expires :: seconds

definition helix_new :: helix where "helix_new = \<lparr>h_token = PStr [], h_expires = 0\<rparr>"

definition unknown_twitch :: twitch where
  "unknown_twitch = \<lparr>w_status = ''UNKNOWN'', w_stream_id = PStr [], w_started_at = None\<rparr>"

definition first_item :: "py \<Rightarrow> py res" where
  "first_item v = (case v of
       PList (x # _) \<Rightarrow> Inr x | PList [] \<Rightarrow> Inl IndexError
     | PStr (c # _) \<Rightarrow> Inr (PStr [c]) | PStr [] \<Rightarrow> Inl IndexError
     | PDict _ \<Rightarrow> Inl KeyError | _ \<Rightarrow> Inl TypeError)"

definition replace_Z_utc :: "string \<Rightarrow> string" where
  "replace_Z_utc s = concat (map (\<lambda>c. if c = CHR ''Z'' then ''+00:00'' else [c]) s)"

definition live_status :: "(string \<Rightarrow> (bool \<times> instant) option) \<Rightarrow> py \<Rightarrow> twitch res" where
  "live_status fromiso reply =
     bindE (py_get_dflt reply ''data'' (PList [])) (\<lambda>data.
     if \<not> py_truthy data then Inr \<lparr>w_status = ''OFFLINE'', w_stream_id = PStr [], w_started_at = None\<rparr>
     else bindE (first_item data) (\<lambda>s.
          bindE (py_getitem s ''id'') (\<lambda>i.
          bindE (py_getitem s ''started_at'') (\<lambda>sa.
          bindE (case sa of PStr t \<Rightarrow> (case fromiso (replace_Z_utc t) of
                     None \<Rightarrow> Inl (ValueError ''isoformat'') | Some x \<Rightarrow> Inr x)
                 | _ \<Rightarrow> Inl AttributeError) (\<lambda>start.
          Inr \<lparr>w_status = ''LIVE'', w_stream_id = i, w_started_at = Some start\<rparr>)))))"

definition helix_refresh :: "seconds \<Rightarrow> seconds \<Rightarrow> py res \<Rightarrow> helix \<Rightarrow> helix res" where
  "helix_refresh t0 t1 token_reply h =
     (if t0 \<ge> h_expires h - 60
      then bindE token_reply (\<lambda>reply. bindE (py_getitem reply ''access_token'') (\<lambda>tok.
           bindE (py_getitem reply ''expires_in'') (\<lambda>e. bindE (py_int e) (\<lambda>n.
           Inr \<lparr>h_token = tok, h_expires = t1 + of_int n\<rparr>))))
      else Inr h)"

definition helix_status ::
  "(string \<Rightarrow> (bool \<times> instant) option) \<Rightarrow> seconds \<Rightarrow> seconds \<Rightarrow> py res \<Rightarrow> py res \<Rightarrow> helix \<Rightarrow> twitch \<times> helix" where
  "helix_status fromiso t0 t1 token_reply streams_reply h =
     (case helix_refresh t0 t1 token_reply h of
        Inl e \<Rightarrow> (unknown_twitch, h)
      | Inr h1 \<Rightarrow>
          (case bindE (requireE (is_str (h_token h1)) TypeError) (\<lambda>_. bindE streams_reply (live_status fromiso)) of
             Inl e \<Rightarrow> (unknown_twitch, h1) | Inr tw \<Rightarrow> (tw, h1)))"

section \<open>Start and main loop\<close>

text \<open>\<open>saved\<close> is what the state file holds; an unreadable file counts as empty.\<close>

definition keeper_load :: "forward list \<Rightarrow> py res \<Rightarrow> seconds \<Rightarrow> keeper res" where
  "keeper_load ds file now =
     (let saved = (case file of Inl _ \<Rightarrow> PDict [] | Inr v \<Rightarrow> v) in
      if \<not> py_truthy saved then Inr (keeper_new ds)
      else bindE (py_get_dflt saved ''last_renewal_date'' (PStr [])) (\<lambda>date.
           bindE (py_get saved ''phase'') (\<lambda>ph.
           bindE (py_get_dflt saved ''old_stream_id'' (PStr [])) (\<lambda>old.
           let k = (keeper_new ds)\<lparr>k_last_renewal_date := date\<rparr> in
           Inr (if py_eq ph (PStr ''WAIT_OFFLINE'') \<or> py_eq ph (PStr ''VERIFY'')
                then k\<lparr>k_phase := VERIFY, k_phase_at := now, k_old_stream_id := old\<rparr> else k)))))"

record keeper_input =
  ki_now :: seconds
  ki_path :: "py res"
  ki_items :: "py res"
  ki_token :: "py res"
  ki_streams :: "py res"
  ki_t0 :: seconds
  ki_t1 :: seconds
  ki_wall :: instant
  ki_config :: "py res"
  ki_patch :: "unit res"
  ki_config_after :: "py res"

record keeper_loop =
  kl_keeper :: keeper
  kl_helix :: helix
  kl_next_helix :: seconds
  kl_twitch :: twitch

record keeper_output =
  ko_result :: "string option"
  ko_target :: "forward list"
  ko_patched :: bool

definition path_facts :: "keeper_input \<Rightarrow> (bool \<times> py) res" where
  "path_facts i =
     bindE (ki_path i) (\<lambda>path. bindE (py_get path ''ready'') (\<lambda>r.
     bindE (ki_items i) (\<lambda>reply. bindE (py_get_dflt reply ''items'' (PList [])) (\<lambda>items.
     Inr (py_truthy r, items)))))"

definition poll_helix :: "(string \<Rightarrow> (bool \<times> instant) option) \<Rightarrow> keeper_input \<Rightarrow> keeper_loop \<Rightarrow> keeper_loop" where
  "poll_helix fromiso i l =
     (if ki_now i \<ge> kl_next_helix l
      then (case helix_status fromiso (ki_t0 i) (ki_t1 i) (ki_token i) (ki_streams i) (kl_helix l) of (tw, h) \<Rightarrow>
        l\<lparr>kl_twitch := tw, kl_helix := h,
          kl_next_helix := ki_now i + (if k_phase (kl_keeper l) \<noteq> IDLE then 10 else 60)\<rparr>)
      else l)"

definition keeper_step :: "keeper_input \<Rightarrow> bool \<Rightarrow> py \<Rightarrow> twitch \<Rightarrow> keeper \<Rightarrow> keeper res" where
  "keeper_step i ready items tw k =
     bindE (renewal (ki_now i) (ki_wall i) ready tw k) (\<lambda>(change, k1).
     if change = None \<and> k_phase k1 = IDLE
     then bindE (heal (ki_now i) ready items k1) (\<lambda>(_, k2). Inr k2)
     else Inr (k1\<lparr>k_removed := None\<rparr>))"

definition keeper_cycle ::
  "(string \<Rightarrow> (bool \<times> instant) option) \<Rightarrow> (py \<Rightarrow> string) \<Rightarrow> keeper_loop \<Rightarrow> keeper_input \<Rightarrow>
   (keeper_output \<times> keeper_loop) res" where
  "keeper_cycle fromiso rp l i =
     (case path_facts i of
        Inl e \<Rightarrow> Inr (\<lparr>ko_result = None, ko_target = [], ko_patched = False\<rparr>, l)
      | Inr (ready, items) \<Rightarrow>
          (let l1 = poll_helix fromiso i l in
           bindE (keeper_step i ready items (kl_twitch l1) (kl_keeper l1)) (\<lambda>k.
           let target = desired k;
               (result, patched) = reconcile rp (ki_config i) (ki_patch i) (ki_config_after i) target
           in Inr (\<lparr>ko_result = Some (case result of Inl e \<Rightarrow> ''unreadable'' | Inr r \<Rightarrow> r), ko_target = target,
                   ko_patched = patched\<rparr>, l1\<lparr>kl_keeper := k\<rparr>))))"

section \<open>What one cycle can change\<close>

lemma renewal_frame:
  assumes "renewal now wall ready tw k = Inr (ch, k')"
  shows "k_destinations k' = k_destinations k" "k_removed k' = k_removed k" "k_last_heal k' = k_last_heal k"
  using assms
  by (auto simp: renewal_def apply_desired_def Let_def split: kphase.splits if_splits)

lemma heal_items_result:
  assumes "heal_items now k items = Inr (ch, k')" and "k_removed k = None"
  shows "k_destinations k' = k_destinations k \<and> k_phase k' = k_phase k \<and>
    k_last_renewal_date k' = k_last_renewal_date k \<and>
    (case k_removed k' of
       None \<Rightarrow> k_last_heal k' = k_last_heal k
     | Some d \<Rightarrow> k_last_heal k' = (k_last_heal k)(d \<mapsto> now) \<and>
         (\<forall>t. k_last_heal k d = Some t \<longrightarrow> now - t \<ge> HEAL_INTERVAL))"
  using assms
proof (induction items arbitrary: k)
  case (Cons item items)
  from Cons.prems obtain v dst where v: "item_dest item = Inr v" "configured_dest k v = Inr dst" by auto
  show ?case
  proof (cases "\<exists>dest kvs. dst = Some dest \<and> item = PDict kvs")
    case False
    with Cons.prems v have "heal_items now k items = Inr (ch, k')"
      by (cases dst; cases item) auto
    then show ?thesis using Cons.IH Cons.prems(2) by blast
  next
    case True
    then obtain dest kvs where d: "dst = Some dest" "item = PDict kvs" by blast
    let ?prev = "case k_previous_samples k dest of None \<Rightarrow> [] | Some p \<Rightarrow> p"
    let ?k1 = "k\<lparr>k_previous_samples := (k_previous_samples k)(dest \<mapsto> kvs)\<rparr>"
    let ?since = "case k_bad_since k dest of None \<Rightarrow> now | Some t \<Rightarrow> t"
    let ?k2 = "?k1\<lparr>k_bad_since := (k_bad_since ?k1)(dest \<mapsto> ?since)\<rparr>"
    consider (ok) "forwarding_ok kvs ?prev"
      | (fire) "\<not> forwarding_ok kvs ?prev" "heal_allowed ?k2 dest now ?since"
      | (wait) "\<not> forwarding_ok kvs ?prev" "\<not> heal_allowed ?k2 dest now ?since" by blast
    then show ?thesis
    proof cases
      case ok
      with Cons.prems v d have "heal_items now (?k1\<lparr>k_bad_since := (k_bad_since ?k1)(dest := None)\<rparr>) items = Inr (ch, k')"
        by (simp add: Let_def)
      from Cons.IH [OF this] Cons.prems(2) show ?thesis by (auto split: option.splits)
    next
      case fire
      with Cons.prems v d have "k_removed k' = Some dest" "k_last_heal k' = (k_last_heal k)(dest \<mapsto> now)"
        "k_destinations k' = k_destinations k" "k_phase k' = k_phase k" "k_last_renewal_date k' = k_last_renewal_date k"
        by (auto simp: Let_def apply_desired_def)
      with fire(2) show ?thesis by (auto simp: heal_allowed_def)
    next
      case wait
      with Cons.prems v d have "heal_items now ?k2 items = Inr (ch, k')" by (simp add: Let_def)
      from Cons.IH [OF this] Cons.prems(2) show ?thesis by (auto split: option.splits)
    qed
  qed
qed simp

lemma heal_result:
  assumes "heal now ready items k = Inr (ch, k')"
  shows "k_destinations k' = k_destinations k \<and> k_phase k' = k_phase k \<and>
    k_last_renewal_date k' = k_last_renewal_date k \<and>
    (case k_removed k' of
       None \<Rightarrow> k_last_heal k' = k_last_heal k
     | Some d \<Rightarrow> k_removed k = None \<and> k_last_heal k' = (k_last_heal k)(d \<mapsto> now) \<and>
         (\<forall>t. k_last_heal k d = Some t \<longrightarrow> now - t \<ge> HEAL_INTERVAL))"
  using assms heal_items_result [of now k _ ch k']
  by (auto simp: heal_def apply_desired_def Let_def split: if_splits option.splits)

lemma keeper_step_result:
  assumes "keeper_step i ready items tw k = Inr k'"
  shows "k_destinations k' = k_destinations k \<and> (k_phase k' \<noteq> IDLE \<longrightarrow> k_removed k' = None) \<and>
    (case k_removed k' of
       None \<Rightarrow> k_last_heal k' = k_last_heal k
     | Some d \<Rightarrow> k_removed k = None \<and> k_last_heal k' = (k_last_heal k)(d \<mapsto> ki_now i) \<and>
         (\<forall>t. k_last_heal k d = Some t \<longrightarrow> ki_now i - t \<ge> HEAL_INTERVAL))"
proof -
  from assms obtain ch k1 where r: "renewal (ki_now i) (ki_wall i) ready tw k = Inr (ch, k1)"
    and n: "(if ch = None \<and> k_phase k1 = IDLE
       then bindE (heal (ki_now i) ready items k1) (\<lambda>(_, k2). Inr k2)
       else Inr (k1\<lparr>k_removed := None\<rparr>)) = Inr k'"
    by (auto simp: keeper_step_def)
  note fr = renewal_frame [OF r]
  show ?thesis
  proof (cases "ch = None \<and> k_phase k1 = IDLE")
    case True
    with n obtain ch' where "heal (ki_now i) ready items k1 = Inr (ch', k')" by auto
    from heal_result [OF this] True fr show ?thesis by (auto split: option.splits)
  next
    case False
    with n fr show ?thesis by auto
  qed
qed

lemma keeper_cycle_Inr:
  assumes "keeper_cycle fromiso rp l i = Inr (out, l')"
  shows "(ko_result out = None \<and> l' = l) \<or>
    (\<exists>ready items. path_facts i = Inr (ready, items) \<and> ko_result out \<noteq> None \<and> ko_target out = desired (kl_keeper l') \<and>
       keeper_step i ready items (kl_twitch (poll_helix fromiso i l)) (kl_keeper l) = Inr (kl_keeper l'))"
proof -
  have "kl_keeper (poll_helix fromiso i l) = kl_keeper l" by (simp add: poll_helix_def split: prod.splits)
  with assms show ?thesis
    by (cases "path_facts i") (auto simp: keeper_cycle_def Let_def split_beta)
qed

lemma desired_list_wait: "desired_list WAIT_OFFLINE None ds = filter (\<lambda>d. \<not> is_twitch (fw_dest d)) ds"
  by (induction ds) auto

lemma desired_list_slots:
  "ph \<noteq> WAIT_OFFLINE \<Longrightarrow>
   desired_list ph removed ds = map (\<lambda>d. if removed = Some (fw_dest d) then HEALING_DEST else d) ds"
  by (induction ds) auto

text \<open>the daily renewal never touches any other forward. In a completed cycle the forward list
  requested from MediaMTX is, while the keeper waits for Twitch to go offline, exactly the configured
  list without the Twitch destinations; in every other phase it has every configured destination in
  its slot, except that the one destination being healed is replaced by the placeholder, and a
  destination healed in the previous cycle is back.\<close>

theorem keeper_target_shape:
  assumes "keeper_cycle fromiso rp l i = Inr (out, l')" and "ko_result out \<noteq> None"
  shows "k_destinations (kl_keeper l') = k_destinations (kl_keeper l) \<and>
    (if k_phase (kl_keeper l') = WAIT_OFFLINE
     then ko_target out = filter (\<lambda>d. \<not> is_twitch (fw_dest d)) (k_destinations (kl_keeper l))
     else ko_target out = map (\<lambda>d. if k_removed (kl_keeper l') = Some (fw_dest d) then HEALING_DEST else d)
            (k_destinations (kl_keeper l))) \<and>
    (k_removed (kl_keeper l) \<noteq> None \<longrightarrow> k_removed (kl_keeper l') = None)"
proof -
  from keeper_cycle_Inr [OF assms(1)] assms(2) obtain ready items where
    t: "ko_target out = desired (kl_keeper l')" and
    s: "keeper_step i ready items (kl_twitch (poll_helix fromiso i l)) (kl_keeper l) = Inr (kl_keeper l')" by blast
  from keeper_step_result [OF s] t show ?thesis
    by (auto simp: desired_def desired_list_wait desired_list_slots split: option.splits)
qed


section \<open>Healing is rate limited\<close>

definition kcyc ::
  "(string \<Rightarrow> (bool \<times> instant) option) \<Rightarrow> (py \<Rightarrow> string) \<Rightarrow> keeper_loop res \<Rightarrow> keeper_input \<Rightarrow> keeper_loop res" where
  "kcyc fromiso rp s i = bindE s (\<lambda>l. bindE (keeper_cycle fromiso rp l i) (\<lambda>(_, l'). Inr l'))"

text \<open>The destination a cycle takes out for healing, and the times at which one is taken out.\<close>

definition healed ::
  "(string \<Rightarrow> (bool \<times> instant) option) \<Rightarrow> (py \<Rightarrow> string) \<Rightarrow> keeper_loop res \<Rightarrow> keeper_input \<Rightarrow> string option" where
  "healed fromiso rp s i = (case bindE s (\<lambda>l. keeper_cycle fromiso rp l i) of
      Inl _ \<Rightarrow> None | Inr (out, l') \<Rightarrow> if ko_result out = None then None else k_removed (kl_keeper l'))"

definition heal_times ::
  "(string \<Rightarrow> (bool \<times> instant) option) \<Rightarrow> (py \<Rightarrow> string) \<Rightarrow> string \<Rightarrow> keeper_loop res \<Rightarrow> keeper_input list \<Rightarrow> seconds list" where
  "heal_times fromiso rp d s es =
     map (\<lambda>(u, i). ki_now i) (filter (\<lambda>(u, i). healed fromiso rp u i = Some d) (trail (kcyc fromiso rp) s es))"

definition loop_new :: "keeper \<Rightarrow> keeper_loop" where
  "loop_new k = \<lparr>kl_keeper = k, kl_helix = helix_new, kl_next_helix = 0, kl_twitch = unknown_twitch\<rparr>"

lemma spaced_snoc:
  fixes g :: seconds
  assumes "sorted_wrt (\<lambda>a b. b - a \<ge> g) xs" "0 \<le> g" "xs \<noteq> [] \<Longrightarrow> x - last xs \<ge> g"
  shows "sorted_wrt (\<lambda>a b. b - a \<ge> g) (xs @ [x])"
proof (cases xs rule: rev_cases)
  case (snoc ys y)
  have "x - z \<ge> g" if "z \<in> set xs" for z
  proof -
    have "z = y \<or> y - z \<ge> g" using that assms(1) snoc by (auto simp: sorted_wrt_append)
    moreover have "x - y \<ge> g" using assms(3) snoc by simp
    ultimately show ?thesis using assms(2) by auto
  qed
  with assms(1) show ?thesis by (simp add: sorted_wrt_append)
qed simp

lemma kcyc_last_heal:
  assumes "kcyc fromiso rp s i = Inr l'"
  shows "\<exists>l. s = Inr l \<and>
    k_last_heal (kl_keeper l') d = (if healed fromiso rp s i = Some d then Some (ki_now i) else k_last_heal (kl_keeper l) d) \<and>
    (healed fromiso rp s i = Some d \<longrightarrow> (\<forall>t. k_last_heal (kl_keeper l) d = Some t \<longrightarrow> ki_now i - t \<ge> HEAL_INTERVAL))"
proof -
  from assms obtain l out where l: "s = Inr l" "keeper_cycle fromiso rp l i = Inr (out, l')" by (auto simp: kcyc_def)
  then have h: "healed fromiso rp s i = (if ko_result out = None then None else k_removed (kl_keeper l'))"
    by (simp add: healed_def)
  from keeper_cycle_Inr [OF l(2)] show ?thesis
  proof (elim disjE exE conjE)
    assume "ko_result out = None" "l' = l"
    with l h show ?thesis by simp
  next
    fix ready items
    assume "ko_result out \<noteq> None"
      and st: "keeper_step i ready items (kl_twitch (poll_helix fromiso i l)) (kl_keeper l) = Inr (kl_keeper l')"
    then have h': "healed fromiso rp s i = k_removed (kl_keeper l')" using h by auto
    show ?thesis using keeper_step_result [OF st] l(1) unfolding h'
      by (cases "k_removed (kl_keeper l')") auto
  qed
qed

lemma heal_times_spaced:
  assumes "run (kcyc fromiso rp) (Inr l) es = Inr l'" "k_last_heal (kl_keeper l) d = None"
  shows "sorted_wrt (\<lambda>a b. b - a \<ge> HEAL_INTERVAL) (heal_times fromiso rp d (Inr l) es) \<and>
    k_last_heal (kl_keeper l') d =
      (if heal_times fromiso rp d (Inr l) es = [] then None else Some (last (heal_times fromiso rp d (Inr l) es)))"
  using assms(1)
proof (induction es arbitrary: l' rule: rev_induct)
  case Nil
  with assms(2) show ?case by (simp add: heal_times_def)
next
  case (snoc i es)
  let ?u = "run (kcyc fromiso rp) (Inr l) es" and ?ts = "heal_times fromiso rp d (Inr l) es"
  from snoc.prems have "kcyc fromiso rp ?u i = Inr l'" by simp
  from kcyc_last_heal [OF this, of d] obtain m where m: "?u = Inr m"
    "k_last_heal (kl_keeper l') d = (if healed fromiso rp ?u i = Some d then Some (ki_now i) else k_last_heal (kl_keeper m) d)"
    "healed fromiso rp ?u i = Some d \<longrightarrow> (\<forall>t. k_last_heal (kl_keeper m) d = Some t \<longrightarrow> ki_now i - t \<ge> HEAL_INTERVAL)"
    by (elim exE conjE)
  have ts: "heal_times fromiso rp d (Inr l) (es @ [i]) =
      ?ts @ (if healed fromiso rp ?u i = Some d then [ki_now i] else [])"
    by (simp add: heal_times_def)
  note IH = snoc.IH [OF m(1)]
  show ?case
  proof (cases "healed fromiso rp ?u i = Some d")
    case True
    have "sorted_wrt (\<lambda>a b. b - a \<ge> HEAL_INTERVAL) (?ts @ [ki_now i])"
      using IH m(3) True by (intro spaced_snoc) (auto simp: HEAL_INTERVAL_def)
    with True ts m(2) show ?thesis by simp
  next
    case False
    with IH ts m(2) show ?thesis by simp
  qed
qed

text \<open>healing is rate limited. In every uninterrupted run of the keeper from its start, any two
  cycles that take the same destination out are at least 60 seconds apart.\<close>

theorem healing_rate_limited:
  assumes "run (kcyc fromiso rp) (Inr (loop_new (keeper_new ds))) es = Inr l"
  shows "sorted_wrt (\<lambda>a b. b - a \<ge> HEAL_INTERVAL) (heal_times fromiso rp d (Inr (loop_new (keeper_new ds))) es)"
  using heal_times_spaced [OF assms] by (simp add: loop_new_def keeper_new_def)


section \<open>The renewal: bounded, and once per date\<close>

lemma keeper_step_wait:
  assumes "keeper_step i ready items tw k = Inr k'" "k_phase k = WAIT_OFFLINE"
  shows "if w_status tw = ''OFFLINE'' \<and> ki_now i - k_phase_at k \<ge> OFFLINE_MIN \<or> ki_now i - k_phase_at k \<ge> OFFLINE_MAX
         then k_phase k' = VERIFY else k_phase k' = WAIT_OFFLINE \<and> k_phase_at k' = k_phase_at k"
  using assms by (auto simp: keeper_step_def renewal_def apply_desired_def Let_def split: if_splits)

text \<open>Twitch is never held down for long. A completed cycle in the waiting phase leaves that
  phase exactly when OFFLINE was observed and 120 seconds have passed, or 600 seconds have passed
  whatever was observed; it then requests every configured forward. Otherwise it stays and keeps the
  start of the wait.\<close>

theorem offline_wait_bounded:
  assumes "keeper_cycle fromiso rp l i = Inr (out, l')" and "ko_result out \<noteq> None"
    and "k_phase (kl_keeper l) = WAIT_OFFLINE"
  shows "if w_status (kl_twitch (poll_helix fromiso i l)) = ''OFFLINE'' \<and> ki_now i - k_phase_at (kl_keeper l) \<ge> OFFLINE_MIN
            \<or> ki_now i - k_phase_at (kl_keeper l) \<ge> OFFLINE_MAX
         then k_phase (kl_keeper l') = VERIFY \<and> ko_target out = k_destinations (kl_keeper l)
         else k_phase (kl_keeper l') = WAIT_OFFLINE \<and> k_phase_at (kl_keeper l') = k_phase_at (kl_keeper l)"
proof -
  have map_id: "desired_list VERIFY None ds = ds" for ds by (simp add: desired_list_slots)
  from keeper_cycle_Inr [OF assms(1)] assms(2) obtain ready items where
    t: "ko_target out = desired (kl_keeper l')" and
    s: "keeper_step i ready items (kl_twitch (poll_helix fromiso i l)) (kl_keeper l) = Inr (kl_keeper l')" by blast
  have d: "k_destinations (kl_keeper l') = k_destinations (kl_keeper l)" "k_phase (kl_keeper l') \<noteq> IDLE \<longrightarrow> k_removed (kl_keeper l') = None"
    using keeper_step_result [OF s] by auto
  from keeper_step_wait [OF s assms(3)] show ?thesis using t d by (auto simp: desired_def map_id split: if_splits)
qed

text \<open>
  The keeper on its host: the state file survives the process. A cycle that raises ends the
  process; a completed cycle writes the file; \<open>Restart\<close> starts a new process from the file.
\<close>

record keeper_host =
  kh_destinations :: "forward list"
  kh_file :: "py res"
  kh_proc :: "keeper_loop option"

datatype keeper_event = Cycle keeper_input | Restart seconds

fun host_step ::
  "(string \<Rightarrow> (bool \<times> instant) option) \<Rightarrow> (py \<Rightarrow> string) \<Rightarrow> keeper_host \<Rightarrow> keeper_event \<Rightarrow> keeper_host" where
  "host_step fromiso rp h (Cycle i) =
     (case kh_proc h of
        None \<Rightarrow> h
      | Some l \<Rightarrow>
          (case keeper_cycle fromiso rp l i of
             Inl e \<Rightarrow> h\<lparr>kh_proc := None\<rparr>
           | Inr (out, l') \<Rightarrow> h\<lparr>kh_proc := Some l',
               kh_file := (if ko_result out = None then kh_file h else Inr (to_state (kl_keeper l')))\<rparr>))"
| "host_step fromiso rp h (Restart now) =
     h\<lparr>kh_proc := (case keeper_load (kh_destinations h) (kh_file h) now of Inl e \<Rightarrow> None | Inr k \<Rightarrow> Some (loop_new k))\<rparr>"

text \<open>A cycle that takes Twitch down for a renewal, and whether the session is too old.\<close>

definition renewal_starts ::
  "(string \<Rightarrow> (bool \<times> instant) option) \<Rightarrow> (py \<Rightarrow> string) \<Rightarrow> keeper_host \<Rightarrow> keeper_event \<Rightarrow> bool" where
  "renewal_starts fromiso rp h e \<longleftrightarrow> (\<exists>l i out l'. kh_proc h = Some l \<and> e = Cycle i \<and>
     keeper_cycle fromiso rp l i = Inr (out, l') \<and>
     k_phase (kl_keeper l) \<noteq> WAIT_OFFLINE \<and> k_phase (kl_keeper l') = WAIT_OFFLINE)"

definition session_too_old :: "(string \<Rightarrow> (bool \<times> instant) option) \<Rightarrow> keeper_host \<Rightarrow> keeper_input \<Rightarrow> bool" where
  "session_too_old fromiso h i \<longleftrightarrow> (\<exists>l age. kh_proc h = Some l \<and>
     session_age (ki_wall i) (kl_twitch (poll_helix fromiso i l)) = Inr age \<and> age \<ge> AGE_LIMIT)"

text \<open>The date is on file and in the running process.\<close>

definition date_is :: "string \<Rightarrow> keeper_host \<Rightarrow> bool" where
  "date_is d h \<longleftrightarrow> (\<exists>k. kh_file h = Inr (to_state k) \<and> k_last_renewal_date k = PStr d) \<and>
     (\<forall>l. kh_proc h = Some l \<longrightarrow> k_last_renewal_date (kl_keeper l) = PStr d)"

lemma jst_today_nonempty [simp]: "jst_today w \<noteq> []"
  by (simp add: jst_today_def isoformat_def split: prod.splits)

lemma keeper_step_date:
  assumes "keeper_step i ready items tw k = Inr k'"
  shows "(k_phase k \<noteq> WAIT_OFFLINE \<and> k_phase k' = WAIT_OFFLINE \<longrightarrow>
      k_last_renewal_date k' = PStr (jst_today (ki_wall i)) \<and>
      (k_last_renewal_date k = PStr (jst_today (ki_wall i)) \<longrightarrow> (\<exists>age. session_age (ki_wall i) tw = Inr age \<and> age \<ge> AGE_LIMIT))) \<and>
    (\<not> (k_phase k \<noteq> WAIT_OFFLINE \<and> k_phase k' = WAIT_OFFLINE) \<and> py_truthy (k_last_renewal_date k) \<longrightarrow>
      k_last_renewal_date k' = k_last_renewal_date k)"
proof -
  from assms obtain ch k1 where r: "renewal (ki_now i) (ki_wall i) ready tw k = Inr (ch, k1)"
    and n: "(if ch = None \<and> k_phase k1 = IDLE
       then bindE (heal (ki_now i) ready items k1) (\<lambda>(_, k2). Inr k2)
       else Inr (k1\<lparr>k_removed := None\<rparr>)) = Inr k'"
    by (auto simp: keeper_step_def)
  have "k_phase k' = k_phase k1 \<and> k_last_renewal_date k' = k_last_renewal_date k1"
    using n heal_result [of "ki_now i" ready items k1] by (auto split: if_splits)
  with r show ?thesis
    by (auto simp: renewal_def apply_desired_def Let_def split: kphase.splits if_splits)
qed

lemma to_state_reload:
  assumes "keeper_load ds (Inr (to_state k)) now = Inr k'"
  shows "k_last_renewal_date k' = k_last_renewal_date k"
  using assms
  by (auto simp: keeper_load_def to_state_def py_get_def keeper_new_def Let_def split: if_splits)

lemma date_kept:
  assumes "date_is (jst_today w) h" and "\<not> renewal_starts fromiso rp h e"
  shows "date_is (jst_today w) (host_step fromiso rp h e)"
proof (cases e)
  case (Restart now)
  with assms(1) show ?thesis by (auto simp: date_is_def loop_new_def to_state_reload split: sum.splits)
next
  case (Cycle i)
  show ?thesis
  proof (cases "\<exists>l out l'. kh_proc h = Some l \<and> keeper_cycle fromiso rp l i = Inr (out, l')")
    case False
    then show ?thesis using assms(1) Cycle by (auto simp: date_is_def split: option.splits sum.splits)
  next
    case True
    then obtain l out l' where l: "kh_proc h = Some l" "keeper_cycle fromiso rp l i = Inr (out, l')" by blast
    with assms have d: "k_last_renewal_date (kl_keeper l) = PStr (jst_today w)"
      and ns: "\<not> (k_phase (kl_keeper l) \<noteq> WAIT_OFFLINE \<and> k_phase (kl_keeper l') = WAIT_OFFLINE)"
      unfolding date_is_def renewal_starts_def Cycle by blast+
    from keeper_cycle_Inr [OF l(2)] have "k_last_renewal_date (kl_keeper l') = PStr (jst_today w)"
      using keeper_step_date d ns by (elim disjE exE conjE) fastforce+
    then show ?thesis using assms(1) Cycle l by (auto simp: date_is_def)
  qed
qed

lemma renewal_starts_cycle:
  assumes "renewal_starts fromiso rp h (Cycle i)"
  shows "date_is (jst_today (ki_wall i)) (host_step fromiso rp h (Cycle i)) \<and>
    (date_is (jst_today (ki_wall i)) h \<longrightarrow> session_too_old fromiso h i)"
proof -
  from assms obtain l out l' where l: "kh_proc h = Some l" "keeper_cycle fromiso rp l i = Inr (out, l')"
    and ph: "k_phase (kl_keeper l) \<noteq> WAIT_OFFLINE" "k_phase (kl_keeper l') = WAIT_OFFLINE"
    by (auto simp: renewal_starts_def)
  from keeper_cycle_Inr [OF l(2)] ph obtain ready items where r: "ko_result out \<noteq> None"
    and s: "keeper_step i ready items (kl_twitch (poll_helix fromiso i l)) (kl_keeper l) = Inr (kl_keeper l')" by auto
  from keeper_step_date [OF s] ph l r show ?thesis
    by (auto simp: date_is_def session_too_old_def)
qed


section \<open>Concrete runs\<close>

definition ex_forwards :: "forward list" where
  "ex_forwards = [\<lparr>fw_dest = ''rtmp://a.youtube.com'', fw_options = []\<rparr>, \<lparr>fw_dest = ''rtmp://twitch.tv'', fw_options = []\<rparr>]"

definition ex_items :: "py list" where
  "ex_items = [PDict [(''conf'', PDict [(''dest'', PStr ''rtmp://a.youtube.com'')]), (''state'', PStr ''connecting'')]]"

definition ex_in :: "seconds \<Rightarrow> py list \<Rightarrow> keeper_input" where
  "ex_in now items = \<lparr>ki_now = now, ki_path = Inr (PDict [(''ready'', PBool True)]),
     ki_items = Inr (PDict [(''items'', PList items)]), ki_token = Inl OSError, ki_streams = Inl OSError,
     ki_t0 = now, ki_t1 = now, ki_wall = 200000000000, ki_config = Inl OSError, ki_patch = Inr (), ki_config_after = Inl OSError\<rparr>"

definition ex_old_loop :: keeper_loop where
  "ex_old_loop = (loop_new (keeper_new ex_forwards))\<lparr>kl_next_helix := 100000,
     kl_twitch := \<lparr>w_status = ''LIVE'', w_stream_id = PStr ''s'', w_started_at = Some (True, 0)\<rparr>\<rparr>"

definition ex_host :: keeper_host where
  "ex_host = \<lparr>kh_destinations = ex_forwards, kh_file = Inr PNone, kh_proc = Some ex_old_loop\<rparr>"

lemmas keeper_defs = keeper_cycle_def path_facts_def poll_helix_def keeper_step_def renewal_def session_age_def
  apply_desired_def desired_def heal_def item_dest_def configured_dest_def forwarding_ok_def heal_allowed_def
  reconcile_def loop_new_def keeper_new_def helix_new_def unknown_twitch_def ex_old_loop_def ex_in_def ex_forwards_def
  py_get_def py_or_def dget_def total_seconds_def int_increased_def
  AGE_LIMIT_def OFFLINE_MAX_def OFFLINE_MIN_def VERIFY_MAX_def BAD_SECONDS_def HEAL_INTERVAL_def Let_def

theorem keeper_target_shape_witness:
  "\<exists>out l'. keeper_cycle (\<lambda>_. None) (\<lambda>_. []) ex_old_loop (ex_in 0 []) = Inr (out, l') \<and>
     ko_target out = [\<lparr>fw_dest = ''rtmp://a.youtube.com'', fw_options = []\<rparr>]"
proof -
  obtain out l' where r: "keeper_cycle (\<lambda>_. None) (\<lambda>_. []) ex_old_loop (ex_in 0 []) = Inr (out, l')"
    "ko_result out \<noteq> None" "k_phase (kl_keeper l') = WAIT_OFFLINE"
    by (simp add: keeper_defs)
  from keeper_target_shape [OF r(1,2)] r show ?thesis
    by (simp add: ex_old_loop_def loop_new_def keeper_new_def ex_forwards_def is_twitch_def)
qed

theorem healing_rate_limited_witness:
  "\<exists>l. run (kcyc (\<lambda>_. None) (\<lambda>_. [])) (Inr (loop_new (keeper_new ex_forwards))) [ex_in 0 ex_items, ex_in 40 ex_items] = Inr l \<and>
     sorted_wrt (\<lambda>a b. b - a \<ge> HEAL_INTERVAL)
       (heal_times (\<lambda>_. None) (\<lambda>_. []) ''rtmp://a.youtube.com'' (Inr (loop_new (keeper_new ex_forwards)))
          [ex_in 0 ex_items, ex_in 40 ex_items])"
proof -
  obtain l where "run (kcyc (\<lambda>_. None) (\<lambda>_. [])) (Inr (loop_new (keeper_new ex_forwards)))
      [ex_in 0 ex_items, ex_in 40 ex_items] = Inr l"
    by (simp add: kcyc_def keeper_defs ex_items_def helix_status_def helix_refresh_def)
  with healing_rate_limited [OF this] show ?thesis by blast
qed

definition ex_waiting :: keeper_loop where
  "ex_waiting = ex_old_loop\<lparr>kl_keeper := (kl_keeper ex_old_loop)\<lparr>k_phase := WAIT_OFFLINE\<rparr>\<rparr>"

theorem offline_wait_bounded_witness:
  "\<exists>out l'. keeper_cycle (\<lambda>_. None) (\<lambda>_. []) ex_waiting (ex_in 600 []) = Inr (out, l') \<and>
     k_phase (kl_keeper l') = VERIFY \<and> ko_target out = ex_forwards"
proof -
  obtain out l' where r: "keeper_cycle (\<lambda>_. None) (\<lambda>_. []) ex_waiting (ex_in 600 []) = Inr (out, l')" "ko_result out \<noteq> None"
    by (simp add: ex_waiting_def keeper_defs)
  have "k_phase (kl_keeper ex_waiting) = WAIT_OFFLINE" by (simp add: ex_waiting_def)
  from offline_wait_bounded [OF r this] r show ?thesis
    by (simp add: ex_waiting_def ex_old_loop_def ex_in_def loop_new_def keeper_new_def OFFLINE_MAX_def)
qed

definition ex_between :: "keeper_event list" where
  "ex_between = [Cycle (ex_in 600 []), Cycle (ex_in 800 [])]"


end
