(* ===== verification/Manual_Maintenance.thy ===== *)
theory Manual_Maintenance
  imports Maintenance_State Route_Assessment
begin

text \<open>
  \<open>ops/selfheal/manual_maintenance.py\<close>: the operator's tool that puts a maintenance slate on air,
  stops the main sender, and returns to live output after checks.

  The class \<open>Maintenance\<close> is a set of actions on \<open>'w mstate\<close>: the session in memory, the session
  on disk, the requests sent so far and the world \<open>'w\<close>. What the class gets from outside (clock,
  sleep, the host backend, the file system, the operator's answer, a fresh identifier) is a field of
  \<open>'w env\<close> and may answer anything or raise at every call. Snapshots stay arbitrary JSON values.
  The two loops that end by the clock carry a bound of iterations.
\<close>

section \<open>Configuration\<close>

definition STABLE_SECONDS :: seconds where "STABLE_SECONDS = 300"
definition PROGRESS_MAX_GAP :: seconds where "PROGRESS_MAX_GAP = 45"
definition TIMER :: string where "TIMER = ''stream-v3-fast-recovery-controller.timer''"
definition SERVICE :: string where "SERVICE = ''stream-v3-fast-recovery-controller.service''"

definition hex64 :: "py \<Rightarrow> bool" where
  "hex64 v = (case v of PStr s \<Rightarrow> length s = 64 \<and> list_all hex_lower s | _ \<Rightarrow> False)"

definition host_char :: "char \<Rightarrow> bool" where
  "host_char c \<longleftrightarrow> c \<in> set ''ABCDEFGHIJKLMNOPQRSTUVWXYZabcdefghijklmnopqrstuvwxyz0123456789_.@-''"

definition alnum :: "char \<Rightarrow> bool" where
  "alnum c \<longleftrightarrow> host_char c \<and> c \<notin> set ''_.@-''"

definition ssh_host :: "string \<Rightarrow> bool" where
  "ssh_host s = (case s of [] \<Rightarrow> False | c # cs \<Rightarrow> alnum c \<and> length cs \<le> 100 \<and> list_all host_char cs)"

definition ssh_operator :: "string \<Rightarrow> bool" where
  "ssh_operator s = (case s of [] \<Rightarrow> False | c # cs \<Rightarrow>
     c \<in> set ''abcdefghijklmnopqrstuvwxyz_'' \<and> length cs \<le> 31 \<and>
     list_all (\<lambda>d. d \<in> set ''abcdefghijklmnopqrstuvwxyz0123456789_-'') cs)"

fun split_slash :: "string \<Rightarrow> string list" where
  "split_slash [] = [[]]"
| "split_slash (c # cs) = (if c = CHR ''/'' then [] # split_slash cs
     else (case split_slash cs of [] \<Rightarrow> [[c]] | w # ws \<Rightarrow> (c # w) # ws))"

text \<open>\<open>Path(s).name\<close> and \<open>Path(s).suffix\<close>.\<close>

definition path_name :: "string \<Rightarrow> string" where
  "path_name s = (case filter (\<lambda>w. w \<noteq> [] \<and> w \<noteq> ''.'') (split_slash s) of [] \<Rightarrow> [] | ws \<Rightarrow> last ws)"

definition suffix_mp4 :: "string \<Rightarrow> bool" where
  "suffix_mp4 s \<longleftrightarrow> (let name = path_name s in length name > 4 \<and> drop (length name - 4) name = ''.mp4'')"

definition absolute_line :: "py \<Rightarrow> bool" where
  "absolute_line v = (case v of PStr s \<Rightarrow> starts_with ''/'' s \<and> \<not> list_ex (\<lambda>c. c = CHR 0x0D \<or> c = CHR 0x0A) s | _ \<Rightarrow> False)"

definition fullmatchE :: "(string \<Rightarrow> bool) \<Rightarrow> py \<Rightarrow> bool res" where
  "fullmatchE P v = (case v of PStr s \<Rightarrow> Inr (P s) | _ \<Rightarrow> Inl TypeError)"

definition config_hashes :: "string list" where
  "config_hashes = [''dell_machine_sha256'', ''oci_machine_sha256'', ''slate_sha256'', ''slate_manifest_sha256'',
     ''youtube_destination_sha256'']"

fun require_all :: "(bool res \<times> string) list \<Rightarrow> unit res" where
  "require_all [] = Inr ()"
| "require_all ((c, reason) # cs) = bindE c (\<lambda>ok. bindE (requireE ok (ValueError reason)) (\<lambda>_. require_all cs))"

definition validate_config :: "py \<Rightarrow> py res" where
  "validate_config config =
     bindE (require_all
       ([(bindE (py_get config ''schema'') (\<lambda>s. Inr (py_eq s (PStr ''stream_v3.manual_maintenance_config.v1''))), ''config_schema_invalid'')]
        @ map (\<lambda>k. (bindE (py_get config k) (\<lambda>v. Inr (hex64 v)), ''config_hash_invalid'')) config_hashes
        @ [(bindE (same_at config [''dell_machine_sha256''] config [''oci_machine_sha256'']) (\<lambda>b. Inr (\<not> b)),
             ''maintenance_sender_must_be_independent''),
           (bindE (py_get_dflt config ''oci_host'' (PStr [])) (fullmatchE ssh_host), ''invalid_ssh_host''),
           (bindE (py_get config ''ssh_operator'') (\<lambda>v. if v = PNone then Inr True else fullmatchE ssh_operator v),
             ''invalid_ssh_operator''),
           (bindE (py_get config ''slate_file'') (\<lambda>v. Inr (absolute_line v)), ''absolute_config_path_required''),
           (bindE (py_get config ''effect_ledger_file'') (\<lambda>v. Inr (absolute_line v)), ''absolute_config_path_required''),
           (at_path config [''slate_file''] (\<lambda>v. case v of PStr s \<Rightarrow> suffix_mp4 s | _ \<Rightarrow> False), ''mp4_required'')]))
     (\<lambda>_. Inr config)"

section \<open>Session, world and state\<close>

datatype eresult = PENDING | APPLIED | OUTCOME_UNKNOWN

record effect =
  e_name :: string
  e_role :: string
  e_action :: string
  e_request :: "(string \<times> py) list"
  e_result :: eresult
  e_at :: seconds
  e_reconciled_at :: "seconds option"

record session =
  m_phase :: string
  m_session_id :: "string option"
  m_generation :: int
  m_deadline :: seconds
  m_reason :: string
  m_config_sha :: string
  m_before :: py
  m_effects :: "effect list"
  m_history :: "(seconds \<times> string) list"
  m_armed_fields :: py
  m_stability :: "(seconds \<times> py) option"
  m_slate_confirmed_at :: "seconds option"
  m_live_confirmed_at :: "seconds option"
  m_completed_at :: "seconds option"
  m_updated_at :: "seconds option"

definition session_initial :: session where
  "session_initial = \<lparr>m_phase = ''NORMAL'', m_session_id = None, m_generation = 0, m_deadline = 0, m_reason = [],
     m_config_sha = [], m_before = PNone, m_effects = [], m_history = [], m_armed_fields = PNone, m_stability = None,
     m_slate_confirmed_at = None, m_live_confirmed_at = None, m_completed_at = None, m_updated_at = None\<rparr>"

record 'w env =
  n_clock :: "'w \<Rightarrow> seconds \<times> 'w"
  n_sleep :: "seconds \<Rightarrow> 'w \<Rightarrow> unit res \<times> 'w"
  n_snapshot :: "bool \<Rightarrow> 'w \<Rightarrow> py res \<times> 'w"
  n_request :: "string \<Rightarrow> string \<Rightarrow> (string \<times> py) list \<Rightarrow> 'w \<Rightarrow> py res \<times> 'w"
  n_write :: "'w \<Rightarrow> unit res \<times> 'w"
  n_archive :: "string \<Rightarrow> 'w \<Rightarrow> unit res \<times> 'w"
  n_uuid :: "'w \<Rightarrow> string \<times> 'w"
  n_confirm :: "'w \<Rightarrow> bool res \<times> 'w"

record mconf =
  z_config :: py
  z_root :: string
  z_interval :: seconds
  z_stable_seconds :: seconds
  z_fingerprint :: "py \<Rightarrow> string"
  z_fromiso :: "string \<Rightarrow> (bool \<times> seconds) option"

record 'w mstate =
  x_session :: session
  x_disk :: session
  x_sent :: "(int \<times> string \<times> session) list"
  x_world :: "'w"

text \<open>A call into the world.\<close>

definition callS :: "('w \<Rightarrow> 'a res \<times> 'w) \<Rightarrow> ('w mstate, 'a) act" where
  "callS f s = (case f (x_world s) of (r, w) \<Rightarrow> (r, s\<lparr>x_world := w\<rparr>))"

definition clockS :: "'w env \<Rightarrow> ('w mstate, seconds) act" where
  "clockS n = callS (\<lambda>w. case n_clock n w of (t, w') \<Rightarrow> (Inr t, w'))"

definition sessS :: "(session \<Rightarrow> 'a) \<Rightarrow> ('w mstate, 'a) act" where
  "sessS f = getS (\<lambda>s. f (x_session s))"

definition setS :: "(session \<Rightarrow> session) \<Rightarrow> ('w mstate, unit) act" where
  "setS f = modS (\<lambda>s. s\<lparr>x_session := f (x_session s)\<rparr>)"

definition mustS :: "bool res list \<Rightarrow> string \<Rightarrow> ('s, unit) act" where
  "mustS conds reason = liftS (checkE conds (ValueError reason))"

section \<open>Saving and observing\<close>

definition save :: "'w env \<Rightarrow> string option \<Rightarrow> ('w mstate, unit) act" where
  "save n phase =
     bindS (sessS m_phase) (\<lambda>old.
     bindS (case phase of
              None \<Rightarrow> retS ()
            | Some p \<Rightarrow> if old = p then retS ()
                else bindS (clockS n) (\<lambda>t. setS (\<lambda>m. m\<lparr>m_history := m_history m @ [(t, p)], m_phase := p\<rparr>))) (\<lambda>_.
     bindS (clockS n) (\<lambda>t. bindS (setS (\<lambda>m. m\<lparr>m_updated_at := Some t\<rparr>)) (\<lambda>_.
     bindS (callS (n_write n)) (\<lambda>_. modS (\<lambda>s. s\<lparr>x_disk := x_session s\<rparr>))))))"

definition age_within :: "seconds \<Rightarrow> seconds \<Rightarrow> py \<Rightarrow> bool res" where
  "age_within hi now v = (case num_of v of
       None \<Rightarrow> Inl TypeError
     | Some (Fin q) \<Rightarrow> Inr (0 \<le> now - q \<and> now - q \<le> hi)
     | Some _ \<Rightarrow> Inr False)"

definition quiesced :: "py \<Rightarrow> bool res list" where
  "quiesced units = [at_path units [TIMER, ''active''] (\<lambda>x. \<not> py_truthy x),
     at_path units [TIMER, ''enabled''] (\<lambda>x. py_eq x (PStr ''disabled'')),
     at_path units [SERVICE, ''active''] (\<lambda>x. \<not> py_truthy x)]"

definition applied_names :: "effect list \<Rightarrow> string set" where
  "applied_names es = e_name ` {e \<in> set es. e_result e = APPLIED}"

definition bound_host :: "mconf \<Rightarrow> seconds \<Rightarrow> py \<Rightarrow> string \<Rightarrow> ('s, unit) act" where
  "bound_host z now snapshot role =
     bindS (mustS [same_at snapshot [role, ''identity'', ''machine''] (z_config z) [role @ ''_machine_sha256'']] ''host_identity_drift'') (\<lambda>_.
     mustS [bindE (dig snapshot [role, ''observed_at'']) (age_within 20 now)] ''host_observation_stale'')"

definition bound_session :: "mconf \<Rightarrow> session \<Rightarrow> py \<Rightarrow> ('s, unit) act" where
  "bound_session z m snapshot =
     bindS (mustS [bindE (digest_of (z_fingerprint z) (z_config z)) (\<lambda>f. Inr (m_config_sha m = f))] ''session_config_changed'') (\<lambda>_.
     bindS (mustS [same_at snapshot [''oci'', ''identity''] (m_before m) [''oci'', ''identity'']] ''oci_rebooted_or_changed'') (\<lambda>_.
     bindS (mustS [same_at snapshot [''oci'', ''config_fingerprint''] (m_before m) [''oci'', ''config_fingerprint'']] ''relay_config_drift'') (\<lambda>_.
     bindS (mustS [same_at snapshot [''dell'', ''main'', ''uid''] (m_before m) [''dell'', ''main'', ''uid'']] ''main_workload_replaced'') (\<lambda>_.
     bindS (mustS [same_at snapshot [''dell'', ''backup'', ''uid''] (m_before m) [''dell'', ''backup'', ''uid'']] ''backup_workload_replaced'') (\<lambda>_.
     bindS (mustS [same_at snapshot [''dell'', ''ledger''] (m_before m) [''dell'', ''ledger'']] ''authority_changed'') (\<lambda>_.
     if m_phase m \<noteq> ''RESTORING'' \<and> ''quiesce'' \<in> applied_names (m_effects m)
     then bindS (liftS (dig snapshot [''dell'', ''units''])) (\<lambda>units. mustS (quiesced units) ''recovery_quiescence_lost'')
     else retS ()))))))"

definition bound :: "'w env \<Rightarrow> mconf \<Rightarrow> py \<Rightarrow> ('w mstate, py) act" where
  "bound n z snapshot =
     bindS (clockS n) (\<lambda>now.
     bindS (bound_host z now snapshot ''dell'') (\<lambda>_.
     bindS (bound_host z now snapshot ''oci'') (\<lambda>_.
     bindS (mustS [at_path snapshot [''dell'', ''backup'', ''replicas''] (\<lambda>x. py_eq x (PInt 0)),
              at_path snapshot [''dell'', ''backup'', ''active_pods''] (\<lambda>x. py_eq x (PInt 0))]
            ''backup_sender_is_active_or_unknown'') (\<lambda>_.
     bindS (mustS [at_path snapshot [''dell'', ''ledger'', ''unresolved''] (\<lambda>x. py_eq x (PInt 0)),
              at_path snapshot [''dell'', ''ledger'', ''producer_id''] (\<lambda>x. py_eq x (PStr ''independent-controller''))]
            ''existing_authority_not_quiescent'') (\<lambda>_.
     bindS (sessS id) (\<lambda>m.
     bindS (if m_phase m \<noteq> ''NORMAL'' then bound_session z m snapshot else retS ()) (\<lambda>_.
     retS snapshot)))))))"

definition snapshot :: "'w env \<Rightarrow> mconf \<Rightarrow> bool \<Rightarrow> ('w mstate, py) act" where
  "snapshot n z preflight = bindS (callS (n_snapshot n preflight)) (bound n z)"

section \<open>Progress of the output\<close>

definition epoch :: "mconf \<Rightarrow> py \<Rightarrow> seconds res" where
  "epoch z v = (case v of
       PStr s \<Rightarrow> (case z_fromiso z (concat (map (\<lambda>c. if c = CHR ''Z'' then ''+00:00'' else [c]) s)) of
           None \<Rightarrow> Inl (ValueError ''isoformat'')
         | Some (aware, t) \<Rightarrow> if aware then Inr t else Inl (ValueError ''timezone_required''))
     | _ \<Rightarrow> Inl AttributeError)"

definition recent :: "mconf \<Rightarrow> seconds \<Rightarrow> seconds \<Rightarrow> py \<Rightarrow> bool res" where
  "recent z hi now v = bindE (epoch z v) (\<lambda>t. Inr (0 \<le> now - t \<and> now - t \<le> hi))"

text \<open>\<open>'x' in v\<close> for a string \<open>'x'\<close>.\<close>

definition str_in :: "string \<Rightarrow> py \<Rightarrow> bool res" where
  "str_in s v = (case v of
       PList xs \<Rightarrow> Inr (list_ex (\<lambda>x. py_eq x (PStr s)) xs) | PStr t \<Rightarrow> Inr (contains s t)
     | PDict kvs \<Rightarrow> Inr (s \<in> fst ` set kvs) | _ \<Rightarrow> Inl TypeError)"

definition positive_int :: "py \<Rightarrow> bool" where
  "positive_int v = (case v of PInt n \<Rightarrow> n > 0 | _ \<Rightarrow> False)"

text \<open>\<open>v > w\<close> where \<open>v\<close> is already known to be an integer.\<close>

definition int_gt :: "py \<Rightarrow> py \<Rightarrow> bool res" where
  "int_gt v w = (case v of PInt a \<Rightarrow>
      (case num_of w of None \<Rightarrow> Inl TypeError | Some (Fin q) \<Rightarrow> Inr (of_int a > q)
       | Some PosInf \<Rightarrow> Inr False | Some NegInf \<Rightarrow> Inr True | Some NaN \<Rightarrow> Inr False)
    | _ \<Rightarrow> Inl TypeError)"

definition gap_within :: "seconds \<Rightarrow> py \<Rightarrow> py \<Rightarrow> bool res" where
  "gap_within hi a b = (case (num_of a, num_of b) of
      (Some (Fin p), Some (Fin q)) \<Rightarrow> Inr (0 < p - q \<and> p - q \<le> hi)
    | (Some _, Some _) \<Rightarrow> Inr False | _ \<Rightarrow> Inl TypeError)"

definition twitch_flowing :: "py \<Rightarrow> bool res list" where
  "twitch_flowing tw = [bindE (py_get tw ''id'') (\<lambda>x. Inr (py_truthy x)),
     bindE (py_get tw ''state'') (\<lambda>x. Inr (py_eq x (PStr ''forwarding''))),
     bindE (py_get tw ''error'') (\<lambda>x. Inr (x = PBool False)),
     bindE (py_get tw ''bytes'') (\<lambda>x. Inr (positive_int x))]"

definition content_checks :: "session \<Rightarrow> py \<Rightarrow> py \<Rightarrow> string \<Rightarrow> bool res list \<times> string" where
  "content_checks m cloud local content =
     (if content = ''LIVE''
      then ([at_path local [''main'', ''replicas''] (\<lambda>x. py_eq x (PInt 1)),
             at_path local [''main'', ''ready_pods''] (\<lambda>x. py_eq x (PInt 1)),
             at_path local [''main'', ''active_pods''] (\<lambda>x. py_eq x (PInt 1)),
             at_path cloud [''input_id''] py_truthy], ''main_not_ready'')
      else ([at_path local [''main'', ''replicas''] (\<lambda>x. py_eq x (PInt 0)),
             at_path local [''main'', ''active_pods''] (\<lambda>x. py_eq x (PInt 0)),
             at_path cloud [''path_fields''] (\<lambda>x. py_eq x (m_armed_fields m))], ''source_not_stopped_or_slate_not_armed''))"

definition flow_checks :: "mconf \<Rightarrow> session \<Rightarrow> seconds \<Rightarrow> py \<Rightarrow> py \<Rightarrow> py \<Rightarrow> py \<Rightarrow> string \<Rightarrow> (bool res list \<times> string) list" where
  "flow_checks z m now cloud local cp tw content =
     [([at_path cloud [''content''] (\<lambda>x. py_eq x (PStr content))], ''expected_content_not_observed''),
      ([at_path cp [''schema''] (\<lambda>x. py_eq x (PStr ''stream_v3.youtube_forward.v1'')),
        same_at cp [''boot_id''] cloud [''identity'', ''boot''],
        same_at cp [''destination_fingerprint''] (z_config z) [''youtube_destination_sha256''],
        at_path cp [''state''] (\<lambda>x. py_eq x (PStr ''FLOWING''))], ''youtube_copy_not_bound_or_flowing''),
      ([bindE (dig cp [''updated_at'']) (recent z 20 now), bindE (dig cp [''last_progress_at'']) (recent z 20 now)],
        ''copy_observation_stale''),
      ([bindE (dig cloud [''tracks'']) (str_in ''H264''), bindE (dig cloud [''tracks'']) (str_in ''MPEG-4 Audio'')],
        ''both_tracks_required''),
      (twitch_flowing tw, ''twitch_output_not_flowing'')]
     @ map (\<lambda>k. ([at_path cp [k] positive_int], ''copy_counter_invalid''))
         [''pid'', ''session'', ''output_bytes'', ''video_packets'', ''audio_packets'']
     @ [content_checks m cloud local content]"

definition advance_checks :: "py \<Rightarrow> py \<Rightarrow> py \<Rightarrow> py \<Rightarrow> (bool res list \<times> string) list" where
  "advance_checks cloud cp tw prev =
     [([bindE (dig prev [''oci'', ''copy'']) (\<lambda>_. bindE (dig cloud [''observed_at'']) (\<lambda>a.
          bindE (dig prev [''oci'', ''observed_at'']) (gap_within PROGRESS_MAX_GAP a)))], ''progress_sample_gap''),
      (map (\<lambda>k. same_at cp [k] prev [''oci'', ''copy'', k]) [''pid'', ''session'', ''boot_id'', ''destination_fingerprint'']
         @ [same_at cloud [''input_id''] prev [''oci'', ''input_id'']], ''connection_changed''),
      (map (\<lambda>k. bindE (dig cp [k]) (\<lambda>a. bindE (dig prev [''oci'', ''copy'', k]) (int_gt a)))
         [''output_bytes'', ''video_packets'', ''audio_packets''], ''audio_video_or_output_stalled''),
      ([same_at tw [''id''] prev [''oci'', ''twitch'', ''id''],
        bindE (dig tw [''bytes'']) (\<lambda>a. bindE (dig prev [''oci'', ''twitch'', ''bytes'']) (int_gt a))],
        ''twitch_output_not_advancing'')]"

fun must_all :: "(bool res list \<times> string) list \<Rightarrow> ('s, unit) act" where
  "must_all [] = retS ()"
| "must_all ((conds, reason) # cs) = bindS (mustS conds reason) (\<lambda>_. must_all cs)"

definition progress :: "'w env \<Rightarrow> mconf \<Rightarrow> py \<Rightarrow> string \<Rightarrow> py option \<Rightarrow> ('w mstate, unit) act" where
  "progress n z snap content previous =
     bindS (liftS (dig snap [''oci''])) (\<lambda>cloud. bindS (liftS (dig snap [''dell''])) (\<lambda>local.
     bindS (liftS (dig cloud [''copy''])) (\<lambda>cp.
     bindS (clockS n) (\<lambda>now.
     bindS (liftS (dig cloud [''twitch''])) (\<lambda>tw.
     bindS (sessS id) (\<lambda>m.
     must_all (flow_checks z m now cloud local cp tw content
       @ (case previous of None \<Rightarrow> [] | Some prev \<Rightarrow> advance_checks cloud cp tw prev))))))))"

text \<open>One round of the waiting loop: the result, or the sample to compare the next one with.\<close>

definition soft_error :: "exn \<Rightarrow> bool" where
  "soft_error e \<longleftrightarrow> is_value_error e \<or> e = TypeError \<or> e = KeyError"

definition wait_round ::
  "'w env \<Rightarrow> mconf \<Rightarrow> string \<Rightarrow> py option \<Rightarrow> ('w mstate, py + py option) act" where
  "wait_round n z content previous =
     bindS (snapshot n z False) (\<lambda>sample.
     catchS (bindS (progress n z sample content previous) (\<lambda>_.
               retS (if previous \<noteq> None then Inl sample else Inr (Some sample))))
       (\<lambda>e. if soft_error e then retS (Inr None) else raiseS e))"

fun wait_loop ::
  "nat \<Rightarrow> 'w env \<Rightarrow> mconf \<Rightarrow> string \<Rightarrow> seconds \<Rightarrow> py option \<Rightarrow> ('w mstate, py) act" where
  "wait_loop 0 n z content deadline previous = raiseS Diverged"
| "wait_loop (Suc k) n z content deadline previous =
     bindS (clockS n) (\<lambda>t.
     if t \<le> deadline
     then bindS (wait_round n z content previous) (\<lambda>r.
          case r of Inl sample \<Rightarrow> retS sample
          | Inr previous' \<Rightarrow> bindS (callS (n_sleep n (z_interval z))) (\<lambda>_. wait_loop k n z content deadline previous'))
     else raiseS (ValueError ''content_progress_deadline''))"

definition wait_content :: "nat \<Rightarrow> 'w env \<Rightarrow> mconf \<Rightarrow> string \<Rightarrow> ('w mstate, py) act" where
  "wait_content k n z content = bindS (clockS n) (\<lambda>t. wait_loop k n z content (t + 90) None)"

section \<open>Effects\<close>

definition req :: "effect \<Rightarrow> string \<Rightarrow> py res" where
  "req e k = py_getitem (PDict (e_request e)) k"

definition applied :: "effect \<Rightarrow> py \<Rightarrow> bool res" where
  "applied e snap =
     bindE (py_getitem snap (e_role e)) (\<lambda>value.
     if e_action e = ''path_patch''
       then bindE (dig value [''path_fields'']) (\<lambda>a. bindE (req e ''after'') (\<lambda>b. Inr (py_eq a b)))
     else if e_action e = ''scale_main''
       then allE [bindE (dig value [''main'', ''uid'']) (\<lambda>a. bindE (req e ''uid'') (\<lambda>b. Inr (py_eq a b))),
                  bindE (dig value [''main'', ''replicas'']) (\<lambda>a. bindE (req e ''after'') (\<lambda>b. Inr (py_eq a b)))]
     else if e_action e = ''quiesce''
       then allE [at_path value [''units'', TIMER, ''enabled''] (\<lambda>x. py_eq x (PStr ''disabled'')),
                  at_path value [''units'', TIMER, ''active''] (\<lambda>x. \<not> py_truthy x),
                  at_path value [''units'', SERVICE, ''active''] (\<lambda>x. \<not> py_truthy x)]
     else if e_action e = ''restore_units''
       then bindE (dig value [''units'', TIMER]) (\<lambda>a. bindE (req e ''restore'') (\<lambda>r.
            bindE (py_getitem r TIMER) (\<lambda>b. Inr (py_eq a b))))
     else Inr False)"

definition all_applied :: "session \<Rightarrow> bool" where
  "all_applied m \<longleftrightarrow> (\<forall>e \<in> set (m_effects m). e_result e = APPLIED)"

definition no_unknown :: "('w mstate, unit) act" where
  "no_unknown = bindS (sessS all_applied) (\<lambda>ok. requireS ok (ValueError ''reconcile_pending_effect_first''))"

text \<open>The effect appended last is the one whose result is being set.\<close>

definition set_last :: "eresult \<Rightarrow> session \<Rightarrow> session" where
  "set_last r m = m\<lparr>m_effects := (case m_effects m of [] \<Rightarrow> [] | es \<Rightarrow> butlast es @ [(last es)\<lparr>e_result := r\<rparr>])\<rparr>"

text \<open>
  A request to the host. The generation, the effect's name and what is on disk at that moment are
  recorded as sent.
\<close>

definition requestS :: "'w env \<Rightarrow> effect \<Rightarrow> py \<Rightarrow> ('w mstate, py) act" where
  "requestS n e boot =
     bindS (modS (\<lambda>s. s\<lparr>x_sent := x_sent s @ [(m_generation (x_session s), e_name e, x_disk s)]\<rparr>)) (\<lambda>_.
     callS (n_request n (e_role e) (e_action e) ((''expected_boot'', boot) # e_request e)))"

definition mark_unknown :: "'w env \<Rightarrow> exn \<Rightarrow> ('w mstate, unit) act" where
  "mark_unknown n x = bindS (setS (set_last OUTCOME_UNKNOWN)) (\<lambda>_. bindS (save n None) (\<lambda>_. raiseS x))"

definition perform :: "'w env \<Rightarrow> mconf \<Rightarrow> effect \<Rightarrow> py \<Rightarrow> ('w mstate, unit) act" where
  "perform n z e current =
     catchS
       (bindS (liftS (dig current [e_role e, ''identity'', ''boot''])) (\<lambda>boot.
        bindS (requestS n e boot) (\<lambda>_.
        bindS (snapshot n z False) (\<lambda>after.
        bindS (mustS [applied e after] ''effect_not_confirmed'') (\<lambda>_.
        bindS (setS (set_last APPLIED)) (\<lambda>_. save n None))))))
       (mark_unknown n)"

definition effectS :: "'w env \<Rightarrow> mconf \<Rightarrow> string \<Rightarrow> string \<Rightarrow> string \<Rightarrow> (string \<times> py) list \<Rightarrow> ('w mstate, unit) act" where
  "effectS n z name role action request =
     bindS (sessS m_effects) (\<lambda>es.
     case find (\<lambda>e. e_name e = name) es of
       Some previous \<Rightarrow> requireS (e_result previous = APPLIED) (ValueError ''reconcile_pending_effect_first'')
     | None \<Rightarrow>
         bindS no_unknown (\<lambda>_.
         bindS (snapshot n z False) (\<lambda>current.
         bindS (clockS n) (\<lambda>t.
         let e = \<lparr>e_name = name, e_role = role, e_action = action, e_request = request, e_result = PENDING,
                  e_at = t, e_reconciled_at = None\<rparr> in
         bindS (setS (\<lambda>m. m\<lparr>m_effects := m_effects m @ [e]\<rparr>)) (\<lambda>_.
         bindS (save n None) (\<lambda>_. perform n z e current))))))"

fun reconcile_from :: "'w env \<Rightarrow> py \<Rightarrow> nat list \<Rightarrow> ('w mstate, unit) act" where
  "reconcile_from n sample [] = retS ()"
| "reconcile_from n sample (i # is) =
     bindS (sessS m_effects) (\<lambda>es.
     bindS (if i < length es \<and> e_result (es ! i) \<noteq> APPLIED
            then bindS (mustS [applied (es ! i) sample] ''outcome_unknown_keep_inhibition_no_retry'') (\<lambda>_.
                 bindS (setS (\<lambda>m. m\<lparr>m_effects := (m_effects m)[i := (es ! i)\<lparr>e_result := APPLIED\<rparr>]\<rparr>)) (\<lambda>_.
                 bindS (clockS n) (\<lambda>t.
                 setS (\<lambda>m. m\<lparr>m_effects := (m_effects m)[i := (es ! i)\<lparr>e_result := APPLIED, e_reconciled_at := Some t\<rparr>]\<rparr>))))
            else retS ()) (\<lambda>_. reconcile_from n sample is))"

definition reconcileS :: "'w env \<Rightarrow> mconf \<Rightarrow> ('w mstate, unit) act" where
  "reconcileS n z =
     bindS (snapshot n z False) (\<lambda>sample. bindS (sessS m_effects) (\<lambda>es.
     bindS (reconcile_from n sample [0..<length es]) (\<lambda>_. save n None)))"

section \<open>Entry\<close>

definition preflight :: "'w env \<Rightarrow> mconf \<Rightarrow> ('w mstate, py) act" where
  "preflight n z =
     bindS (snapshot n z True) (\<lambda>sample.
     bindS (liftS (dig sample [''dell'', ''controller''])) (\<lambda>st.
     bindS (mustS [bindE (py_get st ''maintenance_guard_supported'') (\<lambda>x. Inr (x = PBool True)),
              bindE (py_get st ''maintenance_root'') (\<lambda>x. Inr (py_eq x (PStr (z_root z))))] ''updated_fallback_guard_not_observed'') (\<lambda>_.
     bindS (clockS n) (\<lambda>now.
     bindS (mustS [bindE (dig st [''observed_at'']) (recent z 30 now)] ''updated_fallback_guard_not_observed'') (\<lambda>_.
     bindS (mustS [at_path sample [''dell'', ''main'', ''replicas''] (\<lambda>x. py_eq x (PInt 1)),
              at_path sample [''dell'', ''main'', ''ready_pods''] (\<lambda>x. py_eq x (PInt 1)),
              at_path sample [''dell'', ''main'', ''active_pods''] (\<lambda>x. py_eq x (PInt 1))] ''single_live_main_required'') (\<lambda>_.
     bindS (mustS [at_path sample [''oci'', ''path_fields'', ''alwaysAvailable''] (\<lambda>x. x = PBool False)]
            ''existing_slate_or_other_owner'') (\<lambda>_.
     bindS (progress n z sample ''LIVE'' None) (\<lambda>_.
     bindS (callS (n_sleep n (z_interval z))) (\<lambda>_.
     bindS (snapshot n z False) (\<lambda>again.
     bindS (progress n z again ''LIVE'' (Some sample)) (\<lambda>_. retS sample)))))))))))"

definition need_phase :: "string list \<Rightarrow> string \<Rightarrow> ('w mstate, unit) act" where
  "need_phase ps reason = bindS (sessS m_phase) (\<lambda>p. requireS (p \<in> set ps) (ValueError reason))"

definition armed :: "mconf \<Rightarrow> py res" where
  "armed z = bindE (py_getitem (z_config z) ''slate_file'') (\<lambda>f. Inr (PDict [(''alwaysAvailable'', PBool True),
      (''alwaysAvailableFile'', f), (''alwaysAvailableTracks'', PList [])]))"

definition advanceS :: "nat \<Rightarrow> 'w env \<Rightarrow> mconf \<Rightarrow> ('w mstate, unit) act" where
  "advanceS k n z =
     bindS (need_phase [''PREPARING''] ''not_preparing'') (\<lambda>_.
     bindS no_unknown (\<lambda>_.
     bindS (sessS id) (\<lambda>m.
     bindS (liftS (dig (m_before m) [''dell'', ''units''])) (\<lambda>units.
     bindS (liftS (dig (m_before m) [''dell'', ''ledger''])) (\<lambda>ledger.
     bindS (effectS n z ''quiesce'' ''dell'' ''quiesce'' [(''before'', units), (''ledger'', ledger)]) (\<lambda>_.
     bindS (liftS (dig (m_before m) [''oci'', ''path_fields''])) (\<lambda>fields.
     bindS (liftS (dig (m_before m) [''oci'', ''config_fingerprint''])) (\<lambda>cfp.
     bindS (effectS n z ''arm_slate'' ''oci'' ''path_patch''
              [(''before'', fields), (''after'', m_armed_fields m), (''config_fingerprint'', cfp)]) (\<lambda>_.
     bindS (sessS m_effects) (\<lambda>es.
     bindS (if \<not> list_ex (\<lambda>e. e_name e = ''source_stop'') es
            then bindS (wait_content k n z ''LIVE'') (\<lambda>_. retS ()) else retS ()) (\<lambda>_.
     bindS (liftS (dig (m_before m) [''dell'', ''main'', ''uid''])) (\<lambda>uid.
     bindS (effectS n z ''source_stop'' ''dell'' ''scale_main''
              [(''uid'', uid), (''before'', PInt 1), (''after'', PInt 0), (''ledger'', ledger)]) (\<lambda>_.
     bindS (wait_content k n z ''MAINTENANCE_SLATE'') (\<lambda>_.
     save n (Some ''AWAITING_SLATE_CONFIRMATION'')))))))))))))))"

definition beginS :: "nat \<Rightarrow> 'w env \<Rightarrow> mconf \<Rightarrow> int \<Rightarrow> string \<Rightarrow> ('w mstate, unit) act" where
  "beginS k n z minutes reason =
     bindS (need_phase [''NORMAL''] ''maintenance_already_started'') (\<lambda>_.
     bindS (requireS (1 \<le> minutes \<and> minutes \<le> 1440 \<and> 0 < length reason \<and> length reason \<le> 120 \<and> CHR 0x0A \<notin> set reason)
            (ValueError ''invalid_window_or_reason'')) (\<lambda>_.
     bindS (preflight n z) (\<lambda>before.
     bindS (sessS m_session_id) (\<lambda>sid.
     bindS (case sid of None \<Rightarrow> retS () | Some i \<Rightarrow> if i = [] then retS () else callS (n_archive n i)) (\<lambda>_.
     bindS (callS (\<lambda>w. case n_uuid n w of (i, w') \<Rightarrow> (Inr i, w'))) (\<lambda>new_id.
     bindS (clockS n) (\<lambda>t.
     bindS (liftS (digest_of (z_fingerprint z) (z_config z))) (\<lambda>sha.
     bindS (liftS (armed z)) (\<lambda>fields.
     bindS (setS (\<lambda>m. session_initial\<lparr>m_phase := ''PREPARING'', m_session_id := Some new_id,
              m_generation := m_generation m + 1, m_deadline := t + of_int (minutes * 60), m_reason := reason,
              m_config_sha := sha, m_before := before, m_armed_fields := fields\<rparr>)) (\<lambda>_.
     bindS (save n None) (\<lambda>_. advanceS k n z)))))))))))"

definition before_deadline :: "'w env \<Rightarrow> ('w mstate, unit) act" where
  "before_deadline n = bindS (clockS n) (\<lambda>t. bindS (sessS m_deadline) (\<lambda>d.
     requireS (t < d) (ValueError ''maintenance_entry_window_expired'')))"

definition confirm_slate :: "nat \<Rightarrow> 'w env \<Rightarrow> mconf \<Rightarrow> bool \<Rightarrow> bool \<Rightarrow> ('w mstate, unit) act" where
  "confirm_slate k n z youtube twitch =
     bindS (need_phase [''AWAITING_SLATE_CONFIRMATION'', ''MAINTENANCE''] ''not_awaiting_slate_confirmation'') (\<lambda>_.
     bindS (requireS (youtube \<and> twitch) (ValueError ''both_public_players_must_be_confirmed'')) (\<lambda>_.
     bindS (before_deadline n) (\<lambda>_.
     bindS no_unknown (\<lambda>_.
     bindS (wait_content k n z ''MAINTENANCE_SLATE'') (\<lambda>_.
     bindS (before_deadline n) (\<lambda>_.
     bindS (clockS n) (\<lambda>t.
     bindS (setS (\<lambda>m. m\<lparr>m_slate_confirmed_at := Some t\<rparr>)) (\<lambda>_.
     save n (Some ''MAINTENANCE'')))))))))"

definition checkS :: "nat \<Rightarrow> 'w env \<Rightarrow> mconf \<Rightarrow> ('w mstate, unit) act" where
  "checkS k n z =
     bindS no_unknown (\<lambda>_.
     bindS (need_phase [''MAINTENANCE'', ''AWAITING_SLATE_CONFIRMATION'', ''VERIFYING'', ''RESTORING''] ''no_active_content_to_check'') (\<lambda>_.
     bindS (sessS m_phase) (\<lambda>p.
     bindS (wait_content k n z (if p \<in> {''MAINTENANCE'', ''AWAITING_SLATE_CONFIRMATION''} then ''MAINTENANCE_SLATE'' else ''LIVE'')) (\<lambda>_.
     retS ()))))"

definition confirmed :: "'w env \<Rightarrow> string \<Rightarrow> ('w mstate, unit) act" where
  "confirmed n reason = bindS (callS (n_confirm n)) (\<lambda>yes. requireS yes (ValueError reason))"

definition onS :: "nat \<Rightarrow> 'w env \<Rightarrow> mconf \<Rightarrow> int \<Rightarrow> string \<Rightarrow> ('w mstate, unit) act" where
  "onS k n z minutes reason =
     bindS no_unknown (\<lambda>_.
     bindS (sessS m_phase) (\<lambda>p.
     bindS (if p = ''NORMAL'' then beginS k n z minutes reason
            else if p = ''PREPARING'' then advanceS k n z
            else requireS (p \<in> {''AWAITING_SLATE_CONFIRMATION'', ''MAINTENANCE''}) (ValueError ''return_in_progress_cannot_start'')) (\<lambda>_.
     bindS (before_deadline n) (\<lambda>_.
     bindS (checkS k n z) (\<lambda>_.
     bindS (confirmed n ''playback_not_confirmed_maintenance_retained'') (\<lambda>_.
     confirm_slate k n z True True))))))"

section \<open>Return\<close>

definition resumeS :: "nat \<Rightarrow> 'w env \<Rightarrow> mconf \<Rightarrow> ('w mstate, unit) act" where
  "resumeS k n z =
     bindS (need_phase [''PREPARING'', ''AWAITING_SLATE_CONFIRMATION'', ''MAINTENANCE'', ''RESUMING''] ''not_resumable'') (\<lambda>_.
     bindS no_unknown (\<lambda>_.
     bindS (save n (Some ''RESUMING'')) (\<lambda>_.
     bindS (sessS id) (\<lambda>m.
     bindS (snapshot n z False) (\<lambda>current.
     bindS (liftS (dig current [''dell'', ''main'', ''replicas''])) (\<lambda>reps.
     bindS (if py_eq reps (PInt 0)
            then bindS (liftS (dig (m_before m) [''dell'', ''main'', ''uid''])) (\<lambda>uid.
                 bindS (liftS (dig (m_before m) [''dell'', ''ledger''])) (\<lambda>ledger.
                 effectS n z ''source_resume'' ''dell'' ''scale_main''
                   [(''uid'', uid), (''before'', PInt 0), (''after'', PInt 1), (''ledger'', ledger)]))
            else retS ()) (\<lambda>_.
     bindS (wait_content k n z ''LIVE'') (\<lambda>_.
     bindS (snapshot n z False) (\<lambda>current.
     bindS (liftS (dig current [''oci'', ''path_fields''])) (\<lambda>fields.
     bindS (if py_eq fields (m_armed_fields m)
            then bindS (liftS (dig (m_before m) [''oci'', ''path_fields''])) (\<lambda>old.
                 bindS (liftS (dig (m_before m) [''oci'', ''config_fingerprint''])) (\<lambda>cfp.
                 effectS n z ''restore_path'' ''oci'' ''path_patch''
                   [(''before'', m_armed_fields m), (''after'', old), (''config_fingerprint'', cfp)]))
            else retS ()) (\<lambda>_.
     bindS (snapshot n z False) (\<lambda>current.
     bindS (mustS [same_at current [''oci'', ''path_fields''] (m_before m) [''oci'', ''path_fields'']] ''path_restore_not_confirmed'') (\<lambda>_.
     bindS (wait_content k n z ''LIVE'') (\<lambda>_.
     bindS (setS (\<lambda>m. m\<lparr>m_stability := None\<rparr>)) (\<lambda>_.
     save n (Some ''VERIFYING''))))))))))))))))"

definition verification_sample :: "'w env \<Rightarrow> mconf \<Rightarrow> ('w mstate, seconds) act" where
  "verification_sample n z =
     bindS (snapshot n z False) (\<lambda>sample.
     bindS (sessS id) (\<lambda>m.
     bindS (mustS [same_at sample [''oci'', ''path_fields''] (m_before m) [''oci'', ''path_fields'']] ''path_not_restored'') (\<lambda>_.
     bindS (catchS (progress n z sample ''LIVE'' (map_option snd (m_stability m)))
              (\<lambda>e. if soft_error e
                   then bindS (setS (\<lambda>m. m\<lparr>m_stability := None\<rparr>)) (\<lambda>_. bindS (save n None) (\<lambda>_. raiseS e))
                   else raiseS e)) (\<lambda>_.
     bindS (case m_stability m of Some (since, _) \<Rightarrow> retS since | None \<Rightarrow> clockS n) (\<lambda>since.
     bindS (setS (\<lambda>m. m\<lparr>m_stability := Some (since, sample)\<rparr>)) (\<lambda>_.
     bindS (save n None) (\<lambda>_.
     bindS (clockS n) (\<lambda>t. retS (t - since)))))))))"

definition retry_reasons :: "string list" where
  "retry_reasons = [''copy_observation_stale'', ''expected_content_not_observed'', ''youtube_copy_not_bound_or_flowing'',
     ''main_not_ready'', ''connection_changed'', ''audio_video_or_output_stalled'', ''progress_sample_gap'',
     ''both_tracks_required'', ''twitch_output_not_flowing'', ''twitch_output_not_advancing'']"

definition retryable :: "exn \<Rightarrow> bool" where
  "retryable e = (case e of ValueError r \<Rightarrow> r \<in> set retry_reasons | _ \<Rightarrow> False)"

fun verify_loop :: "nat \<Rightarrow> 'w env \<Rightarrow> mconf \<Rightarrow> seconds \<Rightarrow> ('w mstate, unit) act" where
  "verify_loop 0 n z deadline = raiseS Diverged"
| "verify_loop (Suc k) n z deadline =
     bindS (clockS n) (\<lambda>t.
     if t \<le> deadline
     then bindS (catchS (bindS (verification_sample n z) (\<lambda>d. retS (d \<ge> z_stable_seconds z)))
                   (\<lambda>e. if retryable e then retS False else raiseS e)) (\<lambda>done.
          if done then retS ()
          else bindS (callS (n_sleep n (z_interval z))) (\<lambda>_. verify_loop k n z deadline))
     else raiseS (ValueError ''live_stability_deadline_inhibition_retained''))"

definition verifyS :: "nat \<Rightarrow> 'w env \<Rightarrow> mconf \<Rightarrow> ('w mstate, unit) act" where
  "verifyS k n z =
     bindS (need_phase [''VERIFYING'', ''RESTORING''] ''not_verifying'') (\<lambda>_.
     bindS no_unknown (\<lambda>_.
     bindS (clockS n) (\<lambda>t. verify_loop k n z (t + 450))))"

definition completeS :: "'w env \<Rightarrow> mconf \<Rightarrow> bool \<Rightarrow> bool \<Rightarrow> bool \<Rightarrow> ('w mstate, unit) act" where
  "completeS n z youtube twitch live_data =
     bindS (need_phase [''VERIFYING'', ''RESTORING''] ''not_ready_to_complete'') (\<lambda>_.
     bindS (requireS (youtube \<and> twitch \<and> live_data) (ValueError ''public_av_and_live_data_confirmation_required'')) (\<lambda>_.
     bindS no_unknown (\<lambda>_.
     bindS (callS (n_sleep n (z_interval z))) (\<lambda>_.
     bindS (verification_sample n z) (\<lambda>d.
     bindS (requireS (d \<ge> z_stable_seconds z) (ValueError ''live_stability_not_yet_confirmed'')) (\<lambda>_.
     bindS (clockS n) (\<lambda>t.
     bindS (setS (\<lambda>m. m\<lparr>m_live_confirmed_at := Some t\<rparr>)) (\<lambda>_.
     bindS (save n (Some ''RESTORING'')) (\<lambda>_.
     bindS (sessS m_before) (\<lambda>before.
     bindS (liftS (dig before [''dell'', ''units''])) (\<lambda>units.
     bindS (liftS (dig before [''dell'', ''ledger''])) (\<lambda>ledger.
     bindS (effectS n z ''restore_units'' ''dell'' ''restore_units'' [(''restore'', units), (''ledger'', ledger)]) (\<lambda>_.
     bindS (clockS n) (\<lambda>t.
     bindS (setS (\<lambda>m. m\<lparr>m_completed_at := Some t\<rparr>)) (\<lambda>_.
     save n (Some ''NORMAL''))))))))))))))))"

definition return_stages :: "nat \<Rightarrow> 'w env \<Rightarrow> mconf \<Rightarrow> string \<Rightarrow> ('w mstate, unit) act" where
  "return_stages k n z p =
     bindS (if p \<in> {''PREPARING'', ''AWAITING_SLATE_CONFIRMATION'', ''MAINTENANCE'', ''RESUMING''}
            then resumeS k n z
            else requireS (p \<in> {''VERIFYING'', ''RESTORING''}) (ValueError ''not_resumable'')) (\<lambda>_.
     bindS (verifyS k n z) (\<lambda>_.
     bindS (confirmed n ''live_playback_not_confirmed_inhibition_retained'') (\<lambda>_.
     completeS n z True True True)))"

definition offS :: "nat \<Rightarrow> 'w env \<Rightarrow> mconf \<Rightarrow> ('w mstate, unit) act" where
  "offS k n z =
     bindS no_unknown (\<lambda>_.
     bindS (sessS m_phase) (\<lambda>p. if p = ''NORMAL'' then retS () else return_stages k n z p))"

section \<open>Commands\<close>

datatype command = Preflight | Begin int string | Advance | ConfirmSlate bool bool | Resume | Verify
  | Complete bool bool bool | Reconcile | Check | On int string | Off

fun run_command :: "nat \<Rightarrow> 'w env \<Rightarrow> mconf \<Rightarrow> command \<Rightarrow> ('w mstate, unit) act" where
  "run_command k n z Preflight = bindS (preflight n z) (\<lambda>_. retS ())"
| "run_command k n z (Begin minutes reason) = beginS k n z minutes reason"
| "run_command k n z Advance = advanceS k n z"
| "run_command k n z (ConfirmSlate y t) = confirm_slate k n z y t"
| "run_command k n z Resume = resumeS k n z"
| "run_command k n z Verify = verifyS k n z"
| "run_command k n z (Complete y t d) = completeS n z y t d"
| "run_command k n z Reconcile = reconcileS n z"
| "run_command k n z Check = checkS k n z"
| "run_command k n z (On minutes reason) = onS k n z minutes reason"
| "run_command k n z Off = offS k n z"

text \<open>
  \<open>main\<close>: the process loads the session from disk, runs one command under the exclusive lock and
  reports either the status with the \<open>safe_to_update_dell\<close> flag or HELD with a reason. An exception
  outside the handled classes ends the process with a traceback (\<open>Crashed\<close>).
\<close>

datatype outcome = Done bool | Held string | Crashed exn

definition reason_word :: "string \<Rightarrow> bool" where
  "reason_word s \<longleftrightarrow> s \<noteq> [] \<and> length s \<le> 100 \<and> list_all (\<lambda>c. c \<in> set ''abcdefghijklmnopqrstuvwxyz_'') s"

definition held_reason :: "exn \<Rightarrow> string" where
  "held_reason e = (case e of
       ValueError r \<Rightarrow> if reason_word r then r else ''operation_not_confirmed''
     | EOFError \<Rightarrow> ''confirmation_interrupted_maintenance_retained''
     | KeyboardInterrupt \<Rightarrow> ''confirmation_interrupted_maintenance_retained''
     | _ \<Rightarrow> ''operation_not_confirmed'')"

definition handled :: "exn \<Rightarrow> bool" where
  "handled e \<longleftrightarrow> is_os_error e \<or> is_value_error e \<or> e \<in> {KeyError, TypeError, EOFError, KeyboardInterrupt, SubprocessError}"

definition safe_command :: "command \<Rightarrow> bool" where
  "safe_command c = (case c of ConfirmSlate _ _ \<Rightarrow> True | On _ _ \<Rightarrow> True | _ \<Rightarrow> False)"

definition process :: "nat \<Rightarrow> 'w env \<Rightarrow> mconf \<Rightarrow> 'w mstate \<Rightarrow> command \<Rightarrow> outcome \<times> 'w mstate" where
  "process k n z s c =
     (case run_command k n z c (s\<lparr>x_session := x_disk s\<rparr>) of
        (Inr _, t) \<Rightarrow> (Done (safe_command c), t)
      | (Inl e, t) \<Rightarrow> (if handled e then Held (held_reason e) else Crashed e, t))"

text \<open>\<open>status\<close>; the guard of the stored file is an argument.\<close>

definition session_status :: "py \<Rightarrow> session \<Rightarrow> py res" where
  "session_status g m =
     bindE (case m_stability m of
              None \<Rightarrow> Inr (PInt 0)
            | Some (since, sample) \<Rightarrow> bindE (dig sample [''oci'', ''observed_at'']) (\<lambda>o'.
                case num_of o' of None \<Rightarrow> Inl TypeError
                | Some (Fin q) \<Rightarrow> Inr (PFloat (Fin (max 0 (q - since)))) | Some x \<Rightarrow> Inr (PFloat x))) (\<lambda>stable.
     Inr (PDict [(''schema'', PStr SESSION_SCHEMA), (''phase'', PStr (m_phase m)),
       (''session_id'', case m_session_id m of None \<Rightarrow> PNone | Some i \<Rightarrow> PStr i), (''generation'', PInt (m_generation m)),
       (''guard'', g), (''safe_to_update_dell'', PBool False),
       (''pending_effects'', PList (map (\<lambda>e. PStr (e_name e)) (filter (\<lambda>e. e_result e \<noteq> APPLIED) (m_effects m)))),
       (''stable_seconds'', stable), (''player_verification'', PStr ''operator_attestation_required'')]))"

section \<open>The invariant\<close>

text \<open>
  A session is well formed when effect names are distinct, only the last effect can be unresolved,
  and phase NORMAL means that no session ever ran or that the session was released: everything
  applied including the restoration of the recovery units, stability recorded and live output
  confirmed. The log of requests is covered by a session when every request of its generation is one
  of its effects.
\<close>

definition released :: "session \<Rightarrow> bool" where
  "released m \<longleftrightarrow> m_session_id m = None \<or>
     (all_applied m \<and> ''restore_units'' \<in> applied_names (m_effects m) \<and> m_stability m \<noteq> None \<and> m_live_confirmed_at m \<noteq> None)"

definition sess_ok :: "session \<Rightarrow> bool" where
  "sess_ok m \<longleftrightarrow> distinct (map e_name (m_effects m)) \<and> (\<forall>e \<in> set (butlast (m_effects m)). e_result e = APPLIED) \<and>
     (m_phase m = ''NORMAL'' \<longrightarrow> released m)"

definition covers :: "session \<Rightarrow> (int \<times> string \<times> session) list \<Rightarrow> bool" where
  "covers m sent \<longleftrightarrow> (\<forall>(g, a, d) \<in> set sent. g < m_generation m \<or> g = m_generation m \<and> a \<in> e_name ` set (m_effects m))"

text \<open>What was on disk when a request was sent: the effect, pending, after applied ones only.\<close>

definition logged_ahead :: "int \<Rightarrow> string \<Rightarrow> session \<Rightarrow> bool" where
  "logged_ahead g a d \<longleftrightarrow> m_generation d = g \<and> m_phase d \<noteq> ''NORMAL'' \<and>
     (\<exists>es e. m_effects d = es @ [e] \<and> e_name e = a \<and> e_result e = PENDING \<and> (\<forall>x \<in> set es. e_result x = APPLIED))"

definition sent_key :: "int \<times> string \<times> session \<Rightarrow> int \<times> string" where
  "sent_key r = (fst r, fst (snd r))"

definition sent_ok :: "(int \<times> string \<times> session) list \<Rightarrow> bool" where
  "sent_ok sent \<longleftrightarrow> distinct (map sent_key sent) \<and> (\<forall>(g, a, d) \<in> set sent. logged_ahead g a d)"

definition minv :: "'w mstate \<Rightarrow> bool" where
  "minv s \<longleftrightarrow> sess_ok (x_session s) \<and> sess_ok (x_disk s) \<and> covers (x_session s) (x_sent s) \<and>
     covers (x_disk s) (x_sent s) \<and> sent_ok (x_sent s)"

text \<open>Besides the invariant, what a step keeps of the session in memory.\<close>

definition inP :: "(session \<Rightarrow> bool) \<Rightarrow> 'w mstate \<Rightarrow> bool" where
  "inP P s \<longleftrightarrow> minv s \<and> P (x_session s)"

definition tripleS :: "('w mstate \<Rightarrow> bool) \<Rightarrow> ('w mstate, 'a) act \<Rightarrow> ('w mstate \<Rightarrow> bool) \<Rightarrow> bool" where
  "tripleS P m Q \<longleftrightarrow> (\<forall>s. P s \<longrightarrow> wpS m (\<lambda>_. Q) (\<lambda>_. minv) s)"

lemma tripleS_bind: "tripleS P m Q \<Longrightarrow> (\<And>x. tripleS Q (f x) R) \<Longrightarrow> tripleS P (bindS m f) R"
  unfolding tripleS_def wp_simps by (blast intro: wpS_mono)

lemma tripleS_weaken: "tripleS P m Q \<Longrightarrow> (\<And>s. P' s \<Longrightarrow> P s) \<Longrightarrow> (\<And>s. Q s \<Longrightarrow> Q' s) \<Longrightarrow> tripleS P' m Q'"
  unfolding tripleS_def by (blast intro: wpS_mono)

lemma tripleS_case: "(\<And>p. C p \<Longrightarrow> tripleS (inP (A p)) m Q) \<Longrightarrow> tripleS (inP (\<lambda>x. \<exists>p. C p \<and> A p x)) m Q"
  by (auto simp: tripleS_def inP_def)

lemma tripleS_if: "(c \<Longrightarrow> tripleS P m Q) \<Longrightarrow> (\<not> c \<Longrightarrow> tripleS P m' Q) \<Longrightarrow> tripleS P (if c then m else m') Q"
  by simp

lemma minv_world [simp]: "minv (s\<lparr>x_world := w\<rparr>) = minv s" "inP P (s\<lparr>x_world := w\<rparr>) = inP P s"
  by (simp_all add: minv_def inP_def)

lemma inP_minv: "inP P s \<Longrightarrow> minv s" by (simp add: inP_def)

lemma keepsS_if: "keepsS P m \<Longrightarrow> keepsS P m' \<Longrightarrow> keepsS P (if c then m else m')"
  by simp

text \<open>
  Observation: the steps that only call into the world. A condition that does not look at the world
  is kept by all of them, whether they return or raise.
\<close>

locale world_blind =
  fixes J :: "'w mstate \<Rightarrow> bool"
  assumes blind: "J s \<Longrightarrow> J (s\<lparr>x_world := w\<rparr>)"
begin

lemma keep_pure:
  "keepsS J (callS f)" "keepsS J (clockS n)" "keepsS J (sessS g)" "keepsS J (mustS cs reason)"
  by (auto simp: keepsS_def callS_def clockS_def sessS_def mustS_def blind split: prod.splits)

lemma keep_must_all: "keepsS J (must_all cs)"
proof (induction cs)
  case (Cons c cs)
  then show ?case by (cases c) (simp only: must_all.simps, intro keepsS_bind keep_pure)
qed (simp only: must_all.simps keepsS_intros)

lemma keep_bound: "keepsS J (bound n z snap)"
  unfolding bound_def bound_host_def bound_session_def by (intro keepsS_bind keepsS_if keep_pure keepsS_intros)

lemma keep_snapshot: "keepsS J (snapshot n z pre)"
  unfolding snapshot_def by (intro keepsS_bind keep_pure keep_bound)

lemma keep_progress: "keepsS J (progress n z snap content prev)"
  unfolding progress_def by (intro keepsS_bind keep_pure keep_must_all keepsS_intros)

lemma keep_wait_round: "keepsS J (wait_round n z content prev)"
  unfolding wait_round_def by (intro keepsS_bind keepsS_catch keepsS_if keep_snapshot keep_progress keepsS_intros)

lemma keep_wait_loop: "keepsS J (wait_loop k n z content deadline prev)"
proof (induction k arbitrary: prev)
  case (Suc k)
  have "keepsS J (case r of Inl sample \<Rightarrow> retS sample
          | Inr prev' \<Rightarrow> bindS (callS (n_sleep n (z_interval z))) (\<lambda>_. wait_loop k n z content deadline prev'))" for r
    by (cases r) (simp_all only: sum.case, intro keepsS_intros, intro keepsS_bind keep_pure Suc)
  then show ?case unfolding wait_loop.simps by (intro keepsS_bind keepsS_if keep_pure keep_wait_round keepsS_intros)
qed (simp only: wait_loop.simps keepsS_intros)

lemma keep_wait: "keepsS J (wait_content k n z content)"
  unfolding wait_content_def by (intro keepsS_bind keep_pure keep_wait_loop)

end

interpretation obs: world_blind "inP P" for P
  by unfold_locales simp

lemmas k_pure = obs.keep_pure
lemmas k_snapshot = obs.keep_snapshot
lemmas k_progress = obs.keep_progress
lemmas k_wait = obs.keep_wait
lemmas k_observe = k_pure k_snapshot k_progress k_wait keepsS_intros

lemma t_keep: "keepsS (inP P) m \<Longrightarrow> tripleS (inP P) m (inP P)"
  unfolding tripleS_def keepsS_wp by (blast intro: wpS_mono inP_minv)

lemma t_bind:
  assumes "keepsS (inP P) m" "\<And>x. tripleS (inP P) (f x) Q"
  shows "tripleS (inP P) (bindS m f) Q"
  using t_keep [OF assms(1)] assms(2) by (rule tripleS_bind)

lemma t_need_phase: "tripleS (inP P) (need_phase ps reason) (inP (\<lambda>m. \<exists>p. p \<in> set ps \<and> m_phase m = p \<and> P m))"
  by (auto simp: tripleS_def need_phase_def sessS_def wp_simps inP_def)

lemma t_no_unknown: "tripleS (inP P) no_unknown (inP (\<lambda>m. P m \<and> all_applied m))"
  by (auto simp: tripleS_def no_unknown_def sessS_def wp_simps inP_def)

text \<open>Weakest preconditions of the primitive steps.\<close>

declare act_eval [simp del]

lemma wp_call [wp_simps]:
  "wpS (callS f) Q R s \<longleftrightarrow> (case f (x_world s) of (r, w) \<Rightarrow>
     (case r of Inl e \<Rightarrow> R e (s\<lparr>x_world := w\<rparr>) | Inr x \<Rightarrow> Q x (s\<lparr>x_world := w\<rparr>)))"
  by (auto simp: wpS_def callS_def split: prod.splits sum.splits)

lemma wp_clock [wp_simps]: "wpS (clockS n) Q R s \<longleftrightarrow> (case n_clock n (x_world s) of (t, w) \<Rightarrow> Q t (s\<lparr>x_world := w\<rparr>))"
  by (auto simp: clockS_def wp_call split: prod.splits)

lemma wp_sess [wp_simps]: "wpS (sessS g) Q R s \<longleftrightarrow> Q (g (x_session s)) s"
  by (simp add: sessS_def wpS_get)

lemma wp_set [wp_simps]: "wpS (setS f) Q R s \<longleftrightarrow> Q () (s\<lparr>x_session := f (x_session s)\<rparr>)"
  by (simp add: setS_def wpS_mod)

lemma wp_must [wp_simps]: "wpS (mustS cs r) Q R s \<longleftrightarrow> (case checkE cs (ValueError r) of Inl e \<Rightarrow> R e s | Inr x \<Rightarrow> Q x s)"
  by (simp add: mustS_def wpS_lift)

text \<open>Saving: the written session, with the new phase and fresh time stamps.\<close>

definition saved :: "string option \<Rightarrow> session \<Rightarrow> (seconds \<times> string) list \<Rightarrow> seconds option \<Rightarrow> session" where
  "saved ph m h t = m\<lparr>m_history := h, m_phase := (case ph of None \<Rightarrow> m_phase m | Some p \<Rightarrow> p), m_updated_at := t\<rparr>"

lemma wp_save:
  assumes "\<And>h t w. Q () (s\<lparr>x_session := saved ph (x_session s) h t, x_disk := saved ph (x_session s) h t, x_world := w\<rparr>)"
    and "\<And>e h t w. R e (s\<lparr>x_session := saved ph (x_session s) h t, x_world := w\<rparr>)"
  shows "wpS (save n ph) Q R s"
proof -
  have same: "saved ph m (m_history m) t = m\<lparr>m_updated_at := t\<rparr>" if "ph = None \<or> ph = Some (m_phase m)" for m t
    using that by (auto simp: saved_def)
  have comm: "s\<lparr>x_world := w, x_session := m\<rparr> = s\<lparr>x_session := m, x_world := w\<rparr>"
    "s\<lparr>x_session := m, x_world := w, x_disk := m\<rparr> = s\<lparr>x_session := m, x_disk := m, x_world := w\<rparr>"
    for m w and s :: "'a mstate" by simp_all
  show ?thesis
  proof (cases "ph = None \<or> ph = Some (m_phase (x_session s))")
    case True
    note q = assms(1) [where h = "m_history (x_session s)", unfolded same [OF True]]
      assms(2) [where h = "m_history (x_session s)", unfolded same [OF True]]
    from True show ?thesis
      by (elim disjE) (simp_all add: save_def wp_simps q comm split: prod.splits sum.splits)
  next
    case False
    then obtain p where p: "ph = Some p" "p \<noteq> m_phase (x_session s)" by auto
    note q = assms(1) [unfolded saved_def p, simplified] assms(2) [unfolded saved_def p, simplified]
    from p show ?thesis
      by (simp add: save_def wp_simps q comm split: prod.splits sum.splits)
  qed
qed


text \<open>
  A condition on the session is steady when it does not depend on what saving writes, and free when
  it does not depend on the effects.
\<close>

definition steady :: "(session \<Rightarrow> bool) \<Rightarrow> bool" where
  "steady P \<longleftrightarrow> (\<forall>m h t. P m \<longrightarrow> P (m\<lparr>m_history := h, m_updated_at := t\<rparr>))"

definition effect_free :: "(session \<Rightarrow> bool) \<Rightarrow> bool" where
  "effect_free P \<longleftrightarrow> (\<forall>m es. P m \<longrightarrow> P (m\<lparr>m_effects := es\<rparr>))"

lemma saved_None:
  "m_effects (saved ph m h t) = m_effects m" "m_generation (saved ph m h t) = m_generation m"
  "m_phase (saved ph m h t) = (case ph of None \<Rightarrow> m_phase m | Some p \<Rightarrow> p)"
  "m_session_id (saved ph m h t) = m_session_id m" "m_stability (saved ph m h t) = m_stability m"
  "m_live_confirmed_at (saved ph m h t) = m_live_confirmed_at m" "m_before (saved ph m h t) = m_before m"
  "all_applied (saved ph m h t) = all_applied m" "released (saved ph m h t) = released m"
  "covers (saved ph m h t) sent = covers m sent"
  by (simp_all add: saved_def all_applied_def released_def covers_def)

lemma steady_saved: "steady P \<Longrightarrow> P m \<Longrightarrow> P (saved None m h t)"
  unfolding steady_def saved_def by (elim allE [of _ m]) simp

lemma sess_ok_saved:
  "sess_ok m \<Longrightarrow> (ph = Some ''NORMAL'' \<Longrightarrow> released m) \<Longrightarrow> sess_ok (saved ph m h t)"
  by (auto simp: sess_ok_def saved_None split: option.splits)

lemma minv_memory:
  "minv s \<Longrightarrow> sess_ok m \<Longrightarrow> covers m (x_sent s) \<Longrightarrow> minv (s\<lparr>x_session := m\<rparr>)"
  "minv s \<Longrightarrow> sess_ok m \<Longrightarrow> covers m (x_sent s) \<Longrightarrow> minv (s\<lparr>x_session := m, x_disk := m\<rparr>)"
  by (simp_all add: minv_def)

text \<open>Saving without a change of phase, also after a change of the session in memory.\<close>

lemma save_memory:
  assumes "minv s" "sess_ok m" "covers m (x_sent s)" "steady P" "P m"
  shows "wpS (save n None) (\<lambda>_ t. inP P t \<and> m_effects (x_session t) = m_effects m \<and> x_disk t = x_session t \<and>
      x_sent t = x_sent s)
    (\<lambda>_ t. inP P t \<and> m_effects (x_session t) = m_effects m) (s\<lparr>x_session := m\<rparr>)"
  by (rule wp_save) (use assms in \<open>auto simp: inP_def minv_def steady_saved saved_None intro!: sess_ok_saved\<close>)

lemma k_save:
  assumes "steady P"
  shows "keepsS (inP P) (save n None)"
  unfolding keepsS_wp
proof (intro allI impI)
  fix s :: "'a mstate"
  assume "inP P s"
  then have "minv s" "P (x_session s)" "sess_ok (x_session s)" "covers (x_session s) (x_sent s)"
    by (simp_all add: inP_def minv_def)
  from save_memory [OF this(1,3,4) assms this(2), of n]
  show "wpS (save n None) (\<lambda>_. inP P) (\<lambda>_. inP P) s" by (simp add: wpS_mono)
qed

lemma t_save_disk:
  assumes "\<And>m h t. P m \<Longrightarrow> Q (saved (Some p) m h t)" "\<And>m. p = ''NORMAL'' \<Longrightarrow> P m \<Longrightarrow> released m"
  shows "tripleS (inP P) (save n (Some p)) (\<lambda>s. inP Q s \<and> x_disk s = x_session s)"
  unfolding tripleS_def
  by (intro allI impI wp_save) (use assms in \<open>auto simp: inP_def minv_def saved_None intro!: sess_ok_saved\<close>)

lemma t_save:
  assumes "\<And>m h t. P m \<Longrightarrow> Q (saved (Some p) m h t)" "\<And>m. p = ''NORMAL'' \<Longrightarrow> P m \<Longrightarrow> released m"
  shows "tripleS (inP P) (save n (Some p)) (inP Q)"
  unfolding tripleS_def
  by (intro allI impI wp_save) (use assms in \<open>auto simp: inP_def minv_def saved_None intro!: sess_ok_saved\<close>)


section \<open>Effects are sent once, after they are on disk\<close>

lemma set_last_snoc: "m_effects m = es @ [e] \<Longrightarrow> set_last r m = m\<lparr>m_effects := es @ [e\<lparr>e_result := r\<rparr>]\<rparr>"
  by (cases es) (simp_all add: set_last_def split: list.splits)

lemma applied_names_snoc [simp]:
  "applied_names (es @ [e\<lparr>e_result := APPLIED\<rparr>]) = insert (e_name e) (applied_names es)"
proof -
  have "applied_names (xs @ ys) = applied_names xs \<union> applied_names ys" for xs ys by (auto simp: applied_names_def)
  moreover have "applied_names [e\<lparr>e_result := APPLIED\<rparr>] = {e_name e}"
    by (auto simp: applied_names_def intro!: image_eqI [of _ _ "e\<lparr>e_result := APPLIED\<rparr>"])
  ultimately show ?thesis by simp
qed

lemma k_use:
  assumes "keepsS P m" "P s" "\<And>x t. P t \<Longrightarrow> Q x t" "\<And>e t. P t \<Longrightarrow> R e t"
  shows "wpS m Q R s"
  using assms by (auto simp: keepsS_wp intro: wpS_mono)

lemma wp_bindI: "wpS m Q' R s \<Longrightarrow> (\<And>x t. Q' x t \<Longrightarrow> wpS (f x) Q R t) \<Longrightarrow> wpS (bindS m f) Q R s"
  unfolding wpS_bind by (erule wpS_mono)

lemma k_bindI: "keepsS P m \<Longrightarrow> (\<And>x t. P t \<Longrightarrow> wpS (f x) Q (\<lambda>_. P) t) \<Longrightarrow> P s \<Longrightarrow> wpS (bindS m f) Q (\<lambda>_. P) s"
  unfolding wpS_bind by (erule k_use)

text \<open>The session while the effect \<open>e\<close> is under way, after everything before it was applied.\<close>

definition under_way :: "(session \<Rightarrow> bool) \<Rightarrow> effect list \<Rightarrow> effect \<Rightarrow> session \<Rightarrow> bool" where
  "under_way P es e m \<longleftrightarrow> P m \<and> (\<exists>r. m_effects m = es @ [e\<lparr>e_result := r\<rparr>])"

lemma under_way_upd:
  assumes "effect_free P" "\<And>m. P m \<Longrightarrow> m_phase m \<noteq> ''NORMAL''" "inP (under_way P es e) s" "\<forall>x \<in> set es. e_result x = APPLIED"
  shows "sess_ok (set_last r (x_session s))" "covers (set_last r (x_session s)) (x_sent s)" "P (set_last r (x_session s))"
    "m_effects (set_last r (x_session s)) = es @ [e\<lparr>e_result := r\<rparr>]"
proof -
  from assms(3) obtain r' where e: "m_effects (x_session s) = es @ [e\<lparr>e_result := r'\<rparr>]" and P: "P (x_session s)"
    and i: "minv s" by (auto simp: inP_def under_way_def)
  note u = set_last_snoc [OF e, of r]
  show "m_effects (set_last r (x_session s)) = es @ [e\<lparr>e_result := r\<rparr>]" unfolding u by simp
  have "P (x_session s\<lparr>m_effects := es @ [e\<lparr>e_result := r\<rparr>]\<rparr>)" using assms(1) P unfolding effect_free_def by blast
  then show "P (set_last r (x_session s))" unfolding u by simp
  show "sess_ok (set_last r (x_session s))" using i assms(2,4) P e unfolding u by (auto simp: minv_def sess_ok_def)
  show "covers (set_last r (x_session s)) (x_sent s)" using i e unfolding u by (auto simp: minv_def covers_def)
qed

lemma perform_wp:
  assumes st: "steady P" and ef: "effect_free P" and ph: "\<And>m. P m \<Longrightarrow> m_phase m \<noteq> ''NORMAL''" and ap: "\<forall>x \<in> set es. e_result x = APPLIED"
    and s: "inP (under_way P es e) s" "x_disk s = x_session s" "m_effects (x_session s) = es @ [e]" "e_result e = PENDING"
      "(m_generation (x_session s), e_name e) \<notin> sent_key ` set (x_sent s)"
  shows "wpS (perform n z e current) (\<lambda>_. inP (\<lambda>m. P m \<and> all_applied m \<and> e_name e \<in> applied_names (m_effects m))) (\<lambda>_. minv) s"
proof -
  let ?W = "under_way P es e" and ?s1 = "s\<lparr>x_sent := x_sent s @ [(m_generation (x_session s), e_name e, x_disk s)]\<rparr>"
  have fin: "wpS (mark_unknown n x) Q (\<lambda>_. minv) t" if t: "inP ?W t" for x Q and t :: "'a mstate"
    unfolding mark_unknown_def wp_simps
    by (rule wpS_mono [OF save_memory [where P = P and m = "set_last OUTCOME_UNKNOWN (x_session t)"]])
       (use t under_way_upd [OF ef ph t ap] st in \<open>auto simp: inP_def wp_simps\<close>)
  have ok: "wpS (save n None) (\<lambda>_. inP (\<lambda>m. P m \<and> all_applied m \<and> e_name e \<in> applied_names (m_effects m)))
      (\<lambda>_. inP ?W) (t\<lparr>x_session := set_last APPLIED (x_session t)\<rparr>)"
    if t: "inP ?W t" for t :: "'a mstate"
    by (rule wpS_mono [OF save_memory [where P = P and m = "set_last APPLIED (x_session t)"]])
       (use t under_way_upd [OF ef ph t ap] st ap in
         \<open>auto simp: inP_def all_applied_def under_way_def\<close>)
  have s1: "inP ?W ?s1"
  proof -
    have "P (x_session s)" using s(1) by (simp add: inP_def under_way_def)
    then have "logged_ahead (m_generation (x_session s)) (e_name e) (x_disk s)"
      using s(2-4) ap ph by (auto simp: logged_ahead_def)
    with s show ?thesis by (auto simp: inP_def under_way_def minv_def covers_def sent_ok_def sent_key_def)
  qed
  let ?Q = "\<lambda>_::unit. inP (\<lambda>m. P m \<and> all_applied m \<and> e_name e \<in> applied_names (m_effects m))"
  have tail: "wpS (bindS (snapshot n z False) (\<lambda>after. bindS (mustS [applied e after] ''effect_not_confirmed'') (\<lambda>_.
        bindS (setS (set_last APPLIED)) (\<lambda>_. save n None)))) ?Q (\<lambda>x. wpS (mark_unknown n x) ?Q (\<lambda>_. minv)) t"
    if t: "inP ?W t" for t :: "'a mstate"
    unfolding wpS_bind wp_set
    by (rule k_use [OF k_snapshot t]; (rule k_use [OF k_pure(4)], assumption)?)
       (rule fin wpS_mono [OF ok], assumption+)+
  show ?thesis
  proof (cases "dig current [e_role e, ''identity'', ''boot'']")
    case (Inl x)
    then show ?thesis using fin [OF s(1)] by (simp add: perform_def wpS_catch wpS_bind wpS_lift)
  next
    case (Inr boot)
    show ?thesis unfolding perform_def requestS_def wpS_catch wpS_bind wpS_lift wpS_mod Inr sum.case
      by (rule k_use [OF k_pure(1) s1]) (rule tail [unfolded wpS_bind], assumption, rule fin, assumption)
  qed
qed


lemma t_effect:
  assumes st: "steady P" and ef: "effect_free P" and ph: "\<And>m. P m \<Longrightarrow> m_phase m \<noteq> ''NORMAL''"
  shows "tripleS (inP (\<lambda>m. P m \<and> all_applied m)) (effectS n z name role action request)
    (inP (\<lambda>m. (P m \<and> all_applied m) \<and> name \<in> applied_names (m_effects m)))"
  unfolding tripleS_def
proof (intro allI impI)
  fix s :: "'a mstate"
  assume s: "inP (\<lambda>m. P m \<and> all_applied m) s"
  let ?es = "m_effects (x_session s)"
  let ?Q = "\<lambda>_::unit. inP (\<lambda>m. (P m \<and> all_applied m) \<and> name \<in> applied_names (m_effects m))"
  show "wpS (effectS n z name role action request) ?Q (\<lambda>_. minv) s"
  proof (cases "find (\<lambda>e. e_name e = name) ?es")
    case (Some e)
    then have "e \<in> set ?es" "e_name e = name" by (auto simp: find_Some_iff in_set_conv_nth)
    then show ?thesis using Some s
      by (auto simp: effectS_def wp_simps inP_def applied_names_def all_applied_def)
  next
    case None
    then have new: "name \<notin> e_name ` set ?es" by (auto simp: find_None_iff)
    let ?P1 = "\<lambda>m. (P m \<and> m_effects m = ?es \<and> m_generation m = m_generation (x_session s)) \<and> all_applied m"
    have "wpS (bindS (clockS n) (\<lambda>t.
         let e = \<lparr>e_name = name, e_role = role, e_action = action, e_request = request, e_result = PENDING,
                  e_at = t, e_reconciled_at = None\<rparr> in
         bindS (setS (\<lambda>m. m\<lparr>m_effects := m_effects m @ [e]\<rparr>)) (\<lambda>_.
         bindS (save n None) (\<lambda>_. perform n z e current)))) ?Q (\<lambda>_. minv) u"
      if u: "inP ?P1 u" for current and u :: "'a mstate"
      unfolding wpS_bind Let_def wp_set
    proof (rule k_use [OF k_pure(2) u])
      fix t and v :: "'a mstate"
      assume v: "inP ?P1 v"
      let ?e = "\<lparr>e_name = name, e_role = role, e_action = action, e_request = request, e_result = PENDING,
          e_at = t, e_reconciled_at = None\<rparr>"
      let ?m = "(x_session v)\<lparr>m_effects := m_effects (x_session v) @ [?e]\<rparr>"
      have iv: "minv v" and pv: "P (x_session v)" and ev: "m_effects (x_session v) = ?es" and av: "all_applied (x_session v)"
        using v by (auto simp: inP_def)
      have gn: "(m_generation (x_session v), name) \<notin> sent_key ` set (x_sent v)"
        using iv ev new by (auto simp: minv_def covers_def sent_key_def)
      have pm: "P ?m" using ef pv unfolding effect_free_def by blast
      have okm: "sess_ok ?m" using iv ev new av ph [OF pv] by (auto simp: minv_def sess_ok_def all_applied_def)
      have cm: "covers ?m (x_sent v)" using iv by (auto simp: minv_def covers_def)
      have st': "steady (\<lambda>m. P m \<and> m_generation m = m_generation (x_session v))" using st by (auto simp: steady_def)
      show "wpS (save n None) (\<lambda>_. wpS (perform n z ?e current) ?Q (\<lambda>_. minv)) (\<lambda>_. minv) (v\<lparr>x_session := ?m\<rparr>)"
      proof (rule wpS_mono [OF save_memory [OF iv okm cm st']])
        fix x :: unit and t' :: "'a mstate"
        assume t': "inP (\<lambda>m. P m \<and> m_generation m = m_generation (x_session v)) t' \<and>
          m_effects (x_session t') = m_effects ?m \<and> x_disk t' = x_session t' \<and> x_sent t' = x_sent v"
        have "inP (under_way P ?es ?e) t'"
          using t' ev by (auto simp: inP_def under_way_def intro!: exI [of _ PENDING])
        moreover have "\<forall>x \<in> set ?es. e_result x = APPLIED" using av ev by (simp add: all_applied_def)
        ultimately have "wpS (perform n z ?e current) (\<lambda>_. inP (\<lambda>m. P m \<and> all_applied m \<and>
            e_name ?e \<in> applied_names (m_effects m))) (\<lambda>_. minv) t'"
          using t' gn ev by (intro perform_wp [OF st ef ph, where es = ?es]) (auto simp: inP_def)
        then show "wpS (perform n z ?e current) ?Q (\<lambda>_. minv) t'" by (rule wpS_mono) (auto simp: inP_def)
      qed (use pm in \<open>auto simp: inP_def\<close>)
    qed (simp add: inP_def)
    note tail = this
    have s1: "inP ?P1 s" using s by (simp add: inP_def)
    have "wpS (snapshot n z False) (\<lambda>current. wpS (bindS (clockS n) (\<lambda>t.
         let e = \<lparr>e_name = name, e_role = role, e_action = action, e_request = request, e_result = PENDING,
                  e_at = t, e_reconciled_at = None\<rparr> in
         bindS (setS (\<lambda>m. m\<lparr>m_effects := m_effects m @ [e]\<rparr>)) (\<lambda>_.
         bindS (save n None) (\<lambda>_. perform n z e current)))) ?Q (\<lambda>_. minv)) (\<lambda>_. minv) s"
      by (rule k_use [OF k_snapshot s1]) (rule tail, assumption, simp add: inP_def)
    then show ?thesis using None s
      by (simp add: effectS_def no_unknown_def wpS_bind wp_sess wpS_require inP_def)
  qed
qed

section \<open>Every command keeps the invariant\<close>

abbreviation in_phase :: "string \<Rightarrow> 'w mstate \<Rightarrow> bool" where
  "in_phase p \<equiv> inP (\<lambda>m. m_phase m = p \<and> all_applied m)"

abbreviation safeS :: "('w mstate, 'a) act \<Rightarrow> bool" where
  "safeS m \<equiv> tripleS (inP (\<lambda>_. True)) m (inP (\<lambda>_. True))"

lemma t_eff:
  assumes "p \<noteq> ''NORMAL''"
  shows "tripleS (in_phase p) (effectS n z name role action request) (in_phase p)"
  by (rule tripleS_weaken [OF t_effect [where P = "\<lambda>m. m_phase m = p"]])
     (use assms in \<open>auto simp: steady_def effect_free_def inP_def\<close>)

lemma t_top: "tripleS P m (inP Q) \<Longrightarrow> tripleS P m (inP (\<lambda>_. True))"
  by (erule tripleS_weaken) (auto simp: inP_def)

lemma t_in: "tripleS (inP Q) m R \<Longrightarrow> (\<And>x. P x \<Longrightarrow> Q x) \<Longrightarrow> tripleS (inP P) m R"
  by (erule tripleS_weaken) (auto simp: inP_def)

lemma t_any: "tripleS (inP (\<lambda>_. True)) m R \<Longrightarrow> tripleS (inP P) m R"
  by (erule t_in) simp

lemma t_need1:
  assumes "\<And>x. tripleS (inP (\<lambda>m. m_phase m = p)) (f x) R"
  shows "tripleS (inP P) (bindS (need_phase [p] r) f) R"
  by (rule tripleS_bind [OF t_need_phase], rule t_in [OF assms]) auto

lemma phases [simp]: "''PREPARING'' \<noteq> ''NORMAL''" "''RESUMING'' \<noteq> ''NORMAL''" "''VERIFYING'' \<noteq> ''NORMAL''"
  "''RESTORING'' \<noteq> ''NORMAL''" "''MAINTENANCE'' \<noteq> ''NORMAL''" "''AWAITING_SLATE_CONFIRMATION'' \<noteq> ''NORMAL''"
  by simp_all

lemma t_save_top: "p \<noteq> ''NORMAL'' \<Longrightarrow> tripleS (inP P) (save n (Some p)) (inP (\<lambda>_. True))"
  by (rule t_save) auto

lemma t_save_phase: "p \<noteq> ''NORMAL'' \<Longrightarrow> tripleS (inP (\<lambda>m. P m \<and> all_applied m)) (save n (Some p)) (in_phase p)"
  by (rule t_save) (auto simp: saved_None)

lemma k_save_any: "keepsS (inP (\<lambda>_. True)) (save n None)"
  by (rule k_save) (simp add: steady_def)

lemmas t_steps = t_bind [OF k_pure(1)] t_bind [OF k_pure(2)] t_bind [OF k_pure(3)] t_bind [OF k_pure(4)]
  t_bind [OF keepsS_intros(3)] t_bind [OF keepsS_intros(5)] t_bind [OF k_snapshot] t_bind [OF k_wait] t_bind [OF k_progress]

lemma t_advance: "safeS (advanceS k n z)"
proof -
  have 1: "keepsS (inP P) (if c then bindS (wait_content k n z content) (\<lambda>_. retS ()) else retS ())" for P c content
    by (intro keepsS_if keepsS_bind k_wait keepsS_intros)
  show ?thesis unfolding advanceS_def
    by (rule t_need1, rule tripleS_bind [OF t_no_unknown],
        (rule t_steps tripleS_bind [OF t_eff [OF phases(1)]] t_bind [OF 1] t_save_top [OF phases(6)])+)
qed

lemma k_preflight: "keepsS (inP P) (preflight n z)"
  unfolding preflight_def by (intro keepsS_bind k_observe)

lemma t_new_session:
  "tripleS (inP P) (setS (\<lambda>m. session_initial\<lparr>m_phase := ''PREPARING'', m_session_id := sid, m_generation := m_generation m + 1,
      m_deadline := d, m_reason := r, m_config_sha := sha, m_before := before, m_armed_fields := af\<rparr>)) (inP (\<lambda>_. True))"
  by (force simp: tripleS_def wp_simps inP_def minv_def sess_ok_def covers_def session_initial_def)

lemma t_begin: "safeS (beginS k n z minutes reason)"
proof -
  have 1: "keepsS (inP P) (case sid of None \<Rightarrow> retS () | Some i \<Rightarrow> if i = [] then retS () else callS (n_archive n i))" for P sid
    by (cases sid) (simp_all only: option.case keepsS_intros, intro keepsS_if k_pure keepsS_intros)
  show ?thesis unfolding beginS_def
    by (rule t_need1, rule t_any, (rule t_steps t_bind [OF k_preflight] t_bind [OF 1] tripleS_bind [OF t_new_session]
          t_bind [OF k_save_any] t_advance)+)
qed

lemma t_set_keep:
  assumes "\<And>m. sess_ok m \<Longrightarrow> P m \<Longrightarrow> sess_ok (f m) \<and> m_generation (f m) = m_generation m \<and> m_effects (f m) = m_effects m \<and> Q (f m)"
  shows "tripleS (inP P) (setS f) (inP Q)"
  using assms by (auto simp: tripleS_def wp_simps inP_def minv_def covers_def)

lemma k_before_deadline: "keepsS (inP P) (before_deadline n)"
  unfolding before_deadline_def by (intro keepsS_bind k_observe)

lemma t_confirm_slate: "safeS (confirm_slate k n z y t)"
proof -
  have 1: "tripleS (inP (\<lambda>_. True)) (setS (\<lambda>m. m\<lparr>m_slate_confirmed_at := t'\<rparr>)) (inP (\<lambda>_. True))" for t'
    by (rule t_set_keep) (auto simp: sess_ok_def released_def all_applied_def)
  show ?thesis unfolding confirm_slate_def
    by (rule tripleS_bind [OF t_need_phase], rule t_any,
        (rule t_steps t_bind [OF k_before_deadline] tripleS_bind [OF t_no_unknown [THEN t_top]] tripleS_bind [OF 1]
          t_save_top [OF phases(5)])+)
qed

lemma t_check: "safeS (checkS k n z)"
  unfolding checkS_def
  by (rule tripleS_bind [OF t_no_unknown [THEN t_top]], rule tripleS_bind [OF t_need_phase], rule t_any,
      (rule t_steps t_keep [OF keepsS_intros(1)])+)

lemma k_confirmed: "keepsS (inP P) (confirmed n r)"
  unfolding confirmed_def by (intro keepsS_bind k_observe)

lemma t_on: "safeS (onS k n z minutes reason)"
  unfolding onS_def
  by (rule tripleS_bind [OF t_no_unknown [THEN t_top]],
      (rule t_steps t_bind [OF k_before_deadline] t_bind [OF k_confirmed] t_confirm_slate
         tripleS_bind [OF t_check] tripleS_bind [OF tripleS_if [OF t_begin tripleS_if [OF t_advance t_keep [OF keepsS_intros(5)]]]])+)


lemma t_resume: "safeS (resumeS k n z)"
proof -
  have 1: "tripleS (in_phase ''RESUMING'') (if c then bindS (liftS a) (\<lambda>x. bindS (liftS b) (\<lambda>y. effectS n z nm ro ac (g x y)))
      else retS ()) (in_phase ''RESUMING'')" for c a b nm ro ac g
    by (intro tripleS_if t_bind keepsS_intros t_keep t_eff phases)
  have 2: "tripleS (in_phase ''RESUMING'') (setS (\<lambda>m. m\<lparr>m_stability := None\<rparr>)) (inP (\<lambda>_. True))"
    by (rule t_set_keep) (auto simp: sess_ok_def)
  show ?thesis unfolding resumeS_def
    by (rule tripleS_bind [OF t_need_phase], rule tripleS_bind [OF t_no_unknown],
        (rule t_steps tripleS_bind [OF t_save_phase [OF phases(2)]] tripleS_bind [OF 1] tripleS_bind [OF 2]
          t_save_top [OF phases(3)])+)
qed

text \<open>The stability sample: where it starts and what the returned duration is.\<close>

definition calm :: "(session \<Rightarrow> bool) \<Rightarrow> bool" where
  "calm P \<longleftrightarrow> steady P \<and> (\<forall>m v. P m \<longrightarrow> P (m\<lparr>m_stability := v\<rparr>)) \<and> (\<forall>m. P m \<longrightarrow> m_phase m \<noteq> ''NORMAL'')"

lemma save_stability:
  assumes "calm P" "inP P s"
  shows "wpS (save n None) (\<lambda>_ t. inP (\<lambda>m. P m \<and> m_stability m = v) t) (\<lambda>_. inP P) (s\<lparr>x_session := (x_session s)\<lparr>m_stability := v\<rparr>\<rparr>)"
proof -
  let ?m = "(x_session s)\<lparr>m_stability := v\<rparr>"
  have i: "minv s" and p: "P (x_session s)" using assms(2) by (auto simp: inP_def)
  have c: "steady P" "P ?m" "m_phase (x_session s) \<noteq> ''NORMAL''" using assms(1) p by (auto simp: calm_def)
  have "sess_ok ?m" "covers ?m (x_sent s)" using i c(3) by (auto simp: minv_def sess_ok_def covers_def)
  moreover have "steady (\<lambda>m. P m \<and> m_stability m = v)" using c(1) by (auto simp: steady_def)
  ultimately show ?thesis
    using wpS_mono [OF save_memory [of s ?m "\<lambda>m. P m \<and> m_stability m = v" n]] i c(2)
    by (auto simp: inP_def)
qed

lemma verification_wp:
  assumes "calm P" "inP P s"
  shows "wpS (verification_sample n z)
    (\<lambda>d. inP (\<lambda>m. P m \<and> (\<exists>since sample w w'. m_stability m = Some (since, sample) \<and> n_clock n w = (since + d, w'))))
    (\<lambda>_. inP P) s"
proof -
  have "wpS (catchS (progress n z sample ''LIVE'' (map_option snd (m_stability m)))
              (\<lambda>e. if soft_error e
                   then bindS (setS (\<lambda>m. m\<lparr>m_stability := None\<rparr>)) (\<lambda>_. bindS (save n None) (\<lambda>_. raiseS e))
                   else raiseS e)) (\<lambda>_. inP P) (\<lambda>_. inP P) t"
    if t: "inP P t" for sample m and t :: "'a mstate"
  proof -
    have "wpS (if soft_error e then bindS (setS (\<lambda>m. m\<lparr>m_stability := None\<rparr>)) (\<lambda>_. bindS (save n None) (\<lambda>_. raiseS e))
        else raiseS e) (\<lambda>_::unit. inP P) (\<lambda>_. inP P) u" if u: "inP P u" for e and u :: "'a mstate"
      using u wpS_mono [OF save_stability [OF assms(1) u, of n None]] by (auto simp: wp_simps inP_def)
    then show ?thesis unfolding wpS_catch by (intro k_use [OF k_progress t]) auto
  qed
  note body = this
  have since: "keepsS (inP P) (case m_stability m of Some (since, _) \<Rightarrow> retS since | None \<Rightarrow> clockS n)" for m
    by (cases "m_stability m") (auto simp: keepsS_intros k_pure split: prod.splits)
  have fin: "wpS (bindS (setS (\<lambda>m. m\<lparr>m_stability := Some (since, sample)\<rparr>)) (\<lambda>_.
     bindS (save n None) (\<lambda>_. bindS (clockS n) (\<lambda>t. retS (t - since)))))
    (\<lambda>d. inP (\<lambda>m. P m \<and> (\<exists>since sample w w'. m_stability m = Some (since, sample) \<and> n_clock n w = (since + d, w'))))
    (\<lambda>_. inP P) t" if t: "inP P t" for since sample and t :: "'a mstate"
    unfolding wp_simps
    by (rule wpS_mono [OF save_stability [OF assms(1) t]]) (auto simp: inP_def split: prod.splits)
  show ?thesis unfolding verification_sample_def
    by (rule k_bindI [OF k_snapshot _ assms(2)], rule k_bindI [OF k_pure(3)], rule k_bindI [OF k_pure(4)],
        rule wp_bindI, rule body, assumption, rule k_bindI [OF since], rule fin) assumption+
qed


lemma k_verification:
  assumes "calm P"
  shows "keepsS (inP P) (verification_sample n z)"
  unfolding keepsS_wp by (intro allI impI, rule wpS_mono [OF verification_wp [OF assms]]) (auto simp: inP_def)

lemma k_verify_loop:
  assumes "calm P"
  shows "keepsS (inP P) (verify_loop k n z deadline)"
proof (induction k)
  case (Suc k)
  have "keepsS (inP P) (catchS (bindS (verification_sample n z) (\<lambda>d. retS (d \<ge> z_stable_seconds z)))
      (\<lambda>e. if retryable e then retS False else raiseS e))"
    by (intro keepsS_catch keepsS_bind keepsS_if keepsS_intros k_verification assms)
  then show ?case unfolding verify_loop.simps
    by (intro keepsS_bind keepsS_if k_pure keepsS_intros Suc)
qed (simp only: verify_loop.simps keepsS_intros)

lemma calm_phase: "p \<noteq> ''NORMAL'' \<Longrightarrow> calm (\<lambda>m. m_phase m = p)" "calm (\<lambda>m. m_phase m = ''VERIFYING'' \<or> m_phase m = ''RESTORING'')"
  by (auto simp: calm_def steady_def)

lemma calm_applied: "calm (\<lambda>m. m_phase m = p \<and> all_applied m)" if "p \<noteq> ''NORMAL''"
  using that by (auto simp: calm_def steady_def all_applied_def)

lemma t_verify: "safeS (verifyS k n z)"
proof -
  have 1: "tripleS (inP (\<lambda>m. (\<exists>p. p \<in> set [''VERIFYING'', ''RESTORING''] \<and> m_phase m = p \<and> True) \<and> all_applied m))
     (bindS (clockS n) (\<lambda>t. verify_loop k n z (t + 450))) (inP (\<lambda>_. True))"
    by (rule t_in [where Q = "\<lambda>m. m_phase m = ''VERIFYING'' \<or> m_phase m = ''RESTORING''"])
       (rule t_bind [OF k_pure(2)], rule t_top, rule t_keep, rule k_verify_loop, rule calm_phase, auto)
  show ?thesis unfolding verifyS_def
    by (rule tripleS_bind [OF t_need_phase], rule tripleS_bind [OF t_no_unknown], rule 1)
qed


text \<open>The evidence of stability: a clock reading the required time after the recorded start.\<close>

definition stable_evidence :: "'w env \<Rightarrow> mconf \<Rightarrow> session \<Rightarrow> bool" where
  "stable_evidence n z m \<longleftrightarrow> (\<exists>since sample d w w'. m_stability m = Some (since, sample) \<and>
     n_clock n w = (since + d, w') \<and> d \<ge> z_stable_seconds z)"

definition return_proven :: "'w env \<Rightarrow> mconf \<Rightarrow> session \<Rightarrow> bool" where
  "return_proven n z m \<longleftrightarrow> m_phase m = ''NORMAL'' \<and> all_applied m \<and> ''restore_units'' \<in> applied_names (m_effects m) \<and>
     stable_evidence n z m \<and> m_live_confirmed_at m \<noteq> None"

lemma t_stable_sample:
  assumes "calm P" "\<And>x. tripleS (inP (\<lambda>m. P m \<and> stable_evidence n z m)) (f x) R"
  shows "tripleS (inP P) (bindS (verification_sample n z) (\<lambda>d. bindS (requireS (d \<ge> z_stable_seconds z) e) f)) R"
  unfolding tripleS_def
proof (intro allI impI)
  fix s :: "'a mstate"
  assume s: "inP P s"
  show "wpS (bindS (verification_sample n z) (\<lambda>d. bindS (requireS (d \<ge> z_stable_seconds z) e) f)) (\<lambda>_. R) (\<lambda>_. minv) s"
    unfolding wpS_bind wpS_require
  proof (rule wpS_mono [OF verification_wp [OF assms(1) s]])
    fix d and t :: "'a mstate"
    assume t: "inP (\<lambda>m. P m \<and> (\<exists>since sample w w'. m_stability m = Some (since, sample) \<and> n_clock n w = (since + d, w'))) t"
    show "if z_stable_seconds z \<le> d then wpS (f ()) (\<lambda>_. R) (\<lambda>_. minv) t else minv t"
    proof (cases "z_stable_seconds z \<le> d")
      case True
      with t have "inP (\<lambda>m. P m \<and> stable_evidence n z m) t" unfolding inP_def stable_evidence_def by blast
      with True assms(2) [of "()"] show ?thesis by (simp add: tripleS_def)
    qed (use t in \<open>simp add: inP_def\<close>)
  qed (simp add: inP_def)
qed

lemma t_complete:
  "tripleS (inP (\<lambda>_. True)) (completeS n z y t d) (\<lambda>s. inP (return_proven n z) s \<and> x_disk s = x_session s)"
proof -
  let ?A = "\<lambda>m. (m_phase m = ''VERIFYING'' \<or> m_phase m = ''RESTORING'') \<and> all_applied m"
  let ?B = "\<lambda>m. m_phase m = ''RESTORING'' \<and> stable_evidence n z m \<and> m_live_confirmed_at m \<noteq> None"
  have A: "calm ?A" by (auto simp: calm_def steady_def all_applied_def)
  have 1: "tripleS (inP (\<lambda>m. ?A m \<and> stable_evidence n z m)) (setS (\<lambda>m. m\<lparr>m_live_confirmed_at := Some t'\<rparr>))
      (inP (\<lambda>m. ?A m \<and> stable_evidence n z m \<and> m_live_confirmed_at m \<noteq> None))" for t'
    by (rule t_set_keep) (auto simp: sess_ok_def all_applied_def stable_evidence_def)
  have 2: "tripleS (inP (\<lambda>m. ?A m \<and> stable_evidence n z m \<and> m_live_confirmed_at m \<noteq> None)) (save n (Some ''RESTORING''))
      (inP (\<lambda>m. ?B m \<and> all_applied m))"
    by (rule t_save) (auto simp: saved_None stable_evidence_def)
  have 3: "tripleS (inP (\<lambda>m. ?B m \<and> all_applied m)) (effectS n z ''restore_units'' ''dell'' ''restore_units'' rq)
      (inP (\<lambda>m. (?B m \<and> all_applied m) \<and> ''restore_units'' \<in> applied_names (m_effects m)))" for rq
    by (rule t_effect) (auto simp: steady_def effect_free_def stable_evidence_def)
  have 4: "tripleS (inP (\<lambda>m. (?B m \<and> all_applied m) \<and> ''restore_units'' \<in> applied_names (m_effects m)))
      (setS (\<lambda>m. m\<lparr>m_completed_at := Some t'\<rparr>)) (inP (\<lambda>m. (?B m \<and> all_applied m) \<and> ''restore_units'' \<in> applied_names (m_effects m)))" for t'
    by (rule t_set_keep) (auto simp: sess_ok_def all_applied_def stable_evidence_def)
  have 5: "tripleS (inP (\<lambda>m. (?B m \<and> all_applied m) \<and> ''restore_units'' \<in> applied_names (m_effects m))) (save n (Some ''NORMAL''))
      (\<lambda>s. inP (return_proven n z) s \<and> x_disk s = x_session s)"
    by (rule t_save_disk) (auto simp: saved_None return_proven_def stable_evidence_def released_def)
  have tail: "tripleS (inP ?A) (bindS (callS (n_sleep n (z_interval z))) (\<lambda>_.
     bindS (verification_sample n z) (\<lambda>d.
     bindS (requireS (d \<ge> z_stable_seconds z) (ValueError ''live_stability_not_yet_confirmed'')) (\<lambda>_.
     bindS (clockS n) (\<lambda>t. bindS (setS (\<lambda>m. m\<lparr>m_live_confirmed_at := Some t\<rparr>)) (\<lambda>_.
     bindS (save n (Some ''RESTORING'')) (\<lambda>_. bindS (sessS m_before) (\<lambda>before.
     bindS (liftS (dig before [''dell'', ''units''])) (\<lambda>units. bindS (liftS (dig before [''dell'', ''ledger''])) (\<lambda>ledger.
     bindS (effectS n z ''restore_units'' ''dell'' ''restore_units'' [(''restore'', units), (''ledger'', ledger)]) (\<lambda>_.
     bindS (clockS n) (\<lambda>t. bindS (setS (\<lambda>m. m\<lparr>m_completed_at := Some t\<rparr>)) (\<lambda>_.
     save n (Some ''NORMAL'')))))))))))))) (\<lambda>s. inP (return_proven n z) s \<and> x_disk s = x_session s)"
    by (rule t_bind [OF k_pure(1)], rule t_stable_sample [OF A])
       (rule t_bind [OF k_pure(2)] tripleS_bind [OF 1] tripleS_bind [OF 2] t_bind [OF k_pure(3)]
         t_bind [OF keepsS_intros(3)] tripleS_bind [OF 3] tripleS_bind [OF 4] 5)+
  show ?thesis unfolding completeS_def
    by (rule tripleS_bind [OF t_need_phase], rule t_bind [OF keepsS_intros(5)], rule tripleS_bind [OF t_no_unknown],
        rule t_in [OF tail]) auto
qed

lemma t_off:
  "tripleS (inP (\<lambda>m. m_phase m \<noteq> ''NORMAL'')) (offS k n z) (\<lambda>s. inP (return_proven n z) s \<and> x_disk s = x_session s)"
  "safeS (offS k n z)"
proof -
  let ?R = "\<lambda>s. inP (return_proven n z) s \<and> x_disk s = x_session s"
  have rest: "tripleS (inP (\<lambda>_. True)) (return_stages k n z p) ?R" for p
    unfolding return_stages_def
    by (rule tripleS_bind [OF tripleS_if [OF t_resume t_keep [OF keepsS_intros(5)]]], rule tripleS_bind [OF t_verify],
        rule t_bind [OF k_confirmed], rule t_complete)
  have rest': "tripleS (inP (\<lambda>_. True)) (return_stages k n z p) (inP (\<lambda>_. True))" for p
    by (rule tripleS_weaken [OF rest]) (auto simp: inP_def)
  show "tripleS (inP (\<lambda>m. m_phase m \<noteq> ''NORMAL'')) (offS k n z) ?R"
    using rest unfolding offS_def no_unknown_def tripleS_def wp_simps inP_def by simp
  show "safeS (offS k n z)"
    using rest' unfolding offS_def no_unknown_def tripleS_def wp_simps inP_def by simp
qed

lemma sess_ok_apply:
  assumes "sess_ok m" "i < length (m_effects m)" "e_name e = e_name (m_effects m ! i)" "e_result e = APPLIED"
  shows "sess_ok (m\<lparr>m_effects := (m_effects m)[i := e]\<rparr>)"
proof -
  let ?es = "m_effects m" and ?es' = "(m_effects m)[i := e]"
  have names: "map e_name ?es' = map e_name ?es"
    using assms(2,3) by (metis list_update_id map_update nth_map)
  have "x \<in> insert e (set (butlast ?es))" if "x \<in> set (butlast ?es')" for x
    using that set_update_subset_insert [of "butlast ?es" i e] by (auto simp: butlast_list_update split: if_splits)
  then have unres: "\<forall>x \<in> set (butlast ?es'). e_result x = APPLIED"
    using assms(1,4) by (auto simp: sess_ok_def)
  have all: "all_applied m \<Longrightarrow> all_applied (m\<lparr>m_effects := ?es'\<rparr>)"
    using set_update_subset_insert [of ?es i e] assms(4) by (auto simp: all_applied_def)
  have "a \<in> applied_names ?es'" if "all_applied m" "a \<in> applied_names ?es" for a
  proof -
    from that(2) have "a \<in> set (map e_name ?es')" unfolding names by (auto simp: applied_names_def)
    with all [OF that(1)] show ?thesis by (auto simp: applied_names_def all_applied_def)
  qed
  with all assms(1) names unres show ?thesis by (auto simp: sess_ok_def released_def simp del: map_update)
qed

lemma k_reconcile: "keepsS (inP (\<lambda>_. True)) (reconcile_from n sample is)"
proof (induction "is")
  case Nil
  show ?case by (simp only: reconcile_from.simps keepsS_intros)
next
  case (Cons i "is")
  have upd: "inP (\<lambda>_. True) (s\<lparr>x_session := (x_session s)\<lparr>m_effects := (m_effects (x_session s))[i := e]\<rparr>\<rparr>)"
    if "inP (\<lambda>_. True) s" "i < length (m_effects (x_session s))" "e_name e = e_name (m_effects (x_session s) ! i)"
      "e_result e = APPLIED" for s :: "'a mstate" and e
  proof -
    let ?es = "m_effects (x_session s)"
    have "map e_name (?es[i := e]) = map e_name ?es" using that(2,3) by (metis list_update_id map_update nth_map)
    then have "e_name ` set (?es[i := e]) = e_name ` set ?es" by (metis list.set_map)
    with that sess_ok_apply show ?thesis by (auto simp: inP_def minv_def covers_def)
  qed
  have one: "wpS (bindS (mustS [applied (es ! i) sample] ''outcome_unknown_keep_inhibition_no_retry'') (\<lambda>_.
                 bindS (setS (\<lambda>m. m\<lparr>m_effects := (m_effects m)[i := (es ! i)\<lparr>e_result := APPLIED\<rparr>]\<rparr>)) (\<lambda>_.
                 bindS (clockS n) (\<lambda>t.
                 setS (\<lambda>m. m\<lparr>m_effects := (m_effects m)[i := (es ! i)\<lparr>e_result := APPLIED, e_reconciled_at := Some t\<rparr>]\<rparr>)))))
      (\<lambda>_. inP (\<lambda>_. True)) (\<lambda>_. inP (\<lambda>_. True)) s"
    if s: "inP (\<lambda>_. True) s" "es = m_effects (x_session s)" "i < length es" for s :: "'a mstate" and es
  proof -
    have "inP (\<lambda>_. True) (s\<lparr>x_session := (x_session s)\<lparr>m_effects := es[i := (es ! i)\<lparr>e_result := APPLIED, e_reconciled_at := t\<rparr>]\<rparr>\<rparr>)" for t
      using upd [OF s(1)] s(2,3) by simp
    then have "inP (\<lambda>_. True) (s\<lparr>x_world := w, x_session := (x_session s)\<lparr>m_effects := es[i := (es ! i)\<lparr>e_result := APPLIED, e_reconciled_at := t\<rparr>]\<rparr>\<rparr>)" for t w
      by (simp add: inP_def minv_def)
    then show ?thesis using s by (simp add: wp_simps split: sum.splits prod.splits)
  qed
  show ?case unfolding keepsS_wp
  proof (intro allI impI)
    fix s :: "'a mstate"
    assume s: "inP (\<lambda>_. True) s"
    let ?es = "m_effects (x_session s)"
    have "wpS (if i < length ?es \<and> e_result (?es ! i) \<noteq> APPLIED
            then bindS (mustS [applied (?es ! i) sample] ''outcome_unknown_keep_inhibition_no_retry'') (\<lambda>_.
                 bindS (setS (\<lambda>m. m\<lparr>m_effects := (m_effects m)[i := (?es ! i)\<lparr>e_result := APPLIED\<rparr>]\<rparr>)) (\<lambda>_.
                 bindS (clockS n) (\<lambda>t.
                 setS (\<lambda>m. m\<lparr>m_effects := (m_effects m)[i := (?es ! i)\<lparr>e_result := APPLIED, e_reconciled_at := Some t\<rparr>]\<rparr>))))
            else retS ()) (\<lambda>_. inP (\<lambda>_. True)) (\<lambda>_. inP (\<lambda>_. True)) s"
      using one [OF s refl] s by (simp add: wpS_ret)
    then show "wpS (reconcile_from n sample (i # is)) (\<lambda>_. inP (\<lambda>_. True)) (\<lambda>_. inP (\<lambda>_. True)) s"
      unfolding reconcile_from.simps wpS_bind [of "sessS _"] wp_sess
      by (rule wp_bindI) (rule k_use [OF Cons.IH])
  qed
qed

lemma t_reconcile: "safeS (reconcileS n z)"
  unfolding reconcileS_def
  by (rule t_bind [OF k_snapshot], rule t_bind [OF k_pure(3)], rule t_bind [OF k_reconcile], rule t_keep, rule k_save_any)


lemma run_command_safe: "safeS (run_command k n z c)"
proof (cases c)
  case (Complete y t d)
  have "safeS (completeS n z y t d)" by (rule tripleS_weaken [OF t_complete]) (auto simp: inP_def)
  with Complete show ?thesis by simp
next
  case Preflight
  have "safeS (bindS (preflight n z) (\<lambda>_. retS ()))" by (rule t_bind [OF k_preflight], rule t_keep, rule keepsS_intros)
  with Preflight show ?thesis by simp
qed (simp_all add: t_begin t_advance t_confirm_slate t_resume t_verify t_reconcile t_check t_on t_off)

lemma process_minv: "minv s \<Longrightarrow> minv (snd (process k n z s c))"
proof -
  assume "minv s"
  then have "inP (\<lambda>_. True) (s\<lparr>x_session := x_disk s\<rparr>)" by (simp add: inP_def minv_def)
  with run_command_safe [of k n z c]
  have "wpS (run_command k n z c) (\<lambda>_. inP (\<lambda>_. True)) (\<lambda>_. minv) (s\<lparr>x_session := x_disk s\<rparr>)"
    unfolding tripleS_def by blast
  then show "minv (snd (process k n z s c))"
    by (auto simp: process_def wpS_def inP_def split: prod.splits sum.splits)
qed

section \<open>Only a proven return releases the inhibition\<close>

text \<open>Neither the session in memory nor the one on disk is released.\<close>

definition withheld :: "'w mstate \<Rightarrow> bool" where
  "withheld s \<longleftrightarrow> m_phase (x_session s) \<noteq> ''NORMAL'' \<and> m_phase (x_disk s) \<noteq> ''NORMAL''"

interpretation hld: world_blind withheld
  by unfold_locales (simp add: withheld_def)

lemmas h_observe = hld.keep_pure hld.keep_snapshot hld.keep_progress hld.keep_wait keepsS_intros

lemma h_save: "ph \<noteq> Some ''NORMAL'' \<Longrightarrow> keepsS withheld (save n ph)"
  unfolding keepsS_wp by (intro allI impI wp_save) (auto simp: withheld_def saved_None split: option.splits)

lemma h_set: "(\<And>m. m_phase m \<noteq> ''NORMAL'' \<Longrightarrow> m_phase (f m) \<noteq> ''NORMAL'') \<Longrightarrow> keepsS withheld (setS f)"
  by (simp add: keepsS_wp wp_simps withheld_def)

lemma h_no_unknown: "keepsS withheld no_unknown"
  unfolding no_unknown_def by (intro keepsS_bind h_observe)

lemma h_need_phase: "keepsS withheld (need_phase ps r)"
  unfolding need_phase_def by (intro keepsS_bind h_observe)

lemma h_perform: "keepsS withheld (perform n z e current)"
proof -
  have "keepsS withheld (requestS n e boot)" for boot
    unfolding requestS_def by (intro keepsS_bind h_observe keepsS_mod) (simp add: withheld_def)
  then show ?thesis unfolding perform_def mark_unknown_def
    by (intro keepsS_catch keepsS_bind h_observe h_save h_set) (auto simp: set_last_def)
qed

lemma h_effect: "keepsS withheld (effectS n z name role action request)"
proof -
  have "keepsS withheld (case r of Some previous \<Rightarrow> requireS (e_result previous = APPLIED) (ValueError ''reconcile_pending_effect_first'')
     | None \<Rightarrow> bindS no_unknown (\<lambda>_. bindS (snapshot n z False) (\<lambda>current. bindS (clockS n) (\<lambda>t.
         let e = \<lparr>e_name = name, e_role = role, e_action = action, e_request = request, e_result = PENDING,
                  e_at = t, e_reconciled_at = None\<rparr> in
         bindS (setS (\<lambda>m. m\<lparr>m_effects := m_effects m @ [e]\<rparr>)) (\<lambda>_.
         bindS (save n None) (\<lambda>_. perform n z e current))))))" for r
    by (cases r) (simp_all only: option.case Let_def,
        intro keepsS_bind h_no_unknown h_observe h_set h_save h_perform, simp_all add: keepsS_intros)
  then show ?thesis unfolding effectS_def by (intro keepsS_bind h_observe)
qed

lemmas h_steps = h_observe h_no_unknown h_need_phase h_effect keepsS_bind keepsS_if

lemma h_advance: "keepsS withheld (advanceS k n z)"
  unfolding advanceS_def by (intro h_steps h_save) simp

lemma h_begin: "keepsS withheld (beginS k n z minutes reason)"
proof -
  have "keepsS withheld (preflight n z)" unfolding preflight_def by (intro keepsS_bind h_observe)
  moreover have "keepsS withheld (case sid of None \<Rightarrow> retS () | Some i \<Rightarrow> if i = [] then retS () else callS (n_archive n i))" for sid
    by (cases sid) (simp_all only: option.case keepsS_intros, intro keepsS_if h_observe)
  ultimately show ?thesis unfolding beginS_def
    by (intro h_steps h_set h_save h_advance) simp_all
qed

lemma h_resume: "keepsS withheld (resumeS k n z)"
  unfolding resumeS_def by (intro h_steps h_set h_save) simp_all

lemma h_verification: "keepsS withheld (verification_sample n z)"
proof -
  have "keepsS withheld (case m_stability m of Some (since, _) \<Rightarrow> retS since | None \<Rightarrow> clockS n)" for m
    by (cases "m_stability m") (auto simp: keepsS_intros hld.keep_pure split: prod.splits)
  then show ?thesis unfolding verification_sample_def
    by (intro h_steps keepsS_catch h_set h_save) simp_all
qed

lemma h_verify: "keepsS withheld (verifyS k n z)"
proof -
  have "keepsS withheld (verify_loop k n z deadline)" for deadline
  proof (induction k)
    case (Suc k)
    show ?case unfolding verify_loop.simps by (intro h_steps keepsS_catch h_verification Suc)
  qed (simp only: verify_loop.simps keepsS_intros)
  then show ?thesis unfolding verifyS_def by (intro h_steps)
qed

lemma h_check: "keepsS withheld (checkS k n z)"
  unfolding checkS_def by (intro h_steps)

lemma h_confirm_slate: "keepsS withheld (confirm_slate k n z y t)"
  unfolding confirm_slate_def before_deadline_def by (intro h_steps h_set h_save) simp_all

lemma h_on: "keepsS withheld (onS k n z minutes reason)"
  unfolding onS_def before_deadline_def confirmed_def by (intro h_steps h_begin h_advance h_check h_confirm_slate)

lemma h_reconcile: "keepsS withheld (reconcileS n z)"
proof -
  have "keepsS withheld (reconcile_from n sample is)" for sample "is"
  proof (induction "is")
    case (Cons i "is")
    show ?case unfolding reconcile_from.simps by (intro h_steps h_set Cons) simp_all
  qed (simp only: reconcile_from.simps keepsS_intros)
  then show ?thesis unfolding reconcileS_def by (intro h_steps h_save) simp_all
qed

text \<open>A raising completion has not released the session on disk.\<close>

abbreviation unreleased :: "('w mstate, 'a) act \<Rightarrow> 'w mstate \<Rightarrow> bool" where
  "unreleased m \<equiv> wpS m (\<lambda>_ _. True) (\<lambda>_ u. m_phase (x_disk u) \<noteq> ''NORMAL'')"

lemma h_step:
  assumes "keepsS withheld m" "\<And>x u. withheld u \<Longrightarrow> unreleased (f x) u" "withheld u"
  shows "unreleased (bindS m f) u"
  unfolding wpS_bind by (rule k_use [OF assms(1,3) assms(2)]) (simp_all add: withheld_def)

lemma h_complete: "withheld s \<Longrightarrow> unreleased (completeS n z y t d) s"
proof -
  assume s: "withheld s"
  have last: "unreleased (save n (Some ''NORMAL'')) u" if "withheld u" for u :: "'a mstate"
    by (rule wp_save) (use that in \<open>simp_all add: withheld_def\<close>)
  show ?thesis unfolding completeS_def
    by (rule h_step [OF _ _ s], rule h_steps)
       (rule last h_step, (rule h_steps h_verification h_set h_save, simp?)?)+
qed

lemma h_off:
  assumes "withheld s"
  shows "unreleased (offS k n z) s"
proof -
  have "keepsS withheld (confirmed n r)" for r unfolding confirmed_def by (intro h_steps)
  then have "unreleased (return_stages k n z p) s" for p
    unfolding return_stages_def
    by (intro h_step [OF _ _ assms] h_step h_verify h_complete keepsS_if h_resume keepsS_intros)
  then show ?thesis using assms by (auto simp: offS_def no_unknown_def wp_simps withheld_def)
qed


section \<open>Histories of commands\<close>

definition fresh_store :: "'w mstate \<Rightarrow> bool" where
  "fresh_store s \<longleftrightarrow> x_session s = session_initial \<and> x_disk s = session_initial \<and> x_sent s = []"

definition command_step :: "nat \<Rightarrow> 'w env \<Rightarrow> mconf \<Rightarrow> 'w mstate \<Rightarrow> 'w mstate \<Rightarrow> bool" where
  "command_step k n z s t \<longleftrightarrow> (\<exists>c. t = snd (process k n z s c))"

interpretation mnt: invariant_system fresh_store "command_step k n z" minv for k n z
proof unfold_locales
  show "minv s" if "fresh_store s" for s :: "'a mstate"
    using that by (simp add: fresh_store_def minv_def sess_ok_def covers_def sent_ok_def session_initial_def released_def)
  show "minv t" if "minv s" "command_step k n z s t" for s t :: "'a mstate"
    using that(2) process_minv [OF that(1)] unfolding command_step_def by blast
qed


section \<open>A concrete return\<close>

definition ex_flow :: "int \<Rightarrow> py" where
  "ex_flow b = PDict [(''schema'', PStr ''stream_v3.youtube_forward.v1''), (''boot_id'', PStr ''b''),
     (''destination_fingerprint'', PStr ''d''), (''state'', PStr ''FLOWING''), (''updated_at'', PStr ''t''),
     (''last_progress_at'', PStr ''t''), (''pid'', PInt 1), (''session'', PInt 1), (''output_bytes'', PInt b),
     (''video_packets'', PInt b), (''audio_packets'', PInt b)]"

definition ex_snap :: "int \<Rightarrow> py" where
  "ex_snap b = PDict
     [(''dell'', PDict [(''identity'', PDict [(''machine'', PStr ''1''), (''boot'', PStr ''b'')]), (''observed_at'', PInt b),
        (''backup'', PDict [(''replicas'', PInt 0), (''active_pods'', PInt 0), (''uid'', PStr ''u'')]),
        (''main'', PDict [(''replicas'', PInt 1), (''active_pods'', PInt 1), (''ready_pods'', PInt 1), (''uid'', PStr ''v'')]),
        (''ledger'', PDict [(''unresolved'', PInt 0), (''producer_id'', PStr ''independent-controller'')]),
        (''units'', PDict [])]),
      (''oci'', PDict [(''identity'', PDict [(''machine'', PStr ''2''), (''boot'', PStr ''b'')]), (''observed_at'', PInt b),
        (''config_fingerprint'', PStr ''c''), (''path_fields'', PDict []), (''content'', PStr ''LIVE''), (''input_id'', PStr ''i''),
        (''tracks'', PList [PStr ''H264'', PStr ''MPEG-4 Audio'']),
        (''twitch'', PDict [(''id'', PStr ''w''), (''state'', PStr ''forwarding''), (''error'', PBool False), (''bytes'', PInt b)]),
        (''copy'', ex_flow b)])]"

definition ex_env :: "unit env" where
  "ex_env = \<lparr>n_clock = (\<lambda>w. (400, w)), n_sleep = (\<lambda>d w. (Inr (), w)), n_snapshot = (\<lambda>p w. (Inr (ex_snap 400), w)),
     n_request = (\<lambda>r a q w. (Inr PNone, w)), n_write = (\<lambda>w. (Inr (), w)), n_archive = (\<lambda>i w. (Inr (), w)),
     n_uuid = (\<lambda>w. (''id'', w)), n_confirm = (\<lambda>w. (Inr True, w))\<rparr>"

definition ex_conf :: mconf where
  "ex_conf = \<lparr>z_config = PDict [(''dell_machine_sha256'', PStr ''1''), (''oci_machine_sha256'', PStr ''2''),
       (''youtube_destination_sha256'', PStr ''d'')], z_root = ''/r'', z_interval = 2, z_stable_seconds = 300,
     z_fingerprint = (\<lambda>_. ''f''), z_fromiso = (\<lambda>_. Some (True, 400))\<rparr>"

definition ex_session :: session where
  "ex_session = session_initial\<lparr>m_phase := ''RESTORING'', m_session_id := Some ''s'', m_generation := 1, m_config_sha := ''f'',
     m_before := ex_snap 1, m_stability := Some (50, ex_snap 390),
     m_effects := [\<lparr>e_name = ''restore_units'', e_role = ''dell'', e_action = ''restore_units'', e_request = [],
       e_result = APPLIED, e_at = 0, e_reconciled_at = None\<rparr>]\<rparr>"

definition ex_state :: "unit mstate" where
  "ex_state = \<lparr>x_session = ex_session, x_disk = ex_session, x_sent = [], x_world = ()\<rparr>"

lemma ex_bound:
  assumes "m_phase (x_session s) = ''RESTORING''" "m_config_sha (x_session s) = ''f''" "m_before (x_session s) = ex_snap 1"
  shows "snapshot ex_env ex_conf False s = (Inr (ex_snap 400), s)"
  using assms
  by (simp add: snapshot_def bound_def bound_host_def bound_session_def bindS_def callS_def clockS_def mustS_def liftS_def sessS_def
      getS_def retS_def checkE_def ex_env_def ex_conf_def ex_snap_def ex_flow_def at_path_def same_at_def age_within_def
      digest_of_def)

lemma ex_progress: "progress ex_env ex_conf (ex_snap 400) ''LIVE'' (Some (ex_snap 390)) s = (Inr (), s)"
  by (simp add: progress_def flow_checks_def advance_checks_def content_checks_def twitch_flowing_def bindS_def clockS_def callS_def
      mustS_def liftS_def sessS_def getS_def retS_def checkE_def ex_env_def ex_conf_def ex_snap_def ex_flow_def at_path_def
      same_at_def recent_def epoch_def str_in_def positive_int_def int_gt_def gap_within_def PROGRESS_MAX_GAP_def py_get_def)

lemma ex_save:
  "save ex_env ph s = (Inr (), s\<lparr>x_session := (x_session s)\<lparr>m_history := (case ph of None \<Rightarrow> m_history (x_session s)
       | Some p \<Rightarrow> if m_phase (x_session s) = p then m_history (x_session s) else m_history (x_session s) @ [(400, p)]),
      m_phase := (case ph of None \<Rightarrow> m_phase (x_session s) | Some p \<Rightarrow> p), m_updated_at := Some 400\<rparr>,
     x_disk := (x_session s)\<lparr>m_history := (case ph of None \<Rightarrow> m_history (x_session s)
       | Some p \<Rightarrow> if m_phase (x_session s) = p then m_history (x_session s) else m_history (x_session s) @ [(400, p)]),
      m_phase := (case ph of None \<Rightarrow> m_phase (x_session s) | Some p \<Rightarrow> p), m_updated_at := Some 400\<rparr>\<rparr>)"
  by (cases ph) (simp_all add: save_def bindS_def sessS_def getS_def retS_def clockS_def callS_def setS_def modS_def ex_env_def)

lemma ex_fields:
  "n_clock ex_env w = (400, w)" "n_sleep ex_env d w = (Inr (), w)" "z_stable_seconds ex_conf = 300"
  "same_at (ex_snap 400) [''oci'', ''path_fields''] (ex_snap 1) [''oci'', ''path_fields''] = Inr True"
  "dig (ex_snap b) [''dell'', ''units''] = Inr (PDict [])"
  "dig (ex_snap b) [''dell'', ''ledger''] = Inr (PDict [(''unresolved'', PInt 0), (''producer_id'', PStr ''independent-controller'')])"
  by (simp_all add: ex_env_def ex_conf_def ex_snap_def same_at_def)

lemma ex_complete:
  "\<exists>t. process 0 ex_env ex_conf ex_state (Complete True True True) = (Done False, t) \<and> m_phase (x_disk t) = ''NORMAL''"
  by (simp add: process_def ex_state_def ex_session_def session_initial_def safe_command_def completeS_def need_phase_def no_unknown_def
      verification_sample_def effectS_def bindS_def catchS_def sessS_def setS_def modS_def getS_def retS_def liftS_def mustS_def
      requireS_def checkE_def all_applied_def clockS_def callS_def ex_bound ex_progress ex_save ex_fields del: dig.simps)


definition ex_fresh :: "unit mstate" where
  "ex_fresh = \<lparr>x_session = session_initial, x_disk = session_initial, x_sent = [], x_world = ()\<rparr>"



section \<open>What the other components see\<close>

text \<open>The document \<open>Store.write\<close> puts on disk.\<close>

definition result_name :: "eresult \<Rightarrow> string" where
  "result_name r = (case r of PENDING \<Rightarrow> ''PENDING'' | APPLIED \<Rightarrow> ''APPLIED'' | OUTCOME_UNKNOWN \<Rightarrow> ''OUTCOME_UNKNOWN'')"

definition secs :: "seconds \<Rightarrow> py" where "secs t = PFloat (Fin t)"

definition effect_py :: "effect \<Rightarrow> py" where
  "effect_py e = PDict ([(''name'', PStr (e_name e)), (''role'', PStr (e_role e)), (''action'', PStr (e_action e)),
     (''request'', PDict (e_request e)), (''result'', PStr (result_name (e_result e))), (''attempt'', PInt 1), (''at'', secs (e_at e))]
     @ (case e_reconciled_at e of None \<Rightarrow> [] | Some t \<Rightarrow> [(''reconciled_at'', secs t)]))"

definition session_py :: "session \<Rightarrow> py" where
  "session_py m = PDict ([(''schema'', PStr SESSION_SCHEMA), (''phase'', PStr (m_phase m)),
     (''session_id'', case m_session_id m of None \<Rightarrow> PNone | Some i \<Rightarrow> PStr i), (''generation'', PInt (m_generation m)),
     (''effects'', PList (map effect_py (m_effects m))),
     (''history'', PList (map (\<lambda>(t, p). PDict [(''at'', secs t), (''phase'', PStr p)]) (m_history m)))]
     @ (if m_session_id m = None then []
        else [(''deadline'', secs (m_deadline m)), (''reason'', PStr (m_reason m)), (''config_sha256'', PStr (m_config_sha m)),
          (''before'', m_before m), (''armed_fields'', m_armed_fields m),
          (''stability'', case m_stability m of None \<Rightarrow> PNone
             | Some (t, v) \<Rightarrow> PDict [(''since'', secs t), (''sample'', v)])]))"

text \<open>the stored session controls the automation. Whatever session the tool has stored, the
  guard that the fallback controller reads from the same file inhibits it exactly when the phase is
  not NORMAL; together with the previous property, automatic switching is inhibited from the first
  write of a session until its proven return.\<close>

theorem guard_follows_session:
  "g_inhibited (guard (Directory 493 uid) (trusted_file uid (session_py m)) uid now) \<longleftrightarrow> m_phase m \<noteq> ''NORMAL''"
proof (cases "m_phase m = ''NORMAL''")
  case True
  then show ?thesis
    by (simp add: guard_def trusted_file_def read_json_def guard_value_def session_py_def SESSION_SCHEMA_def PHASES_def py_get_def)
next
  case False
  have "\<exists>xs. session_py m = PDict xs \<and> map_of xs ''phase'' = Some (PStr (m_phase m))" by (simp add: session_py_def)
  then have "g_inhibited g" if "guard_value (session_py m) now = Inr g" for g
    using guard_value_normal [OF that] False by (cases "g_inhibited g") auto
  then show ?thesis using False
    by (auto simp: guard_def trusted_file_def read_json_def guard_invalid_def split: sum.splits)
qed

end
