(* ===== verification/Cra_Binding.thy ===== *)
theory Cra_Binding
  imports Py_Prelude
begin

text \<open>
  \<open>recovery-control/src/cra/runtime_binding.py\<close>: the evidence contract between the runtime and the
  recovery agent. A delivery transport is named by an exact set of fields; a socket sample is
  evidence only when it is the single matching socket and still belongs to the process; a restart
  is linked to its successor only through the exact exit event it caused.

  \<open>ip\<close> is \<open>str(ipaddress.ip_address(text))\<close>, nothing for a ValueError. What \<open>/proc\<close> and \<open>ss\<close> answer
  is an input of \<open>collect_transport\<close>.
\<close>

section \<open>Transport bindings\<close>

definition TRANSPORT_SCHEMA :: string where "TRANSPORT_SCHEMA = ''runtime.delivery_transport.v1''"
definition SUCCESSOR_SCHEMA :: string where "SUCCESSOR_SCHEMA = ''runtime.recovery_successor.v1''"

definition BINDING_FIELDS :: "string list" where
  "BINDING_FIELDS = [''schema'', ''executor_instance_id'', ''pod_uid'', ''generation'', ''pid'', ''start_ticks'',
     ''socket_inode'', ''local_host'', ''local_port'', ''peer_host'', ''peer_port'', ''route'', ''route_generation'']"

definition int_of :: "py \<Rightarrow> int" where
  "int_of v = (case v of PInt n \<Rightarrow> n | _ \<Rightarrow> 0)"

definition hashable :: "py \<Rightarrow> bool" where
  "hashable v = (case v of PList _ \<Rightarrow> False | PDict _ \<Rightarrow> False | _ \<Rightarrow> True)"

definition canonical_ip :: "(string \<Rightarrow> string option) \<Rightarrow> py \<Rightarrow> bool" where
  "canonical_ip ip v = (case v of PStr s \<Rightarrow> ip s = Some s | _ \<Rightarrow> False)"

definition validate_transport :: "(string \<Rightarrow> string option) \<Rightarrow> py \<Rightarrow> (string \<times> py) list res" where
  "validate_transport ip v = (case v of
       PDict xs \<Rightarrow>
         bindE (requireE (set (map fst xs) = set BINDING_FIELDS \<and> dget xs ''schema'' = PStr TRANSPORT_SCHEMA)
                  (ValueError ''TRANSPORT_NOT_EXACT'')) (\<lambda>_.
         bindE (requireE (hashable (dget xs ''route'')) TypeError) (\<lambda>_.
         bindE (requireE (dget xs ''route'' \<in> {PStr ''PRIMARY'', PStr ''FALLBACK''}) (ValueError ''TRANSPORT_ROUTE_INVALID'')) (\<lambda>_.
         bindE (requireE (\<forall>k \<in> set [''executor_instance_id'', ''pod_uid'', ''generation'']. is_str (dget xs k) \<and> py_truthy (dget xs k))
                  (ValueError ''TRANSPORT_IDENTITY_MISSING'')) (\<lambda>_.
         bindE (requireE (\<forall>k \<in> set [''pid'', ''start_ticks'', ''socket_inode'', ''local_port'', ''peer_port'', ''route_generation''].
                            is_int (dget xs k) \<and> int_of (dget xs k) > 0) (ValueError ''TRANSPORT_INTEGER_INVALID'')) (\<lambda>_.
         bindE (requireE (int_of (dget xs ''pid'') > 1 \<and>
                          max (int_of (dget xs ''peer_port'')) (int_of (dget xs ''local_port'')) \<le> 65535)
                  (ValueError ''TRANSPORT_ENDPOINT_INVALID'')) (\<lambda>_.
         bindE (requireE (\<forall>k \<in> set [''local_host'', ''peer_host'']. canonical_ip ip (dget xs k))
                  (ValueError ''TRANSPORT_ADDRESS_NOT_CANONICAL'')) (\<lambda>_. Inr xs)))))))
     | _ \<Rightarrow> Inl (ValueError ''TRANSPORT_NOT_EXACT''))"

section \<open>Reading ss\<close>

text \<open>Latin-1 word characters, line ends and digits, as \<open>re\<close> and \<open>str\<close> classify them.\<close>

definition word_char :: "char \<Rightarrow> bool" where
  "word_char c = (let n = (of_char c :: nat) in
     48 \<le> n \<and> n \<le> 57 \<or> 65 \<le> n \<and> n \<le> 90 \<or> n = 95 \<or> 97 \<le> n \<and> n \<le> 122 \<or> n \<in> {170, 178, 179, 181, 185, 186, 188, 189, 190} \<or>
     192 \<le> n \<and> n \<noteq> 215 \<and> n \<noteq> 247)"

definition isdigit :: "string \<Rightarrow> bool" where
  "isdigit s \<longleftrightarrow> s \<noteq> [] \<and> list_all (\<lambda>c. digit_val c \<noteq> None \<or> (of_char c :: nat) \<in> {178, 179, 185}) s"

definition line_end :: "char \<Rightarrow> bool" where
  "line_end c \<longleftrightarrow> (of_char c :: nat) \<in> {10, 11, 12, 13, 28, 29, 30, 133}"

fun splitlines :: "string \<Rightarrow> string \<Rightarrow> string list" where
  "splitlines acc [] = (if acc = [] then [] else [rev acc])"
| "splitlines acc (c # cs) =
     (if line_end c
      then rev acc # (case cs of d # ds \<Rightarrow> if c = CHR 0x0D \<and> d = CHR 0x0A then splitlines [] ds else splitlines [] cs
                               | [] \<Rightarrow> splitlines [] cs)
      else splitlines (c # acc) cs)"

fun split_space :: "string \<Rightarrow> string \<Rightarrow> string list" where
  "split_space acc [] = (if acc = [] then [] else [rev acc])"
| "split_space acc (c # cs) =
     (if is_space c then (if acc = [] then split_space [] cs else rev acc # split_space [] cs) else split_space (c # acc) cs)"

text \<open>\<open>rpartition(":")\<close>: the text before and after the last colon.\<close>

fun rpartition_colon :: "string \<Rightarrow> (string \<times> string) option" where
  "rpartition_colon [] = None"
| "rpartition_colon (c # cs) = (case rpartition_colon cs of
     Some (a, b) \<Rightarrow> Some (c # a, b) | None \<Rightarrow> if c = CHR '':'' then Some ([], cs) else None)"

definition strip_brackets :: "string \<Rightarrow> string" where
  "strip_brackets s = (let p = (\<lambda>c. c = CHR ''['' \<or> c = CHR '']'') in rev (dropWhile p (rev (dropWhile p s))))"

definition endpoint_text :: "(string \<Rightarrow> string option) \<Rightarrow> string \<Rightarrow> (string \<times> int) res" where
  "endpoint_text ip t =
     (let (host, port) = (case rpartition_colon t of None \<Rightarrow> ([], t) | Some hp \<Rightarrow> hp) in
      bindE (case ip (strip_brackets host) of None \<Rightarrow> Inl (ValueError ''address'') | Some a \<Rightarrow> Inr a) (\<lambda>a.
      bindE (py_int (PStr port)) (\<lambda>n. Inr (a, n))))"

definition digits_value :: "string \<Rightarrow> int" where
  "digits_value s = (case digits_to_int 0 (takeWhile (\<lambda>c. digit_val c \<noteq> None) s) of Some n \<Rightarrow> n | None \<Rightarrow> 0)"

text \<open>\<open>re.search(rf"\b{name}:(\d+)", text)\<close>; \<open>word\<close> says whether the previous character is a word character.\<close>

fun counter_from :: "bool \<Rightarrow> string \<Rightarrow> string \<Rightarrow> int" where
  "counter_from word name [] = 0"
| "counter_from word name (c # cs) =
     (let rest = drop (length name + 1) (c # cs) in
      if \<not> word \<and> starts_with (name @ '':'') (c # cs) \<and> rest \<noteq> [] \<and> digit_val (hd rest) \<noteq> None
      then digits_value rest else counter_from (word_char c) name cs)"

definition counter :: "string \<Rightarrow> string \<Rightarrow> int" where
  "counter text name = counter_from False name text"

record sock =
  so_local_host :: string
  so_local_port :: int
  so_peer_host :: string
  so_peer_port :: int
  so_inode :: int
  so_metrics :: "(string \<times> int) list"

definition metric_names :: "(string \<times> string) list" where
  "metric_names = [(''bytes_sent'', ''bytes_sent''), (''bytes_acked'', ''bytes_acked''), (''notsent'', ''notsent''),
     (''unacked'', ''unacked''), (''lastsnd_ms'', ''lastsnd''), (''rto_ms'', ''rto'')]"

text \<open>One line of \<open>ss\<close> with the detail line that follows it: no socket of ours, a socket, or the one ValueError nobody catches here.\<close>

definition socket_row :: "(string \<Rightarrow> string option) \<Rightarrow> int \<Rightarrow> int list \<Rightarrow> string \<Rightarrow> string \<Rightarrow> sock option res" where
  "socket_row ip pid ports line detail =
     (if \<not> contains ''ESTAB'' line \<or> \<not> contains (''pid='' @ int_str pid @ '','') line then Inr None
      else (let fs = split_space [] line in
        if length fs \<le> 4 then Inr None
        else (case bindE (endpoint_text ip (fs ! 3)) (\<lambda>l. bindE (endpoint_text ip (fs ! 4)) (\<lambda>p. Inr (l, p))) of
            Inl _ \<Rightarrow> Inr None
          | Inr ((local_host, local_port), (peer_host, peer_port)) \<Rightarrow>
              if peer_port \<notin> set ports then Inr None
              else bindE (if isdigit (fs ! 2) then py_int (PStr (fs ! 2)) else Inr 0) (\<lambda>send_q.
                Inr (Some \<lparr>so_local_host = local_host, so_local_port = local_port, so_peer_host = peer_host,
                  so_peer_port = peer_port, so_inode = counter (line @ '' '' @ detail) ''ino'',
                  so_metrics = map (\<lambda>(n, k). (n, counter detail k)) metric_names @ [(''send_q'', send_q)]\<rparr>)))))"

fun socket_rows :: "(string \<Rightarrow> string option) \<Rightarrow> int \<Rightarrow> int list \<Rightarrow> string list \<Rightarrow> sock list res" where
  "socket_rows ip pid ports [] = Inr []"
| "socket_rows ip pid ports (line # lines) =
     bindE (socket_row ip pid ports line (case lines of [] \<Rightarrow> [] | d # _ \<Rightarrow> d)) (\<lambda>r.
     bindE (socket_rows ip pid ports lines) (\<lambda>rs. Inr (case r of None \<Rightarrow> rs | Some x \<Rightarrow> x # rs)))"

definition parse_sockets :: "(string \<Rightarrow> string option) \<Rightarrow> string \<Rightarrow> int \<Rightarrow> int list \<Rightarrow> sock list res" where
  "parse_sockets ip text pid ports = socket_rows ip pid ports (splitlines [] text)"

section \<open>Collecting a transport sample\<close>

record tsample =
  ts_status :: string
  ts_binding :: "(string \<times> py) list option"
  ts_metrics :: "(string \<times> int) list"
  ts_legacy :: "(string \<times> int) list"
  ts_reason :: "string option"

text \<open>
  The host's answers, in the order they are asked for: the start ticks, the exit status and output of
  \<open>ss\<close>, the descriptors with the target of each link
  (nothing for an \<open>OSError\<close>), and the start ticks again.
\<close>

record host_answers =
  ha_start :: "int res"
  ha_ss :: "(int \<times> string) res"
  ha_fds :: "string option list res"
  ha_start_again :: "int res"

fun exn_name :: "exn \<Rightarrow> string" where
  "exn_name (ValueError s) = ''ValueError''"
| "exn_name TypeError = ''TypeError''"
| "exn_name IndexError = ''IndexError''"
| "exn_name OSError = ''OSError''"
| "exn_name FileNotFoundError = ''FileNotFoundError''"
| "exn_name PermissionError = ''PermissionError''"
| "exn_name BlockingIOError = ''BlockingIOError''"
| "exn_name SubprocessError = ''TimeoutExpired''"
| "exn_name UnicodeDecodeError = ''UnicodeDecodeError''"
| "exn_name e = ''Exception''"

definition transport_handled :: "exn \<Rightarrow> bool" where
  "transport_handled e \<longleftrightarrow> is_os_error e \<or> is_value_error e \<or> e \<in> {TypeError, IndexError, SubprocessError}"

definition socket_link :: "sock \<Rightarrow> string" where
  "socket_link so = ''socket:['' @ int_str (so_inode so) @ '']''"

definition binding_of :: "(string \<times> py) list \<Rightarrow> string \<Rightarrow> int \<Rightarrow> int \<Rightarrow> sock \<Rightarrow> py" where
  "binding_of process executor pid start so =
     PDict [(''schema'', PStr TRANSPORT_SCHEMA), (''executor_instance_id'', PStr executor),
       (''pod_uid'', dget process ''pod_uid''), (''generation'', dget process ''ffmpeg_generation''), (''pid'', PInt pid),
       (''start_ticks'', PInt start), (''route'', dget process ''delivery_route''),
       (''route_generation'', dget process ''delivery_route_generation''),
       (''local_host'', PStr (so_local_host so)), (''local_port'', PInt (so_local_port so)),
       (''peer_host'', PStr (so_peer_host so)), (''peer_port'', PInt (so_peer_port so)), (''socket_inode'', PInt (so_inode so))]"

definition sample_empty :: tsample where
  "sample_empty = \<lparr>ts_status = ''UNAVAILABLE'', ts_binding = None, ts_metrics = [], ts_legacy = [], ts_reason = None\<rparr>"

text \<open>The body of the \<open>try\<close>; an early \<open>return result\<close> is the end of the action.\<close>

definition collect_body ::
    "(string \<Rightarrow> string option) \<Rightarrow> host_answers \<Rightarrow> (string \<times> py) list \<Rightarrow> string \<Rightarrow> int \<Rightarrow> int list \<Rightarrow> (tsample, unit) act" where
  "collect_body ip h process executor pid ports =
     bindS (liftS (ha_start h)) (\<lambda>start.
     bindS (liftS (ha_ss h)) (\<lambda>(rc, out).
     if rc \<noteq> 0 then retS ()
     else bindS (liftS (parse_sockets ip out pid ports)) (\<lambda>socks.
     bindS (case socks of [] \<Rightarrow> retS () | so # _ \<Rightarrow> modS (\<lambda>r. r\<lparr>ts_legacy := so_metrics so\<rparr>)) (\<lambda>_.
     case socks of
       [so] \<Rightarrow>
         bindS (liftS (ha_fds h)) (\<lambda>fds.
         if length fds > 256 then modS (\<lambda>r. r\<lparr>ts_reason := Some ''FD_LIMIT''\<rparr>)
         else if Some (socket_link so) \<notin> set fds
         then modS (\<lambda>r. r\<lparr>ts_reason := Some ''SOCKET_OR_PROCESS_CHANGED''\<rparr>)
         else bindS (liftS (ha_start_again h)) (\<lambda>again.
           if start \<noteq> again then modS (\<lambda>r. r\<lparr>ts_reason := Some ''SOCKET_OR_PROCESS_CHANGED''\<rparr>)
           else bindS (liftS (validate_transport ip (binding_of process executor pid start so))) (\<lambda>b.
             modS (\<lambda>r. r\<lparr>ts_status := ''AVAILABLE'', ts_binding := Some b, ts_metrics := so_metrics so\<rparr>))))
     | _ \<Rightarrow> modS (\<lambda>r. r\<lparr>ts_status := if socks = [] then ''UNAVAILABLE'' else ''AMBIGUOUS''\<rparr>)))))"

definition collect_transport ::
    "(string \<Rightarrow> string option) \<Rightarrow> host_answers \<Rightarrow> (string \<times> py) list \<Rightarrow> string \<Rightarrow> int list \<Rightarrow> tsample res" where
  "collect_transport ip h process executor ports =
     bindE (py_int (py_or (dget process ''local_ffmpeg_pid'') (PInt 0))) (\<lambda>pid.
     if pid \<le> 1 then Inr sample_empty
     else (case catchS (collect_body ip h process executor pid ports)
              (\<lambda>e. if transport_handled e then modS (\<lambda>r. r\<lparr>ts_reason := Some (exn_name e)\<rparr>) else raiseS e) sample_empty of
         (Inl e, _) \<Rightarrow> Inl e | (Inr _, r) \<Rightarrow> Inr r))"

section \<open>Recovery links\<close>

text \<open>\<open>RecoveryLinks\<close>: the pending exit event and the link of the last start; the lock makes each operation atomic.\<close>

record links =
  lk_exit :: "(string \<times> py) list"
  lk_link :: "(string \<times> py) list option"

definition links_init :: links where
  "links_init = \<lparr>lk_exit = [], lk_link = None\<rparr>"

record owner_event =
  oe_kind :: string
  oe_id :: string
  oe_fields :: "(string \<times> py) list"
  oe_executor :: string
  oe_pod :: string

definition exit_of :: "owner_event \<Rightarrow> (string \<times> py) list" where
  "exit_of ev = aset ''event_id'' (PStr (oe_id ev)) (oe_fields ev)"

text \<open>The condition on a start event and the pending exit.\<close>

definition links_up :: "(string \<times> py) list \<Rightarrow> owner_event \<Rightarrow> bool" where
  "links_up old ev \<longleftrightarrow>
     (let fs = oe_fields ev; request = dget fs ''recovery_action_id'' in
      py_truthy request \<and> py_eq request (dget old ''recovery_action_id'') \<and>
      oe_id ev \<noteq> [] \<and> oe_executor ev \<noteq> [] \<and> oe_pod ev \<noteq> [] \<and> py_truthy (dget old ''event_id'') \<and>
      py_eq (dget fs ''prior_exit_event_id'') (dget old ''event_id'') \<and>
      is_int (dget fs ''replaces_ffmpeg_pid'') \<and> int_of (dget fs ''replaces_ffmpeg_pid'') > 1 \<and>
      py_eq (dget fs ''replaces_ffmpeg_pid'') (dget old ''ffmpeg_pid'') \<and>
      py_truthy (dget old ''ffmpeg_generation'') \<and> py_truthy (dget fs ''ffmpeg_generation'') \<and>
      \<not> py_eq (dget old ''ffmpeg_generation'') (dget fs ''ffmpeg_generation''))"

definition link_of :: "(string \<times> py) list \<Rightarrow> owner_event \<Rightarrow> (string \<times> py) list" where
  "link_of old ev =
     [(''schema'', PStr SUCCESSOR_SCHEMA), (''request_id'', dget (oe_fields ev) ''recovery_action_id''),
      (''executor_instance_id'', PStr (oe_executor ev)), (''pod_uid'', PStr (oe_pod ev)),
      (''previous_generation'', dget old ''ffmpeg_generation''), (''generation'', dget (oe_fields ev) ''ffmpeg_generation''),
      (''exit_event_id'', dget old ''event_id''), (''start_event_id'', PStr (oe_id ev))]"

definition links_record :: "links \<Rightarrow> owner_event \<Rightarrow> links" where
  "links_record l ev =
     (if oe_kind ev = ''ffmpeg_exited'' then l\<lparr>lk_exit := exit_of ev\<rparr>
      else if oe_kind ev = ''ffmpeg_started''
           then \<lparr>lk_exit = [], lk_link = (if links_up (lk_exit l) ev then Some (link_of (lk_exit l) ev) else None)\<rparr>
           else l)"

definition links_current :: "links \<Rightarrow> string \<Rightarrow> (string \<times> py) list option" where
  "links_current l generation = (case lk_link l of
     Some x \<Rightarrow> if py_eq (dget x ''generation'') (PStr generation) then Some x else None | None \<Rightarrow> None)"

definition linked_successor :: "py \<Rightarrow> string \<Rightarrow> string \<Rightarrow> string \<Rightarrow> string \<Rightarrow> string \<Rightarrow> bool" where
  "linked_successor v request_id executor pod_uid before after = (case v of
       PDict xs \<Rightarrow>
         (let expected = [(''schema'', PStr SUCCESSOR_SCHEMA), (''request_id'', PStr request_id),
            (''executor_instance_id'', PStr executor), (''pod_uid'', PStr pod_uid), (''previous_generation'', PStr before),
            (''generation'', PStr after), (''exit_event_id'', dget xs ''exit_event_id''), (''start_event_id'', dget xs ''start_event_id'')]
          in py_eq v (PDict expected) \<and> before \<noteq> after \<and> before \<noteq> [] \<and> after \<noteq> [] \<and>
             (\<forall>k \<in> fst ` set expected. is_str (dget xs k) \<and> py_truthy (dget xs k)))
     | _ \<Rightarrow> False)"

section \<open>Laws\<close>

lemma validate_transport_Inr:
  assumes "validate_transport ip v = Inr xs"
  shows "v = PDict xs" "set (map fst xs) = set BINDING_FIELDS" "dget xs ''route'' \<in> {PStr ''PRIMARY'', PStr ''FALLBACK''}"
    "k \<in> {''executor_instance_id'', ''pod_uid'', ''generation''} \<Longrightarrow> \<exists>s. dget xs k = PStr s \<and> s \<noteq> []"
    "k \<in> {''pid'', ''start_ticks'', ''socket_inode'', ''local_port'', ''peer_port'', ''route_generation''} \<Longrightarrow>
       \<exists>n. dget xs k = PInt n \<and> n > 0"
    "k \<in> {''local_port'', ''peer_port''} \<Longrightarrow> \<exists>n. dget xs k = PInt n \<and> 1 \<le> n \<and> n \<le> 65535"
    "k \<in> {''local_host'', ''peer_host''} \<Longrightarrow> \<exists>s. dget xs k = PStr s \<and> ip s = Some s"
  using assms
  by (auto simp: validate_transport_def canonical_ip_def py_type_iffs int_of_def split: py.splits)

lemma validate_transport_raises: "validate_transport ip v = Inl e \<Longrightarrow> is_value_error e \<or> e = TypeError"
  by (auto simp: validate_transport_def bindE_eq_Inl split: py.splits)

text \<open>
  What a sample marked AVAILABLE proves about the host: the process kept its start ticks across the reads, \<open>ss\<close> listed
  exactly one matching established socket, one of the process's descriptors is that socket, and the binding names it.
\<close>

definition sample_backed ::
    "(string \<Rightarrow> string option) \<Rightarrow> host_answers \<Rightarrow> (string \<times> py) list \<Rightarrow> string \<Rightarrow> int list \<Rightarrow> tsample \<Rightarrow> bool" where
  "sample_backed ip h process executor ports r \<longleftrightarrow>
     (\<exists>pid start out so fds b.
        py_int (py_or (dget process ''local_ffmpeg_pid'') (PInt 0)) = Inr pid \<and> pid > 1 \<and>
        ha_start h = Inr start \<and> ha_start_again h = Inr start \<and>
        ha_ss h = Inr (0, out) \<and> parse_sockets ip out pid ports = Inr [so] \<and>
        ha_fds h = Inr fds \<and> Some (socket_link so) \<in> set fds \<and> length fds \<le> 256 \<and>
        validate_transport ip (binding_of process executor pid start so) = Inr b \<and>
        ts_binding r = Some b \<and> ts_metrics r = so_metrics so)"

definition sample_sound ::
    "(string \<Rightarrow> string option) \<Rightarrow> host_answers \<Rightarrow> (string \<times> py) list \<Rightarrow> string \<Rightarrow> int list \<Rightarrow> tsample \<Rightarrow> bool" where
  "sample_sound ip h process executor ports r \<longleftrightarrow>
     (if ts_status r = ''AVAILABLE'' then sample_backed ip h process executor ports r else ts_binding r = None)"

lemma collect_body_wp:
  assumes pid: "py_int (py_or (dget process ''local_ffmpeg_pid'') (PInt 0)) = Inr pid" "pid > 1"
  shows "wpS (collect_body ip h process executor pid ports)
    (\<lambda>_. sample_sound ip h process executor ports)
    (\<lambda>_ r. ts_status r = ''UNAVAILABLE'' \<and> ts_binding r = None) sample_empty"
  using pid
  by (auto simp: collect_body_def wp_simps sample_empty_def sample_backed_def sample_sound_def split: sum.splits list.splits)

text \<open>C32: A transport sample marked AVAILABLE is backed by the host: the process is the same before and after, exactly one
  established socket matches it, the socket is among its own descriptors, and the published binding is the validated
  description of that socket and process. Two or more matching sockets never yield a binding.\<close>

theorem transport_sample_sound:
  assumes "collect_transport ip h process executor ports = Inr r"
  shows "if ts_status r = ''AVAILABLE'' then sample_backed ip h process executor ports r else ts_binding r = None"
proof -
  let ?h = "\<lambda>e. if transport_handled e then modS (\<lambda>r. r\<lparr>ts_reason := Some (exn_name e)\<rparr>) else raiseS e"
  from assms obtain pid where pid: "py_int (py_or (dget process ''local_ffmpeg_pid'') (PInt 0)) = Inr pid"
    by (auto simp: collect_transport_def)
  have "sample_sound ip h process executor ports r"
  proof (cases "pid \<le> 1")
    case True
    with assms pid show ?thesis by (auto simp: collect_transport_def sample_empty_def sample_sound_def)
  next
    case False
    let ?b = "catchS (collect_body ip h process executor pid ports) ?h"
    have "wpS ?b (\<lambda>_. sample_sound ip h process executor ports) (\<lambda>_ _. True) sample_empty"
      unfolding wpS_catch
      by (rule wpS_mono [OF collect_body_wp [OF pid]]) (use False in \<open>auto simp: wp_simps sample_sound_def\<close>)
    moreover from assms pid False have "?b sample_empty = (Inr (), r)"
      unfolding collect_transport_def by (auto split: prod.splits sum.splits)
    ultimately show ?thesis by (rule wpS_Inr)
  qed
  then show ?thesis unfolding sample_sound_def .
qed

definition ex_fields :: "(string \<times> py) list" where
  "ex_fields = [(''local_ffmpeg_pid'', PInt 77), (''pod_uid'', PStr ''pod''), (''ffmpeg_generation'', PStr ''g1''),
     (''delivery_route'', PStr ''PRIMARY''), (''delivery_route_generation'', PInt 3)]"

definition ex_answers :: host_answers where
  "ex_answers = \<lparr>ha_start = Inr 500,
     ha_ss = Inr (0, ''ESTAB 0 12 10.0.0.2:40000 1.2.3.4:443 users:((ffmpeg,pid=77,fd=5)) ino:9'' @ [CHR 0x0A] @
       '' bytes_sent:900 bytes_acked:800 unacked:7 lastsnd:4'' @ [CHR 0x0A]),
     ha_fds = Inr [None, Some ''socket:[9]''], ha_start_again = Inr 500\<rparr>"

definition ex_sample :: tsample where
  "ex_sample = \<lparr>ts_status = ''AVAILABLE'',
     ts_binding = Some (case binding_of ex_fields ''x1'' 77 500
       \<lparr>so_local_host = ''10.0.0.2'', so_local_port = 40000, so_peer_host = ''1.2.3.4'', so_peer_port = 443, so_inode = 9, so_metrics = []\<rparr>
       of PDict xs \<Rightarrow> xs | _ \<Rightarrow> []),
     ts_metrics = [(''bytes_sent'', 900), (''bytes_acked'', 800), (''notsent'', 0), (''unacked'', 7), (''lastsnd_ms'', 4),
       (''rto_ms'', 0), (''send_q'', 12)],
     ts_legacy = [(''bytes_sent'', 900), (''bytes_acked'', 800), (''notsent'', 0), (''unacked'', 7), (''lastsnd_ms'', 4),
       (''rto_ms'', 0), (''send_q'', 12)], ts_reason = None\<rparr>"

lemma ex_collect: "collect_transport Some ex_answers ex_fields ''x1'' [443] = Inr ex_sample"
  by code_simp

theorem transport_sample_sound_witness: "sample_backed Some ex_answers ex_fields ''x1'' [443] ex_sample"
  using transport_sample_sound [OF ex_collect] by (simp add: ex_sample_def)

text \<open>The two halves of the link state along a sequence of events.\<close>

definition quiet :: "owner_event \<Rightarrow> bool" where
  "quiet ev \<longleftrightarrow> oe_kind ev \<noteq> ''ffmpeg_exited'' \<and> oe_kind ev \<noteq> ''ffmpeg_started''"

lemma links_record_kinds:
  "oe_kind ev = ''ffmpeg_exited'' \<Longrightarrow> links_record l ev = l\<lparr>lk_exit := exit_of ev\<rparr>"
  "oe_kind ev = ''ffmpeg_started'' \<Longrightarrow> links_record l ev =
     \<lparr>lk_exit = [], lk_link = (if links_up (lk_exit l) ev then Some (link_of (lk_exit l) ev) else None)\<rparr>"
  "oe_kind ev \<noteq> ''ffmpeg_exited'' \<Longrightarrow> oe_kind ev \<noteq> ''ffmpeg_started'' \<Longrightarrow> links_record l ev = l"
  by (simp_all add: links_record_def)

lemma links_pending:
  assumes "lk_exit (run links_record links_init evs) \<noteq> []"
  shows "\<exists>pre ex mid. evs = pre @ ex # mid \<and> oe_kind ex = ''ffmpeg_exited'' \<and> list_all quiet mid \<and>
           lk_exit (run links_record links_init evs) = exit_of ex"
  using assms
proof (induction evs rule: rev_induct)
  case Nil
  then show ?case by (simp add: links_init_def)
next
  case (snoc ev evs)
  let ?l = "run links_record links_init evs"
  show ?case
  proof (cases "oe_kind ev = ''ffmpeg_exited''")
    case True
    then show ?thesis by (intro exI [of _ evs] exI [of _ ev] exI [of _ "[]"]) (simp add: links_record_kinds)
  next
    case False
    with snoc.prems have q: "quiet ev" and l: "lk_exit ?l \<noteq> []"
      by (cases "oe_kind ev = ''ffmpeg_started''"; simp add: links_record_kinds quiet_def)+
    from snoc.IH [OF l] obtain pre ex mid where "evs = pre @ ex # mid" "oe_kind ex = ''ffmpeg_exited''"
      "list_all quiet mid" "lk_exit ?l = exit_of ex" by blast
    with q have "evs @ [ev] = pre @ ex # (mid @ [ev])" "oe_kind ex = ''ffmpeg_exited''" "list_all quiet (mid @ [ev])"
      "lk_exit (run links_record links_init (evs @ [ev])) = exit_of ex" by (simp_all add: links_record_kinds quiet_def)
    then show ?thesis by blast
  qed
qed

lemma links_linked:
  assumes "lk_link (run links_record links_init evs) = Some x"
  shows "\<exists>pre ex mid st post. evs = pre @ ex # mid @ st # post \<and> oe_kind ex = ''ffmpeg_exited'' \<and>
           oe_kind st = ''ffmpeg_started'' \<and> list_all quiet mid \<and> (\<forall>ev \<in> set post. oe_kind ev \<noteq> ''ffmpeg_started'') \<and>
           links_up (exit_of ex) st \<and> x = link_of (exit_of ex) st"
  using assms
proof (induction evs rule: rev_induct)
  case Nil
  then show ?case by (simp add: links_init_def)
next
  case (snoc ev evs)
  let ?l = "run links_record links_init evs"
  show ?case
  proof (cases "oe_kind ev = ''ffmpeg_started''")
    case True
    with snoc.prems have up: "links_up (lk_exit ?l) ev" and x: "x = link_of (lk_exit ?l) ev"
      by (simp_all add: links_record_kinds split: if_splits)
    from up have "lk_exit ?l \<noteq> []" by (auto simp: links_up_def dget_def Let_def)
    from links_pending [OF this] obtain pre ex mid where "evs = pre @ ex # mid" "oe_kind ex = ''ffmpeg_exited''"
      "list_all quiet mid" "lk_exit ?l = exit_of ex" by blast
    with up x True have "evs @ [ev] = pre @ ex # mid @ ev # []" "oe_kind ex = ''ffmpeg_exited''" "list_all quiet mid"
      "links_up (exit_of ex) ev" "x = link_of (exit_of ex) ev" by simp_all
    with True show ?thesis by (metis empty_iff list.set(1))
  next
    case False
    with snoc.prems have "lk_link ?l = Some x"
      by (cases "oe_kind ev = ''ffmpeg_exited''") (simp_all add: links_record_kinds)
    with snoc.IH obtain pre ex mid st post where "evs = pre @ ex # mid @ st # post" "oe_kind ex = ''ffmpeg_exited''"
      "oe_kind st = ''ffmpeg_started''" "list_all quiet mid" "\<forall>ev \<in> set post. oe_kind ev \<noteq> ''ffmpeg_started''"
      "links_up (exit_of ex) st" "x = link_of (exit_of ex) st" by blast
    moreover from this(1) False this(5) have "evs @ [ev] = pre @ ex # mid @ st # (post @ [ev])"
      "\<forall>x \<in> set (post @ [ev]). oe_kind x \<noteq> ''ffmpeg_started''" by auto
    ultimately show ?thesis by blast
  qed
qed

lemma link_accepted:
  assumes "links_up (exit_of ex) st" and "dget (oe_fields st) ''recovery_action_id'' = PStr r"
    and "dget (oe_fields ex) ''ffmpeg_generation'' = PStr b" and "dget (oe_fields st) ''ffmpeg_generation'' = PStr a"
  shows "linked_successor (PDict (link_of (exit_of ex) st)) r (oe_executor st) (oe_pod st) b a"
  using assms
  by (simp add: links_up_def link_of_def exit_of_def linked_successor_def dget_def Let_def SUCCESSOR_SCHEMA_def)


definition ex_exit :: owner_event where
  "ex_exit = \<lparr>oe_kind = ''ffmpeg_exited'', oe_id = ''e1'', oe_fields = [(''recovery_action_id'', PStr ''r''),
     (''ffmpeg_pid'', PInt 77), (''ffmpeg_generation'', PStr ''g1'')], oe_executor = ''x1'', oe_pod = ''pod''\<rparr>"

definition ex_start :: owner_event where
  "ex_start = \<lparr>oe_kind = ''ffmpeg_started'', oe_id = ''e2'', oe_fields = [(''recovery_action_id'', PStr ''r''),
     (''prior_exit_event_id'', PStr ''e1''), (''replaces_ffmpeg_pid'', PInt 77), (''ffmpeg_generation'', PStr ''g2'')],
     oe_executor = ''x1'', oe_pod = ''pod''\<rparr>"

lemma ex_link: "links_current (run links_record links_init [ex_exit, ex_start]) ''g2'' = Some (link_of (exit_of ex_exit) ex_start)"
  by code_simp


end
