(* ===== verification/Cra_Observe.thy ===== *)
theory Cra_Observe
  imports Cra_Binding
begin

text \<open>
  \<open>recovery-control/src/cra/observe.py\<close>: the runtime observation the reflex loop reads, the transport
  identity it derives from it, and the network probe.

  \<open>pylib\<close> collects what the standard library supplies as functions: \<open>l_ip\<close> is
  \<open>str(ipaddress.ip_address(.))\<close>, \<open>l_repr\<close> is \<open>str\<close> of floats and containers, \<open>l_utc\<close> is
  \<open>datetime.fromisoformat(.).astimezone(UTC)\<close>, \<open>l_fromiso\<close> is \<open>datetime.fromisoformat\<close> (with whether
  the stamp carries an offset), \<open>l_iso\<close> is \<open>isoformat()\<close> of a UTC instant, \<open>l_iso_ms\<close> its form
  with milliseconds, \<open>l_iso_z\<close> the same with a final \<open>Z\<close>, and \<open>l_sha\<close> the hexadecimal SHA-256 of a text (of the JSON text, for a
  value that is encoded first). Instants are microseconds.
\<close>

record pylib =
  l_ip :: "string \<Rightarrow> string option"
  l_repr :: "py \<Rightarrow> string"
  l_utc :: "string \<Rightarrow> instant res"
  l_fromiso :: "string \<Rightarrow> (bool \<times> instant) option"
  l_iso :: "instant \<Rightarrow> string"
  l_iso_z :: "instant \<Rightarrow> string"
  l_iso_ms :: "instant \<Rightarrow> string"
  l_sha :: "py \<Rightarrow> string"

section \<open>TCP metrics\<close>

record tcp_metrics =
  t_bytes_sent :: int
  t_notsent :: int
  t_unacked :: int
  t_lastsnd_ms :: int
  t_bytes_acked :: "int option"

definition int_or_0 :: "py \<Rightarrow> int res" where
  "int_or_0 v = py_int (py_or v (PInt 0))"

definition tcp_parse :: "py \<Rightarrow> tcp_metrics option res" where
  "tcp_parse v = (case v of
       PDict xs \<Rightarrow>
         if ''bytes_sent'' \<notin> fst ` set xs then Inr None
         else (case bindE (int_or_0 (dget xs ''bytes_sent'')) (\<lambda>bs. bindE (int_or_0 (dget xs ''notsent'')) (\<lambda>ns.
                    bindE (int_or_0 (dget xs ''unacked'')) (\<lambda>un. bindE (int_or_0 (dget xs ''lastsnd_ms'')) (\<lambda>ls.
                    bindE (case dget xs ''bytes_acked'' of PNone \<Rightarrow> Inr None | a \<Rightarrow> bindE (py_int a) (\<lambda>n. Inr (Some n))) (\<lambda>ba.
                      Inr \<lparr>t_bytes_sent = bs, t_notsent = ns, t_unacked = un, t_lastsnd_ms = ls, t_bytes_acked = ba\<rparr>))))) of
             Inr t \<Rightarrow> Inr (Some t)
           | Inl e \<Rightarrow> if e = TypeError \<or> is_value_error e then Inr None else Inl e)
     | _ \<Rightarrow> Inr None)"

definition tcp_vars :: "tcp_metrics option \<Rightarrow> py" where
  "tcp_vars t = (case t of None \<Rightarrow> PNone | Some m \<Rightarrow>
     PDict [(''bytes_sent'', PInt (t_bytes_sent m)), (''notsent'', PInt (t_notsent m)), (''unacked'', PInt (t_unacked m)),
       (''lastsnd_ms'', PInt (t_lastsnd_ms m)), (''bytes_acked'', (case t_bytes_acked m of None \<Rightarrow> PNone | Some n \<Rightarrow> PInt n))])"

section \<open>Observations\<close>

definition OBSERVATION_SCHEMA :: string where "OBSERVATION_SCHEMA = ''runtime.ffmpeg_observation.v1''"

record observation =
  o_observation_id :: string
  o_executor_instance_id :: string
  o_sequence :: int
  o_observed_at :: instant
  o_pod_uid :: string
  o_ffmpeg_generation :: string
  o_ffmpeg_running :: bool
  o_ffmpeg_uptime_sec :: int
  o_active_producer_id :: string
  o_active_producer_generation :: int
  o_in_flight_count :: int
  o_target_valid :: bool
  o_tcp :: "tcp_metrics option"
  o_raw :: "(string \<times> py) list"

definition generation_key :: "observation \<Rightarrow> string" where
  "generation_key obs = o_pod_uid obs @ ''/'' @ o_ffmpeg_generation obs"

definition binding :: "pylib \<Rightarrow> observation \<Rightarrow> (string \<times> py) list option" where
  "binding lib obs = (case dget (o_raw obs) ''delivery_transport'' of
       PDict sample \<Rightarrow>
         if dget sample ''status'' \<noteq> PStr ''AVAILABLE'' then None
         else (case validate_transport (l_ip lib) (dget sample ''binding'') of
             Inl e \<Rightarrow> None
           | Inr b \<Rightarrow>
               if py_eq (dget b ''executor_instance_id'') (PStr (o_executor_instance_id obs)) \<and>
                  py_eq (dget b ''pod_uid'') (PStr (o_pod_uid obs)) \<and>
                  py_eq (dget b ''generation'') (PStr (o_ffmpeg_generation obs)) \<and>
                  py_eq (dget b ''pid'') (dget (o_raw obs) ''local_ffmpeg_pid'') \<and>
                  py_eq (dget b ''route'') (dget (o_raw obs) ''delivery_route'') \<and>
                  py_eq (dget b ''route_generation'') (dget (o_raw obs) ''delivery_route_generation'')
               then Some b else None)
     | _ \<Rightarrow> None)"

definition binding_status :: "pylib \<Rightarrow> observation \<Rightarrow> string" where
  "binding_status lib obs =
     (if ''delivery_transport'' \<notin> fst ` set (o_raw obs) then ''LEGACY_UNBOUND''
      else if binding lib obs \<noteq> None then ''AVAILABLE'' else ''UNAVAILABLE'')"

record identity =
  id_executor :: string
  id_generation_key :: string
  id_route :: py
  id_route_generation :: py
  id_binding :: "(string \<times> py) list + string"

definition transport_identity :: "pylib \<Rightarrow> observation \<Rightarrow> identity" where
  "transport_identity lib obs =
     \<lparr>id_executor = o_executor_instance_id obs, id_generation_key = generation_key obs,
      id_route = dget (o_raw obs) ''delivery_route'', id_route_generation = dget (o_raw obs) ''delivery_route_generation'',
      id_binding = (case binding lib obs of Some b \<Rightarrow> Inl b | None \<Rightarrow> Inr (binding_status lib obs))\<rparr>"

text \<open>Equality of the two tuples; \<open>tuple(sorted(binding.items()))\<close> makes the order of the fields irrelevant.\<close>

definition identity_eq :: "identity \<Rightarrow> identity \<Rightarrow> bool" where
  "identity_eq a b \<longleftrightarrow>
     id_executor a = id_executor b \<and> id_generation_key a = id_generation_key b \<and> py_eq (id_route a) (id_route b) \<and>
     py_eq (id_route_generation a) (id_route_generation b) \<and>
     (case (id_binding a, id_binding b) of
        (Inl x, Inl y) \<Rightarrow> py_eq (PDict x) (PDict y) | (Inr s, Inr t) \<Rightarrow> s = t | _ \<Rightarrow> False)"

definition str_or_empty :: "pylib \<Rightarrow> py \<Rightarrow> string" where
  "str_or_empty lib v = py_str (l_repr lib) (py_or v (PStr []))"

text \<open>The constructor call inside the \<open>try\<close>.\<close>

definition build_observation :: "pylib \<Rightarrow> (string \<times> py) list \<Rightarrow> observation res" where
  "build_observation lib raw =
     bindE (py_getitem (PDict raw) ''observed_at'') (\<lambda>at0.
     bindE (l_utc lib (py_str (l_repr lib) at0)) (\<lambda>observed_at.
     bindE (py_getitem (PDict raw) ''observation_id'') (\<lambda>oid.
     bindE (bindE (py_getitem (PDict raw) ''sequence'') py_int) (\<lambda>sequence.
     bindE (int_or_0 (dget raw ''ffmpeg_uptime_sec'')) (\<lambda>uptime.
     bindE (int_or_0 (dget raw ''active_producer_generation'')) (\<lambda>apg.
     bindE (int_or_0 (dget raw ''in_flight_count'')) (\<lambda>inflight.
     bindE (case dget raw ''delivery_transport'' of
              PDict d \<Rightarrow> tcp_parse (dget d ''tcp_metrics'') | _ \<Rightarrow> tcp_parse (dget raw ''tcp_metrics'')) (\<lambda>tcp.
     Inr \<lparr>o_observation_id = py_str (l_repr lib) oid,
       o_executor_instance_id = str_or_empty lib (dget raw ''executor_instance_id''), o_sequence = sequence,
       o_observed_at = observed_at, o_pod_uid = str_or_empty lib (dget raw ''pod_uid''),
       o_ffmpeg_generation = str_or_empty lib (dget raw ''ffmpeg_generation''),
       o_ffmpeg_running = (dget raw ''ffmpeg_running'' = PBool True), o_ffmpeg_uptime_sec = uptime,
       o_active_producer_id = str_or_empty lib (dget raw ''active_producer_id''), o_active_producer_generation = apg,
       o_in_flight_count = inflight,
       o_target_valid = (dget raw ''target_snapshot_status'' = PStr ''VALID'' \<and> is_dict (dget raw ''target_identity'')),
       o_tcp = tcp, o_raw = raw\<rparr>))))))))"

definition parse_observation :: "pylib \<Rightarrow> py \<Rightarrow> seconds option \<Rightarrow> instant \<Rightarrow> (observation option \<times> string) res" where
  "parse_observation lib v max_age now = (case v of
       PDict raw \<Rightarrow>
         if dget raw ''schema_version'' \<noteq> PStr OBSERVATION_SCHEMA then Inr (None, ''OBSERVATION_SCHEMA_INVALID'')
         else (case build_observation lib raw of
             Inl e \<Rightarrow> if e \<in> {KeyError, TypeError} \<or> is_value_error e then Inr (None, ''OBSERVATION_INVALID'') else Inl e
           | Inr obs \<Rightarrow>
               (let age = total_seconds (now - o_observed_at obs) in
                case max_age of
                  Some m \<Rightarrow> if age < -1 \<or> age > m then Inr (None, ''OBSERVATION_STALE'') else Inr (Some obs, [])
                | None \<Rightarrow> Inr (Some obs, [])))
     | _ \<Rightarrow> Inr (None, ''OBSERVATION_SCHEMA_INVALID''))"

text \<open>\<open>doc\<close> is the outcome of reading and decoding the file.\<close>

definition read_observation :: "pylib \<Rightarrow> py res \<Rightarrow> seconds \<Rightarrow> instant \<Rightarrow> (observation option \<times> string) res" where
  "read_observation lib doc max_age now = (case doc of
       Inr raw \<Rightarrow> parse_observation lib raw (Some max_age) now
     | Inl e \<Rightarrow>
         if e = FileNotFoundError then Inr (None, ''OBSERVATION_MISSING'')
         else if e = PermissionError then Inr (None, ''OBSERVATION_UNREADABLE'')
         else if is_os_error e \<or> e = JSONDecodeError then Inr (None, ''OBSERVATION_INVALID'')
         else Inl e)"

section \<open>Network probe\<close>

record network =
  n_gateway_ok :: bool
  n_public_ok_count :: nat
  n_ingest_ok :: bool
  n_timed_out :: bool

definition network_down :: "network \<Rightarrow> bool" where
  "network_down n \<longleftrightarrow> \<not> n_gateway_ok n \<and> n_public_ok_count n = 0"

record endpoint =
  ep_host :: string
  ep_port :: int

definition make_endpoint :: "pylib \<Rightarrow> string \<Rightarrow> int \<Rightarrow> endpoint res" where
  "make_endpoint lib host port =
     bindE (requireE (l_ip lib host \<noteq> None) (ValueError ''address'')) (\<lambda>_.
     bindE (requireE (1 \<le> port \<and> port \<le> 65535) (ValueError ''invalid ingest port'')) (\<lambda>_.
     Inr \<lparr>ep_host = host, ep_port = port\<rparr>))"

definition prober_init :: "pylib \<Rightarrow> string list \<Rightarrow> unit res" where
  "prober_init lib hosts =
     bindE (requireE (length hosts \<le> 4) (ValueError ''at most four public probes are allowed'')) (\<lambda>_.
     requireE (list_all (\<lambda>h. l_ip lib h \<noteq> None) hosts) (ValueError ''address''))"

text \<open>
  A future as the probe sees it: whether \<open>wait\<close> returned it as pending, and its state when it is read
  after the pool was shut down. Its value is what the submitted call computed.
\<close>

datatype fut_state = Running | Cancelled | Finished "bool res"

record fut =
  fu_pending :: bool
  fu_state :: fut_state

definition ping :: "string \<Rightarrow> int \<Rightarrow> bool" where
  "ping host rc \<longleftrightarrow> host \<noteq> [] \<and> rc = 0"

definition default_gateway :: "string res \<Rightarrow> string" where
  "default_gateway out = (case out of
       Inl _ \<Rightarrow> []
     | Inr t \<Rightarrow> (let parts = split_space [] t in
         if ''via'' \<in> set (butlast parts) then hd (tl (dropWhile (\<lambda>w. w \<noteq> ''via'') parts)) else []))"

definition succeeded :: "fut \<Rightarrow> bool" where
  "succeeded f \<longleftrightarrow> fu_state f = Finished (Inr True)"

definition probe :: "fut \<Rightarrow> fut list \<Rightarrow> fut \<Rightarrow> network" where
  "probe gateway public ingest =
     \<lparr>n_gateway_ok = succeeded gateway, n_public_ok_count = length (filter succeeded public), n_ingest_ok = succeeded ingest,
      n_timed_out = list_ex fu_pending (gateway # public @ [ingest])\<rparr>"

section \<open>Laws\<close>

lemma py_int_raises: "py_int v = Inl e \<Longrightarrow> e \<in> {TypeError, OverflowError} \<or> is_value_error e"
  by (cases v rule: py_int.cases) (auto split: option.splits)

lemma tcp_parse_raises: "tcp_parse v = Inl e \<Longrightarrow> e = OverflowError"
proof (cases v)
  case (PDict xs)
  assume "tcp_parse v = Inl e"
  with PDict show ?thesis
    by (auto simp: tcp_parse_def int_or_0_def bindE_eq_Inl split: if_splits sum.splits py.splits option.splits dest!: py_int_raises)
qed (simp_all add: tcp_parse_def)

lemma build_observation_raw: "build_observation lib raw = Inr obs \<Longrightarrow> o_raw obs = raw"
  by (auto simp: build_observation_def)

lemma build_observation_time:
  "build_observation lib raw = Inr obs \<Longrightarrow>
     \<exists>v. map_of raw ''observed_at'' = Some v \<and> l_utc lib (py_str (l_repr lib) v) = Inr (o_observed_at obs)"
  by (auto simp: build_observation_def split: option.splits)

lemma build_observation_raises:
  assumes "build_observation lib raw = Inl e" and "\<And>s e. l_utc lib s = Inl e \<Longrightarrow> is_value_error e \<or> e = OverflowError"
  shows "e \<in> {KeyError, TypeError, OverflowError} \<or> is_value_error e"
  using assms
  by (auto simp: build_observation_def int_or_0_def bindE_eq_Inl split: option.splits py.splits dest!: py_int_raises tcp_parse_raises)

text \<open>A binding that an observation exposes repeats the observation's own identity.\<close>

lemma binding_bound:
  assumes "binding lib obs = Some b"
  shows "dget b ''executor_instance_id'' = PStr (o_executor_instance_id obs)" "dget b ''pod_uid'' = PStr (o_pod_uid obs)"
    "dget b ''generation'' = PStr (o_ffmpeg_generation obs)" "validate_transport (l_ip lib) (PDict b) = Inr b"
proof -
  from assms obtain sample where v: "validate_transport (l_ip lib) (dget sample ''binding'') = Inr b"
    and i: "dget b ''executor_instance_id'' = PStr (o_executor_instance_id obs)" "dget b ''pod_uid'' = PStr (o_pod_uid obs)"
    "dget b ''generation'' = PStr (o_ffmpeg_generation obs)"
    by (auto simp: binding_def split: py.splits if_splits sum.splits)
  show "dget b ''executor_instance_id'' = PStr (o_executor_instance_id obs)" "dget b ''pod_uid'' = PStr (o_pod_uid obs)"
    "dget b ''generation'' = PStr (o_ffmpeg_generation obs)" by (fact i)+
  show "validate_transport (l_ip lib) (PDict b) = Inr b" using v validate_transport_Inr(1) [OF v] by simp
qed

lemma binding_endpoint:
  assumes "binding lib obs = Some b"
  shows "\<exists>host port. dget b ''peer_host'' = PStr host \<and> dget b ''peer_port'' = PInt port \<and>
    make_endpoint lib host port = Inr \<lparr>ep_host = host, ep_port = port\<rparr>"
proof -
  note v = binding_bound(4) [OF assms]
  obtain host where "dget b ''peer_host'' = PStr host" "l_ip lib host = Some host"
    using validate_transport_Inr(7) [OF v, of "''peer_host''"] by auto
  moreover obtain port where "dget b ''peer_port'' = PInt port" "1 \<le> port" "port \<le> 65535"
    using validate_transport_Inr(6) [OF v, of "''peer_port''"] by auto
  ultimately show ?thesis by (simp add: make_endpoint_def)
qed

lemma identity_eq_key: "identity_eq a b \<Longrightarrow> id_generation_key a = id_generation_key b"
  by (simp add: identity_eq_def)

text \<open>C37: Only fresh, well-formed evidence is used. When \<open>read_observation\<close> hands out an observation, the file decoded to an
  object of the expected schema, the observation time is the one written in it and lies at most \<open>max_age\<close> in the past and at
  most one second in the future, and the reason is empty; in every other case there is no observation but a reason, with one
  exception: a number that does not fit (\<open>OverflowError\<close>) is raised to the caller, as is an undecodable file.\<close>

theorem observation_fresh_or_refused:
  assumes "\<And>s e. l_utc lib s = Inl e \<Longrightarrow> is_value_error e \<or> e = OverflowError"
  shows "case read_observation lib doc max_age now of
      Inr (Some obs, why) \<Rightarrow> why = [] \<and> (\<exists>raw v. doc = Inr (PDict raw) \<and> o_raw obs = raw \<and>
        dget raw ''schema_version'' = PStr OBSERVATION_SCHEMA \<and> map_of raw ''observed_at'' = Some v \<and>
        l_utc lib (py_str (l_repr lib) v) = Inr (o_observed_at obs) \<and>
        -1 \<le> total_seconds (now - o_observed_at obs) \<and> total_seconds (now - o_observed_at obs) \<le> max_age)
    | Inr (None, why) \<Rightarrow> why \<noteq> []
    | Inl e \<Rightarrow> e = OverflowError \<or> (doc = Inl e \<and> \<not> is_os_error e \<and> e \<noteq> JSONDecodeError)"
proof (cases doc)
  case (Inl e)
  then show ?thesis by (auto simp: read_observation_def)
next
  case (Inr v)
  show ?thesis
  proof (cases v)
    case (PDict raw)
    show ?thesis
    proof (cases "build_observation lib raw")
      case e: (Inl e)
      with Inr PDict build_observation_raises [OF e assms] show ?thesis
        by (auto simp: read_observation_def parse_observation_def)
    next
      case o: (Inr obs)
      with Inr PDict build_observation_raw [OF o] build_observation_time [OF o] show ?thesis
        by (auto simp: read_observation_def parse_observation_def Let_def)
    qed
  qed (use Inr in \<open>simp_all add: read_observation_def parse_observation_def\<close>)
qed

definition ex_lib :: pylib where
  "ex_lib = \<lparr>l_ip = Some, l_repr = (\<lambda>_. ''?''), l_utc = (\<lambda>s. if s = ''t0'' then Inr 0 else Inr 1000000), l_fromiso = (\<lambda>s. Some (True, 0)),
     l_iso = (\<lambda>_. ''t''), l_iso_z = (\<lambda>_. ''z''), l_iso_ms = (\<lambda>_. ''ms''), l_sha = (\<lambda>_. ''h'')\<rparr>"

definition ex_raw :: "string \<Rightarrow> py \<Rightarrow> (string \<times> py) list" where
  "ex_raw t q = [(''schema_version'', PStr OBSERVATION_SCHEMA), (''observed_at'', PStr t), (''observation_id'', PStr ''o''), (''sequence'', q)]"

theorem observation_fresh_or_refused_witness:
  "(\<exists>obs. read_observation ex_lib (Inr (PDict (ex_raw ''t0'' (PInt 4)))) 3 2000000 = Inr (Some obs, []) \<and>
      -1 \<le> total_seconds (2000000 - o_observed_at obs) \<and> total_seconds (2000000 - o_observed_at obs) \<le> 3) \<and>
   read_observation ex_lib (Inr (PDict (ex_raw ''t0'' (PFloat PosInf)))) 3 2000000 = Inl OverflowError"
proof
  have u: "is_value_error e \<or> e = OverflowError" if "l_utc ex_lib s = Inl e" for s e
    using that by (simp add: ex_lib_def split: if_splits)
  let ?r = "read_observation ex_lib (Inr (PDict (ex_raw ''t0'' (PInt 4)))) 3 2000000"
  have "\<exists>obs why. ?r = Inr (Some obs, why)"
    by (simp add: read_observation_def parse_observation_def build_observation_def ex_raw_def ex_lib_def dget_def
      int_or_0_def py_or_def tcp_parse_def str_or_empty_def total_seconds_def Let_def)
  then obtain obs why where o: "?r = Inr (Some obs, why)" by blast
  from observation_fresh_or_refused [of ex_lib "Inr (PDict (ex_raw ''t0'' (PInt 4)))" 2000000 3] u o
  show "\<exists>obs. ?r = Inr (Some obs, []) \<and>
      -1 \<le> total_seconds (2000000 - o_observed_at obs) \<and> total_seconds (2000000 - o_observed_at obs) \<le> 3" by auto
  show "read_observation ex_lib (Inr (PDict (ex_raw ''t0'' (PFloat PosInf)))) 3 2000000 = Inl OverflowError"
    by (simp add: read_observation_def parse_observation_def build_observation_def ex_raw_def ex_lib_def dget_def Let_def)
qed

end
