(* ===== verification/Cra_Json.thy ===== *)
theory Cra_Json
  imports Py_Prelude "HOL-Library.List_Lexorder" "HOL-Library.Char_ord"
begin

text \<open>
  JSON text and signatures of the recovery controller (\<open>recovery-control/src/cra/signing.py\<close>).

  A JSON text written by \<open>json.dumps(..., sort_keys=True)\<close> is represented by the value it denotes
  with the keys of every object in order: two such texts are equal exactly when these normal forms
  are, and reading the text gives the normal form back. \<open>cryptography\<close> is not part of the
  repository: signing a message and checking a signature are the fields of \<open>ed25519\<close>.
\<close>

primrec jnorm :: "py \<Rightarrow> py" where
  "jnorm PNone = PNone"
| "jnorm (PBool b) = PBool b"
| "jnorm (PInt n) = PInt n"
| "jnorm (PFloat x) = PFloat x"
| "jnorm (PStr s) = PStr s"
| "jnorm (PList xs) = PList (map jnorm xs)"
| "jnorm (PDict xs) = PDict (sort_key fst (map (map_prod id jnorm) xs))"

text \<open>\<open>allow_nan=False\<close>: infinities and NaN have no encoding.\<close>

primrec encodable :: "py \<Rightarrow> bool" where
  "encodable PNone = True"
| "encodable (PBool b) = True"
| "encodable (PInt n) = True"
| "encodable (PFloat x) = (case x of Fin q \<Rightarrow> True | _ \<Rightarrow> False)"
| "encodable (PStr s) = True"
| "encodable (PList xs) = list_all id (map encodable xs)"
| "encodable (PDict xs) = list_all snd (map (map_prod id encodable) xs)"

lemma insort_key_map_values:
  "map (map_prod id f) (insort_key fst x xs) = insort_key fst (map_prod id f x) (map (map_prod id f) xs)"
  by (induction xs) auto

lemma sort_key_map_values: "map (map_prod id f) (sort_key fst xs) = sort_key fst (map (map_prod id f) xs)"
proof (induction xs)
  case (Cons x xs)
  show ?case by (simp only: sort_key_simps insort_key_map_values Cons.IH list.map)
qed simp

text \<open>Encoding again what was decoded gives the same text.\<close>

lemma jnorm_idem [simp]: "jnorm (jnorm v) = jnorm v"
proof (induction v)
  case (PDict xs)
  have "map (map_prod id jnorm) (map (map_prod id jnorm) xs) = map (map_prod id jnorm) xs"
    using PDict by (force simp: snds.simps)
  then have "jnorm (jnorm (PDict xs)) = PDict (sort_key fst (sort_key fst (map (map_prod id jnorm) xs)))"
    by (simp only: jnorm.simps sort_key_map_values)
  then show ?case by (simp add: sort_key_id_if_sorted)
qed auto

lemma map_of_insort:
  "fst x \<notin> fst ` set xs \<Longrightarrow> map_of (insort_key fst x xs) k = (if k = fst x then Some (snd x) else map_of xs k)"
  by (induction xs) (auto split: if_splits)

lemma map_of_sort_key: "distinct (map fst xs) \<Longrightarrow> map_of (sort_key fst xs) k = map_of xs k"
  by (induction xs) (auto simp: map_of_insort)

lemma map_of_map_values: "map_of (map (map_prod id f) xs) k = map_option f (map_of xs k)"
  by (induction xs) auto

text \<open>Lookups see through the encoding.\<close>

lemma dget_jnorm: "distinct (map fst xs) \<Longrightarrow> jnorm (PDict xs) = PDict ys \<Longrightarrow> map_of ys k = map_option jnorm (map_of xs k)"
  by (auto simp: map_of_sort_key map_of_map_values comp_def)

text \<open>A Python \<open>dict\<close> has each key once.\<close>

primrec wf_json :: "py \<Rightarrow> bool" where
  "wf_json PNone = True"
| "wf_json (PBool b) = True"
| "wf_json (PInt n) = True"
| "wf_json (PFloat x) = True"
| "wf_json (PStr s) = True"
| "wf_json (PList xs) = list_all id (map wf_json xs)"
| "wf_json (PDict xs) = (distinct (map fst xs) \<and> list_all snd (map (map_prod id wf_json) xs))"

lemma wf_json_dget: "wf_json (PDict xs) \<Longrightarrow> wf_json (dget xs k)"
  by (auto simp: dget_def list_all_iff split: option.splits dest!: map_of_SomeD)

lemma dget_jnorm_pay:
  assumes "distinct (map fst xs)"
  shows "dget (sort_key fst (map (map_prod id jnorm) xs)) k = jnorm (dget xs k)"
proof -
  have "distinct (map fst (map (map_prod id jnorm) xs))" using assms by (simp add: comp_def)
  then show ?thesis by (simp add: dget_def map_of_sort_key map_of_map_values split: option.splits)
qed

lemma jnorm_simple [simp]:
  "jnorm v = PStr s \<longleftrightarrow> v = PStr s" "jnorm v = PInt n \<longleftrightarrow> v = PInt n" "jnorm v = PBool b \<longleftrightarrow> v = PBool b"
  "jnorm v = PNone \<longleftrightarrow> v = PNone"
  by (cases v; simp)+

lemma encodable_jnorm [simp]: "encodable (jnorm v) = encodable v"
proof (induction v)
  case (PList xs)
  then show ?case by (simp add: list_all_iff)
next
  case (PDict xs)
  then have "\<forall>x \<in> set xs. encodable (jnorm (snd x)) = encodable (snd x)" by (force simp: snds.simps)
  then show ?case by (simp add: list_all_iff)
qed auto

text \<open>Equal dictionaries agree on every key.\<close>

lemma py_sub_iff: "py_sub xs ys \<longleftrightarrow> (\<forall>(k, v) \<in> set xs. \<exists>w. map_of ys k = Some w \<and> py_eq v w)"
  by (induction xs) (auto split: option.splits)

lemma py_eq_dict_lookup:
  assumes "py_eq (PDict xs) (PDict ys)" and "distinct (map fst xs)" and "map_of ys k = Some w"
  shows "\<exists>v. map_of xs k = Some v \<and> py_eq v w"
proof -
  from assms(1) have len: "length xs = length ys" and sub: "\<forall>(k, v) \<in> set xs. \<exists>w. map_of ys k = Some w \<and> py_eq v w"
    by (simp_all add: py_sub_iff)
  have "fst ` set xs \<subseteq> fst ` set ys"
  proof
    fix j assume "j \<in> fst ` set xs"
    then obtain v where "(j, v) \<in> set xs" by auto
    with sub obtain u where "map_of ys j = Some u" by blast
    then show "j \<in> fst ` set ys" by (rule map_of_SomeD [THEN image_eqI [rotated, of _ _ j fst]]) simp
  qed
  moreover have "card (fst ` set ys) \<le> card (fst ` set xs)"
    using distinct_card [OF assms(2)] card_length [of "map fst ys"] len by simp
  ultimately have "fst ` set xs = fst ` set ys" by (intro card_seteq) auto
  moreover have "k \<in> fst ` set ys" using assms(3) by (force dest: map_of_SomeD)
  ultimately obtain v where v: "(k, v) \<in> set xs" by force
  with sub assms(3) have "py_eq v w" by fastforce
  with v assms(2) show ?thesis by (auto simp: map_of_is_SomeI)
qed

section \<open>Comparison\<close>

text \<open>\<open>a <= b\<close> of numbers, and \<open>a < b\<close> of decoded values: numbers, texts and lists are ordered, anything else raises.\<close>

fun num_le :: "pyfloat \<Rightarrow> pyfloat \<Rightarrow> bool" where
  "num_le NaN y = False"
| "num_le x NaN = False"
| "num_le (Fin a) (Fin b) = (a \<le> b)"
| "num_le NegInf y = True"
| "num_le x PosInf = True"
| "num_le x y = False"

definition num_lt :: "pyfloat \<Rightarrow> pyfloat \<Rightarrow> bool" where
  "num_lt x y \<longleftrightarrow> num_le x y \<and> x \<noteq> y"

definition py_le :: "py \<Rightarrow> py \<Rightarrow> bool res" where
  "py_le a b = (case (num_of a, num_of b) of (Some x, Some y) \<Rightarrow> Inr (num_le x y) | _ \<Rightarrow> Inl TypeError)"

fun py_lt :: "py \<Rightarrow> py \<Rightarrow> bool res" and py_lts :: "py list \<Rightarrow> py list \<Rightarrow> bool res" where
  "py_lt (PStr s) b = (case b of PStr t \<Rightarrow> Inr (s < t) | _ \<Rightarrow> Inl TypeError)"
| "py_lt (PList xs) b = (case b of PList ys \<Rightarrow> py_lts xs ys | _ \<Rightarrow> Inl TypeError)"
| "py_lt a b = (case (num_of a, num_of b) of (Some x, Some y) \<Rightarrow> Inr (num_lt x y) | _ \<Rightarrow> Inl TypeError)"
| "py_lts [] ys = Inr (ys \<noteq> [])"
| "py_lts (x # xs) ys = (case ys of [] \<Rightarrow> Inr False | y # ys' \<Rightarrow> if py_eq x y then py_lts xs ys' else py_lt x y)"

lemma py_lt_int [simp]: "py_lt (PInt a) (PInt b) = Inr (a < b)"
  by (auto simp: num_lt_def)

lemma py_le_int [simp]: "py_le (PInt a) (PInt b) = Inr (a \<le> b)"
  by (simp add: py_le_def)

section \<open>Signatures\<close>

record ed25519 =
  ed_sign :: "string \<Rightarrow> py \<Rightarrow> string"
  ed_check :: "string \<Rightarrow> string \<Rightarrow> py \<Rightarrow> unit res"

definition canonical :: "py \<Rightarrow> py res" where
  "canonical v = (if encodable v then Inr (jnorm v) else Inl (ValueError ''Out of range float values are not JSON compliant''))"

definition sign :: "ed25519 \<Rightarrow> string \<Rightarrow> py \<Rightarrow> string res" where
  "sign ed key v = bindE (canonical v) (\<lambda>m. Inr (ed_sign ed key m))"

text \<open>\<open>InvalidSignature\<close>, a malformed key and an undecodable text all come back as an exception of \<open>ed_check\<close>.\<close>

definition verify :: "ed25519 \<Rightarrow> string \<Rightarrow> py \<Rightarrow> string \<Rightarrow> bool" where
  "verify ed public_key v signature =
     (case bindE (canonical v) (ed_check ed public_key signature) of Inl e \<Rightarrow> False | Inr _ \<Rightarrow> True)"

text \<open>The documented behaviour of Ed25519: a signature made with the private key is accepted under its public key.\<close>

definition key_pair :: "ed25519 \<Rightarrow> string \<Rightarrow> string \<Rightarrow> bool" where
  "key_pair ed key public_key \<longleftrightarrow> (\<forall>m. ed_check ed public_key (ed_sign ed key m) m = Inr ())"

lemma verify_sign: "key_pair ed key pub \<Longrightarrow> sign ed key v = Inr s \<Longrightarrow> verify ed pub v s"
  by (auto simp: sign_def verify_def key_pair_def)

lemma verify_jnorm_encodable: "verify ed pub v s \<Longrightarrow> encodable v"
  by (auto simp: verify_def canonical_def split: if_splits)

end
