(* ===== verification/Cra_Policy.thy ===== *)
theory Cra_Policy
  imports Cra_Json
begin

text \<open>
  \<open>recovery-control/src/cra/policy.py\<close>: the recovery policy, its validation, the signed envelope and
  the rule by which an agent replaces its policy.
\<close>

section \<open>The policy\<close>

definition POLICY_SCHEMA :: string where "POLICY_SCHEMA = ''cra.policy.v1''"
definition MODES :: "string list" where "MODES = [''off'', ''dry_run'', ''enforce'']"

definition INT_FIELDS :: "(string \<times> int \<times> int) list" where
  "INT_FIELDS =
     [(''version'', 0, 2 ^ 31), (''stall_grace_sec'', 0, 600), (''stall_confirm_samples'', 2, 30),
      (''stall_lastsnd_ms'', 1000, 600000), (''stall_notsent_bytes'', 1, 2 ^ 30), (''stall_unacked'', 1, 2 ^ 20),
      (''min_ffmpeg_uptime_sec'', 0, 3600), (''cooldown_sec'', 10, 86400), (''max_per_hour'', 0, 60),
      (''max_per_day'', 0, 500), (''verify_window_sec'', 10, 600)]"

definition OPTIONAL :: "string list" where "OPTIONAL = [''stall_grace_sec'']"

record policy =
  p_version :: int
  p_mode :: string
  p_stall_confirm_samples :: int
  p_stall_lastsnd_ms :: int
  p_stall_notsent_bytes :: int
  p_stall_unacked :: int
  p_stall_grace_sec :: int
  p_min_ffmpeg_uptime_sec :: int
  p_cooldown_sec :: int
  p_max_per_hour :: int
  p_max_per_day :: int
  p_verify_window_sec :: int

definition BUILTIN :: policy where
  "BUILTIN = \<lparr>p_version = 0, p_mode = ''dry_run'', p_stall_confirm_samples = 5, p_stall_lastsnd_ms = 4000,
     p_stall_notsent_bytes = 8192, p_stall_unacked = 64, p_stall_grace_sec = 90, p_min_ffmpeg_uptime_sec = 20,
     p_cooldown_sec = 60, p_max_per_hour = 4, p_max_per_day = 12, p_verify_window_sec = 60\<rparr>"

text \<open>\<open>asdict\<close>: the integer fields with their names; \<open>getattr(Policy, name)\<close> is the default of the class.\<close>

definition int_values :: "policy \<Rightarrow> (string \<times> int) list" where
  "int_values p =
     [(''version'', p_version p), (''stall_confirm_samples'', p_stall_confirm_samples p),
      (''stall_lastsnd_ms'', p_stall_lastsnd_ms p), (''stall_notsent_bytes'', p_stall_notsent_bytes p),
      (''stall_unacked'', p_stall_unacked p), (''stall_grace_sec'', p_stall_grace_sec p),
      (''min_ffmpeg_uptime_sec'', p_min_ffmpeg_uptime_sec p), (''cooldown_sec'', p_cooldown_sec p),
      (''max_per_hour'', p_max_per_hour p), (''max_per_day'', p_max_per_day p), (''verify_window_sec'', p_verify_window_sec p)]"

definition to_dict :: "policy \<Rightarrow> py" where
  "to_dict p = PDict ((''schema'', PStr POLICY_SCHEMA) # (''version'', PInt (p_version p)) # (''mode'', PStr (p_mode p))
     # map (map_prod id PInt) (tl (int_values p)))"

definition field_default :: "string \<Rightarrow> int" where
  "field_default name = (case map_of (int_values BUILTIN) name of None \<Rightarrow> 0 | Some n \<Rightarrow> n)"

definition policy_of :: "string \<Rightarrow> (string \<times> int) list \<Rightarrow> policy" where
  "policy_of mode vals = (let f = (\<lambda>k. case map_of vals k of None \<Rightarrow> field_default k | Some n \<Rightarrow> n) in
     \<lparr>p_version = f ''version'', p_mode = mode, p_stall_confirm_samples = f ''stall_confirm_samples'',
      p_stall_lastsnd_ms = f ''stall_lastsnd_ms'', p_stall_notsent_bytes = f ''stall_notsent_bytes'',
      p_stall_unacked = f ''stall_unacked'', p_stall_grace_sec = f ''stall_grace_sec'',
      p_min_ffmpeg_uptime_sec = f ''min_ffmpeg_uptime_sec'', p_cooldown_sec = f ''cooldown_sec'',
      p_max_per_hour = f ''max_per_hour'', p_max_per_day = f ''max_per_day'', p_verify_window_sec = f ''verify_window_sec''\<rparr>)"

section \<open>Validation\<close>

fun join_comma :: "string list \<Rightarrow> string" where
  "join_comma [] = []"
| "join_comma [w] = w"
| "join_comma (w # ws) = w @ '','' @ join_comma ws"

definition known_fields :: "string list" where
  "known_fields = [''schema'', ''mode''] @ map fst INT_FIELDS"

text \<open>The loop over \<open>_INT_FIELDS\<close>.\<close>

fun int_fields :: "(string \<times> py) list \<Rightarrow> (string \<times> int \<times> int) list \<Rightarrow> (string \<times> int) list res" where
  "int_fields xs [] = Inr []"
| "int_fields xs ((name, lo, hi) # fs) =
     (if name \<in> set OPTIONAL \<and> name \<notin> fst ` set xs
      then bindE (int_fields xs fs) (\<lambda>rest. Inr ((name, field_default name) # rest))
      else (case dget xs name of
              PInt n \<Rightarrow> bindE (requireE (lo \<le> n \<and> n \<le> hi) (PolicyError (''POLICY_FIELD_INVALID:'' @ name)))
                          (\<lambda>_. bindE (int_fields xs fs) (\<lambda>rest. Inr ((name, n) # rest)))
            | _ \<Rightarrow> Inl (PolicyError (''POLICY_FIELD_INVALID:'' @ name))))"

definition parse :: "py \<Rightarrow> policy res" where
  "parse v = (case v of
       PDict xs \<Rightarrow>
         if dget xs ''schema'' \<noteq> PStr POLICY_SCHEMA then Inl (PolicyError ''POLICY_SCHEMA_INVALID'')
         else (let unknown = filter (\<lambda>k. k \<notin> set known_fields) (map fst xs) in
           if unknown \<noteq> [] then Inl (PolicyError (''POLICY_UNKNOWN_FIELDS:'' @ join_comma (sort unknown)))
           else (case dget xs ''mode'' of
               PStr mode \<Rightarrow>
                 if mode \<notin> set MODES then Inl (PolicyError ''POLICY_MODE_INVALID'')
                 else bindE (int_fields xs INT_FIELDS) (\<lambda>vals.
                   let p = policy_of mode vals in
                   if p_max_per_day p < p_max_per_hour p then Inl (PolicyError ''POLICY_DAILY_BELOW_HOURLY'') else Inr p)
             | _ \<Rightarrow> Inl (PolicyError ''POLICY_MODE_INVALID'')))
     | _ \<Rightarrow> Inl (PolicyError ''POLICY_SCHEMA_INVALID''))"

section \<open>Envelope and adoption\<close>

definition sign_envelope :: "ed25519 \<Rightarrow> string \<Rightarrow> policy \<Rightarrow> py res" where
  "sign_envelope ed key p =
     bindE (sign ed key (to_dict p)) (\<lambda>s. Inr (PDict [(''policy'', to_dict p), (''signature'', PStr s)]))"

definition open_envelope :: "ed25519 \<Rightarrow> py \<Rightarrow> string \<Rightarrow> policy res" where
  "open_envelope ed envelope public_key = (case envelope of
       PDict xs \<Rightarrow> (case dget xs ''signature'' of
           PStr s \<Rightarrow> if verify ed public_key (dget xs ''policy'') s then parse (dget xs ''policy'')
                     else Inl (PolicyError ''POLICY_SIGNATURE_INVALID'')
         | _ \<Rightarrow> Inl (PolicyError ''POLICY_ENVELOPE_INVALID''))
     | _ \<Rightarrow> Inl (PolicyError ''POLICY_ENVELOPE_INVALID''))"

definition adoption_error :: "policy option \<Rightarrow> policy \<Rightarrow> string option" where
  "adoption_error current candidate = (case current of
       None \<Rightarrow> None
     | Some c \<Rightarrow>
         if p_version candidate < p_version c then Some ''POLICY_VERSION_REGRESSION''
         else if p_version candidate = p_version c
              then (if candidate = c then None else Some ''POLICY_VERSION_REUSED'')
              else None)"

section \<open>Laws\<close>

text \<open>The well-formedness every parsed policy has: the ranges of the table, a known mode, and consistent limits.\<close>

definition wf_policy :: "policy \<Rightarrow> bool" where
  "wf_policy p \<longleftrightarrow>
     p_mode p \<in> set MODES \<and> p_max_per_hour p \<le> p_max_per_day p \<and>
     (\<forall>(name, lo, hi) \<in> set INT_FIELDS. \<exists>n. map_of (int_values p) name = Some n \<and> lo \<le> n \<and> n \<le> hi)"

definition field_val :: "(string \<times> py) list \<Rightarrow> string \<Rightarrow> int" where
  "field_val xs name =
     (if name \<in> set OPTIONAL \<and> name \<notin> fst ` set xs then field_default name
      else (case dget xs name of PInt n \<Rightarrow> n | _ \<Rightarrow> 0))"

definition field_ok :: "(string \<times> py) list \<Rightarrow> string \<Rightarrow> int \<Rightarrow> int \<Rightarrow> bool" where
  "field_ok xs name lo hi \<longleftrightarrow>
     name \<in> set OPTIONAL \<and> name \<notin> fst ` set xs \<or>
     is_int (dget xs name) \<and> lo \<le> field_val xs name \<and> field_val xs name \<le> hi"

lemma int_fields_Inr:
  "int_fields xs fs = Inr ys \<longleftrightarrow>
     ys = map (\<lambda>(name, _). (name, field_val xs name)) fs \<and> (\<forall>(name, lo, hi) \<in> set fs. field_ok xs name lo hi)"
proof (induction xs fs arbitrary: ys rule: int_fields.induct)
  case (2 xs name lo hi fs)
  show ?case
  proof (cases "name \<in> set OPTIONAL \<and> name \<notin> fst ` set xs")
    case True
    with 2(1) show ?thesis by (auto simp: field_val_def field_ok_def)
  next
    case False
    with 2(2) show ?thesis
      by (cases "dget xs name") (auto simp: field_val_def field_ok_def)
  qed
qed auto

text \<open>A parsed policy is well formed and says what the document says.\<close>

lemma default_in_range: "\<forall>(name, lo, hi) \<in> set INT_FIELDS. lo \<le> field_default name \<and> field_default name \<le> hi"
  by code_simp

lemma field_ok_range:
  assumes "field_ok xs name lo hi" and "(name, lo, hi) \<in> set INT_FIELDS"
  shows "lo \<le> field_val xs name \<and> field_val xs name \<le> hi"
proof (cases "name \<in> set OPTIONAL \<and> name \<notin> fst ` set xs")
  case True
  then have "field_val xs name = field_default name" unfolding field_val_def by (rule if_P)
  with default_in_range assms(2) show ?thesis by auto
next
  case False
  with assms(1) show ?thesis unfolding field_ok_def by blast
qed

definition policy_at :: "(string \<times> py) list \<Rightarrow> policy" where
  "policy_at xs = policy_of (case dget xs ''mode'' of PStr m \<Rightarrow> m | _ \<Rightarrow> [])
     (map (\<lambda>(name, _). (name, field_val xs name)) INT_FIELDS)"

lemma int_values_policy_at:
  "\<forall>(name, lo, hi) \<in> set INT_FIELDS. map_of (int_values (policy_at xs)) name = Some (field_val xs name)"
  by (simp add: policy_at_def policy_of_def int_values_def INT_FIELDS_def)

lemma parse_Inr:
  "parse v = Inr p \<longleftrightarrow>
     (\<exists>xs m. v = PDict xs \<and> dget xs ''schema'' = PStr POLICY_SCHEMA \<and> set (map fst xs) \<subseteq> set known_fields \<and>
        dget xs ''mode'' = PStr m \<and> m \<in> set MODES \<and> (\<forall>(name, lo, hi) \<in> set INT_FIELDS. field_ok xs name lo hi) \<and>
        p = policy_at xs \<and> p_max_per_hour p \<le> p_max_per_day p)"
  by (cases v) (auto simp: parse_def policy_at_def int_fields_Inr Let_def filter_empty_conv split: py.splits)

lemma parse_wf:
  assumes "parse v = Inr p"
  shows "wf_policy p"
proof -
  from assms obtain xs m where m: "dget xs ''mode'' = PStr m" "m \<in> set MODES"
    and ok: "\<forall>(name, lo, hi) \<in> set INT_FIELDS. field_ok xs name lo hi"
    and p: "p = policy_at xs" "p_max_per_hour p \<le> p_max_per_day p"
    unfolding parse_Inr by blast
  have "p_mode p = m" using p m by (simp add: policy_at_def policy_of_def Let_def)
  moreover have "\<exists>n. map_of (int_values p) name = Some n \<and> lo \<le> n \<and> n \<le> hi"
    if "(name, lo, hi) \<in> set INT_FIELDS" for name lo hi
    using that ok int_values_policy_at [of xs] field_ok_range [of xs name lo hi] p by blast
  ultimately show ?thesis using m p unfolding wf_policy_def by blast
qed

lemma parse_raises: "parse v = Inl e \<Longrightarrow> \<exists>s. e = PolicyError s"
proof -
  have "int_fields xs fs = Inl e' \<Longrightarrow> \<exists>s. e' = PolicyError s" for xs fs e'
    by (induction xs fs rule: int_fields.induct) (auto simp: bindE_eq_Inl split: if_splits py.splits)
  then show "parse v = Inl e \<Longrightarrow> \<exists>s. e = PolicyError s"
    by (auto simp: parse_def bindE_eq_Inl Let_def split: if_splits py.splits)
qed

lemma open_envelope_raises: "open_envelope ed v pub = Inl e \<Longrightarrow> \<exists>s. e = PolicyError s"
  by (auto simp: open_envelope_def split: py.splits if_splits dest: parse_raises)

lemma open_envelope_wf: "open_envelope ed v pub = Inr p \<Longrightarrow> wf_policy p"
  by (auto simp: open_envelope_def split: py.splits if_splits dest: parse_wf)

lemma wf_BUILTIN: "wf_policy BUILTIN"
  by (auto simp: wf_policy_def BUILTIN_def MODES_def INT_FIELDS_def int_values_def)

lemma parse_to_dict:
  assumes wf: "wf_policy p"
  shows "parse (to_dict p) = Inr p"
  unfolding parse_Inr
proof (intro exI conjI)
  let ?xs = "(''schema'', PStr POLICY_SCHEMA) # (''version'', PInt (p_version p)) # (''mode'', PStr (p_mode p))
     # map (map_prod id PInt) (tl (int_values p))"
  show "to_dict p = PDict ?xs" by (simp add: to_dict_def)
  show "dget ?xs ''schema'' = PStr POLICY_SCHEMA" "dget ?xs ''mode'' = PStr (p_mode p)" by (simp_all add: dget_def)
  show "p_mode p \<in> set MODES" "p_max_per_hour p \<le> p_max_per_day p" using wf by (simp_all add: wf_policy_def)
  show "\<forall>(name, lo, hi) \<in> set INT_FIELDS. field_ok ?xs name lo hi"
    using wf by (simp add: wf_policy_def INT_FIELDS_def int_values_def field_ok_def field_val_def dget_def)
  show "p = policy_at ?xs"
    by (simp add: policy_at_def policy_of_def INT_FIELDS_def int_values_def field_val_def dget_def Let_def)
  show "set (map fst ?xs) \<subseteq> set known_fields"
    by (simp add: known_fields_def INT_FIELDS_def int_values_def)
qed

lemma sign_envelope_total: "\<exists>envelope. sign_envelope ed key p = Inr envelope"
  by (simp add: sign_envelope_def sign_def canonical_def to_dict_def int_values_def)

lemma envelope_opens:
  assumes "key_pair ed key pub" and "wf_policy p" and "sign_envelope ed key p = Inr envelope"
  shows "open_envelope ed envelope pub = Inr p"
proof -
  from assms(3) obtain s where s: "sign ed key (to_dict p) = Inr s"
    and e: "envelope = PDict [(''policy'', to_dict p), (''signature'', PStr s)]" by (auto simp: sign_envelope_def)
  from verify_sign [OF assms(1) s] parse_to_dict [OF assms(2)] e show ?thesis by (simp add: open_envelope_def dget_def)
qed

text \<open>C35: Validation is sound and printing is its inverse. A document that passes \<open>parse\<close> yields a policy whose
  mode is known, whose integer fields lie in the ranges of the table and whose daily limit is not below the
  hourly one; every such policy is printed by \<open>to_dict\<close> to a document that parses back to it, and once signed
  its envelope opens, under the matching public key, to the same policy.
\<close>

theorem policy_roundtrip:
  assumes "key_pair ed key pub"
  shows "wf_policy p \<longleftrightarrow> (\<exists>envelope. sign_envelope ed key p = Inr envelope \<and> open_envelope ed envelope pub = Inr p)"
  using sign_envelope_total envelope_opens [OF assms] open_envelope_wf by blast

definition toy_ed :: ed25519 where
  "toy_ed = \<lparr>ed_sign = (\<lambda>key m. key), ed_check = (\<lambda>pub s m. if s = pub then Inr () else Inl (ValueError ''InvalidSignature''))\<rparr>"

lemma toy_key_pair: "key_pair toy_ed k k"
  by (simp add: key_pair_def toy_ed_def)

theorem policy_roundtrip_witness:
  "wf_policy BUILTIN \<longleftrightarrow>
     (\<exists>envelope. sign_envelope toy_ed ''k'' BUILTIN = Inr envelope \<and> open_envelope toy_ed envelope ''k'' = Inr BUILTIN)"
  by (rule policy_roundtrip [OF toy_key_pair])

end
