(* ===== verification/Cra_Decide.thy ===== *)
theory Cra_Decide
  imports Cra_Observe Cra_Policy "HOL-Library.Sublist"
begin

text \<open>
  \<open>recovery-control/src/cra/decide.py\<close>: the stall tracker and the pure decision. The laws say what a
  streak of stalled samples proves about the observations that were read, and when the decision asks
  for a restart.
\<close>

section \<open>Stall tracking\<close>

record tracker =
  k_generation_key :: string
  k_last_sequence :: int
  k_last_bytes_sent :: int
  k_last_bytes_acked :: "int option"
  k_streak :: nat
  k_stall_started_at :: "instant option"
  k_last_observed_at :: "instant option"
  k_identity :: "identity option"
  k_criteria :: "int list"

definition tracker_reset :: tracker where
  "tracker_reset = \<lparr>k_generation_key = [], k_last_sequence = 0, k_last_bytes_sent = -1, k_last_bytes_acked = None, k_streak = 0,
     k_stall_started_at = None, k_last_observed_at = None, k_identity = None, k_criteria = []\<rparr>"

definition stall_sample :: "tcp_metrics \<Rightarrow> int \<Rightarrow> int option \<Rightarrow> policy \<Rightarrow> bool" where
  "stall_sample tcp last_bytes_sent last_bytes_acked p \<longleftrightarrow>
     (let pressure = t_notsent tcp \<ge> p_stall_notsent_bytes p \<or> t_unacked tcp \<ge> p_stall_unacked p in
      case (t_bytes_acked tcp, last_bytes_acked) of
        (Some a, Some b) \<Rightarrow> pressure \<and> a = b
      | _ \<Rightarrow> pressure \<and> last_bytes_sent \<ge> 0 \<and> t_bytes_sent tcp = last_bytes_sent \<and> t_lastsnd_ms tcp \<ge> p_stall_lastsnd_ms p)"

definition criteria_of :: "policy \<Rightarrow> int list" where
  "criteria_of p = [p_stall_lastsnd_ms p, p_stall_notsent_bytes p, p_stall_unacked p, p_stall_confirm_samples p]"

definition sent_of :: "observation \<Rightarrow> int" where
  "sent_of obs = (case o_tcp obs of None \<Rightarrow> -1 | Some t \<Rightarrow> t_bytes_sent t)"

definition acked_of :: "observation \<Rightarrow> int option" where
  "acked_of obs = (case o_tcp obs of None \<Rightarrow> None | Some t \<Rightarrow> t_bytes_acked t)"

definition tracker_gap :: "tracker \<Rightarrow> observation \<Rightarrow> seconds" where
  "tracker_gap t obs = (case k_last_observed_at t of None \<Rightarrow> 0 | Some u \<Rightarrow> total_seconds (o_observed_at obs - u))"

definition breaks :: "pylib \<Rightarrow> tracker \<Rightarrow> observation \<Rightarrow> policy \<Rightarrow> seconds \<Rightarrow> bool" where
  "breaks lib t obs p max_gap \<longleftrightarrow>
     (case k_identity t of None \<Rightarrow> True | Some i \<Rightarrow> \<not> identity_eq (transport_identity lib obs) i) \<or>
     o_sequence obs < k_last_sequence t \<or> tracker_gap t obs < 0 \<or> tracker_gap t obs > max_gap \<or> criteria_of p \<noteq> k_criteria t"

definition tracker_update :: "pylib \<Rightarrow> tracker \<Rightarrow> observation \<Rightarrow> policy \<Rightarrow> seconds \<Rightarrow> (bool \<times> nat) \<times> tracker" where
  "tracker_update lib t obs p max_gap =
     (if breaks lib t obs p max_gap
      then ((False, 0),
        \<lparr>k_generation_key = generation_key obs, k_last_sequence = o_sequence obs, k_last_bytes_sent = sent_of obs,
         k_last_bytes_acked = acked_of obs, k_streak = 0, k_stall_started_at = None, k_last_observed_at = Some (o_observed_at obs),
         k_identity = Some (transport_identity lib obs), k_criteria = criteria_of p\<rparr>)
      else if o_sequence obs = k_last_sequence t then ((k_streak t > 0, k_streak t), t)
      else
        (let stalled = (case o_tcp obs of None \<Rightarrow> False | Some tcp \<Rightarrow> stall_sample tcp (k_last_bytes_sent t) (k_last_bytes_acked t) p);
             started = (if stalled \<and> k_streak t = 0 then k_last_observed_at t
                        else if \<not> stalled then None else k_stall_started_at t);
             streak = (if stalled then k_streak t + 1 else 0)
         in ((stalled, streak),
             t\<lparr>k_stall_started_at := started, k_last_sequence := o_sequence obs, k_last_observed_at := Some (o_observed_at obs),
               k_last_bytes_sent := sent_of obs, k_last_bytes_acked := acked_of obs, k_streak := streak\<rparr>)))"

definition stall_duration :: "tracker \<Rightarrow> instant \<Rightarrow> seconds" where
  "stall_duration t now = (case k_stall_started_at t of
     None \<Rightarrow> 0 | Some u \<Rightarrow> if k_streak t = 0 then 0 else max 0 (total_seconds (now - u)))"

section \<open>The decision\<close>

record history =
  h_generation_already_acted :: bool
  h_last_action_at :: "instant option"
  h_actions_last_hour :: nat
  h_actions_last_day :: nat

datatype outcome = RESTART | WOULD_RESTART | NONE

record decision =
  d_outcome :: outcome
  d_reason :: string
  d_blockers :: "string list"

definition refuse :: "string \<Rightarrow> string list \<Rightarrow> decision" where
  "refuse reason bs = \<lparr>d_outcome = NONE, d_reason = reason, d_blockers = bs\<rparr>"

fun outcome_name :: "outcome \<Rightarrow> string" where
  "outcome_name RESTART = ''RESTART''" | "outcome_name WOULD_RESTART = ''WOULD_RESTART''" | "outcome_name NONE = ''NONE''"

definition summary :: "decision \<Rightarrow> string" where
  "summary d = outcome_name (d_outcome d) @ '':'' @ d_reason d @ '':'' @ join_comma (d_blockers d)"

definition not_running :: "observation \<Rightarrow> bool" where
  "not_running obs \<longleftrightarrow> \<not> o_ffmpeg_running obs \<or> o_ffmpeg_generation obs = [] \<or> o_pod_uid obs = []"

definition network_blockers :: "network option \<Rightarrow> string list" where
  "network_blockers net = (case net of
       None \<Rightarrow> [''NETWORK_NOT_PROBED'']
     | Some n \<Rightarrow> if n_timed_out n then [''NETWORK_PROBE_TIMEOUT'']
                 else if network_down n then [''NETWORK_DOWN'']
                 else if \<not> n_ingest_ok n then [''INGEST_UNREACHABLE''] else [])"

definition block_if :: "bool \<Rightarrow> string \<Rightarrow> string list" where
  "block_if c s = (if c then [s] else [])"

definition cooling :: "instant \<Rightarrow> history \<Rightarrow> policy \<Rightarrow> bool" where
  "cooling now h p = (case h_last_action_at h of None \<Rightarrow> False | Some u \<Rightarrow> total_seconds (now - u) < of_int (p_cooldown_sec p))"

definition context_missing :: "observation \<Rightarrow> bool" where
  "context_missing obs \<longleftrightarrow>
     o_executor_instance_id obs = [] \<or> \<not> py_truthy (dget (o_raw obs) ''delivery_route'') \<or>
     \<not> is_int (dget (o_raw obs) ''delivery_route_generation'') \<or> int_of (dget (o_raw obs) ''delivery_route_generation'') < 1"

definition blockers_of ::
    "instant \<Rightarrow> observation \<Rightarrow> network option \<Rightarrow> history \<Rightarrow> policy \<Rightarrow> string \<Rightarrow> int \<Rightarrow> bool \<Rightarrow> string list" where
  "blockers_of now obs net h p producer_id producer_generation stop =
     network_blockers net
     @ block_if (not_running obs) ''FFMPEG_NOT_RUNNING''
     @ block_if (\<not> o_target_valid obs) ''TARGET_UNAVAILABLE''
     @ block_if (dget (o_raw obs) ''runtime_lifecycle_state'' \<notin> {PNone, PStr ''FFMPEG_RUNNING''}) ''FFMPEG_NOT_IN_RUNNING_STATE''
     @ block_if (o_ffmpeg_uptime_sec obs < p_min_ffmpeg_uptime_sec p) ''FFMPEG_TOO_YOUNG''
     @ block_if (o_in_flight_count obs \<noteq> 0) ''EXECUTOR_IN_FLIGHT''
     @ block_if (h_generation_already_acted h) ''GENERATION_ALREADY_ACTED''
     @ block_if (cooling now h p) ''COOLDOWN''
     @ block_if (int (h_actions_last_hour h) \<ge> p_max_per_hour p) ''HOURLY_LIMIT''
     @ block_if (int (h_actions_last_day h) \<ge> p_max_per_day p) ''DAILY_LIMIT''
     @ block_if stop ''LOCAL_STOP''
     @ block_if (p_mode p = ''off'') ''MODE_OFF''
     @ block_if (p_mode p = ''enforce'' \<and> (o_active_producer_id obs \<noteq> producer_id \<or> o_active_producer_generation obs \<noteq> producer_generation))
         ''NOT_EXECUTOR_AUTHORITY''
     @ block_if (p_mode p = ''enforce'' \<and> context_missing obs) ''RUNTIME_CONTEXT_UNAVAILABLE''"

definition decide ::
    "instant \<Rightarrow> observation \<Rightarrow> nat \<Rightarrow> seconds \<Rightarrow> network option \<Rightarrow> history \<Rightarrow> policy \<Rightarrow> string \<Rightarrow> int \<Rightarrow> bool \<Rightarrow> decision" where
  "decide now obs streak duration net h p producer_id producer_generation stop =
     (if int streak < p_stall_confirm_samples p then
        (if not_running obs then refuse ''FFMPEG_NOT_RUNNING'' []
         else if \<not> o_target_valid obs then refuse ''TARGET_UNAVAILABLE'' []
         else refuse (if streak \<noteq> 0 then ''STALL_UNCONFIRMED'' else if o_tcp obs = None then ''NO_TCP_METRICS'' else ''HEALTHY'') [])
      else if duration < of_int (p_stall_grace_sec p) then refuse ''STALL_CONFIRMED'' [''WITHIN_ENGINE_GRACE'']
      else (let bs = blockers_of now obs net h p producer_id producer_generation stop in
        if bs \<noteq> [] then refuse ''STALL_CONFIRMED'' bs
        else \<lparr>d_outcome = if p_mode p = ''enforce'' then RESTART else WOULD_RESTART, d_reason = ''STALL_CONFIRMED'', d_blockers = []\<rparr>))"

section \<open>Laws of the decision\<close>

lemma block_if_Nil [simp]: "block_if c s = [] \<longleftrightarrow> \<not> c" by (simp add: block_if_def)

lemma network_blockers_Nil:
  "network_blockers net = [] \<longleftrightarrow> (\<exists>n. net = Some n \<and> \<not> n_timed_out n \<and> \<not> network_down n \<and> n_ingest_ok n)"
  by (auto simp: network_blockers_def split: option.splits)

text \<open>What holds whenever an action, real or simulated, is asked for.\<close>

definition action_warranted ::
    "instant \<Rightarrow> observation \<Rightarrow> nat \<Rightarrow> seconds \<Rightarrow> network option \<Rightarrow> history \<Rightarrow> policy \<Rightarrow> bool" where
  "action_warranted now obs streak duration net h p \<longleftrightarrow>
     p_stall_confirm_samples p \<le> int streak \<and> of_int (p_stall_grace_sec p) \<le> duration \<and>
     (\<exists>n. net = Some n \<and> \<not> n_timed_out n \<and> \<not> network_down n \<and> n_ingest_ok n) \<and>
     o_ffmpeg_running obs \<and> o_ffmpeg_generation obs \<noteq> [] \<and> o_pod_uid obs \<noteq> [] \<and> o_target_valid obs \<and>
     p_min_ffmpeg_uptime_sec p \<le> o_ffmpeg_uptime_sec obs \<and> o_in_flight_count obs = 0 \<and>
     \<not> h_generation_already_acted h \<and> \<not> cooling now h p \<and>
     int (h_actions_last_hour h) < p_max_per_hour p \<and> int (h_actions_last_day h) < p_max_per_day p \<and> p_mode p \<noteq> ''off''"

lemma decide_acts:
  assumes "d_outcome (decide now obs streak duration net h p pid pgen stop) \<noteq> NONE"
  shows "action_warranted now obs streak duration net h p \<and> \<not> stop"
  using assms
  by (auto simp: decide_def refuse_def Let_def blockers_of_def action_warranted_def not_running_def network_blockers_Nil split: if_splits)

lemma decide_restart:
  assumes "d_outcome (decide now obs streak duration net h p pid pgen stop) = RESTART"
  shows "p_mode p = ''enforce'' \<and> o_active_producer_id obs = pid \<and> o_active_producer_generation obs = pgen \<and> \<not> context_missing obs"
  using assms by (auto simp: decide_def refuse_def Let_def blockers_of_def split: if_splits)

lemma decide_would:
  assumes "d_outcome (decide now obs streak duration net h p pid pgen stop) = WOULD_RESTART"
  shows "p_mode p \<noteq> ''enforce''"
  using assms by (auto simp: decide_def refuse_def Let_def split: if_splits)

section \<open>What a streak proves\<close>

text \<open>The tracker sees samples (with the policy in force) and cycles without an observation, which reset it.\<close>

datatype reading = Sample observation policy | Unavailable

fun tracker_step :: "pylib \<Rightarrow> seconds \<Rightarrow> tracker \<Rightarrow> reading \<Rightarrow> tracker" where
  "tracker_step lib g t (Sample obs p) = snd (tracker_update lib t obs p g)"
| "tracker_step lib g t Unavailable = tracker_reset"

fun samples :: "reading list \<Rightarrow> observation list" where
  "samples [] = []"
| "samples (Sample obs p # rs) = obs # samples rs"
| "samples (Unavailable # rs) = samples rs"

lemma samples_append [simp]: "samples (xs @ ys) = samples xs @ samples ys"
  by (induction xs rule: samples.induct) auto

text \<open>
  \<open>stalled_pair\<close>: the second sample is later evidence (larger sequence number, at most \<open>g\<close> seconds after the first) and shows
  no progress over the first under the criteria \<open>cr\<close>.
\<close>

definition stalled_pair :: "int list \<Rightarrow> seconds \<Rightarrow> observation \<Rightarrow> observation \<Rightarrow> bool" where
  "stalled_pair cr g a b \<longleftrightarrow>
     o_sequence a < o_sequence b \<and>
     0 \<le> total_seconds (o_observed_at b - o_observed_at a) \<and> total_seconds (o_observed_at b - o_observed_at a) \<le> g \<and>
     (\<exists>tcp p. o_tcp b = Some tcp \<and> criteria_of p = cr \<and> stall_sample tcp (sent_of a) (acked_of a) p)"

definition same_transport :: "pylib \<Rightarrow> identity \<Rightarrow> observation \<Rightarrow> bool" where
  "same_transport lib i obs \<longleftrightarrow> transport_identity lib obs = i \<or> identity_eq (transport_identity lib obs) i"

definition run_of :: "pylib \<Rightarrow> seconds \<Rightarrow> tracker \<Rightarrow> identity \<Rightarrow> observation list \<Rightarrow> bool" where
  "run_of lib g t i ss \<longleftrightarrow>
     length ss = k_streak t + 1 \<and> successively (stalled_pair (k_criteria t) g) ss \<and> list_all (same_transport lib i) ss \<and>
     k_identity t = Some i \<and> k_last_sequence t = o_sequence (last ss) \<and> k_last_bytes_sent t = sent_of (last ss) \<and>
     k_last_bytes_acked t = acked_of (last ss) \<and> k_last_observed_at t = Some (o_observed_at (last ss)) \<and>
     k_stall_started_at t = (if k_streak t = 0 then None else Some (o_observed_at (hd ss)))"

lemma tracker_update_cases:
  obtains (broken) "breaks lib t obs p g" "k_streak (snd (tracker_update lib t obs p g)) = 0"
      "run_of lib g (snd (tracker_update lib t obs p g)) (transport_identity lib obs) [obs]"
  | (repeated) "\<not> breaks lib t obs p g" "snd (tracker_update lib t obs p g) = t"
  | (progress) "\<not> breaks lib t obs p g" "o_sequence obs > k_last_sequence t"
      "\<not> (\<exists>tcp. o_tcp obs = Some tcp \<and> stall_sample tcp (k_last_bytes_sent t) (k_last_bytes_acked t) p)"
  | (stalled) tcp where "\<not> breaks lib t obs p g" "o_sequence obs > k_last_sequence t" "o_tcp obs = Some tcp"
      "stall_sample tcp (k_last_bytes_sent t) (k_last_bytes_acked t) p"
proof (cases "breaks lib t obs p g")
  case True
  then show thesis by (intro broken) (simp_all add: tracker_update_def run_of_def same_transport_def)
next
  case False
  then have le: "k_last_sequence t \<le> o_sequence obs" by (auto simp: breaks_def)
  show thesis
  proof (cases "o_sequence obs = k_last_sequence t")
    case True
    with False show thesis by (intro repeated) (simp_all add: tracker_update_def)
  next
    case f2: False
    with False le progress stalled show thesis by force
  qed
qed

lemma run_of_step:
  assumes "run_of lib g t i ss"
  shows "\<exists>j ss'. run_of lib g (snd (tracker_update lib t obs p g)) j ss' \<and> (ss' = ss \<or> ss' = ss @ [obs] \<or> ss' = [obs])"
proof (cases rule: tracker_update_cases [where lib = lib and t = t and obs = obs and p = p and g = g])
  case broken
  then show ?thesis by blast
next
  case repeated
  with assms show ?thesis by metis
next
  case progress
  then have i: "identity_eq (transport_identity lib obs) i" using assms by (simp add: breaks_def run_of_def)
  have "run_of lib g (snd (tracker_update lib t obs p g)) i [obs]"
    using progress i assms by (auto simp: run_of_def tracker_update_def same_transport_def Let_def split: option.splits)
  then show ?thesis by blast
next
  case (stalled tcp)
  from assms have ss: "ss \<noteq> []" and last: "k_last_observed_at t = Some (o_observed_at (last ss))"
    by (auto simp: run_of_def)
  from stalled(1) assms have i: "identity_eq (transport_identity lib obs) i"
    and g: "0 \<le> tracker_gap t obs" "tracker_gap t obs \<le> g" and cr: "criteria_of p = k_criteria t"
    by (auto simp: breaks_def run_of_def)
  have "stalled_pair (k_criteria t) g (last ss) obs"
    using stalled g cr assms last by (auto simp: stalled_pair_def tracker_gap_def run_of_def)
  with assms ss have "successively (stalled_pair (k_criteria t) g) (ss @ [obs])"
    by (simp add: run_of_def successively_append_iff)
  then have "run_of lib g (snd (tracker_update lib t obs p g)) i (ss @ [obs])"
    using stalled i assms ss
    by (auto simp: run_of_def tracker_update_def same_transport_def Let_def) (cases ss, auto)+
  then show ?thesis by blast
qed

lemma tracker_run:
  "run (tracker_step lib g) tracker_reset rs = tracker_reset \<or>
   (\<exists>i ss. run_of lib g (run (tracker_step lib g) tracker_reset rs) i ss \<and> subseq ss (samples rs))"
proof (induction rs rule: rev_induct)
  case (snoc r rs)
  let ?t = "run (tracker_step lib g) tracker_reset rs"
  show ?case
  proof (cases r)
    case (Sample obs p)
    have one: "subseq [obs] (samples rs @ [obs])" by (simp add: subseq_singleton_left)
    from snoc.IH show ?thesis
    proof
      assume "?t = tracker_reset"
      moreover have "breaks lib tracker_reset obs p g" by (simp add: breaks_def tracker_reset_def)
      ultimately have "run_of lib g (snd (tracker_update lib ?t obs p g)) (transport_identity lib obs) [obs]"
        by (simp add: tracker_update_def run_of_def same_transport_def)
      with Sample one show ?thesis by auto
    next
      assume "\<exists>i ss. run_of lib g ?t i ss \<and> subseq ss (samples rs)"
      then obtain i ss where r: "run_of lib g ?t i ss" and s: "subseq ss (samples rs)" by blast
      from s have "subseq ss (samples rs @ [obs])" "subseq (ss @ [obs]) (samples rs @ [obs])"
        by (simp_all add: subseq_rev_drop_many)
      with run_of_step [OF r, of obs p] one
      have "\<exists>j ss'. run_of lib g (snd (tracker_update lib ?t obs p g)) j ss' \<and> subseq ss' (samples rs @ [obs])" by blast
      with Sample show ?thesis by simp
    qed
  qed simp
qed simp

text \<open>C24: A streak is evidence, not a counter. If, after any sequence of samples and interruptions, the tracker reports a
  streak of \<open>n > 0\<close>, then \<open>n + 1\<close> of the samples it read, in order, form an unbroken run: all on one transport identity, with
  strictly increasing sequence numbers, adjacent ones at most the allowed gap apart, and each showing no progress over its
  predecessor under one set of stall criteria. The reported start of the stall is the observation time of the first of them,
  so the stall duration is a lower bound measured between two real samples.\<close>

theorem streak_is_evidence:
  assumes "k_streak (run (tracker_step lib g) tracker_reset rs) = n" and "n > 0"
  shows "\<exists>ss i cr. subseq ss (samples rs) \<and> length ss = n + 1 \<and> successively (stalled_pair cr g) ss \<and>
     list_all (same_transport lib i) ss \<and>
     stall_duration (run (tracker_step lib g) tracker_reset rs) (o_observed_at (last ss)) =
       max 0 (total_seconds (o_observed_at (last ss) - o_observed_at (hd ss)))"
proof -
  let ?t = "run (tracker_step lib g) tracker_reset rs"
  from assms have "?t \<noteq> tracker_reset" by (auto simp: tracker_reset_def)
  with tracker_run [of lib g rs] obtain i ss where r: "run_of lib g ?t i ss" and s: "subseq ss (samples rs)" by blast
  with assms show ?thesis
    by (intro exI [of _ ss] exI [of _ i] exI [of _ "k_criteria ?t"]) (simp add: run_of_def stall_duration_def)
qed

definition ex_obs :: "int \<Rightarrow> instant \<Rightarrow> observation" where
  "ex_obs q at0 = \<lparr>o_observation_id = ''o'', o_executor_instance_id = ''x1'', o_sequence = q, o_observed_at = at0, o_pod_uid = ''pod'',
     o_ffmpeg_generation = ''g1'', o_ffmpeg_running = True, o_ffmpeg_uptime_sec = 500, o_active_producer_id = ''cra'',
     o_active_producer_generation = 1, o_in_flight_count = 0, o_target_valid = True,
     o_tcp = Some \<lparr>t_bytes_sent = 100, t_notsent = 9000, t_unacked = 80, t_lastsnd_ms = 5000, t_bytes_acked = Some 40\<rparr>,
     o_raw = [(''delivery_route'', PStr ''PRIMARY''), (''delivery_route_generation'', PInt 1)]\<rparr>"

lemma ex_streak: "k_streak (run (tracker_step ex_lib 5) tracker_reset
    [Sample (ex_obs 1 0) BUILTIN, Sample (ex_obs 2 2000000) BUILTIN, Unavailable,
     Sample (ex_obs 3 4000000) BUILTIN, Sample (ex_obs 4 6000000) BUILTIN, Sample (ex_obs 4 6000000) BUILTIN,
     Sample (ex_obs 5 8000000) BUILTIN]) = 2"
  by code_simp

theorem streak_is_evidence_witness:
  "\<exists>ss i cr. length ss = 3 \<and> successively (stalled_pair cr 5) ss \<and> list_all (same_transport ex_lib i) ss \<and>
     subseq ss [ex_obs 1 0, ex_obs 2 2000000, ex_obs 3 4000000, ex_obs 4 6000000, ex_obs 4 6000000, ex_obs 5 8000000]"
  using streak_is_evidence [OF ex_streak] by auto

end
