(* ===== verification/Cra_Store.thy ===== *)
theory Cra_Store
  imports Cra_Decide
begin

text \<open>
  \<open>recovery-control/src/cra/store.py\<close>: the agent's SQLite database. A table is the list of its rows in
  key order with the counter SQLite keeps for AUTOINCREMENT; a method is the function its transaction
  computes. A text column that holds JSON is represented by the value the text denotes; a time stamp
  column by the instant it names (all stamps are UTC with the same precision, so the order of the texts
  is the order of the instants).

  The triggers that refuse UPDATE and DELETE on \<open>audit\<close> are a fact about the model: no operation changes
  an audit row, which the interface locale \<open>append_only\<close> states and the interpretation proves.
\<close>

section \<open>Tables\<close>

record audit_row =
  a_seq :: int
  a_ts :: instant
  a_kind :: string
  a_payload :: py

record action_row =
  ac_id :: int
  ac_generation_key :: string
  ac_mode :: string
  ac_request_id :: string
  ac_policy_version :: int
  ac_created_at :: instant
  ac_bytes_sent :: int
  ac_state :: string
  ac_response :: "py option"
  ac_verify_result :: "string option"
  ac_verified_at :: "instant option"

record agent_db =
  db_audit :: "audit_row list"
  db_audit_last :: int
  db_actions :: "action_row list"
  db_actions_last :: int
  db_kv :: "(string \<times> py) list"

text \<open>\<open>isoformat(timespec="milliseconds")\<close> drops the microseconds below a millisecond.\<close>

definition ts_ms :: "instant \<Rightarrow> instant" where
  "ts_ms t = t - t mod 1000"

definition db_empty :: agent_db where
  "db_empty = \<lparr>db_audit = [], db_audit_last = 0, db_actions = [], db_actions_last = 0, db_kv = []\<rparr>"

text \<open>Opening the database: an existing one is left as it is, except that a missing \<open>instance_id\<close> is filled in.\<close>

definition db_open :: "string \<Rightarrow> agent_db \<Rightarrow> agent_db" where
  "db_open fresh_uuid db =
     (if ''instance_id'' \<in> fst ` set (db_kv db) then db
      else db\<lparr>db_kv := db_kv db @ [(''instance_id'', PStr fresh_uuid)]\<rparr>)"

definition kv_get :: "string \<Rightarrow> agent_db \<Rightarrow> py option" where
  "kv_get key db = map_of (db_kv db) key"

definition db_append :: "instant \<Rightarrow> string \<Rightarrow> (string \<times> py) list \<Rightarrow> agent_db \<Rightarrow> int \<times> agent_db" where
  "db_append now kind payload db =
     (let seq = db_audit_last db + 1 in
      (seq, db\<lparr>db_audit := db_audit db @ [\<lparr>a_seq = seq, a_ts = ts_ms now, a_kind = kind, a_payload = jnorm (PDict payload)\<rparr>],
               db_audit_last := seq\<rparr>))"

definition db_log :: "instant \<Rightarrow> string \<Rightarrow> (string \<times> py) list \<Rightarrow> agent_db \<Rightarrow> agent_db" where
  "db_log now kind payload db = snd (db_append now kind payload db)"

section \<open>Audit\<close>

definition read_audit :: "int \<Rightarrow> nat \<Rightarrow> agent_db \<Rightarrow> audit_row list" where
  "read_audit after_seq limit db = take limit (filter (\<lambda>r. a_seq r > after_seq) (db_audit db))"

definition last_seq :: "agent_db \<Rightarrow> int" where
  "last_seq db = (if db_audit db = [] then 0 else Max (set (map a_seq (db_audit db))))"

section \<open>Actions\<close>

definition conflicting :: "string \<Rightarrow> string \<Rightarrow> agent_db \<Rightarrow> bool" where
  "conflicting gk mode db \<longleftrightarrow>
     mode \<notin> {''dry_run'', ''enforce''} \<or> list_ex (\<lambda>r. ac_generation_key r = gk \<and> ac_mode r = mode) (db_actions db)"

record reservation =
  rv_generation_key :: string
  rv_mode :: string
  rv_request_id :: string
  rv_policy_version :: int
  rv_bytes_sent :: int
  rv_evidence :: py

definition action_of :: "instant \<Rightarrow> reservation \<Rightarrow> int \<Rightarrow> action_row" where
  "action_of now v i = \<lparr>ac_id = i, ac_generation_key = rv_generation_key v, ac_mode = rv_mode v, ac_request_id = rv_request_id v,
     ac_policy_version = rv_policy_version v, ac_created_at = ts_ms now, ac_bytes_sent = rv_bytes_sent v, ac_state = ''RESERVED'',
     ac_response = None, ac_verify_result = None, ac_verified_at = None\<rparr>"

definition reserve_action :: "instant \<Rightarrow> reservation \<Rightarrow> agent_db \<Rightarrow> int option \<times> agent_db" where
  "reserve_action now v db =
     (if conflicting (rv_generation_key v) (rv_mode v) db then (None, db)
      else (let i = db_actions_last db + 1 in
        (Some i, db_log now ''action_reserved''
           [(''action_id'', PInt i), (''generation_key'', PStr (rv_generation_key v)), (''mode'', PStr (rv_mode v)),
            (''request_id'', PStr (rv_request_id v)), (''policy_version'', PInt (rv_policy_version v)), (''evidence'', rv_evidence v)]
           (db\<lparr>db_actions := db_actions db @ [action_of now v i], db_actions_last := i\<rparr>))))"

text \<open>\<open>UPDATE actions SET ... WHERE id = ? AND ...\<close>.\<close>

definition update_actions :: "(action_row \<Rightarrow> bool) \<Rightarrow> (action_row \<Rightarrow> action_row) \<Rightarrow> agent_db \<Rightarrow> agent_db" where
  "update_actions c f db = db\<lparr>db_actions := map (\<lambda>r. if c r then f r else r) (db_actions db)\<rparr>"

definition complete_action :: "instant \<Rightarrow> int \<Rightarrow> string \<Rightarrow> (string \<times> py) list \<Rightarrow> agent_db \<Rightarrow> agent_db" where
  "complete_action now i state response db =
     db_log now ''action_result'' [(''action_id'', PInt i), (''state'', PStr state), (''response'', PDict response)]
       (update_actions (\<lambda>r. ac_id r = i \<and> ac_state r = ''RESERVED'')
          (\<lambda>r. r\<lparr>ac_state := state, ac_response := Some (jnorm (PDict response))\<rparr>) db)"

definition record_verification :: "instant \<Rightarrow> int \<Rightarrow> string \<Rightarrow> (string \<times> py) list \<Rightarrow> agent_db \<Rightarrow> agent_db" where
  "record_verification now i result detail db =
     db_log now ''action_verified'' (aupdate [(''action_id'', PInt i), (''result'', PStr result)] detail)
       (update_actions (\<lambda>r. ac_id r = i \<and> ac_verify_result r = None)
          (\<lambda>r. r\<lparr>ac_verify_result := Some result, ac_verified_at := Some (ts_ms now)\<rparr>) db)"

definition reconcile_observed_action :: "instant \<Rightarrow> int \<Rightarrow> (string \<times> py) list \<Rightarrow> agent_db \<Rightarrow> agent_db" where
  "reconcile_observed_action now i response db =
     (let c = (\<lambda>r. ac_id r = i \<and> ac_state r = ''OUTCOME_UNKNOWN'') in
      if list_ex c (db_actions db)
      then db_log now ''action_reconciled''
             [(''action_id'', PInt i), (''previous_state'', PStr ''OUTCOME_UNKNOWN''), (''state'', PStr ''EFFECT_OBSERVED''),
              (''response'', PDict response)]
             (update_actions c (\<lambda>r. r\<lparr>ac_state := ''EFFECT_OBSERVED'', ac_response := Some (jnorm (PDict response))\<rparr>) db)
      else db)"

definition resumed_enforce_actions :: "agent_db \<Rightarrow> (int \<times> string) list" where
  "resumed_enforce_actions db =
     map (\<lambda>r. (ac_id r, ac_request_id r))
       (filter (\<lambda>r. ac_mode r = ''enforce'' \<and> ac_verify_result r = Some ''DELIVERY_RESUMED'') (db_actions db))"

definition unverified_actions :: "agent_db \<Rightarrow> action_row list" where
  "unverified_actions db = filter (\<lambda>r. ac_verify_result r = None) (db_actions db)"

definition HOUR :: int where "HOUR = 3600000000"
definition DAY :: int where "DAY = 86400000000"

definition count_since :: "action_row list \<Rightarrow> string \<Rightarrow> instant \<Rightarrow> nat" where
  "count_since rows mode since = length (filter (\<lambda>r. ac_mode r = mode \<and> ac_created_at r \<ge> ts_ms since) rows)"

definition rows_history :: "action_row list \<Rightarrow> instant \<Rightarrow> string \<Rightarrow> string \<Rightarrow> history" where
  "rows_history rows now gk mode =
     (let created = map ac_created_at (filter (\<lambda>r. ac_mode r = mode) rows) in
      \<lparr>h_generation_already_acted = list_ex (\<lambda>r. ac_generation_key r = gk \<and> ac_mode r = mode) rows,
       h_last_action_at = (if created = [] then None else Some (Max (set created))),
       h_actions_last_hour = count_since rows mode (now - HOUR),
       h_actions_last_day = count_since rows mode (now - DAY)\<rparr>)"

definition db_history :: "instant \<Rightarrow> string \<Rightarrow> string \<Rightarrow> agent_db \<Rightarrow> history" where
  "db_history now gk mode db = rows_history (db_actions db) now gk mode"

section \<open>Key and value\<close>

text \<open>The optional audit entry is written in the same transaction.\<close>

definition kv_put :: "string \<Rightarrow> py \<Rightarrow> (instant \<times> string \<times> (string \<times> py) list) option \<Rightarrow> agent_db \<Rightarrow> agent_db" where
  "kv_put key v entry db =
     (let db1 = db\<lparr>db_kv := aset key (jnorm v) (db_kv db)\<rparr> in
      case entry of None \<Rightarrow> db1 | Some (now, kind, payload) \<Rightarrow> db_log now kind payload db1)"

section \<open>Step relation\<close>

text \<open>The kinds of audit entries that belong to the action table.\<close>

definition ACTION_KINDS :: "string set" where
  "ACTION_KINDS = {''action_reserved'', ''action_result'', ''action_verified'', ''action_reconciled''}"

inductive db_step :: "agent_db \<Rightarrow> agent_db \<Rightarrow> bool" where
  st_open: "db_step db (db_open u db)"
| st_audit: "kind \<notin> ACTION_KINDS \<Longrightarrow> db_step db (db_log now kind payload db)"
| st_reserve: "db_step db (snd (reserve_action now v db))"
| st_complete: "db_step db (complete_action now i state response db)"
| st_verify: "''action_id'' \<notin> fst ` set detail \<Longrightarrow> ''result'' \<notin> fst ` set detail \<Longrightarrow> distinct (map fst detail) \<Longrightarrow>
    db_step db (record_verification now i result detail db)"
| st_reconcile: "db_step db (reconcile_observed_action now i response db)"
| st_put: "(case entry of None \<Rightarrow> True | Some (_, kind, _) \<Rightarrow> kind \<notin> ACTION_KINDS) \<Longrightarrow> db_step db (kv_put key v entry db)"

inductive_cases db_stepE: "db_step db db'"

lemmas db_op_defs = db_open_def db_log_def db_append_def reserve_action_def complete_action_def record_verification_def
  reconcile_observed_action_def kv_put_def update_actions_def action_of_def Let_def

section \<open>Interfaces\<close>

text \<open>An append-only log: no step changes or removes an entry.\<close>

locale append_only =
  fixes stp :: "'s \<Rightarrow> 's \<Rightarrow> bool" and entries :: "'s \<Rightarrow> 'e list"
  assumes grows: "stp s t \<Longrightarrow> \<exists>new. entries t = entries s @ new"
begin

lemma log_prefix: "stp\<^sup>*\<^sup>* s t \<Longrightarrow> \<exists>new. entries t = entries s @ new"
proof (induction rule: rtranclp_induct)
  case (step t u)
  with grows show ?case by (metis append.assoc)
qed simp

lemma entry_stays: "stp\<^sup>*\<^sup>* s t \<Longrightarrow> i < length (entries s) \<Longrightarrow> entries t ! i = entries s ! i \<and> i < length (entries t)"
  using log_prefix [of s t] by (auto simp: nth_append)

end

text \<open>
  A store of claims: a claim is granted only while nobody holds the key, and no step gives a key back. The client's
  fact is that after a grant the key is taken for good, whatever happens in between.
\<close>

locale claim_store =
  fixes stp :: "'s \<Rightarrow> 's \<Rightarrow> bool" and held :: "'s \<Rightarrow> 'k set" and claim :: "'s \<Rightarrow> 'k \<Rightarrow> 's \<Rightarrow> bool"
  assumes claim_step: "claim s k t \<Longrightarrow> stp s t"
    and claim_free: "claim s k t \<Longrightarrow> k \<notin> held s"
    and claim_held: "claim s k t \<Longrightarrow> k \<in> held t"
    and held_mono: "stp s t \<Longrightarrow> held s \<subseteq> held t"
begin

lemma held_forever: "stp\<^sup>*\<^sup>* s t \<Longrightarrow> held s \<subseteq> held t"
  by (induction rule: rtranclp_induct) (auto dest: held_mono)

lemma no_second_claim: "claim s k t \<Longrightarrow> stp\<^sup>*\<^sup>* t u \<Longrightarrow> \<not> claim u k v"
  using claim_held held_forever claim_free by blast

end

definition claimed :: "agent_db \<Rightarrow> (string \<times> string) set" where
  "claimed db = (\<lambda>r. (ac_generation_key r, ac_mode r)) ` set (db_actions db)"

definition claims :: "agent_db \<Rightarrow> string \<times> string \<Rightarrow> agent_db \<Rightarrow> bool" where
  "claims db k db' \<longleftrightarrow> (\<exists>now v i. reserve_action now v db = (Some i, db') \<and> k = (rv_generation_key v, rv_mode v))"

lemma map_update_actions: "(\<And>r. c r \<Longrightarrow> h (f r) = h r) \<Longrightarrow> map h (db_actions (update_actions c f db)) = map h (db_actions db)"
  by (simp add: update_actions_def)

lemma claimed_update [simp]:
  assumes "\<And>r. ac_generation_key (f r) = ac_generation_key r" and "\<And>r. ac_mode (f r) = ac_mode r"
  shows "claimed (update_actions c f db) = claimed db"
  using map_update_actions [of c "\<lambda>r. (ac_generation_key r, ac_mode r)" f db] assms
  by (simp add: claimed_def flip: set_map)

lemma claimed_log [simp]: "claimed (db_log now kind payload db) = claimed db"
  by (simp add: claimed_def db_log_def db_append_def Let_def)

lemma actions_log [simp]: "db_actions (db_log now kind payload db) = db_actions db" "db_kv (db_log now kind payload db) = db_kv db"
    "db_actions_last (db_log now kind payload db) = db_actions_last db"
  by (simp_all add: db_log_def db_append_def Let_def)

lemma audit_log [simp]: "db_audit (db_log now kind payload db) =
    db_audit db @ [\<lparr>a_seq = db_audit_last db + 1, a_ts = ts_ms now, a_kind = kind, a_payload = jnorm (PDict payload)\<rparr>]"
    "db_audit_last (db_log now kind payload db) = db_audit_last db + 1"
  by (simp_all add: db_log_def db_append_def Let_def)

lemma update_actions_other [simp]:
  "db_audit (update_actions c f db) = db_audit db" "db_audit_last (update_actions c f db) = db_audit_last db"
  "db_kv (update_actions c f db) = db_kv db" "db_actions_last (update_actions c f db) = db_actions_last db"
  by (simp_all add: update_actions_def)

lemma step_claimed: "db_step db db' \<Longrightarrow> claimed db \<subseteq> claimed db'"
proof (induction rule: db_step.induct)
  case (st_reserve db now v)
  show ?case by (auto simp: reserve_action_def Let_def claimed_def)
next
  case (st_put entry db key v)
  show ?case by (auto simp: kv_put_def Let_def claimed_def split: option.splits)
next
  case (st_open db u)
  show ?case by (simp add: db_open_def claimed_def)
qed (simp_all add: complete_action_def record_verification_def reconcile_observed_action_def Let_def)

lemma step_audit: "db_step db db' \<Longrightarrow> \<exists>new. db_audit db' = db_audit db @ new"
  by (induction rule: db_step.induct)
    (auto simp: reserve_action_def complete_action_def record_verification_def reconcile_observed_action_def kv_put_def db_open_def Let_def
      split: option.splits)

interpretation audit_trail: append_only db_step db_audit
  by unfold_locales (rule step_audit)

interpretation generation_claims: claim_store db_step claimed claims
proof
  fix s k t
  assume c: "claims s k t"
  then obtain now v i where r: "reserve_action now v s = (Some i, t)" and k: "k = (rv_generation_key v, rv_mode v)"
    by (auto simp: claims_def)
  from r have "t = snd (reserve_action now v s)" by simp
  then show "db_step s t" by (simp add: st_reserve)
  from r k show "k \<notin> claimed s" by (auto simp: reserve_action_def conflicting_def claimed_def list_ex_iff Let_def split: if_splits)
  from r k show "k \<in> claimed t" by (auto simp: reserve_action_def claimed_def action_of_def Let_def split: if_splits)
qed (rule step_claimed)

section \<open>Well-formed tables\<close>

definition wf_db :: "agent_db \<Rightarrow> bool" where
  "wf_db db \<longleftrightarrow>
     db_audit_last db = int (length (db_audit db)) \<and> map a_seq (db_audit db) = [1..int (length (db_audit db))] \<and>
     db_actions_last db = int (length (db_actions db)) \<and> map ac_id (db_actions db) = [1..int (length (db_actions db))] \<and>
     distinct (map (\<lambda>r. (ac_generation_key r, ac_mode r)) (db_actions db)) \<and>
     (\<forall>r \<in> set (db_actions db). ac_mode r \<in> {''dry_run'', ''enforce''})"

lemma upto_snoc: "[1..1 + int n] = [1..int n] @ [1 + int n]" "[1..int n + 1] = [1..int n] @ [int n + 1]"
  by (simp_all add: upto_rec2)

lemma filter_later:
  fixes rs :: "audit_row list"
  assumes "map a_seq rs = [1..int (length rs)]"
  shows "filter (\<lambda>r. a_seq r > int k) rs = drop k rs"
  using assms
proof (induction rs rule: rev_induct)
  case (snoc r rs)
  from snoc.prems have "a_seq r = 1 + int (length rs)" "map a_seq rs = [1..int (length rs)]"
    by (auto simp: upto_snoc)
  with snoc.IH show ?case by auto
qed simp

lemma read_audit_drop: "wf_db db \<Longrightarrow> read_audit (int k) limit db = take limit (drop k (db_audit db))"
  by (simp add: wf_db_def read_audit_def filter_later)

lemma wf_log: "wf_db db \<Longrightarrow> wf_db (db_log now kind payload db)"
  by (simp add: wf_db_def upto_snoc)

lemma wf_update:
  assumes "wf_db db" and "\<And>r. ac_id (f r) = ac_id r" and "\<And>r. ac_generation_key (f r) = ac_generation_key r"
    and "\<And>r. ac_mode (f r) = ac_mode r"
  shows "wf_db (update_actions c f db)"
proof -
  let ?db = "update_actions c f db"
  have "length (db_actions ?db) = length (db_actions db)" by (simp add: update_actions_def)
  moreover have "map ac_id (db_actions ?db) = map ac_id (db_actions db)"
    "map (\<lambda>r. (ac_generation_key r, ac_mode r)) (db_actions ?db) = map (\<lambda>r. (ac_generation_key r, ac_mode r)) (db_actions db)"
    using assms by (simp_all add: map_update_actions)
  moreover have "\<forall>r \<in> set (db_actions ?db). ac_mode r \<in> {''dry_run'', ''enforce''}"
    using assms by (auto simp: wf_db_def update_actions_def)
  ultimately show ?thesis using assms(1) by (simp add: wf_db_def)
qed

lemma wf_reserve: "wf_db db \<Longrightarrow> wf_db (snd (reserve_action now v db))"
  by (auto simp: reserve_action_def Let_def conflicting_def wf_db_def action_of_def list_ex_iff upto_snoc)

lemma wf_step: "db_step db db' \<Longrightarrow> wf_db db \<Longrightarrow> wf_db db'"
proof (induction rule: db_step.induct)
  case (st_open db u)
  then show ?case by (simp add: db_open_def wf_db_def)
next
  case (st_put entry db key v)
  then have "wf_db (db\<lparr>db_kv := aset key (jnorm v) (db_kv db)\<rparr>)" by (simp add: wf_db_def)
  then show ?case by (auto simp: kv_put_def Let_def wf_log split: option.splits)
qed (simp_all add: wf_log wf_update wf_reserve complete_action_def record_verification_def reconcile_observed_action_def Let_def)

lemma wf_empty: "wf_db db_empty"
  by (simp add: wf_db_def db_empty_def)

interpretation tables: invariant_system "\<lambda>db. db = db_empty" db_step wf_db
  by unfold_locales (auto intro: wf_step wf_empty)

lemma reach_star: "reach (\<lambda>s. s = s0) stp t \<longleftrightarrow> stp\<^sup>*\<^sup>* s0 t"
proof
  assume "reach (\<lambda>s. s = s0) stp t"
  then show "stp\<^sup>*\<^sup>* s0 t" by (induction rule: reach.induct) (auto intro: rtranclp.rtrancl_into_rtrancl)
next
  assume "stp\<^sup>*\<^sup>* s0 t"
  then show "reach (\<lambda>s. s = s0) stp t" by (induction rule: rtranclp_induct) (auto intro: reach.intros)
qed

lemmas wf_reachable = tables.reachable_inv [unfolded reach_star]

section \<open>The audit log determines the action table\<close>

text \<open>
  The specification: a list of actions computed from the log alone. Everything but the byte counter at the time of the
  reservation (which the log has inside its evidence) is visible.
\<close>

record action_view =
  av_id :: int
  av_generation_key :: string
  av_mode :: string
  av_request_id :: string
  av_policy_version :: int
  av_created_at :: instant
  av_state :: string
  av_response :: "py option"
  av_verify_result :: "string option"
  av_verified_at :: "instant option"

definition view :: "action_row \<Rightarrow> action_view" where
  "view r = \<lparr>av_id = ac_id r, av_generation_key = ac_generation_key r, av_mode = ac_mode r, av_request_id = ac_request_id r,
     av_policy_version = ac_policy_version r, av_created_at = ac_created_at r, av_state = ac_state r, av_response = ac_response r,
     av_verify_result = ac_verify_result r, av_verified_at = ac_verified_at r\<rparr>"

definition pay :: "audit_row \<Rightarrow> string \<Rightarrow> py" where
  "pay e k = (case a_payload e of PDict xs \<Rightarrow> dget xs k | _ \<Rightarrow> PNone)"

fun the_str :: "py \<Rightarrow> string" where "the_str (PStr s) = s" | "the_str v = []"

definition on_view :: "(action_view \<Rightarrow> bool) \<Rightarrow> (action_view \<Rightarrow> action_view) \<Rightarrow> action_view list \<Rightarrow> action_view list" where
  "on_view c f vs = map (\<lambda>v. if c v then f v else v) vs"

definition apply_entry :: "audit_row \<Rightarrow> action_view list \<Rightarrow> action_view list" where
  "apply_entry e vs =
     (let i = int_of (pay e ''action_id'') in
      if a_kind e = ''action_reserved'' then
        vs @ [\<lparr>av_id = i, av_generation_key = the_str (pay e ''generation_key''), av_mode = the_str (pay e ''mode''),
          av_request_id = the_str (pay e ''request_id''), av_policy_version = int_of (pay e ''policy_version''),
          av_created_at = a_ts e, av_state = ''RESERVED'', av_response = None, av_verify_result = None, av_verified_at = None\<rparr>]
      else if a_kind e = ''action_result'' then
        on_view (\<lambda>v. av_id v = i \<and> av_state v = ''RESERVED'')
          (\<lambda>v. v\<lparr>av_state := the_str (pay e ''state''), av_response := Some (pay e ''response'')\<rparr>) vs
      else if a_kind e = ''action_verified'' then
        on_view (\<lambda>v. av_id v = i \<and> av_verify_result v = None)
          (\<lambda>v. v\<lparr>av_verify_result := Some (the_str (pay e ''result'')), av_verified_at := Some (a_ts e)\<rparr>) vs
      else if a_kind e = ''action_reconciled'' then
        on_view (\<lambda>v. av_id v = i \<and> av_state v = ''OUTCOME_UNKNOWN'')
          (\<lambda>v. v\<lparr>av_state := ''EFFECT_OBSERVED'', av_response := Some (pay e ''response'')\<rparr>) vs
      else vs)"

definition replay :: "audit_row list \<Rightarrow> action_view list" where
  "replay es = fold apply_entry es []"

lemma replay_snoc [simp]: "replay (es @ [e]) = apply_entry e (replay es)"
  by (simp add: replay_def)

lemma pay_jnorm:
  "distinct (map fst payload) \<Longrightarrow>
     pay \<lparr>a_seq = q, a_ts = t, a_kind = kind, a_payload = jnorm (PDict payload)\<rparr> k = jnorm (dget payload k)"
  by (simp add: pay_def dget_jnorm_pay)

lemma view_update:
  assumes "\<And>r. c r = c' (view r)" and "\<And>r. view (f r) = f' (view r)"
  shows "map view (db_actions (update_actions c f db)) = on_view c' f' (map view (db_actions db))"
  using assms by (simp add: update_actions_def on_view_def)

lemma apply_other: "a_kind e \<notin> ACTION_KINDS \<Longrightarrow> apply_entry e vs = vs"
  by (auto simp: apply_entry_def ACTION_KINDS_def Let_def)

definition replayed :: "agent_db \<Rightarrow> bool" where
  "replayed db \<longleftrightarrow> replay (db_audit db) = map view (db_actions db)"

lemma replayed_complete: "replayed db \<Longrightarrow> replayed (complete_action now i state response db)"
  unfolding replayed_def complete_action_def
  by (simp add: view_update [where c' = "\<lambda>v. av_id v = i \<and> av_state v = ''RESERVED''"
        and f' = "\<lambda>v. v\<lparr>av_state := state, av_response := Some (jnorm (PDict response))\<rparr>"] view_def
      apply_entry_def Let_def pay_jnorm dget_def int_of_def del: jnorm.simps(7))

lemma aupdate_disjoint_lookup:
  "k \<notin> fst ` set ys \<Longrightarrow> map_of (aupdate xs ys) k = map_of xs k"
  by (induction xs ys rule: aupdate.induct) auto

lemma distinct_aupdate: "distinct (map fst xs) \<Longrightarrow> distinct (map fst (aupdate xs ys))"
  by (induction xs ys rule: aupdate.induct) (auto simp: distinct_aset)

lemma replayed_verify:
  assumes "''action_id'' \<notin> fst ` set detail" "''result'' \<notin> fst ` set detail" and "replayed db"
  shows "replayed (record_verification now i result detail db)"
proof -
  let ?p = "aupdate [(''action_id'', PInt i), (''result'', PStr result)] detail"
  have d: "distinct (map fst ?p)" by (rule distinct_aupdate) simp
  have "dget ?p ''action_id'' = PInt i" "dget ?p ''result'' = PStr result"
    using assms by (simp_all add: dget_def aupdate_disjoint_lookup)
  with d assms(3) show ?thesis unfolding replayed_def record_verification_def
    by (simp add: view_update [where c' = "\<lambda>v. av_id v = i \<and> av_verify_result v = None"
          and f' = "\<lambda>v. v\<lparr>av_verify_result := Some result, av_verified_at := Some (ts_ms now)\<rparr>"] view_def
        apply_entry_def Let_def pay_jnorm int_of_def del: jnorm.simps(7))
qed

lemma replayed_reconcile: "replayed db \<Longrightarrow> replayed (reconcile_observed_action now i response db)"
  unfolding replayed_def reconcile_observed_action_def
  by (simp add: view_update [where c' = "\<lambda>v. av_id v = i \<and> av_state v = ''OUTCOME_UNKNOWN''"
        and f' = "\<lambda>v. v\<lparr>av_state := ''EFFECT_OBSERVED'', av_response := Some (jnorm (PDict response))\<rparr>"] view_def
      apply_entry_def Let_def pay_jnorm dget_def int_of_def del: jnorm.simps(7))

lemma replayed_reserve: "replayed db \<Longrightarrow> replayed (snd (reserve_action now v db))"
  by (simp add: replayed_def reserve_action_def Let_def apply_entry_def pay_jnorm dget_def int_of_def view_def action_of_def
      del: jnorm.simps(7))

lemma replayed_log: "kind \<notin> ACTION_KINDS \<Longrightarrow> replayed db \<Longrightarrow> replayed (db_log now kind payload db)"
  by (simp add: replayed_def apply_other)

lemma replayed_step: "db_step db db' \<Longrightarrow> replayed db \<Longrightarrow> replayed db'"
proof (induction rule: db_step.induct)
  case (st_open db u)
  then show ?case by (simp add: db_open_def replayed_def)
next
  case (st_put entry db key v)
  then have "replayed (db\<lparr>db_kv := aset key (jnorm v) (db_kv db)\<rparr>)" by (simp add: replayed_def)
  with st_put show ?case by (auto simp: kv_put_def Let_def replayed_log split: option.splits)
qed (simp_all add: replayed_log replayed_reserve replayed_complete replayed_verify replayed_reconcile)

lemma replayed_empty: "replayed db_empty"
  by (simp add: replayed_def replay_def db_empty_def)

interpretation journal: invariant_system "\<lambda>db. db = db_empty" db_step replayed
  by unfold_locales (auto intro: replayed_step replayed_empty)

lemmas replayed_reachable = journal.reachable_inv [unfolded reach_star]

section \<open>The life of an action\<close>

text \<open>
  Identity never changes; a state other than RESERVED is final except that OUTCOME_UNKNOWN may be resolved to
  EFFECT_OBSERVED; a verification result is final.
\<close>

definition row_le :: "action_row \<Rightarrow> action_row \<Rightarrow> bool" where
  "row_le r r' \<longleftrightarrow>
     ac_id r' = ac_id r \<and> ac_generation_key r' = ac_generation_key r \<and> ac_mode r' = ac_mode r \<and> ac_request_id r' = ac_request_id r \<and>
     ac_policy_version r' = ac_policy_version r \<and> ac_created_at r' = ac_created_at r \<and> ac_bytes_sent r' = ac_bytes_sent r \<and>
     (ac_state r = ''RESERVED'' \<or> ac_state r' = ac_state r \<and> ac_response r' = ac_response r \<or>
      ac_state r = ''OUTCOME_UNKNOWN'' \<and> ac_state r' = ''EFFECT_OBSERVED'') \<and>
     (ac_verify_result r = None \<or> ac_verify_result r' = ac_verify_result r \<and> ac_verified_at r' = ac_verified_at r)"

definition rows_le :: "action_row list \<Rightarrow> action_row list \<Rightarrow> bool" where
  "rows_le xs ys \<longleftrightarrow> length xs \<le> length ys \<and> (\<forall>i < length xs. row_le (xs ! i) (ys ! i))"

lemma row_le_refl [simp]: "row_le r r" by (simp add: row_le_def)

lemma row_le_trans: "row_le a b \<Longrightarrow> row_le b c \<Longrightarrow> row_le a c"
  by (auto simp: row_le_def)

lemma rows_le_refl [simp]: "rows_le xs xs" by (simp add: rows_le_def)

lemma rows_le_trans: "rows_le xs ys \<Longrightarrow> rows_le ys zs \<Longrightarrow> rows_le xs zs"
  unfolding rows_le_def by (metis order_trans order_less_le_trans row_le_trans)

lemma rows_le_append [simp]: "rows_le xs (xs @ ys)" by (simp add: rows_le_def nth_append)

lemma rows_le_update: "(\<And>r. c r \<Longrightarrow> row_le r (f r)) \<Longrightarrow> rows_le (db_actions db) (db_actions (update_actions c f db))"
  by (auto simp: rows_le_def update_actions_def)

lemma step_rows: "db_step db db' \<Longrightarrow> rows_le (db_actions db) (db_actions db')"
proof (induction rule: db_step.induct)
  case (st_put entry db key v)
  show ?case by (auto simp: kv_put_def Let_def split: option.splits)
next
  case (st_reconcile db now i response)
  show ?case unfolding reconcile_observed_action_def Let_def if_distrib [of db_actions] actions_log
    by (auto intro!: rows_le_update simp: row_le_def)
next
  case (st_reserve db now v)
  show ?case by (simp add: reserve_action_def Let_def)
qed (auto intro!: rows_le_update simp: db_open_def complete_action_def record_verification_def row_le_def)

lemma steps_rows: "db_step\<^sup>*\<^sup>* db db' \<Longrightarrow> rows_le (db_actions db) (db_actions db')"
  by (induction rule: rtranclp_induct) (auto dest: step_rows rows_le_trans)

section \<open>Properties\<close>

text \<open>C13: The audit log is a complete account of the actions (refinement). Whatever the agent did to its database, replaying
  the audit log from its first record yields exactly the action table: same actions in the same order, with the same
  identity, policy version, creation time, state, response and verification.\<close>

theorem audit_rebuilds_actions:
  assumes "db_step\<^sup>*\<^sup>* db_empty db"
  shows "replay (db_audit db) = map view (db_actions db)"
  using replayed_reachable [OF assms] by (simp add: replayed_def)

definition ex_res :: "string \<Rightarrow> string \<Rightarrow> reservation" where
  "ex_res g m = \<lparr>rv_generation_key = g, rv_mode = m, rv_request_id = ''cra-h'', rv_policy_version = 2, rv_bytes_sent = 100, rv_evidence = PNone\<rparr>"

definition ex_db :: agent_db where
  "ex_db = complete_action 7000 1 ''OUTCOME_UNKNOWN'' [] (snd (reserve_action 5000 (ex_res ''pod/g1'' ''enforce'') db_empty))"

lemma ex_db_reachable: "db_step\<^sup>*\<^sup>* db_empty ex_db"
  unfolding ex_db_def by (rule rtranclp.rtrancl_into_rtrancl [OF r_into_rtranclp [of db_step, OF st_reserve] st_complete])

theorem audit_rebuilds_actions_witness:
  "replay (db_audit ex_db) = map view (db_actions ex_db) \<and> length (db_audit ex_db) = 2 \<and> length (db_actions ex_db) = 1"
  using audit_rebuilds_actions [OF ex_db_reachable]
  by (simp add: ex_db_def complete_action_def update_actions_def reserve_action_def conflicting_def Let_def db_empty_def ex_res_def)

text \<open>The audit log is append-only and without gaps. In every later state the old records are an unchanged prefix, the
  sequence numbers are 1, 2, 3, ... in order, \<open>last_seq\<close> is their number, and reading after sequence \<open>k\<close> returns exactly the
  next records after the first \<open>k\<close>.\<close>

theorem audit_append_only:
  assumes "db_step\<^sup>*\<^sup>* db_empty db" and "db_step\<^sup>*\<^sup>* db db'"
  shows "\<exists>new. db_audit db' = db_audit db @ new \<and> map a_seq (db_audit db') = [1..int (length (db_audit db'))] \<and>
     last_seq db' = int (length (db_audit db')) \<and>
     (\<forall>k limit. read_audit (int k) limit db' = take limit (drop k (db_audit db')))"
proof -
  have wf: "wf_db db'" by (rule wf_reachable [OF rtranclp_trans [OF assms]])
  then have seqs: "map a_seq (db_audit db') = [1..int (length (db_audit db'))]" by (simp add: wf_db_def)
  have "last_seq db' = int (length (db_audit db'))"
    unfolding last_seq_def seqs by (auto intro!: Max_eqI simp: Suc_le_eq)
  moreover have "\<forall>k limit. read_audit (int k) limit db' = take limit (drop k (db_audit db'))"
    using read_audit_drop [OF wf] by blast
  ultimately show ?thesis using audit_trail.log_prefix [OF assms(2)] seqs by blast
qed

theorem audit_append_only_witness:
  "\<exists>new. db_audit ex_db = db_audit db_empty @ new \<and> map a_seq (db_audit ex_db) = [1..int (length (db_audit ex_db))]"
  using audit_append_only [OF rtranclp.rtrancl_refl ex_db_reachable] by blast

text \<open>A generation is claimed at most once per mode. After a successful reservation no later reservation for the same
  generation and mode succeeds, whatever other operations, restarts included, lie between; the refused one changes nothing.\<close>

theorem reservation_exclusive:
  assumes "reserve_action now v db = (Some i, db1)" and "db_step\<^sup>*\<^sup>* db1 db2"
    and "rv_generation_key w = rv_generation_key v" and "rv_mode w = rv_mode v"
  shows "reserve_action later w db2 = (None, db2)"
proof -
  have c: "claims db (rv_generation_key v, rv_mode v) db1" using assms(1) by (auto simp: claims_def)
  have "\<not> claims db2 (rv_generation_key v, rv_mode v) (snd (reserve_action later w db2))"
    by (rule generation_claims.no_second_claim [OF c assms(2)])
  then have "fst (reserve_action later w db2) = None"
    using assms(3,4) unfolding claims_def by (metis option.exhaust prod.collapse)
  then show ?thesis by (auto simp: reserve_action_def Let_def split: if_splits)
qed

theorem reservation_exclusive_witness: "reserve_action 9000 (ex_res ''pod/g1'' ''enforce'') ex_db = (None, ex_db)"
proof (rule reservation_exclusive)
  show "reserve_action 5000 (ex_res ''pod/g1'' ''enforce'') db_empty =
      (Some 1, snd (reserve_action 5000 (ex_res ''pod/g1'' ''enforce'') db_empty))"
    by (simp add: reserve_action_def conflicting_def Let_def db_empty_def ex_res_def)
  show "db_step\<^sup>*\<^sup>* (snd (reserve_action 5000 (ex_res ''pod/g1'' ''enforce'') db_empty)) ex_db"
    unfolding ex_db_def by (rule r_into_rtranclp [of db_step, OF st_complete])
qed simp_all

text \<open>C34: An outcome is final. An action row is never removed and keeps its identity; once completed, its state and response
  stay, except that an unknown outcome may be resolved to an observed effect; once verified, its result and time stay.\<close>

theorem action_outcome_final:
  assumes "db_step\<^sup>*\<^sup>* db db'" and "i < length (db_actions db)"
  shows "i < length (db_actions db') \<and> row_le (db_actions db ! i) (db_actions db' ! i)"
  using steps_rows [OF assms(1)] assms(2) by (auto simp: rows_le_def)

theorem action_outcome_final_witness:
  "row_le (db_actions ex_db ! 0) (db_actions (reconcile_observed_action 8000 1 [] ex_db) ! 0) \<and>
   ac_state (db_actions (reconcile_observed_action 8000 1 [] ex_db) ! 0) = ''EFFECT_OBSERVED''"
proof
  have "length (db_actions ex_db) = 1"
    by (simp add: ex_db_def complete_action_def update_actions_def reserve_action_def conflicting_def Let_def db_empty_def ex_res_def)
  with action_outcome_final [of ex_db "reconcile_observed_action 8000 1 [] ex_db" 0]
  show "row_le (db_actions ex_db ! 0) (db_actions (reconcile_observed_action 8000 1 [] ex_db) ! 0)"
    by (simp add: r_into_rtranclp st_reconcile)
qed code_simp

end
