(* ===== verification/Cra_Sync.thy ===== *)
theory Cra_Sync
  imports Cra_Store
begin

text \<open>
  \<open>recovery-control/src/cra/audit_ack.py\<close> and \<open>sync.py\<close>: what the agent exchanges with the central service.
  It adopts a newer signed policy and pushes audit records until they are acknowledged. HTTP replies
  (decoded JSON, or the exception of the request), nonces and the outcome of a database write are inputs.
\<close>

section \<open>Acknowledgements\<close>

definition ACK_SCHEMA :: string where "ACK_SCHEMA = ''cra.audit_ack.v1''"

definition request_digest :: "pylib \<Rightarrow> py \<Rightarrow> string" where
  "request_digest lib body = l_sha lib (jnorm body)"

definition sign_ack :: "pylib \<Rightarrow> ed25519 \<Rightarrow> string \<Rightarrow> (string \<times> py) list \<Rightarrow> int \<Rightarrow> (string \<times> py) list res" where
  "sign_ack lib ed key request high =
     bindE (py_getitem (PDict request) ''agent_id'') (\<lambda>agent. bindE (py_getitem (PDict request) ''instance_id'') (\<lambda>inst.
     let ack = PDict [(''schema'', PStr ACK_SCHEMA), (''agent_id'', agent), (''instance_id'', inst),
           (''nonce'', (case map_of request ''nonce'' of None \<Rightarrow> PStr [] | Some n \<Rightarrow> n)),
           (''request_sha256'', PStr (request_digest lib (PDict request))), (''acked_seq'', PInt high)] in
     bindE (sign ed key ack) (\<lambda>s. Inr [(''acked_seq'', PInt high), (''ack'', ack), (''signature'', PStr s)])))"

text \<open>\<open>highest\<close> is \<open>request["records"][-1]["seq"]\<close>.\<close>

definition expected_ack :: "pylib \<Rightarrow> (string \<times> py) list \<Rightarrow> py \<Rightarrow> py res" where
  "expected_ack lib request seq =
     bindE (py_getitem (PDict request) ''agent_id'') (\<lambda>agent. bindE (py_getitem (PDict request) ''instance_id'') (\<lambda>inst.
     bindE (py_getitem (PDict request) ''nonce'') (\<lambda>nonce.
     Inr (PDict [(''schema'', PStr ACK_SCHEMA), (''agent_id'', agent), (''instance_id'', inst), (''nonce'', nonce),
       (''request_sha256'', PStr (request_digest lib (PDict request))), (''acked_seq'', seq)]))))"

definition verify_ack :: "pylib \<Rightarrow> ed25519 \<Rightarrow> string \<Rightarrow> py \<Rightarrow> (string \<times> py) list \<Rightarrow> int \<Rightarrow> int \<Rightarrow> int res" where
  "verify_ack lib ed public_key response request highest previous = (case response of
       PDict rs \<Rightarrow> (case dget rs ''ack'' of
           PDict ack \<Rightarrow> (case dget rs ''signature'' of
               PStr s \<Rightarrow>
                 if \<not> verify ed public_key (PDict ack) s then Inl (ValueError ''ACK_SIGNATURE_INVALID'')
                 else bindE (expected_ack lib request (dget ack ''acked_seq'')) (\<lambda>expected.
                   if \<not> py_eq (PDict ack) expected then Inl (ValueError ''ACK_REQUEST_MISMATCH'')
                   else bindE (py_getitem (PDict ack) ''acked_seq'') (\<lambda>high.
                     if is_int high \<and> previous \<le> int_of high \<and> int_of high \<le> highest \<and> py_eq (dget rs ''acked_seq'') high
                     then Inr (int_of high) else Inl (ValueError ''ACK_RANGE_INVALID'')))
             | _ \<Rightarrow> Inl (ValueError ''ACK_SIGNATURE_INVALID''))
         | _ \<Rightarrow> Inl (ValueError ''ACK_UNSIGNED''))
     | _ \<Rightarrow> Inl (ValueError ''ACK_UNSIGNED''))"

section \<open>The policy\<close>

definition POLICY_KEY :: string where "POLICY_KEY = ''policy_envelope''"
definition ACKED_KEY :: string where "ACKED_KEY = ''acked_seq''"

definition load_cached_policy :: "ed25519 \<Rightarrow> string \<Rightarrow> agent_db \<Rightarrow> policy option" where
  "load_cached_policy ed public_key db = (case kv_get POLICY_KEY db of
     None \<Rightarrow> None | Some raw \<Rightarrow> (case open_envelope ed raw public_key of Inl e \<Rightarrow> None | Inr p \<Rightarrow> Some p))"

record sync_state =
  sy_db :: agent_db
  sy_last_rejection :: string

definition write_db :: "unit res \<Rightarrow> (agent_db \<Rightarrow> agent_db) \<Rightarrow> (sync_state, unit) act" where
  "write_db ok f = bindS (liftS ok) (\<lambda>_. modS (\<lambda>s. s\<lparr>sy_db := f (sy_db s)\<rparr>))"

definition reject_key :: "string \<Rightarrow> policy option \<Rightarrow> string" where
  "reject_key error candidate = error @ '':'' @ (case candidate of None \<Rightarrow> ''?'' | Some c \<Rightarrow> int_str (p_version c))"

definition version_py :: "policy option \<Rightarrow> py" where
  "version_py p = (case p of None \<Rightarrow> PNone | Some c \<Rightarrow> PInt (p_version c))"

definition reject_policy :: "instant \<Rightarrow> unit res \<Rightarrow> string \<Rightarrow> policy option \<Rightarrow> (sync_state, string) act" where
  "reject_policy now ok error candidate =
     bindS (getS sy_last_rejection) (\<lambda>seen.
     bindS (if reject_key error candidate \<noteq> seen
            then bindS (modS (\<lambda>s. s\<lparr>sy_last_rejection := reject_key error candidate\<rparr>)) (\<lambda>_.
              write_db ok (db_log now ''policy_rejected'' [(''reason'', PStr error), (''version'', version_py candidate)]))
            else retS ()) (\<lambda>_. retS ''REJECTED''))"

definition fetch_policy :: "ed25519 \<Rightarrow> string \<Rightarrow> instant \<Rightarrow> py res \<Rightarrow> unit res \<Rightarrow> (sync_state, string) act" where
  "fetch_policy ed public_key now reply ok =
     bindS (liftS reply) (\<lambda>envelope.
     bindS (getS (\<lambda>s. load_cached_policy ed public_key (sy_db s))) (\<lambda>current.
     case open_envelope ed envelope public_key of
       Inl (PolicyError e) \<Rightarrow> reject_policy now ok e None
     | Inl e \<Rightarrow> raiseS e
     | Inr candidate \<Rightarrow> (case adoption_error current candidate of
           Some e \<Rightarrow> reject_policy now ok e (Some candidate)
         | None \<Rightarrow>
             if current = Some candidate then retS ''UNCHANGED''
             else bindS (write_db ok (kv_put POLICY_KEY envelope (Some (now, ''policy_adopted'',
                 [(''version'', PInt (p_version candidate)), (''mode'', PStr (p_mode candidate)), (''previous_version'', version_py current)]))))
               (\<lambda>_. retS ''ADOPTED''))))"

section \<open>The audit\<close>

definition acked_seq :: "agent_db \<Rightarrow> int res" where
  "acked_seq db = (case kv_get ACKED_KEY db of
     None \<Rightarrow> Inr 0 | Some (PInt n) \<Rightarrow> Inr n | Some v \<Rightarrow> Inl (ValueError ''invalid literal''))"

definition wire_record :: "pylib \<Rightarrow> audit_row \<Rightarrow> py" where
  "wire_record lib r = PDict [(''seq'', PInt (a_seq r)), (''ts'', PStr (l_iso_ms lib (a_ts r))), (''kind'', PStr (a_kind r)), (''payload'', a_payload r)]"

record sync_config =
  sc_agent_id :: string
  sc_public_key :: string
  sc_agent_key :: string
  sc_batch :: nat

definition push_body :: "pylib \<Rightarrow> sync_config \<Rightarrow> agent_db \<Rightarrow> string \<Rightarrow> audit_row list \<Rightarrow> (string \<times> py) list" where
  "push_body lib cf db nonce records =
     [(''agent_id'', PStr (sc_agent_id cf)),
      (''instance_id'', (case kv_get ''instance_id'' db of None \<Rightarrow> PStr ''None'' | Some v \<Rightarrow> v)),
      (''records'', PList (map (wire_record lib) records)), (''nonce'', PStr nonce)]"

record push_in =
  pu_nonce :: string
  pu_reply :: "py res"
  pu_ok :: "unit res"

definition push_audit :: "pylib \<Rightarrow> ed25519 \<Rightarrow> sync_config \<Rightarrow> push_in \<Rightarrow> (sync_state, int) act" where
  "push_audit lib ed cf i =
     bindS (getS sy_db) (\<lambda>db.
     bindS (liftS (acked_seq db)) (\<lambda>acked.
     let records = read_audit acked (sc_batch cf) db in
     if records = [] then retS acked
     else (let body = push_body lib cf db (pu_nonce i) records in
       bindS (liftS (sign ed (sc_agent_key cf) (PDict body))) (\<lambda>_.
       bindS (liftS (pu_reply i)) (\<lambda>response.
       bindS (liftS (verify_ack lib ed (sc_public_key cf) response body (a_seq (last records)) acked)) (\<lambda>new_acked.
       bindS (if new_acked \<noteq> acked then write_db (pu_ok i) (kv_put ACKED_KEY (PInt new_acked) None) else retS ()) (\<lambda>_.
       retS new_acked)))))))"

text \<open>\<open>for _ in range(20)\<close>: drain a backlog; \<open>ins k\<close> are the inputs of the \<open>k\<close>-th push.\<close>

fun drain :: "nat \<Rightarrow> pylib \<Rightarrow> ed25519 \<Rightarrow> sync_config \<Rightarrow> (nat \<Rightarrow> push_in) \<Rightarrow> nat \<Rightarrow> int \<Rightarrow> (sync_state, int) act" where
  "drain 0 lib ed cf ins k acked = retS acked"
| "drain (Suc n) lib ed cf ins k acked =
     bindS (getS (\<lambda>s. last_seq (sy_db s))) (\<lambda>highest.
     if acked \<ge> highest then retS acked
     else bindS (push_audit lib ed cf (ins k)) (\<lambda>next.
       if next = acked then retS next else drain n lib ed cf ins (Suc k) next))"

definition sync_cycle ::
    "pylib \<Rightarrow> ed25519 \<Rightarrow> sync_config \<Rightarrow> instant \<Rightarrow> py res \<Rightarrow> unit res \<Rightarrow> (nat \<Rightarrow> push_in) \<Rightarrow> (sync_state, string) act" where
  "sync_cycle lib ed cf now reply ok ins =
     catchS
       (bindS (fetch_policy ed (sc_public_key cf) now reply ok) (\<lambda>policy_status.
        bindS (push_audit lib ed cf (ins 0)) (\<lambda>acked.
        bindS (drain 20 lib ed cf ins 1 acked) (\<lambda>acked'. retS (policy_status @ '':acked='' @ int_str acked')))))
       (\<lambda>e. if is_os_error e \<or> is_value_error e then retS (''ERROR:'' @ exn_name e) else raiseS e)"

section \<open>Laws\<close>

text \<open>Storing an envelope as text and reading it back opens to the same policy.\<close>

lemma parse_jnorm:
  assumes "wf_json v"
  shows "parse (jnorm v) = Inr p \<longleftrightarrow> parse v = Inr p"
proof (cases v)
  case (PDict xs)
  let ?ys = "sort_key fst (map (map_prod id jnorm) xs)"
  from assms PDict have d: "distinct (map fst xs)" by simp
  note dg = dget_jnorm_pay [OF d]
  have keys: "fst ` set ?ys = fst ` set xs" by force
  have val: "field_val ?ys name = field_val xs name" for name
    unfolding field_val_def keys dg by (cases "dget xs name") auto
  have "is_int (jnorm w) = is_int w" for w by (cases w) auto
  then have ok: "field_ok ?ys = field_ok xs"
    by (intro ext) (simp only: field_ok_def keys dg val)
  have md: "(case dget ?ys ''mode'' of PStr m \<Rightarrow> m | _ \<Rightarrow> []) = (case dget xs ''mode'' of PStr m \<Rightarrow> m | _ \<Rightarrow> [])"
    unfolding dg by (cases "dget xs ''mode''") auto
  have "policy_at ?ys = policy_at xs" unfolding policy_at_def val md ..
  moreover have "set (map fst ?ys) = set (map fst xs)" using keys by simp
  ultimately have "parse (PDict ?ys) = Inr p \<longleftrightarrow> parse (PDict xs) = Inr p"
    unfolding parse_Inr py.inject by (simp only: dg ok jnorm_simple simp_thms ex_simps)
  with PDict show ?thesis by simp
qed (simp_all add: parse_def)

lemma verify_jnorm: "verify ed pub (jnorm v) s = verify ed pub v s"
  by (simp add: verify_def canonical_def)

lemma open_envelope_jnorm:
  assumes "wf_json v"
  shows "open_envelope ed (jnorm v) pub = Inr p \<longleftrightarrow> open_envelope ed v pub = Inr p"
proof (cases v)
  case (PDict xs)
  with assms have d: "distinct (map fst xs)" and w: "wf_json (dget xs ''policy'')"
    using wf_json_dget [of xs] by auto
  note dg = dget_jnorm_pay [OF d]
  show ?thesis
  proof (cases "\<exists>s. dget xs ''signature'' = PStr s")
    case True
    then obtain s where "dget xs ''signature'' = PStr s" by blast
    with PDict show ?thesis by (simp add: open_envelope_def dg verify_jnorm parse_jnorm [OF w])
  next
    case False
    then show ?thesis unfolding PDict by (cases "dget xs ''signature''") (simp_all add: open_envelope_def dg)
  qed
qed (simp_all add: open_envelope_def)

lemma kv_get_put: "kv_get k (kv_put key v entry db) = (if k = key then Some (jnorm v) else kv_get k db)"
  by (simp add: kv_put_def kv_get_def Let_def split: option.splits)

lemma load_after_put:
  "wf_json v \<Longrightarrow> open_envelope ed v pub = Inr p \<Longrightarrow> load_cached_policy ed pub (kv_put POLICY_KEY v entry db) = Some p"
  by (simp add: load_cached_policy_def kv_get_put open_envelope_jnorm [THEN iffD2])

lemma load_after_log [simp]: "load_cached_policy ed pub (db_log now kind payload db) = load_cached_policy ed pub db"
  by (simp add: load_cached_policy_def kv_get_def)

text \<open>The order in which policies replace one another.\<close>

definition supersedes :: "policy option \<Rightarrow> policy option \<Rightarrow> bool" where
  "supersedes new old \<longleftrightarrow> (case old of None \<Rightarrow> True | Some c \<Rightarrow>
     (case new of None \<Rightarrow> False | Some d \<Rightarrow> d = c \<or> p_version c < p_version d))"

lemma supersedes_refl [simp]: "supersedes p p" by (simp add: supersedes_def split: option.splits)

lemma supersedes_trans: "supersedes b a \<Longrightarrow> supersedes c b \<Longrightarrow> supersedes c a"
  by (auto simp: supersedes_def split: option.splits)

lemma adoption_supersedes: "adoption_error current candidate = None \<Longrightarrow> supersedes (Some candidate) current"
  by (auto simp: adoption_error_def supersedes_def split: option.splits if_splits)

declare act_eval [simp del]

lemma reject_policy_wp:
  "wpS (reject_policy now ok e c) (\<lambda>_ t. load_cached_policy ed pub (sy_db t) = load_cached_policy ed pub (sy_db s))
     (\<lambda>_ t. load_cached_policy ed pub (sy_db t) = load_cached_policy ed pub (sy_db s)) s"
  by (simp add: reject_policy_def write_db_def wp_simps split: sum.splits)

lemma fetch_policy_wp:
  assumes "\<And>v. reply = Inr v \<Longrightarrow> wf_json v"
  shows "wpS (fetch_policy ed pub now reply ok)
     (\<lambda>_ t. supersedes (load_cached_policy ed pub (sy_db t)) (load_cached_policy ed pub (sy_db s)))
     (\<lambda>_ t. supersedes (load_cached_policy ed pub (sy_db t)) (load_cached_policy ed pub (sy_db s))) s"
proof (cases reply)
  case (Inr v)
  let ?P = "\<lambda>_ t. supersedes (load_cached_policy ed pub (sy_db t)) (load_cached_policy ed pub (sy_db s))"
  have rej: "wpS (reject_policy now ok e c) ?P ?P s" for e c
    by (rule wpS_mono [OF reject_policy_wp [of now ok e c ed pub s]]) simp_all
  show ?thesis
  proof (cases "open_envelope ed v pub")
    case (Inl e)
    with open_envelope_raises [OF this] rej show ?thesis using Inr by (auto simp: fetch_policy_def wp_simps)
  next
    case c: (Inr candidate)
    show ?thesis
    proof (cases "adoption_error (load_cached_policy ed pub (sy_db s)) candidate")
      case None
      from adoption_supersedes [OF this] load_after_put [OF assms [OF Inr] c] Inr c None show ?thesis
        by (simp add: fetch_policy_def wp_simps write_db_def split: sum.splits)
    next
      case (Some e)
      with Inr c rej show ?thesis by (simp add: fetch_policy_def wp_simps)
    qed
  qed
qed (simp add: fetch_policy_def wp_simps)

definition fetches :: "ed25519 \<Rightarrow> string \<Rightarrow> sync_state \<Rightarrow> (instant \<times> py res \<times> unit res) list \<Rightarrow> sync_state" where
  "fetches ed pub = run (\<lambda>s (now, reply, ok). snd (fetch_policy ed pub now reply ok s))"

lemma wpS_snd: "wpS m (\<lambda>_. P) (\<lambda>_. P) s \<Longrightarrow> P (snd (m s))"
  by (auto simp: wpS_def split: prod.splits sum.splits)

lemma load_cached_signed:
  assumes "load_cached_policy ed pub db = Some p"
  shows "wf_policy p \<and> (\<exists>xs s. kv_get POLICY_KEY db = Some (PDict xs) \<and> dget xs ''signature'' = PStr s \<and>
    verify ed pub (dget xs ''policy'') s \<and> parse (dget xs ''policy'') = Inr p)"
  using assms
  by (auto simp: load_cached_policy_def open_envelope_def split: option.splits sum.splits py.splits if_splits intro: parse_wf)

text \<open>C26: The policy in force never moves backwards. After any number of policy fetches with arbitrary replies (missing, forged,
  malformed, old) and database failures, the cached policy is the previous one or one of a strictly larger version; a cached
  policy is never lost, it always carries a valid signature under the trusted key, and it is well formed.\<close>

theorem policy_never_regresses:
  assumes "\<forall>(now, reply, ok) \<in> set ins. \<forall>v. reply = Inr v \<longrightarrow> wf_json v"
  shows "supersedes (load_cached_policy ed pub (sy_db (fetches ed pub s ins))) (load_cached_policy ed pub (sy_db s)) \<and>
    (\<forall>p. load_cached_policy ed pub (sy_db (fetches ed pub s ins)) = Some p \<longrightarrow> wf_policy p \<and>
       (\<exists>xs sig. kv_get POLICY_KEY (sy_db (fetches ed pub s ins)) = Some (PDict xs) \<and> dget xs ''signature'' = PStr sig \<and>
          verify ed pub (dget xs ''policy'') sig))"
proof
  show "supersedes (load_cached_policy ed pub (sy_db (fetches ed pub s ins))) (load_cached_policy ed pub (sy_db s))"
    using assms
  proof (induction ins arbitrary: s)
    case (Cons i ins)
    obtain now reply ok where i: "i = (now, reply, ok)" by (cases i)
    from Cons.prems i have "wpS (fetch_policy ed pub now reply ok)
       (\<lambda>_ t. supersedes (load_cached_policy ed pub (sy_db t)) (load_cached_policy ed pub (sy_db s)))
       (\<lambda>_ t. supersedes (load_cached_policy ed pub (sy_db t)) (load_cached_policy ed pub (sy_db s))) s"
      by (intro fetch_policy_wp) auto
    from wpS_snd [OF this] Cons.IH [of "snd (fetch_policy ed pub now reply ok s)"] Cons.prems show ?case
      by (auto simp: fetches_def i intro: supersedes_trans)
  qed (simp add: fetches_def)
qed (auto dest: load_cached_signed)

definition ex_sync :: sync_state where
  "ex_sync = \<lparr>sy_db = db_empty, sy_last_rejection = []\<rparr>"

definition ex_envelope :: py where
  "ex_envelope = PDict [(''policy'', to_dict (BUILTIN\<lparr>p_version := 7\<rparr>)), (''signature'', PStr ''k'')]"

lemma ex_adopted: "load_cached_policy toy_ed ''k'' (sy_db (fetches toy_ed ''k'' ex_sync [(0, Inr ex_envelope, Inr ())])) =
    Some (BUILTIN\<lparr>p_version := 7\<rparr>)"
  by code_simp

theorem policy_never_regresses_witness:
  "wf_json ex_envelope \<and> wf_policy (BUILTIN\<lparr>p_version := 7\<rparr>) \<and>
   supersedes (load_cached_policy toy_ed ''k'' (sy_db (fetches toy_ed ''k'' ex_sync [(0, Inr ex_envelope, Inr ())])))
     (load_cached_policy toy_ed ''k'' db_empty)"
proof (intro conjI)
  show w: "wf_json ex_envelope" by code_simp
  note p = policy_never_regresses [of "[(0, Inr ex_envelope, Inr ())]" toy_ed "''k''" ex_sync]
  from p w ex_adopted show "wf_policy (BUILTIN\<lparr>p_version := 7\<rparr>)" by auto
  from p w show "supersedes (load_cached_policy toy_ed ''k'' (sy_db (fetches toy_ed ''k'' ex_sync [(0, Inr ex_envelope, Inr ())])))
     (load_cached_policy toy_ed ''k'' db_empty)" by (simp add: ex_sync_def)
qed

end
