(* ===== verification/Cra_Central.thy ===== *)
theory Cra_Central
  imports Cra_Sync
begin

text \<open>
  \<open>recovery-control/src/cra/central/store.py\<close>, \<open>server.py\<close> and the publishing command of \<open>cli.py\<close>: the central
  store of published policies and received audit records, the HTTP handlers in front of it.

  Tables are lists of rows. The lock and the transaction make one call of \<open>ingest\<close> atomic: an exception
  inside it rolls everything back. The receiving time is an argument.
\<close>

section \<open>Tables\<close>

record central_row =
  cr_agent :: string
  cr_instance :: string
  cr_seq :: int
  cr_ts :: string
  cr_kind :: string
  cr_payload :: py
  cr_received :: string

record conflict_row =
  cf_agent :: string
  cf_instance :: string
  cf_seq :: int
  cf_received :: string
  cf_record :: py

record gap_row =
  ga_agent :: string
  ga_instance :: string
  ga_expected :: int
  ga_received :: int
  ga_first_seen :: string
  ga_last_seen :: string
  ga_sightings :: nat
  ga_resolved :: "string option"

record central =
  ce_policies :: "(int \<times> string \<times> py) list"
  ce_audit :: "central_row list"
  ce_conflicts :: "conflict_row list"
  ce_gaps :: "gap_row list"

definition central_empty :: central where
  "central_empty = \<lparr>ce_policies = [], ce_audit = [], ce_conflicts = [], ce_gaps = []\<rparr>"

section \<open>Policies\<close>

definition latest_policy_version :: "central \<Rightarrow> int" where
  "latest_policy_version ce = (if ce_policies ce = [] then -1 else Max (fst ` set (ce_policies ce)))"

definition record_policy :: "string \<Rightarrow> policy \<Rightarrow> central \<Rightarrow> central res" where
  "record_policy now p ce =
     (if p_version p \<in> fst ` set (ce_policies ce) then Inl DatabaseError
      else Inr (ce\<lparr>ce_policies := ce_policies ce @ [(p_version p, now, jnorm (to_dict p))]\<rparr>))"

text \<open>\<open>cmd_publish\<close>: the exit status, the store, and the envelope that replaces the published file.\<close>

definition publish :: "ed25519 \<Rightarrow> string \<Rightarrow> string \<Rightarrow> py \<Rightarrow> central \<Rightarrow> (int \<times> central \<times> py option) res" where
  "publish ed key now doc ce =
     bindE (parse doc) (\<lambda>candidate.
     if p_version candidate \<le> latest_policy_version ce then Inr (2, ce, None)
     else bindE (sign_envelope ed key candidate) (\<lambda>envelope.
       bindE (record_policy now candidate ce) (\<lambda>ce'. Inr (0, ce', Some envelope))))"

section \<open>Ingestion\<close>

definition stream_rows :: "string \<Rightarrow> string \<Rightarrow> central \<Rightarrow> central_row list" where
  "stream_rows agent inst ce = filter (\<lambda>r. cr_agent r = agent \<and> cr_instance r = inst) (ce_audit ce)"

definition seqs_of :: "string \<Rightarrow> string \<Rightarrow> central \<Rightarrow> int list" where
  "seqs_of agent inst ce = map cr_seq (stream_rows agent inst ce)"

fun contiguous :: "int \<Rightarrow> int list \<Rightarrow> int" where
  "contiguous high [] = high"
| "contiguous high (q # qs) = (if q \<noteq> high + 1 then high else contiguous q qs)"

definition contiguous_high :: "string \<Rightarrow> string \<Rightarrow> central \<Rightarrow> int" where
  "contiguous_high agent inst ce = contiguous 0 (sort (seqs_of agent inst ce))"

text \<open>The inner \<open>while\<close>: skip over rows stored beyond an earlier gap.\<close>

function advance :: "int list \<Rightarrow> int \<Rightarrow> int" where
  "advance seqs high = (if high + 1 \<in> set seqs then advance seqs (high + 1) else high)"
  by pat_completeness simp_all
termination
proof (relation "measure (\<lambda>(seqs, high). card {q \<in> set seqs. q > high})")
  fix seqs :: "int list" and high
  let ?B = "{q \<in> set seqs. q > high}" and ?A = "{q \<in> set seqs. q > high + 1}"
  assume "high + 1 \<in> set seqs"
  then have "high + 1 \<in> ?B" "high + 1 \<notin> ?A" by simp_all
  moreover have "?A \<subseteq> ?B" by (simp add: Collect_mono_iff)
  ultimately have "?A \<subset> ?B" by blast
  then show "((seqs, high + 1), (seqs, high)) \<in> measure (\<lambda>(seqs, high). card {q \<in> set seqs. q > high})"
    by (simp add: psubset_card_mono)
qed simp

declare advance.simps [simp del]

definition note_gap :: "string \<Rightarrow> string \<Rightarrow> int \<Rightarrow> int \<Rightarrow> string \<Rightarrow> gap_row list \<Rightarrow> gap_row list" where
  "note_gap agent inst expected received now gs =
     (let same = (\<lambda>g. ga_agent g = agent \<and> ga_instance g = inst \<and> ga_expected g = expected \<and> ga_received g = received) in
      if list_ex same gs
      then map (\<lambda>g. if same g then g\<lparr>ga_last_seen := now, ga_sightings := ga_sightings g + 1, ga_resolved := None\<rparr> else g) gs
      else gs @ [\<lparr>ga_agent = agent, ga_instance = inst, ga_expected = expected, ga_received = received, ga_first_seen = now,
                  ga_last_seen = now, ga_sightings = 1, ga_resolved = None\<rparr>])"

definition resolve_gaps :: "string \<Rightarrow> string \<Rightarrow> int \<Rightarrow> string \<Rightarrow> gap_row list \<Rightarrow> gap_row list" where
  "resolve_gaps agent inst high now gs =
     map (\<lambda>g. if ga_agent g = agent \<and> ga_instance g = inst \<and> ga_received g \<le> high \<and> ga_resolved g = None
              then g\<lparr>ga_resolved := Some now\<rparr> else g) gs"

text \<open>\<open>any(type(r.get("seq")) is not int or r["seq"] < 1 for r in records)\<close>.\<close>

fun check_seqs :: "py list \<Rightarrow> (string \<times> py) list list res" where
  "check_seqs [] = Inr []"
| "check_seqs (PDict xs # rs) =
     (if is_int (dget xs ''seq'') \<and> int_of (dget xs ''seq'') \<ge> 1 then bindE (check_seqs rs) (\<lambda>ys. Inr (xs # ys))
      else Inl (ValueError ''seq must be a positive integer''))"
| "check_seqs (v # rs) = Inl AttributeError"

text \<open>One record of the loop: the new tables and position, or the \<open>break\<close> after a gap.\<close>

datatype 'a flow = Continue 'a | Break 'a

definition note_conflict ::
    "string \<Rightarrow> string \<Rightarrow> string \<Rightarrow> (string \<times> py) list \<Rightarrow> py \<Rightarrow> central_row option \<Rightarrow> central \<Rightarrow> central res" where
  "note_conflict agent inst now rec payload stored ce = (case stored of
       None \<Rightarrow> Inr ce
     | Some r \<Rightarrow>
         bindE (py_getitem (PDict rec) ''ts'') (\<lambda>ts. bindE (py_getitem (PDict rec) ''kind'') (\<lambda>kind.
         Inr (if py_eq (PStr (cr_ts r)) ts \<and> py_eq (PStr (cr_kind r)) kind \<and> cr_payload r = jnorm payload then ce
              else ce\<lparr>ce_conflicts := ce_conflicts ce @ [\<lparr>cf_agent = agent, cf_instance = inst, cf_seq = int_of (dget rec ''seq''),
                      cf_received = now, cf_record = jnorm (PDict rec)\<rparr>]\<rparr>))))"

definition store_record ::
    "pylib \<Rightarrow> string \<Rightarrow> string \<Rightarrow> string \<Rightarrow> (string \<times> py) list \<Rightarrow> py \<Rightarrow> central \<Rightarrow> (central \<times> int) res" where
  "store_record lib agent inst now rec payload ce =
     bindE (py_getitem (PDict rec) ''ts'') (\<lambda>ts. bindE (py_getitem (PDict rec) ''kind'') (\<lambda>kind.
       let seq = int_of (dget rec ''seq'');
           ce2 = ce\<lparr>ce_audit := ce_audit ce @ [\<lparr>cr_agent = agent, cr_instance = inst, cr_seq = seq, cr_ts = py_str (l_repr lib) ts,
             cr_kind = py_str (l_repr lib) kind, cr_payload = jnorm payload, cr_received = now\<rparr>]\<rparr> in
       Inr (ce2, advance (seqs_of agent inst ce2) seq)))"

definition ingest_one ::
    "pylib \<Rightarrow> string \<Rightarrow> string \<Rightarrow> string \<Rightarrow> (string \<times> py) list \<Rightarrow> central \<times> int \<Rightarrow> (central \<times> int) flow res" where
  "ingest_one lib agent inst now rec = (\<lambda>(ce, high).
     let seq = int_of (dget rec ''seq'') in
     bindE (py_getitem (PDict rec) ''payload'') (\<lambda>payload.
     let stored = find (\<lambda>r. cr_seq r = seq) (stream_rows agent inst ce) in
     bindE (note_conflict agent inst now rec payload stored ce) (\<lambda>ce1.
     if seq > high + 1 then Inr (Break (ce1\<lparr>ce_gaps := note_gap agent inst (high + 1) seq now (ce_gaps ce1)\<rparr>, high))
     else if stored \<noteq> None then Inr (Continue (ce1, high))
     else bindE (store_record lib agent inst now rec payload ce1) (\<lambda>st. Inr (Continue st)))))"

fun ingest_loop ::
    "pylib \<Rightarrow> string \<Rightarrow> string \<Rightarrow> string \<Rightarrow> (string \<times> py) list list \<Rightarrow> central \<times> int \<Rightarrow> (central \<times> int) res" where
  "ingest_loop lib agent inst now [] st = Inr st"
| "ingest_loop lib agent inst now (rec # recs) st =
     bindE (ingest_one lib agent inst now rec st) (\<lambda>f. case f of Break st' \<Rightarrow> Inr st' | Continue st' \<Rightarrow> ingest_loop lib agent inst now recs st')"

definition ingest :: "pylib \<Rightarrow> string \<Rightarrow> string \<Rightarrow> string \<Rightarrow> py list \<Rightarrow> central \<Rightarrow> int res \<times> central" where
  "ingest lib agent inst now records ce =
     (case bindE (check_seqs records) (\<lambda>recs.
        ingest_loop lib agent inst now (sort_key (\<lambda>r. int_of (dget r ''seq'')) recs) (ce, contiguous_high agent inst ce)) of
        Inl e \<Rightarrow> (Inl e, ce)
      | Inr (ce', high) \<Rightarrow> (Inr high, ce'\<lparr>ce_gaps := resolve_gaps agent inst high now (ce_gaps ce')\<rparr>))"

section \<open>Reports\<close>

definition audit_records :: "string option \<Rightarrow> central \<Rightarrow> central_row list" where
  "audit_records agent ce =
     sort_key (\<lambda>r. cr_agent r) (sort_key (\<lambda>r. cr_instance r) (sort_key (\<lambda>r. cr_seq r)
       (filter (\<lambda>r. case agent of None \<Rightarrow> True | Some [] \<Rightarrow> True | Some a \<Rightarrow> cr_agent r = a) (ce_audit ce))))"

definition conflict_count :: "central \<Rightarrow> nat" where
  "conflict_count ce = length (ce_conflicts ce)"

text \<open>The streams of \<open>integrity\<close> with the upper end each is expected to reach.\<close>

definition stream_keys :: "central \<Rightarrow> (string \<times> string) list" where
  "stream_keys ce = remdups (map (\<lambda>r. (cr_agent r, cr_instance r)) (ce_audit ce) @
     map (\<lambda>g. (ga_agent g, ga_instance g)) (filter (\<lambda>g. ga_resolved g = None) (ce_gaps ce)))"

definition upper_seq :: "central \<Rightarrow> string \<times> string \<Rightarrow> int" where
  "upper_seq ce = (\<lambda>(a, i). fold max
     (seqs_of a i ce @ map (\<lambda>g. ga_received g - 1)
        (filter (\<lambda>g. ga_agent g = a \<and> ga_instance g = i \<and> ga_resolved g = None) (ce_gaps ce))) 0)"

record integrity_report =
  in_missing :: int
  in_observations :: nat
  in_sightings :: nat
  in_unresolved :: nat
  in_streams :: "((string \<times> string) \<times> int \<times> int) list"

definition integrity :: "central \<Rightarrow> integrity_report" where
  "integrity ce =
     \<lparr>in_missing = sum_list (map (\<lambda>(a, i). upper_seq ce (a, i) -
          int (card {q \<in> set (seqs_of a i ce). q \<le> upper_seq ce (a, i)})) (stream_keys ce)),
      in_observations = length (ce_gaps ce), in_sightings = sum_list (map ga_sightings (ce_gaps ce)),
      in_unresolved = length (filter (\<lambda>g. ga_resolved g = None) (ce_gaps ce)),
      in_streams = map (\<lambda>(a, i). ((a, i), contiguous_high a i ce, fold max (seqs_of a i ce) 0)) (stream_keys ce)\<rparr>"

section \<open>HTTP\<close>

definition MAX_BODY :: int where "MAX_BODY = 4 * 2 ^ 20"

definition error_reply :: "int \<Rightarrow> string \<Rightarrow> int \<times> (string \<times> py) list" where
  "error_reply code text = (code, [(''error'', PStr text)])"

definition do_GET :: "string \<Rightarrow> py res \<Rightarrow> (int \<times> py) res" where
  "do_GET path policy_file =
     (if path = ''/v1/policy'' then (case policy_file of
          Inr v \<Rightarrow> Inr (200, v)
        | Inl e \<Rightarrow> if is_os_error e \<or> e = JSONDecodeError then Inr (503, PDict [(''error'', PStr ''POLICY_UNAVAILABLE'')]) else Inl e)
      else if path = ''/v1/health'' then Inr (200, PDict [(''ok'', PBool True)])
      else Inr (404, PDict [(''error'', PStr ''NOT_FOUND'')]))"

text \<open>The parsed envelope: body, signature text, agent, instance and records.\<close>

definition open_post :: "py \<Rightarrow> ((string \<times> py) list \<times> py \<times> py \<times> string \<times> py list) res" where
  "open_post envelope =
     bindE (py_getitem envelope ''body'') (\<lambda>body. bindE (py_getitem envelope ''signature'') (\<lambda>signature.
     bindE (py_getitem body ''agent_id'') (\<lambda>agent. bindE (py_getitem body ''instance_id'') (\<lambda>inst.
     bindE (py_getitem body ''records'') (\<lambda>records.
     case (body, inst, records) of
       (PDict b, PStr i, PList rs) \<Rightarrow> if i = [] then Inl (ValueError []) else Inr (b, signature, agent, i, rs)
     | _ \<Rightarrow> Inl (ValueError []))))))"

definition signed_by :: "ed25519 \<Rightarrow> (string \<times> string) list \<Rightarrow> string \<Rightarrow> (string \<times> py) list \<Rightarrow> py \<Rightarrow> bool" where
  "signed_by ed agent_keys a body signature = (case map_of agent_keys a of
     None \<Rightarrow> False | Some k \<Rightarrow> (case signature of PStr s \<Rightarrow> verify ed k (PDict body) s | _ \<Rightarrow> False))"

text \<open>
  \<open>do_POST\<close> on \<open>/v1/audit\<close> with a body of the announced length. \<open>agent_keys.get(agent_id)\<close> hashes the identifier, so a
  list or an object raises; a signature that is not a text fails the check.
\<close>

definition do_POST ::
    "pylib \<Rightarrow> ed25519 \<Rightarrow> string \<Rightarrow> (string \<times> string) list \<Rightarrow> string \<Rightarrow> string \<Rightarrow> int \<Rightarrow> py res \<Rightarrow> central \<Rightarrow>
     (int \<times> (string \<times> py) list) res \<times> central" where
  "do_POST lib ed ack_key agent_keys now path content_length doc ce =
     (if path \<noteq> ''/v1/audit'' then (Inr (error_reply 404 ''NOT_FOUND''), ce)
      else if \<not> (0 < content_length \<and> content_length \<le> MAX_BODY) then (Inr (error_reply 413 ''BODY_SIZE''), ce)
      else (case bindE doc open_post of
          Inl e \<Rightarrow> (if is_value_error e \<or> e \<in> {KeyError, TypeError} then Inr (error_reply 400 ''MALFORMED'') else Inl e, ce)
        | Inr (body, signature, agent, inst, records) \<Rightarrow>
            (case agent of
               PStr a \<Rightarrow>
                 (if signed_by ed agent_keys a body signature
                  then (case ingest lib a inst now records ce of
                      (Inl e, ce') \<Rightarrow> (if is_value_error e \<or> e \<in> {KeyError, TypeError} then Inr (error_reply 400 ''RECORD_INVALID'') else Inl e, ce')
                    | (Inr acked, ce') \<Rightarrow> (bindE (sign_ack lib ed ack_key body acked) (\<lambda>r. Inr (200, r)), ce'))
                  else (Inr (error_reply 403 ''SIGNATURE_INVALID''), ce))
             | _ \<Rightarrow> (if hashable agent then Inr (error_reply 403 ''SIGNATURE_INVALID'') else Inl TypeError, ce))))"

section \<open>Laws of ingestion\<close>

text \<open>\<open>reaches S n\<close>: 1 to \<open>n\<close> are all present and \<open>n + 1\<close> is not.\<close>

definition reaches :: "int set \<Rightarrow> int \<Rightarrow> bool" where
  "reaches S n \<longleftrightarrow> 0 \<le> n \<and> {1..n} \<subseteq> S \<and> n + 1 \<notin> S"

lemma reaches_le: "{1..m} \<subseteq> S \<Longrightarrow> reaches S n \<Longrightarrow> m \<le> n"
proof (rule ccontr)
  assume s: "{1..m} \<subseteq> S" "reaches S n" "\<not> m \<le> n"
  then have "n + 1 \<in> {1..m}" by (simp add: reaches_def)
  with s(1) have "n + 1 \<in> S" by (rule subsetD)
  with s(2) show False by (simp add: reaches_def)
qed

lemma reaches_unique: "reaches S m \<Longrightarrow> reaches S n \<Longrightarrow> m = n"
  using reaches_le [of m S n] reaches_le [of n S m] by (simp add: reaches_def)

lemma upto_extend: "h \<le> m \<Longrightarrow> 0 \<le> h \<Longrightarrow> {1..h} \<subseteq> S \<Longrightarrow> {h + 1..m} \<subseteq> S \<Longrightarrow> {1..m} \<subseteq> (S :: int set)"
proof
  fix x assume a: "{1..h} \<subseteq> S" "{h + 1..m} \<subseteq> S" "x \<in> {1..m}"
  show "x \<in> S"
  proof (cases "x \<le> h")
    case True with a show ?thesis by auto
  next
    case False
    with a(3) have "x \<in> {h + 1..m}" by simp
    with a(2) show ?thesis by blast
  qed
qed

lemma contiguous_spec:
  assumes "sorted qs" "distinct qs" "\<forall>q \<in> set qs. q > h"
  shows "h \<le> contiguous h qs \<and> {h + 1..contiguous h qs} \<subseteq> set qs \<and> contiguous h qs + 1 \<notin> set qs"
  using assms
proof (induction h qs rule: contiguous.induct)
  case (2 h q qs)
  show ?case
  proof (cases "q = h + 1")
    case True
    from 2(2,3) have "\<forall>x \<in> set qs. x > q" by (auto simp: order.strict_iff_order)
    with 2(1) 2(2,3) True have IH: "q \<le> contiguous q qs" "{q + 1..contiguous q qs} \<subseteq> set qs" "contiguous q qs + 1 \<notin> set qs" by auto
    have "{h + 1..contiguous q qs} \<subseteq> set (q # qs)"
    proof
      fix x assume "x \<in> {h + 1..contiguous q qs}"
      then have "x = q \<or> x \<in> {q + 1..contiguous q qs}" using True by auto
      with IH(2) show "x \<in> set (q # qs)" by auto
    qed
    with True IH show ?thesis by simp
  next
    case False
    with 2(2-4) have "h + 1 \<notin> set (q # qs)" by force
    with False show ?thesis by simp
  qed
qed simp

lemma advance_spec: "h \<le> advance seqs h \<and> {h + 1..advance seqs h} \<subseteq> set seqs \<and> advance seqs h + 1 \<notin> set seqs"
proof (induction seqs h rule: advance.induct)
  case (1 seqs h)
  show ?case
  proof (cases "h + 1 \<in> set seqs")
    case True
    from 1 [OF True] have IH: "h + 1 \<le> advance seqs (h + 1)" "{h + 1 + 1..advance seqs (h + 1)} \<subseteq> set seqs"
      "advance seqs (h + 1) + 1 \<notin> set seqs" by auto
    have "{h + 1..advance seqs (h + 1)} \<subseteq> set seqs"
    proof
      fix x assume "x \<in> {h + 1..advance seqs (h + 1)}"
      then have "x = h + 1 \<or> x \<in> {h + 1 + 1..advance seqs (h + 1)}" by auto
      with IH(2) True show "x \<in> set seqs" by blast
    qed
    with IH True show ?thesis by (simp add: advance.simps [of seqs h])
  next
    case False
    then show ?thesis by (simp add: advance.simps [of seqs h])
  qed
qed

definition wf_central :: "central \<Rightarrow> bool" where
  "wf_central ce \<longleftrightarrow> distinct (map (\<lambda>r. (cr_agent r, cr_instance r, cr_seq r)) (ce_audit ce)) \<and> (\<forall>r \<in> set (ce_audit ce). 1 \<le> cr_seq r)"

lemma distinct_seqs: "wf_central ce \<Longrightarrow> distinct (seqs_of a i ce)"
proof -
  assume "wf_central ce"
  then have "distinct (map (\<lambda>r. (cr_agent r, cr_instance r, cr_seq r)) (stream_rows a i ce))"
    unfolding wf_central_def stream_rows_def by (intro distinct_map_filter) simp
  then show ?thesis
    by (auto simp: seqs_of_def distinct_map inj_on_def stream_rows_def)
qed

lemma contiguous_high_reaches:
  assumes "wf_central ce"
  shows "reaches (set (seqs_of a i ce)) (contiguous_high a i ce)"
proof -
  have "\<forall>q \<in> set (sort (seqs_of a i ce)). q > 0"
    using assms by (auto simp: wf_central_def seqs_of_def stream_rows_def)
  with contiguous_spec [of "sort (seqs_of a i ce)" 0] distinct_seqs [OF assms, of a i] show ?thesis
    by (simp add: reaches_def contiguous_high_def)
qed

text \<open>How one call relates the tables before and after: existing rows stay, new rows belong to the stream and carry a received record.\<close>

definition row_of :: "pylib \<Rightarrow> string \<Rightarrow> string \<Rightarrow> string \<Rightarrow> (string \<times> py) list \<Rightarrow> central_row \<Rightarrow> bool" where
  "row_of lib agent inst now rec r \<longleftrightarrow>
     cr_agent r = agent \<and> cr_instance r = inst \<and> cr_received r = now \<and> cr_seq r = int_of (dget rec ''seq'') \<and>
     (\<exists>ts kind payload. map_of rec ''ts'' = Some ts \<and> map_of rec ''kind'' = Some kind \<and> map_of rec ''payload'' = Some payload \<and>
        cr_ts r = py_str (l_repr lib) ts \<and> cr_kind r = py_str (l_repr lib) kind \<and> cr_payload r = jnorm payload)"

definition grown :: "pylib \<Rightarrow> string \<Rightarrow> string \<Rightarrow> string \<Rightarrow> (string \<times> py) list list \<Rightarrow> central \<Rightarrow> central \<Rightarrow> bool" where
  "grown lib agent inst now recs ce ce' \<longleftrightarrow>
     (\<exists>new. ce_audit ce' = ce_audit ce @ new \<and> (\<forall>r \<in> set new. \<exists>rec \<in> set recs. row_of lib agent inst now rec r)) \<and>
     ce_policies ce' = ce_policies ce"

lemma grown_refl: "grown lib a i now recs ce ce" by (simp add: grown_def)

lemma grown_trans:
  "grown lib a i now recs ce ce1 \<Longrightarrow> grown lib a i now recs' ce1 ce2 \<Longrightarrow> set recs \<subseteq> R \<Longrightarrow> set recs' \<subseteq> R \<Longrightarrow> set all = R \<Longrightarrow> grown lib a i now all ce ce2"
  unfolding grown_def by fastforce

definition loop_inv :: "string \<Rightarrow> string \<Rightarrow> central \<times> int \<Rightarrow> bool" where
  "loop_inv a i = (\<lambda>(ce, high). wf_central ce \<and> reaches (set (seqs_of a i ce)) high)"

lemma stored_find: "find (\<lambda>r. cr_seq r = q) (stream_rows a i ce) = None \<longleftrightarrow> q \<notin> set (seqs_of a i ce)"
  by (auto simp: find_None_iff seqs_of_def)

fun flow_state :: "'a flow \<Rightarrow> 'a" where "flow_state (Continue x) = x" | "flow_state (Break x) = x"

lemma loop_inv_insert:
  assumes "loop_inv a i (ce, high)" and "q \<notin> set (seqs_of a i ce)" and "1 \<le> q" and "q \<le> high + 1"
    and "cr_agent r = a" "cr_instance r = i" "cr_seq r = q"
  shows "loop_inv a i (ce\<lparr>ce_audit := ce_audit ce @ [r]\<rparr>, advance (seqs_of a i (ce\<lparr>ce_audit := ce_audit ce @ [r]\<rparr>)) q)"
proof -
  let ?ce = "ce\<lparr>ce_audit := ce_audit ce @ [r]\<rparr>"
  have S: "set (seqs_of a i ?ce) = insert q (set (seqs_of a i ce))"
    using assms(5-7) by (auto simp: seqs_of_def stream_rows_def)
  from assms(1) have h: "0 \<le> high" "{1..high} \<subseteq> set (seqs_of a i ce)" by (simp_all add: loop_inv_def reaches_def)
  have q: "q = high + 1"
  proof (rule ccontr)
    assume "q \<noteq> high + 1"
    with assms(3,4) have "q \<in> {1..high}" by simp
    with h(2) assms(2) show False by blast
  qed
  have "wf_central ?ce"
    using assms by (auto simp: wf_central_def loop_inv_def seqs_of_def stream_rows_def)
  moreover have "reaches (set (seqs_of a i ?ce)) (advance (seqs_of a i ?ce) q)"
  proof -
    have "{1..q} \<subseteq> set (seqs_of a i ?ce)" using upto_extend [of high q "set (seqs_of a i ?ce)"] h q S by auto
    with advance_spec [of q "seqs_of a i ?ce"] q h
      upto_extend [of q "advance (seqs_of a i ?ce) q" "set (seqs_of a i ?ce)"] show ?thesis
      unfolding reaches_def by simp
  qed
  ultimately show ?thesis by (simp add: loop_inv_def)
qed

lemma loop_inv_cong: "ce_audit ce' = ce_audit ce \<Longrightarrow> loop_inv a i (ce', high) = loop_inv a i (ce, high)"
  by (simp add: loop_inv_def wf_central_def seqs_of_def stream_rows_def)

lemma note_conflict_audit:
  "note_conflict a i now rec payload stored ce = Inr ce1 \<Longrightarrow> ce_audit ce1 = ce_audit ce \<and> ce_policies ce1 = ce_policies ce"
  by (auto simp: note_conflict_def simp del: jnorm.simps split: option.splits if_splits)

lemma store_record_inv:
  assumes "store_record lib a i now rec payload ce = Inr st" and "loop_inv a i (ce, high)"
    and "map_of rec ''payload'' = Some payload" and "1 \<le> int_of (dget rec ''seq'')"
    and "int_of (dget rec ''seq'') \<le> high + 1" and "int_of (dget rec ''seq'') \<notin> set (seqs_of a i ce)"
  shows "loop_inv a i st \<and> grown lib a i now [rec] ce (fst st)"
proof -
  from assms(1) obtain ts kind where k: "map_of rec ''ts'' = Some ts" "map_of rec ''kind'' = Some kind"
    by (auto simp: store_record_def split: option.splits)
  let ?r = "\<lparr>cr_agent = a, cr_instance = i, cr_seq = int_of (dget rec ''seq''), cr_ts = py_str (l_repr lib) ts,
           cr_kind = py_str (l_repr lib) kind, cr_payload = jnorm payload, cr_received = now\<rparr>"
  let ?ce2 = "ce\<lparr>ce_audit := ce_audit ce @ [?r]\<rparr>"
  from assms(1) k have st: "st = (?ce2, advance (seqs_of a i ?ce2) (int_of (dget rec ''seq'')))" by (simp add: store_record_def Let_def)
  have "loop_inv a i st" unfolding st by (rule loop_inv_insert [OF assms(2,6,4,5)]) simp_all
  moreover have "grown lib a i now [rec] ce ?ce2"
    unfolding grown_def using assms(3) k by (auto simp: row_of_def)
  ultimately show ?thesis using st by simp
qed

lemma ingest_one_inv:
  assumes "ingest_one lib a i now rec (ce, high) = Inr f" and "loop_inv a i (ce, high)" and "1 \<le> int_of (dget rec ''seq'')"
  shows "loop_inv a i (flow_state f) \<and> grown lib a i now [rec] ce (fst (flow_state f))"
proof -
  let ?q = "int_of (dget rec ''seq'')"
  let ?stored = "find (\<lambda>r. cr_seq r = ?q) (stream_rows a i ce)"
  from assms(1) obtain payload ce1 where p: "map_of rec ''payload'' = Some payload"
    and n: "note_conflict a i now rec payload ?stored ce = Inr ce1"
    and rest: "(if ?q > high + 1 then Inr (Break (ce1\<lparr>ce_gaps := note_gap a i (high + 1) ?q now (ce_gaps ce1)\<rparr>, high))
     else if ?stored \<noteq> None then Inr (Continue (ce1, high))
     else bindE (store_record lib a i now rec payload ce1) (\<lambda>st. Inr (Continue st))) = Inr f"
    by (auto simp: ingest_one_def Let_def py_getitem_Inr simp del: py_getitem.simps)
  note ce1 = note_conflict_audit [OF n]
  have inv1: "loop_inv a i (ce1, high)" using assms(2) loop_inv_cong ce1 by blast
  show ?thesis
  proof (cases "?q > high + 1 \<or> ?stored \<noteq> None")
    case True
    obtain ce2 h2 where fs: "flow_state f = (ce2, h2)" by (cases "flow_state f")
    with True rest ce1 have same: "ce_audit ce2 = ce_audit ce" "ce_policies ce2 = ce_policies ce" "h2 = high"
      by (auto split: if_splits)
    from assms(2) same(3) have "loop_inv a i (ce2, h2)" using loop_inv_cong [OF same(1), of a i high] by blast
    with fs same(1,2) show ?thesis unfolding grown_def by simp
  next
    case False
    then have q: "?q \<le> high + 1" "?q \<notin> set (seqs_of a i ce1)"
      using ce1 stored_find [of ?q a i ce] by (simp_all add: seqs_of_def stream_rows_def)
    from False rest obtain st where st: "store_record lib a i now rec payload ce1 = Inr st" "f = Continue st" by auto
    from store_record_inv [OF st(1) inv1 p assms(3) q] st(2) ce1 show ?thesis by (simp add: grown_def)
  qed
qed

lemma ingest_loop_inv:
  assumes "ingest_loop lib a i now recs (ce, high) = Inr (ce', high')" and "loop_inv a i (ce, high)"
    and "\<forall>rec \<in> set recs. 1 \<le> int_of (dget rec ''seq'')"
  shows "loop_inv a i (ce', high') \<and> grown lib a i now recs ce ce'"
  using assms
proof (induction recs arbitrary: ce high)
  case (Cons rec recs)
  from Cons.prems(1) obtain f where one: "ingest_one lib a i now rec (ce, high) = Inr f" by auto
  note inv = ingest_one_inv [OF one Cons.prems(2)]
  obtain ce1 high1 where fs: "flow_state f = (ce1, high1)" by (cases "flow_state f")
  with inv Cons.prems(3) have i1: "loop_inv a i (ce1, high1)" and g1: "grown lib a i now [rec] ce ce1" by auto
  show ?case
  proof (cases f)
    case (Break st)
    with fs one Cons.prems(1) have "ce' = ce1" "high' = high1" by auto
    with i1 grown_trans [OF g1 grown_refl [of lib a i now "[]"], of "set (rec # recs)" "rec # recs"] show ?thesis by simp
  next
    case (Continue st)
    with fs one Cons.prems(1) have "ingest_loop lib a i now recs (ce1, high1) = Inr (ce', high')" by auto
    from Cons.IH [OF this i1] Cons.prems(3) have "loop_inv a i (ce', high')" "grown lib a i now recs ce1 ce'" by auto
    with grown_trans [OF g1, of recs ce' "set (rec # recs)" "rec # recs"] show ?thesis by auto
  qed
qed (simp add: grown_refl)

lemma check_seqs_Inr: "check_seqs rs = Inr recs \<Longrightarrow> rs = map PDict recs \<and> (\<forall>rec \<in> set recs. 1 \<le> int_of (dget rec ''seq''))"
  by (induction rs arbitrary: recs rule: check_seqs.induct) (auto split: if_splits)

lemma gaps_only: "wf_central (ce\<lparr>ce_gaps := g\<rparr>) = wf_central ce" "seqs_of a i (ce\<lparr>ce_gaps := g\<rparr>) = seqs_of a i ce"
  by (simp_all add: wf_central_def seqs_of_def stream_rows_def)

lemma ingest_Inr:
  assumes "ingest lib a i now records ce = (Inr high, ce')" and "wf_central ce"
  shows "\<exists>recs. records = map PDict recs \<and> wf_central ce' \<and> reaches (set (seqs_of a i ce')) high \<and> grown lib a i now recs ce ce'"
proof -
  let ?s = "sort_key (\<lambda>r. int_of (dget r ''seq''))"
  from assms(1) obtain recs ce1 where c: "check_seqs records = Inr recs"
    and l: "ingest_loop lib a i now (?s recs) (ce, contiguous_high a i ce) = Inr (ce1, high)"
    and ce': "ce' = ce1\<lparr>ce_gaps := resolve_gaps a i high now (ce_gaps ce1)\<rparr>"
    by (auto simp: ingest_def split: sum.splits)
  from check_seqs_Inr [OF c] have r: "records = map PDict recs" "\<forall>rec \<in> set (?s recs). 1 \<le> int_of (dget rec ''seq'')" by auto
  have "loop_inv a i (ce, contiguous_high a i ce)"
    using assms(2) contiguous_high_reaches by (simp add: loop_inv_def)
  from ingest_loop_inv [OF l this r(2)] have "loop_inv a i (ce1, high)" "grown lib a i now (?s recs) ce ce1" by auto
  then have "wf_central ce'" "reaches (set (seqs_of a i ce')) high" "grown lib a i now recs ce ce'"
    unfolding ce' by (auto simp: loop_inv_def gaps_only grown_def)
  with r show ?thesis by blast
qed

lemma ingest_Inl: "ingest lib a i now records ce = (Inl e, ce') \<Longrightarrow> ce' = ce"
  by (auto simp: ingest_def split: sum.splits)

lemma contiguous_high_mono:
  assumes "wf_central ce" and "wf_central ce'" and "ce_audit ce' = ce_audit ce @ new"
  shows "contiguous_high a i ce \<le> contiguous_high a i ce'"
proof (rule reaches_le [OF _ contiguous_high_reaches [OF assms(2)]])
  show "{1..contiguous_high a i ce} \<subseteq> set (seqs_of a i ce')"
    using contiguous_high_reaches [OF assms(1), of a i] assms(3) by (auto simp: reaches_def seqs_of_def stream_rows_def)
qed

lemma ingest_acks_stored_prefix_lemma:
  assumes "wf_central ce" and "ingest lib a i now records ce = (res, ce')"
  shows "wf_central ce' \<and> (\<exists>new. ce_audit ce' = ce_audit ce @ new \<and>
      (\<forall>r \<in> set new. \<exists>rec. PDict rec \<in> set records \<and> row_of lib a i now rec r)) \<and>
    (case res of
       Inl e \<Rightarrow> ce' = ce
     | Inr high \<Rightarrow> high = contiguous_high a i ce' \<and> contiguous_high a i ce \<le> high \<and> {1..high} \<subseteq> set (seqs_of a i ce') \<and>
         high + 1 \<notin> set (seqs_of a i ce'))"
proof (cases res)
  case (Inl e)
  with assms ingest_Inl show ?thesis by (fastforce)
next
  case (Inr high)
  with assms(2) have ing: "ingest lib a i now records ce = (Inr high, ce')" by simp
  from ingest_Inr [OF ing assms(1)] obtain recs where r: "records = map PDict recs" and wf: "wf_central ce'"
    and re: "reaches (set (seqs_of a i ce')) high" and g: "grown lib a i now recs ce ce'" by blast
  from g obtain new where new: "ce_audit ce' = ce_audit ce @ new" "\<forall>r \<in> set new. \<exists>rec \<in> set recs. row_of lib a i now rec r"
    by (auto simp: grown_def)
  have "high = contiguous_high a i ce'" by (rule reaches_unique [OF re contiguous_high_reaches [OF wf]])
  moreover from calculation have "contiguous_high a i ce \<le> high" using contiguous_high_mono [OF assms(1) wf new(1)] by simp
  moreover have "\<forall>r \<in> set new. \<exists>rec. PDict rec \<in> set records \<and> row_of lib a i now rec r" using new(2) r by fastforce
  ultimately show ?thesis using Inr wf re new(1) by (auto simp: reaches_def)
qed

text \<open>C29: The central service acknowledges exactly the contiguous prefix it has stored. A successful call returns a number
  such that records 1 to that number of the stream are all in the table and the next one is not; this is also what a fresh
  scan (\<open>contiguous_high\<close>) finds and it never decreases. Stored rows are kept as they are and in place, every new row is one of
  the received records of this stream, rows stay unique per stream and sequence number, and other streams are untouched. A
  failing call changes nothing.\<close>

theorem ingest_acks_stored_prefix:
  assumes "wf_central ce" and "ingest lib a i now records ce = (res, ce')"
  shows "wf_central ce' \<and> (\<exists>new. ce_audit ce' = ce_audit ce @ new \<and>
      (\<forall>r \<in> set new. \<exists>rec. PDict rec \<in> set records \<and> row_of lib a i now rec r)) \<and>
    (case res of
       Inl e \<Rightarrow> ce' = ce
     | Inr high \<Rightarrow> high = contiguous_high a i ce' \<and> contiguous_high a i ce \<le> high \<and> {1..high} \<subseteq> set (seqs_of a i ce') \<and>
         high + 1 \<notin> set (seqs_of a i ce'))"
  by (rule ingest_acks_stored_prefix_lemma [OF assms])

definition ex_wire :: "int \<Rightarrow> py" where
  "ex_wire q = PDict [(''seq'', PInt q), (''ts'', PStr ''t''), (''kind'', PStr ''heartbeat''), (''payload'', PDict [])]"

lemma ex_ingest: "fst (ingest ex_lib ''dell'' ''i1'' ''now'' [ex_wire 2, ex_wire 1, ex_wire 5] central_empty) = Inr 2"
  by code_simp

theorem ingest_acks_stored_prefix_witness:
  "2 = contiguous_high ''dell'' ''i1'' (snd (ingest ex_lib ''dell'' ''i1'' ''now'' [ex_wire 2, ex_wire 1, ex_wire 5] central_empty)) \<and>
   length (ce_gaps (snd (ingest ex_lib ''dell'' ''i1'' ''now'' [ex_wire 2, ex_wire 1, ex_wire 5] central_empty))) = 1"
proof
  let ?x = "ingest ex_lib ''dell'' ''i1'' ''now'' [ex_wire 2, ex_wire 1, ex_wire 5] central_empty"
  have "wf_central central_empty" by (simp add: wf_central_def central_empty_def)
  moreover have "?x = (Inr 2, snd ?x)" by (rule prod_eqI) (simp_all add: ex_ingest)
  ultimately show "2 = contiguous_high ''dell'' ''i1'' (snd ?x)" using ingest_acks_stored_prefix [of central_empty ex_lib] by fastforce
  show "length (ce_gaps (snd ?x)) = 1" by code_simp
qed

section \<open>Publishing\<close>

definition versions :: "central \<Rightarrow> int list" where
  "versions ce = map fst (ce_policies ce)"

lemma publish_done:
  assumes "publish ed key now doc ce = Inr (rc, ce', env)"
  shows "(rc = 2 \<and> ce' = ce \<and> env = None) \<or>
    (\<exists>p e. rc = 0 \<and> env = Some e \<and> parse doc = Inr p \<and> latest_policy_version ce < p_version p \<and> sign_envelope ed key p = Inr e \<and>
      ce' = ce\<lparr>ce_policies := ce_policies ce @ [(p_version p, now, jnorm (to_dict p))]\<rparr>)"
proof -
  from assms obtain p where p: "parse doc = Inr p" by (auto simp: publish_def)
  show ?thesis
  proof (cases "p_version p \<le> latest_policy_version ce")
    case True
    with assms p show ?thesis by (simp add: publish_def)
  next
    case False
    with assms p show ?thesis by (auto simp: publish_def record_policy_def simp del: jnorm.simps split: if_splits)
  qed
qed

lemma publish_versions:
  assumes "publish ed key now doc ce = Inr (rc, ce', env)" and "sorted_wrt (<) (versions ce)"
  shows "sorted_wrt (<) (versions ce') \<and> ce_audit ce' = ce_audit ce"
  using publish_done [OF assms(1)]
proof (elim disjE exE conjE)
  fix p e
  assume v: "latest_policy_version ce < p_version p"
    and ce': "ce' = ce\<lparr>ce_policies := ce_policies ce @ [(p_version p, now, jnorm (to_dict p))]\<rparr>"
  have "\<forall>w \<in> set (versions ce). w < p_version p"
  proof
    fix w assume "w \<in> set (versions ce)"
    then have "w \<in> fst ` set (ce_policies ce)" "ce_policies ce \<noteq> []" by (auto simp: versions_def)
    then have "w \<le> latest_policy_version ce" by (simp add: latest_policy_version_def)
    with v show "w < p_version p" by simp
  qed
  with assms(2) ce' show ?thesis by (simp add: versions_def sorted_wrt_append)
qed (use assms in simp)

text \<open>Published versions only increase, and what is published is what an agent accepts. Whatever documents are submitted,
  the table of published policies stays strictly increasing in the version; a successful publication hands out an envelope
  that opens, under the matching public key, to a well-formed policy with the largest version in the table, and an agent holding
  any earlier published policy adopts it.\<close>

theorem publish_monotone:
  assumes "key_pair ed key pub" and "sorted_wrt (<) (versions ce)" and "publish ed key now doc ce = Inr (rc, ce', env)"
  shows "sorted_wrt (<) (versions ce') \<and>
    (case env of None \<Rightarrow> rc = 2 \<and> ce' = ce
     | Some e \<Rightarrow> rc = 0 \<and> (\<exists>p. open_envelope ed e pub = Inr p \<and> wf_policy p \<and> latest_policy_version ce' = p_version p \<and>
         (\<forall>old. p_version old \<in> set (versions ce) \<longrightarrow> adoption_error (Some old) p = None)))"
proof -
  have s: "sorted_wrt (<) (versions ce')" using publish_versions [OF assms(3,2)] by simp
  show ?thesis using publish_done [OF assms(3)]
  proof (elim disjE exE conjE)
    fix p e
    assume env: "env = Some e" and p: "parse doc = Inr p" "sign_envelope ed key p = Inr e" and rc: "rc = 0"
      and ce': "ce' = ce\<lparr>ce_policies := ce_policies ce @ [(p_version p, now, jnorm (to_dict p))]\<rparr>"
    from parse_wf [OF p(1)] have wf: "wf_policy p" .
    from envelope_opens [OF assms(1) wf p(2)] have opens: "open_envelope ed e pub = Inr p" .
    have below: "\<forall>w \<in> fst ` set (ce_policies ce). w < p_version p"
      using s ce' by (auto simp: versions_def sorted_wrt_append)
    have "Max (insert (p_version p) (fst ` set (ce_policies ce))) = p_version p"
      by (rule Max_eqI) (use below in \<open>auto intro: less_imp_le\<close>)
    then have "latest_policy_version ce' = p_version p" by (simp add: latest_policy_version_def ce')
    moreover have "adoption_error (Some old) p = None" if "p_version old \<in> set (versions ce)" for old
      using below that by (auto simp: adoption_error_def versions_def)
    ultimately show ?thesis using s env rc opens wf by auto
  qed (use s in simp)
qed

lemma ex_publish: "publish toy_ed ''k'' ''now'' (to_dict BUILTIN) central_empty =
    Inr (0, central_empty\<lparr>ce_policies := [(0, ''now'', jnorm (to_dict BUILTIN))]\<rparr>,
      Some (PDict [(''policy'', to_dict BUILTIN), (''signature'', PStr ''k'')]))"
  by code_simp

theorem publish_monotone_witness:
  "\<exists>p. open_envelope toy_ed (PDict [(''policy'', to_dict BUILTIN), (''signature'', PStr ''k'')]) ''k'' = Inr p \<and> wf_policy p"
  using publish_monotone [OF toy_key_pair _ ex_publish] by (auto simp: versions_def central_empty_def)

end
