(* ===== verification/Cra_Replication.thy ===== *)
theory Cra_Replication
  imports Cra_Central
begin

text \<open>
  The audit channel between an agent and the central service as one system: the agent's database
  (written by the reflex loop while a push is under way), the request bodies it has signed, the central
  store, and the acknowledgements the service has signed.

  The network may lose, repeat, delay and reorder requests and replies and may invent messages; the
  premises \<open>from_agent\<close> and \<open>from_central\<close> say that a valid signature of a party is on something the party
  signed (as JSON text: the order of the keys does not matter). The central key also signs policies, so an acknowledgement check may meet a signed policy.
\<close>

section \<open>The system\<close>

record rep =
  rp_db :: agent_db
  rp_pending :: "(agent_db \<times> string) option"
  rp_sent :: "(string \<times> py) list list"
  rp_central :: central
  rp_issued :: "py list"

record rep_env =
  re_lib :: pylib
  re_ed :: ed25519
  re_cf :: sync_config
  re_ack_key :: string
  re_keys :: "(string \<times> string) list"

text \<open>What other code of the agent does to the database: any operation that leaves the two keys of the channel alone.\<close>

definition agent_op :: "agent_db \<Rightarrow> agent_db \<Rightarrow> bool" where
  "agent_op db db' \<longleftrightarrow> db_step db db' \<and> kv_get ACKED_KEY db' = kv_get ACKED_KEY db \<and>
     kv_get ''instance_id'' db' = kv_get ''instance_id'' db"

definition from_agent :: "rep_env \<Rightarrow> rep \<Rightarrow> bool" where
  "from_agent e s \<longleftrightarrow> (\<forall>k body sig. map_of (re_keys e) (sc_agent_id (re_cf e)) = Some k \<longrightarrow>
     verify (re_ed e) k (PDict body) sig \<longrightarrow> (\<exists>b \<in> set (rp_sent s). jnorm (PDict body) = jnorm (PDict b)))"

definition from_central :: "rep_env \<Rightarrow> rep \<Rightarrow> bool" where
  "from_central e s \<longleftrightarrow> (\<forall>v sig. verify (re_ed e) (sc_public_key (re_cf e)) v sig \<longrightarrow>
     (\<exists>w \<in> set (rp_issued s). jnorm v = jnorm w) \<or> (\<exists>p. jnorm v = jnorm (to_dict p)))"

definition issue :: "(int \<times> (string \<times> py) list) res \<Rightarrow> py list \<Rightarrow> py list" where
  "issue out issued = (case out of Inr (code, r) \<Rightarrow> if code = 200 then dget r ''ack'' # issued else issued | Inl _ \<Rightarrow> issued)"

definition settle :: "int res \<Rightarrow> agent_db \<Rightarrow> agent_db \<Rightarrow> agent_db" where
  "settle res db0 db = (case res of
     Inr n \<Rightarrow> if acked_seq db0 \<noteq> Inr n then kv_put ACKED_KEY (PInt n) None db else db | Inl _ \<Rightarrow> db)"

inductive rep_step :: "rep_env \<Rightarrow> rep \<Rightarrow> rep \<Rightarrow> bool" for e :: rep_env where
  rp_agent: "agent_op (rp_db s) db' \<Longrightarrow> rep_step e s (s\<lparr>rp_db := db'\<rparr>)"
| rp_send: "rp_pending s = None \<Longrightarrow> acked_seq (rp_db s) = Inr acked \<Longrightarrow>
    recs = read_audit acked (sc_batch (re_cf e)) (rp_db s) \<Longrightarrow> recs \<noteq> [] \<Longrightarrow>
    rep_step e s (s\<lparr>rp_pending := Some (rp_db s, nonce), rp_sent := push_body (re_lib e) (re_cf e) (rp_db s) nonce recs # rp_sent s\<rparr>)"
| rp_deliver: "from_agent e s \<Longrightarrow> (\<forall>v. doc = Inr v \<longrightarrow> wf_json v) \<Longrightarrow>
    do_POST (re_lib e) (re_ed e) (re_ack_key e) (re_keys e) now path len doc (rp_central s) = (out, ce') \<Longrightarrow>
    rep_step e s (s\<lparr>rp_central := ce', rp_issued := issue out (rp_issued s)\<rparr>)"
| rp_finish: "rp_pending s = Some (db0, pu_nonce i) \<Longrightarrow> from_central e s \<Longrightarrow> (\<forall>v. pu_reply i = Inr v \<longrightarrow> wf_json v) \<Longrightarrow>
    fst (push_audit (re_lib e) (re_ed e) (re_cf e) i \<lparr>sy_db = db0, sy_last_rejection = []\<rparr>) = res \<Longrightarrow>
    rep_step e s (s\<lparr>rp_pending := None, rp_db := settle res db0 (rp_db s)\<rparr>)"
| rp_crash: "rep_step e s (s\<lparr>rp_pending := None\<rparr>)"

definition rep_init :: "string \<Rightarrow> rep \<Rightarrow> bool" where
  "rep_init inst s \<longleftrightarrow> s = \<lparr>rp_db = db_open inst db_empty, rp_pending = None, rp_sent = [], rp_central = central_empty, rp_issued = []\<rparr>"

section \<open>The invariant\<close>

text \<open>A central row that repeats a record of the agent's log.\<close>

definition mirrors :: "pylib \<Rightarrow> audit_row \<Rightarrow> central_row \<Rightarrow> bool" where
  "mirrors lib r c \<longleftrightarrow> cr_seq c = a_seq r \<and> cr_ts c = l_iso_ms lib (a_ts r) \<and> cr_kind c = a_kind r \<and> cr_payload c = a_payload r"

definition high_of :: "rep_env \<Rightarrow> string \<Rightarrow> rep \<Rightarrow> int" where
  "high_of e inst s = contiguous_high (sc_agent_id (re_cf e)) inst (rp_central s)"

definition body_ok :: "rep_env \<Rightarrow> string \<Rightarrow> agent_db \<Rightarrow> (string \<times> py) list \<Rightarrow> bool" where
  "body_ok e inst db b \<longleftrightarrow> (\<exists>nonce recs. set recs \<subseteq> set (db_audit db) \<and>
     b = [(''agent_id'', PStr (sc_agent_id (re_cf e))), (''instance_id'', PStr inst),
          (''records'', PList (map (wire_record (re_lib e)) recs)), (''nonce'', PStr nonce)])"

definition ack_ok :: "rep_env \<Rightarrow> string \<Rightarrow> int \<Rightarrow> py \<Rightarrow> bool" where
  "ack_ok e inst high v \<longleftrightarrow> (\<forall>xs. v = PDict xs \<longrightarrow> distinct (map fst xs) \<and>
     (\<forall>n. dget xs ''agent_id'' = PStr (sc_agent_id (re_cf e)) \<longrightarrow>
        dget xs ''instance_id'' = PStr inst \<longrightarrow> dget xs ''acked_seq'' = PInt n \<longrightarrow> n \<le> high))"

definition db_ok :: "string \<Rightarrow> agent_db \<Rightarrow> bool" where
  "db_ok inst db \<longleftrightarrow> wf_db db \<and> (\<forall>r \<in> set (db_audit db). jnorm (a_payload r) = a_payload r) \<and>
     kv_get ''instance_id'' db = Some (PStr inst) \<and> (\<exists>n. acked_seq db = Inr n \<and> 0 \<le> n)"

definition rep_inv :: "rep_env \<Rightarrow> string \<Rightarrow> rep \<Rightarrow> bool" where
  "rep_inv e inst s \<longleftrightarrow>
     db_ok inst (rp_db s) \<and> wf_central (rp_central s) \<and>
     (\<forall>b \<in> set (rp_sent s). body_ok e inst (rp_db s) b) \<and>
     (\<forall>c \<in> set (stream_rows (sc_agent_id (re_cf e)) inst (rp_central s)). \<exists>r \<in> set (db_audit (rp_db s)). mirrors (re_lib e) r c) \<and>
     (\<forall>v \<in> set (rp_issued s). ack_ok e inst (high_of e inst s) v) \<and>
     (\<exists>n. acked_seq (rp_db s) = Inr n \<and> n \<le> high_of e inst s) \<and>
     (\<forall>db0 nonce. rp_pending s = Some (db0, nonce) \<longrightarrow>
        db_ok inst db0 \<and> acked_seq db0 = acked_seq (rp_db s) \<and> set (db_audit db0) \<subseteq> set (db_audit (rp_db s)))"

lemma payload_step: "db_step db db' \<Longrightarrow> (\<forall>r \<in> set (db_audit db). jnorm (a_payload r) = a_payload r) \<Longrightarrow>
    (\<forall>r \<in> set (db_audit db'). jnorm (a_payload r) = a_payload r)"
proof (induction rule: db_step.induct)
  case (st_put entry db key v)
  then show ?case by (auto simp: kv_put_def Let_def simp del: jnorm.simps split: option.splits)
qed (auto simp: db_open_def reserve_action_def complete_action_def record_verification_def reconcile_observed_action_def Let_def
    simp del: jnorm.simps)

lemma agent_op_ok: "agent_op db db' \<Longrightarrow> db_ok inst db \<Longrightarrow> db_ok inst db' \<and> acked_seq db' = acked_seq db \<and> set (db_audit db) \<subseteq> set (db_audit db')"
  unfolding agent_op_def db_ok_def acked_seq_def
  using step_audit [of db db'] wf_step [of db db'] payload_step [of db db'] by auto

lemma ack_ok_mono: "ack_ok e inst h v \<Longrightarrow> h \<le> h' \<Longrightarrow> ack_ok e inst h' v"
  unfolding ack_ok_def by fastforce

lemma body_ok_mono: "body_ok e inst db b \<Longrightarrow> set (db_audit db) \<subseteq> set (db_audit db') \<Longrightarrow> body_ok e inst db' b"
  unfolding body_ok_def by blast

lemma put_acked:
  "db_audit (kv_put ACKED_KEY v None db) = db_audit db" "acked_seq (kv_put ACKED_KEY (PInt n) None db) = Inr n"
  "kv_get ''instance_id'' (kv_put ACKED_KEY v None db) = kv_get ''instance_id'' db"
  "wf_db db \<Longrightarrow> wf_db (kv_put ACKED_KEY v None db)"
  by (simp_all add: kv_put_def acked_seq_def kv_get_def ACKED_KEY_def wf_db_def)

lemma int_of_PInt [simp]: "int_of (PInt n) = n" by (simp add: int_of_def)

text \<open>What a successful push learned: an acknowledgement of the agent's own stream.\<close>

lemma verify_ack_known:
  assumes "verify_ack lib ed pub response request highest previous = Inr n" and "wf_json response"
    and "map_of request ''agent_id'' = Some (PStr a)" "map_of request ''instance_id'' = Some (PStr i)"
  shows "\<exists>ack s. verify ed pub (PDict ack) s \<and> dget ack ''agent_id'' = PStr a \<and> dget ack ''instance_id'' = PStr i \<and>
    dget ack ''acked_seq'' = PInt n \<and> previous \<le> n \<and> n \<le> highest \<and> dget ack ''schema'' = PStr ACK_SCHEMA \<and> distinct (map fst ack)"
proof -
  from assms(1) obtain rs ack s expected where r: "response = PDict rs" "dget rs ''ack'' = PDict ack" "dget rs ''signature'' = PStr s"
    "verify ed pub (PDict ack) s" "expected_ack lib request (dget ack ''acked_seq'') = Inr expected" "py_eq (PDict ack) expected"
    "previous \<le> n" "n \<le> highest" "map_of ack ''acked_seq'' = Some (PInt n)"
    by (auto simp: verify_ack_def py_type_iffs py_getitem_Inr simp del: py_eq.simps py_getitem.simps
        split: py.splits if_splits)
  from r(5) assms(3,4) obtain ys where ex: "expected = PDict ys" "map_of ys ''schema'' = Some (PStr ACK_SCHEMA)"
    "map_of ys ''agent_id'' = Some (PStr a)" "map_of ys ''instance_id'' = Some (PStr i)"
    by (auto simp: expected_ack_def)
  have d: "distinct (map fst ack)" using wf_json_dget [of rs "''ack''"] assms(2) r(1,2) by simp
  note look = py_eq_dict_lookup [OF r(6) [unfolded ex(1)] d]
  have "dget ack ''agent_id'' = PStr a" "dget ack ''instance_id'' = PStr i" "dget ack ''schema'' = PStr ACK_SCHEMA"
    using look [OF ex(2)] look [OF ex(3)] look [OF ex(4)] by (auto simp: dget_def)
  moreover have "dget ack ''acked_seq'' = PInt n" using r(9) by (simp add: dget_def)
  ultimately show ?thesis using r d by blast
qed

lemma same_text_lookup:
  assumes "jnorm (PDict xs) = jnorm (PDict ys)" and "distinct (map fst xs)" and "distinct (map fst ys)"
  shows "jnorm (dget xs k) = jnorm (dget ys k)"
  using dget_jnorm_pay [OF assms(2), of k] dget_jnorm_pay [OF assms(3), of k] assms(1) by simp

lemma push_audit_result:
  assumes "fst (push_audit lib ed cf i \<lparr>sy_db = db0, sy_last_rejection = l\<rparr>) = Inr n"
  obtains (idle) "acked_seq db0 = Inr n"
  | (acked) acked records response where "acked_seq db0 = Inr acked" "records = read_audit acked (sc_batch cf) db0"
      "pu_reply i = Inr response"
      "verify_ack lib ed (sc_public_key cf) response (push_body lib cf db0 (pu_nonce i) records) (a_seq (last records)) acked = Inr n"
proof -
  let ?s = "\<lparr>sy_db = db0, sy_last_rejection = l\<rparr>"
  have "wpS (push_audit lib ed cf i) (\<lambda>n _. acked_seq db0 = Inr n \<or> (\<exists>acked records response. acked_seq db0 = Inr acked \<and>
      records = read_audit acked (sc_batch cf) db0 \<and> pu_reply i = Inr response \<and>
      verify_ack lib ed (sc_public_key cf) response (push_body lib cf db0 (pu_nonce i) records) (a_seq (last records)) acked = Inr n))
    (\<lambda>_ _. True) ?s"
    by (simp add: push_audit_def Let_def wp_simps write_db_def split: sum.splits)
  moreover obtain t where "push_audit lib ed cf i ?s = (Inr n, t)" using assms by (metis prod.collapse)
  ultimately have "acked_seq db0 = Inr n \<or> (\<exists>acked records response. acked_seq db0 = Inr acked \<and>
      records = read_audit acked (sc_batch cf) db0 \<and> pu_reply i = Inr response \<and>
      verify_ack lib ed (sc_public_key cf) response (push_body lib cf db0 (pu_nonce i) records) (a_seq (last records)) acked = Inr n)"
    by (rule wpS_Inr)
  then show thesis using idle acked by blast
qed

lemma finish_bound:
  assumes "fst (push_audit (re_lib e) (re_ed e) (re_cf e) i \<lparr>sy_db = db0, sy_last_rejection = []\<rparr>) = Inr n"
    and "\<forall>v. pu_reply i = Inr v \<longrightarrow> wf_json v" and "from_central e s" and "db_ok inst db0"
    and "\<forall>v \<in> set (rp_issued s). ack_ok e inst high v"
  shows "acked_seq db0 = Inr n \<or> (\<exists>m. acked_seq db0 = Inr m \<and> m \<le> n \<and> n \<le> high)"
  using assms(1)
proof (cases rule: push_audit_result)
  case (acked m records response)
  let ?b = "push_body (re_lib e) (re_cf e) db0 (pu_nonce i) records"
  have b: "map_of ?b ''agent_id'' = Some (PStr (sc_agent_id (re_cf e)))" "map_of ?b ''instance_id'' = Some (PStr inst)"
    using assms(4) by (simp_all add: push_body_def db_ok_def)
  have w: "wf_json response" using acked(3) assms(2) by blast
  from verify_ack_known [OF acked(4) w b] obtain ack sg where a: "verify (re_ed e) (sc_public_key (re_cf e)) (PDict ack) sg"
    "dget ack ''agent_id'' = PStr (sc_agent_id (re_cf e))" "dget ack ''instance_id'' = PStr inst"
    "dget ack ''acked_seq'' = PInt n" "m \<le> n" "dget ack ''schema'' = PStr ACK_SCHEMA" and d: "distinct (map fst ack)" by blast
  have "jnorm (PDict ack) \<noteq> jnorm (to_dict p)" for p
  proof
    assume eq: "jnorm (PDict ack) = jnorm (to_dict p)"
    have "dget ack ''schema'' = PStr POLICY_SCHEMA"
      using same_text_lookup [OF eq [unfolded to_dict_def] d, of "''schema''"] by (simp add: dget_def int_values_def)
    with a(6) show False by (simp add: ACK_SCHEMA_def POLICY_SCHEMA_def)
  qed
  with a(1) assms(3) obtain w where w: "w \<in> set (rp_issued s)" "jnorm (PDict ack) = jnorm w" unfolding from_central_def by blast
  then have "jnorm w = PDict (sort_key fst (map (map_prod id jnorm) ack))" by simp
  then obtain ws where ws: "w = PDict ws" by (cases w) simp_all
  from assms(5) w(1) have ok: "ack_ok e inst high (PDict ws)" using ws by blast
  then have dw: "distinct (map fst ws)" by (simp add: ack_ok_def)
  have look: "jnorm (dget ws k) = jnorm (dget ack k)" for k using same_text_lookup [OF w(2) [unfolded ws] d dw, of k] by simp
  have "dget ws ''agent_id'' = PStr (sc_agent_id (re_cf e))" "dget ws ''instance_id'' = PStr inst" "dget ws ''acked_seq'' = PInt n"
    using look [of "''agent_id''"] look [of "''instance_id''"] look [of "''acked_seq''"] unfolding a(2-4) by simp_all
  with ok have "n \<le> high" unfolding ack_ok_def by blast
  with acked(1) a(5) show ?thesis by blast
qed simp

text \<open>The effect of one HTTP request on the central side.\<close>

lemma wf_json_lookup: "wf_json (PDict xs) \<Longrightarrow> map_of xs k = Some v \<Longrightarrow> wf_json v"
  using wf_json_dget [of xs k] by (simp add: dget_def)

lemma open_post_Inr:
  assumes "open_post env = Inr (b, sig, agent, i, rs)"
  shows "map_of b ''agent_id'' = Some agent \<and> map_of b ''instance_id'' = Some (PStr i) \<and> map_of b ''records'' = Some (PList rs) \<and>
    (wf_json env \<longrightarrow> wf_json (PDict b))"
  using assms by (auto simp: open_post_def py_getitem_Inr simp del: py_getitem.simps wf_json.simps split: py.splits if_splits
      intro: wf_json_lookup)

lemma sign_ack_Inr:
  assumes "sign_ack lib ed key b high = Inr r" and "map_of b ''agent_id'' = Some (PStr a)" and "map_of b ''instance_id'' = Some (PStr i)"
  shows "\<exists>ack. dget r ''ack'' = PDict ack \<and> distinct (map fst ack) \<and> dget ack ''agent_id'' = PStr a \<and> dget ack ''instance_id'' = PStr i \<and>
    dget ack ''acked_seq'' = PInt high"
  using assms by (auto simp: sign_ack_def Let_def dget_def)

definition accepted :: "rep_env \<Rightarrow> string \<Rightarrow> string \<Rightarrow> (string \<times> py) list \<Rightarrow> py list \<Rightarrow> bool" where
  "accepted e a inst body records \<longleftrightarrow>
     (\<exists>k sig. map_of (re_keys e) a = Some k \<and> verify (re_ed e) k (PDict body) sig) \<and>
     map_of body ''agent_id'' = Some (PStr a) \<and> map_of body ''instance_id'' = Some (PStr inst) \<and>
     map_of body ''records'' = Some (PList records) \<and> wf_json (PDict body)"

lemma do_POST_cases:
  assumes "do_POST (re_lib e) (re_ed e) (re_ack_key e) (re_keys e) now path len doc ce = (out, ce')"
    and json: "\<forall>v. doc = Inr v \<longrightarrow> wf_json v"
  obtains (refused) "ce' = ce" "\<forall>xs. issue out xs = xs"
  | (ingested) a inst body records r where "accepted e a inst body records" "ingest (re_lib e) a inst now records ce = (r, ce')"
      "(\<forall>xs. issue out xs = xs) \<or> (\<exists>high ack. r = Inr high \<and> (\<forall>xs. issue out xs = PDict ack # xs) \<and> distinct (map fst ack) \<and>
         dget ack ''agent_id'' = PStr a \<and> dget ack ''instance_id'' = PStr inst \<and> dget ack ''acked_seq'' = PInt high)"
proof (cases "path = ''/v1/audit'' \<and> 0 < len \<and> len \<le> MAX_BODY")
  case False
  with assms have "ce' = ce \<and> (\<forall>xs. issue out xs = xs)" by (auto simp: do_POST_def issue_def error_reply_def split: if_splits)
  with refused show thesis by blast
next
  case ok: True
  show thesis
  proof (cases "\<exists>env body sig agent inst records. doc = Inr env \<and> open_post env = Inr (body, sig, agent, inst, records)")
    case False
    then obtain x where "bindE doc open_post = Inl x"
      by (cases "bindE doc open_post") auto
    with assms ok have "ce' = ce \<and> (\<forall>xs. issue out xs = xs)" by (auto simp: do_POST_def issue_def error_reply_def split: if_splits)
    with refused show thesis by blast
  next
    case True
    then obtain env body sig agent inst records where t: "doc = Inr env" "open_post env = Inr (body, sig, agent, inst, records)" by blast
    note b = open_post_Inr [OF t(2)]
    show thesis
    proof (cases "\<exists>a. agent = PStr a \<and> signed_by (re_ed e) (re_keys e) a body sig")
      case True
      then obtain a where a: "agent = PStr a" "signed_by (re_ed e) (re_keys e) a body sig" by blast
      then have acc: "accepted e a inst body records"
        using b t(1) json by (auto simp: accepted_def signed_by_def split: option.splits py.splits)
      obtain r ce1 where r: "ingest (re_lib e) a inst now records ce = (r, ce1)" by fastforce
      have do: "do_POST (re_lib e) (re_ed e) (re_ack_key e) (re_keys e) now path len doc ce = (case (r, ce1) of
          (Inl e, ce') \<Rightarrow> (if is_value_error e \<or> e \<in> {KeyError, TypeError} then Inr (error_reply 400 ''RECORD_INVALID'') else Inl e, ce')
        | (Inr acked, ce') \<Rightarrow> (bindE (sign_ack (re_lib e) (re_ed e) (re_ack_key e) body acked) (\<lambda>r. Inr (200, r)), ce'))"
        using t a r ok by (simp add: do_POST_def)
      with assms have ce1: "ce1 = ce'" by (cases r) auto
      show thesis
      proof (cases r)
        case (Inl x)
        with assms do have "\<forall>xs. issue out xs = xs" by (auto simp: issue_def error_reply_def split: if_splits)
        with ingested [OF acc r [unfolded ce1]] show thesis by blast
      next
        case h: (Inr high)
        with assms do have out: "out = bindE (sign_ack (re_lib e) (re_ed e) (re_ack_key e) body high) (\<lambda>r. Inr (200, r))" by simp
        show thesis
        proof (cases "sign_ack (re_lib e) (re_ed e) (re_ack_key e) body high")
          case (Inl x)
          with out ingested [OF acc r [unfolded ce1]] show thesis by (simp add: issue_def)
        next
          case rep: (Inr rep)
          with sign_ack_Inr [OF rep, of a inst] b a out h ingested [OF acc r [unfolded ce1]] show thesis by (auto simp: issue_def)
        qed
      qed
    next
      case False
      with assms ok t have "ce' = ce \<and> (\<forall>xs. issue out xs = xs)"
        by (cases agent) (auto simp: do_POST_def issue_def error_reply_def split: if_splits)
      with refused show thesis by blast
    qed
  qed
qed

section \<open>Every step keeps the invariant\<close>

lemma row_mirrors:
  assumes "jnorm (PDict rec) = jnorm (wire_record lib r)" and "distinct (map fst rec)"
    and "row_of lib a inst now rec c" and "jnorm (a_payload r) = a_payload r"
  shows "mirrors lib r c"
proof -
  note look = same_text_lookup [OF assms(1) [unfolded wire_record_def] assms(2)]
  have "jnorm (dget rec ''seq'') = PInt (a_seq r)" "jnorm (dget rec ''ts'') = PStr (l_iso_ms lib (a_ts r))"
    "jnorm (dget rec ''kind'') = PStr (a_kind r)" "jnorm (dget rec ''payload'') = a_payload r"
    using look [of "''seq''"] look [of "''ts''"] look [of "''kind''"] look [of "''payload''"] assms(4)
    by (simp_all add: dget_def)
  with assms(3) show ?thesis by (auto simp: mirrors_def row_of_def dget_def)
qed

lemma mirrored_row:
  assumes "body_ok e inst db b" and "jnorm (PDict body) = jnorm (PDict b)" and "accepted e a inst' body records"
    and "PDict rec \<in> set records" and "row_of (re_lib e) a inst' now rec c"
    and "\<forall>r \<in> set (db_audit db). jnorm (a_payload r) = a_payload r"
  shows "inst' = inst \<and> (\<exists>r \<in> set (db_audit db). mirrors (re_lib e) r c)"
proof -
  from assms(1) obtain nonce recs where recs: "set recs \<subseteq> set (db_audit db)"
    and b: "b = [(''agent_id'', PStr (sc_agent_id (re_cf e))), (''instance_id'', PStr inst),
          (''records'', PList (map (wire_record (re_lib e)) recs)), (''nonce'', PStr nonce)]" unfolding body_ok_def by blast
  from assms(3) have acc: "dget body ''instance_id'' = PStr inst'" "dget body ''records'' = PList records" "wf_json (PDict body)"
    by (simp_all add: accepted_def dget_def)
  then have d: "distinct (map fst body)" by simp
  note look = same_text_lookup [OF assms(2) d]
  have i: "inst' = inst" using look [of "''instance_id''"] acc(1) by (simp add: b dget_def)
  have "map jnorm records = map (\<lambda>r. jnorm (wire_record (re_lib e) r)) recs"
    using look [of "''records''"] acc(2) by (simp add: b dget_def comp_def)
  moreover have "jnorm (PDict rec) \<in> set (map jnorm records)" using assms(4) by (simp del: jnorm.simps)
  ultimately obtain r where r: "r \<in> set recs" "jnorm (PDict rec) = jnorm (wire_record (re_lib e) r)" by auto
  with recs have m: "r \<in> set (db_audit db)" by blast
  have "wf_json (PList records)" using wf_json_dget [OF acc(3), of "''records''"] acc(2) by simp
  with assms(4) have "wf_json (PDict rec)" by (simp add: list_all_iff del: wf_json.simps(7))
  then have dr: "distinct (map fst rec)" by simp
  have "mirrors (re_lib e) r c" by (rule row_mirrors [OF r(2) dr assms(5)]) (use assms(6) m in blast)
  with i m show ?thesis by blast
qed

lemma stream_append:
  "ce_audit ce' = ce_audit ce @ new \<Longrightarrow> stream_rows a i ce' = stream_rows a i ce @ filter (\<lambda>r. cr_agent r = a \<and> cr_instance r = i) new"
  by (simp add: stream_rows_def)

lemma deliver_inv:
  assumes inv: "rep_inv e inst s" and fa: "from_agent e s" and json: "\<forall>v. doc = Inr v \<longrightarrow> wf_json v"
    and post: "do_POST (re_lib e) (re_ed e) (re_ack_key e) (re_keys e) now path len doc (rp_central s) = (out, ce')"
  shows "rep_inv e inst (s\<lparr>rp_central := ce', rp_issued := issue out (rp_issued s)\<rparr>)"
  using post json
proof (cases rule: do_POST_cases)
  case refused
  with inv show ?thesis by (simp add: rep_inv_def high_of_def)
next
  case (ingested a inst' body records r)
  let ?A = "sc_agent_id (re_cf e)"
  from inv have wf: "wf_central (rp_central s)" by (simp add: rep_inv_def)
  note ing = ingest_acks_stored_prefix_lemma [OF wf ingested(2)]
  from ing obtain new where wf': "wf_central ce'" and new: "ce_audit ce' = ce_audit (rp_central s) @ new"
    and src: "\<forall>c \<in> set new. \<exists>rec. PDict rec \<in> set records \<and> row_of (re_lib e) a inst' now rec c" by blast
  have mine: "\<exists>b \<in> set (rp_sent s). jnorm (PDict body) = jnorm (PDict b)" if "a = ?A"
    using ingested(1) fa that unfolding accepted_def from_agent_def by blast
  have new_ok: "\<exists>r \<in> set (db_audit (rp_db s)). mirrors (re_lib e) r c" if c: "c \<in> set new" "cr_agent c = ?A" "cr_instance c = inst" for c
  proof -
    from src c(1) obtain rec where rec: "PDict rec \<in> set records" "row_of (re_lib e) a inst' now rec c" by blast
    with c(2) have "a = ?A" by (simp add: row_of_def)
    from mine [OF this] obtain b where b: "b \<in> set (rp_sent s)" "jnorm (PDict body) = jnorm (PDict b)" by blast
    with inv have "body_ok e inst (rp_db s) b" by (simp add: rep_inv_def)
    from mirrored_row [OF this b(2) ingested(1) rec] inv show ?thesis by (simp add: rep_inv_def db_ok_def)
  qed
  have mono: "high_of e inst s \<le> contiguous_high ?A inst ce'"
    unfolding high_of_def by (rule contiguous_high_mono [OF wf wf' new])
  have ack: "ack_ok e inst (contiguous_high ?A inst ce') v" if "v \<in> set (issue out (rp_issued s))" for v
  proof (cases "v \<in> set (rp_issued s)")
    case True
    with inv have "ack_ok e inst (high_of e inst s) v" by (simp add: rep_inv_def)
    then show ?thesis using mono by (rule ack_ok_mono)
  next
    case False
    with that ingested(3) obtain high ack where v: "v = PDict ack" "r = Inr high" "dget ack ''agent_id'' = PStr a"
      "dget ack ''instance_id'' = PStr inst'" "dget ack ''acked_seq'' = PInt high" "distinct (map fst ack)" by auto
    with ing have "high = contiguous_high a inst' ce'" by simp
    with v show ?thesis by (auto simp: ack_ok_def)
  qed
  have rows: "\<exists>r \<in> set (db_audit (rp_db s)). mirrors (re_lib e) r c" if "c \<in> set (stream_rows ?A inst ce')" for c
  proof (cases "c \<in> set (stream_rows ?A inst (rp_central s))")
    case True
    with inv show ?thesis by (simp add: rep_inv_def)
  next
    case False
    with that stream_append [OF new, of ?A inst] have "c \<in> set new" "cr_agent c = ?A" "cr_instance c = inst" by auto
    then show ?thesis by (rule new_ok)
  qed
  from inv obtain n where "acked_seq (rp_db s) = Inr n" "n \<le> high_of e inst s" by (auto simp: rep_inv_def)
  with mono have acked: "\<exists>n. acked_seq (rp_db s) = Inr n \<and> n \<le> contiguous_high ?A inst ce'" by auto
  show ?thesis
    unfolding rep_inv_def high_of_def using inv wf' rows ack acked by (simp add: rep_inv_def)
qed

lemma agent_inv: "rep_inv e inst s \<Longrightarrow> agent_op (rp_db s) db' \<Longrightarrow> rep_inv e inst (s\<lparr>rp_db := db'\<rparr>)"
proof -
  assume inv: "rep_inv e inst s" and op: "agent_op (rp_db s) db'"
  from agent_op_ok [OF op, of inst] inv have ok: "db_ok inst db'" "acked_seq db' = acked_seq (rp_db s)"
    "set (db_audit (rp_db s)) \<subseteq> set (db_audit db')" by (auto simp: rep_inv_def)
  from inv ok(3) have "\<forall>b \<in> set (rp_sent s). body_ok e inst db' b" using body_ok_mono unfolding rep_inv_def by blast
  with inv ok show ?thesis unfolding rep_inv_def high_of_def by (simp add: subset_iff) blast
qed

lemma send_inv:
  assumes inv: "rep_inv e inst s" and acked: "acked_seq (rp_db s) = Inr acked"
  shows "rep_inv e inst (s\<lparr>rp_pending := Some (rp_db s, nonce),
    rp_sent := push_body (re_lib e) (re_cf e) (rp_db s) nonce (read_audit acked (sc_batch (re_cf e)) (rp_db s)) # rp_sent s\<rparr>)"
proof -
  from inv have i: "kv_get ''instance_id'' (rp_db s) = Some (PStr inst)" by (simp add: rep_inv_def db_ok_def)
  have "set (read_audit acked n db) \<subseteq> set (db_audit db)" for n db
    by (auto simp: read_audit_def dest: in_set_takeD)
  then have "body_ok e inst (rp_db s) (push_body (re_lib e) (re_cf e) (rp_db s) nonce (read_audit acked (sc_batch (re_cf e)) (rp_db s)))"
    unfolding body_ok_def push_body_def i by auto
  with inv show ?thesis by (simp add: rep_inv_def high_of_def)
qed

lemma finish_inv:
  assumes inv: "rep_inv e inst s" and pend: "rp_pending s = Some (db0, pu_nonce i)" and fc: "from_central e s"
    and w: "\<forall>v. pu_reply i = Inr v \<longrightarrow> wf_json v"
    and res: "fst (push_audit (re_lib e) (re_ed e) (re_cf e) i \<lparr>sy_db = db0, sy_last_rejection = []\<rparr>) = res"
  shows "rep_inv e inst (s\<lparr>rp_pending := None, rp_db := settle res db0 (rp_db s)\<rparr>)"
proof (cases "\<exists>n. res = Inr n \<and> acked_seq db0 \<noteq> Inr n")
  case True
  then obtain n where n: "res = Inr n" "acked_seq db0 \<noteq> Inr n" by blast
  let ?db = "kv_put ACKED_KEY (PInt n) None (rp_db s)"
  from inv pend have d0: "db_ok inst db0" and iss: "\<forall>v \<in> set (rp_issued s). ack_ok e inst (high_of e inst s) v"
    by (auto simp: rep_inv_def)
  from finish_bound [OF res [unfolded n(1)] w fc d0 iss] n(2) obtain m where m: "acked_seq db0 = Inr m" "m \<le> n" "n \<le> high_of e inst s"
    by auto
  from d0 m have "0 \<le> n" by (auto simp: db_ok_def)
  with inv have "db_ok inst ?db" by (simp add: rep_inv_def db_ok_def put_acked)
  moreover have "\<forall>b \<in> set (rp_sent s). body_ok e inst ?db b"
    using inv body_ok_mono [of e inst "rp_db s" _ ?db] by (simp add: rep_inv_def put_acked)
  ultimately show ?thesis using inv m(3) n by (simp add: rep_inv_def high_of_def settle_def put_acked)
next
  case False
  then have "settle res db0 (rp_db s) = rp_db s" by (auto simp: settle_def split: sum.splits)
  with inv show ?thesis by (simp add: rep_inv_def high_of_def)
qed

lemma init_inv: "rep_init inst s \<Longrightarrow> rep_inv e inst s"
  by (simp add: rep_init_def rep_inv_def db_ok_def db_open_def db_empty_def wf_db_def kv_get_def acked_seq_def ACKED_KEY_def
      central_empty_def wf_central_def stream_rows_def high_of_def contiguous_high_def seqs_of_def)

lemma step_inv: "rep_step e s t \<Longrightarrow> rep_inv e inst s \<Longrightarrow> rep_inv e inst t"
proof (induction rule: rep_step.induct)
  case (rp_send s acked recs nonce)
  then show ?case using send_inv by blast
next
  case (rp_crash s)
  then show ?case by (simp add: rep_inv_def high_of_def)
qed (blast intro: agent_inv deliver_inv finish_inv)+

interpretation replication: invariant_system "rep_init inst" "rep_step e" "rep_inv e inst" for e inst
  by unfold_locales (auto intro: init_inv step_inv)

section \<open>Replication\<close>

lemma mirrored_prefix:
  assumes "rep_inv e inst s" and "q \<in> {1..high_of e inst s}"
  shows "q \<le> int (length (db_audit (rp_db s))) \<and> (\<exists>c \<in> set (stream_rows (sc_agent_id (re_cf e)) inst (rp_central s)).
    cr_seq c = q \<and> mirrors (re_lib e) (db_audit (rp_db s) ! nat (q - 1)) c)"
proof -
  let ?log = "db_audit (rp_db s)"
  from assms(1) have wf: "wf_central (rp_central s)" "wf_db (rp_db s)" by (simp_all add: rep_inv_def db_ok_def)
  from contiguous_high_reaches [OF wf(1)] assms(2) have "q \<in> set (seqs_of (sc_agent_id (re_cf e)) inst (rp_central s))"
    unfolding reaches_def high_of_def by blast
  then obtain c where c: "c \<in> set (stream_rows (sc_agent_id (re_cf e)) inst (rp_central s))" "cr_seq c = q"
    by (auto simp: seqs_of_def)
  with assms(1) obtain r where r: "r \<in> set ?log" "mirrors (re_lib e) r c" by (auto simp: rep_inv_def)
  then have "a_seq r = q" using c(2) by (simp add: mirrors_def)
  obtain k where k: "k < length ?log" "r = ?log ! k" using r(1) by (metis in_set_conv_nth)
  have "map a_seq ?log ! k = [1..int (length ?log)] ! k" using wf(2) by (simp add: wf_db_def)
  then have "q = 1 + int k" using k \<open>a_seq r = q\<close> by simp
  with c r k show ?thesis by auto
qed


section \<open>A run\<close>

definition ex_db1 :: agent_db where
  "ex_db1 = db_log 5000 ''agent_start'' [(''pid'', PInt 4)] (db_open ''i1'' db_empty)"

definition ex_cf :: sync_config where
  "ex_cf = \<lparr>sc_agent_id = ''dell'', sc_public_key = ''ck'', sc_agent_key = ''ak'', sc_batch = 2\<rparr>"

definition ex_body :: "(string \<times> py) list" where
  "ex_body = push_body ex_lib ex_cf ex_db1 ''n'' (db_audit ex_db1)"

definition ex_ack :: py where
  "ex_ack = PDict [(''schema'', PStr ACK_SCHEMA), (''agent_id'', PStr ''dell''), (''instance_id'', PStr ''i1''), (''nonce'', PStr ''n''),
     (''request_sha256'', PStr ''h''), (''acked_seq'', PInt 1)]"

text \<open>A signature scheme in which each key has signed one message.\<close>

definition ex_ed :: ed25519 where
  "ex_ed = \<lparr>ed_sign = (\<lambda>key m. key), ed_check = (\<lambda>pub s m.
     if pub = ''ak'' \<and> m = jnorm (PDict ex_body) \<or> pub = ''ck'' \<and> m = jnorm ex_ack then Inr () else Inl (ValueError ''InvalidSignature''))\<rparr>"

definition ex_env :: rep_env where
  "ex_env = \<lparr>re_lib = ex_lib, re_ed = ex_ed, re_cf = ex_cf, re_ack_key = ''ck'', re_keys = [(''dell'', ''ak'')]\<rparr>"

definition ex_doc :: py where
  "ex_doc = PDict [(''body'', PDict ex_body), (''signature'', PStr ''ak'')]"

definition ex_reply :: "(int \<times> (string \<times> py) list) res \<times> central" where
  "ex_reply = do_POST ex_lib ex_ed ''ck'' [(''dell'', ''ak'')] ''now'' ''/v1/audit'' 100 (Inr ex_doc) central_empty"

definition ex_push :: push_in where
  "ex_push = \<lparr>pu_nonce = ''n'', pu_reply = Inr (PDict [(''acked_seq'', PInt 1), (''ack'', ex_ack), (''signature'', PStr ''ck'')]), pu_ok = Inr ()\<rparr>"

definition ex_s :: "nat \<Rightarrow> rep" where
  "ex_s n =
     \<lparr>rp_db = (if n = 0 then db_open ''i1'' db_empty else if n = 4 then kv_put ACKED_KEY (PInt 1) None ex_db1 else ex_db1),
      rp_pending = (if n \<in> {2, 3} then Some (ex_db1, ''n'') else None), rp_sent = (if n < 2 then [] else [ex_body]),
      rp_central = (if n < 3 then central_empty else snd ex_reply), rp_issued = (if n < 3 then [] else [ex_ack])\<rparr>"

lemma ex_run_facts:
  "acked_seq ex_db1 = Inr 0" "read_audit 0 2 ex_db1 = db_audit ex_db1" "db_audit ex_db1 \<noteq> []"
  "fst ex_reply = Inr (200, [(''acked_seq'', PInt 1), (''ack'', ex_ack), (''signature'', PStr ''ck'')])"
  "fst (push_audit ex_lib ex_ed ex_cf ex_push \<lparr>sy_db = ex_db1, sy_last_rejection = []\<rparr>) = Inr 1"
  "wf_json ex_doc" "wf_json (PDict [(''acked_seq'', PInt 1), (''ack'', ex_ack), (''signature'', PStr ''ck'')])"
  by code_simp+

lemma ex_run: "reach (rep_init ''i1'') (rep_step ex_env) (ex_s 4)"
proof -
  have 0: "reach (rep_init ''i1'') (rep_step ex_env) (ex_s 0)"
    by (rule reach_init) (simp add: rep_init_def ex_s_def)
  have "agent_op (rp_db (ex_s 0)) ex_db1"
    unfolding agent_op_def ex_db1_def using st_audit [of "''agent_start''" "rp_db (ex_s 0)" 5000 "[(''pid'', PInt 4)]"]
    by (simp add: ex_s_def kv_get_def ACTION_KINDS_def)
  from rp_agent [OF this, of ex_env] have 1: "rep_step ex_env (ex_s 0) (ex_s 1)" by (simp add: ex_s_def)
  have 2: "rep_step ex_env (ex_s 1) (ex_s 2)"
    using rp_send [of "ex_s 1" 0 "db_audit ex_db1" ex_env "''n''"] ex_run_facts(1-3)
    by (simp add: ex_s_def ex_env_def ex_body_def ex_cf_def)
  have "from_agent ex_env (ex_s 2)"
    by (auto simp: from_agent_def ex_env_def ex_cf_def ex_s_def ex_ed_def verify_def canonical_def simp del: jnorm.simps
        split: if_splits sum.splits)
  from rp_deliver [OF this, of "Inr ex_doc" "''now''" "''/v1/audit''" 100 "fst ex_reply" "snd ex_reply"] ex_run_facts(4,6)
  have 3: "rep_step ex_env (ex_s 2) (ex_s 3)"
    by (simp add: ex_s_def ex_env_def ex_reply_def issue_def dget_def)
  have "from_central ex_env (ex_s 3)"
    by (auto simp: from_central_def ex_env_def ex_cf_def ex_s_def ex_ed_def verify_def canonical_def simp del: jnorm.simps
        split: if_splits sum.splits)
  from rp_finish [of "ex_s 3" ex_db1 ex_push ex_env, OF _ this] ex_run_facts(1,5,7)
  have 4: "rep_step ex_env (ex_s 3) (ex_s 4)"
    by (simp add: ex_s_def ex_env_def ex_push_def settle_def)
  from 0 1 2 3 4 show ?thesis by (blast intro: reach_step)
qed


end
