(* ===== verification/Cra_Effect.thy ===== *)
theory Cra_Effect
  imports Cra_Decide
begin

text \<open>
  \<open>recovery-control/src/cra/effect.py\<close> and \<open>recovery.py\<close>: the requests to the effect executor, the reading of
  its answers, and the evidence that delivery resumed after a request.
\<close>

section \<open>Requests\<close>

definition MAX_MESSAGE :: nat where "MAX_MESSAGE = 65536"

definition request_id_for :: "pylib \<Rightarrow> string \<Rightarrow> string" where
  "request_id_for lib gk = ''cra-'' @ take 40 (l_sha lib (PStr gk))"

definition build_restart_request ::
    "pylib \<Rightarrow> observation \<Rightarrow> instant \<Rightarrow> string \<Rightarrow> int \<Rightarrow> string \<Rightarrow> (string \<times> py) list res" where
  "build_restart_request lib obs now producer_id producer_generation reason =
     (let raw = o_raw obs; rid = PStr (request_id_for lib (generation_key obs)) in
      bindE (int_or_0 (dget raw ''projection_sequence'')) (\<lambda>projection_sequence.
      Inr [(''schema_version'', PStr ''runtime.typed_effect_request.v2''), (''request_id'', rid),
        (''producer_id'', PStr producer_id), (''producer_generation'', PInt producer_generation),
        (''intent_type'', PStr ''RESTART_FFMPEG''), (''reason'', PStr (take 512 reason)),
        (''failure_domain'', PStr ''DELIVERY_PATH''), (''issued_at'', PStr (l_iso_z lib now)),
        (''expires_at'', PStr (l_iso_z lib (now + 3000000))), (''ffmpeg_target_identity'', dget raw ''target_identity''),
        (''runtime_identity'', PNone), (''expected_ffmpeg_generation'', PStr (o_ffmpeg_generation obs)),
        (''idempotency_key'', rid), (''correlation_id'', rid),
        (''target_snapshot_id'', PStr (str_or_empty lib (dget raw ''target_snapshot_id''))), (''runtime_snapshot_id'', PStr []),
        (''runtime_observation_id'', PStr (o_observation_id obs)),
        (''expected_executor_instance_id'', PStr (o_executor_instance_id obs)),
        (''maintenance_evidence_status'', PStr (py_str (l_repr lib) (py_or (dget raw ''maintenance_evidence_status'') (PStr ''UNKNOWN'')))),
        (''projection_id'', PStr (str_or_empty lib (dget raw ''projection_id''))),
        (''projection_sequence'', PInt projection_sequence)]))"

section \<open>The socket exchange\<close>

text \<open>
  The receive loop of \<open>send\<close>. \<open>chunk i\<close> is what the \<open>i\<close>-th \<open>recv(4096)\<close> returns (or raises); the loop
  itself has no bound but the size of what it collected, hence the fuel. \<open>None\<close> means the fuel was used up.
\<close>

fun recv_loop :: "nat \<Rightarrow> (nat \<Rightarrow> string res) \<Rightarrow> nat \<Rightarrow> string \<Rightarrow> string res option" where
  "recv_loop 0 chunk i response = None"
| "recv_loop (Suc fuel) chunk i response =
     (if CHR 0x0A \<notin> set response \<and> length response \<le> MAX_MESSAGE
      then (case chunk i of
          Inl e \<Rightarrow> Some (Inl e)
        | Inr [] \<Rightarrow> Some (Inr response)
        | Inr c \<Rightarrow> recv_loop fuel chunk (Suc i) (response @ c))
      else Some (Inr response))"

text \<open>\<open>loads\<close> decodes the first line; \<open>size\<close> is the length of the encoded request with its line end.\<close>

definition send :: "(string \<Rightarrow> py res) \<Rightarrow> nat \<Rightarrow> unit res \<Rightarrow> (nat \<Rightarrow> string res) \<Rightarrow> (string \<times> py) list res option" where
  "send loads payload_size delivered chunk =
     (if payload_size > MAX_MESSAGE then Some (Inl (ValueError ''REQUEST_TOO_LARGE''))
      else (case delivered of Inl e \<Rightarrow> Some (Inl e) | Inr _ \<Rightarrow>
        map_option (\<lambda>r. bindE r (\<lambda>response. bindE (loads (takeWhile (\<lambda>c. c \<noteq> CHR 0x0A) response)) (\<lambda>v.
            case v of PDict xs \<Rightarrow> Inr xs | _ \<Rightarrow> Inl TypeError)))
          (recv_loop (MAX_MESSAGE + 2) chunk 0 [])))"

definition query_unresolved :: "(string \<times> py) list \<Rightarrow> (string \<times> py) list list res" where
  "query_unresolved response = (case dget response ''unresolved_scopes'' of
       PList scopes \<Rightarrow>
         if dget response ''ok'' \<noteq> PBool True then Inl (ValueError ''UNRESOLVED_RESPONSE_INVALID'')
         else Inr (concat (map (\<lambda>sc. case sc of PDict xs \<Rightarrow> [xs] | _ \<Rightarrow> []) scopes))
     | _ \<Rightarrow> Inl (ValueError ''UNRESOLVED_RESPONSE_INVALID''))"

definition build_reconciliation :: "pylib \<Rightarrow> (string \<times> py) list \<Rightarrow> observation \<Rightarrow> instant \<Rightarrow> (string \<times> py) list res" where
  "build_reconciliation lib scope obs now =
     bindE (py_getitem (PDict scope) ''effect_scope_id'') (\<lambda>sid.
     bindE (py_getitem (PDict scope) ''owner_request_id'') (\<lambda>owner.
     bindE (py_get (py_or (dget (o_raw obs) ''target_identity'') (PDict [])) ''ffmpeg_pid'') (\<lambda>pid.
     bindE (py_getitem (PDict scope) ''owner_request_digest'') (\<lambda>dig.
     bindE (py_getitem (PDict scope) ''identity'') (\<lambda>before.
     Inr [(''schema_version'', PStr ''runtime.effect_reconciliation_request.v1''),
       (''reconciliation_id'', PStr (''cra-reconcile-'' @ take 40 (l_sha lib (jnorm (PDict
          [(''effect_scope_id'', sid), (''owner_request_id'', owner),
           (''observed_ffmpeg_generation'', PStr (o_ffmpeg_generation obs)), (''observed_ffmpeg_pid'', pid)]))))),
       (''effect_scope_id'', sid), (''owner_request_id'', owner), (''owner_request_digest'', dig),
       (''resolution'', PStr ''EFFECT_OBSERVED''),
       (''evidence'', PDict
          [(''schema_version'', PStr ''runtime.delayed_exit_reconciliation_evidence.v1''),
           (''oracle'', PStr ''DELAYED_FFMPEG_EXIT_AND_HEALTHY_SUCCESSOR''), (''observed_at'', PStr (l_iso_z lib now)),
           (''physical_effect_count'', PInt 1), (''automatic_retry_count'', PInt 0), (''before_target'', before),
           (''observed_target'', dget (o_raw obs) ''target_identity''), (''runtime_observation_id'', PStr (o_observation_id obs)),
           (''transport'', PDict [(''bytes_sent'', PInt (case o_tcp obs of None \<Rightarrow> 0 | Some t \<Rightarrow> t_bytes_sent t)),
              (''network_down'', PBool False), (''tcp_probe_ok'', PBool True)])])])))))"

definition classify :: "pylib \<Rightarrow> (string \<times> py) list \<Rightarrow> string \<Rightarrow> string" where
  "classify lib response expected_request_id =
     (let state = str_or_empty lib (dget response ''state'') in
      if dget response ''request_id'' \<noteq> PStr expected_request_id then ''OUTCOME_UNKNOWN''
      else if dget response ''ok'' = PBool True \<and> state = ''EFFECT_OBSERVED'' then ''EFFECT_OBSERVED''
      else if dget response ''ok'' = PBool False \<and> state \<in> {''REJECTED'', ''EFFECT_FAILED''} then state
      else if dget response ''ok'' = PBool False \<and> dget response ''reason'' = PStr ''TARGET_EFFECT_UNRESOLVED'' then ''REJECTED''
      else ''OUTCOME_UNKNOWN'')"

section \<open>Evidence of recovery\<close>

definition delivery_sample :: "pylib \<Rightarrow> observation \<Rightarrow> (string \<times> py) list" where
  "delivery_sample lib obs =
     [(''generation_key'', PStr (generation_key obs)), (''executor_instance_id'', PStr (o_executor_instance_id obs)),
      (''delivery_route'', dget (o_raw obs) ''delivery_route''),
      (''delivery_route_generation'', dget (o_raw obs) ''delivery_route_generation''), (''sequence'', PInt (o_sequence obs)),
      (''observed_at'', PStr (l_iso lib (o_observed_at obs))), (''uptime_sec'', PInt (o_ffmpeg_uptime_sec obs)),
      (''ffmpeg_running'', PBool (o_ffmpeg_running obs)), (''tcp'', tcp_vars (o_tcp obs))]"

text \<open>\<open>fromisoformat(b) - fromisoformat(a)\<close> in seconds: both with or both without an offset, otherwise a TypeError.\<close>

definition from_iso :: "pylib \<Rightarrow> py \<Rightarrow> (bool \<times> instant) res" where
  "from_iso lib v = (case v of
     PStr s \<Rightarrow> (case l_fromiso lib s of None \<Rightarrow> Inl (ValueError ''isoformat'') | Some x \<Rightarrow> Inr x) | _ \<Rightarrow> Inl TypeError)"

definition iso_diff :: "pylib \<Rightarrow> py \<Rightarrow> py \<Rightarrow> seconds res" where
  "iso_diff lib b a = bindE (from_iso lib b) (\<lambda>(k, x). bindE (from_iso lib a) (\<lambda>(l, y).
     bindE (requireE (k = l) TypeError) (\<lambda>_. Inr (total_seconds (x - y)))))"

fun partition_slash :: "string \<Rightarrow> string \<times> string" where
  "partition_slash [] = ([], [])"
| "partition_slash (c # cs) = (if c = CHR ''/'' then ([], cs) else (case partition_slash cs of (a, b) \<Rightarrow> (c # a, b)))"

definition sec :: "seconds \<Rightarrow> py" where "sec q = PFloat (Fin q)"

definition evidence_handled :: "exn \<Rightarrow> bool" where
  "evidence_handled e \<longleftrightarrow> e \<in> {KeyError, TypeError, AttributeError} \<or> is_value_error e"

definition settled :: "bool res \<Rightarrow> bool res" where
  "settled r = (case r of Inr b \<Rightarrow> Inr b | Inl e \<Rightarrow> if evidence_handled e then Inr False else Inl e)"

definition after_request_body :: "pylib \<Rightarrow> py \<Rightarrow> py \<Rightarrow> bool res" where
  "after_request_body lib sample response =
     bindE (py_getitem sample ''generation_key'') (\<lambda>gk.
     bindE (case gk of PStr s \<Rightarrow> Inr (partition_slash s) | _ \<Rightarrow> Inl AttributeError) (\<lambda>(pod, generation).
     bindE (py_getitem sample ''observed_at'') (\<lambda>b. bindE (py_getitem response ''agent_request_issued_at'') (\<lambda>a.
     bindE (iso_diff lib b a) (\<lambda>elapsed.
     allE [has response ''agent_pod_uid'' (\<lambda>x. py_eq (PStr pod) x),
       same_at sample [''executor_instance_id''] response [''agent_executor_instance_id''],
       Inr (generation \<noteq> []),
       has response ''agent_previous_generation'' (\<lambda>x. \<not> py_eq (PStr generation) x),
       bindE (py_getitem sample ''uptime_sec'') (\<lambda>u. py_le (PInt 0) u),
       bindE (py_getitem sample ''uptime_sec'') (\<lambda>u. py_le u (sec elapsed)),
       bindE (py_getitem response ''agent_verify_window_sec'') (\<lambda>w. py_le (sec elapsed) w)])))))"

definition after_request :: "pylib \<Rightarrow> py \<Rightarrow> py \<Rightarrow> bool res" where
  "after_request lib sample response = settled (after_request_body lib sample response)"

definition sending_progress_body :: "pylib \<Rightarrow> py \<Rightarrow> py \<Rightarrow> py \<Rightarrow> py \<Rightarrow> bool res" where
  "sending_progress_body lib first second max_gap lastsnd_ms =
     bindE (py_getitem second ''observed_at'') (\<lambda>b. bindE (py_getitem first ''observed_at'') (\<lambda>a.
     bindE (iso_diff lib b a) (\<lambda>gap.
     allE [same_at first [''generation_key''] second [''generation_key''],
       same_at first [''executor_instance_id''] second [''executor_instance_id''],
       same_at first [''delivery_route''] second [''delivery_route''],
       same_at first [''delivery_route_generation''] second [''delivery_route_generation''],
       has first ''ffmpeg_running'' (\<lambda>x. x = PBool True),
       has second ''ffmpeg_running'' (\<lambda>x. x = PBool True),
       bindE (py_getitem second ''sequence'') (\<lambda>y. bindE (py_getitem first ''sequence'') (\<lambda>x. py_lt x y)),
       Inr (0 < gap), py_le (sec gap) max_gap,
       bindE (dig first [''tcp'', ''bytes_sent'']) (\<lambda>x. py_le (PInt 0) x),
       bindE (dig first [''tcp'', ''bytes_sent'']) (\<lambda>x. bindE (dig second [''tcp'', ''bytes_sent'']) (\<lambda>y. py_lt x y)),
       bindE (dig second [''tcp'', ''lastsnd_ms'']) (\<lambda>x. py_le (PInt 0) x),
       bindE (dig second [''tcp'', ''lastsnd_ms'']) (\<lambda>x. py_lt x lastsnd_ms)])))"

definition sending_progress :: "pylib \<Rightarrow> py \<Rightarrow> py \<Rightarrow> py \<Rightarrow> py \<Rightarrow> bool res" where
  "sending_progress lib first second max_gap lastsnd_ms = settled (sending_progress_body lib first second max_gap lastsnd_ms)"

section \<open>Laws\<close>

lemma recv_loop_enough:
  assumes "MAX_MESSAGE + 2 \<le> fuel + length response" and "fuel > 0"
  shows "\<exists>r. recv_loop fuel chunk i response = Some r"
  using assms
proof (induction fuel arbitrary: i response)
  case 0
  then show ?case by simp
next
  case (Suc fuel)
  show ?case
  proof (cases "CHR 0x0A \<notin> set response \<and> length response \<le> MAX_MESSAGE \<and> (\<exists>d ds. chunk i = Inr (d # ds))")
    case True
    then obtain d ds where c: "chunk i = Inr (d # ds)" by blast
    from Suc.prems have "MAX_MESSAGE + 2 \<le> fuel + length (response @ d # ds)" by simp
    moreover from Suc.prems True have "fuel > 0" by simp
    ultimately show ?thesis using Suc.IH [of "response @ d # ds" "Suc i"] True c by simp
  next
    case False
    then show ?thesis by (cases "chunk i") (auto split: list.splits)
  qed
qed

lemma recv_loop_size:
  assumes "recv_loop fuel chunk i response = Some (Inr r)" and "\<And>j c. chunk j = Inr c \<Longrightarrow> length c \<le> m"
    and "length response \<le> MAX_MESSAGE + m"
  shows "length r \<le> MAX_MESSAGE + m"
  using assms(1,3)
proof (induction fuel arbitrary: i response)
  case (Suc fuel)
  show ?case
  proof (cases "CHR 0x0A \<notin> set response \<and> length response \<le> MAX_MESSAGE \<and> (\<exists>d ds. chunk i = Inr (d # ds))")
    case True
    then obtain d ds where c: "chunk i = Inr (d # ds)" by blast
    from assms(2) [OF c] True have "length (response @ d # ds) \<le> MAX_MESSAGE + m" by simp
    with Suc.IH [of "Suc i" "response @ d # ds"] Suc.prems(1) True c show ?thesis by simp
  next
    case False
    with Suc.prems show ?thesis by (auto split: if_splits sum.splits list.splits)
  qed
qed simp

text \<open>C36: The exchange with the executor ends and stays bounded, whatever the peer sends. An endless stream of chunks without a
  line end is cut off after at most \<open>MAX_MESSAGE + 2\<close> receive calls, \<open>send\<close> always returns or raises, and with chunks of at
  most 4096 bytes the buffer never exceeds \<open>MAX_MESSAGE + 4096\<close>.\<close>

theorem send_terminates:
  assumes "\<And>j c. chunk j = Inr c \<Longrightarrow> length c \<le> 4096"
  shows "(\<exists>r. send loads payload_size delivered chunk = Some r) \<and>
    (\<exists>r. recv_loop (MAX_MESSAGE + 2) chunk 0 [] = Some r \<and> (\<forall>response. r = Inr response \<longrightarrow> length response \<le> MAX_MESSAGE + 4096))"
proof -
  obtain r where r: "recv_loop (MAX_MESSAGE + 2) chunk 0 [] = Some r"
    using recv_loop_enough [of "MAX_MESSAGE + 2" "[]" chunk 0] by (auto simp del: recv_loop.simps)
  moreover have "r = Inr response \<longrightarrow> length response \<le> MAX_MESSAGE + 4096" for response
    using recv_loop_size [of "MAX_MESSAGE + 2" chunk 0 "[]" response 4096] r assms by (auto simp del: recv_loop.simps)
  ultimately show ?thesis by (auto simp: send_def simp del: recv_loop.simps split: sum.splits)
qed

theorem send_terminates_witness:
  "\<exists>r. recv_loop (MAX_MESSAGE + 2) (\<lambda>_. Inr ''x'') 0 [] = Some r \<and> (\<forall>response. r = Inr response \<longrightarrow> length response \<le> MAX_MESSAGE + 4096)"
  using send_terminates [of "\<lambda>_. Inr ''x''"] by (simp del: recv_loop.simps)

lemma settled_True: "settled r = Inr True \<longleftrightarrow> r = Inr True"
  by (auto simp: settled_def split: sum.splits if_splits)

text \<open>What the two predicates mean for samples the agent itself made.\<close>

definition iso_faithful :: "pylib \<Rightarrow> bool" where
  "iso_faithful lib \<longleftrightarrow> (\<forall>t. l_fromiso lib (l_iso lib t) = Some (True, t))"

lemma iso_diff_faithful: "iso_faithful lib \<Longrightarrow> iso_diff lib (PStr (l_iso lib b)) (PStr (l_iso lib a)) = Inr (total_seconds (b - a))"
  by (simp add: iso_diff_def from_iso_def iso_faithful_def)

lemma partition_generation_key:
  "CHR ''/'' \<notin> set (o_pod_uid obs) \<Longrightarrow> partition_slash (generation_key obs) = (o_pod_uid obs, o_ffmpeg_generation obs)"
proof -
  have "CHR ''/'' \<notin> set p \<Longrightarrow> partition_slash (p @ ''/'' @ g) = (p, g)" for p g
    by (induction p) auto
  then show "CHR ''/'' \<notin> set (o_pod_uid obs) \<Longrightarrow> ?thesis" by (simp add: generation_key_def)
qed

lemma sending_progress_samples:
  assumes iso: "iso_faithful lib"
    and p: "sending_progress lib (PDict (delivery_sample lib a)) (PDict (delivery_sample lib b)) (sec g) (PInt l) = Inr True"
  shows "generation_key a = generation_key b \<and> o_executor_instance_id a = o_executor_instance_id b \<and>
    o_ffmpeg_running a \<and> o_ffmpeg_running b \<and> o_sequence a < o_sequence b \<and>
    0 < total_seconds (o_observed_at b - o_observed_at a) \<and> total_seconds (o_observed_at b - o_observed_at a) \<le> g \<and>
    (\<exists>x y. o_tcp a = Some x \<and> o_tcp b = Some y \<and> t_bytes_sent x < t_bytes_sent y \<and> t_lastsnd_ms y < l)"
proof -
  from p have "sending_progress_body lib (PDict (delivery_sample lib a)) (PDict (delivery_sample lib b)) (sec g) (PInt l) = Inr True"
    by (simp add: sending_progress_def settled_True)
  then show ?thesis
    by (cases "o_tcp a"; cases "o_tcp b")
      (simp_all add: sending_progress_body_def delivery_sample_def iso_diff_faithful [OF iso] same_at_def has_def tcp_vars_def sec_def py_le_def num_lt_def del: allE.simps)
qed

lemma sample_lookup [simp]:
  "map_of (delivery_sample lib o1) ''generation_key'' = Some (PStr (generation_key o1))"
  "map_of (delivery_sample lib o1) ''observed_at'' = Some (PStr (l_iso lib (o_observed_at o1)))"
  "map_of (delivery_sample lib o1) ''executor_instance_id'' = Some (PStr (o_executor_instance_id o1))"
  "map_of (delivery_sample lib o1) ''uptime_sec'' = Some (PInt (o_ffmpeg_uptime_sec o1))"
  by (simp_all add: delivery_sample_def)

lemma after_request_sample:
  assumes "after_request lib (PDict (delivery_sample lib b)) (PDict r) = Inr True" and "CHR ''/'' \<notin> set (o_pod_uid b)"
  shows "dget r ''agent_pod_uid'' = PStr (o_pod_uid b) \<and> o_ffmpeg_generation b \<noteq> [] \<and>
    dget r ''agent_previous_generation'' \<noteq> PStr (o_ffmpeg_generation b) \<and>
    dget r ''agent_executor_instance_id'' = PStr (o_executor_instance_id b)"
proof -
  from assms(1) have "after_request_body lib (PDict (delivery_sample lib b)) (PDict r) = Inr True"
    by (simp add: after_request_def settled_True)
  then show ?thesis
    by (auto simp: after_request_body_def partition_generation_key [OF assms(2)] has_def same_at_def dget_def
        py_getitem_Inr simp del: allE.simps split: option.splits)
qed

end
