(* ===== verification/Cra_Agent.thy ===== *)
theory Cra_Agent
  imports Cra_Effect Cra_Sync
begin

text \<open>
  \<open>recovery-control/src/cra/agent.py\<close>: the reflex loop of the recovery agent. One cycle observes, decides,
  reserves, requests and verifies.

  The program is a state passing computation over \<open>agent\<close>, the attributes of the class \<open>Agent\<close> together
  with its database and the world outside. The world is a type variable; \<open>env\<close> lists the calls that reach
  it (clock, observation file, stop file, sockets, probes, log), each of which answers, raises or ends the
  process (\<open>Killed\<close>), and may depend on everything that happened before. \<open>e_tx\<close> is the fate of a database
  transaction: committed, refused, or committed with the process failing right after. \<open>e_peer\<close> is what the
  synchronisation thread did to the shared database since the last access; it runs on its own connection,
  so its transactions fall between those of the loop.

  \<open>ag_sent\<close> and \<open>ag_fences\<close> are history variables: the requests handed to the sender, with the database at
  that moment. No code reads them.
\<close>

section \<open>Configuration\<close>

record agent_config =
  cf_agent_id :: string
  cf_producer_id :: string
  cf_producer_generation :: int
  cf_ingest_host :: string
  cf_ingest_port :: int
  cf_public_hosts :: "string list"
  cf_interval :: seconds
  cf_max_age :: seconds
  cf_policy_key :: "string option"
  cf_ingest_endpoints :: "(string \<times> endpoint) list"
  cf_write_status :: bool

definition route_endpoint :: "pylib \<Rightarrow> agent_config \<Rightarrow> py \<Rightarrow> endpoint option" where
  "route_endpoint lib cf route = map_of (cf_ingest_endpoints cf) (py_str (l_repr lib) route)"

text \<open>A binding that was accepted has an address and a port (\<open>binding_endpoint\<close>); the last branch is never taken.\<close>

definition config_endpoint :: "pylib \<Rightarrow> agent_config \<Rightarrow> observation \<Rightarrow> endpoint option res" where
  "config_endpoint lib cf obs =
     (let route = dget (o_raw obs) ''delivery_route'' in
      if ''delivery_transport'' \<in> fst ` set (o_raw obs) then
        (case binding lib obs of
           None \<Rightarrow> Inr None
         | Some b \<Rightarrow> (case (dget b ''peer_host'', dget b ''peer_port'') of
               (PStr host, PInt port) \<Rightarrow> bindE (make_endpoint lib host port) (\<lambda>e.
                  Inr (if route_endpoint lib cf route = Some e then Some e else None))
             | _ \<Rightarrow> Inl TypeError))
      else if route \<noteq> PNone then Inr (route_endpoint lib cf route)
      else if cf_ingest_endpoints cf = [] then bindE (make_endpoint lib (cf_ingest_host cf) (cf_ingest_port cf)) (\<lambda>e. Inr (Some e))
      else Inr None)"

definition max_gap :: "agent_config \<Rightarrow> seconds" where
  "max_gap cf = cf_interval cf + cf_max_age cf"

section \<open>State\<close>

record counters =
  c_samples :: nat
  c_unavailable :: "(string \<times> nat) list"
  c_stalled :: nat
  c_confirmed :: nat

definition counters_zero :: counters where
  "counters_zero = \<lparr>c_samples = 0, c_unavailable = [], c_stalled = 0, c_confirmed = 0\<rparr>"

definition counters_snapshot :: "counters \<Rightarrow> (string \<times> py) list" where
  "counters_snapshot c =
     [(''samples'', PInt (int (c_samples c))), (''unavailable'', PDict (map (map_prod id (\<lambda>n. PInt (int n))) (c_unavailable c))),
      (''stalled_samples'', PInt (int (c_stalled c))), (''confirmed_stall_samples'', PInt (int (c_confirmed c)))]"

definition count_unavailable :: "string \<Rightarrow> counters \<Rightarrow> counters" where
  "count_unavailable why c = c\<lparr>c_unavailable :=
     aset why ((case map_of (c_unavailable c) why of None \<Rightarrow> 0 | Some n \<Rightarrow> n) + 1) (c_unavailable c)\<rparr>"

type_synonym sample = "(string \<times> py) list"

record sent_request =
  sn_obs :: observation
  sn_request :: "(string \<times> py) list"
  sn_policy :: policy
  sn_streak :: nat
  sn_net :: "network option"
  sn_db :: agent_db

record fence_request =
  fr_request :: "(string \<times> py) list"
  fr_action :: int
  fr_db :: agent_db

record 'w agent =
  ag_db :: agent_db
  ag_tracker :: tracker
  ag_counters :: counters
  ag_last_summary :: string
  ag_last_heartbeat :: instant
  ag_status :: "(string \<times> py) list"
  ag_recovery_samples :: "(int \<times> sample) list"
  ag_delivery_progress :: "(int \<times> sample \<times> sample) list"
  ag_last_reconcile_attempt :: "instant option"
  ag_world :: 'w
  ag_sent :: "sent_request list"
  ag_fences :: "fence_request list"

record 'w env =
  e_clock :: "('w, instant) act"
  e_observation :: "('w, py) act"
  e_stop_file :: "('w, bool) act"
  e_cancelled :: "('w, bool) act"
  e_probe :: "endpoint \<Rightarrow> ('w, network) act"
  e_send :: "(string \<times> py) list \<Rightarrow> ('w, (string \<times> py) list) act"
  e_read_status :: "string \<Rightarrow> ('w, py) act"
  e_unresolved :: "('w, (string \<times> py) list list) act"
  e_peer :: "agent_db \<Rightarrow> ('w, agent_db) act"
  e_tx :: "('w, tx) act"
  e_sync_status :: "('w, string) act"
  e_release :: "('w, string) act"
  e_write_status :: "py \<Rightarrow> ('w, unit) act"
  e_log :: "string \<Rightarrow> ('w, unit) act"
  e_str :: "exn \<Rightarrow> string"

definition ask :: "('w, 'a) act \<Rightarrow> ('w agent, 'a) act" where
  "ask f s = (case f (ag_world s) of (r, w) \<Rightarrow> (r, s\<lparr>ag_world := w\<rparr>))"

section \<open>Database access\<close>

definition db_sync :: "'w env \<Rightarrow> ('w agent, unit) act" where
  "db_sync env s = (case e_peer env (ag_db s) (ag_world s) of
     (Inl e, w) \<Rightarrow> (Inl e, s\<lparr>ag_world := w\<rparr>) | (Inr d, w) \<Rightarrow> (Inr (), s\<lparr>ag_world := w, ag_db := d\<rparr>))"

definition db_read :: "'w env \<Rightarrow> (agent_db \<Rightarrow> 'a) \<Rightarrow> ('w agent, 'a) act" where
  "db_read env f = bindS (db_sync env) (\<lambda>_. getS (\<lambda>s. f (ag_db s)))"

definition db_apply :: "(agent_db \<Rightarrow> 'a \<times> agent_db) \<Rightarrow> ('w agent, 'a) act" where
  "db_apply f s = (case f (ag_db s) of (x, d) \<Rightarrow> (Inr x, s\<lparr>ag_db := d\<rparr>))"

definition db_write :: "'w env \<Rightarrow> (agent_db \<Rightarrow> 'a \<times> agent_db) \<Rightarrow> ('w agent, 'a) act" where
  "db_write env f = bindS (db_sync env) (\<lambda>_. bindS (ask (e_tx env)) (\<lambda>tx. case tx of
       Committed \<Rightarrow> db_apply f
     | Refused e \<Rightarrow> raiseS e
     | CommittedThen e \<Rightarrow> bindS (db_apply f) (\<lambda>_. raiseS e)))"

definition db_do :: "'w env \<Rightarrow> (agent_db \<Rightarrow> agent_db) \<Rightarrow> ('w agent, unit) act" where
  "db_do env g = db_write env (\<lambda>db. ((), g db))"

section \<open>Inputs of a cycle\<close>

definition agent_policy :: "ed25519 \<Rightarrow> agent_config \<Rightarrow> 'w env \<Rightarrow> ('w agent, policy) act" where
  "agent_policy ed cf env = (case cf_policy_key cf of
       None \<Rightarrow> retS BUILTIN
     | Some key \<Rightarrow> bindS (db_read env (load_cached_policy ed key)) (\<lambda>p. retS (case p of None \<Rightarrow> BUILTIN | Some q \<Rightarrow> q)))"

definition read_obs :: "pylib \<Rightarrow> agent_config \<Rightarrow> 'w env \<Rightarrow> instant \<Rightarrow> ('w agent, observation option \<times> string) act" where
  "read_obs lib cf env now = bindS (attemptS (ask (e_observation env))) (\<lambda>doc. liftS (read_observation lib doc (cf_max_age cf) now))"

definition track :: "pylib \<Rightarrow> agent_config \<Rightarrow> observation \<Rightarrow> policy \<Rightarrow> ('w agent, bool \<times> nat) act" where
  "track lib cf obs p s = (case tracker_update lib (ag_tracker s) obs p (max_gap cf) of (r, t) \<Rightarrow> (Inr r, s\<lparr>ag_tracker := t\<rparr>))"

definition reset_tracker :: "('w agent, unit) act" where
  "reset_tracker = modS (\<lambda>s. s\<lparr>ag_tracker := tracker_reset\<rparr>)"

definition local_stop :: "'w env \<Rightarrow> ('w agent, bool) act" where
  "local_stop env = bindS (ask (e_cancelled env)) (\<lambda>c. if c then retS True else ask (e_stop_file env))"

definition release_id :: "'w env \<Rightarrow> ('w agent, string) act" where
  "release_id env = catchS (bindS (ask (e_release env)) (\<lambda>t. retS (strip t)))
     (\<lambda>e. if is_os_error e then retS ''unreleased'' else raiseS e)"

section \<open>Records of a decision\<close>

definition network_py :: "network option \<Rightarrow> py" where
  "network_py net = (case net of None \<Rightarrow> PNone | Some n \<Rightarrow>
     PDict [(''gateway_ok'', PBool (n_gateway_ok n)), (''public_ok_count'', PInt (int (n_public_ok_count n))),
       (''ingest_ok'', PBool (n_ingest_ok n)), (''timed_out'', PBool (n_timed_out n)), (''network_down'', PBool (network_down n))])"

definition endpoint_py :: "endpoint option \<Rightarrow> py" where
  "endpoint_py e = (case e of None \<Rightarrow> PNone | Some x \<Rightarrow> PDict [(''host'', PStr (ep_host x)), (''port'', PInt (ep_port x))])"

definition evidence :: "pylib \<Rightarrow> agent_config \<Rightarrow> observation option \<Rightarrow> nat \<Rightarrow> network option \<Rightarrow> (string \<times> py) list res" where
  "evidence lib cf o0 streak net = (case o0 of None \<Rightarrow> Inr [] | Some obs \<Rightarrow>
     bindE (config_endpoint lib cf obs) (\<lambda>ep. Inr
       [(''generation_key'', PStr (generation_key obs)), (''observation_id'', PStr (o_observation_id obs)),
        (''sequence'', PInt (o_sequence obs)), (''uptime_sec'', PInt (o_ffmpeg_uptime_sec obs)), (''streak'', PInt (int streak)),
        (''tcp'', tcp_vars (o_tcp obs)), (''executor_instance_id'', PStr (o_executor_instance_id obs)),
        (''delivery_route'', dget (o_raw obs) ''delivery_route''), (''transport_binding_status'', PStr (binding_status lib obs)),
        (''transport_binding'', (case binding lib obs of None \<Rightarrow> PNone | Some b \<Rightarrow> PDict b)),
        (''ingest_endpoint'', endpoint_py ep), (''network'', network_py net)]))"

definition record_decision ::
    "pylib \<Rightarrow> agent_config \<Rightarrow> 'w env \<Rightarrow> instant \<Rightarrow> decision \<Rightarrow> policy \<Rightarrow> observation option \<Rightarrow> nat \<Rightarrow> network option \<Rightarrow> ('w agent, unit) act" where
  "record_decision lib cf env now d p obs streak net =
     bindS (getS ag_last_summary) (\<lambda>seen.
     if summary d = seen then retS ()
     else bindS (modS (\<lambda>s. s\<lparr>ag_last_summary := summary d\<rparr>)) (\<lambda>_.
       bindS (liftS (evidence lib cf obs streak net)) (\<lambda>ev.
       let payload = aupdate [(''outcome'', PStr (outcome_name (d_outcome d))), (''reason'', PStr (d_reason d)),
             (''blockers'', PList (map PStr (d_blockers d))), (''policy_version'', PInt (p_version p)), (''mode'', PStr (p_mode p))] ev in
       bindS (db_do env (db_log now ''decision'' payload)) (\<lambda>_.
       ask (e_log env (''decision '' @ summary d @ '' gen='' @ (case obs of None \<Rightarrow> ''-'' | Some ob \<Rightarrow> generation_key ob)
         @ '' streak='' @ int_str (int streak)))))))"

section \<open>The guard before a dispatch\<close>

definition blocked :: "string \<Rightarrow> decision" where
  "blocked b = refuse ''DISPATCH_BLOCKED'' [b]"

definition target_changed :: "pylib \<Rightarrow> agent_config \<Rightarrow> observation \<Rightarrow> observation \<Rightarrow> bool res" where
  "target_changed lib cf obs original =
     (if \<not> identity_eq (transport_identity lib obs) (transport_identity lib original) \<or>
         \<not> py_eq (dget (o_raw obs) ''target_identity'') (dget (o_raw original) ''target_identity'') then Inr True
      else bindE (config_endpoint lib cf obs) (\<lambda>a. bindE (config_endpoint lib cf original) (\<lambda>b. Inr (a \<noteq> b))))"

definition mode_of :: "policy \<Rightarrow> string" where
  "mode_of p = (if p_mode p = ''enforce'' then ''enforce'' else ''dry_run'')"

definition no_history :: history where
  "no_history = \<lparr>h_generation_already_acted = False, h_last_action_at = None, h_actions_last_hour = 0, h_actions_last_day = 0\<rparr>"

text \<open>The part after the new observation was read.\<close>

definition guard_decision ::
    "pylib \<Rightarrow> agent_config \<Rightarrow> 'w env \<Rightarrow> policy \<Rightarrow> observation \<Rightarrow> nat \<Rightarrow> network option \<Rightarrow> bool \<Rightarrow> instant \<Rightarrow> observation \<Rightarrow>
       ('w agent, decision) act" where
  "guard_decision lib cf env p original streak net reserved now obs =
     bindS (liftS (target_changed lib cf obs original)) (\<lambda>changed.
     if changed then bindS reset_tracker (\<lambda>_. retS (blocked ''TARGET_CHANGED''))
     else if o_sequence obs < o_sequence original \<or> o_observed_at obs < o_observed_at original
     then bindS reset_tracker (\<lambda>_. retS (blocked ''OBSERVATION_REGRESSED''))
     else bindS (track lib cf obs p) (\<lambda>(_, current_streak).
       bindS (if reserved then retS no_history else db_read env (db_history now (generation_key obs) (mode_of p))) (\<lambda>history.
       bindS (getS (\<lambda>s. stall_duration (ag_tracker s) (o_observed_at obs))) (\<lambda>duration.
       bindS (local_stop env) (\<lambda>stop.
       retS (if stop then blocked ''LOCAL_STOP''
         else decide now obs (min streak current_streak) duration net history p (cf_producer_id cf) (cf_producer_generation cf) False))))))"

definition dispatch_guard ::
    "pylib \<Rightarrow> ed25519 \<Rightarrow> agent_config \<Rightarrow> 'w env \<Rightarrow> policy \<Rightarrow> observation \<Rightarrow> nat \<Rightarrow> network option \<Rightarrow> instant \<Rightarrow> bool \<Rightarrow>
       ('w agent, instant \<times> observation option \<times> decision) act" where
  "dispatch_guard lib ed cf env p original streak net checked_at reserved =
     bindS (agent_policy ed cf env) (\<lambda>current. bindS (ask (e_clock env)) (\<lambda>now. bindS (local_stop env) (\<lambda>stop.
     if stop then retS (now, None, blocked ''LOCAL_STOP'')
     else if current \<noteq> p then retS (now, None, blocked ''POLICY_CHANGED'')
     else if \<not> (0 \<le> total_seconds (now - checked_at) \<and> total_seconds (now - checked_at) \<le> cf_max_age cf)
     then retS (now, None, blocked ''NETWORK_EVIDENCE_STALE'')
     else bindS (read_obs lib cf env now) (\<lambda>(latest, why). case latest of
         None \<Rightarrow> bindS reset_tracker (\<lambda>_. retS (now, None, blocked why))
       | Some obs \<Rightarrow> bindS (guard_decision lib cf env p original streak net reserved now obs) (\<lambda>d. retS (now, Some obs, d))))))"

section \<open>Acting\<close>

definition annotations :: "pylib \<Rightarrow> agent_config \<Rightarrow> policy \<Rightarrow> observation \<Rightarrow> instant \<Rightarrow> (string \<times> py) list" where
  "annotations lib cf p obs issued_at =
     [(''agent_request_issued_at'', PStr (l_iso lib issued_at)), (''agent_executor_instance_id'', PStr (o_executor_instance_id obs)),
      (''agent_pod_uid'', PStr (o_pod_uid obs)), (''agent_verify_window_sec'', PInt (p_verify_window_sec p)),
      (''agent_previous_generation'', PStr (o_ffmpeg_generation obs)), (''agent_delivery_route'', dget (o_raw obs) ''delivery_route''),
      (''agent_delivery_route_generation'', dget (o_raw obs) ''delivery_route_generation''),
      (''agent_max_sample_gap_sec'', sec (max_gap cf)), (''agent_stall_lastsnd_ms'', PInt (p_stall_lastsnd_ms p))]"

definition error_response :: "'w env \<Rightarrow> exn \<Rightarrow> (string \<times> py) list" where
  "error_response env e = [(''error'', PStr (take 300 (exn_name e @ '': '' @ e_str env e)))]"

text \<open>The call of the sender; the history variable is written as the request leaves.\<close>

definition send_restart ::
    "'w env \<Rightarrow> policy \<Rightarrow> observation \<Rightarrow> nat \<Rightarrow> network option \<Rightarrow> (string \<times> py) list \<Rightarrow> ('w agent, (string \<times> py) list) act" where
  "send_restart env p obs streak net request =
     bindS (modS (\<lambda>s. s\<lparr>ag_sent := ag_sent s @ [\<lparr>sn_obs = obs, sn_request = request, sn_policy = p, sn_streak = streak,
        sn_net = net, sn_db = ag_db s\<rparr>]\<rparr>)) (\<lambda>_. ask (e_send env request))"

definition fire ::
    "pylib \<Rightarrow> agent_config \<Rightarrow> 'w env \<Rightarrow> policy \<Rightarrow> observation \<Rightarrow> nat \<Rightarrow> network option \<Rightarrow> int \<Rightarrow> ('w agent, unit) act" where
  "fire lib cf env p obs streak net action_id =
     bindS (ask (e_clock env)) (\<lambda>issued_at.
     bindS (liftS (build_restart_request lib obs issued_at (cf_producer_id cf) (cf_producer_generation cf)
        (''cra: confirmed tcp stall streak='' @ int_str (int streak)))) (\<lambda>request.
     bindS (catchS
        (bindS (send_restart env p obs streak net request) (\<lambda>response.
           retS (response, classify lib response (request_id_for lib (generation_key obs)))))
        (\<lambda>e. if is_exception e then retS (error_response env e, ''OUTCOME_UNKNOWN'') else raiseS e)) (\<lambda>(response, state).
     bindS (ask (e_clock env)) (\<lambda>done_at.
     bindS (db_do env (complete_action done_at action_id state (aupdate response (annotations lib cf p obs issued_at)))) (\<lambda>_.
     ask (e_log env (''restart gen='' @ generation_key obs @ '' -> '' @ state)))))))"

text \<open>The part of \<open>_act\<close> after a successful reservation: the second guard, then cancel, note the dry run, or send.\<close>

definition act_reserved ::
    "pylib \<Rightarrow> ed25519 \<Rightarrow> agent_config \<Rightarrow> 'w env \<Rightarrow> decision \<Rightarrow> policy \<Rightarrow> observation \<Rightarrow> nat \<Rightarrow> network option \<Rightarrow> instant \<Rightarrow> int \<Rightarrow>
       ('w agent, decision) act" where
  "act_reserved lib ed cf env d p obs streak net checked_at action_id =
     bindS (dispatch_guard lib ed cf env p obs streak net checked_at True) (\<lambda>(now, latest, guarded).
     let cancel = bindS (db_do env (complete_action now action_id ''CANCELLED_BEFORE_SEND'' [(''reason'', PStr (summary guarded))]))
           (\<lambda>_. retS guarded) in
     case latest of
       None \<Rightarrow> cancel
     | Some obs' \<Rightarrow>
         if d_outcome guarded \<noteq> d_outcome d then cancel
         else if d_outcome d \<noteq> RESTART then
           bindS (db_do env (complete_action now action_id ''DRY_RUN'' [])) (\<lambda>_.
           bindS (ask (e_log env (''would restart gen='' @ generation_key obs' @ '' (dry_run)''))) (\<lambda>_. retS d))
         else bindS (fire lib cf env p obs' streak net action_id) (\<lambda>_. retS d))"

definition agent_act ::
    "pylib \<Rightarrow> ed25519 \<Rightarrow> agent_config \<Rightarrow> 'w env \<Rightarrow> decision \<Rightarrow> policy \<Rightarrow> observation \<Rightarrow> nat \<Rightarrow> network option \<Rightarrow> instant \<Rightarrow>
       ('w agent, decision) act" where
  "agent_act lib ed cf env d p obs0 streak net checked_at =
     bindS (dispatch_guard lib ed cf env p obs0 streak net checked_at False) (\<lambda>(now, latest, guarded). case latest of
       None \<Rightarrow> retS guarded
     | Some obs \<Rightarrow>
         if d_outcome guarded \<noteq> d_outcome d then retS guarded
         else bindS (liftS (evidence lib cf (Some obs) streak net)) (\<lambda>ev.
           bindS (db_write env (reserve_action now
             \<lparr>rv_generation_key = generation_key obs, rv_mode = (if d_outcome d = RESTART then ''enforce'' else ''dry_run''),
              rv_request_id = request_id_for lib (generation_key obs), rv_policy_version = p_version p,
              rv_bytes_sent = (case o_tcp obs of None \<Rightarrow> 0 | Some t \<Rightarrow> t_bytes_sent t), rv_evidence = PDict ev\<rparr>)) (\<lambda>reserved.
           case reserved of
             None \<Rightarrow> retS (refuse ''STALL_CONFIRMED'' [''GENERATION_ALREADY_ACTED''])
           | Some action_id \<Rightarrow> act_reserved lib ed cf env d p obs streak net checked_at action_id)))"

section \<open>Verifying\<close>

definition row_response :: "action_row \<Rightarrow> py" where
  "row_response row = (case ac_response row of None \<Rightarrow> PDict [] | Some v \<Rightarrow> v)"

definition wants_query :: "bool \<Rightarrow> observation \<Rightarrow> action_row \<Rightarrow> bool res" where
  "wants_query queried obs row =
     allE [Inr (ac_mode row = ''enforce''), Inr (ac_state row = ''OUTCOME_UNKNOWN''), Inr (\<not> queried),
       bindE (py_get (row_response row) ''agent_executor_instance_id'') (\<lambda>v. Inr (py_eq v (PStr (o_executor_instance_id obs)))),
       bindE (py_get (row_response row) ''agent_pod_uid'') (\<lambda>v. Inr (py_eq v (PStr (o_pod_uid obs))))]"

text \<open>\<open>v in {...}\<close> for a set of strings: a list or a dictionary is not hashable.\<close>

definition in_names :: "py \<Rightarrow> string list \<Rightarrow> bool res" where
  "in_names v names = (case v of
     PList _ \<Rightarrow> Inl TypeError | PDict _ \<Rightarrow> Inl TypeError | PStr s \<Rightarrow> Inr (s \<in> set names) | _ \<Rightarrow> Inr False)"

definition status_settles :: "string \<Rightarrow> observation \<Rightarrow> (string \<times> py) list \<Rightarrow> bool res" where
  "status_settles rid obs st =
     allE [Inr (dget st ''schema_version'' = PStr ''runtime.effect_request_status_response.v1''),
       Inr (dget st ''ok'' = PBool True), Inr (dget st ''request_id'' = PStr rid),
       Inr (''executor_instance_id'' \<notin> fst ` set st \<or> py_eq (dget st ''executor_instance_id'') (PStr (o_executor_instance_id obs))),
       Inr (dget st ''state'' = PStr ''EFFECT_OBSERVED''), Inr (dget st ''effect_boundary_reached'' = PBool True),
       Inr (is_int (dget st ''physical_attempt_count'') \<and> int_of (dget st ''physical_attempt_count'') = 1),
       in_names (dget st ''effect_scope_state'')
         [''EFFECT_OBSERVED'', ''EFFECT_OBSERVED_AWAITING_VERIFICATION'', ''RECONCILED_EFFECT_OBSERVED''],
       Inr (case dget st ''effect_scope_id'' of PStr s \<Rightarrow> s \<noteq> [] | _ \<Rightarrow> False)]"

definition dict_of :: "py \<Rightarrow> (string \<times> py) list" where
  "dict_of v = (case v of PDict xs \<Rightarrow> xs | _ \<Rightarrow> [])"

definition forget_sample :: "int \<Rightarrow> 'w agent \<Rightarrow> 'w agent" where
  "forget_sample i s = s\<lparr>ag_recovery_samples := adel i (ag_recovery_samples s)\<rparr>"

definition forget_progress :: "int \<Rightarrow> 'w agent \<Rightarrow> 'w agent" where
  "forget_progress i s = s\<lparr>ag_delivery_progress := adel i (ag_delivery_progress s)\<rparr>"

text \<open>Asking the executor about an unknown outcome. \<open>None\<close>: the target moved during the query, the action is left for later.\<close>

definition query_status ::
    "pylib \<Rightarrow> agent_config \<Rightarrow> 'w env \<Rightarrow> observation \<Rightarrow> action_row \<Rightarrow> ('w agent, (observation \<times> instant \<times> action_row) option) act" where
  "query_status lib cf env obs row =
     bindS (catchS (ask (e_read_status env (ac_request_id row)))
        (\<lambda>e. if is_os_error e \<or> is_value_error e \<or> e = TypeError then retS (PDict []) else raiseS e)) (\<lambda>answer.
     bindS (ask (e_clock env)) (\<lambda>t. bindS (read_obs lib cf env t) (\<lambda>(latest, _).
     let skip = bindS (modS (forget_sample (ac_id row))) (\<lambda>_. retS None) in
     case latest of
       None \<Rightarrow> skip
     | Some l \<Rightarrow>
         if \<not> identity_eq (transport_identity lib l) (transport_identity lib obs) \<or> o_sequence l < o_sequence obs \<or>
            o_observed_at l < o_observed_at obs then skip
         else bindS (ask (e_clock env)) (\<lambda>now.
           bindS (liftS (status_settles (ac_request_id row) l (dict_of answer))) (\<lambda>settles.
           if settles then
             (let response = aset ''executor_reconciliation'' (PDict (dict_of answer)) (dict_of (row_response row)) in
              bindS (ask (e_clock env)) (\<lambda>t2.
              bindS (db_do env (reconcile_observed_action t2 (ac_id row) response)) (\<lambda>_.
              retS (Some (l, now, row\<lparr>ac_state := ''EFFECT_OBSERVED'', ac_response := Some (jnorm (PDict response))\<rparr>)))))
           else retS (Some (l, now, row)))))))"

definition seconds_since :: "pylib \<Rightarrow> instant \<Rightarrow> py \<Rightarrow> seconds res" where
  "seconds_since lib now v = bindE (from_iso lib v) (\<lambda>(aware, t). if aware then Inr (total_seconds (now - t)) else Inl TypeError)"

definition same_runtime :: "pylib \<Rightarrow> observation \<Rightarrow> py \<Rightarrow> bool res" where
  "same_runtime lib obs response =
     allE [bindE (py_get response ''agent_executor_instance_id'') (\<lambda>v. Inr (py_eq v (PStr (o_executor_instance_id obs)))),
       bindE (py_get response ''agent_pod_uid'') (\<lambda>v. Inr (py_eq v (PStr (o_pod_uid obs)))),
       bindE (py_get response ''agent_delivery_route'') (\<lambda>v. Inr (py_eq v (dget (o_raw obs) ''delivery_route''))),
       bindE (py_get response ''agent_delivery_route_generation'') (\<lambda>v. Inr (py_eq v (dget (o_raw obs) ''delivery_route_generation'')))]"

definition unresolved_result :: "action_row \<Rightarrow> string" where
  "unresolved_result row = (if ac_state row = ''OUTCOME_UNKNOWN'' then ''OUTCOME_UNRESOLVED'' else ''NOT_RECOVERED'')"

text \<open>
  The verdict on an action in enforce mode: the progress known afterwards, whether the sample is kept for the
  next cycle, and the result (empty while undecided).
\<close>

definition enforce_verdict ::
    "pylib \<Rightarrow> agent_config \<Rightarrow> policy \<Rightarrow> instant \<Rightarrow> observation \<Rightarrow> action_row \<Rightarrow> sample \<Rightarrow> (sample \<times> sample) option \<Rightarrow>
       ((sample \<times> sample) option \<times> bool \<times> string) res" where
  "enforce_verdict lib cf p now obs row previous progress =
     (let response = row_response row; sample = delivery_sample lib obs in
      bindE (py_get response ''agent_request_issued_at'') (\<lambda>issued.
      bindE (if py_truthy issued then seconds_since lib now issued else Inr (total_seconds (now - ac_created_at row))) (\<lambda>action_age.
      bindE (py_get_dflt response ''agent_verify_window_sec'' (PInt (p_verify_window_sec p))) (\<lambda>window.
      if generation_key obs \<noteq> ac_generation_key row \<and> o_ffmpeg_running obs \<and> o_ffmpeg_generation obs \<noteq> [] \<and> o_target_valid obs then
        bindE (same_runtime lib obs response) (\<lambda>same.
        bindE (if \<not> same then Inr True
               else allE [py_le (sec action_age) window, bindE (after_request lib (PDict sample) response) (\<lambda>b. Inr (\<not> b))]) (\<lambda>unattributed.
        if unattributed then Inr (progress, False, ''GENERATION_CHANGED_UNATTRIBUTED'')
        else
          bindE (allE [after_request lib (PDict sample) response, after_request lib (PDict previous) response,
             bindE (py_get_dflt response ''agent_stall_lastsnd_ms'' (PInt (p_stall_lastsnd_ms p))) (\<lambda>lastsnd.
               sending_progress lib (PDict previous) (PDict sample) (sec (max_gap cf)) lastsnd)]) (\<lambda>moved.
          let known = (if moved then Some (previous, sample) else progress) in
          if known \<noteq> None \<and> ac_state row = ''EFFECT_OBSERVED'' then Inr (known, True, ''DELIVERY_RESUMED'')
          else bindE (py_lt window (sec action_age)) (\<lambda>late.
            Inr (known, True,
              if \<not> late then [] else if known \<noteq> None then ''DELIVERY_RESUMED_EXECUTION_UNKNOWN'' else unresolved_result row)))))
      else bindE (py_lt window (sec action_age)) (\<lambda>late. Inr (progress, False, if late then unresolved_result row else []))))))"

definition dry_verdict :: "policy \<Rightarrow> instant \<Rightarrow> observation \<Rightarrow> action_row \<Rightarrow> string" where
  "dry_verdict p now obs row =
     (let same = (generation_key obs = ac_generation_key row) in
      if same \<and> (case o_tcp obs of None \<Rightarrow> False | Some t \<Rightarrow> t_bytes_sent t > ac_bytes_sent row) then ''SELF_RECOVERED''
      else if \<not> same \<and> o_ffmpeg_running obs \<and> o_ffmpeg_generation obs \<noteq> [] then ''GENERATION_CHANGED_WITHOUT_ACTION''
      else if total_seconds (now - ac_created_at row) > of_int (p_verify_window_sec p) then ''STILL_STALLED'' else [])"

definition row_verdict ::
    "pylib \<Rightarrow> agent_config \<Rightarrow> policy \<Rightarrow> instant \<Rightarrow> observation \<Rightarrow> action_row \<Rightarrow> sample \<Rightarrow> (sample \<times> sample) option \<Rightarrow>
       ((sample \<times> sample) option \<times> bool \<times> string) res" where
  "row_verdict lib cf p now obs row previous progress =
     (if ac_state row \<in> {''REJECTED'', ''EFFECT_FAILED'', ''CANCELLED_BEFORE_SEND''} then Inr (progress, False, ''NOT_EXECUTED'')
      else if ac_mode row = ''enforce'' then enforce_verdict lib cf p now obs row previous progress
      else Inr (progress, False, dry_verdict p now obs row))"

definition verification_detail ::
    "pylib \<Rightarrow> instant \<Rightarrow> observation \<Rightarrow> action_row \<Rightarrow> (sample \<times> sample) option \<Rightarrow> (string \<times> py) list" where
  "verification_detail lib now obs row progress =
     [(''after_sec'', PFloat (Fin (py_round 1 (total_seconds (now - ac_created_at row))))),
      (''observed_generation_key'', PStr (generation_key obs)), (''execution_state'', PStr (ac_state row)),
      (''sample'', PDict (case progress of None \<Rightarrow> delivery_sample lib obs | Some pr \<Rightarrow> snd pr)),
      (''progress_from'', (case progress of None \<Rightarrow> PNone | Some pr \<Rightarrow> PDict (fst pr))),
      (''executor_instance_id'', PStr (o_executor_instance_id obs)), (''observed_at'', PStr (l_iso lib (o_observed_at obs))),
      (''uptime_sec'', PInt (o_ffmpeg_uptime_sec obs)), (''tcp'', tcp_vars (o_tcp obs))]"

text \<open>Progress on another generation, executor or route is dropped.\<close>

definition still_current :: "sample \<Rightarrow> sample \<times> sample \<Rightarrow> bool" where
  "still_current sample pr \<longleftrightarrow>
     list_all (\<lambda>k. py_eq (dget (snd pr) k) (dget sample k))
       [''generation_key'', ''executor_instance_id'', ''delivery_route'', ''delivery_route_generation'']"

definition verify_row ::
    "pylib \<Rightarrow> agent_config \<Rightarrow> 'w env \<Rightarrow> policy \<Rightarrow> instant \<Rightarrow> observation \<Rightarrow> action_row \<Rightarrow> ('w agent, unit) act" where
  "verify_row lib cf env p now obs row =
     (let i = ac_id row; sample = delivery_sample lib obs in
      bindS (getS (\<lambda>s. map_of (ag_delivery_progress s) i)) (\<lambda>kept.
      bindS (case kept of Some pr \<Rightarrow> if still_current sample pr then retS kept
               else bindS (modS (forget_progress i)) (\<lambda>_. retS None)
             | None \<Rightarrow> retS None) (\<lambda>progress.
      bindS (getS (\<lambda>s. case map_of (ag_recovery_samples s) i of None \<Rightarrow> [] | Some v \<Rightarrow> v)) (\<lambda>previous.
      bindS (liftS (row_verdict lib cf p now obs row previous progress)) (\<lambda>(known, keep, result).
      bindS (modS (\<lambda>s. if keep then s\<lparr>ag_recovery_samples := aset i sample (ag_recovery_samples s),
           ag_delivery_progress := (case known of None \<Rightarrow> ag_delivery_progress s | Some pr \<Rightarrow> aset i pr (ag_delivery_progress s))\<rparr> else s)) (\<lambda>_.
      if result = [] then retS ()
      else bindS (db_do env (record_verification now i result (verification_detail lib now obs row known))) (\<lambda>_.
        bindS (modS (\<lambda>s. forget_progress i (forget_sample i s))) (\<lambda>_.
        ask (e_log env (''verified action='' @ int_str i @ '' '' @ result))))))))))"

fun verify_rows ::
    "pylib \<Rightarrow> agent_config \<Rightarrow> 'w env \<Rightarrow> policy \<Rightarrow> bool \<Rightarrow> instant \<Rightarrow> observation \<Rightarrow> action_row list \<Rightarrow> ('w agent, unit) act" where
  "verify_rows lib cf env p queried now obs [] = retS ()"
| "verify_rows lib cf env p queried now obs (row # rows) =
     bindS (liftS (wants_query queried obs row)) (\<lambda>q.
     bindS (if q then query_status lib cf env obs row else retS (Some (obs, now, row))) (\<lambda>r. case r of
       None \<Rightarrow> verify_rows lib cf env p True now obs rows
     | Some (obs', now', row') \<Rightarrow>
         bindS (verify_row lib cf env p now' obs' row') (\<lambda>_. verify_rows lib cf env p (queried \<or> q) now' obs' rows)))"

definition verify_actions :: "pylib \<Rightarrow> agent_config \<Rightarrow> 'w env \<Rightarrow> policy \<Rightarrow> instant \<Rightarrow> observation \<Rightarrow> ('w agent, unit) act" where
  "verify_actions lib cf env p now obs = bindS (db_read env unverified_actions) (verify_rows lib cf env p False now obs)"

section \<open>Closing the executor's fence\<close>

definition reconciled_key :: "int \<Rightarrow> string" where "reconciled_key i = ''executor_reconciled:'' @ int_str i"
definition reconcile_last_key :: "int \<Rightarrow> string" where "reconcile_last_key i = ''executor_reconcile_last:'' @ int_str i"

definition pending_fences :: "agent_db \<Rightarrow> (string \<times> int) list" where
  "pending_fences db = fold (\<lambda>(i, rid). aset rid i)
     (filter (\<lambda>(i, rid). kv_get (reconciled_key i) db = None) (resumed_enforce_actions db)) []"

definition fence_owner :: "(string \<times> int) list \<Rightarrow> (string \<times> py) list \<Rightarrow> int option res" where
  "fence_owner pending scope = (case dget scope ''owner_request_id'' of
     PList _ \<Rightarrow> Inl TypeError | PDict _ \<Rightarrow> Inl TypeError | PStr s \<Rightarrow> Inr (map_of pending s) | _ \<Rightarrow> Inr None)"

definition network_fit :: "network option \<Rightarrow> bool" where
  "network_fit net = (case net of None \<Rightarrow> False | Some n \<Rightarrow> \<not> network_down n \<and> n_ingest_ok n)"

definition send_fence :: "'w env \<Rightarrow> int \<Rightarrow> (string \<times> py) list \<Rightarrow> ('w agent, (string \<times> py) list) act" where
  "send_fence env i request =
     bindS (modS (\<lambda>s. s\<lparr>ag_fences := ag_fences s @ [\<lparr>fr_request = request, fr_action = i, fr_db = ag_db s\<rparr>]\<rparr>)) (\<lambda>_.
     catchS (ask (e_send env request)) (\<lambda>e. if is_exception e then retS (error_response env e) else raiseS e))"

definition close_fence :: "pylib \<Rightarrow> 'w env \<Rightarrow> instant \<Rightarrow> observation \<Rightarrow> int \<Rightarrow> (string \<times> py) list \<Rightarrow> ('w agent, unit) act" where
  "close_fence lib env now obs i scope =
     bindS (ask (e_clock env)) (\<lambda>t. bindS (liftS (build_reconciliation lib scope obs t)) (\<lambda>request.
     bindS (send_fence env i request) (\<lambda>response.
     let done0 = (dget response ''ok'' = PBool True \<and> dget response ''state'' = PStr ''RECONCILED_EFFECT_OBSERVED'');
         word = (if done0 then ''RECONCILED'' else ''FAILED'') in
     bindS (db_do env (kv_put (if done0 then reconciled_key i else reconcile_last_key i) (PDict response)
        (Some (now, ''executor_reconciliation'', [(''action_id'', PInt i), (''result'', PStr word), (''response'', PDict response)])))) (\<lambda>_.
     ask (e_log env (''executor fence action='' @ int_str i @ '' -> '' @ word))))))"

fun close_fences ::
    "pylib \<Rightarrow> 'w env \<Rightarrow> instant \<Rightarrow> observation \<Rightarrow> endpoint option \<Rightarrow> (string \<times> int) list \<Rightarrow> (string \<times> py) list list \<Rightarrow> ('w agent, unit) act" where
  "close_fences lib env now obs ep pending [] = retS ()"
| "close_fences lib env now obs ep pending (scope # scopes) =
     bindS (liftS (fence_owner pending scope)) (\<lambda>owner. case owner of
       None \<Rightarrow> close_fences lib env now obs ep pending scopes
     | Some i \<Rightarrow>
         if dget scope ''state'' \<noteq> PStr ''EFFECT_OBSERVED_AWAITING_VERIFICATION'' then close_fences lib env now obs ep pending scopes
         else bindS (case ep of None \<Rightarrow> retS None | Some e \<Rightarrow> bindS (ask (e_probe env e)) (\<lambda>n. retS (Some n))) (\<lambda>net.
           if \<not> network_fit net
           then db_do env (db_log now ''executor_reconciliation'' [(''action_id'', PInt i), (''result'', PStr ''DEFERRED_NETWORK'')])
           else bindS (close_fence lib env now obs i scope) (\<lambda>_. close_fences lib env now obs ep pending scopes)))"

text \<open>The executor's open fences; a query that fails is repeated on a later cycle.\<close>

definition try_fences ::
    "pylib \<Rightarrow> agent_config \<Rightarrow> 'w env \<Rightarrow> instant \<Rightarrow> observation \<Rightarrow> (string \<times> int) list \<Rightarrow> ('w agent, unit) act" where
  "try_fences lib cf env now obs pending =
     bindS (modS (\<lambda>s. s\<lparr>ag_last_reconcile_attempt := Some now\<rparr>)) (\<lambda>_.
     bindS (attemptS (ask (e_unresolved env))) (\<lambda>answer. case answer of
       Inl e \<Rightarrow> if is_os_error e \<or> is_value_error e \<or> e = TypeError then retS () else raiseS e
     | Inr scopes \<Rightarrow> bindS (liftS (config_endpoint lib cf obs)) (\<lambda>ep. close_fences lib env now obs ep pending scopes)))"

definition reconcile_executor :: "pylib \<Rightarrow> agent_config \<Rightarrow> 'w env \<Rightarrow> instant \<Rightarrow> observation \<Rightarrow> ('w agent, unit) act" where
  "reconcile_executor lib cf env now obs =
     bindS (getS ag_last_reconcile_attempt) (\<lambda>last_attempt.
     if (case last_attempt of None \<Rightarrow> False | Some t \<Rightarrow> total_seconds (now - t) < 30) then retS ()
     else bindS (db_read env pending_fences) (\<lambda>pending.
       if pending = [] then retS ()
       else try_fences lib cf env now obs pending))"

section \<open>One cycle\<close>

definition HEARTBEAT_SEC :: seconds where "HEARTBEAT_SEC = 600"

definition status_doc ::
    "pylib \<Rightarrow> agent_config \<Rightarrow> instant \<Rightarrow> policy \<Rightarrow> decision \<Rightarrow> observation option \<Rightarrow> nat \<Rightarrow> bool \<Rightarrow> string \<Rightarrow> int \<Rightarrow> string \<Rightarrow> (string \<times> py) list" where
  "status_doc lib cf now p d obs streak stop release seq sync =
     [(''agent_id'', PStr (cf_agent_id cf)), (''release'', PStr release), (''updated_at'', PStr (l_iso lib now)),
      (''policy'', PDict [(''version'', PInt (p_version p)), (''mode'', PStr (p_mode p))]), (''local_stop'', PBool stop),
      (''decision'', PDict [(''outcome'', PStr (outcome_name (d_outcome d))), (''reason'', PStr (d_reason d)),
         (''blockers'', PList (map PStr (d_blockers d)))]),
      (''generation_key'', (case obs of None \<Rightarrow> PNone | Some ob \<Rightarrow> PStr (generation_key ob))), (''stall_streak'', PInt (int streak)),
      (''transport_binding_status'', PStr (case obs of None \<Rightarrow> ''UNAVAILABLE'' | Some ob \<Rightarrow> binding_status lib ob)),
      (''audit_last_seq'', PInt seq), (''central_sync'', PStr sync)]"

definition finish_cycle ::
    "pylib \<Rightarrow> agent_config \<Rightarrow> 'w env \<Rightarrow> instant \<Rightarrow> policy \<Rightarrow> decision \<Rightarrow> observation option \<Rightarrow> nat \<Rightarrow> bool \<Rightarrow> ('w agent, unit) act" where
  "finish_cycle lib cf env now p d obs streak stop =
     bindS (getS ag_last_heartbeat) (\<lambda>beat.
     bindS (if total_seconds (now - beat) \<ge> HEARTBEAT_SEC then
              bindS (modS (\<lambda>s. s\<lparr>ag_last_heartbeat := now\<rparr>)) (\<lambda>_. bindS (getS ag_counters) (\<lambda>cn.
              bindS (modS (\<lambda>s. s\<lparr>ag_counters := counters_zero\<rparr>)) (\<lambda>_.
              db_do env (db_log now ''heartbeat''
                (aupdate [(''policy_version'', PInt (p_version p)), (''mode'', PStr (p_mode p))] (counters_snapshot cn))))))
            else retS ()) (\<lambda>_.
     bindS (release_id env) (\<lambda>release. bindS (db_read env last_seq) (\<lambda>seq. bindS (ask (e_sync_status env)) (\<lambda>sync.
     let doc = status_doc lib cf now p d obs streak stop release seq sync in
     bindS (modS (\<lambda>s. s\<lparr>ag_status := doc\<rparr>)) (\<lambda>_.
     if cf_write_status cf
     then catchS (ask (e_write_status env (PDict doc))) (\<lambda>e. if is_os_error e then retS () else raiseS e)
     else retS ()))))))"

definition note_unavailable :: "string \<Rightarrow> ('w agent, unit) act" where
  "note_unavailable why = modS (\<lambda>s. s\<lparr>ag_tracker := tracker_reset, ag_recovery_samples := [],
     ag_counters := count_unavailable why (ag_counters s)\<rparr>)"

definition count_sample :: "('w agent, unit) act" where
  "count_sample = modS (\<lambda>s. s\<lparr>ag_counters := (ag_counters s)\<lparr>c_samples := c_samples (ag_counters s) + 1\<rparr>\<rparr>)"

definition count_stalled :: "bool \<Rightarrow> ('w agent, unit) act" where
  "count_stalled stalled = modS (\<lambda>s. s\<lparr>ag_counters := (ag_counters s)\<lparr>c_stalled := c_stalled (ag_counters s) + (if stalled then 1 else 0)\<rparr>\<rparr>)"

definition count_confirmed :: "network option \<Rightarrow> ('w agent, unit) act" where
  "count_confirmed net = (if net = None then retS ()
     else modS (\<lambda>s. s\<lparr>ag_counters := (ag_counters s)\<lparr>c_confirmed := c_confirmed (ag_counters s) + 1\<rparr>\<rparr>))"

text \<open>The decision of the cycle: track, probe when the stall is confirmed, decide, act.\<close>

definition decide_cycle ::
    "pylib \<Rightarrow> ed25519 \<Rightarrow> agent_config \<Rightarrow> 'w env \<Rightarrow> instant \<Rightarrow> policy \<Rightarrow> bool \<Rightarrow> observation \<Rightarrow> ('w agent, decision \<times> nat \<times> network option) act" where
  "decide_cycle lib ed cf env now p stop obs =
     bindS (track lib cf obs p) (\<lambda>(stalled, streak). bindS (count_stalled stalled) (\<lambda>_.
     bindS (liftS (config_endpoint lib cf obs)) (\<lambda>ep.
     bindS (getS (\<lambda>s. stall_duration (ag_tracker s) (o_observed_at obs))) (\<lambda>duration.
     bindS (case ep of
              Some e \<Rightarrow> if p_stall_confirm_samples p \<le> int streak \<and> of_int (p_stall_grace_sec p) \<le> duration
                then bindS (ask (e_probe env e)) (\<lambda>n. retS (Some n)) else retS None
            | None \<Rightarrow> retS None) (\<lambda>net.
     bindS (ask (e_clock env)) (\<lambda>checked_at. bindS (count_confirmed net) (\<lambda>_.
     bindS (db_read env (db_history now (generation_key obs) (mode_of p))) (\<lambda>history.
     let d0 = decide now obs streak duration net history p (cf_producer_id cf) (cf_producer_generation cf) stop;
         d = (if ep = None \<and> o_ffmpeg_running obs \<and> o_ffmpeg_generation obs \<noteq> [] then refuse ''TARGET_MISMATCH'' [''INGEST_ENDPOINT_UNMAPPED''] else d0) in
     bindS (if d_outcome d \<noteq> NONE then agent_act lib ed cf env d p obs streak net checked_at else retS d) (\<lambda>d'.
     retS (d', streak, net))))))))))"

definition agent_step :: "pylib \<Rightarrow> ed25519 \<Rightarrow> agent_config \<Rightarrow> 'w env \<Rightarrow> ('w agent, decision) act" where
  "agent_step lib ed cf env =
     bindS (ask (e_clock env)) (\<lambda>now0. bindS (agent_policy ed cf env) (\<lambda>p. bindS (ask (e_stop_file env)) (\<lambda>stop.
     bindS count_sample (\<lambda>_. bindS (read_obs lib cf env now0) (\<lambda>(o0, why). case o0 of
       None \<Rightarrow>
         bindS (note_unavailable why) (\<lambda>_. let d = refuse why [] in
         bindS (record_decision lib cf env now0 d p None 0 None) (\<lambda>_.
         bindS (finish_cycle lib cf env now0 p d None 0 stop) (\<lambda>_. retS d)))
     | Some obs \<Rightarrow>
         bindS (decide_cycle lib ed cf env now0 p stop obs) (\<lambda>(d1, streak, net).
         bindS (ask (e_clock env)) (\<lambda>now. bindS (read_obs lib cf env now) (\<lambda>(latest, why2).
         bindS (case latest of
                  Some l \<Rightarrow> bindS (verify_actions lib cf env p now l) (\<lambda>_.
                    bindS (if p_mode p = ''enforce'' \<and> o_in_flight_count l > 0 then reconcile_executor lib cf env now l else retS ()) (\<lambda>_. retS d1))
                | None \<Rightarrow> bindS (note_unavailable why2) (\<lambda>_. retS (if d_outcome d1 = NONE then refuse why2 [] else d1))) (\<lambda>d.
         bindS (record_decision lib cf env now d p (Some obs) streak net) (\<lambda>_.
         bindS (agent_policy ed cf env) (\<lambda>p2. bindS (getS (\<lambda>s. k_streak (ag_tracker s))) (\<lambda>streak2. bindS (ask (e_stop_file env)) (\<lambda>stop2.
         bindS (finish_cycle lib cf env now p2 d latest streak2 stop2) (\<lambda>_. retS d))))))))))))))"

section \<open>The life of a process\<close>

fun close_interrupted :: "'w env \<Rightarrow> action_row list \<Rightarrow> ('w agent, unit) act" where
  "close_interrupted env [] = retS ()"
| "close_interrupted env (row # rows) =
     bindS (if ac_state row = ''RESERVED'' then
              bindS (ask (e_clock env)) (\<lambda>t.
                db_do env (complete_action t (ac_id row) ''OUTCOME_UNKNOWN'' [(''error'', PStr ''AGENT_RESTARTED'')]))
            else retS ()) (\<lambda>_. close_interrupted env rows)"

text \<open>\<open>Agent.__init__\<close>: memory starts empty, the database is the one on disk.\<close>

definition agent_boot :: "pylib \<Rightarrow> agent_config \<Rightarrow> 'w env \<Rightarrow> string \<Rightarrow> ('w agent, unit) act" where
  "agent_boot lib cf env fresh_uuid =
     bindS (db_do env (db_open fresh_uuid)) (\<lambda>_.
     bindS (liftS (prober_init lib (cf_public_hosts cf))) (\<lambda>_.
     bindS (ask (e_clock env)) (\<lambda>now.
     bindS (modS (\<lambda>s. s\<lparr>ag_tracker := tracker_reset, ag_counters := counters_zero, ag_last_summary := [], ag_last_heartbeat := now,
        ag_status := [], ag_recovery_samples := [], ag_delivery_progress := [], ag_last_reconcile_attempt := None\<rparr>)) (\<lambda>_.
     bindS (db_read env unverified_actions) (close_interrupted env)))))"

text \<open>The loop of \<open>run\<close>, cut after \<open>n\<close> cycles: the code has no bound of its own.\<close>

fun agent_loop :: "nat \<Rightarrow> pylib \<Rightarrow> ed25519 \<Rightarrow> agent_config \<Rightarrow> 'w env \<Rightarrow> ('w agent, unit) act" where
  "agent_loop 0 lib ed cf env = raiseS Killed"
| "agent_loop (Suc n) lib ed cf env =
     bindS (ask (e_cancelled env)) (\<lambda>stop.
     if stop then retS ()
     else bindS (catchS (bindS (agent_step lib ed cf env) (\<lambda>_. retS ()))
            (\<lambda>e. if is_exception e then ask (e_log env (''step error '' @ exn_name e @ '': '' @ e_str env e)) else raiseS e)) (\<lambda>_.
       agent_loop n lib ed cf env))"

record 'w life =
  lf_config :: agent_config
  lf_env :: "'w env"
  lf_uuid :: string
  lf_pid :: int
  lf_cycles :: nat

definition agent_run :: "pylib \<Rightarrow> ed25519 \<Rightarrow> 'w life \<Rightarrow> ('w agent, unit) act" where
  "agent_run lib ed lf =
     (let cf = lf_config lf; env = lf_env lf; aid = (''agent_id'', PStr (cf_agent_id cf)) in
      bindS (agent_boot lib cf env (lf_uuid lf)) (\<lambda>_.
      bindS (ask (e_clock env)) (\<lambda>t. bindS (release_id env) (\<lambda>rel.
      bindS (db_do env (db_log t ''agent_start'' [aid, (''pid'', PInt (lf_pid lf)), (''release'', PStr rel)])) (\<lambda>_.
      bindS (release_id env) (\<lambda>rel2. bindS (ask (e_log env (''cra-agent '' @ rel2 @ '' started''))) (\<lambda>_.
      bindS (agent_loop (lf_cycles lf) lib ed cf env) (\<lambda>_.
      bindS (ask (e_clock env)) (\<lambda>t2. db_do env (db_log t2 ''agent_stop'' [aid]))))))))))"

text \<open>
  A history of the host: one process after the other on the same database, each with a configuration, an
  environment and a number of cycles of its own, each ending in its own way.
\<close>

definition lives :: "pylib \<Rightarrow> ed25519 \<Rightarrow> 'w agent \<Rightarrow> 'w life list \<Rightarrow> 'w agent" where
  "lives lib ed = run (\<lambda>s lf. snd (agent_run lib ed lf s))"

definition agent_fresh :: "agent_db \<Rightarrow> 'w \<Rightarrow> 'w agent" where
  "agent_fresh db w = \<lparr>ag_db = db, ag_tracker = tracker_reset, ag_counters = counters_zero, ag_last_summary = [], ag_last_heartbeat = 0,
     ag_status = [], ag_recovery_samples = [], ag_delivery_progress = [], ag_last_reconcile_attempt = None, ag_world = w,
     ag_sent = [], ag_fences = []\<rparr>"

end
