(* ===== verification/Cra_Agent_Frame.thy ===== *)
theory Cra_Agent_Frame
  imports Cra_Agent
begin

text \<open>
  What the parts of the recovery agent leave alone. \<open>quiet\<close> relates the state before and after code that neither
  reserves nor sends: the database moved by legal transactions, the actions kept their identity, and nothing left
  the process. Every part of the loop except the reservation and the two calls of the sender is quiet, whatever
  its inputs, and whether it returns, raises or is killed. The synchronisation thread is quiet as well.
\<close>

section \<open>The synchronisation thread\<close>

inductive peer_step :: "agent_db \<Rightarrow> agent_db \<Rightarrow> bool" where
  peer_open: "peer_step db (db_open u db)"
| peer_adopt: "peer_step db (kv_put POLICY_KEY v (Some (now, ''policy_adopted'', payload)) db)"
| peer_reject: "peer_step db (db_log now ''policy_rejected'' payload db)"
| peer_ack: "peer_step db (kv_put ACKED_KEY v None db)"

lemma peer_db_step: "peer_step db db' \<Longrightarrow> db_step db db'"
  by (induction rule: peer_step.induct) (auto intro!: db_step.intros simp: ACTION_KINDS_def)

lemma peer_actions: "peer_step db db' \<Longrightarrow> db_actions db' = db_actions db"
  by (induction rule: peer_step.induct) (simp_all add: db_open_def kv_put_def Let_def)

lemma peers_actions: "peer_step\<^sup>*\<^sup>* db db' \<Longrightarrow> db_actions db' = db_actions db"
  by (induction rule: rtranclp_induct) (auto dest: peer_actions)

lemma peers_db_steps: "peer_step\<^sup>*\<^sup>* db db' \<Longrightarrow> db_step\<^sup>*\<^sup>* db db'"
  by (induction rule: rtranclp_induct) (auto dest: peer_db_step intro: rtranclp.rtrancl_into_rtrancl)

definition peer_moves :: "sync_state \<Rightarrow> sync_state \<Rightarrow> bool" where
  "peer_moves s t \<longleftrightarrow> peer_step\<^sup>*\<^sup>* (sy_db s) (sy_db t)"

interpretation peer_frame: state_frame peer_moves
  by unfold_locales (auto simp: peer_moves_def)

lemma write_db_peer: "(\<And>db. peer_step db (f db)) \<Longrightarrow> withinS peer_moves (write_db ok f)"
  unfolding write_db_def by (intro peer_frame.within_intros withinS_mod) (simp add: peer_moves_def r_into_rtranclp)

lemma fetch_policy_peer: "withinS peer_moves (fetch_policy ed key now reply ok)"
proof -
  have rej: "withinS peer_moves (reject_policy now ok e c)" for e c
    unfolding reject_policy_def
    by (intro peer_frame.within_intros withinS_mod write_db_peer peer_reject) (simp add: peer_moves_def)
  show ?thesis unfolding fetch_policy_def
  proof (intro peer_frame.within_bind peer_frame.within_basic)
    fix v current
    show "withinS peer_moves (case open_envelope ed v key of Inl (PolicyError e) \<Rightarrow> reject_policy now ok e None | Inl e \<Rightarrow> raiseS e
      | Inr candidate \<Rightarrow> (case adoption_error current candidate of
           Some e \<Rightarrow> reject_policy now ok e (Some candidate)
         | None \<Rightarrow>
             if current = Some candidate then retS ''UNCHANGED''
             else bindS (write_db ok (kv_put POLICY_KEY v (Some (now, ''policy_adopted'',
                 [(''version'', PInt (p_version candidate)), (''mode'', PStr (p_mode candidate)), (''previous_version'', version_py current)]))))
               (\<lambda>_. retS ''ADOPTED'')))"
    proof (cases "open_envelope ed v key")
      case (Inl e)
      with open_envelope_raises [OF Inl] rej show ?thesis by auto
    next
      case (Inr c)
      then show ?thesis by (simp only: sum.case) (intro peer_frame.within_intros rej write_db_peer peer_adopt)
    qed
  qed
qed

lemma push_audit_peer: "withinS peer_moves (push_audit lib ed cf i)"
  unfolding push_audit_def by (intro peer_frame.within_intros write_db_peer peer_ack)

lemma drain_peer: "withinS peer_moves (drain n lib ed cf ins k acked)"
proof (induction n arbitrary: k acked)
  case (Suc n)
  show ?case unfolding drain.simps by (intro peer_frame.within_intros push_audit_peer Suc.IH)
qed (simp add: peer_frame.within_basic)

text \<open>Whatever the central service answers, a cycle of the thread makes only these steps.\<close>

lemma sync_cycle_peer: "withinS peer_moves (sync_cycle lib ed cf now reply ok ins)"
  unfolding sync_cycle_def by (intro peer_frame.within_intros fetch_policy_peer push_audit_peer drain_peer)

definition honest :: "'w env \<Rightarrow> bool" where
  "honest env \<longleftrightarrow> (\<forall>db w d w'. e_peer env db w = (Inr d, w') \<longrightarrow> peer_step\<^sup>*\<^sup>* db d)"

section \<open>The frame\<close>

text \<open>The columns of an action that no operation changes.\<close>

definition core :: "action_row \<Rightarrow> int \<times> string \<times> string \<times> string \<times> int \<times> instant" where
  "core r = (ac_id r, ac_generation_key r, ac_mode r, ac_request_id r, ac_policy_version r, ac_created_at r)"

definition quiet_db :: "agent_db \<Rightarrow> agent_db \<Rightarrow> bool" where
  "quiet_db db db' \<longleftrightarrow> db_step\<^sup>*\<^sup>* db db' \<and> map core (db_actions db') = map core (db_actions db)"

definition quiet :: "'w agent \<Rightarrow> 'w agent \<Rightarrow> bool" where
  "quiet s t \<longleftrightarrow> quiet_db (ag_db s) (ag_db t) \<and> ag_sent t = ag_sent s \<and> ag_fences t = ag_fences s"

lemma quiet_db_refl [simp]: "quiet_db db db" by (simp add: quiet_db_def)

lemma quiet_db_step: "db_step db db' \<Longrightarrow> map core (db_actions db') = map core (db_actions db) \<Longrightarrow> quiet_db db db'"
  by (simp add: quiet_db_def r_into_rtranclp)

lemma quiet_same: "ag_db t = ag_db s \<Longrightarrow> ag_sent t = ag_sent s \<Longrightarrow> ag_fences t = ag_fences s \<Longrightarrow> quiet s t"
  by (simp add: quiet_def)

interpretation quiet_frame: state_frame quiet
  by unfold_locales (auto simp: quiet_def quiet_db_def intro: rtranclp_trans)

lemma core_update: "(\<And>r. core (f r) = core r) \<Longrightarrow> map core (db_actions (update_actions c f db)) = map core (db_actions db)"
  by (simp add: update_actions_def)

lemma quiet_ops:
  "quiet_db db (db_open u db)"
  "kind \<notin> ACTION_KINDS \<Longrightarrow> quiet_db db (db_log now kind payload db)"
  "quiet_db db (complete_action now i state response db)"
  "''action_id'' \<notin> fst ` set detail \<Longrightarrow> ''result'' \<notin> fst ` set detail \<Longrightarrow> distinct (map fst detail) \<Longrightarrow>
     quiet_db db (record_verification now i result detail db)"
  "quiet_db db (reconcile_observed_action now i response db)"
  "(case entry of None \<Rightarrow> True | Some (_, kind, _) \<Rightarrow> kind \<notin> ACTION_KINDS) \<Longrightarrow> quiet_db db (kv_put key v entry db)"
proof -
  show "quiet_db db (db_open u db)" by (rule quiet_db_step [OF st_open]) (simp add: db_open_def)
  show "quiet_db db (db_log now kind payload db)" if "kind \<notin> ACTION_KINDS"
    by (rule quiet_db_step [OF st_audit [OF that]]) simp
  show "quiet_db db (complete_action now i state response db)"
    by (rule quiet_db_step [OF st_complete]) (simp add: complete_action_def core_update core_def)
  show "quiet_db db (record_verification now i result detail db)"
    if "''action_id'' \<notin> fst ` set detail" "''result'' \<notin> fst ` set detail" "distinct (map fst detail)"
    by (rule quiet_db_step [OF st_verify [OF that]]) (simp add: record_verification_def core_update core_def)
  show "quiet_db db (reconcile_observed_action now i response db)"
    by (rule quiet_db_step [OF st_reconcile]) (simp add: reconcile_observed_action_def Let_def core_update core_def)
  show "quiet_db db (kv_put key v entry db)" if "case entry of None \<Rightarrow> True | Some (_, kind, _) \<Rightarrow> kind \<notin> ACTION_KINDS"
    by (rule quiet_db_step [OF st_put [OF that]]) (simp add: kv_put_def Let_def split: option.splits)
qed

text \<open>Code that does not write to the database at all: only the synchronisation thread may have moved it.\<close>

definition calm :: "'w agent \<Rightarrow> 'w agent \<Rightarrow> bool" where
  "calm s t \<longleftrightarrow> peer_step\<^sup>*\<^sup>* (ag_db s) (ag_db t) \<and> ag_sent t = ag_sent s \<and> ag_fences t = ag_fences s"

lemma calm_same: "ag_db t = ag_db s \<Longrightarrow> ag_sent t = ag_sent s \<Longrightarrow> ag_fences t = ag_fences s \<Longrightarrow> calm s t"
  by (simp add: calm_def)

lemma calm_quiet: "calm s t \<Longrightarrow> quiet s t"
  by (auto simp: calm_def quiet_def quiet_db_def peers_actions dest: peers_db_steps)

lemma calm_actions: "calm s t \<Longrightarrow> db_actions (ag_db t) = db_actions (ag_db s)"
  by (simp add: calm_def peers_actions)

interpretation calm_frame: state_frame calm
  by unfold_locales (auto simp: calm_def)

lemma calm_ask: "withinS calm (ask f)"
  by (auto simp: withinS_def ask_def calm_def split: prod.splits)

lemma calm_attempt: "withinS calm m \<Longrightarrow> withinS calm (attemptS m)"
  by (auto simp: withinS_def attemptS_def split: prod.splits) (metis snd_conv)

lemma calm_sync:
  fixes env :: "'w env"
  assumes h: "honest env"
  shows "withinS calm (db_sync env)"
  unfolding withinS_def
proof
  fix s :: "'w agent"
  obtain r w where rw: "e_peer env (ag_db s) (ag_world s) = (r, w)" by fastforce
  with h show "calm s (snd (db_sync env s))"
    by (cases r) (auto simp: honest_def db_sync_def calm_def)
qed

lemma calm_read: "honest env \<Longrightarrow> withinS calm (db_read env f)"
  unfolding db_read_def by (intro calm_frame.within_intros calm_sync)

lemmas calm_intros = calm_frame.within_intros calm_ask calm_attempt calm_read

lemma calm_policy: "honest env \<Longrightarrow> withinS calm (agent_policy ed cf env)"
  unfolding agent_policy_def by (intro calm_intros)

lemma calm_read_obs: "withinS calm (read_obs lib cf env now)"
  unfolding read_obs_def by (intro calm_intros)

lemma calm_mods [simp]:
  "withinS calm reset_tracker" "withinS calm (note_unavailable why)" "withinS calm count_sample"
  "withinS calm (count_stalled b)" "withinS calm (count_confirmed net)" "withinS calm (track lib cf obs p)"
  "withinS calm (modS (forget_sample i))" "withinS calm (modS (forget_progress i))"
  "withinS calm (modS (\<lambda>s. forget_progress i (forget_sample i s)))"
  by (auto simp: withinS_def reset_tracker_def note_unavailable_def count_sample_def count_stalled_def count_confirmed_def track_def
      forget_sample_def forget_progress_def modS_def retS_def split: prod.splits intro!: calm_same)

lemma calm_stop: "withinS calm (local_stop env)"
  unfolding local_stop_def by (intro calm_intros)

lemma calm_release: "withinS calm (release_id env)"
  unfolding release_id_def by (intro calm_intros)

lemma calm_guard: "honest env \<Longrightarrow> withinS calm (dispatch_guard lib ed cf env p original streak net checked_at reserved)"
  unfolding dispatch_guard_def guard_decision_def by (intro calm_intros calm_policy calm_stop calm_read_obs calm_mods)

lemma quiet_calm: "withinS calm m \<Longrightarrow> withinS quiet m"
  by (erule withinS_mono) (rule calm_quiet)

lemmas quiet_ask = quiet_calm [OF calm_ask]
  and quiet_read = quiet_calm [OF calm_read]
  and quiet_sync = quiet_calm [OF calm_sync]
  and quiet_policy = quiet_calm [OF calm_policy]
  and quiet_read_obs = quiet_calm [OF calm_read_obs]
  and quiet_mods [simp] = calm_mods [THEN quiet_calm]
  and quiet_release = quiet_calm [OF calm_release]
  and quiet_guard = quiet_calm [OF calm_guard]

lemma quiet_attempt: "withinS quiet m \<Longrightarrow> withinS quiet (attemptS m)"
  by (auto simp: withinS_def attemptS_def split: prod.splits) (metis snd_conv)

lemma quiet_apply: "(\<And>db. quiet_db db (snd (f db))) \<Longrightarrow> withinS quiet (db_apply f)"
  by (auto simp: withinS_def db_apply_def quiet_def split: prod.splits) (metis snd_conv)

lemma quiet_tx: "(\<And>db. quiet_db db (snd (f db))) \<Longrightarrow>
    withinS quiet (case tx of Committed \<Rightarrow> db_apply f | Refused e \<Rightarrow> raiseS e | CommittedThen e \<Rightarrow> bindS (db_apply f) (\<lambda>_. raiseS e))"
  by (cases tx) (auto intro!: quiet_frame.within_intros quiet_apply)

lemma quiet_do: "honest env \<Longrightarrow> (\<And>db. quiet_db db (g db)) \<Longrightarrow> withinS quiet (db_do env g)"
  unfolding db_do_def db_write_def by (intro quiet_frame.within_bind quiet_sync quiet_ask quiet_tx) auto

lemmas quiet_intros = quiet_frame.within_intros quiet_ask quiet_attempt quiet_read quiet_do quiet_ops

lemma quiet_record: "honest env \<Longrightarrow> withinS quiet (record_decision lib cf env now d p obs streak net)"
  unfolding record_decision_def
  by (intro quiet_intros withinS_mod) (auto simp: ACTION_KINDS_def intro!: quiet_same)

lemma quiet_query: "honest env \<Longrightarrow> withinS quiet (query_status lib cf env obs row)"
  unfolding query_status_def Let_def by (intro quiet_intros quiet_read_obs quiet_mods)

lemma detail_keys: "map fst (verification_detail lib now obs row pr) =
    [''after_sec'', ''observed_generation_key'', ''execution_state'', ''sample'', ''progress_from'', ''executor_instance_id'',
     ''observed_at'', ''uptime_sec'', ''tcp'']"
  by (simp add: verification_detail_def)

lemma detail_ok:
  "''action_id'' \<notin> fst ` set (verification_detail lib now obs row pr)" "''result'' \<notin> fst ` set (verification_detail lib now obs row pr)"
  "distinct (map fst (verification_detail lib now obs row pr))"
  by (simp_all add: detail_keys flip: set_map)

lemma quiet_verify_row: "honest env \<Longrightarrow> withinS quiet (verify_row lib cf env p now obs row)"
  unfolding verify_row_def Let_def
  by (intro quiet_intros quiet_mods withinS_mod detail_ok) (auto intro!: quiet_same split: option.splits)

lemma quiet_verify_rows: "honest env \<Longrightarrow> withinS quiet (verify_rows lib cf env p queried now obs rows)"
proof (induction rows arbitrary: queried now obs)
  case (Cons row rows)
  then show ?case unfolding verify_rows.simps by (intro quiet_intros quiet_query quiet_verify_row Cons.IH)
qed (simp add: quiet_frame.within_basic)

lemma quiet_verify: "honest env \<Longrightarrow> withinS quiet (verify_actions lib cf env p now obs)"
  unfolding verify_actions_def by (intro quiet_intros quiet_verify_rows)

lemma quiet_finish: "honest env \<Longrightarrow> withinS quiet (finish_cycle lib cf env now p d obs streak stop)"
  unfolding finish_cycle_def Let_def
  by (intro quiet_intros quiet_release withinS_mod) (auto simp: ACTION_KINDS_def intro!: quiet_same)

lemma quiet_close_interrupted: "honest env \<Longrightarrow> withinS quiet (close_interrupted env rows)"
proof (induction rows)
  case (Cons row rows)
  then show ?case unfolding close_interrupted.simps by (intro quiet_intros Cons.IH)
qed (simp add: quiet_frame.within_basic)

lemma quiet_boot: "honest env \<Longrightarrow> withinS quiet (agent_boot lib cf env u)"
  unfolding agent_boot_def by (intro quiet_intros quiet_close_interrupted withinS_mod quiet_same) simp_all

end
