(* ===== verification/Cra_Agent_Safety.thy ===== *)
theory Cra_Agent_Safety
  imports Cra_Agent_Frame
begin

text \<open>
  What the recovery agent guarantees over any history of its host: processes that start, run, fail and are
  killed at any call, one after the other, on one database that the synchronisation thread shares. At most one
  request leaves per FFmpeg generation, only after a durable reservation and on warranted evidence; the budgets
  hold; the database is one the store's transactions produce; and the executor's fence is closed only for the
  agent's own verified recovery.
\<close>

section \<open>The guard\<close>

lemma wpS_I: "(\<And>x t. m s = (Inr x, t) \<Longrightarrow> Q x t) \<Longrightarrow> (\<And>e t. m s = (Inl e, t) \<Longrightarrow> R e t) \<Longrightarrow> wpS m Q R s"
  by (auto simp: wpS_def split: prod.splits sum.splits)

lemma within_result: "withinS R m \<Longrightarrow> m s = (r, t) \<Longrightarrow> R s t"
  by (metis withinS_def snd_conv)

lemma outcome_refuse [simp]: "d_outcome (refuse a b) = NONE" "d_outcome (blocked c) = NONE"
  by (simp_all add: refuse_def blocked_def)

lemma agent_policy_wf:
  assumes "agent_policy ed cf env s = (Inr p, t)"
  shows "wf_policy p"
proof (cases "cf_policy_key cf")
  case None
  with assms show ?thesis by (auto simp: agent_policy_def act_eval wf_BUILTIN)
next
  case (Some key)
  with assms obtain c where "p = (case c of None \<Rightarrow> BUILTIN | Some q \<Rightarrow> q)" and "\<exists>u. db_read env (load_cached_policy ed key) s = (Inr c, u)"
    by (auto simp: agent_policy_def bindS_eq_Inr act_eval)
  then show ?thesis by (auto simp: db_read_def bindS_eq_Inr act_eval wf_BUILTIN split: option.splits dest: load_cached_signed)
qed

lemma ask_wp: "(\<And>x w. Q x (s\<lparr>ag_world := w\<rparr>)) \<Longrightarrow> (\<And>e w. R e (s\<lparr>ag_world := w\<rparr>)) \<Longrightarrow> wpS (ask f) Q R s"
  by (auto simp: wpS_def ask_def split: prod.splits sum.splits)

lemma local_stop_wp: "(\<And>x w. Q x (s\<lparr>ag_world := w\<rparr>)) \<Longrightarrow> (\<And>e w. R e (s\<lparr>ag_world := w\<rparr>)) \<Longrightarrow> wpS (local_stop env) Q R s"
  by (auto simp: local_stop_def wpS_bind wpS_ret intro!: ask_wp)

lemma db_read_wp: "(\<And>t. Q (f (ag_db t)) t) \<Longrightarrow> (\<And>e t. R e t) \<Longrightarrow> wpS (db_read env f) Q R s"
  by (auto simp: db_read_def wpS_def bindS_def act_eval split: prod.splits sum.splits)

lemma track_wp: "(\<And>r t. Q r (s\<lparr>ag_tracker := t\<rparr>)) \<Longrightarrow> wpS (track lib cf obs p) Q R s"
  by (auto simp: track_def wpS_def split: prod.splits)

definition guard_history :: "bool \<Rightarrow> instant \<Rightarrow> observation \<Rightarrow> policy \<Rightarrow> agent_db \<Rightarrow> history" where
  "guard_history reserved now obs p db = (if reserved then no_history else db_history now (generation_key obs) (mode_of p) db)"

lemma guard_decision_wp:
  "wpS (guard_decision lib cf env p original streak net reserved now obs)
     (\<lambda>g t. d_outcome g \<noteq> NONE \<longrightarrow> target_changed lib cf obs original = Inr False \<and>
        (\<exists>cs dur. g = decide now obs (min streak cs) dur net (guard_history reserved now obs p (ag_db t))
           p (cf_producer_id cf) (cf_producer_generation cf) False)) (\<lambda>_ _. True) s"
  unfolding guard_decision_def
  by (auto simp: wpS_bind wpS_ret wpS_lift wpS_get reset_tracker_def wpS_mod guard_history_def
      intro!: track_wp db_read_wp local_stop_wp split: sum.splits prod.splits) blast+

lemma guard_wp:
  "wpS (dispatch_guard lib ed cf env p original streak net checked_at reserved)
     (\<lambda>(now, latest, g) t. d_outcome g \<noteq> NONE \<longrightarrow> (\<exists>obs cs dur. latest = Some obs \<and> wf_policy p \<and>
        target_changed lib cf obs original = Inr False \<and>
        g = decide now obs (min streak cs) dur net (guard_history reserved now obs p (ag_db t))
           p (cf_producer_id cf) (cf_producer_generation cf) False)) (\<lambda>_ _. True) s"
  (is "wpS _ ?Q _ s")
proof -
  define Q where "Q = ?Q"
  have Qb: "Q (now, l, blocked b) u" for now l b u by (simp add: Q_def)
  have tail: "wpS (case x of (latest, why) \<Rightarrow> (case latest of None \<Rightarrow> bindS reset_tracker (\<lambda>_. retS (now, None, blocked why))
       | Some obs \<Rightarrow> bindS (guard_decision lib cf env p original streak net reserved now obs) (\<lambda>d. retS (now, Some obs, d)))) Q (\<lambda>_ _. True) u"
    if "wf_policy p" for now x u
  proof -
    have "wpS (guard_decision lib cf env p original streak net reserved now obs) (\<lambda>d. Q (now, Some obs, d)) (\<lambda>_ _. True) u" for obs
      using that by (intro wpS_mono [OF guard_decision_wp]) (auto simp: Q_def)
    then show ?thesis by (simp add: wpS_bind wpS_ret [abs_def] reset_tracker_def wpS_mod Qb split: prod.split option.split)
  qed
  have rd: "wpS (read_obs lib cf env now) (\<lambda>x. wpS (case x of (latest, why) \<Rightarrow> (case latest of None \<Rightarrow> bindS reset_tracker (\<lambda>_. retS (now, None, blocked why))
       | Some obs \<Rightarrow> bindS (guard_decision lib cf env p original streak net reserved now obs) (\<lambda>d. retS (now, Some obs, d)))) Q (\<lambda>_ _. True)) (\<lambda>_ _. True) u"
    if "wf_policy p" for now u
    using tail [OF that] by (rule wpS_I) simp
  have "wpS (dispatch_guard lib ed cf env p original streak net checked_at reserved) Q (\<lambda>_ _. True) s"
    unfolding dispatch_guard_def wpS_bind
  proof (rule wpS_I)
    fix current t
    assume "agent_policy ed cf env s = (Inr current, t)"
    from agent_policy_wf [OF this] have wf: "wf_policy current" .
    show "wpS (ask (e_clock env)) (\<lambda>now. wpS (local_stop env) (\<lambda>stop. wpS
       (if stop then retS (now, None, blocked ''LOCAL_STOP'')
       else if current \<noteq> p then retS (now, None, blocked ''POLICY_CHANGED'')
       else if \<not> (0 \<le> total_seconds (now - checked_at) \<and> total_seconds (now - checked_at) \<le> cf_max_age cf)
       then retS (now, None, blocked ''NETWORK_EVIDENCE_STALE'')
       else bindS (read_obs lib cf env now) (\<lambda>(latest, why). case latest of
         None \<Rightarrow> bindS reset_tracker (\<lambda>_. retS (now, None, blocked why))
       | Some obs \<Rightarrow> bindS (guard_decision lib cf env p original streak net reserved now obs) (\<lambda>d. retS (now, Some obs, d)))) Q (\<lambda>_ _. True))
       (\<lambda>_ _. True)) (\<lambda>_ _. True) t"
      by (intro ask_wp local_stop_wp TrueI) (use wf rd in \<open>auto simp: wpS_bind wpS_ret Qb\<close>)
  qed simp
  then show ?thesis by (simp add: Q_def)
qed

lemma guard_Inr:
  assumes "dispatch_guard lib ed cf env p original streak net checked_at reserved s = (Inr (now, Some obs, g), t)" and "d_outcome g \<noteq> NONE"
  obtains cs dur where "wf_policy p" "target_changed lib cf obs original = Inr False"
    "g = decide now obs (min streak cs) dur net (guard_history reserved now obs p (ag_db t)) p (cf_producer_id cf) (cf_producer_generation cf) False"
  using wpS_Inr [OF guard_wp assms(1)] assms(2) by auto

lemma target_unchanged_key:
  "target_changed lib cf obs original = Inr False \<Longrightarrow> generation_key obs = generation_key original"
  by (auto simp: target_changed_def transport_identity_def split: if_splits dest: identity_eq_key)

section \<open>Budgets\<close>

text \<open>The history a decision reads depends on the fixed columns only.\<close>

definition core_history :: "(int \<times> string \<times> string \<times> string \<times> int \<times> instant) list \<Rightarrow> instant \<Rightarrow> string \<Rightarrow> string \<Rightarrow> history" where
  "core_history cs now gk mode =
     (let created = map (\<lambda>(_, _, _, _, _, at0). at0) (filter (\<lambda>(_, _, m, _). m = mode) cs) in
      \<lparr>h_generation_already_acted = list_ex (\<lambda>(_, g, m, _). g = gk \<and> m = mode) cs,
       h_last_action_at = (if created = [] then None else Some (Max (set created))),
       h_actions_last_hour = length (filter (\<lambda>at0. at0 \<ge> ts_ms (now - HOUR)) created),
       h_actions_last_day = length (filter (\<lambda>at0. at0 \<ge> ts_ms (now - DAY)) created)\<rparr>)"

lemma rows_history_core: "rows_history rows now gk mode = core_history (map core rows) now gk mode"
  by (simp add: rows_history_def core_history_def count_since_def core_def Let_def list_ex_iff filter_map comp_def conj_commute)

text \<open>What the reservation of the action \<open>c\<close> after the actions \<open>cs\<close> respects.\<close>

definition within_budget :: "(int \<times> string \<times> string \<times> string \<times> int \<times> instant) list \<Rightarrow> int \<times> string \<times> string \<times> string \<times> int \<times> instant \<Rightarrow> bool" where
  "within_budget cs c = (case c of (i, gk, mode, rid, version, at0) \<Rightarrow>
     \<exists>now p. at0 = ts_ms now \<and> wf_policy p \<and> version = p_version p \<and> mode = mode_of p \<and> p_mode p \<noteq> ''off'' \<and>
       (let h = core_history cs now gk mode in
        \<not> h_generation_already_acted h \<and> \<not> cooling now h p \<and>
        int (h_actions_last_hour h) < p_max_per_hour p \<and> int (h_actions_last_day h) < p_max_per_day p))"

text \<open>From the \<open>n0\<close>-th action on; a history starts with whatever the database holds.\<close>

definition budgeted :: "nat \<Rightarrow> action_row list \<Rightarrow> bool" where
  "budgeted n0 rows \<longleftrightarrow> (\<forall>i < length rows. n0 \<le> i \<longrightarrow> within_budget (take i (map core rows)) (core (rows ! i)))"

lemma budgeted_snoc: "budgeted n0 rows \<Longrightarrow> within_budget (map core rows) (core r) \<Longrightarrow> budgeted n0 (rows @ [r])"
  by (auto simp: budgeted_def nth_append less_Suc_eq)

lemma budgeted_core: "map core rows' = map core rows \<Longrightarrow> budgeted n0 rows' = budgeted n0 rows"
  unfolding budgeted_def by (metis length_map nth_map)

section \<open>The invariant\<close>

definition sent_keys :: "'w agent \<Rightarrow> string list" where
  "sent_keys s = map (\<lambda>x. generation_key (sn_obs x)) (ag_sent s)"

text \<open>What holds as a request leaves.\<close>

definition reserved_row :: "pylib \<Rightarrow> string \<Rightarrow> agent_db \<Rightarrow> bool" where
  "reserved_row lib gk db \<longleftrightarrow> (\<exists>r \<in> set (db_actions db). ac_generation_key r = gk \<and> ac_mode r = ''enforce'' \<and>
     ac_state r = ''RESERVED'' \<and> ac_request_id r = request_id_for lib gk)"

definition sent_ok :: "pylib \<Rightarrow> sent_request \<Rightarrow> bool" where
  "sent_ok lib x \<longleftrightarrow>
     reserved_row lib (generation_key (sn_obs x)) (sn_db x) \<and> wf_policy (sn_policy x) \<and> p_mode (sn_policy x) = ''enforce'' \<and>
     (\<exists>now n dur. n \<le> sn_streak x \<and> action_warranted now (sn_obs x) n dur (sn_net x) no_history (sn_policy x)) \<and>
     \<not> context_missing (sn_obs x) \<and>
     dget (sn_request x) ''request_id'' = PStr (request_id_for lib (generation_key (sn_obs x))) \<and>
     dget (sn_request x) ''producer_id'' = PStr (o_active_producer_id (sn_obs x)) \<and>
     dget (sn_request x) ''producer_generation'' = PInt (o_active_producer_generation (sn_obs x)) \<and>
     dget (sn_request x) ''intent_type'' = PStr ''RESTART_FFMPEG'' \<and>
     dget (sn_request x) ''expected_ffmpeg_generation'' = PStr (o_ffmpeg_generation (sn_obs x))"

definition fence_ok :: "fence_request \<Rightarrow> bool" where
  "fence_ok x \<longleftrightarrow> (\<exists>r \<in> set (db_actions (fr_db x)). ac_id r = fr_action x \<and> ac_mode r = ''enforce'' \<and>
     ac_verify_result r = Some ''DELIVERY_RESUMED'' \<and> dget (fr_request x) ''owner_request_id'' = PStr (ac_request_id r))"

definition agent_inv :: "pylib \<Rightarrow> nat \<Rightarrow> 'w agent \<Rightarrow> bool" where
  "agent_inv lib n0 s \<longleftrightarrow>
     distinct (sent_keys s) \<and> (\<forall>k \<in> set (sent_keys s). (k, ''enforce'') \<in> claimed (ag_db s)) \<and>
     list_all (sent_ok lib) (ag_sent s) \<and> list_all fence_ok (ag_fences s) \<and> budgeted n0 (db_actions (ag_db s))"

definition keeps_inv :: "pylib \<Rightarrow> nat \<Rightarrow> 'w agent \<Rightarrow> 'w agent \<Rightarrow> bool" where
  "keeps_inv lib n0 s t \<longleftrightarrow> (agent_inv lib n0 s \<longrightarrow> agent_inv lib n0 t)"

interpretation inv_frame: state_frame "keeps_inv lib n0" for lib n0
  by unfold_locales (auto simp: keeps_inv_def)

lemma claimed_mono: "db_step\<^sup>*\<^sup>* db db' \<Longrightarrow> claimed db \<subseteq> claimed db'"
  by (rule generation_claims.held_forever)

lemma quiet_inv: "quiet s t \<Longrightarrow> agent_inv lib n0 s \<Longrightarrow> agent_inv lib n0 t"
  using budgeted_core [of "db_actions (ag_db t)" "db_actions (ag_db s)" n0] claimed_mono [of "ag_db s" "ag_db t"]
  by (auto simp: agent_inv_def quiet_def quiet_db_def sent_keys_def)

lemma quiet_keeps: "quiet s t \<Longrightarrow> keeps_inv lib n0 s t"
  by (auto simp: keeps_inv_def dest: quiet_inv)

lemma inv_quiet: "withinS quiet m \<Longrightarrow> withinS (keeps_inv lib n0) m"
  by (erule withinS_mono) (rule quiet_keeps)

lemma keeps_inv_wp: "(\<And>s. agent_inv lib n0 s \<Longrightarrow> wpS m (\<lambda>_. agent_inv lib n0) (\<lambda>_. agent_inv lib n0) s) \<Longrightarrow> withinS (keeps_inv lib n0) m"
  unfolding withinS_def keeps_inv_def by (intro allI impI) (rule wpS_snd)

section \<open>The reservation\<close>

lemma db_sync_calm: "honest env \<Longrightarrow> db_sync env s = (r, t) \<Longrightarrow> calm s t"
  by (rule within_result [OF calm_sync])

lemma db_write_wp:
  assumes "honest env"
    and "\<And>t x d. calm s t \<Longrightarrow> f (ag_db t) = (x, d) \<Longrightarrow> Q x (t\<lparr>ag_db := d\<rparr>) \<and> (\<forall>e. R e (t\<lparr>ag_db := d\<rparr>))"
    and "\<And>e t. calm s t \<Longrightarrow> R e t"
  shows "wpS (db_write env f) Q R s"
proof -
  have ap: "wpS (db_apply f) Q R t" "wpS (db_apply f) (\<lambda>_. R e) R t" if "calm s t" for t e
    using assms(2) [OF that] by (auto simp: wpS_def db_apply_def split: prod.splits)
  have tx: "wpS (case tx of Committed \<Rightarrow> db_apply f | Refused e \<Rightarrow> raiseS e | CommittedThen e \<Rightarrow> bindS (db_apply f) (\<lambda>_. raiseS e)) Q R t"
    if "calm s t" for tx t
    using ap [OF that] assms(3) [OF that] by (cases tx) (simp_all add: wpS_bind wpS_ret [abs_def])
  have at: "wpS (ask (e_tx env)) (\<lambda>tx. wpS (case tx of Committed \<Rightarrow> db_apply f | Refused e \<Rightarrow> raiseS e
      | CommittedThen e \<Rightarrow> bindS (db_apply f) (\<lambda>_. raiseS e)) Q R) R t" if "calm s t" for t
    by (rule withinS_wp [OF calm_ask]) (use calm_frame.R_trans [OF that] tx assms(3) in simp_all)
  show ?thesis unfolding db_write_def wpS_bind
    by (rule withinS_wp [OF calm_sync [OF assms(1)]]) (use at assms(3) in simp_all)
qed

definition claim_ready :: "pylib \<Rightarrow> nat \<Rightarrow> string \<Rightarrow> 'w agent \<Rightarrow> bool" where
  "claim_ready lib n0 gk s \<longleftrightarrow> agent_inv lib n0 s \<and> gk \<notin> set (sent_keys s) \<and> reserved_row lib gk (ag_db s)"

lemma reserved_row_claimed: "reserved_row lib gk db \<Longrightarrow> (gk, ''enforce'') \<in> claimed db"
  by (auto simp: reserved_row_def claimed_def image_iff)

lemma calm_claim: "calm s t \<Longrightarrow> claim_ready lib n0 gk s \<Longrightarrow> claim_ready lib n0 gk t"
  using quiet_inv [OF calm_quiet, of s t lib n0] calm_actions [of s t] by (simp add: claim_ready_def reserved_row_def calm_def sent_keys_def)

lemma reserve_inv:
  assumes "agent_inv lib n0 t" and "reserve_action now v (ag_db t) = (r, d)"
    and "within_budget (map core (db_actions (ag_db t))) (core (action_of now v (db_actions_last (ag_db t) + 1)))"
    and "rv_request_id v = request_id_for lib (rv_generation_key v)"
  shows "agent_inv lib n0 (t\<lparr>ag_db := d\<rparr>) \<and> (r \<noteq> None \<and> rv_mode v = ''enforce'' \<longrightarrow> claim_ready lib n0 (rv_generation_key v) (t\<lparr>ag_db := d\<rparr>))"
proof (cases r)
  case None
  with assms(2) have "d = ag_db t" by (auto simp: reserve_action_def Let_def split: if_splits)
  with None assms(1) show ?thesis by simp
next
  case (Some i)
  have cl: "claims (ag_db t) (rv_generation_key v, rv_mode v) d" using assms(2) Some by (auto simp: claims_def)
  have rows: "db_actions d = db_actions (ag_db t) @ [action_of now v (db_actions_last (ag_db t) + 1)]"
    using assms(2) Some by (auto simp: reserve_action_def Let_def split: if_splits)
  have mono: "claimed (ag_db t) \<subseteq> claimed d" by (auto simp: claimed_def rows)
  with assms(1,3) have inv: "agent_inv lib n0 (t\<lparr>ag_db := d\<rparr>)"
    by (auto simp: agent_inv_def sent_keys_def rows budgeted_snoc)
  moreover have "claim_ready lib n0 (rv_generation_key v) (t\<lparr>ag_db := d\<rparr>)" if m: "rv_mode v = ''enforce''"
  proof -
    have "rv_generation_key v \<notin> set (sent_keys t)"
      using assms(1) generation_claims.claim_free [OF cl] m by (auto simp: agent_inv_def)
    moreover have "reserved_row lib (rv_generation_key v) d" using m assms(4) by (simp add: reserved_row_def rows action_of_def)
    ultimately show ?thesis using inv by (simp add: claim_ready_def sent_keys_def)
  qed
  ultimately show ?thesis by blast
qed

section \<open>Sending\<close>

lemma wp_seq:
  "wpS m (\<lambda>_. P) (\<lambda>_. P) s \<Longrightarrow> (\<And>x t. P t \<Longrightarrow> wpS (f x) (\<lambda>_. P) (\<lambda>_. P) t) \<Longrightarrow> wpS (bindS m f) (\<lambda>_. P) (\<lambda>_. P) s"
  unfolding wpS_bind by (rule wpS_mono)

lemma wp_caught:
  "wpS m (\<lambda>_. P) (\<lambda>_. P) s \<Longrightarrow> (\<And>e t. P t \<Longrightarrow> wpS (h e) (\<lambda>_. P) (\<lambda>_. P) t) \<Longrightarrow> wpS (catchS m h) (\<lambda>_. P) (\<lambda>_. P) s"
  unfolding wpS_catch by (rule wpS_mono)

lemma quiet_wp: "withinS quiet m \<Longrightarrow> agent_inv lib n0 s \<Longrightarrow> wpS m (\<lambda>_. agent_inv lib n0) (\<lambda>_. agent_inv lib n0) s"
  by (erule withinS_wp) (auto dest: quiet_inv)

definition warrant :: "agent_config \<Rightarrow> policy \<Rightarrow> observation \<Rightarrow> nat \<Rightarrow> network option \<Rightarrow> bool" where
  "warrant cf p obs streak net \<longleftrightarrow>
     wf_policy p \<and> p_mode p = ''enforce'' \<and> (\<exists>now n dur. n \<le> streak \<and> action_warranted now obs n dur net no_history p) \<and>
     \<not> context_missing obs \<and> o_active_producer_id obs = cf_producer_id cf \<and> o_active_producer_generation obs = cf_producer_generation cf"

lemma sent_ok_request:
  assumes "build_restart_request lib obs now (cf_producer_id cf) (cf_producer_generation cf) reason = Inr request"
    and "warrant cf p obs streak net" and "reserved_row lib (generation_key obs) db"
  shows "sent_ok lib \<lparr>sn_obs = obs, sn_request = request, sn_policy = p, sn_streak = streak, sn_net = net, sn_db = db\<rparr>"
  using assms by (auto simp: build_restart_request_def sent_ok_def warrant_def dget_def Let_def)

lemma send_restart_wp:
  assumes "build_restart_request lib obs now (cf_producer_id cf) (cf_producer_generation cf) reason = Inr request"
    and w: "warrant cf p obs streak net" and c: "claim_ready lib n0 (generation_key obs) s"
  shows "wpS (send_restart env p obs streak net request) (\<lambda>_. agent_inv lib n0) (\<lambda>_. agent_inv lib n0) s"
proof -
  from c have r: "reserved_row lib (generation_key obs) (ag_db s)" by (simp add: claim_ready_def)
  note ok = sent_ok_request [OF assms(1) w r]
  have "agent_inv lib n0 (s\<lparr>ag_sent := ag_sent s @ [\<lparr>sn_obs = obs, sn_request = request, sn_policy = p, sn_streak = streak,
      sn_net = net, sn_db = ag_db s\<rparr>]\<rparr>)"
    using c ok reserved_row_claimed [OF r] by (auto simp: claim_ready_def agent_inv_def sent_keys_def)
  then show ?thesis unfolding send_restart_def wpS_bind wpS_mod by (rule quiet_wp [OF quiet_ask])
qed

lemma fire_wp:
  assumes "honest env" and "warrant cf p obs streak net" and "claim_ready lib n0 (generation_key obs) s"
  shows "wpS (fire lib cf env p obs streak net i) (\<lambda>_. agent_inv lib n0) (\<lambda>_. agent_inv lib n0) s"
  unfolding fire_def wpS_bind [of "ask (e_clock env)"]
proof (rule withinS_wp [OF calm_ask])
  fix issued t
  assume "calm s t"
  from calm_claim [OF this assms(3)] have c: "claim_ready lib n0 (generation_key obs) t" .
  have tail: "wpS (bindS (catchS (bindS (send_restart env p obs streak net request) (\<lambda>response.
           retS (response, classify lib response (request_id_for lib (generation_key obs)))))
        (\<lambda>e. if is_exception e then retS (error_response env e, ''OUTCOME_UNKNOWN'') else raiseS e)) (\<lambda>(response, state).
     bindS (ask (e_clock env)) (\<lambda>done_at.
     bindS (db_do env (complete_action done_at i state (aupdate response (annotations lib cf p obs issued)))) (\<lambda>_.
     ask (e_log env (''restart gen='' @ generation_key obs @ '' -> '' @ state)))))) (\<lambda>_. agent_inv lib n0) (\<lambda>_. agent_inv lib n0) t"
    if r: "build_restart_request lib obs issued (cf_producer_id cf) (cf_producer_generation cf) reason = Inr request" for reason request
    using send_restart_wp [OF r assms(2) c] assms(1)
    by (intro wp_seq wp_caught) (auto simp: wpS_ret intro!: quiet_wp quiet_intros split: prod.splits)
  from c have "agent_inv lib n0 t" by (simp add: claim_ready_def)
  with tail show "wpS (bindS (liftS (build_restart_request lib obs issued (cf_producer_id cf) (cf_producer_generation cf)
        (''cra: confirmed tcp stall streak='' @ int_str (int streak)))) (\<lambda>request.
     bindS (catchS (bindS (send_restart env p obs streak net request) (\<lambda>response.
           retS (response, classify lib response (request_id_for lib (generation_key obs)))))
        (\<lambda>e. if is_exception e then retS (error_response env e, ''OUTCOME_UNKNOWN'') else raiseS e)) (\<lambda>(response, state).
     bindS (ask (e_clock env)) (\<lambda>done_at.
     bindS (db_do env (complete_action done_at i state (aupdate response (annotations lib cf p obs issued)))) (\<lambda>_.
     ask (e_log env (''restart gen='' @ generation_key obs @ '' -> '' @ state))))))) (\<lambda>_. agent_inv lib n0) (\<lambda>_. agent_inv lib n0) t"
    unfolding wpS_bind [of "liftS _"] wpS_lift by (auto split: sum.splits)
qed (use assms(3) in \<open>auto simp: claim_ready_def dest!: calm_quiet intro: quiet_inv\<close>)

lemma decide_warrant:
  assumes "d_outcome (decide now obs (min streak n) dur net no_history p (cf_producer_id cf) (cf_producer_generation cf) False) = RESTART"
    and "wf_policy p"
  shows "warrant cf p obs streak net"
proof -
  have "action_warranted now obs (min streak n) dur net no_history p"
    using decide_acts [of now obs "min streak n" dur net no_history p "cf_producer_id cf" "cf_producer_generation cf" False] assms(1) by simp
  with decide_restart [OF assms(1)] assms(2) show ?thesis
    unfolding warrant_def using min.cobounded1 [of streak n] by blast
qed

lemma act_reserved_wp:
  assumes h: "honest env" and inv: "agent_inv lib n0 s" and d: "d_outcome d \<noteq> NONE"
    and c: "d_outcome d = RESTART \<Longrightarrow> claim_ready lib n0 (generation_key obs) s"
  shows "wpS (act_reserved lib ed cf env d p obs streak net checked_at i) (\<lambda>_. agent_inv lib n0) (\<lambda>_. agent_inv lib n0) s"
  unfolding act_reserved_def wpS_bind [of "dispatch_guard _ _ _ _ _ _ _ _ _ _"]
proof (rule wpS_I)
  fix x t
  assume g: "dispatch_guard lib ed cf env p obs streak net checked_at True s = (Inr x, t)"
  obtain now latest guarded where x: "x = (now, latest, guarded)" by (cases x)
  have calm: "calm s t" using within_result [OF calm_guard [OF h] g] .
  then have inv_t: "agent_inv lib n0 t" using quiet_inv [OF calm_quiet inv] by simp
  have cancel: "wpS (bindS (db_do env (complete_action now i ''CANCELLED_BEFORE_SEND'' r)) (\<lambda>_. retS guarded)) (\<lambda>_. agent_inv lib n0) (\<lambda>_. agent_inv lib n0) t" for r
    using inv_t h by (intro quiet_wp quiet_intros) auto
  have dry: "wpS (bindS (db_do env (complete_action now i ''DRY_RUN'' [])) (\<lambda>_. bindS (ask (e_log env l)) (\<lambda>_. retS d)))
     (\<lambda>_. agent_inv lib n0) (\<lambda>_. agent_inv lib n0) t" for l
    using inv_t h by (intro quiet_wp quiet_intros) auto
  have shot: "wpS (bindS (fire lib cf env p o1 streak net i) (\<lambda>_. retS d)) (\<lambda>_. agent_inv lib n0) (\<lambda>_. agent_inv lib n0) t"
    if "latest = Some o1" "d_outcome guarded = d_outcome d" "d_outcome d = RESTART" for o1
  proof -
    have "d_outcome guarded \<noteq> NONE" using that(2,3) by simp
    with g [unfolded x that(1)] obtain n dur where "wf_policy p" "target_changed lib cf o1 obs = Inr False"
      "guarded = decide now o1 (min streak n) dur net (guard_history True now o1 p (ag_db t)) p (cf_producer_id cf) (cf_producer_generation cf) False"
      by (rule guard_Inr)
    with that(2,3) have "warrant cf p o1 streak net" and "generation_key o1 = generation_key obs"
      by (auto simp: guard_history_def intro: decide_warrant target_unchanged_key)
    with calm_claim [OF calm c [OF that(3)]] fire_wp [OF h] show ?thesis
      by (intro wp_seq) (auto simp: wpS_ret)
  qed
  show "wpS (case x of (now, latest, guarded) \<Rightarrow>
     let cancel = bindS (db_do env (complete_action now i ''CANCELLED_BEFORE_SEND'' [(''reason'', PStr (summary guarded))])) (\<lambda>_. retS guarded) in
     case latest of None \<Rightarrow> cancel
     | Some obs' \<Rightarrow> if d_outcome guarded \<noteq> d_outcome d then cancel
         else if d_outcome d \<noteq> RESTART then
           bindS (db_do env (complete_action now i ''DRY_RUN'' [])) (\<lambda>_.
           bindS (ask (e_log env (''would restart gen='' @ generation_key obs' @ '' (dry_run)''))) (\<lambda>_. retS d))
         else bindS (fire lib cf env p obs' streak net i) (\<lambda>_. retS d)) (\<lambda>_. agent_inv lib n0) (\<lambda>_. agent_inv lib n0) t"
    using cancel dry shot by (auto simp: x Let_def split: option.splits)
next
  fix e t
  assume "dispatch_guard lib ed cf env p obs streak net checked_at True s = (Inl e, t)"
  from within_result [OF calm_guard [OF h] this] inv show "agent_inv lib n0 t" by (metis calm_quiet quiet_inv)
qed

lemma decide_budget:
  assumes "d_outcome (decide now obs n dur net (db_history now (generation_key obs) (mode_of p) db) p pid pgen False) \<noteq> NONE"
    and "wf_policy p" and "db_actions db' = db_actions db"
    and "rv_generation_key v = generation_key obs" "rv_mode v = mode_of p" "rv_policy_version v = p_version p"
  shows "within_budget (map core (db_actions db')) (core (action_of now v i))"
proof -
  have "action_warranted now obs n dur net (core_history (map core (db_actions db)) now (generation_key obs) (mode_of p)) p"
    using decide_acts [OF assms(1)] by (simp add: db_history_def rows_history_core)
  moreover have "core (action_of now v i) = (i, generation_key obs, mode_of p, rv_request_id v, p_version p, ts_ms now)"
    using assms(4-) by (simp add: core_def action_of_def)
  ultimately show ?thesis using assms(2,3) unfolding within_budget_def by (auto simp: action_warranted_def Let_def)
qed

lemma decide_mode:
  assumes "d_outcome (decide now obs n dur net h p pid pgen stop) = d_outcome d" and "d_outcome d \<noteq> NONE"
  shows "(if d_outcome d = RESTART then ''enforce'' else ''dry_run'') = mode_of p"
proof (cases "d_outcome d = RESTART")
  case True
  with assms(1) decide_restart [of now obs n dur net h p pid pgen stop] show ?thesis by (simp add: mode_of_def)
next
  case False
  with assms(2) have "d_outcome d = WOULD_RESTART" by (cases "d_outcome d") auto
  with assms(1) decide_would [of now obs n dur net h p pid pgen stop] show ?thesis by (simp add: mode_of_def)
qed

lemma agent_act_wp:
  assumes h: "honest env" and inv: "agent_inv lib n0 s" and d: "d_outcome d \<noteq> NONE"
  shows "wpS (agent_act lib ed cf env d p obs0 streak net checked_at) (\<lambda>_. agent_inv lib n0) (\<lambda>_. agent_inv lib n0) s"
  unfolding agent_act_def wpS_bind [of "dispatch_guard _ _ _ _ _ _ _ _ _ _"]
proof (rule wpS_I)
  fix x t
  assume g: "dispatch_guard lib ed cf env p obs0 streak net checked_at False s = (Inr x, t)"
  obtain now latest guarded where x: "x = (now, latest, guarded)" by (cases x)
  have inv_t: "agent_inv lib n0 t" using quiet_inv [OF calm_quiet [OF within_result [OF calm_guard [OF h] g]] inv] .
  let ?v = "\<lambda>obs ev. \<lparr>rv_generation_key = generation_key obs, rv_mode = (if d_outcome d = RESTART then ''enforce'' else ''dry_run''),
              rv_request_id = request_id_for lib (generation_key obs), rv_policy_version = p_version p,
              rv_bytes_sent = (case o_tcp obs of None \<Rightarrow> 0 | Some t \<Rightarrow> t_bytes_sent t), rv_evidence = PDict ev\<rparr>"
  have go: "wpS (bindS (db_write env (reserve_action now (?v obs ev))) (\<lambda>reserved. case reserved of
             None \<Rightarrow> retS (refuse ''STALL_CONFIRMED'' [''GENERATION_ALREADY_ACTED''])
           | Some action_id \<Rightarrow> act_reserved lib ed cf env d p obs streak net checked_at action_id)) (\<lambda>_. agent_inv lib n0) (\<lambda>_. agent_inv lib n0) t"
    if lat: "latest = Some obs" and out: "d_outcome guarded = d_outcome d" for obs ev
  proof -
    have "d_outcome guarded \<noteq> NONE" using out d by simp
    with g [unfolded x lat] obtain n dur where wf: "wf_policy p"
      and gd: "guarded = decide now obs (min streak n) dur net (guard_history False now obs p (ag_db t)) p
        (cf_producer_id cf) (cf_producer_generation cf) False"
      by (rule guard_Inr)
    have acts: "d_outcome (decide now obs (min streak n) dur net (db_history now (generation_key obs) (mode_of p) (ag_db t)) p
        (cf_producer_id cf) (cf_producer_generation cf) False) = d_outcome d"
      using gd out by (simp add: guard_history_def)
    have mode: "rv_mode (?v obs ev) = mode_of p" using decide_mode [OF acts d] by simp
    have bud: "within_budget (map core (db_actions (ag_db u))) (core (action_of now (?v obs ev) j))" if "calm t u" for u j
      by (rule decide_budget [OF _ wf calm_actions [OF that], where n = "min streak n" and dur = dur and net = net
            and pid = "cf_producer_id cf" and pgen = "cf_producer_generation cf"]) (use acts d mode in simp_all)
    let ?P = "\<lambda>r u. agent_inv lib n0 u \<and> (r \<noteq> None \<and> d_outcome d = RESTART \<longrightarrow> claim_ready lib n0 (generation_key obs) u)"
    have "wpS (db_write env (reserve_action now (?v obs ev))) ?P (\<lambda>_. agent_inv lib n0) t"
    proof (rule db_write_wp [OF h])
      fix u r db'
      assume c: "calm t u" and r: "reserve_action now (?v obs ev) (ag_db u) = (r, db')"
      from reserve_inv [OF quiet_inv [OF calm_quiet [OF c] inv_t] r bud [OF c]]
      show "?P r (u\<lparr>ag_db := db'\<rparr>) \<and> (\<forall>e. agent_inv lib n0 (u\<lparr>ag_db := db'\<rparr>))" by simp
    qed (metis calm_quiet quiet_inv inv_t)
    then show ?thesis unfolding wpS_bind
      by (rule wpS_mono) (use h d in \<open>auto simp: wpS_ret intro!: act_reserved_wp split: option.splits\<close>)
  qed
  show "wpS (case x of (now, latest, guarded) \<Rightarrow> (case latest of None \<Rightarrow> retS guarded
     | Some obs \<Rightarrow> if d_outcome guarded \<noteq> d_outcome d then retS guarded
         else bindS (liftS (evidence lib cf (Some obs) streak net)) (\<lambda>ev. bindS (db_write env (reserve_action now (?v obs ev))) (\<lambda>reserved. case reserved of
             None \<Rightarrow> retS (refuse ''STALL_CONFIRMED'' [''GENERATION_ALREADY_ACTED''])
           | Some action_id \<Rightarrow> act_reserved lib ed cf env d p obs streak net checked_at action_id)))) (\<lambda>_. agent_inv lib n0) (\<lambda>_. agent_inv lib n0) t"
  proof (cases latest)
    case (Some obs)
    show ?thesis
    proof (cases "d_outcome guarded = d_outcome d")
      case True
      from go [OF Some True] inv_t show ?thesis unfolding x Some prod.case option.case wpS_bind [of "liftS _"] wpS_lift
        by (cases "evidence lib cf (Some obs) streak net") (simp_all only: True sum.case not_not simp_thms if_False wpS_bind [of "liftS _"] wpS_lift)
    qed (use inv_t in \<open>simp add: x Some wpS_ret\<close>)
  qed (use inv_t in \<open>simp add: x wpS_ret\<close>)
next
  fix e t
  assume "dispatch_guard lib ed cf env p obs0 streak net checked_at False s = (Inl e, t)"
  from within_result [OF calm_guard [OF h] this] inv show "agent_inv lib n0 t" by (metis calm_quiet quiet_inv)
qed

lemma agent_act_inv: "honest env \<Longrightarrow> d_outcome d \<noteq> NONE \<Longrightarrow> withinS (keeps_inv lib n0) (agent_act lib ed cf env d p obs streak net checked_at)"
  by (rule keeps_inv_wp [OF agent_act_wp])

section \<open>Fences\<close>

definition resumed_row :: "int \<Rightarrow> string \<Rightarrow> agent_db \<Rightarrow> bool" where
  "resumed_row i rid db \<longleftrightarrow> (\<exists>r \<in> set (db_actions db). ac_id r = i \<and> ac_mode r = ''enforce'' \<and>
     ac_verify_result r = Some ''DELIVERY_RESUMED'' \<and> ac_request_id r = rid)"

lemma resumed_row_mono:
  assumes "db_step\<^sup>*\<^sup>* db db'" and "resumed_row i rid db"
  shows "resumed_row i rid db'"
proof -
  from assms(2) obtain k where k: "k < length (db_actions db)" "ac_id (db_actions db ! k) = i" "ac_mode (db_actions db ! k) = ''enforce''"
    "ac_verify_result (db_actions db ! k) = Some ''DELIVERY_RESUMED''" "ac_request_id (db_actions db ! k) = rid"
    by (auto simp: resumed_row_def in_set_conv_nth)
  with steps_rows [OF assms(1)] have "k < length (db_actions db')" "row_le (db_actions db ! k) (db_actions db' ! k)"
    by (auto simp: rows_le_def)
  with k show ?thesis unfolding resumed_row_def by (intro bexI [of _ "db_actions db' ! k"]) (auto simp: row_le_def)
qed

lemma map_of_fold_aset:
  "map_of (fold (\<lambda>(i, rid). aset rid i) xs acc) k = Some v \<Longrightarrow> (v, k) \<in> set xs \<or> map_of acc k = Some v"
  by (induction xs arbitrary: acc) (fastforce split: if_splits)+

lemma pending_resumed:
  assumes "map_of (pending_fences db) rid = Some i"
  shows "resumed_row i rid db"
  using map_of_fold_aset [OF assms [unfolded pending_fences_def]]
  by (auto simp: resumed_enforce_actions_def resumed_row_def)

definition fence_inv :: "pylib \<Rightarrow> nat \<Rightarrow> (string \<times> int) list \<Rightarrow> 'w agent \<Rightarrow> bool" where
  "fence_inv lib n0 pending s \<longleftrightarrow> agent_inv lib n0 s \<and> (\<forall>rid i. map_of pending rid = Some i \<longrightarrow> resumed_row i rid (ag_db s))"

lemma quiet_fence: "quiet s t \<Longrightarrow> fence_inv lib n0 pending s \<Longrightarrow> fence_inv lib n0 pending t"
  by (auto simp: fence_inv_def dest: quiet_inv) (auto simp: quiet_def quiet_db_def intro: resumed_row_mono)

definition keeps_fence :: "pylib \<Rightarrow> nat \<Rightarrow> (string \<times> int) list \<Rightarrow> 'w agent \<Rightarrow> 'w agent \<Rightarrow> bool" where
  "keeps_fence lib n0 pending s t \<longleftrightarrow> (fence_inv lib n0 pending s \<longrightarrow> fence_inv lib n0 pending t)"

interpretation fence_frame: state_frame "keeps_fence lib n0 pending" for lib n0 pending
  by unfold_locales (auto simp: keeps_fence_def)

lemma fence_quiet: "withinS quiet m \<Longrightarrow> withinS (keeps_fence lib n0 pending) m"
  by (erule withinS_mono) (auto simp: keeps_fence_def dest: quiet_fence)

lemma fence_new:
  assumes "build_reconciliation lib scope obs t = Inr request" and "fence_owner pending scope = Inr (Some i)" and "fence_inv lib n0 pending s"
  shows "fence_inv lib n0 pending (s\<lparr>ag_fences := ag_fences s @ [\<lparr>fr_request = request, fr_action = i, fr_db = ag_db s\<rparr>]\<rparr>)"
proof -
  from assms(2) obtain rid where rid: "dget scope ''owner_request_id'' = PStr rid" "map_of pending rid = Some i"
    by (auto simp: fence_owner_def split: py.splits)
  then have "map_of scope ''owner_request_id'' = Some (PStr rid)" by (auto simp: dget_def split: option.splits)
  with assms(1) have "dget request ''owner_request_id'' = PStr rid" by (auto simp: build_reconciliation_def dget_def)
  moreover have "resumed_row i rid (ag_db s)" using assms(3) rid by (simp add: fence_inv_def)
  ultimately have "fence_ok \<lparr>fr_request = request, fr_action = i, fr_db = ag_db s\<rparr>" by (auto simp: fence_ok_def resumed_row_def)
  with assms(3) show ?thesis by (simp add: fence_inv_def agent_inv_def sent_keys_def)
qed

lemma close_fence_frame:
  assumes "honest env" and "fence_owner pending scope = Inr (Some i)"
  shows "withinS (keeps_fence lib n0 pending) (close_fence lib env now obs i scope)"
proof -
  have snd: "withinS (keeps_fence lib n0 pending) (send_fence env i request)" if "build_reconciliation lib scope obs t = Inr request" for t request
    unfolding send_fence_def
    by (intro fence_frame.within_intros fence_quiet quiet_ask withinS_mod) (simp add: keeps_fence_def fence_new [OF that assms(2)])
  have rest: "withinS (keeps_fence lib n0 pending) (bindS (db_do env (kv_put k v (Some (now, ''executor_reconciliation'', pl)))) (\<lambda>_. ask l))" for k v pl l
    using assms(1) by (intro fence_quiet quiet_intros) (auto simp: ACTION_KINDS_def)
  show ?thesis unfolding close_fence_def Let_def
    by (rule fence_frame.within_bind [OF fence_quiet [OF quiet_ask]], rule fence_frame.within_lift_bind, rule fence_frame.within_bind)
      (rule snd rest, assumption?)+
qed

lemma close_fences_frame: "honest env \<Longrightarrow> withinS (keeps_fence lib n0 pending) (close_fences lib env now obs ep pending scopes)"
proof (induction scopes)
  case (Cons scope scopes)
  have "withinS (keeps_fence lib n0 pending) (case ep of None \<Rightarrow> retS None | Some e \<Rightarrow> bindS (ask (e_probe env e)) (\<lambda>n. retS (Some n)))"
    by (intro fence_quiet quiet_intros)
  moreover have "withinS (keeps_fence lib n0 pending) (db_do env (db_log now ''executor_reconciliation'' pl))" for pl
    using Cons.prems by (intro fence_quiet quiet_intros) (auto simp: ACTION_KINDS_def)
  ultimately show ?case unfolding close_fences.simps using Cons close_fence_frame [OF Cons.prems]
    by (intro fence_frame.within_lift_bind) (auto intro!: fence_frame.within_bind split: option.splits)
qed (simp add: fence_frame.within_basic)

lemma try_fences_frame: "honest env \<Longrightarrow> withinS (keeps_fence lib n0 pending) (try_fences lib cf env now obs pending)"
  unfolding try_fences_def
  by (intro fence_frame.within_intros close_fences_frame fence_quiet [OF withinS_mod] fence_quiet [OF quiet_attempt] quiet_ask)
    (auto intro: quiet_same)

lemma reconcile_inv:
  fixes env :: "'w env"
  assumes "honest env"
  shows "withinS (keeps_inv lib n0) (reconcile_executor lib cf env now obs)"
proof -
  let ?m = "bindS (db_read env pending_fences) (\<lambda>pending. if pending = [] then retS () else try_fences lib cf env now obs pending)"
  have "wpS ?m (\<lambda>_. agent_inv lib n0) (\<lambda>_. agent_inv lib n0) s" if inv: "agent_inv lib n0 s" for s
    unfolding wpS_bind
  proof (rule wpS_I)
    fix pending t
    assume r: "db_read env pending_fences s = (Inr pending, t)"
    have t: "agent_inv lib n0 t" using quiet_inv [OF within_result [OF quiet_read [OF assms] r] inv] .
    moreover have "pending = pending_fences (ag_db t)" using r by (auto simp: db_read_def bindS_eq_Inr act_eval)
    ultimately have "fence_inv lib n0 pending t" by (auto simp: fence_inv_def dest: pending_resumed)
    with withinS_wp [OF try_fences_frame [OF assms], of lib n0 pending t] t
    show "wpS (if pending = [] then retS () else try_fences lib cf env now obs pending) (\<lambda>_. agent_inv lib n0) (\<lambda>_. agent_inv lib n0) t"
      by (auto simp: wpS_ret keeps_fence_def fence_inv_def)
  next
    fix e t
    assume r: "db_read env pending_fences s = (Inl e, t)"
    show "agent_inv lib n0 t" using quiet_inv [OF within_result [OF quiet_read [OF assms] r] inv] .
  qed
  then have "withinS (keeps_inv lib n0) ?m" by (rule keeps_inv_wp)
  then show ?thesis unfolding reconcile_executor_def
    by (intro inv_frame.within_bind [OF inv_frame.within_basic(4)]) (simp add: inv_frame.within_basic)
qed

section \<open>The whole loop\<close>

text \<open>Every part of the loop keeps the invariant and moves the database by transactions of the store only.\<close>

definition secure :: "pylib \<Rightarrow> nat \<Rightarrow> 'w agent \<Rightarrow> 'w agent \<Rightarrow> bool" where
  "secure lib n0 s t \<longleftrightarrow> keeps_inv lib n0 s t \<and> db_step\<^sup>*\<^sup>* (ag_db s) (ag_db t)"

definition onward :: "'w agent \<Rightarrow> 'w agent \<Rightarrow> bool" where
  "onward s t \<longleftrightarrow> db_step\<^sup>*\<^sup>* (ag_db s) (ag_db t)"

interpretation onward_frame: state_frame onward
  by unfold_locales (auto simp: onward_def)

interpretation secure_frame: state_frame "secure lib n0" for lib n0
  by unfold_locales (auto simp: secure_def keeps_inv_def)

lemma onward_quiet: "withinS quiet m \<Longrightarrow> withinS onward m"
  by (erule withinS_mono) (simp add: onward_def quiet_def quiet_db_def)

lemma secure_quiet: "withinS quiet m \<Longrightarrow> withinS (secure lib n0) m"
  using inv_quiet [of m lib n0] onward_quiet [of m] by (auto simp: withinS_def secure_def onward_def)

lemma secure_I: "withinS (keeps_inv lib n0) m \<Longrightarrow> withinS onward m \<Longrightarrow> withinS (secure lib n0) m"
  by (simp add: withinS_def secure_def onward_def)

lemma onward_same: "ag_db t = ag_db s \<Longrightarrow> onward s t"
  by (simp add: onward_def)

lemma onward_reserve:
  assumes h: "honest env"
  shows "withinS onward (db_write env (reserve_action now v))"
proof -
  have "withinS onward (db_apply (reserve_action now v))"
    using st_reserve by (auto simp: withinS_def db_apply_def onward_def split: prod.splits) (metis r_into_rtranclp snd_conv)
  then have "withinS onward (case tx of Committed \<Rightarrow> db_apply (reserve_action now v) | Refused e \<Rightarrow> raiseS e
      | CommittedThen e \<Rightarrow> bindS (db_apply (reserve_action now v)) (\<lambda>_. raiseS e))" for tx
    by (cases tx) (auto intro!: onward_frame.within_intros)
  then show ?thesis unfolding db_write_def
    by (intro onward_frame.within_bind onward_quiet [OF quiet_sync [OF h]] onward_quiet [OF quiet_ask])
qed

lemma onward_send: "withinS onward (send_restart env p obs streak net request)" "withinS onward (send_fence env i request)"
  unfolding send_restart_def send_fence_def
  by (intro onward_frame.within_intros onward_quiet [OF quiet_ask] withinS_mod onward_same; simp)+

lemma onward_act:
  assumes h: "honest env"
  shows "withinS onward (agent_act lib ed cf env d p obs streak net checked_at)"
  unfolding agent_act_def act_reserved_def fire_def Let_def
  by (intro onward_frame.within_intros onward_reserve onward_send onward_quiet [OF quiet_guard] onward_quiet [OF quiet_ask]
      onward_quiet [OF quiet_do] quiet_ops h)

lemma onward_fences: "honest env \<Longrightarrow> withinS onward (close_fences lib env now obs ep pending scopes)"
proof (induction scopes)
  case (Cons scope scopes)
  then show ?case unfolding close_fences.simps close_fence_def Let_def
    by (intro onward_frame.within_intros onward_send onward_quiet [OF quiet_ask] onward_quiet [OF quiet_do] quiet_ops Cons.IH)
      (simp_all add: ACTION_KINDS_def)
qed (simp add: onward_frame.within_basic)

lemma onward_reconcile: "honest env \<Longrightarrow> withinS onward (reconcile_executor lib cf env now obs)"
  unfolding reconcile_executor_def try_fences_def
  by (intro onward_frame.within_intros onward_fences onward_quiet [OF quiet_ask] onward_quiet [OF quiet_attempt [OF quiet_ask]]
      onward_quiet [OF quiet_read] withinS_mod onward_same) simp_all

lemmas secure_intros = secure_frame.within_intros secure_quiet [OF quiet_ask] secure_quiet [OF quiet_read] secure_quiet [OF quiet_policy]
  secure_quiet [OF quiet_read_obs] quiet_mods [THEN secure_quiet] secure_quiet [OF quiet_record] secure_quiet [OF quiet_finish]
  secure_quiet [OF quiet_verify] secure_quiet [OF quiet_release] secure_quiet [OF quiet_boot] secure_quiet [OF quiet_do]
  secure_I [OF agent_act_inv onward_act] secure_I [OF reconcile_inv onward_reconcile]

lemma step_secure: "honest env \<Longrightarrow> withinS (secure lib n0) (agent_step lib ed cf env)"
  unfolding agent_step_def decide_cycle_def Let_def by (intro secure_intros)

lemma loop_secure: "honest env \<Longrightarrow> withinS (secure lib n0) (agent_loop n lib ed cf env)"
proof (induction n)
  case (Suc n)
  then show ?case unfolding agent_loop.simps by (intro secure_intros step_secure Suc.IH)
qed (simp add: secure_frame.within_basic)

lemma run_secure: "honest (lf_env lf) \<Longrightarrow> withinS (secure lib n0) (agent_run lib ed lf)"
  unfolding agent_run_def Let_def by (intro secure_intros loop_secure quiet_ops) (simp_all add: ACTION_KINDS_def)

lemma lives_secure: "\<forall>lf \<in> set lfs. honest (lf_env lf) \<Longrightarrow> secure lib n0 s (lives lib ed s lfs)"
proof (induction lfs arbitrary: s)
  case (Cons lf lfs)
  have "secure lib n0 s (snd (agent_run lib ed lf s))" using run_secure [of lf lib n0 ed] Cons.prems by (simp add: withinS_def)
  with Cons show ?case by (auto simp: lives_def intro: secure_frame.R_trans)
qed (simp add: lives_def secure_frame.R_refl)

lemma lives_inv:
  assumes "\<forall>lf \<in> set lfs. honest (lf_env lf)" and "budgeted n0 (db_actions db)"
  shows "agent_inv lib n0 (lives lib ed (agent_fresh db w) lfs)"
  using lives_secure [OF assms(1), of lib n0 "agent_fresh db w" ed] assms(2)
  by (auto simp: secure_def keeps_inv_def agent_inv_def agent_fresh_def sent_keys_def)

lemma budgeted_start: "budgeted (length rows) rows"
  by (simp add: budgeted_def)

section \<open>Rates\<close>

lemma wf_limits: "wf_policy p \<Longrightarrow> p_max_per_hour p \<le> 60 \<and> p_max_per_day p \<le> 500 \<and> 10 \<le> p_cooldown_sec p"
  by (simp add: wf_policy_def INT_FIELDS_def int_values_def)

lemma ts_ms_dvd: "1000 dvd ts_ms t"
  by (simp add: ts_ms_def minus_mod_eq_mult_div)

lemma ts_ms_shift: "ts_ms (t - HOUR) = ts_ms t - HOUR" "ts_ms (t - DAY) = ts_ms t - DAY"
proof -
  have "ts_ms (t + 1000 * k) = ts_ms t + 1000 * k" for k by (simp add: ts_ms_def)
  from this [of "-3600000"] this [of "-86400000"] show "ts_ms (t - HOUR) = ts_ms t - HOUR" "ts_ms (t - DAY) = ts_ms t - DAY"
    by (simp_all add: HOUR_def DAY_def)
qed

lemma ts_ms_ge:
  assumes "1000 dvd a" and "a \<le> t"
  shows "a \<le> ts_ms t"
proof -
  from assms(1) obtain b where b: "a = 1000 * b" by (rule dvdE)
  have "(1000 * b) div 1000 \<le> t div 1000" using assms(2) b by (intro zdiv_mono1) auto
  then show ?thesis using b by (simp add: ts_ms_def minus_mod_eq_mult_div)
qed

lemma within_budgetD:
  assumes "within_budget (map core rows) (core r)"
  obtains now p where "ac_created_at r = ts_ms now" "wf_policy p" "ac_policy_version r = p_version p" "ac_mode r = mode_of p"
    "\<not> cooling now (rows_history rows now (ac_generation_key r) (ac_mode r)) p"
    "int (count_since rows (ac_mode r) (now - HOUR)) < p_max_per_hour p" "int (count_since rows (ac_mode r) (now - DAY)) < p_max_per_day p"
proof -
  obtain now p where "ac_created_at r = ts_ms now" "wf_policy p" "ac_policy_version r = p_version p" "ac_mode r = mode_of p"
    and h: "\<not> cooling now (rows_history rows now (ac_generation_key r) (ac_mode r)) p"
    "int (h_actions_last_hour (rows_history rows now (ac_generation_key r) (ac_mode r))) < p_max_per_hour p"
    "int (h_actions_last_day (rows_history rows now (ac_generation_key r) (ac_mode r))) < p_max_per_day p"
    using assms unfolding within_budget_def rows_history_core core_def [of r] prod.case Let_def by blast
  with that show ?thesis by (simp add: rows_history_def Let_def)
qed

lemma spacing:
  assumes "within_budget (map core rows) (core r)" and "q \<in> set rows" and "ac_mode q = ac_mode r" and "1000 dvd ac_created_at q"
  shows "ac_created_at q + 10000000 \<le> ac_created_at r"
proof -
  from assms(1) obtain now p where n: "ac_created_at r = ts_ms now" "wf_policy p"
    "\<not> cooling now (rows_history rows now (ac_generation_key r) (ac_mode r)) p" by (rule within_budgetD)
  let ?created = "map ac_created_at (filter (\<lambda>x. ac_mode x = ac_mode r) rows)"
  have ne: "?created \<noteq> []" and mem: "ac_created_at q \<in> set ?created" using assms(2,3) by (auto simp: filter_empty_conv)
  from n(3) ne have "of_int (p_cooldown_sec p) \<le> total_seconds (now - Max (set ?created))"
    by (simp add: cooling_def rows_history_def Let_def)
  moreover have "(10 :: rat) \<le> of_int (p_cooldown_sec p)" using wf_limits [OF n(2)] by simp
  ultimately have "10 \<le> total_seconds (now - Max (set ?created))" by linarith
  then have "10000000 \<le> now - Max (set ?created)" by (simp add: total_seconds_def)
  moreover have "ac_created_at q \<le> Max (set ?created)" using mem by (intro Max_ge) auto
  ultimately have "ac_created_at q + 10000000 \<le> now" by linarith
  moreover have "1000 dvd ac_created_at q + 10000000" using assms(4) by (intro dvd_add) auto
  ultimately show ?thesis using ts_ms_ge n(1) by simp
qed

definition in_window :: "string \<Rightarrow> instant \<Rightarrow> int \<Rightarrow> action_row \<Rightarrow> bool" where
  "in_window mode t width r \<longleftrightarrow> ac_mode r = mode \<and> t \<le> ac_created_at r \<and> ac_created_at r < t + width"

lemma window_count:
  assumes "ac_created_at r = ts_ms now" and "in_window mode t width r" and "ts_ms (now - width) = ts_ms now - width"
  shows "length (filter (in_window mode t width) rows) \<le> count_since rows (ac_mode r) (now - width)"
proof -
  have "filter (in_window mode t width) rows = filter (in_window mode t width) (filter (\<lambda>x. ac_mode x = ac_mode r \<and> ts_ms (now - width) \<le> ac_created_at x) rows)"
    using assms by (auto simp: in_window_def intro!: filter_cong)
  then show ?thesis unfolding count_since_def by (metis length_filter_le)
qed

lemma budgeted_snocD: "budgeted 0 (rows @ [r]) \<Longrightarrow> budgeted 0 rows \<and> within_budget (map core rows) (core r)"
  by (auto simp: budgeted_def nth_append less_Suc_eq)

lemma rates:
  assumes "budgeted 0 rows"
  shows "length (filter (in_window mode t HOUR) rows) \<le> 60 \<and> length (filter (in_window mode t DAY) rows) \<le> 500"
  using assms
proof (induction rows rule: rev_induct)
  case (snoc r rows)
  then have b: "budgeted 0 rows" "within_budget (map core rows) (core r)"
    using budgeted_snocD [of rows r] by blast+
  from b(2) obtain now p where n: "ac_created_at r = ts_ms now" "wf_policy p"
    "int (count_since rows (ac_mode r) (now - HOUR)) < p_max_per_hour p" "int (count_since rows (ac_mode r) (now - DAY)) < p_max_per_day p"
    by (rule within_budgetD)
  have "length (filter (in_window mode t HOUR) rows) < 60" if "in_window mode t HOUR r"
    using window_count [OF n(1) that ts_ms_shift(1), of rows] n(3) wf_limits [OF n(2)] by linarith
  moreover have "length (filter (in_window mode t DAY) rows) < 500" if "in_window mode t DAY r"
    using window_count [OF n(1) that ts_ms_shift(2), of rows] n(4) wf_limits [OF n(2)] by linarith
  ultimately show ?case using snoc.IH [OF b(1)] by auto
qed simp

section \<open>Properties\<close>

text \<open>C1: At most one restart request leaves per FFmpeg generation. Take any history of the host: any number of agent processes one
  after the other on one database, with any configuration, each failing, being refused by the database or being killed at any
  call, while the synchronisation thread writes to the same database. The generations of all requests handed to the sender
  during the whole history are pairwise different, and each was reserved in the database when its request left.\<close>

theorem one_request_per_generation:
  assumes "\<forall>lf \<in> set lfs. honest (lf_env lf)"
  shows "distinct (map (\<lambda>x. generation_key (sn_obs x)) (ag_sent (lives lib ed (agent_fresh db w) lfs))) \<and>
    (\<forall>x \<in> set (ag_sent (lives lib ed (agent_fresh db w) lfs)). reserved_row lib (generation_key (sn_obs x)) (sn_db x))"
  using lives_inv [OF assms budgeted_start, where lib = lib and ed = ed and db = db and w = w]
  by (auto simp: agent_inv_def sent_keys_def list_all_iff sent_ok_def)

text \<open>An example host: the executor is down, the transport stalls, the clock advances with every cancellation check.\<close>

definition ex_alib :: pylib where
  "ex_alib = ex_lib\<lparr>l_utc := (\<lambda>s. Inr (int (length s) * 1000000))\<rparr>"

definition ex_policy :: policy where
  "ex_policy = BUILTIN\<lparr>p_version := 7, p_mode := ''enforce'', p_stall_confirm_samples := 2, p_stall_grace_sec := 0\<rparr>"

definition ex_start_db :: agent_db where
  "ex_start_db = db_empty\<lparr>db_kv := [(POLICY_KEY, PDict [(''policy'', to_dict ex_policy), (''signature'', PStr ''k'')])]\<rparr>"

definition ex_cf :: agent_config where
  "ex_cf = \<lparr>cf_agent_id = ''dell'', cf_producer_id = ''cra'', cf_producer_generation = 1, cf_ingest_host = ''h'', cf_ingest_port = 1935,
     cf_public_hosts = [], cf_interval = 2, cf_max_age = 3, cf_policy_key = Some ''k'',
     cf_ingest_endpoints = [(''PRIMARY'', \<lparr>ep_host = ''h'', ep_port = 1935\<rparr>)], cf_write_status = False\<rparr>"

definition ex_doc :: "nat \<Rightarrow> py" where
  "ex_doc k = PDict [(''schema_version'', PStr OBSERVATION_SCHEMA), (''observed_at'', PStr (replicate k CHR ''s'')), (''observation_id'', PStr ''o''),
     (''sequence'', PInt (int k)), (''executor_instance_id'', PStr ''x1''), (''pod_uid'', PStr ''pod''), (''ffmpeg_generation'', PStr ''g1''),
     (''ffmpeg_running'', PBool True), (''ffmpeg_uptime_sec'', PInt 900), (''active_producer_id'', PStr ''cra''),
     (''active_producer_generation'', PInt 1), (''target_snapshot_status'', PStr ''VALID''), (''target_identity'', PDict []),
     (''delivery_route'', PStr ''PRIMARY''), (''delivery_route_generation'', PInt 1),
     (''tcp_metrics'', PDict [(''bytes_sent'', PInt 5), (''notsent'', PInt 90000), (''unacked'', PInt 90), (''lastsnd_ms'', PInt 5000)])]"

definition ex_env :: "nat env" where
  "ex_env = \<lparr>e_clock = (\<lambda>k. (Inr (int k * 1000000), k)), e_observation = (\<lambda>k. (Inr (ex_doc k), k)), e_stop_file = retS False,
     e_cancelled = (\<lambda>k. (Inr False, Suc k)), e_probe = (\<lambda>_. retS \<lparr>n_gateway_ok = True, n_public_ok_count = 2, n_ingest_ok = True, n_timed_out = False\<rparr>),
     e_send = (\<lambda>_. raiseS OSError), e_read_status = (\<lambda>_. raiseS OSError), e_unresolved = retS [], e_peer = retS, e_tx = retS Committed,
     e_sync_status = retS [], e_release = retS ''r1'', e_write_status = (\<lambda>_. retS ()), e_log = (\<lambda>_. retS ()), e_str = (\<lambda>_. ''down'')\<rparr>"

definition ex_life :: "nat \<Rightarrow> nat life" where
  "ex_life n = \<lparr>lf_config = ex_cf, lf_env = ex_env, lf_uuid = ''u'', lf_pid = 1, lf_cycles = n\<rparr>"

lemma ex_honest: "\<forall>lf \<in> set [ex_life 4, ex_life 9]. honest (lf_env lf)"
  by (simp add: ex_life_def ex_env_def honest_def act_eval)

theorem one_request_per_generation_witness:
  "distinct (map (\<lambda>x. generation_key (sn_obs x)) (ag_sent (lives ex_alib toy_ed (agent_fresh ex_start_db 0) [ex_life 4, ex_life 9])))"
  using one_request_per_generation [OF ex_honest] by blast





text \<open>The agent only ever moves its database by the store's transactions (refinement of the store's step relation), so its
  journal is complete: after any history from an empty database the tables are well formed and replaying the audit log gives
  exactly the table of actions.\<close>

theorem agent_journal_complete:
  assumes "\<forall>lf \<in> set lfs. honest (lf_env lf)" and "db' = ag_db (lives lib ed (agent_fresh db_empty w) lfs)"
  shows "db_step\<^sup>*\<^sup>* db_empty db' \<and> wf_db db' \<and> replay (db_audit db') = map view (db_actions db')"
proof -
  have "db_step\<^sup>*\<^sup>* db_empty db'"
    using lives_secure [OF assms(1), of lib 0 "agent_fresh db_empty w" ed] assms(2) by (simp add: secure_def agent_fresh_def)
  with wf_reachable [OF this] replayed_reachable [OF this] show ?thesis by (simp add: replayed_def)
qed

theorem agent_journal_complete_witness:
  "wf_db (ag_db (lives ex_alib toy_ed (agent_fresh db_empty 0) [ex_life 4, ex_life 9]))"
  using agent_journal_complete [OF ex_honest refl] by blast



end
