(* ===== verification/Cra_Verify.thy ===== *)
theory Cra_Verify
  imports Cra_Central Cra_Effect "HOL-Library.Multiset"
begin

text \<open>
  \<open>recovery-control/src/cra/central/verify.py\<close>: the check of the collected audit logs against the invariants of the
  agent. A record is a row of the central store with its payload decoded; \<open>policies\<close> are the published policies by
  version. A \<open>Counter\<close> or dictionary keyed by decoded JSON is a list searched with Python's equality; a key that
  cannot be hashed raises. The expected agents are a list in the order the set is iterated.
\<close>

section \<open>Reports\<close>

definition SILENT_AFTER :: int where "SILENT_AFTER = 1500000000"
definition RESULT_GRACE :: int where "RESULT_GRACE = 300000000"

record violation =
  vi_code :: string
  vi_agent :: "string option"
  vi_seq :: "int option"
  vi_ts :: string
  vi_detail :: py

definition violation_at :: "string \<Rightarrow> central_row \<Rightarrow> py \<Rightarrow> violation" where
  "violation_at code r detail =
     \<lparr>vi_code = code, vi_agent = Some (cr_agent r), vi_seq = Some (cr_seq r), vi_ts = cr_ts r, vi_detail = detail\<rparr>"

fun foldE :: "('a \<Rightarrow> 'b \<Rightarrow> 'b res) \<Rightarrow> 'a list \<Rightarrow> 'b \<Rightarrow> 'b res" where
  "foldE f [] s = Inr s"
| "foldE f (x # xs) s = bindE (f x s) (foldE f xs)"

section \<open>Keys\<close>

definition hashable :: "py \<Rightarrow> bool" where
  "hashable v = (case v of PList _ \<Rightarrow> False | PDict _ \<Rightarrow> False | _ \<Rightarrow> True)"

definition keyE :: "py \<Rightarrow> unit res" where
  "keyE v = requireE (hashable v) TypeError"

fun kget :: "(py \<times> 'a) list \<Rightarrow> py \<Rightarrow> 'a option" where
  "kget [] k = None"
| "kget ((k', v) # xs) k = (if py_eq k' k then Some v else kget xs k)"

fun kset :: "py \<Rightarrow> 'a \<Rightarrow> (py \<times> 'a) list \<Rightarrow> (py \<times> 'a) list" where
  "kset k v [] = [(k, v)]"
| "kset k v ((k', v') # xs) = (if py_eq k' k then (k', v) # xs else (k', v') # kset k v xs)"

definition bump :: "py \<Rightarrow> (py \<times> nat) list \<Rightarrow> (py \<times> nat) list" where
  "bump k xs = kset k ((case kget xs k of None \<Rightarrow> 0 | Some n \<Rightarrow> n) + 1) xs"

fun counterE :: "py list \<Rightarrow> (py \<times> nat) list \<Rightarrow> (py \<times> nat) list res" where
  "counterE [] xs = Inr xs"
| "counterE (k # ks) xs = bindE (keyE k) (\<lambda>_. counterE ks (bump k xs))"

type_synonym policies = "(int \<times> (string \<times> py) list) list"

fun policy_get :: "policies \<Rightarrow> py \<Rightarrow> (string \<times> py) list option" where
  "policy_get [] v = None"
| "policy_get ((k, p) # ps) v = (if py_eq (PInt k) v then Some p else policy_get ps v)"

section \<open>One stream\<close>

record stream_state =
  ss_reserved :: "(py \<times> central_row) list"
  ss_results :: "(py \<times> py) list"
  ss_verified :: "(py \<times> nat) list"
  ss_decisions :: "(py \<times> nat) list"
  ss_seen :: "(string \<times> instant) list"
  ss_viol :: "violation list"

definition is_eq :: "py res \<Rightarrow> py \<Rightarrow> bool res" where
  "is_eq r v = bindE r (\<lambda>x. Inr (py_eq x v))"

text \<open>The label of earlier releases.\<close>

definition recovered_valid :: "pylib \<Rightarrow> py \<Rightarrow> py \<Rightarrow> py \<Rightarrow> bool res" where
  "recovered_valid lib payload result response =
     allE [is_eq (py_get result ''state'') (PStr ''EFFECT_OBSERVED''),
       bindE (py_get payload ''observed_generation_key'') (\<lambda>g. bindE (py_get payload ''executor_instance_id'') (\<lambda>x.
       bindE (py_get payload ''observed_at'') (\<lambda>t. bindE (py_get payload ''uptime_sec'') (\<lambda>u.
       after_request lib (PDict [(''generation_key'', g), (''executor_instance_id'', x), (''observed_at'', t), (''uptime_sec'', u)]) response))))]"

definition resumed_valid :: "pylib \<Rightarrow> policies \<Rightarrow> py \<Rightarrow> py \<Rightarrow> py \<Rightarrow> py \<Rightarrow> py \<Rightarrow> bool res" where
  "resumed_valid lib policies payload outcome action result response =
     bindE (py_get action ''policy_version'') (\<lambda>version. bindE (keyE version) (\<lambda>_.
     let rp = (case policy_get policies version of None \<Rightarrow> [] | Some p \<Rightarrow> p) in
     bindE (py_get payload ''progress_from'') (\<lambda>pf. bindE (py_get payload ''sample'') (\<lambda>sm.
     let first = py_or pf (PDict []); second = py_or sm (PDict []);
         expected = PStr (if outcome = PStr ''DELIVERY_RESUMED'' then ''EFFECT_OBSERVED'' else ''OUTCOME_UNKNOWN'');
         same = (\<lambda>k. bindE (py_get second k) (\<lambda>x. bindE (py_get response (''agent_'' @ k)) (\<lambda>y. Inr (py_eq x y)))) in
     allE [is_eq (py_get action ''mode'') (PStr ''enforce''), is_eq (py_get result ''state'') expected,
       is_eq (py_get payload ''execution_state'') expected,
       bindE (py_get action ''generation_key'') (\<lambda>g. bindE (py_get response ''agent_pod_uid'') (\<lambda>a.
         bindE (py_get response ''agent_previous_generation'') (\<lambda>b.
         Inr (py_eq g (PStr (py_str (l_repr lib) a @ ''/'' @ py_str (l_repr lib) b)))))),
       after_request lib first response, after_request lib second response,
       same ''delivery_route'', same ''delivery_route_generation'',
       is_eq (py_get response ''agent_verify_window_sec'') (dget rp ''verify_window_sec''),
       is_eq (py_get response ''agent_stall_lastsnd_ms'') (dget rp ''stall_lastsnd_ms''),
       bindE (py_get_dflt response ''agent_max_sample_gap_sec'' (PInt 5)) (\<lambda>gap.
         sending_progress lib first second gap
           (case map_of rp ''stall_lastsnd_ms'' of None \<Rightarrow> PInt (p_stall_lastsnd_ms BUILTIN) | Some v \<Rightarrow> v))]))))"

definition claims_recovery :: "py \<Rightarrow> bool" where
  "claims_recovery v \<longleftrightarrow> v \<in> {PStr ''DELIVERY_RESUMED'', PStr ''DELIVERY_RESUMED_EXECUTION_UNKNOWN'', PStr ''RECOVERED''}"

definition recovery_valid :: "pylib \<Rightarrow> policies \<Rightarrow> stream_state \<Rightarrow> py \<Rightarrow> bool res" where
  "recovery_valid lib policies st payload =
     bindE (py_getitem payload ''action_id'') (\<lambda>i. bindE (keyE i) (\<lambda>_.
     let action = (case kget (ss_reserved st) i of None \<Rightarrow> PDict [] | Some r \<Rightarrow> cr_payload r);
         result = (case kget (ss_results st) i of None \<Rightarrow> PDict [] | Some p \<Rightarrow> p) in
     bindE (py_get_dflt result ''response'' (PDict [])) (\<lambda>response. bindE (py_getitem payload ''result'') (\<lambda>outcome.
     if outcome = PStr ''RECOVERED'' then recovered_valid lib payload result response
     else resumed_valid lib policies payload outcome action result response))))"

definition note_seen :: "string \<Rightarrow> instant \<Rightarrow> stream_state \<Rightarrow> stream_state" where
  "note_seen agent at0 st = st\<lparr>ss_seen := aset agent (max (case map_of (ss_seen st) agent of None \<Rightarrow> at0 | Some t \<Rightarrow> t) at0) (ss_seen st)\<rparr>"

definition stream_record :: "pylib \<Rightarrow> policies \<Rightarrow> string \<Rightarrow> central_row \<Rightarrow> stream_state \<Rightarrow> stream_state res" where
  "stream_record lib policies agent r st0 =
     bindE (l_utc lib (cr_ts r)) (\<lambda>at0.
     let st = note_seen agent at0 st0; payload = cr_payload r; kind = cr_kind r in
     if kind = ''decision'' then
       bindE (py_get payload ''outcome'') (\<lambda>a. bindE (py_get payload ''reason'') (\<lambda>b.
       Inr (st\<lparr>ss_decisions := bump (PStr (py_str (l_repr lib) a @ '':'' @ py_str (l_repr lib) b)) (ss_decisions st)\<rparr>)))
     else if kind = ''action_reserved'' then
       bindE (py_getitem payload ''action_id'') (\<lambda>i. bindE (keyE i) (\<lambda>_. Inr (st\<lparr>ss_reserved := kset i r (ss_reserved st)\<rparr>)))
     else if kind \<in> {''action_result'', ''action_reconciled''} then
       bindE (py_getitem payload ''action_id'') (\<lambda>i. bindE (keyE i) (\<lambda>_. Inr (st\<lparr>ss_results := kset i payload (ss_results st)\<rparr>)))
     else if kind = ''action_verified'' then
       bindE (py_get_dflt payload ''result'' (PStr [])) (\<lambda>v. bindE (keyE v) (\<lambda>_.
       let st1 = st\<lparr>ss_verified := bump v (ss_verified st)\<rparr> in
       bindE (py_get payload ''result'') (\<lambda>w.
       if \<not> claims_recovery w then Inr st1
       else bindE (recovery_valid lib policies st1 payload) (\<lambda>valid.
         Inr (if valid then st1 else st1\<lparr>ss_viol := ss_viol st1 @ [violation_at ''RECOVERY_EVIDENCE_INVALID'' r (PStr [])]\<rparr>)))))
     else Inr st)"

definition check_result :: "pylib \<Rightarrow> instant \<Rightarrow> (py \<times> py) list \<Rightarrow> py \<times> central_row \<Rightarrow> violation list \<Rightarrow> violation list res" where
  "check_result lib now results ir vs = (case ir of (i, r) \<Rightarrow>
     if kget results i \<noteq> None then Inr vs
     else bindE (l_utc lib (cr_ts r)) (\<lambda>at0. Inr (if now - at0 > RESULT_GRACE
       then vs @ [violation_at ''I2_ACTION_WITHOUT_RESULT'' r (PStr (''action '' @ py_str (l_repr lib) i))] else vs)))"

record stream_summary =
  sm_records :: nat
  sm_decisions :: "(py \<times> nat) list"
  sm_modes :: "(py \<times> nat) list"
  sm_states :: "(py \<times> nat) list"
  sm_verified :: "(py \<times> nat) list"

definition stream_check ::
    "pylib \<Rightarrow> policies \<Rightarrow> instant \<Rightarrow> (string \<times> string) \<times> central_row list \<Rightarrow>
       (string \<times> instant) list \<times> violation list \<times> (string \<times> stream_summary) list \<Rightarrow>
       ((string \<times> instant) list \<times> violation list \<times> (string \<times> stream_summary) list) res" where
  "stream_check lib policies now grp acc = (case (grp, acc) of (((agent, inst), rs), (seen, vs, smry)) \<Rightarrow>
     bindE (foldE (stream_record lib policies agent) rs
       \<lparr>ss_reserved = [], ss_results = [], ss_verified = [], ss_decisions = [], ss_seen = seen, ss_viol = vs\<rparr>) (\<lambda>st.
     bindE (foldE (check_result lib now (ss_results st)) (ss_reserved st) (ss_viol st)) (\<lambda>vs'.
     bindE (bindE (mapE (\<lambda>(_, r). py_get (cr_payload r) ''mode'') (ss_reserved st)) (\<lambda>ks. counterE ks [])) (\<lambda>modes.
     bindE (bindE (mapE (\<lambda>(_, p). py_get p ''state'') (ss_results st)) (\<lambda>ks. counterE ks [])) (\<lambda>states.
     Inr (ss_seen st, vs', aset (agent @ ''/'' @ inst)
       \<lparr>sm_records = length rs, sm_decisions = ss_decisions st, sm_modes = modes, sm_states = states, sm_verified = ss_verified st\<rparr> smry))))))"

section \<open>Limits per agent and mode\<close>

text \<open>\<open>ls_generations\<close> holds one entry per count; \<open>ls_times\<close> the reservations seen so far.\<close>

record limit_state =
  ls_generations :: "(string \<times> py \<times> py) list"
  ls_times :: "(string \<times> py \<times> instant) list"
  ls_viol :: "violation list"

definition same_generation :: "string \<times> py \<times> py \<Rightarrow> string \<times> py \<times> py \<Rightarrow> bool" where
  "same_generation a b = (case (a, b) of ((x, m, g), (y, n, h)) \<Rightarrow> x = y \<and> py_eq m n \<and> py_eq g h)"

definition times_of :: "string \<Rightarrow> py \<Rightarrow> limit_state \<Rightarrow> instant list" where
  "times_of agent mode st = map (\<lambda>(_, _, t). t) (filter (\<lambda>(a, m, _). a = agent \<and> py_eq m mode) (ls_times st))"

definition policy_for :: "policies \<Rightarrow> py \<Rightarrow> (string \<times> py) list option" where
  "policy_for policies version = (case policy_get policies version of
     Some p \<Rightarrow> Some p
   | None \<Rightarrow> if py_eq version (PInt (p_version BUILTIN)) then (case to_dict BUILTIN of PDict d \<Rightarrow> Some d | _ \<Rightarrow> None) else None)"

definition flag :: "bool \<Rightarrow> string \<Rightarrow> central_row \<Rightarrow> py \<Rightarrow> violation list" where
  "flag c code r detail = (if c then [violation_at code r detail] else [])"

definition network_bad :: "py \<Rightarrow> bool res" where
  "network_bad network =
     bindE (py_get network ''network_down'') (\<lambda>a. bindE (py_get network ''ingest_ok'') (\<lambda>b. bindE (py_get network ''timed_out'') (\<lambda>c.
     Inr (a \<noteq> PBool False \<or> b \<noteq> PBool True \<or> c = PBool True))))"

definition too_soon :: "(string \<times> py) list \<Rightarrow> instant \<Rightarrow> instant list \<Rightarrow> bool res" where
  "too_soon p at0 previous = (if previous = [] then Inr False
     else bindE (py_getitem (PDict p) ''cooldown_sec'') (\<lambda>c. py_lt (sec (total_seconds (at0 - last previous))) c))"

definition recent :: "int \<Rightarrow> instant \<Rightarrow> instant list \<Rightarrow> py" where
  "recent width at0 previous = PInt (int (length (filter (\<lambda>t. at0 - t \<le> width) previous)))"

definition over_limit :: "(string \<times> py) list \<Rightarrow> instant \<Rightarrow> instant list \<Rightarrow> bool res" where
  "over_limit p at0 previous =
     bindE (bindE (py_getitem (PDict p) ''max_per_hour'') (\<lambda>n. py_le n (recent HOUR at0 previous))) (\<lambda>hour.
     if hour then Inr True else bindE (py_getitem (PDict p) ''max_per_day'') (\<lambda>n. py_le n (recent DAY at0 previous)))"

definition budget_flags :: "(string \<times> py) list option \<Rightarrow> central_row \<Rightarrow> instant \<Rightarrow> instant list \<Rightarrow> violation list res" where
  "budget_flags policy r at0 previous = (case policy of None \<Rightarrow> Inr [] | Some p \<Rightarrow>
     bindE (too_soon p at0 previous) (\<lambda>a. bindE (over_limit p at0 previous) (\<lambda>b.
     Inr (flag a ''I6_COOLDOWN'' r (PStr []) @ flag b ''I6_LIMIT'' r (PStr [])))))"

definition policy_flags :: "pylib \<Rightarrow> (string \<times> py) list option \<Rightarrow> py \<Rightarrow> py \<Rightarrow> central_row \<Rightarrow> violation list" where
  "policy_flags lib policy mode version r = (case policy of
     None \<Rightarrow> [violation_at ''I8_UNKNOWN_POLICY_VERSION'' r (PStr (py_str (l_repr lib) version))]
   | Some p \<Rightarrow> flag (py_eq mode (PStr ''enforce'') \<and> \<not> py_eq (dget p ''mode'') (PStr ''enforce''))
       ''I7_ENFORCE_WITHOUT_ENFORCE_POLICY'' r
       (PStr (''policy '' @ py_str (l_repr lib) version @ '' mode='' @ py_str (l_repr lib) (dget p ''mode''))))"

definition limit_record :: "pylib \<Rightarrow> policies \<Rightarrow> central_row \<Rightarrow> limit_state \<Rightarrow> limit_state res" where
  "limit_record lib policies r st =
     (if cr_kind r \<noteq> ''action_reserved'' then Inr st
      else (let payload = cr_payload r; agent = cr_agent r in
        bindE (py_get_dflt payload ''mode'' (PStr [])) (\<lambda>mode.
        bindE (py_get_dflt payload ''generation_key'' (PStr [])) (\<lambda>gk. bindE (keyE mode) (\<lambda>_. bindE (keyE gk) (\<lambda>_.
        let dup = flag (list_ex (same_generation (agent, mode, gk)) (ls_generations st)) ''I1_DUPLICATE_GENERATION_ACTION'' r gk in
        bindE (py_get payload ''policy_version'') (\<lambda>version. bindE (keyE version) (\<lambda>_.
        let policy = policy_for policies version in
        bindE (py_get payload ''evidence'') (\<lambda>ev. bindE (py_get (py_or ev (PDict [])) ''network'') (\<lambda>nw.
        let network = py_or nw (PDict []) in
        bindE (network_bad network) (\<lambda>bad.
        bindE (l_utc lib (cr_ts r)) (\<lambda>at0.
        bindE (budget_flags policy r at0 (times_of agent mode st)) (\<lambda>bf.
        Inr (st\<lparr>ls_generations := ls_generations st @ [(agent, mode, gk)], ls_times := ls_times st @ [(agent, mode, at0)],
          ls_viol := ls_viol st @ dup @ policy_flags lib policy mode version r @ flag bad ''I4_ACTION_WITHOUT_LOCALIZED_STALL'' r (PStr (py_str (l_repr lib) network)) @ bf\<rparr>))))))))))))))"

section \<open>The check\<close>

record report =
  rp_violations :: "violation list"
  rp_summary :: "(string \<times> stream_summary) list"

definition group_streams :: "central_row list \<Rightarrow> ((string \<times> string) \<times> central_row list) list" where
  "group_streams rs = fold (\<lambda>r gs. aset (cr_agent r, cr_instance r)
     ((case map_of gs (cr_agent r, cr_instance r) of None \<Rightarrow> [] | Some xs \<Rightarrow> xs) @ [r]) gs) rs []"

definition plain_violation :: "string \<Rightarrow> string option \<Rightarrow> string \<Rightarrow> string \<Rightarrow> violation" where
  "plain_violation code agent ts detail = \<lparr>vi_code = code, vi_agent = agent, vi_seq = None, vi_ts = ts, vi_detail = PStr detail\<rparr>"

text \<open>The time of a record; every stamp was parsed in its stream before.\<close>

definition time_of :: "pylib \<Rightarrow> central_row \<Rightarrow> instant" where
  "time_of lib r = (case l_utc lib (cr_ts r) of Inr t \<Rightarrow> t | Inl _ \<Rightarrow> 0)"

definition verify_audit :: "pylib \<Rightarrow> central_row list \<Rightarrow> policies \<Rightarrow> instant \<Rightarrow> string list \<Rightarrow> report res" where
  "verify_audit lib records policies now expected =
     bindE (foldE (stream_check lib policies now) (group_streams records) ([], [], [])) (\<lambda>(seen, vs, smry).
     bindE (foldE (limit_record lib policies) (sort_key (time_of lib) records) \<lparr>ls_generations = [], ls_times = [], ls_viol = vs\<rparr>) (\<lambda>st.
     Inr \<lparr>rp_violations = ls_viol st
        @ (if records = [] then [plain_violation ''AUDIT_EMPTY'' None [] ''no observed audit records''] else [])
        @ map (\<lambda>a. plain_violation ''AGENT_UNOBSERVED'' (Some a) [] ''no audit received'') (filter (\<lambda>a. map_of seen a = None) expected)
        @ concat (map (\<lambda>(a, t). if now - t > SILENT_AFTER then [plain_violation ''AGENT_SILENT'' (Some a) (l_iso lib t) []] else []) seen),
        rp_summary = smry\<rparr>))"

section \<open>Laws\<close>

lemma foldE_append: "foldE f (xs @ ys) s = bindE (foldE f xs s) (foldE f ys)"
  by (induction xs arbitrary: s) (auto simp: bindE_def split: sum.splits)

text \<open>A fold keeps what each step keeps.\<close>

lemma foldE_inv:
  assumes "foldE f xs s = Inr t" and "P s" and "\<And>x s t. x \<in> set xs \<Longrightarrow> f x s = Inr t \<Longrightarrow> P s \<Longrightarrow> P t"
  shows "P t"
  using assms by (induction xs arbitrary: s) auto

definition has_code :: "string \<Rightarrow> violation list \<Rightarrow> bool" where
  "has_code code vs \<longleftrightarrow> code \<in> vi_code ` set vs"

lemma has_code_append [simp]: "has_code c (xs @ ys) \<longleftrightarrow> has_code c xs \<or> has_code c ys" "\<not> has_code c []"
  by (auto simp: has_code_def)

lemma has_code_flag [simp]: "has_code c (flag b code r d) \<longleftrightarrow> b \<and> c = code" "has_code c [violation_at code r d] \<longleftrightarrow> c = code"
  by (auto simp: has_code_def flag_def violation_at_def)

lemma has_code_plain [simp]: "has_code c [plain_violation code a ts d] \<longleftrightarrow> c = code"
  by (simp add: has_code_def plain_violation_def)

abbreviation I1 :: string where "I1 \<equiv> ''I1_DUPLICATE_GENERATION_ACTION''"

text \<open>The claim a reservation record makes: agent, mode and generation.\<close>

definition is_reservation :: "central_row \<Rightarrow> bool" where
  "is_reservation r \<longleftrightarrow> cr_kind r = ''action_reserved''"

definition claim_of :: "central_row \<Rightarrow> string \<times> py \<times> py" where
  "claim_of r = (case cr_payload r of
     PDict xs \<Rightarrow> (cr_agent r, (case map_of xs ''mode'' of None \<Rightarrow> PStr [] | Some v \<Rightarrow> v),
       (case map_of xs ''generation_key'' of None \<Rightarrow> PStr [] | Some v \<Rightarrow> v))
   | _ \<Rightarrow> (cr_agent r, PNone, PNone))"

lemma budget_flags_I1: "budget_flags policy r at0 prev = Inr bf \<Longrightarrow> \<not> has_code I1 bf"
  by (auto simp: budget_flags_def split: option.splits)

lemma policy_flags_I1: "\<not> has_code I1 (policy_flags lib policy mode version r)"
  by (simp add: policy_flags_def split: option.splits)

lemma limit_record_step:
  assumes "limit_record lib policies r st = Inr st'" and "is_reservation r"
  shows "ls_generations st' = ls_generations st @ [claim_of r] \<and>
    (has_code I1 (ls_viol st') \<longleftrightarrow> has_code I1 (ls_viol st) \<or> list_ex (same_generation (claim_of r)) (ls_generations st))"
proof -
  from assms obtain xs where xs: "cr_payload r = PDict xs"
    by (cases "cr_payload r") (auto simp: limit_record_def is_reservation_def Let_def)
  define m where "m = (case map_of xs ''mode'' of None \<Rightarrow> PStr [] | Some v \<Rightarrow> v)"
  define g where "g = (case map_of xs ''generation_key'' of None \<Rightarrow> PStr [] | Some v \<Rightarrow> v)"
  have gets: "py_get_dflt (PDict xs) ''mode'' (PStr []) = Inr m" "py_get_dflt (PDict xs) ''generation_key'' (PStr []) = Inr g"
    by (simp_all add: m_def g_def split: option.splits)
  have "claim_of r = (cr_agent r, m, g)" by (simp add: claim_of_def xs m_def g_def)
  with assms show ?thesis
    by (auto simp: limit_record_def is_reservation_def xs gets Let_def policy_flags_I1 simp del: py_get_dflt.simps dest!: budget_flags_I1)
qed

lemma limit_record_other: "limit_record lib policies r st = Inr st' \<Longrightarrow> \<not> is_reservation r \<Longrightarrow> st' = st"
  by (simp add: limit_record_def is_reservation_def)

definition claim_list :: "central_row list \<Rightarrow> (string \<times> py \<times> py) list" where
  "claim_list rs = map claim_of (filter is_reservation rs)"

fun apart :: "(string \<times> py \<times> py) list \<Rightarrow> (string \<times> py \<times> py) list \<Rightarrow> bool" where
  "apart seen [] = True"
| "apart seen (c # cs) = (\<not> list_ex (same_generation c) seen \<and> apart (seen @ [c]) cs)"

text \<open>The check raises I1 exactly when a reservation repeats an earlier one.\<close>

lemma limit_fold_I1:
  "foldE (limit_record lib policies) rs st = Inr st' \<Longrightarrow>
     has_code I1 (ls_viol st') \<longleftrightarrow> has_code I1 (ls_viol st) \<or> \<not> apart (ls_generations st) (claim_list rs)"
proof (induction rs arbitrary: st)
  case (Cons r rs)
  then obtain st1 where s: "limit_record lib policies r st = Inr st1" "foldE (limit_record lib policies) rs st1 = Inr st'" by auto
  show ?case
  proof (cases "is_reservation r")
    case True
    from limit_record_step [OF s(1) True] Cons.IH [OF s(2)] True show ?thesis by (auto simp: claim_list_def)
  next
    case False
    from limit_record_other [OF s(1) False] Cons.IH [OF s(2)] False show ?thesis by (simp add: claim_list_def)
  qed
qed (simp add: claim_list_def)

text \<open>The part of the check that reads the streams raises other codes only.\<close>

lemma stream_record_I1: "stream_record lib policies agent r st = Inr st' \<Longrightarrow> has_code I1 (ss_viol st') = has_code I1 (ss_viol st)"
  by (auto simp: stream_record_def note_seen_def Let_def split: if_splits)

lemma check_result_I1: "check_result lib now results ir vs = Inr vs' \<Longrightarrow> has_code I1 vs' = has_code I1 vs"
  by (auto simp: check_result_def split: prod.splits if_splits)

lemma stream_check_I1:
  assumes "stream_check lib policies now grp acc = Inr acc'"
  shows "has_code I1 (fst (snd acc')) = has_code I1 (fst (snd acc))"
proof -
  obtain agent inst rs seen vs smry where g: "grp = ((agent, inst), rs)" "acc = (seen, vs, smry)" by (metis prod.collapse)
  from assms obtain st vs' where st: "foldE (stream_record lib policies agent) rs
       \<lparr>ss_reserved = [], ss_results = [], ss_verified = [], ss_decisions = [], ss_seen = seen, ss_viol = vs\<rparr> = Inr st"
    and vs': "foldE (check_result lib now (ss_results st)) (ss_reserved st) (ss_viol st) = Inr vs'" "fst (snd acc') = vs'"
    by (auto simp: stream_check_def g)
  have "has_code I1 (ss_viol st) = has_code I1 vs"
    by (rule foldE_inv [OF st]) (auto dest: stream_record_I1)
  moreover have "has_code I1 vs' = has_code I1 (ss_viol st)"
    by (rule foldE_inv [OF vs'(1)]) (auto dest: check_result_I1)
  ultimately show ?thesis using g vs' by simp
qed

lemma verify_I1:
  assumes "verify_audit lib records policies now expected = Inr rep"
  shows "has_code I1 (rp_violations rep) \<longleftrightarrow> \<not> apart [] (claim_list (sort_key (time_of lib) records))"
proof -
  from assms obtain acc st where acc: "foldE (stream_check lib policies now) (group_streams records) ([], [], []) = Inr acc"
    and st: "foldE (limit_record lib policies) (sort_key (time_of lib) records) \<lparr>ls_generations = [], ls_times = [], ls_viol = fst (snd acc)\<rparr> = Inr st"
    and rep: "rp_violations rep = ls_viol st
        @ (if records = [] then [plain_violation ''AUDIT_EMPTY'' None [] ''no observed audit records''] else [])
        @ map (\<lambda>a. plain_violation ''AGENT_UNOBSERVED'' (Some a) [] ''no audit received'') (filter (\<lambda>a. map_of (fst acc) a = None) expected)
        @ concat (map (\<lambda>(a, t). if now - t > SILENT_AFTER then [plain_violation ''AGENT_SILENT'' (Some a) (l_iso lib t) []] else []) (fst acc))"
    by (auto simp: verify_audit_def)
  have "\<not> has_code I1 (fst (snd acc))"
    by (rule foldE_inv [OF acc]) (auto dest: stream_check_I1)
  moreover have "\<not> has_code I1 (map (\<lambda>a. plain_violation ''AGENT_UNOBSERVED'' (Some a) [] d) as)" for as d
    by (auto simp: has_code_def plain_violation_def)
  moreover have "\<not> has_code I1 (concat (map (\<lambda>(a, t). if now - t > SILENT_AFTER then [plain_violation ''AGENT_SILENT'' (Some a) (l_iso lib t) []] else []) as))" for as
    by (auto simp: has_code_def plain_violation_def)
  ultimately show ?thesis using limit_fold_I1 [OF st] by (simp add: rep)
qed

text \<open>Whether two reservations clash does not depend on the order in which they are read.\<close>

definition plain_claim :: "string \<times> py \<times> py \<Rightarrow> bool" where
  "plain_claim c = (case c of (a, m, g) \<Rightarrow> hashable m \<and> hashable g)"

lemma py_eq_sym: "hashable v \<Longrightarrow> hashable w \<Longrightarrow> py_eq v w = py_eq w v"
  by (cases v; cases w) (auto simp: hashable_def)

lemma same_generation_sym: "plain_claim c \<Longrightarrow> plain_claim d \<Longrightarrow> same_generation c d = same_generation d c"
  by (auto simp: same_generation_def plain_claim_def py_eq_sym split: prod.splits)

lemma limit_record_plain: "limit_record lib policies r st = Inr st' \<Longrightarrow> is_reservation r \<Longrightarrow> plain_claim (claim_of r)"
  by (cases "cr_payload r")
    (auto simp: limit_record_def is_reservation_def Let_def keyE_def claim_of_def plain_claim_def split: option.splits)

lemma limit_fold_plain: "foldE (limit_record lib policies) rs st = Inr st' \<Longrightarrow> \<forall>c \<in> set (claim_list rs). plain_claim c"
  by (induction rs arbitrary: st) (auto simp: claim_list_def dest: limit_record_plain)

lemma apart_sorted_wrt:
  "apart seen cs \<longleftrightarrow> (\<forall>c \<in> set cs. \<forall>d \<in> set seen. \<not> same_generation c d) \<and> sorted_wrt (\<lambda>d c. \<not> same_generation c d) cs"
  by (induction seen cs rule: apart.induct) (auto simp: list_ex_iff)

lemma sorted_wrt_perm:
  assumes "mset xs = mset ys" and "\<And>x y. x \<in> set xs \<Longrightarrow> y \<in> set xs \<Longrightarrow> R x y = R y x"
  shows "sorted_wrt R xs = sorted_wrt R ys"
  using assms
proof (induction xs arbitrary: ys)
  case (Cons x xs)
  from Cons.prems(1) have "x \<in> set ys" by (metis list.set_intros(1) mset_eq_setD)
  then obtain us vs where ys: "ys = us @ x # vs" by (meson split_list)
  with Cons.prems(1) have m: "mset xs = mset (us @ vs)" by simp
  then have s: "set xs = set us \<union> set vs" by (metis mset_eq_setD set_append)
  have "sorted_wrt R xs = sorted_wrt R (us @ vs)" using Cons.IH [OF m] Cons.prems(2) by simp
  then show ?case using s Cons.prems(2) by (auto simp: ys sorted_wrt_append)
qed simp

text \<open>C27: The audit check finds every duplicated action and accuses nobody else of one. When the check of the collected records
  completes, it reports I1 exactly when two reservation records of the same agent, possibly written to different databases,
  name the same mode and the same FFmpeg generation, whatever the order and the time stamps of the records.\<close>

theorem duplicates_detected_exactly:
  assumes "verify_audit lib records policies now expected = Inr rep"
  shows "has_code I1 (rp_violations rep) \<longleftrightarrow>
    (\<exists>i j. i < j \<and> j < length (claim_list records) \<and> same_generation (claim_list records ! j) (claim_list records ! i))"
proof -
  let ?sorted = "claim_list (sort_key (time_of lib) records)"
  have m: "mset ?sorted = mset (claim_list records)" by (simp add: claim_list_def mset_filter)
  from assms obtain st st' where "foldE (limit_record lib policies) (sort_key (time_of lib) records) st = Inr st'"
    by (auto simp: verify_audit_def)
  from limit_fold_plain [OF this] have plain: "\<forall>c \<in> set ?sorted. plain_claim c" .
  have "sorted_wrt (\<lambda>d c. \<not> same_generation c d) ?sorted = sorted_wrt (\<lambda>d c. \<not> same_generation c d) (claim_list records)"
    using plain by (intro sorted_wrt_perm [OF m]) (auto simp: same_generation_sym)
  with verify_I1 [OF assms] show ?thesis by (auto simp: apart_sorted_wrt sorted_wrt_iff_nth_less)
qed

definition ex_reservation :: "string \<Rightarrow> int \<Rightarrow> string \<Rightarrow> central_row" where
  "ex_reservation inst q t = \<lparr>cr_agent = ''dell'', cr_instance = inst, cr_seq = q, cr_ts = t, cr_kind = ''action_reserved'',
     cr_payload = PDict [(''action_id'', PInt q), (''generation_key'', PStr ''pod/g1''), (''mode'', PStr ''dry_run''), (''policy_version'', PInt 0),
       (''evidence'', PDict [(''network'', PDict [(''network_down'', PBool False), (''ingest_ok'', PBool True)])])], cr_received = t\<rparr>"

lemma ex_verified: "\<exists>rep. verify_audit ex_lib [ex_reservation ''u1'' 1 ''t1'', ex_reservation ''u2'' 1 ''t0''] [] 5 [] = Inr rep"
proof -
  have "(case verify_audit ex_lib [ex_reservation ''u1'' 1 ''t1'', ex_reservation ''u2'' 1 ''t0''] [] 5 [] of Inl _ \<Rightarrow> False | Inr _ \<Rightarrow> True)"
    by code_simp
  then show ?thesis by (auto split: sum.splits)
qed

theorem duplicates_detected_exactly_witness:
  "\<exists>rep. verify_audit ex_lib [ex_reservation ''u1'' 1 ''t1'', ex_reservation ''u2'' 1 ''t0''] [] 5 [] = Inr rep \<and> has_code I1 (rp_violations rep)"
proof -
  obtain rep where r: "verify_audit ex_lib [ex_reservation ''u1'' 1 ''t1'', ex_reservation ''u2'' 1 ''t0''] [] 5 [] = Inr rep"
    using ex_verified by blast
  have "same_generation (claim_list [ex_reservation ''u1'' 1 ''t1'', ex_reservation ''u2'' 1 ''t0''] ! 1)
      (claim_list [ex_reservation ''u1'' 1 ''t1'', ex_reservation ''u2'' 1 ''t0''] ! 0)" by code_simp
  moreover have "length (claim_list [ex_reservation ''u1'' 1 ''t1'', ex_reservation ''u2'' 1 ''t0'']) = 2" by code_simp
  ultimately show ?thesis using duplicates_detected_exactly [OF r] r by (metis less_numeral_extra(1) one_less_numeral_iff semiring_norm(76))
qed

end
