(* ===== verification/Rb_Protocol.thy ===== *)
theory Rb_Protocol
  imports Cra_Effect
begin

text \<open>
  The protocol of the effect executor: \<open>src/src/runtime_boundary/model.py\<close> with the target identity
  (\<open>src/src/cra_dell_recovery/models.py\<close>) and the effect scopes (\<open>effect_scope.py\<close>).

  A request is a decoded JSON object; \<open>from_mapping\<close> accepts it as an \<open>effect_request\<close> or raises. The
  scope of a request is a digest: \<open>hashlib.sha256\<close> over \<open>json.dumps\<close> is \<open>l_sha\<close>, and over the canonical
  form of the package \<open>rfc8785\<close>, which is not part of the repository, it is the argument \<open>rfc\<close>. That call
  may raise (\<open>rfc8785\<close> refuses some integers).
\<close>

section \<open>Identities\<close>

definition EXACT_TARGET_FIELDS :: "string list" where
  "EXACT_TARGET_FIELDS = [''host_id'', ''host_boot_id'', ''namespace'', ''pod_uid'', ''container_name'', ''container_id'',
     ''ffmpeg_generation'', ''ffmpeg_pid'']"

definition EXACT_RUNTIME_FIELDS :: "string list" where
  "EXACT_RUNTIME_FIELDS = [''host_id'', ''host_boot_id'', ''namespace'', ''pod_uid'', ''stream_engine_container_name'',
     ''stream_engine_container_id'', ''runtime_generation'']"

definition parse_instant :: "pylib \<Rightarrow> py \<Rightarrow> instant res" where
  "parse_instant lib v =
     (case l_fromiso lib (replace_char CHR ''Z'' ''+00:00'' (py_str (l_repr lib) v)) of
        None \<Rightarrow> Inl (ProtocolError ''INVALID_TIMESTAMP'')
      | Some (aware, t) \<Rightarrow> if aware then Inr t else Inl (ProtocolError ''TIMESTAMP_TZ_REQUIRED''))"

text \<open>\<open>str(v or "").strip()\<close>.\<close>

definition text_of :: "pylib \<Rightarrow> py \<Rightarrow> string" where
  "text_of lib v = strip (str_or_empty lib v)"

definition same_keys :: "(string \<times> py) list \<Rightarrow> string list \<Rightarrow> bool" where
  "same_keys xs ks \<longleftrightarrow> set (map fst xs) = set ks"

definition target_pid :: "py \<Rightarrow> py res" where
  "target_pid v = (case py_int v of
       Inl e \<Rightarrow> Inl (if e = TypeError \<or> is_value_error e then ProtocolError ''TARGET_PID_INVALID'' else e)
     | Inr n \<Rightarrow> if n \<le> 1 then Inl (ProtocolError ''TARGET_PID_INVALID'') else Inr (PInt n))"

definition target_field :: "pylib \<Rightarrow> (string \<times> py) list \<Rightarrow> string \<Rightarrow> (string \<times> py) res" where
  "target_field lib xs k =
     (if k = ''ffmpeg_pid'' then bindE (target_pid (dget xs k)) (\<lambda>v. Inr (k, v))
      else if text_of lib (dget xs k) = [] then Inl (ProtocolError (''TARGET_'' @ upper_ascii k @ ''_MISSING''))
      else Inr (k, PStr (py_str (l_repr lib) (dget xs k))))"

definition validate_target :: "pylib \<Rightarrow> py \<Rightarrow> (string \<times> py) list res" where
  "validate_target lib v = (case v of
       PDict xs \<Rightarrow>
         if \<not> same_keys xs EXACT_TARGET_FIELDS then Inl (ProtocolError ''TARGET_IDENTITY_NOT_EXACT'')
         else bindE (mapE (target_field lib xs) EXACT_TARGET_FIELDS) (\<lambda>t.
           bindE (requireE (dget t ''container_name'' = PStr ''stream-engine'') (ProtocolError ''TARGET_CONTAINER_NOT_STREAM_ENGINE'')) (\<lambda>_. Inr t))
     | _ \<Rightarrow> Inl (ProtocolError ''TARGET_IDENTITY_NOT_EXACT''))"

definition runtime_field :: "pylib \<Rightarrow> (string \<times> py) list \<Rightarrow> string \<Rightarrow> (string \<times> py) res" where
  "runtime_field lib xs k =
     (let normalized = text_of lib (dget xs k) in
      if normalized = [] then Inl (ProtocolError (''RUNTIME_'' @ upper_ascii k @ ''_MISSING'')) else Inr (k, PStr normalized))"

definition has_prefix :: "string \<Rightarrow> py \<Rightarrow> bool" where
  "has_prefix w v = (case v of PStr s \<Rightarrow> starts_with w s | _ \<Rightarrow> False)"

definition validate_runtime_identity :: "pylib \<Rightarrow> py \<Rightarrow> (string \<times> py) list res" where
  "validate_runtime_identity lib v = (case v of
       PDict xs \<Rightarrow>
         if \<not> same_keys xs EXACT_RUNTIME_FIELDS then Inl (ProtocolError ''RUNTIME_IDENTITY_NOT_EXACT'')
         else bindE (mapE (runtime_field lib xs) EXACT_RUNTIME_FIELDS) (\<lambda>t.
           bindE (requireE (dget t ''stream_engine_container_name'' = PStr ''stream-engine'') (ProtocolError ''RUNTIME_CONTAINER_NOT_STREAM_ENGINE'')) (\<lambda>_.
           bindE (requireE (has_prefix ''containerd://'' (dget t ''stream_engine_container_id'')) (ProtocolError ''RUNTIME_CONTAINER_ID_INVALID'')) (\<lambda>_. Inr t)))
     | _ \<Rightarrow> Inl (ProtocolError ''RUNTIME_IDENTITY_NOT_EXACT''))"

definition required_text :: "pylib \<Rightarrow> (string \<times> py) list \<Rightarrow> string \<Rightarrow> string res" where
  "required_text lib xs name =
     (let t = text_of lib (dget xs name) in if t = [] then Inl (ProtocolError ''REQUIRED_IDENTITY_MISSING'') else Inr t)"

section \<open>Requests\<close>

definition MAX_EFFECT_REQUEST_LIFETIME_SECONDS :: seconds where "MAX_EFFECT_REQUEST_LIFETIME_SECONDS = 5"

definition DELIVERY_TARGET_INTENTS :: "string list" where
  "DELIVERY_TARGET_INTENTS = [''RESTART_FFMPEG'', ''SWITCH_STREAM_ROUTE'']"

definition EXECUTOR_OWNED_INTENTS :: "string list" where
  "EXECUTOR_OWNED_INTENTS = DELIVERY_TARGET_INTENTS @ [''RECONCILE_FFMPEG'']"

definition ALL_EFFECT_INTENTS :: "string list" where
  "ALL_EFFECT_INTENTS = EXECUTOR_OWNED_INTENTS @ [''ESCALATE_RUNTIME_RECOVERY'']"

record request_common =
  rc_request_id :: string
  rc_producer_id :: string
  rc_producer_generation :: int
  rc_reason :: string
  rc_issued_at :: string
  rc_expires_at :: string
  rc_idempotency_key :: string
  rc_correlation_id :: string
  rc_expected_executor_instance_id :: string
  rc_maintenance_evidence_status :: string
  rc_projection_id :: string
  rc_projection_sequence :: int

record effect_request =
  er_schema_version :: string
  er_intent_type :: string
  er_failure_domain :: string
  er_common :: request_common
  er_ffmpeg_target :: "(string \<times> py) list option"
  er_runtime_identity :: "(string \<times> py) list option"
  er_expected_ffmpeg_generation :: string
  er_target_snapshot_id :: string
  er_runtime_snapshot_id :: string
  er_runtime_observation_id :: string
  er_route_transition :: "(string \<times> py) list option"

definition generations :: "(string \<times> py) list \<Rightarrow> (int \<times> int) res" where
  "generations xs =
     (case bindE (int_or_0 (dget xs ''producer_generation'')) (\<lambda>g. bindE (int_or_0 (dget xs ''projection_sequence'')) (\<lambda>n. Inr (g, n))) of
        Inl e \<Rightarrow> Inl (if e = TypeError \<or> is_value_error e then ProtocolError ''GENERATION_INVALID'' else e)
      | Inr (g, n) \<Rightarrow> if g \<le> 0 \<or> n < 0 then Inl (ProtocolError ''GENERATION_INVALID'') else Inr (g, n))"

definition request_times :: "pylib \<Rightarrow> (string \<times> py) list \<Rightarrow> unit res" where
  "request_times lib xs =
     bindE (parse_instant lib (PStr (str_or_empty lib (dget xs ''issued_at'')))) (\<lambda>issued.
     bindE (parse_instant lib (PStr (str_or_empty lib (dget xs ''expires_at'')))) (\<lambda>expires.
     bindE (requireE (expires > issued) (ProtocolError ''EXPIRY_NOT_AFTER_ISSUE'')) (\<lambda>_.
     requireE (total_seconds (expires - issued) \<le> MAX_EFFECT_REQUEST_LIFETIME_SECONDS) (ProtocolError ''REQUEST_LIFETIME_TOO_LONG''))))"

definition valid_reason :: "string \<Rightarrow> bool" where
  "valid_reason reason \<longleftrightarrow> reason \<noteq> [] \<and> length reason \<le> 512 \<and> CHR 0x0A \<notin> set reason \<and> CHR 0x0D \<notin> set reason"

definition EVIDENCE_STATUSES :: "string list" where
  "EVIDENCE_STATUSES = [''AVAILABLE'', ''UNKNOWN'', ''STALE'', ''INVALID'']"

definition request_common_of :: "pylib \<Rightarrow> (string \<times> py) list \<Rightarrow> request_common res" where
  "request_common_of lib xs =
     bindE (request_times lib xs) (\<lambda>_. bindE (generations xs) (\<lambda>(g, n).
     let reason = text_of lib (dget xs ''reason''); evidence_status = text_of lib (dget xs ''maintenance_evidence_status'');
         projection_id = text_of lib (dget xs ''projection_id'') in
     bindE (requireE (valid_reason reason) (ProtocolError ''REASON_INVALID'')) (\<lambda>_.
     bindE (requireE (evidence_status \<in> set EVIDENCE_STATUSES) (ProtocolError ''MAINTENANCE_EVIDENCE_STATUS_INVALID'')) (\<lambda>_.
     bindE (requireE (\<not> (evidence_status = ''AVAILABLE'' \<and> (projection_id = [] \<or> n \<le> 0))) (ProtocolError ''MAINTENANCE_EVIDENCE_IDENTITY_MISSING'')) (\<lambda>_.
     bindE (required_text lib xs ''request_id'') (\<lambda>rid. bindE (required_text lib xs ''producer_id'') (\<lambda>pid.
     bindE (required_text lib xs ''idempotency_key'') (\<lambda>key. bindE (required_text lib xs ''correlation_id'') (\<lambda>cid.
     bindE (required_text lib xs ''expected_executor_instance_id'') (\<lambda>eid. Inr
       \<lparr>rc_request_id = rid, rc_producer_id = pid, rc_producer_generation = g, rc_reason = reason,
        rc_issued_at = str_or_empty lib (dget xs ''issued_at''), rc_expires_at = str_or_empty lib (dget xs ''expires_at''),
        rc_idempotency_key = key, rc_correlation_id = cid, rc_expected_executor_instance_id = eid,
        rc_maintenance_evidence_status = evidence_status, rc_projection_id = projection_id, rc_projection_sequence = n\<rparr>))))))))))"

definition from_v1 :: "pylib \<Rightarrow> (string \<times> py) list \<Rightarrow> effect_request res" where
  "from_v1 lib xs =
     bindE (requireE (str_or_empty lib (dget xs ''operation'') = ''restart_ffmpeg'') (ProtocolError ''OPERATION_NOT_ALLOWED'')) (\<lambda>_.
     bindE (request_common_of lib xs) (\<lambda>c. bindE (required_text lib xs ''expected_ffmpeg_generation'') (\<lambda>g.
     bindE (validate_target lib (dget xs ''target_identity'')) (\<lambda>target.
     bindE (required_text lib xs ''target_snapshot_id'') (\<lambda>tsid. bindE (required_text lib xs ''runtime_observation_id'') (\<lambda>oid. Inr
       \<lparr>er_schema_version = ''runtime.effect_request.v1'', er_intent_type = ''RESTART_FFMPEG'', er_failure_domain = ''FFMPEG_LOCAL'',
        er_common = c, er_ffmpeg_target = Some target, er_runtime_identity = None, er_expected_ffmpeg_generation = g,
        er_target_snapshot_id = tsid, er_runtime_snapshot_id = [], er_runtime_observation_id = oid, er_route_transition = None\<rparr>))))))"

definition route_of :: "py \<Rightarrow> (string \<times> py) list res" where
  "route_of v = (case v of
       PDict r \<Rightarrow>
         if \<not> same_keys r [''from_route'', ''to_route'', ''expected_route_generation'', ''operator_grant_id'']
           then Inl (ProtocolError ''ROUTE_TRANSITION_NOT_EXACT'')
         else if (case (dget r ''from_route'', dget r ''to_route'') of
             (PStr a, PStr b) \<Rightarrow> {a, b} \<noteq> {''PRIMARY'', ''FALLBACK''} | _ \<Rightarrow> True) then Inl (ProtocolError ''ROUTE_TRANSITION_INVALID'')
         else if (case dget r ''expected_route_generation'' of PInt n \<Rightarrow> n \<le> 0 | _ \<Rightarrow> True) then Inl (ProtocolError ''ROUTE_GENERATION_INVALID'')
         else if (case dget r ''operator_grant_id'' of PStr s \<Rightarrow> \<not> (1 \<le> length s \<and> length s \<le> 128) | _ \<Rightarrow> True)
           then Inl (ProtocolError ''OPERATOR_GRANT_ID_INVALID'')
         else Inr r
     | _ \<Rightarrow> Inl (ProtocolError ''ROUTE_TRANSITION_NOT_EXACT''))"

definition V3 :: string where "V3 = ''runtime.typed_effect_request.v3''"
definition V2 :: string where "V2 = ''runtime.typed_effect_request.v2''"

definition route_transition_of :: "(string \<times> py) list \<Rightarrow> string \<Rightarrow> (string \<times> py) list option res" where
  "route_transition_of xs intent =
     (if intent = ''SWITCH_STREAM_ROUTE'' then
        if dget xs ''schema_version'' \<noteq> PStr V3 then Inl (ProtocolError ''ROUTE_REQUIRES_PROTOCOL_V3'')
        else bindE (route_of (dget xs ''route_transition'')) (\<lambda>r. Inr (Some r))
      else if dget xs ''route_transition'' \<noteq> PNone then Inl (ProtocolError ''ROUTE_FIELDS_FORBIDDEN'')
      else Inr None)"

definition absent_identity :: "py \<Rightarrow> bool" where
  "absent_identity v \<longleftrightarrow> v = PNone \<or> v = PStr []"

text \<open>The identity a typed request must carry, and the one it must not.\<close>

definition typed_identity ::
    "pylib \<Rightarrow> (string \<times> py) list \<Rightarrow> string \<Rightarrow> ((string \<times> py) list option \<times> (string \<times> py) list option) res" where
  "typed_identity lib xs intent =
     (let generation = text_of lib (dget xs ''expected_ffmpeg_generation''); tsid = text_of lib (dget xs ''target_snapshot_id'');
          rsid = text_of lib (dget xs ''runtime_snapshot_id''); oid = text_of lib (dget xs ''runtime_observation_id'') in
      if intent \<in> set DELIVERY_TARGET_INTENTS then
        bindE (validate_target lib (dget xs ''ffmpeg_target_identity'')) (\<lambda>target.
        bindE (requireE (absent_identity (dget xs ''runtime_identity'')) (ProtocolError ''RESTART_RUNTIME_IDENTITY_FORBIDDEN'')) (\<lambda>_.
        bindE (requireE (generation \<noteq> [] \<and> tsid \<noteq> [] \<and> oid \<noteq> []) (ProtocolError ''RESTART_IDENTITY_MISSING'')) (\<lambda>_. Inr (Some target, None))))
      else
        bindE (validate_runtime_identity lib (dget xs ''runtime_identity'')) (\<lambda>identity.
        bindE (requireE (absent_identity (dget xs ''ffmpeg_target_identity'')) (ProtocolError ''RUNTIME_INTENT_FFMPEG_TARGET_FORBIDDEN'')) (\<lambda>_.
        bindE (requireE (generation = [] \<and> rsid \<noteq> []) (ProtocolError ''RUNTIME_INTENT_IDENTITY_INVALID'')) (\<lambda>_.
        bindE (requireE (\<not> (intent = ''RECONCILE_FFMPEG'' \<and> oid = [])) (ProtocolError ''RECONCILE_OBSERVATION_ID_MISSING'')) (\<lambda>_. Inr (None, Some identity))))))"

definition from_v2 :: "pylib \<Rightarrow> (string \<times> py) list \<Rightarrow> effect_request res" where
  "from_v2 lib xs =
     bindE (request_common_of lib xs) (\<lambda>c. let intent = text_of lib (dget xs ''intent_type'') in
     bindE (requireE (intent \<in> set ALL_EFFECT_INTENTS) (ProtocolError ''INTENT_NOT_ALLOWED'')) (\<lambda>_.
     bindE (requireE (\<not> (dget xs ''schema_version'' = PStr V3 \<and> intent \<noteq> ''SWITCH_STREAM_ROUTE'')) (ProtocolError ''V3_ROUTE_INTENT_REQUIRED'')) (\<lambda>_.
     bindE (route_transition_of xs intent) (\<lambda>route.
     bindE (requireE (text_of lib (dget xs ''failure_domain'') \<noteq> []) (ProtocolError ''FAILURE_DOMAIN_MISSING'')) (\<lambda>_.
     bindE (typed_identity lib xs intent) (\<lambda>(target, identity). Inr
       \<lparr>er_schema_version = (if route \<noteq> None then V3 else V2), er_intent_type = intent,
        er_failure_domain = text_of lib (dget xs ''failure_domain''), er_common = c, er_ffmpeg_target = target,
        er_runtime_identity = identity, er_expected_ffmpeg_generation = text_of lib (dget xs ''expected_ffmpeg_generation''),
        er_target_snapshot_id = text_of lib (dget xs ''target_snapshot_id''), er_runtime_snapshot_id = text_of lib (dget xs ''runtime_snapshot_id''),
        er_runtime_observation_id = text_of lib (dget xs ''runtime_observation_id''), er_route_transition = route\<rparr>))))))"

definition from_mapping :: "pylib \<Rightarrow> (string \<times> py) list \<Rightarrow> effect_request res" where
  "from_mapping lib xs =
     (let schema_version = str_or_empty lib (dget xs ''schema_version'') in
      if schema_version = ''runtime.effect_request.v1'' then from_v1 lib xs
      else if schema_version \<notin> {V2, V3} then Inl (ProtocolError ''SCHEMA_VERSION_UNSUPPORTED'')
      else from_v2 lib xs)"

section \<open>What a request stands for\<close>

abbreviation er_request_id :: "effect_request \<Rightarrow> string" where "er_request_id q \<equiv> rc_request_id (er_common q)"
abbreviation er_idempotency_key :: "effect_request \<Rightarrow> string" where "er_idempotency_key q \<equiv> rc_idempotency_key (er_common q)"

definition operation :: "effect_request \<Rightarrow> string" where
  "operation q = (if er_intent_type q = ''RESTART_FFMPEG'' then ''restart_ffmpeg''
     else if er_intent_type q = ''SWITCH_STREAM_ROUTE'' then ''switch_stream_route''
     else if er_intent_type q = ''RECONCILE_FFMPEG'' then ''reconcile_ffmpeg'' else ''escalate_runtime_recovery'')"

definition delivery_intent :: "effect_request \<Rightarrow> bool" where
  "delivery_intent q \<longleftrightarrow> er_intent_type q \<in> set DELIVERY_TARGET_INTENTS"

definition opt_dict :: "(string \<times> py) list option \<Rightarrow> (string \<times> py) list" where
  "opt_dict x = (case x of None \<Rightarrow> [] | Some xs \<Rightarrow> xs)"

definition opt_py :: "(string \<times> py) list option \<Rightarrow> py" where
  "opt_py x = (case x of None \<Rightarrow> PNone | Some xs \<Rightarrow> PDict xs)"

definition fence_identity :: "effect_request \<Rightarrow> (string \<times> py) list" where
  "fence_identity q = (if delivery_intent q then opt_dict (er_ffmpeg_target q) else opt_dict (er_runtime_identity q))"

text \<open>\<open>TargetIdentity.from_dict\<close> with its \<open>__post_init__\<close>; the result in the order of the fields.\<close>

definition identity_from_dict :: "pylib \<Rightarrow> (string \<times> py) list \<Rightarrow> (string \<times> py) list res" where
  "identity_from_dict lib xs =
     bindE (int_or_0 (dget xs ''ffmpeg_pid'')) (\<lambda>pid.
     let names = filter (\<lambda>k. k \<noteq> ''ffmpeg_pid'') EXACT_TARGET_FIELDS; txt = (\<lambda>k. str_or_empty lib (dget xs k)) in
     bindE (mapE (\<lambda>k. requireE (strip (txt k) \<noteq> []) (ValueError (k @ '' is required''))) names) (\<lambda>_.
     bindE (requireE (pid > 1) (ValueError ''ffmpeg_pid must be greater than 1'')) (\<lambda>_.
     bindE (requireE (txt ''container_name'' = ''stream-engine'') (ValueError ''container_name must be stream-engine'')) (\<lambda>_.
     Inr (map (\<lambda>k. (k, PStr (txt k))) names @ [(''ffmpeg_pid'', PInt pid)])))))"

definition normalized_action :: "string \<Rightarrow> string res" where
  "normalized_action action = (let a = lower_ascii (strip action) in
     if a \<noteq> ''restart_ffmpeg'' then Inl (ValueError ''effect scope action must be restart_ffmpeg'') else Inr a)"

definition logical_scope_of :: "pylib \<Rightarrow> (py \<Rightarrow> string res) \<Rightarrow> string \<Rightarrow> (string \<times> py) list \<Rightarrow> string res" where
  "logical_scope_of lib rfc action target =
     bindE (normalized_action action) (\<lambda>a. bindE (identity_from_dict lib target) (\<lambda>i.
     rfc (PDict [(''action'', PStr a), (''logical_generation_identity'', PDict (adel ''ffmpeg_pid'' i))])))"

definition exact_scope_of :: "pylib \<Rightarrow> (py \<Rightarrow> string res) \<Rightarrow> string \<Rightarrow> (string \<times> py) list \<Rightarrow> string res" where
  "exact_scope_of lib rfc action target =
     bindE (normalized_action action) (\<lambda>a. bindE (identity_from_dict lib target) (\<lambda>i.
     rfc (PDict [(''action'', PStr a), (''exact_target_identity'', PDict i)])))"

definition effect_scope_id :: "pylib \<Rightarrow> (py \<Rightarrow> string res) \<Rightarrow> effect_request \<Rightarrow> string res" where
  "effect_scope_id lib rfc q = (case (delivery_intent q, er_ffmpeg_target q) of
       (True, Some t) \<Rightarrow> exact_scope_of lib rfc ''restart_ffmpeg'' t
     | _ \<Rightarrow> Inr (l_sha lib (jnorm (PDict [(''intent_type'', PStr (er_intent_type q)), (''identity'', PDict (fence_identity q))]))))"

definition logical_generation_scope_id :: "pylib \<Rightarrow> (py \<Rightarrow> string res) \<Rightarrow> effect_request \<Rightarrow> string option res" where
  "logical_generation_scope_id lib rfc q = (case (delivery_intent q, er_ffmpeg_target q) of
       (True, Some t) \<Rightarrow> bindE (logical_scope_of lib rfc ''restart_ffmpeg'' t) (\<lambda>x. Inr (Some x))
     | _ \<Rightarrow> Inr None)"

definition canonical_request :: "effect_request \<Rightarrow> (string \<times> py) list" where
  "canonical_request q = (let c = er_common q in
     [(''schema_version'', PStr (if er_route_transition q \<noteq> None then V3 else V2)),
      (''request_id'', PStr (rc_request_id c)), (''producer_id'', PStr (rc_producer_id c)),
      (''producer_generation'', PInt (rc_producer_generation c)), (''intent_type'', PStr (er_intent_type q)),
      (''reason'', PStr (rc_reason c)), (''failure_domain'', PStr (er_failure_domain q)),
      (''issued_at'', PStr (rc_issued_at c)), (''expires_at'', PStr (rc_expires_at c)),
      (''ffmpeg_target_identity'', opt_py (er_ffmpeg_target q)), (''runtime_identity'', opt_py (er_runtime_identity q)),
      (''expected_ffmpeg_generation'', PStr (er_expected_ffmpeg_generation q)),
      (''idempotency_key'', PStr (rc_idempotency_key c)), (''correlation_id'', PStr (rc_correlation_id c)),
      (''target_snapshot_id'', PStr (er_target_snapshot_id q)), (''runtime_snapshot_id'', PStr (er_runtime_snapshot_id q)),
      (''runtime_observation_id'', PStr (er_runtime_observation_id q)),
      (''expected_executor_instance_id'', PStr (rc_expected_executor_instance_id c)),
      (''maintenance_evidence_status'', PStr (rc_maintenance_evidence_status c)),
      (''projection_id'', PStr (rc_projection_id c)), (''projection_sequence'', PInt (rc_projection_sequence c))]
     @ (case er_route_transition q of None \<Rightarrow> [] | Some r \<Rightarrow> [(''route_transition'', PDict r)]))"

definition request_digest :: "pylib \<Rightarrow> effect_request \<Rightarrow> string" where
  "request_digest lib q = l_sha lib (jnorm (PDict (canonical_request q)))"

text \<open>\<open>is_expected_ffmpeg_successor\<close>.\<close>

definition expected_successor :: "(string \<times> py) list \<Rightarrow> (string \<times> py) list \<Rightarrow> bool" where
  "expected_successor before after \<longleftrightarrow>
     list_all (\<lambda>k. dget before k = dget after k) [''host_id'', ''host_boot_id'', ''namespace'', ''pod_uid'', ''container_name'', ''container_id''] \<and>
     dget before ''ffmpeg_generation'' \<noteq> dget after ''ffmpeg_generation'' \<and> dget before ''ffmpeg_pid'' \<noteq> dget after ''ffmpeg_pid''"

section \<open>Requests survive storage\<close>

lemma dropWhile_dropWhile: "dropWhile P (dropWhile P xs) = dropWhile P xs"
  by (induction xs) auto

lemma strip_idem [simp]: "strip (strip s) = strip s"
proof -
  let ?d = "dropWhile is_space"
  have first: "rev (?d (rev (?d s))) = [] \<or> \<not> is_space (hd (rev (?d (rev (?d s)))))"
  proof (cases "?d s")
    case (Cons c cs)
    then have c: "\<not> is_space c" by (metis dropWhile_eq_Cons_conv)
    have "\<exists>ys. rev (?d (rev (c # cs))) = c # ys"
    proof -
      have "?d (rev cs @ [c]) = (if \<exists>x \<in> set cs. \<not> is_space x then ?d (rev cs) @ [c] else [c])"
        using c by (simp add: dropWhile_append)
      then show ?thesis by (cases "\<exists>x \<in> set cs. \<not> is_space x") simp_all
    qed
    with Cons c show ?thesis by auto
  next
    case Nil
    show ?thesis unfolding Nil by simp
  qed
  moreover have "xs = [] \<or> \<not> is_space (hd xs) \<Longrightarrow> ?d xs = xs" for xs by (cases xs) auto
  ultimately have "?d (strip s) = strip s" unfolding strip_def by blast
  then show ?thesis by (simp add: strip_def dropWhile_dropWhile)
qed

lemma strip_Nil [simp]: "strip [] = []"
  by (simp add: strip_def)

lemma str_or_empty_str [simp]: "str_or_empty lib (PStr s) = s"
  by (simp add: str_or_empty_def py_or_def)

lemma text_of_simps [simp]: "text_of lib (PStr s) = strip s" "strip (text_of lib v) = text_of lib v"
  by (simp_all add: text_of_def)

lemma int_or_0_int [simp]: "int_or_0 (PInt n) = Inr n"
  by (simp add: int_or_0_def py_or_def)

lemma mapE_cong: "(\<And>x. x \<in> set xs \<Longrightarrow> f x = g x) \<Longrightarrow> mapE f xs = mapE g xs"
  by (induction xs) auto

lemma mapE_Inr: "mapE f xs = Inr ys \<longleftrightarrow> length ys = length xs \<and> (\<forall>i < length xs. f (xs ! i) = Inr (ys ! i))"
proof (induction xs arbitrary: ys)
  case Nil
  then show ?case by auto
next
  case (Cons x xs)
  show ?case
  proof
    assume "mapE f (x # xs) = Inr ys"
    then obtain y zs where "f x = Inr y" "mapE f xs = Inr zs" "ys = y # zs" by auto
    with Cons.IH [of zs] show "length ys = length (x # xs) \<and> (\<forall>i < length (x # xs). f ((x # xs) ! i) = Inr (ys ! i))"
      by (auto simp: nth_Cons split: nat.splits)
  next
    assume a: "length ys = length (x # xs) \<and> (\<forall>i < length (x # xs). f ((x # xs) ! i) = Inr (ys ! i))"
    then obtain y zs where "ys = y # zs" by (cases ys) auto
    with a Cons.IH [of zs] show "mapE f (x # xs) = Inr ys" by (fastforce dest: spec [of _ "Suc _"])
  qed
qed

text \<open>A table made by validation: the fields in order, each value one the validator gives back.\<close>

definition made_of :: "(string \<Rightarrow> py \<Rightarrow> bool) \<Rightarrow> string list \<Rightarrow> (string \<times> py) list \<Rightarrow> bool" where
  "made_of P ks t \<longleftrightarrow> map fst t = ks \<and> (\<forall>(k, v) \<in> set t. P k v)"

lemma mapE_made:
  assumes "mapE f ks = Inr t" and "\<And>k r. f k = Inr r \<Longrightarrow> fst r = k \<and> P k (snd r)"
  shows "made_of P ks t"
proof -
  from assms(1) have "length t = length ks" and nth: "\<forall>i < length ks. f (ks ! i) = Inr (t ! i)" by (simp_all add: mapE_Inr)
  moreover from this assms(2) have "\<forall>i < length ks. fst (t ! i) = ks ! i \<and> P (ks ! i) (snd (t ! i))" by blast
  ultimately show ?thesis
    by (auto simp: made_of_def intro: nth_equalityI) (metis fst_conv in_set_conv_nth snd_conv)
qed

lemma made_lookup:
  assumes "made_of P ks t" and "distinct ks" and "k \<in> set ks"
  shows "P k (dget t k)" and "(k, dget t k) \<in> set t"
proof -
  from assms obtain v where v: "(k, v) \<in> set t" by (force simp: made_of_def)
  with assms have "map_of t k = Some v" by (simp add: made_of_def)
  with v assms show "P k (dget t k)" "(k, dget t k) \<in> set t" by (auto simp: made_of_def dget_def)
qed

lemma made_table: "made_of P ks t \<Longrightarrow> distinct ks \<Longrightarrow> map (\<lambda>k. (k, dget t k)) ks = t"
proof (induction t arbitrary: ks)
  case (Cons x t)
  then obtain k v ks' where s: "x = (k, v)" "ks = k # ks'" "made_of P ks' t" "distinct ks'" "k \<notin> set ks'"
    by (cases x) (auto simp: made_of_def)
  have "map (\<lambda>j. (j, dget ((k, v) # t) j)) ks' = map (\<lambda>j. (j, dget t j)) ks'"
    using s(5) by (intro map_cong) (auto simp: dget_def)
  also have "\<dots> = t" using Cons.IH s by blast
  finally show ?case using s by (simp add: dget_def)
qed (simp add: made_of_def)

lemma mapE_same: "(\<And>k. k \<in> set ks \<Longrightarrow> f k = Inr (g k)) \<Longrightarrow> mapE f ks = Inr (map g ks)"
  by (induction ks) auto

definition simple_py :: "py \<Rightarrow> bool" where
  "simple_py v \<longleftrightarrow> (\<exists>s. v = PStr s) \<or> (\<exists>n. v = PInt n)"

lemma jnorm_simple_py: "simple_py v \<Longrightarrow> jnorm v = v"
  by (auto simp: simple_py_def)

lemma made_reload:
  assumes made: "made_of P ks t" and d: "distinct ks" and simple: "\<And>k v. P k v \<Longrightarrow> simple_py v"
    and again: "\<And>k v xs. P k v \<Longrightarrow> dget xs k = v \<Longrightarrow> f xs k = Inr (k, v)"
    and ys: "jnorm (PDict t) = PDict ys"
  shows "mapE (f ys) ks = Inr t" and "same_keys ys ks"
proof -
  have dt: "distinct (map fst t)" using made d by (simp add: made_of_def)
  have y: "ys = sort_key fst (map (map_prod id jnorm) t)" using ys by simp
  have "dget ys k = dget t k" if "k \<in> set ks" for k
    using made_lookup [OF made d that] simple by (simp only: y dget_jnorm_pay [OF dt] jnorm_simple_py)
  then have "f ys k = Inr (k, dget t k)" if "k \<in> set ks" for k
    using again [OF made_lookup(1) [OF made d that]] that by simp
  then show "mapE (f ys) ks = Inr t" using made_table [OF made d] mapE_same [of ks "f ys" "\<lambda>k. (k, dget t k)"] by simp
  have "set (map fst ys) = fst ` set t" unfolding y by (force simp: image_iff)
  also have "\<dots> = set ks" using made by (simp only: made_of_def flip: set_map)
  finally show "same_keys ys ks" by (simp add: same_keys_def)
qed

definition target_value :: "string \<Rightarrow> py \<Rightarrow> bool" where
  "target_value k v \<longleftrightarrow> (if k = ''ffmpeg_pid'' then (\<exists>n > 1. v = PInt n) else (\<exists>s. v = PStr s \<and> strip s \<noteq> []))"

definition identity_value :: "string \<Rightarrow> py \<Rightarrow> bool" where
  "identity_value k v \<longleftrightarrow> (\<exists>s. v = PStr s \<and> strip s = s \<and> s \<noteq> [])"

lemma distinct_exact [simp]: "distinct EXACT_TARGET_FIELDS" "distinct EXACT_RUNTIME_FIELDS"
  by (simp_all add: EXACT_TARGET_FIELDS_def EXACT_RUNTIME_FIELDS_def)

lemma target_pid_Inr: "target_pid v = Inr w \<Longrightarrow> \<exists>n > 1. w = PInt n"
  by (auto simp: target_pid_def split: sum.splits if_splits)

lemma str_nonempty: "text_of lib v \<noteq> [] \<Longrightarrow> strip (py_str (l_repr lib) v) \<noteq> []"
  by (auto simp: text_of_def str_or_empty_def py_or_def strip_def split: if_splits)

lemma validate_target_made:
  assumes "validate_target lib v = Inr t"
  shows "made_of target_value EXACT_TARGET_FIELDS t" and "dget t ''container_name'' = PStr ''stream-engine''"
proof -
  from assms obtain xs where m: "mapE (target_field lib xs) EXACT_TARGET_FIELDS = Inr t" and c: "dget t ''container_name'' = PStr ''stream-engine''"
    by (auto simp: validate_target_def split: py.splits if_splits)
  show "dget t ''container_name'' = PStr ''stream-engine''" by (rule c)
  show "made_of target_value EXACT_TARGET_FIELDS t"
    by (rule mapE_made [OF m]) (auto simp: target_field_def target_value_def str_nonempty dest: target_pid_Inr split: if_splits)
qed

lemma validate_target_reload:
  assumes "validate_target lib v = Inr t"
  shows "validate_target lib (jnorm (PDict t)) = Inr t"
proof -
  obtain ys where ys: "jnorm (PDict t) = PDict ys" by simp
  have again: "target_field lib xs k = Inr (k, v)" if "target_value k v" "dget xs k = v" for xs k v
    using that by (auto simp: target_field_def target_value_def target_pid_def split: if_splits)
  have simple: "simple_py v" if "target_value k v" for k v
    using that by (auto simp: target_value_def simple_py_def split: if_splits)
  note r = made_reload [where f = "target_field lib", OF validate_target_made(1) [OF assms] distinct_exact(1) simple again ys]
  show ?thesis using r validate_target_made(2) [OF assms] by (simp add: ys validate_target_def del: jnorm.simps)
qed

lemma validate_identity_reload:
  assumes "validate_runtime_identity lib v = Inr t"
  shows "validate_runtime_identity lib (jnorm (PDict t)) = Inr t"
proof -
  from assms obtain xs where m: "mapE (runtime_field lib xs) EXACT_RUNTIME_FIELDS = Inr t"
    and c: "dget t ''stream_engine_container_name'' = PStr ''stream-engine''"
      "has_prefix ''containerd://'' (dget t ''stream_engine_container_id'')"
    by (auto simp: validate_runtime_identity_def split: py.splits if_splits)
  have made: "made_of identity_value EXACT_RUNTIME_FIELDS t"
    by (rule mapE_made [OF m]) (auto simp: runtime_field_def identity_value_def Let_def split: if_splits)
  obtain ys where ys: "jnorm (PDict t) = PDict ys" by simp
  have again: "runtime_field lib xs k = Inr (k, v)" if "identity_value k v" "dget xs k = v" for xs k v
    using that by (auto simp: runtime_field_def identity_value_def)
  have simple: "simple_py v" if "identity_value k v" for k v
    using that by (auto simp: identity_value_def simple_py_def)
  note r = made_reload [where f = "runtime_field lib", OF made distinct_exact(2) simple again ys]
  show ?thesis using r c by (simp add: ys validate_runtime_identity_def del: jnorm.simps)
qed

section \<open>Reading a stored request again\<close>

definition stored_request :: "effect_request \<Rightarrow> (string \<times> py) list" where
  "stored_request q = (case jnorm (PDict (canonical_request q)) of PDict xs \<Rightarrow> xs | _ \<Rightarrow> [])"

lemma canonical_keys [simp]: "distinct (map fst (canonical_request q))"
  by (cases "er_route_transition q") (simp_all add: canonical_request_def Let_def)

lemma stored_lookup: "dget (stored_request q) k = jnorm (dget (canonical_request q) k)"
  by (simp add: stored_request_def dget_jnorm_pay)

lemma canonical_lookup [simp]:
  "dget (canonical_request q) ''schema_version'' = PStr (if er_route_transition q \<noteq> None then V3 else V2)"
  "dget (canonical_request q) ''request_id'' = PStr (rc_request_id (er_common q))"
  "dget (canonical_request q) ''producer_id'' = PStr (rc_producer_id (er_common q))"
  "dget (canonical_request q) ''producer_generation'' = PInt (rc_producer_generation (er_common q))"
  "dget (canonical_request q) ''intent_type'' = PStr (er_intent_type q)"
  "dget (canonical_request q) ''reason'' = PStr (rc_reason (er_common q))"
  "dget (canonical_request q) ''failure_domain'' = PStr (er_failure_domain q)"
  "dget (canonical_request q) ''issued_at'' = PStr (rc_issued_at (er_common q))"
  "dget (canonical_request q) ''expires_at'' = PStr (rc_expires_at (er_common q))"
  "dget (canonical_request q) ''ffmpeg_target_identity'' = opt_py (er_ffmpeg_target q)"
  "dget (canonical_request q) ''runtime_identity'' = opt_py (er_runtime_identity q)"
  "dget (canonical_request q) ''expected_ffmpeg_generation'' = PStr (er_expected_ffmpeg_generation q)"
  "dget (canonical_request q) ''idempotency_key'' = PStr (rc_idempotency_key (er_common q))"
  "dget (canonical_request q) ''correlation_id'' = PStr (rc_correlation_id (er_common q))"
  "dget (canonical_request q) ''target_snapshot_id'' = PStr (er_target_snapshot_id q)"
  "dget (canonical_request q) ''runtime_snapshot_id'' = PStr (er_runtime_snapshot_id q)"
  "dget (canonical_request q) ''runtime_observation_id'' = PStr (er_runtime_observation_id q)"
  "dget (canonical_request q) ''expected_executor_instance_id'' = PStr (rc_expected_executor_instance_id (er_common q))"
  "dget (canonical_request q) ''maintenance_evidence_status'' = PStr (rc_maintenance_evidence_status (er_common q))"
  "dget (canonical_request q) ''projection_id'' = PStr (rc_projection_id (er_common q))"
  "dget (canonical_request q) ''projection_sequence'' = PInt (rc_projection_sequence (er_common q))"
  "dget (canonical_request q) ''route_transition'' = opt_py (er_route_transition q)"
  by (cases "er_route_transition q"; simp add: canonical_request_def dget_def opt_py_def Let_def)+

text \<open>What validation established of a request.\<close>

definition wf_common :: "pylib \<Rightarrow> request_common \<Rightarrow> bool" where
  "wf_common lib c \<longleftrightarrow>
     (\<exists>issued expires. parse_instant lib (PStr (rc_issued_at c)) = Inr issued \<and> parse_instant lib (PStr (rc_expires_at c)) = Inr expires \<and>
        issued < expires \<and> total_seconds (expires - issued) \<le> MAX_EFFECT_REQUEST_LIFETIME_SECONDS) \<and>
     rc_producer_generation c > 0 \<and> rc_projection_sequence c \<ge> 0 \<and> valid_reason (rc_reason c) \<and>
     rc_maintenance_evidence_status c \<in> set EVIDENCE_STATUSES \<and>
     \<not> (rc_maintenance_evidence_status c = ''AVAILABLE'' \<and> (rc_projection_id c = [] \<or> rc_projection_sequence c \<le> 0)) \<and>
     list_all (\<lambda>s. s \<noteq> [] \<and> strip s = s) [rc_request_id c, rc_producer_id c, rc_idempotency_key c, rc_correlation_id c, rc_expected_executor_instance_id c] \<and>
     strip (rc_reason c) = rc_reason c \<and> strip (rc_projection_id c) = rc_projection_id c"

lemma required_text_Inr: "required_text lib xs k = Inr s \<longleftrightarrow> s = text_of lib (dget xs k) \<and> s \<noteq> []"
  by (auto simp: required_text_def Let_def)

lemma generations_Inr: "generations xs = Inr (g, n) \<longleftrightarrow> int_or_0 (dget xs ''producer_generation'') = Inr g \<and>
    int_or_0 (dget xs ''projection_sequence'') = Inr n \<and> g > 0 \<and> n \<ge> 0"
  by (auto simp: generations_def split: sum.splits if_splits)

lemma request_times_Inr: "request_times lib xs = Inr () \<longleftrightarrow>
    (\<exists>issued expires. parse_instant lib (PStr (str_or_empty lib (dget xs ''issued_at''))) = Inr issued \<and>
       parse_instant lib (PStr (str_or_empty lib (dget xs ''expires_at''))) = Inr expires \<and>
       issued < expires \<and> total_seconds (expires - issued) \<le> MAX_EFFECT_REQUEST_LIFETIME_SECONDS)"
  by (auto simp: request_times_def)

lemma request_common_wf: "request_common_of lib xs = Inr c \<Longrightarrow> wf_common lib c"
  unfolding request_common_of_def wf_common_def request_times_Inr [symmetric]
  by (clarsimp simp: generations_Inr required_text_Inr request_times_Inr Let_def)

lemma request_common_reload:
  assumes "wf_common lib (er_common q)"
  shows "request_common_of lib (stored_request q) = Inr (er_common q)"
proof -
  let ?c = "er_common q"
  have t: "request_times lib (stored_request q) = Inr ()"
    using assms unfolding wf_common_def request_times_Inr by (simp add: stored_lookup)
  have g: "generations (stored_request q) = Inr (rc_producer_generation ?c, rc_projection_sequence ?c)"
    using assms unfolding wf_common_def generations_Inr by (simp add: stored_lookup)
  have e: "strip (rc_maintenance_evidence_status ?c) = rc_maintenance_evidence_status ?c"
  proof -
    have "list_all (\<lambda>s. strip s = s) EVIDENCE_STATUSES" by (simp add: EVIDENCE_STATUSES_def strip_def is_space_def)
    with assms show ?thesis by (simp add: wf_common_def list_all_iff)
  qed
  show ?thesis
    using assms e unfolding wf_common_def
    by (simp add: request_common_of_def t g stored_lookup required_text_def Let_def)
qed

definition wf_identity :: "pylib \<Rightarrow> effect_request \<Rightarrow> bool" where
  "wf_identity lib q \<longleftrightarrow>
     (if delivery_intent q then (\<exists>v t. er_ffmpeg_target q = Some t \<and> validate_target lib v = Inr t) \<and> er_runtime_identity q = None \<and>
          er_expected_ffmpeg_generation q \<noteq> [] \<and> er_target_snapshot_id q \<noteq> [] \<and> er_runtime_observation_id q \<noteq> []
      else (\<exists>v t. er_runtime_identity q = Some t \<and> validate_runtime_identity lib v = Inr t) \<and> er_ffmpeg_target q = None \<and>
          er_expected_ffmpeg_generation q = [] \<and> er_runtime_snapshot_id q \<noteq> [] \<and>
          (er_intent_type q = ''RECONCILE_FFMPEG'' \<longrightarrow> er_runtime_observation_id q \<noteq> []))"

definition wf_request :: "pylib \<Rightarrow> effect_request \<Rightarrow> bool" where
  "wf_request lib q \<longleftrightarrow> wf_common lib (er_common q) \<and> wf_identity lib q \<and> er_intent_type q \<in> set ALL_EFFECT_INTENTS \<and>
     er_failure_domain q \<noteq> [] \<and>
     (if er_intent_type q = ''SWITCH_STREAM_ROUTE'' then (\<exists>v r. er_route_transition q = Some r \<and> route_of v = Inr r \<and> distinct (map fst r)) else er_route_transition q = None) \<and>
     list_all (\<lambda>s. strip s = s) [er_failure_domain q, er_expected_ffmpeg_generation q, er_target_snapshot_id q, er_runtime_snapshot_id q,
       er_runtime_observation_id q]"

lemma intents_strip: "i \<in> set ALL_EFFECT_INTENTS \<Longrightarrow> strip i = i"
proof -
  have "list_all (\<lambda>s. strip s = s) ALL_EFFECT_INTENTS"
    by (simp add: ALL_EFFECT_INTENTS_def EXECUTOR_OWNED_INTENTS_def DELIVERY_TARGET_INTENTS_def strip_def is_space_def)
  then show "i \<in> set ALL_EFFECT_INTENTS \<Longrightarrow> ?thesis" by (simp add: list_all_iff)
qed

lemma restart_intent [simp]:
  "''RESTART_FFMPEG'' \<in> set ALL_EFFECT_INTENTS" "''SWITCH_STREAM_ROUTE'' \<in> set ALL_EFFECT_INTENTS" "''RESTART_FFMPEG'' \<in> set DELIVERY_TARGET_INTENTS" "''SWITCH_STREAM_ROUTE'' \<in> set DELIVERY_TARGET_INTENTS"
  by (simp_all add: ALL_EFFECT_INTENTS_def EXECUTOR_OWNED_INTENTS_def DELIVERY_TARGET_INTENTS_def)

lemma typed_identity_wf:
  assumes "typed_identity lib xs intent = Inr (a, b)"
  shows "intent \<in> set DELIVERY_TARGET_INTENTS \<Longrightarrow> \<exists>t. a = Some t \<and> validate_target lib (dget xs ''ffmpeg_target_identity'') = Inr t \<and> b = None \<and>
      text_of lib (dget xs ''expected_ffmpeg_generation'') \<noteq> [] \<and> text_of lib (dget xs ''target_snapshot_id'') \<noteq> [] \<and>
      text_of lib (dget xs ''runtime_observation_id'') \<noteq> []"
    and "intent \<notin> set DELIVERY_TARGET_INTENTS \<Longrightarrow> \<exists>t. b = Some t \<and> validate_runtime_identity lib (dget xs ''runtime_identity'') = Inr t \<and> a = None \<and>
      text_of lib (dget xs ''expected_ffmpeg_generation'') = [] \<and> text_of lib (dget xs ''runtime_snapshot_id'') \<noteq> [] \<and>
      (intent = ''RECONCILE_FFMPEG'' \<longrightarrow> text_of lib (dget xs ''runtime_observation_id'') \<noteq> [])"
  using assms by (auto simp: typed_identity_def Let_def)

lemma route_transition_of_Inr:
  "route_transition_of xs i = Inr x \<Longrightarrow> if i = ''SWITCH_STREAM_ROUTE'' then (\<exists>r. x = Some r \<and> route_of (dget xs ''route_transition'') = Inr r) else x = None"
  by (auto simp: route_transition_of_def split: if_splits)

lemma route_of_same: "route_of v = Inr r \<Longrightarrow> v = PDict r"
  by (cases v) (simp_all add: route_of_def split: if_splits)

lemma from_v2_wf:
  assumes "from_v2 lib xs = Inr q" and wf: "wf_json (PDict xs)"
  shows "wf_request lib q"
proof -
  let ?i = "text_of lib (dget xs ''intent_type'')"
  from assms obtain c route target identity where c: "request_common_of lib xs = Inr c" and i: "?i \<in> set ALL_EFFECT_INTENTS"
    and r: "route_transition_of xs ?i = Inr route" and f: "text_of lib (dget xs ''failure_domain'') \<noteq> []"
    and ti: "typed_identity lib xs ?i = Inr (target, identity)"
    and q: "er_intent_type q = ?i" "er_failure_domain q = text_of lib (dget xs ''failure_domain'')" "er_common q = c"
      "er_ffmpeg_target q = target" "er_runtime_identity q = identity"
      "er_expected_ffmpeg_generation q = text_of lib (dget xs ''expected_ffmpeg_generation'')"
      "er_target_snapshot_id q = text_of lib (dget xs ''target_snapshot_id'')" "er_runtime_snapshot_id q = text_of lib (dget xs ''runtime_snapshot_id'')"
      "er_runtime_observation_id q = text_of lib (dget xs ''runtime_observation_id'')" "er_route_transition q = route"
    by (clarsimp simp: from_v2_def Let_def)
  have "wf_identity lib q"
  proof (cases "?i \<in> set DELIVERY_TARGET_INTENTS")
    case True
    from typed_identity_wf(1) [OF ti True] show ?thesis using True q by (auto simp: wf_identity_def delivery_intent_def)
  next
    case False
    from typed_identity_wf(2) [OF ti False] show ?thesis using False q by (auto simp: wf_identity_def delivery_intent_def)
  qed
  moreover have "if er_intent_type q = ''SWITCH_STREAM_ROUTE'' then (\<exists>v r. er_route_transition q = Some r \<and> route_of v = Inr r \<and> distinct (map fst r)) else er_route_transition q = None"
  proof (cases "?i = ''SWITCH_STREAM_ROUTE''")
    case True
    with route_transition_of_Inr [OF r] obtain w where w: "route = Some w" "route_of (dget xs ''route_transition'') = Inr w" by auto
    with wf_json_dget [OF wf, of "''route_transition''"] have "distinct (map fst w)" by (simp add: route_of_same [OF w(2)])
    with w q True show ?thesis by auto
  qed (use route_transition_of_Inr [OF r] q in simp)
  ultimately show ?thesis
    using request_common_wf [OF c] i f q unfolding wf_request_def by (simp del: if_split_asm)
qed

lemma from_v1_wf:
  assumes "from_v1 lib xs = Inr q"
  shows "wf_request lib q"
proof -
  from assms obtain c t where c: "request_common_of lib xs = Inr c" and t: "validate_target lib (dget xs ''target_identity'') = Inr t"
    and q: "er_intent_type q = ''RESTART_FFMPEG''" "er_failure_domain q = ''FFMPEG_LOCAL''" "er_common q = c" "er_ffmpeg_target q = Some t"
      "er_runtime_identity q = None" "er_route_transition q = None" "er_runtime_snapshot_id q = []"
    and e: "required_text lib xs ''expected_ffmpeg_generation'' = Inr (er_expected_ffmpeg_generation q)"
      "required_text lib xs ''target_snapshot_id'' = Inr (er_target_snapshot_id q)"
      "required_text lib xs ''runtime_observation_id'' = Inr (er_runtime_observation_id q)"
    by (clarsimp simp: from_v1_def)
  have "wf_identity lib q" using t q e by (auto simp: wf_identity_def delivery_intent_def required_text_Inr)
  moreover have "strip ''FFMPEG_LOCAL'' = ''FFMPEG_LOCAL''" "strip [] = []" by (simp_all add: strip_def is_space_def)
  ultimately show ?thesis using request_common_wf [OF c] q e unfolding wf_request_def by (simp add: required_text_Inr)
qed

lemma from_mapping_wf: "from_mapping lib xs = Inr q \<Longrightarrow> wf_json (PDict xs) \<Longrightarrow> wf_request lib q"
  by (auto simp: from_mapping_def Let_def dest: from_v1_wf from_v2_wf split: if_splits)


text \<open>The stored request, read again: the typed schema, the route object with its keys in order, all else as it was.\<close>

definition reloaded :: "effect_request \<Rightarrow> effect_request" where
  "reloaded q = q\<lparr>er_schema_version := (if er_route_transition q \<noteq> None then V3 else V2),
     er_route_transition := map_option (sort_key fst) (er_route_transition q)\<rparr>"

lemma route_fields:
  assumes "route_of (PDict r) = Inr r" and d: "distinct (map fst r)" and kv: "(k, v) \<in> set r"
  shows "simple_py v"
proof -
  have "k \<in> set (map fst r)" using kv by force
  with assms(1) have "k \<in> {''from_route'', ''to_route'', ''expected_route_generation'', ''operator_grant_id''}"
    by (simp add: route_of_def same_keys_def split: if_splits)
  moreover have "dget r k = v" using kv d by (simp add: dget_def)
  moreover have "simple_py (dget r ''from_route'')" "simple_py (dget r ''to_route'')"
    "simple_py (dget r ''expected_route_generation'')" "simple_py (dget r ''operator_grant_id'')"
    using assms(1) by (auto simp: route_of_def simple_py_def split: if_splits py.splits)
  ultimately show ?thesis by blast
qed

lemma route_reload:
  assumes "route_of v = Inr r" and d: "distinct (map fst r)"
  shows "jnorm (PDict r) = PDict (sort_key fst r)" and "route_of (PDict (sort_key fst r)) = Inr (sort_key fst r)"
proof -
  have r: "route_of (PDict r) = Inr r" using assms(1) route_of_same by simp
  have "map (map_prod id jnorm) r = r"
    by (rule map_idI) (auto simp: jnorm_simple_py route_fields [OF r d])
  then show "jnorm (PDict r) = PDict (sort_key fst r)" by simp
  have "dget (sort_key fst r) k = dget r k" for k by (simp add: dget_def map_of_sort_key [OF d])
  with r show "route_of (PDict (sort_key fst r)) = Inr (sort_key fst r)"
    by (simp add: route_of_def same_keys_def split: if_splits)
qed

lemma schema_names [simp]: "V2 \<noteq> ''runtime.effect_request.v1''" "V3 \<noteq> ''runtime.effect_request.v1''" "V2 \<noteq> V3" "V3 \<noteq> V2"
  by (simp_all add: V2_def V3_def)

lemma typed_identity_reload:
  assumes "wf_request lib q"
  shows "typed_identity lib (stored_request q) (er_intent_type q) = Inr (er_ffmpeg_target q, er_runtime_identity q)"
proof (cases "er_intent_type q \<in> set DELIVERY_TARGET_INTENTS")
  case True
  with assms obtain v t where "er_ffmpeg_target q = Some t" "validate_target lib v = Inr t" "er_runtime_identity q = None"
    by (auto simp: wf_request_def wf_identity_def delivery_intent_def)
  with True assms show ?thesis
    by (simp add: wf_request_def wf_identity_def delivery_intent_def typed_identity_def stored_lookup opt_py_def absent_identity_def
        validate_target_reload del: jnorm.simps(7))
next
  case False
  with assms obtain v t where "er_runtime_identity q = Some t" "validate_runtime_identity lib v = Inr t" "er_ffmpeg_target q = None"
    by (auto simp: wf_request_def wf_identity_def delivery_intent_def)
  with False assms show ?thesis
    by (simp add: wf_request_def wf_identity_def delivery_intent_def typed_identity_def stored_lookup opt_py_def absent_identity_def
        validate_identity_reload del: jnorm.simps(7))
qed

lemma route_transition_reload:
  assumes "wf_request lib q"
  shows "route_transition_of (stored_request q) (er_intent_type q) = Inr (map_option (sort_key fst) (er_route_transition q))"
proof (cases "er_intent_type q = ''SWITCH_STREAM_ROUTE''")
  case True
  with assms obtain v r where r: "er_route_transition q = Some r" "route_of v = Inr r" "distinct (map fst r)"
    by (auto simp: wf_request_def)
  show ?thesis using True r(1) by (simp add: route_transition_of_def stored_lookup opt_py_def route_reload [OF r(2,3)] del: jnorm.simps(7))
qed (use assms in \<open>simp add: wf_request_def route_transition_of_def stored_lookup opt_py_def\<close>)

lemma route_only_if: "wf_request lib q \<Longrightarrow> er_route_transition q \<noteq> None \<longleftrightarrow> er_intent_type q = ''SWITCH_STREAM_ROUTE''"
  by (auto simp: wf_request_def split: if_splits)

lemma from_stored:
  assumes wf: "wf_request lib q"
  shows "from_mapping lib (stored_request q) = Inr (reloaded q)"
proof -
  let ?xs = "stored_request q"
  have s: "dget ?xs ''schema_version'' = PStr (if er_route_transition q \<noteq> None then V3 else V2)" by (simp add: stored_lookup)
  have "from_mapping lib ?xs = from_v2 lib ?xs" by (simp add: from_mapping_def s)
  moreover have "strip (er_intent_type q) = er_intent_type q" using wf intents_strip by (simp add: wf_request_def)
  moreover have "wf_common lib (er_common q)" using wf by (simp add: wf_request_def)
  ultimately show ?thesis
    using wf route_only_if [OF wf]
    by (simp add: from_v2_def Let_def request_common_reload route_transition_reload typed_identity_reload s stored_lookup)
      (simp add: wf_request_def reloaded_def)
qed

lemma reloaded_fields [simp]: "er_intent_type (reloaded q) = er_intent_type q" "er_ffmpeg_target (reloaded q) = er_ffmpeg_target q"
  "er_runtime_identity (reloaded q) = er_runtime_identity q" "er_common (reloaded q) = er_common q"
  by (simp_all add: reloaded_def)

lemma reloaded_same [simp]: "effect_scope_id lib rfc (reloaded q) = effect_scope_id lib rfc q"
  "logical_generation_scope_id lib rfc (reloaded q) = logical_generation_scope_id lib rfc q" "fence_identity (reloaded q) = fence_identity q"
  "operation (reloaded q) = operation q"
  by (simp_all add: effect_scope_id_def logical_generation_scope_id_def delivery_intent_def fence_identity_def operation_def cong: bool.case_cong option.case_cong)

lemma reloaded_digest:
  assumes "wf_request lib q"
  shows "request_digest lib (reloaded q) = request_digest lib q"
proof (cases "er_route_transition q")
  case None
  then have "canonical_request (reloaded q) = canonical_request q" by (simp add: canonical_request_def reloaded_def)
  then show ?thesis by (simp add: request_digest_def)
next
  case (Some r)
  with assms obtain v where r: "route_of v = Inr r" "distinct (map fst r)" by (auto simp: wf_request_def split: if_splits)
  have d: "distinct (map fst (sort_key fst r))" using r(2) by (simp add: distinct_map inj_on_def)
  have "jnorm (PDict (sort_key fst r)) = jnorm (PDict r)"
    using route_reload(1) [OF route_reload(2) [OF r] d] route_reload(1) [OF r] by (simp add: sort_key_id_if_sorted)
  then have "map (map_prod id jnorm) (canonical_request (reloaded q)) = map (map_prod id jnorm) (canonical_request q)"
    using Some by (simp add: canonical_request_def reloaded_def Let_def del: jnorm.simps(7))
  then show ?thesis by (simp add: request_digest_def)
qed

text \<open>C18: A stored request survives a restart: whatever object was accepted as a request (keys distinct, as in a dict), reading its
  canonical text back is accepted again and gives a request with the same digest, scope, fenced identity and operation.\<close>

theorem stored_request_reloads:
  assumes "from_mapping lib xs = Inr q" and "wf_json (PDict xs)"
  shows "\<exists>q'. from_mapping lib (stored_request q) = Inr q' \<and> request_digest lib q' = request_digest lib q \<and>
    effect_scope_id lib rfc q' = effect_scope_id lib rfc q \<and> logical_generation_scope_id lib rfc q' = logical_generation_scope_id lib rfc q \<and>
    fence_identity q' = fence_identity q \<and> operation q' = operation q \<and> er_common q' = er_common q"
  using from_stored [OF from_mapping_wf [OF assms]] reloaded_digest [OF from_mapping_wf [OF assms]]
  by (intro exI [of _ "reloaded q"]) simp

section \<open>The agent's request\<close>

lemma build_restart_request_lookup:
  assumes "build_restart_request lib obs now pid gen reason = Inr req"
  shows "dget req ''schema_version'' = PStr V2" "dget req ''request_id'' = PStr (request_id_for lib (generation_key obs))"
    "dget req ''producer_id'' = PStr pid" "dget req ''producer_generation'' = PInt gen" "dget req ''intent_type'' = PStr ''RESTART_FFMPEG''"
    "dget req ''reason'' = PStr (take 512 reason)" "dget req ''failure_domain'' = PStr ''DELIVERY_PATH''"
    "dget req ''issued_at'' = PStr (l_iso_z lib now)" "dget req ''expires_at'' = PStr (l_iso_z lib (now + 3000000))"
    "dget req ''ffmpeg_target_identity'' = dget (o_raw obs) ''target_identity''" "dget req ''runtime_identity'' = PNone"
    "dget req ''expected_ffmpeg_generation'' = PStr (o_ffmpeg_generation obs)"
    "dget req ''idempotency_key'' = PStr (request_id_for lib (generation_key obs))"
    "dget req ''correlation_id'' = PStr (request_id_for lib (generation_key obs))"
    "dget req ''target_snapshot_id'' = PStr (str_or_empty lib (dget (o_raw obs) ''target_snapshot_id''))"
    "dget req ''runtime_observation_id'' = PStr (o_observation_id obs)" "dget req ''route_transition'' = PNone"
    "dget req ''expected_executor_instance_id'' = PStr (o_executor_instance_id obs)"
    "dget req ''maintenance_evidence_status'' = PStr (py_str (l_repr lib) (py_or (dget (o_raw obs) ''maintenance_evidence_status'') (PStr ''UNKNOWN'')))"
    "dget req ''projection_id'' = PStr (str_or_empty lib (dget (o_raw obs) ''projection_id''))"
    "\<exists>n. int_or_0 (dget (o_raw obs) ''projection_sequence'') = Inr n \<and> dget req ''projection_sequence'' = PInt n"
    "dget req ''runtime_snapshot_id'' = PStr []"
  using assms by (auto simp: build_restart_request_def Let_def dget_def V2_def)

text \<open>What the agent's observation must hold for its request to be one the executor can read; \<open>evidence\<close> is the maintenance
  status with the projection it refers to.\<close>

definition evidence_readable :: "pylib \<Rightarrow> (string \<times> py) list \<Rightarrow> bool" where
  "evidence_readable lib raw \<longleftrightarrow>
     (let status = strip (py_str (l_repr lib) (py_or (dget raw ''maintenance_evidence_status'') (PStr ''UNKNOWN''))) in
      status \<in> set EVIDENCE_STATUSES \<and>
      (case int_or_0 (dget raw ''projection_sequence'') of Inr n \<Rightarrow> n \<ge> 0 \<and>
         (status = ''AVAILABLE'' \<longrightarrow> text_of lib (dget raw ''projection_id'') \<noteq> [] \<and> n > 0) | Inl e \<Rightarrow> False))"

definition request_readable :: "pylib \<Rightarrow> observation \<Rightarrow> string \<Rightarrow> int \<Rightarrow> string \<Rightarrow> bool" where
  "request_readable lib obs pid gen reason \<longleftrightarrow>
     strip pid \<noteq> [] \<and> gen > 0 \<and> valid_reason (strip (take 512 reason)) \<and>
     list_all (\<lambda>s. strip s \<noteq> []) [o_ffmpeg_generation obs, o_observation_id obs, o_executor_instance_id obs] \<and>
     text_of lib (dget (o_raw obs) ''target_snapshot_id'') \<noteq> [] \<and> evidence_readable lib (o_raw obs)"

text \<open>The documented behaviour of \<open>isoformat(timespec="milliseconds")\<close> and \<open>fromisoformat\<close>, and of a hexadecimal digest.\<close>

definition wire_faithful :: "pylib \<Rightarrow> bool" where
  "wire_faithful lib \<longleftrightarrow>
     (\<forall>t. l_fromiso lib (replace_char CHR ''Z'' ''+00:00'' (l_iso_z lib t)) = Some (True, t - t mod 1000)) \<and>
     (\<forall>v. list_all hex_lower (l_sha lib v))"

lemma strip_no_space: "list_all (\<lambda>c. \<not> is_space c) s \<Longrightarrow> strip s = s"
proof -
  have d: "list_all (\<lambda>c. \<not> is_space c) xs \<Longrightarrow> dropWhile is_space xs = xs" for xs by (cases xs) auto
  show "list_all (\<lambda>c. \<not> is_space c) s \<Longrightarrow> strip s = s" using d [of s] d [of "rev s"] by (simp add: strip_def)
qed

lemma hex_not_space: "hex_lower c \<Longrightarrow> \<not> is_space c"
  by (auto simp: hex_lower_def is_space_def)

lemma strip_request_id: "wire_faithful lib \<Longrightarrow> strip (request_id_for lib gk) = request_id_for lib gk"
proof (rule strip_no_space)
  assume "wire_faithful lib"
  then have "list_all hex_lower (take 40 (l_sha lib (PStr gk)))"
    by (auto simp: wire_faithful_def list_all_iff dest: in_set_takeD)
  then show "list_all (\<lambda>c. \<not> is_space c) (request_id_for lib gk)"
    by (auto simp: request_id_for_def list_all_iff hex_not_space) (simp_all add: is_space_def)
qed

lemma agent_request_times:
  assumes "build_restart_request lib obs now pid gen reason = Inr req" and "wire_faithful lib"
  shows "request_times lib req = Inr ()"
proof -
  note l = build_restart_request_lookup [OF assms(1)]
  have "now - now mod 1000 < (now + 3000000) - (now + 3000000) mod 1000"
    "total_seconds ((now + 3000000) - (now + 3000000) mod 1000 - (now - now mod 1000)) \<le> 5"
    by (simp_all add: total_seconds_def mod_add_eq [of now 1000, symmetric])
  then show ?thesis
    using assms(2) unfolding request_times_Inr
    by (simp add: l parse_instant_def wire_faithful_def MAX_EFFECT_REQUEST_LIFETIME_SECONDS_def)
qed

text \<open>C19: Agent and executor agree on what a restart request says: given a readable context (nonempty identities, an exact target, a
  usable maintenance status), the object the agent builds is accepted by the executor's protocol, lives at most the allowed
  time, and is read as a restart of exactly the observed FFmpeg generation and target, in the agent's name, under the request
  id derived from the generation.\<close>

theorem agent_request_understood:
  assumes "build_restart_request lib obs now pid gen reason = Inr req" and "wire_faithful lib"
    and "request_readable lib obs pid gen reason" and "validate_target lib (dget (o_raw obs) ''target_identity'') = Inr t"
  shows "\<exists>q. from_mapping lib req = Inr q \<and> er_intent_type q = ''RESTART_FFMPEG'' \<and> er_ffmpeg_target q = Some t \<and>
    er_expected_ffmpeg_generation q = strip (o_ffmpeg_generation obs) \<and> er_request_id q = request_id_for lib (generation_key obs) \<and>
    er_idempotency_key q = request_id_for lib (generation_key obs) \<and> rc_producer_id (er_common q) = strip pid \<and>
    rc_producer_generation (er_common q) = gen \<and> rc_expected_executor_instance_id (er_common q) = strip (o_executor_instance_id obs)"
proof -
  note l = build_restart_request_lookup [OF assms(1)]
  obtain n where n: "int_or_0 (dget (o_raw obs) ''projection_sequence'') = Inr n" "dget req ''projection_sequence'' = PInt n"
    using l(21) by blast
  have g: "generations req = Inr (gen, n)"
    using assms(3) n by (simp add: generations_Inr l request_readable_def evidence_readable_def Let_def)
  have id: "strip (request_id_for lib gk) = request_id_for lib gk" "request_id_for lib gk \<noteq> []" for gk
    using strip_request_id [OF assms(2)] by (simp_all add: request_id_for_def)
  have [simp]: "strip ''RESTART_FFMPEG'' = ''RESTART_FFMPEG''" "strip ''DELIVERY_PATH'' = ''DELIVERY_PATH''"
    by (simp_all add: strip_def is_space_def)
  obtain c where c: "request_common_of lib req = Inr c" "rc_request_id c = request_id_for lib (generation_key obs)"
      "rc_idempotency_key c = request_id_for lib (generation_key obs)" "rc_producer_id c = strip pid" "rc_producer_generation c = gen"
      "rc_expected_executor_instance_id c = strip (o_executor_instance_id obs)"
    using assms(3) agent_request_times [OF assms(1,2)] n id
    by (simp add: request_common_of_def g required_text_def l request_readable_def evidence_readable_def text_of_def not_le Let_def)
  show ?thesis
    using assms(3,4)
    by (simp add: from_mapping_def from_v2_def c l route_transition_of_def typed_identity_def absent_identity_def request_readable_def text_of_def Let_def)
qed

text \<open>A concrete clock format and digest: instants in unary, rounded down to milliseconds.\<close>

definition ex_wire :: pylib where
  "ex_wire = ex_lib\<lparr>l_iso_z := (\<lambda>t. (if t - t mod 1000 < 0 then CHR ''-'' else CHR ''+'') # replicate (nat \<bar>t - t mod 1000\<bar>) CHR ''1''),
     l_fromiso := (\<lambda>s. case s of [] \<Rightarrow> None | c # cs \<Rightarrow> Some (True, if c = CHR ''-'' then - int (length cs) else int (length cs))),
     l_sha := (\<lambda>v. ''abc'')\<rparr>"

lemma ex_wire_faithful: "wire_faithful ex_wire"
proof -
  have "replace_char CHR ''Z'' ''+00:00'' (replicate n CHR ''1'') = replicate n CHR ''1''" for n
    by (induction n) (simp_all add: replace_char_def)
  then show ?thesis by (auto simp: wire_faithful_def ex_wire_def hex_lower_def replace_char_def)
qed

definition ex_target :: "(string \<times> py) list" where
  "ex_target = [(''host_id'', PStr ''h''), (''host_boot_id'', PStr ''b''), (''namespace'', PStr ''n''), (''pod_uid'', PStr ''pod''),
     (''container_name'', PStr ''stream-engine''), (''container_id'', PStr ''c''), (''ffmpeg_generation'', PStr ''g1''), (''ffmpeg_pid'', PInt 77)]"

definition ex_ready :: observation where
  "ex_ready = (ex_obs 1 0)\<lparr>o_raw := [(''target_identity'', PDict ex_target), (''target_snapshot_id'', PStr ''s1''), (''delivery_route'', PStr ''PRIMARY'')]\<rparr>"

definition ex_restart :: "(string \<times> py) list" where
  "ex_restart = (case build_restart_request ex_wire ex_ready 0 ''cra'' 3 ''stall'' of Inr req \<Rightarrow> req | Inl e \<Rightarrow> [])"

lemma ex_restart: "build_restart_request ex_wire ex_ready 0 ''cra'' 3 ''stall'' = Inr ex_restart"
  by (simp add: build_restart_request_def ex_restart_def ex_ready_def dget_def Let_def int_or_0_def py_or_def)

lemma ex_target: "validate_target ex_wire (PDict ex_target) = Inr ex_target"
  by code_simp

lemma ex_readable: "request_readable ex_wire ex_ready ''cra'' 3 ''stall''"
  by code_simp

theorem agent_request_understood_witness:
  "\<exists>q. from_mapping ex_wire ex_restart = Inr q \<and> er_ffmpeg_target q = Some ex_target \<and> er_expected_ffmpeg_generation q = ''g1'' \<and>
     er_request_id q = ''cra-abc''"
proof -
  have i: "request_id_for ex_wire gk = ''cra-abc''" for gk by (simp add: request_id_for_def ex_wire_def)
  have s: "strip (o_ffmpeg_generation ex_ready) = ''g1''" by code_simp
  have "dget (o_raw ex_ready) ''target_identity'' = PDict ex_target" by (simp add: ex_ready_def dget_def)
  with agent_request_understood [OF ex_restart ex_wire_faithful ex_readable, of ex_target] ex_target show ?thesis
    by (simp add: i s) blast
qed

definition ex_request :: "(string \<times> py) list" where
  "ex_request = [(''schema_version'', PStr V2), (''request_id'', PStr ''cra-abc''), (''producer_id'', PStr ''cra''), (''producer_generation'', PInt 3),
     (''intent_type'', PStr ''RESTART_FFMPEG''), (''reason'', PStr ''stall''), (''failure_domain'', PStr ''DELIVERY_PATH''),
     (''issued_at'', PStr ''+1''), (''expires_at'', PStr ''+111''), (''ffmpeg_target_identity'', PDict ex_target),
     (''expected_ffmpeg_generation'', PStr ''g1''), (''idempotency_key'', PStr ''cra-abc''), (''correlation_id'', PStr ''cra-abc''),
     (''target_snapshot_id'', PStr ''s1''), (''runtime_observation_id'', PStr ''o''), (''expected_executor_instance_id'', PStr ''x1''),
     (''maintenance_evidence_status'', PStr ''UNKNOWN'')]"

definition ex_req :: effect_request where
  "ex_req = (case from_mapping ex_wire ex_request of Inr q \<Rightarrow> q | Inl e \<Rightarrow> undefined)"

lemma ex_req: "from_mapping ex_wire ex_request = Inr ex_req"
proof -
  have "case from_mapping ex_wire ex_request of Inr q \<Rightarrow> True | Inl e \<Rightarrow> False" by code_simp
  then show ?thesis by (auto simp: ex_req_def split: sum.splits)
qed

theorem stored_request_reloads_witness:
  "\<exists>q'. from_mapping ex_wire (stored_request ex_req) = Inr q' \<and> request_digest ex_wire q' = request_digest ex_wire ex_req"
  using stored_request_reloads [OF ex_req, of "\<lambda>v. Inr []"] by (auto simp: ex_request_def ex_target_def)

end
