(* ===== verification/Rb_Ledger.thy ===== *)
theory Rb_Ledger
  imports Rb_Protocol
begin

text \<open>
  The durable ledger of the effect executor (\<open>src/src/runtime_boundary/ledger.py\<close>).

  A table is the list of its rows in insertion order. Every operation is one transaction: an exception
  leaves the ledger as it was (\<open>txn\<close>). Of the constraints the schema declares, the primary keys and unique
  columns are checked where a row is inserted (\<open>DatabaseError\<close>). \<open>lg_legacy\<close> is the table of the first
  protocol version, into which nothing is inserted any more. The argument \<open>ts\<close> is the text of the clock
  (\<open>now_text\<close>), one reading per transaction. JSON columns hold normal forms (\<open>jnorm\<close>). Creating tables,
  adding columns and the PRAGMAs are not modelled; the back-filling that runs ts every opening is.
\<close>

section \<open>Tables\<close>

record authority_row =
  au_producer_id :: string
  au_producer_generation :: int
  au_version :: int
  au_high_water :: int
  au_updated_at :: string

record request_row =
  rr_request_id :: string
  rr_idempotency_key :: string
  rr_digest :: string
  rr_correlation_id :: string
  rr_operation :: string
  rr_identity :: py
  rr_request :: py
  rr_state :: string
  rr_result :: "py option"
  rr_accepted_at :: string
  rr_execution_started_at :: "string option"
  rr_finished_at :: "string option"

record fence =
  fe_scope :: string
  fe_logical :: "string option"
  fe_action :: string
  fe_identity :: py
  fe_owner :: string
  fe_owner_digest :: string
  fe_state :: string
  fe_boundary :: bool
  fe_attempts :: int
  fe_result :: "py option"
  fe_created_at :: string
  fe_updated_at :: string

record reconciliation_row =
  rc_id :: string
  rc_scope :: string
  rc_resolution :: string
  rc_evidence :: py
  rc_digest :: string

record ledger =
  lg_authority :: "authority_row option"
  lg_legacy :: "request_row list"
  lg_typed :: "request_row list"
  lg_fences :: "fence list"
  lg_reconciliations :: "reconciliation_row list"
  lg_retirements :: "reconciliation_row list"

definition ledger_empty :: ledger where
  "ledger_empty = \<lparr>lg_authority = None, lg_legacy = [], lg_typed = [], lg_fences = [], lg_reconciliations = [], lg_retirements = []\<rparr>"

type_synonym 'a txn = "ledger \<Rightarrow> ('a \<times> ledger) res"

definition txn :: "'a txn \<Rightarrow> (ledger, 'a) act" where
  "txn f lg = (case f lg of Inl e \<Rightarrow> (Inl e, lg) | Inr (x, lg') \<Rightarrow> (Inr x, lg'))"

definition UNRESOLVED_ROWS :: "string list" where
  "UNRESOLVED_ROWS = [''ACCEPTED'', ''EXECUTION_STARTED'', ''OUTCOME_UNKNOWN'']"

definition UNRESOLVED_FENCES :: "string list" where
  "UNRESOLVED_FENCES = [''ACCEPTED'', ''EXECUTION_STARTED'', ''EFFECT_BOUNDARY_REACHED'', ''OUTCOME_UNKNOWN'', ''EFFECT_OBSERVED_AWAITING_VERIFICATION'']"

definition CLOSED_FENCES :: "string list" where
  "CLOSED_FENCES = [''RECONCILED_EFFECT_OBSERVED'', ''RELEASED_NO_EFFECT'', ''RETIRED_TARGET_OUTCOME_UNKNOWN'']"

section \<open>Queries\<close>

definition authority :: "ledger \<Rightarrow> authority_row res" where
  "authority lg = (case lg_authority lg of None \<Rightarrow> Inl (RuntimeError ''AUTHORITY_MISSING'') | Some a \<Rightarrow> Inr a)"

definition fence_owned :: "ledger \<Rightarrow> string \<Rightarrow> fence option" where
  "fence_owned lg rid = find (\<lambda>f. fe_owner f = rid) (lg_fences lg)"

definition counts_unresolved :: "ledger \<Rightarrow> request_row \<Rightarrow> bool" where
  "counts_unresolved lg r =
     (let f = fence_owned lg (rr_request_id r) in
      (rr_state r \<in> set UNRESOLVED_ROWS \<or>
       rr_state r = ''EFFECT_OBSERVED'' \<and> (case f of None \<Rightarrow> False | Some x \<Rightarrow> fe_state x = ''EFFECT_OBSERVED_AWAITING_VERIFICATION'')) \<and>
      (case f of None \<Rightarrow> True | Some x \<Rightarrow> fe_state x \<notin> set CLOSED_FENCES))"

definition unresolved_count :: "ledger \<Rightarrow> nat" where
  "unresolved_count lg = length (filter (counts_unresolved lg) (lg_legacy lg)) + length (filter (counts_unresolved lg) (lg_typed lg))"

definition raw_unresolved_count :: "ledger \<Rightarrow> nat" where
  "raw_unresolved_count lg = length (filter (\<lambda>r. rr_state r \<in> set UNRESOLVED_ROWS) (lg_legacy lg @ lg_typed lg))"

text \<open>\<open>ORDER BY created_at,effect_scope_id\<close>: sorting is stable.\<close>

definition unresolved_fences :: "ledger \<Rightarrow> fence list" where
  "unresolved_fences lg = sort_key fe_created_at (sort_key fe_scope (filter (\<lambda>f. fe_state f \<in> set UNRESOLVED_FENCES) (lg_fences lg)))"

definition opt_str :: "string option \<Rightarrow> py" where
  "opt_str x = (case x of None \<Rightarrow> PNone | Some s \<Rightarrow> PStr s)"

definition fence_py :: "fence \<Rightarrow> (string \<times> py) list" where
  "fence_py f = [(''effect_scope_id'', PStr (fe_scope f)), (''logical_generation_scope_id'', opt_str (fe_logical f)),
     (''action'', PStr (fe_action f)), (''owner_request_id'', PStr (fe_owner f)), (''owner_request_digest'', PStr (fe_owner_digest f)),
     (''state'', PStr (fe_state f)), (''effect_boundary_reached'', PInt (if fe_boundary f then 1 else 0)),
     (''physical_attempt_count'', PInt (fe_attempts f)), (''created_at'', PStr (fe_created_at f)), (''updated_at'', PStr (fe_updated_at f)),
     (''identity'', fe_identity f)]"

definition unresolved_scopes :: "ledger \<Rightarrow> (string \<times> py) list list" where
  "unresolved_scopes lg = map fence_py (unresolved_fences lg)"

definition ledger_scope :: "ledger \<Rightarrow> string \<Rightarrow> fence option" where
  "ledger_scope lg sid = find (\<lambda>f. fe_scope f = sid) (lg_fences lg)"

definition ledger_request :: "ledger \<Rightarrow> string \<Rightarrow> request_row option" where
  "ledger_request lg rid = (case find (\<lambda>r. rr_request_id r = rid) (lg_typed lg) of
       Some r \<Rightarrow> Some r | None \<Rightarrow> find (\<lambda>r. rr_request_id r = rid) (lg_legacy lg))"

definition opt_result :: "py option \<Rightarrow> py" where
  "opt_result x = (case x of None \<Rightarrow> PNone | Some v \<Rightarrow> v)"

record request_view =
  rv_request_id :: string
  rv_state :: string
  rv_result :: py
  rv_scope_id :: string
  rv_scope_state :: string
  rv_boundary :: bool
  rv_attempts :: int

definition request_status :: "ledger \<Rightarrow> string \<Rightarrow> request_view option" where
  "request_status lg rid = (case ledger_request lg rid of None \<Rightarrow> None | Some r \<Rightarrow>
     Some (case fence_owned lg rid of
         None \<Rightarrow> \<lparr>rv_request_id = rid, rv_state = rr_state r, rv_result = opt_result (rr_result r), rv_scope_id = [],
                   rv_scope_state = ''UNKNOWN'', rv_boundary = False, rv_attempts = 0\<rparr>
       | Some f \<Rightarrow> \<lparr>rv_request_id = rid, rv_state = rr_state r, rv_result = opt_result (rr_result r), rv_scope_id = fe_scope f,
                   rv_scope_state = fe_state f, rv_boundary = fe_boundary f, rv_attempts = fe_attempts f\<rparr>))"

text \<open>\<open>UNION\<close> removes duplicates; \<open>None\<close> when the correlation does not name exactly one request.\<close>

definition correlated_ids :: "ledger \<Rightarrow> string \<Rightarrow> string list" where
  "correlated_ids lg cid = remdups (map rr_request_id (filter (\<lambda>r. rr_correlation_id r = cid) (lg_typed lg @ lg_legacy lg)))"

definition status_by_correlation :: "ledger \<Rightarrow> string \<Rightarrow> (nat \<times> request_view option) res" where
  "status_by_correlation lg cid = (case correlated_ids lg cid of
       [rid] \<Rightarrow> (case request_status lg rid of None \<Rightarrow> Inl (RuntimeError ''CORRELATION_REQUEST_STATUS_MISSING'') | Some v \<Rightarrow> Inr (1, Some v))
     | ids \<Rightarrow> Inr (length ids, None))"

section \<open>Accepting a request\<close>

record accept_answer =
  aa_accepted :: bool
  aa_reason :: string
  aa_state :: string
  aa_replay :: bool
  aa_result :: py
  aa_scope :: "string option"
  aa_owner :: "string option"

definition refused :: "string \<Rightarrow> accept_answer" where
  "refused reason = \<lparr>aa_accepted = False, aa_reason = reason, aa_state = ''REJECTED'', aa_replay = False, aa_result = PNone, aa_scope = None, aa_owner = None\<rparr>"

definition existing_request :: "ledger \<Rightarrow> effect_request \<Rightarrow> request_row option" where
  "existing_request lg q =
     (let same = (\<lambda>r. rr_request_id r = er_request_id q \<or> rr_idempotency_key r = er_idempotency_key q) in
      case find same (lg_legacy lg) of Some r \<Rightarrow> Some r | None \<Rightarrow> find same (lg_typed lg))"

definition replay_answer :: "pylib \<Rightarrow> effect_request \<Rightarrow> request_row \<Rightarrow> accept_answer" where
  "replay_answer lib q r =
     (if rr_digest r \<noteq> request_digest lib q
      then (refused ''IDEMPOTENCY_CONFLICT'')\<lparr>aa_state := rr_state r, aa_replay := True\<rparr>
      else \<lparr>aa_accepted = (rr_state r = ''ACCEPTED''), aa_reason = ''IDEMPOTENT_REPLAY'', aa_state = rr_state r, aa_replay = True,
             aa_result = opt_result (rr_result r), aa_scope = None, aa_owner = None\<rparr>)"

definition claimed_scope :: "pylib \<Rightarrow> (py \<Rightarrow> string res) \<Rightarrow> ledger \<Rightarrow> effect_request \<Rightarrow> fence option res" where
  "claimed_scope lib rfc lg q =
     bindE (logical_generation_scope_id lib rfc q) (\<lambda>logical.
     case (case logical of None \<Rightarrow> None | Some l \<Rightarrow> find (\<lambda>f. fe_logical f = Some l) (lg_fences lg)) of
       Some f \<Rightarrow> Inr (Some f)
     | None \<Rightarrow> bindE (effect_scope_id lib rfc q) (\<lambda>sid. Inr (ledger_scope lg sid)))"

definition held_answer :: "string \<Rightarrow> fence \<Rightarrow> accept_answer" where
  "held_answer reason f = \<lparr>aa_accepted = False, aa_reason = reason, aa_state = fe_state f, aa_replay = True, aa_result = opt_result (fe_result f),
     aa_scope = Some (fe_scope f), aa_owner = Some (fe_owner f)\<rparr>"

definition new_row :: "pylib \<Rightarrow> effect_request \<Rightarrow> string \<Rightarrow> request_row" where
  "new_row lib q ts = \<lparr>rr_request_id = er_request_id q, rr_idempotency_key = er_idempotency_key q, rr_digest = request_digest lib q,
     rr_correlation_id = rc_correlation_id (er_common q), rr_operation = operation q, rr_identity = jnorm (PDict (fence_identity q)),
     rr_request = PDict (stored_request q), rr_state = ''ACCEPTED'', rr_result = None, rr_accepted_at = ts,
     rr_execution_started_at = None, rr_finished_at = None\<rparr>"

definition new_fence :: "pylib \<Rightarrow> effect_request \<Rightarrow> string \<Rightarrow> string option \<Rightarrow> string \<Rightarrow> fence" where
  "new_fence lib q sid logical ts = \<lparr>fe_scope = sid, fe_logical = logical, fe_action = operation q,
     fe_identity = jnorm (PDict (fence_identity q)), fe_owner = er_request_id q, fe_owner_digest = request_digest lib q,
     fe_state = ''ACCEPTED'', fe_boundary = False, fe_attempts = 0, fe_result = None, fe_created_at = ts, fe_updated_at = ts\<rparr>"

definition insert_row :: "request_row \<Rightarrow> ledger \<Rightarrow> ledger res" where
  "insert_row r lg =
     (if \<exists>x \<in> set (lg_typed lg). rr_request_id x = rr_request_id r \<or> rr_idempotency_key x = rr_idempotency_key r then Inl DatabaseError
      else Inr (lg\<lparr>lg_typed := lg_typed lg @ [r]\<rparr>))"

definition fence_clash :: "fence \<Rightarrow> fence \<Rightarrow> bool" where
  "fence_clash f x \<longleftrightarrow> fe_scope x = fe_scope f \<or> fe_owner x = fe_owner f \<or> (fe_logical f \<noteq> None \<and> fe_logical x = fe_logical f)"

definition insert_fence :: "fence \<Rightarrow> ledger \<Rightarrow> ledger res" where
  "insert_fence f lg = (if \<exists>x \<in> set (lg_fences lg). fence_clash f x then Inl DatabaseError else Inr (lg\<lparr>lg_fences := lg_fences lg @ [f]\<rparr>))"

definition raise_high_water :: "int \<Rightarrow> string \<Rightarrow> ledger \<Rightarrow> ledger" where
  "raise_high_water n ts lg = lg\<lparr>lg_authority := map_option (\<lambda>a. a\<lparr>au_high_water := max (au_high_water a) n, au_updated_at := ts\<rparr>) (lg_authority lg)\<rparr>"

definition claim_scope :: "pylib \<Rightarrow> (py \<Rightarrow> string res) \<Rightarrow> effect_request \<Rightarrow> string \<Rightarrow> accept_answer txn" where
  "claim_scope lib rfc q ts lg =
     bindE (insert_row (new_row lib q ts) lg) (\<lambda>lg1.
     bindE (effect_scope_id lib rfc q) (\<lambda>sid. bindE (logical_generation_scope_id lib rfc q) (\<lambda>logical.
     bindE (insert_fence (new_fence lib q sid logical ts) lg1) (\<lambda>lg2.
     Inr (\<lparr>aa_accepted = True, aa_reason = ''ACCEPTED_DURABLE'', aa_state = ''ACCEPTED'', aa_replay = False, aa_result = PNone,
            aa_scope = Some sid, aa_owner = None\<rparr>, raise_high_water (rc_projection_sequence (er_common q)) ts lg2)))))"

definition accept_new :: "pylib \<Rightarrow> (py \<Rightarrow> string res) \<Rightarrow> effect_request \<Rightarrow> string \<Rightarrow> accept_answer txn" where
  "accept_new lib rfc q ts lg =
     bindE (claimed_scope lib rfc lg q) (\<lambda>scope. case scope of
       Some f \<Rightarrow> bindE (effect_scope_id lib rfc q) (\<lambda>sid.
         Inr (held_answer (if fe_scope f = sid then ''EFFECT_SCOPE_ALREADY_CLAIMED'' else ''LOGICAL_GENERATION_PID_INVARIANT_BROKEN'') f, lg))
     | None \<Rightarrow> (case unresolved_fences lg of
           f # _ \<Rightarrow> Inr (held_answer ''TARGET_EFFECT_UNRESOLVED'' f, lg)
         | [] \<Rightarrow> claim_scope lib rfc q ts lg))"

definition accept :: "pylib \<Rightarrow> (py \<Rightarrow> string res) \<Rightarrow> effect_request \<Rightarrow> string \<Rightarrow> accept_answer txn" where
  "accept lib rfc q ts lg =
     bindE (authority lg) (\<lambda>a. case existing_request lg q of
       Some r \<Rightarrow> Inr (replay_answer lib q r, lg)
     | None \<Rightarrow>
         if au_producer_id a \<noteq> rc_producer_id (er_common q) then Inr (refused ''PRODUCER_NOT_ACTIVE'', lg)
         else if au_producer_generation a \<noteq> rc_producer_generation (er_common q) then Inr (refused ''PRODUCER_GENERATION_MISMATCH'', lg)
         else accept_new lib rfc q ts lg)"

section \<open>State changes\<close>

definition moved_row :: "string \<Rightarrow> py option \<Rightarrow> string \<Rightarrow> request_row \<Rightarrow> request_row" where
  "moved_row st result ts r =
     (let r' = r\<lparr>rr_state := st, rr_result := result\<rparr> in
      if st = ''EXECUTION_STARTED'' then r'\<lparr>rr_execution_started_at := Some ts\<rparr> else r'\<lparr>rr_finished_at := Some ts\<rparr>)"

definition update_where :: "('a \<Rightarrow> bool) \<Rightarrow> ('a \<Rightarrow> 'a) \<Rightarrow> 'a list \<Rightarrow> 'a list" where
  "update_where P f xs = map (\<lambda>x. if P x then f x else x) xs"

definition moved_fence :: "string \<Rightarrow> py option \<Rightarrow> string \<Rightarrow> fence \<Rightarrow> fence" where
  "moved_fence st result ts f = f\<lparr>fe_state := st, fe_result := (case result of None \<Rightarrow> fe_result f | Some v \<Rightarrow> Some v), fe_updated_at := ts\<rparr>"

definition transition ::
    "string \<Rightarrow> string \<Rightarrow> string \<Rightarrow> (string \<times> py) list option \<Rightarrow> string option \<Rightarrow> string \<Rightarrow> bool txn" where
  "transition rid expected st result scope_state ts lg =
     (let encoded = map_option (\<lambda>xs. jnorm (PDict xs)) result;
          hit = (\<lambda>r. rr_request_id r = rid \<and> rr_state r = expected);
          in_typed = list_ex hit (lg_typed lg);
          updated = (in_typed \<or> list_ex hit (lg_legacy lg));
          lg1 = (if in_typed then lg\<lparr>lg_typed := update_where hit (moved_row st encoded ts) (lg_typed lg)\<rparr>
                 else lg\<lparr>lg_legacy := update_where hit (moved_row st encoded ts) (lg_legacy lg)\<rparr>);
          fence_state = (case scope_state of Some s \<Rightarrow> if s \<noteq> [] then s else st | None \<Rightarrow> st) in
      Inr (updated, if updated
        then lg1\<lparr>lg_fences := update_where (\<lambda>f. fe_owner f = rid) (moved_fence fence_state encoded ts) (lg_fences lg)\<rparr> else lg))"

definition at_boundary :: "string \<Rightarrow> fence \<Rightarrow> bool" where
  "at_boundary rid f \<longleftrightarrow> fe_owner f = rid \<and> fe_state f = ''EXECUTION_STARTED'' \<and> \<not> fe_boundary f \<and> fe_attempts f = 0"

definition mark_effect_boundary :: "string \<Rightarrow> string \<Rightarrow> bool txn" where
  "mark_effect_boundary rid ts lg =
     Inr (length (filter (at_boundary rid) (lg_fences lg)) = 1,
       lg\<lparr>lg_fences := update_where (at_boundary rid)
         (\<lambda>f. f\<lparr>fe_state := ''EFFECT_BOUNDARY_REACHED'', fe_boundary := True, fe_attempts := 1, fe_updated_at := ts\<rparr>) (lg_fences lg)\<rparr>)"

definition unknown_row :: "string \<Rightarrow> request_row \<Rightarrow> request_row" where
  "unknown_row ts r = r\<lparr>rr_state := ''OUTCOME_UNKNOWN'', rr_finished_at := Some ts\<rparr>"

definition reconcile_started :: "string \<Rightarrow> nat txn" where
  "reconcile_started ts lg =
     (let started = (\<lambda>r. rr_state r = ''EXECUTION_STARTED'');
          legacy = update_where started (unknown_row ts) (lg_legacy lg);
          typed = update_where started (unknown_row ts) (lg_typed lg);
          unknown = map rr_request_id (filter (\<lambda>r. rr_state r = ''OUTCOME_UNKNOWN'') (typed @ legacy)) in
      Inr (length (filter started (lg_legacy lg)) + length (filter started (lg_typed lg)),
        lg\<lparr>lg_legacy := legacy, lg_typed := typed,
           lg_fences := update_where (\<lambda>f. fe_owner f \<in> set unknown \<and> fe_state f \<in> {''ACCEPTED'', ''EXECUTION_STARTED'', ''EFFECT_BOUNDARY_REACHED''})
             (\<lambda>f. f\<lparr>fe_state := ''OUTCOME_UNKNOWN'', fe_updated_at := ts\<rparr>) (lg_fences lg)\<rparr>))"

record handoff_decision =
  hd_accepted :: bool
  hd_reason :: string
  hd_producer_id :: string
  hd_producer_generation :: int
  hd_version :: int

definition handoff_of :: "bool \<Rightarrow> string \<Rightarrow> authority_row \<Rightarrow> handoff_decision" where
  "handoff_of ok reason a = \<lparr>hd_accepted = ok, hd_reason = reason, hd_producer_id = au_producer_id a,
     hd_producer_generation = au_producer_generation a, hd_version = au_version a\<rparr>"

definition switch_authority :: "string \<Rightarrow> int \<Rightarrow> string \<Rightarrow> int \<Rightarrow> string \<Rightarrow> handoff_decision txn" where
  "switch_authority expected_id expected_generation new_id new_generation ts lg =
     bindE (authority lg) (\<lambda>a.
     if au_producer_id a \<noteq> expected_id \<or> au_producer_generation a \<noteq> expected_generation then Inr (handoff_of False ''EXPECTED_AUTHORITY_MISMATCH'' a, lg)
     else if unresolved_count lg \<noteq> 0 then Inr (handoff_of False ''UNRESOLVED_EXECUTION_EXISTS'' a, lg)
     else bindE (requireE (new_generation > 0) DatabaseError) (\<lambda>_.
       let b = a\<lparr>au_producer_id := new_id, au_producer_generation := new_generation, au_version := au_version a + 1, au_updated_at := ts\<rparr> in
       Inr (handoff_of True ''AUTHORITY_SWITCHED'' b, lg\<lparr>lg_authority := Some b\<rparr>)))"

section \<open>Reconciliation\<close>

definition recorded :: "bool \<Rightarrow> string \<Rightarrow> string \<Rightarrow> string \<Rightarrow> string \<Rightarrow> (string \<times> py) list" where
  "recorded replay rid sid resolution digest = [(''recorded'', PBool True), (''replay'', PBool replay), (''reconciliation_id'', PStr rid),
     (''effect_scope_id'', PStr sid), (''resolution'', PStr resolution), (''evidence_digest'', PStr digest)]"

definition evidence_digest :: "pylib \<Rightarrow> (string \<times> py) list \<Rightarrow> string" where
  "evidence_digest lib evidence = l_sha lib (jnorm (PDict evidence))"

text \<open>\<open>int(evidence.get("physical_effect_count", -1))\<close>.\<close>

definition effect_count :: "(string \<times> py) list \<Rightarrow> int res" where
  "effect_count evidence = (case map_of evidence ''physical_effect_count'' of None \<Rightarrow> Inr (- 1) | Some v \<Rightarrow> py_int v)"

definition effect_count_is :: "(string \<times> py) list \<Rightarrow> bool \<Rightarrow> int \<Rightarrow> string \<Rightarrow> unit res" where
  "effect_count_is evidence applies n why =
     (if applies then bindE (effect_count evidence) (\<lambda>k. requireE (k = n) (ValueError why)) else Inr ())"

definition owner_matches :: "string option \<Rightarrow> string option \<Rightarrow> fence \<Rightarrow> unit res" where
  "owner_matches owner digest f =
     bindE (requireE (case owner of None \<Rightarrow> True | Some x \<Rightarrow> fe_owner f = x) (ValueError ''RECONCILIATION_OWNER_REQUEST_MISMATCH'')) (\<lambda>_.
     requireE (case digest of None \<Rightarrow> True | Some x \<Rightarrow> fe_owner_digest f = x) (ValueError ''RECONCILIATION_OWNER_DIGEST_MISMATCH''))"

definition reconciled_fence :: "string \<Rightarrow> py \<Rightarrow> string \<Rightarrow> fence \<Rightarrow> fence" where
  "reconciled_fence resolution encoded ts f =
     (if resolution = ''EFFECT_OBSERVED''
      then f\<lparr>fe_state := ''RECONCILED_EFFECT_OBSERVED'', fe_boundary := True, fe_attempts := 1, fe_result := Some encoded, fe_updated_at := ts\<rparr>
      else if resolution = ''NO_EFFECT_PROVEN''
      then f\<lparr>fe_state := ''RELEASED_NO_EFFECT'', fe_boundary := False, fe_attempts := 0, fe_result := Some encoded, fe_updated_at := ts\<rparr>
      else f)"

definition record_reconciliation ::
    "pylib \<Rightarrow> string \<Rightarrow> string \<Rightarrow> string \<Rightarrow> (string \<times> py) list \<Rightarrow> string option \<Rightarrow> string option \<Rightarrow> string \<Rightarrow> (string \<times> py) list txn" where
  "record_reconciliation lib rid sid resolution evidence owner owner_digest ts lg =
     bindE (requireE (resolution \<in> {''EFFECT_OBSERVED'', ''NO_EFFECT_PROVEN'', ''REMAINS_UNKNOWN''}) (ValueError ''unsupported effect reconciliation resolution'')) (\<lambda>_.
     let digest = evidence_digest lib evidence; encoded = jnorm (PDict evidence) in
     case find (\<lambda>r. rc_id r = rid) (lg_reconciliations lg) of
       Some r \<Rightarrow> bindE (requireE (rc_scope r = sid \<and> rc_resolution r = resolution \<and> rc_digest r = digest) (ValueError ''RECONCILIATION_ID_CONFLICT'')) (\<lambda>_.
         Inr (recorded True rid sid resolution digest, lg))
     | None \<Rightarrow> (case ledger_scope lg sid of
         None \<Rightarrow> Inl (ValueError ''effect scope is not present'')
       | Some f \<Rightarrow> bindE (owner_matches owner owner_digest f) (\<lambda>_.
           bindE (requireE (\<not> (resolution \<in> {''EFFECT_OBSERVED'', ''NO_EFFECT_PROVEN''} \<and> fe_state f \<notin> set UNRESOLVED_FENCES)) (ValueError ''RECONCILIATION_SCOPE_ALREADY_RESOLVED'')) (\<lambda>_.
           bindE (effect_count_is evidence (resolution = ''NO_EFFECT_PROVEN'') 0 ''NO_EFFECT_PROVEN requires physical_effect_count=0 evidence'') (\<lambda>_.
           bindE (effect_count_is evidence (resolution = ''EFFECT_OBSERVED'') 1 ''EFFECT_OBSERVED requires physical_effect_count=1 evidence'') (\<lambda>_.
           Inr (recorded False rid sid resolution digest,
             lg\<lparr>lg_reconciliations := lg_reconciliations lg @ [\<lparr>rc_id = rid, rc_scope = sid, rc_resolution = resolution, rc_evidence = encoded, rc_digest = digest\<rparr>],
                lg_fences := update_where (\<lambda>x. fe_scope x = sid) (reconciled_fence resolution encoded ts) (lg_fences lg)\<rparr>)))))))"

definition retirement_states :: "(string \<times> py) list \<Rightarrow> string list" where
  "retirement_states evidence =
     (if dget evidence ''physical_effect_outcome'' = PStr ''EFFECT_OBSERVED'' then [''EFFECT_OBSERVED_AWAITING_VERIFICATION'']
      else [''EFFECT_BOUNDARY_REACHED'', ''EXECUTION_STARTED'', ''OUTCOME_UNKNOWN''])"

definition record_target_retirement ::
    "pylib \<Rightarrow> string \<Rightarrow> string \<Rightarrow> (string \<times> py) list \<Rightarrow> string \<Rightarrow> string \<Rightarrow> string \<Rightarrow> (string \<times> py) list txn" where
  "record_target_retirement lib rid sid evidence owner owner_digest ts lg =
     (let digest = evidence_digest lib evidence; encoded = jnorm (PDict evidence) in
      case find (\<lambda>r. rc_id r = rid) (lg_retirements lg) of
        Some r \<Rightarrow> bindE (requireE (rc_scope r = sid \<and> rc_digest r = digest) (ValueError ''RECONCILIATION_ID_CONFLICT'')) (\<lambda>_.
          Inr (recorded True rid sid ''TARGET_RETIRED'' digest, lg))
      | None \<Rightarrow> (case ledger_scope lg sid of
          None \<Rightarrow> Inl (ValueError ''effect scope is not present'')
        | Some f \<Rightarrow> bindE (owner_matches (Some owner) (Some owner_digest) f) (\<lambda>_.
            bindE (requireE (fe_state f \<in> set (retirement_states evidence)) (ValueError ''RECONCILIATION_SCOPE_ALREADY_RESOLVED'')) (\<lambda>_.
            bindE (requireE (fe_attempts f = 1) (ValueError ''TARGET_RETIREMENT_REQUIRES_ONE_PHYSICAL_ATTEMPT'')) (\<lambda>_.
            bindE (requireE (\<forall>r \<in> set (lg_retirements lg). rc_scope r \<noteq> sid) DatabaseError) (\<lambda>_.
            Inr (recorded False rid sid ''TARGET_RETIRED'' digest,
              lg\<lparr>lg_retirements := lg_retirements lg @ [\<lparr>rc_id = rid, rc_scope = sid, rc_resolution = ''TARGET_RETIRED'', rc_evidence = encoded, rc_digest = digest\<rparr>],
                 lg_fences := update_where (\<lambda>x. fe_scope x = sid)
                   (\<lambda>x. x\<lparr>fe_state := ''RETIRED_TARGET_OUTCOME_UNKNOWN'', fe_boundary := True, fe_attempts := 1, fe_result := Some encoded, fe_updated_at := ts\<rparr>) (lg_fences lg)\<rparr>)))))))"

section \<open>Opening the ledger\<close>

record candidate =
  cd_scope :: string
  cd_action :: string
  cd_identity :: py
  cd_owner :: string
  cd_owner_digest :: string
  cd_boundary :: bool
  cd_result :: "py option"
  cd_state :: string

definition candidate_of :: "request_row \<Rightarrow> string \<Rightarrow> py \<Rightarrow> candidate" where
  "candidate_of r sid identity = \<lparr>cd_scope = sid, cd_action = rr_operation r, cd_identity = identity, cd_owner = rr_request_id r,
     cd_owner_digest = rr_digest r, cd_boundary = (rr_state r \<noteq> ''ACCEPTED''), cd_result = rr_result r, cd_state = rr_state r\<rparr>"

text \<open>A typed row whose request cannot be read is skipped; the scope is computed outside the \<open>try\<close>.\<close>

definition typed_candidate :: "pylib \<Rightarrow> (py \<Rightarrow> string res) \<Rightarrow> request_row \<Rightarrow> candidate list res" where
  "typed_candidate lib rfc r =
     (case (case rr_request r of PDict xs \<Rightarrow> from_mapping lib xs | _ \<Rightarrow> Inl TypeError) of
        Inl e \<Rightarrow> if e \<in> {KeyError, TypeError} \<or> is_value_error e then Inr [] else Inl e
      | Inr q \<Rightarrow> bindE (effect_scope_id lib rfc q) (\<lambda>sid. Inr [candidate_of r sid (rr_identity r)]))"

definition legacy_candidate :: "pylib \<Rightarrow> (py \<Rightarrow> string res) \<Rightarrow> request_row \<Rightarrow> candidate list res" where
  "legacy_candidate lib rfc r =
     (case (case rr_identity r of PDict xs \<Rightarrow> exact_scope_of lib rfc ''restart_ffmpeg'' xs | _ \<Rightarrow> Inl TypeError) of
        Inl e \<Rightarrow> if e = TypeError \<or> is_value_error e then Inr [] else Inl e
      | Inr sid \<Rightarrow> Inr [candidate_of r sid (rr_identity r)])"

text \<open>\<open>INSERT OR IGNORE\<close>, then the mark that the scope is used up.\<close>

definition fence_of_candidate :: "candidate \<Rightarrow> string \<Rightarrow> fence" where
  "fence_of_candidate c ts = \<lparr>fe_scope = cd_scope c, fe_logical = None, fe_action = cd_action c, fe_identity = cd_identity c,
     fe_owner = cd_owner c, fe_owner_digest = cd_owner_digest c, fe_state = cd_state c, fe_boundary = cd_boundary c,
     fe_attempts = (if cd_boundary c then 1 else 0), fe_result = cd_result c, fe_created_at = ts, fe_updated_at = ts\<rparr>"

definition used_up :: "string \<Rightarrow> fence \<Rightarrow> fence" where
  "used_up ts f = f\<lparr>fe_boundary := True, fe_attempts := 1,
     fe_state := (if fe_state f = ''ACCEPTED'' then ''OUTCOME_UNKNOWN'' else fe_state f), fe_updated_at := ts\<rparr>"

definition add_candidate :: "string \<Rightarrow> fence list \<Rightarrow> candidate \<Rightarrow> fence list" where
  "add_candidate ts fs c =
     (let f = fence_of_candidate c ts; fs1 = (if list_ex (fence_clash f) fs then fs else fs @ [f]) in
      if cd_boundary c then update_where (\<lambda>x. fe_scope x = cd_scope c) (used_up ts) fs1 else fs1)"

definition backfill_effect_scope_fences :: "pylib \<Rightarrow> (py \<Rightarrow> string res) \<Rightarrow> string \<Rightarrow> unit txn" where
  "backfill_effect_scope_fences lib rfc ts lg =
     bindE (mapE (typed_candidate lib rfc) (sort_key rr_accepted_at (lg_typed lg))) (\<lambda>typed.
     bindE (mapE (legacy_candidate lib rfc) (sort_key rr_accepted_at (lg_legacy lg))) (\<lambda>legacy.
     Inr ((), lg\<lparr>lg_fences := fold (\<lambda>c fs. add_candidate ts fs c) (concat typed @ concat legacy) (lg_fences lg)\<rparr>)))"

text \<open>The logical scope of a fence, \<open>None\<close> where it is skipped.\<close>

definition logical_of_fence :: "pylib \<Rightarrow> (py \<Rightarrow> string res) \<Rightarrow> fence \<Rightarrow> string option res" where
  "logical_of_fence lib rfc f =
     (if fe_action f \<notin> {''restart_ffmpeg'', ''switch_stream_route''} then Inr None
      else (case (case fe_identity f of PDict xs \<Rightarrow> logical_scope_of lib rfc ''restart_ffmpeg'' xs | _ \<Rightarrow> Inl TypeError) of
          Inl e \<Rightarrow> if e \<in> {KeyError, TypeError} \<or> is_value_error e then Inr None else Inl e
        | Inr l \<Rightarrow> Inr (Some l)))"

fun plan_logical :: "pylib \<Rightarrow> (py \<Rightarrow> string res) \<Rightarrow> (string \<times> string \<times> py) list \<Rightarrow> fence list \<Rightarrow> (string \<times> string) list res" where
  "plan_logical lib rfc owners [] = Inr []"
| "plan_logical lib rfc owners (f # fs) =
     bindE (logical_of_fence lib rfc f) (\<lambda>l. case l of
       None \<Rightarrow> plan_logical lib rfc owners fs
     | Some logical \<Rightarrow>
         if (case map_of owners logical of None \<Rightarrow> False | Some owner \<Rightarrow> owner \<noteq> (fe_scope f, jnorm (fe_identity f)))
         then Inl (RuntimeError ''RUNTIME_LOGICAL_GENERATION_PID_INVARIANT_BROKEN'')
         else bindE (plan_logical lib rfc (aset logical (fe_scope f, jnorm (fe_identity f)) owners) fs) (\<lambda>rest. Inr ((logical, fe_scope f) # rest)))"

definition give_logical :: "fence list \<Rightarrow> string \<times> string \<Rightarrow> fence list" where
  "give_logical fs p = (case p of (logical, sid) \<Rightarrow>
     update_where (\<lambda>f. fe_scope f = sid \<and> fe_logical f = None) (\<lambda>f. f\<lparr>fe_logical := Some logical\<rparr>) fs)"

definition backfill_logical_generation_scopes :: "pylib \<Rightarrow> (py \<Rightarrow> string res) \<Rightarrow> unit txn" where
  "backfill_logical_generation_scopes lib rfc lg =
     bindE (plan_logical lib rfc [] (sort_key fe_created_at (sort_key fe_scope (lg_fences lg)))) (\<lambda>planned.
     Inr ((), lg\<lparr>lg_fences := fold (\<lambda>p fs. give_logical fs p) planned (lg_fences lg)\<rparr>))"

definition logical_scopes :: "ledger \<Rightarrow> string list" where
  "logical_scopes lg = concat (map (\<lambda>f. case fe_logical f of None \<Rightarrow> [] | Some l \<Rightarrow> [l]) (lg_fences lg))"

definition initial_authority :: "string \<Rightarrow> int \<Rightarrow> string \<Rightarrow> unit txn" where
  "initial_authority producer_id generation ts lg = (case lg_authority lg of
       Some a \<Rightarrow> Inr ((), lg)
     | None \<Rightarrow> Inr ((), if generation > 0 then lg\<lparr>lg_authority := Some \<lparr>au_producer_id = producer_id, au_producer_generation = generation,
         au_version = 1, au_high_water = 0, au_updated_at = ts\<rparr>\<rparr> else lg))"

text \<open>\<open>INSERT OR IGNORE\<close> also ignores a row the CHECK constraint refuses. The statements of the opening commit one by one.\<close>

definition open_ledger :: "pylib \<Rightarrow> (py \<Rightarrow> string res) \<Rightarrow> string \<Rightarrow> int \<Rightarrow> string \<Rightarrow> (ledger, nat) act" where
  "open_ledger lib rfc producer_id generation ts =
     bindS (txn (initial_authority producer_id generation ts)) (\<lambda>_.
     bindS (txn (backfill_effect_scope_fences lib rfc ts)) (\<lambda>_.
     bindS (txn (backfill_logical_generation_scopes lib rfc)) (\<lambda>_.
     bindS (txn (\<lambda>lg. bindE (requireE (distinct (logical_scopes lg)) DatabaseError) (\<lambda>_. Inr ((), lg)))) (\<lambda>_.
     txn (reconcile_started ts)))))"

end
