(* ===== verification/Rb_Ledger_Laws.thy ===== *)
theory Rb_Ledger_Laws
  imports Rb_Ledger
begin

text \<open>
  The laws of the executor's ledger: the invariant of its tables, and what every transaction of the executor
  keeps (\<open>ledger_step\<close>): rows and fences never disappear, a request that left \<open>ACCEPTED\<close> never returns to
  it, and a fence whose boundary was reached stays so.
\<close>

section \<open>The invariant\<close>

definition fence_for :: "pylib \<Rightarrow> (py \<Rightarrow> string res) \<Rightarrow> effect_request \<Rightarrow> fence \<Rightarrow> bool" where
  "fence_for lib rfc q f \<longleftrightarrow> fe_owner f = er_request_id q \<and> effect_scope_id lib rfc q = Inr (fe_scope f) \<and>
     logical_generation_scope_id lib rfc q = Inr (fe_logical f)"

definition fence_ok :: "fence \<Rightarrow> bool" where
  "fence_ok f \<longleftrightarrow> fe_attempts f = (if fe_boundary f then 1 else 0) \<and> (fe_action f \<in> {''restart_ffmpeg'', ''switch_stream_route''} \<longrightarrow> fe_logical f \<noteq> None)"

definition logicals :: "fence list \<Rightarrow> string list" where
  "logicals fs = concat (map (\<lambda>f. case fe_logical f of None \<Rightarrow> [] | Some l \<Rightarrow> [l]) fs)"

definition fences_wf :: "fence list \<Rightarrow> bool" where
  "fences_wf fs \<longleftrightarrow> distinct (map fe_owner fs) \<and> distinct (map fe_scope fs) \<and> distinct (logicals fs) \<and> list_all fence_ok fs"

definition row_backed :: "pylib \<Rightarrow> (py \<Rightarrow> string res) \<Rightarrow> fence list \<Rightarrow> request_row \<Rightarrow> bool" where
  "row_backed lib rfc fs r \<longleftrightarrow> (\<exists>q. wf_request lib q \<and> rr_request_id r = er_request_id q \<and> rr_digest r = request_digest lib q \<and>
     rr_request r = PDict (stored_request q) \<and> (\<exists>f \<in> set fs. fence_for lib rfc q f))"

definition ledger_wf :: "pylib \<Rightarrow> (py \<Rightarrow> string res) \<Rightarrow> ledger \<Rightarrow> bool" where
  "ledger_wf lib rfc lg \<longleftrightarrow> lg_legacy lg = [] \<and> fences_wf (lg_fences lg) \<and> distinct (map rr_request_id (lg_typed lg)) \<and>
     (\<forall>r \<in> set (lg_typed lg). row_backed lib rfc (lg_fences lg) r)"

lemma ledger_wf_empty: "ledger_wf lib rfc ledger_empty"
  by (simp add: ledger_wf_def ledger_empty_def fences_wf_def logicals_def)

text \<open>SHA-256 has no known collisions; the digest identifies what was hashed.\<close>

definition collision_free :: "pylib \<Rightarrow> bool" where
  "collision_free lib \<longleftrightarrow> inj (l_sha lib)"

lemma same_digest:
  assumes "collision_free lib" and "wf_request lib q" and "wf_request lib p" and "request_digest lib q = request_digest lib p"
  shows "er_request_id q = er_request_id p" and "fence_for lib rfc q f = fence_for lib rfc p f"
proof -
  have "jnorm (PDict (canonical_request q)) = jnorm (PDict (canonical_request p))"
    using assms(1,4) by (auto simp: collision_free_def request_digest_def dest: injD)
  then have "stored_request q = stored_request p" by (simp only: stored_request_def)
  then have r: "reloaded q = reloaded p" using from_stored [OF assms(2)] from_stored [OF assms(3)] by simp
  have c: "er_common q = er_common p" using reloaded_fields(4) [of q] reloaded_fields(4) [of p] by (simp add: r)
  then show "er_request_id q = er_request_id p" by simp
  have "effect_scope_id lib rfc q = effect_scope_id lib rfc p" "logical_generation_scope_id lib rfc q = logical_generation_scope_id lib rfc p"
    using reloaded_same(1,2) [of lib rfc q] reloaded_same(1,2) [of lib rfc p] by (simp_all add: r)
  with c show "fence_for lib rfc q f = fence_for lib rfc p f" by (simp add: fence_for_def)
qed

section \<open>What is kept\<close>

definition left_accepted :: "string \<Rightarrow> ledger \<Rightarrow> bool" where
  "left_accepted rid lg \<longleftrightarrow> (\<exists>r \<in> set (lg_typed lg). rr_request_id r = rid) \<and>
     (\<forall>r \<in> set (lg_typed lg). rr_request_id r = rid \<longrightarrow> rr_state r \<noteq> ''ACCEPTED'')"

definition row_known :: "string \<Rightarrow> string \<Rightarrow> ledger \<Rightarrow> bool" where
  "row_known rid digest lg \<longleftrightarrow> (\<exists>r \<in> set (lg_typed lg). rr_request_id r = rid \<and> rr_digest r = digest)"

definition fence_kept :: "fence \<Rightarrow> fence \<Rightarrow> bool" where
  "fence_kept f g \<longleftrightarrow> fe_scope g = fe_scope f \<and> fe_owner g = fe_owner f \<and> fe_logical g = fe_logical f \<and> (fe_boundary f \<longrightarrow> fe_boundary g)"

definition ledger_mono :: "ledger \<Rightarrow> ledger \<Rightarrow> bool" where
  "ledger_mono lg lg' \<longleftrightarrow> (\<forall>rid. left_accepted rid lg \<longrightarrow> left_accepted rid lg') \<and> (\<forall>rid d. row_known rid d lg \<longrightarrow> row_known rid d lg') \<and>
     (\<forall>f \<in> set (lg_fences lg). \<exists>g \<in> set (lg_fences lg'). fence_kept f g)"

definition ledger_step :: "pylib \<Rightarrow> (py \<Rightarrow> string res) \<Rightarrow> ledger \<Rightarrow> ledger \<Rightarrow> bool" where
  "ledger_step lib rfc lg lg' \<longleftrightarrow> (ledger_wf lib rfc lg \<longrightarrow> ledger_wf lib rfc lg' \<and> ledger_mono lg lg')"

lemma fence_kept_refl [simp]: "fence_kept f f" by (simp add: fence_kept_def)

lemma fence_kept_trans: "fence_kept f g \<Longrightarrow> fence_kept g h \<Longrightarrow> fence_kept f h" by (simp add: fence_kept_def)

lemma ledger_mono_refl [simp]: "ledger_mono lg lg" unfolding ledger_mono_def by (auto intro: fence_kept_refl)

lemma ledger_mono_trans: "ledger_mono a b \<Longrightarrow> ledger_mono b c \<Longrightarrow> ledger_mono a c"
  unfolding ledger_mono_def by (meson fence_kept_trans)

lemma ledger_step_refl [simp]: "ledger_step lib rfc lg lg" by (simp add: ledger_step_def)

lemma ledger_step_trans: "ledger_step lib rfc a b \<Longrightarrow> ledger_step lib rfc b c \<Longrightarrow> ledger_step lib rfc a c"
  unfolding ledger_step_def by (meson ledger_mono_trans)

text \<open>Updates of fences that keep their keys, and of rows that keep theirs.\<close>

definition fence_update :: "(fence \<Rightarrow> fence) \<Rightarrow> bool" where
  "fence_update g \<longleftrightarrow> (\<forall>f. fence_kept f (g f) \<and> fe_action (g f) = fe_action f \<and> (fence_ok f \<longrightarrow> fence_ok (g f)))"

definition row_update :: "(request_row \<Rightarrow> request_row) \<Rightarrow> bool" where
  "row_update h \<longleftrightarrow> (\<forall>r. rr_request_id (h r) = rr_request_id r \<and> rr_digest (h r) = rr_digest r \<and> rr_request (h r) = rr_request r \<and>
     (rr_state r \<noteq> ''ACCEPTED'' \<longrightarrow> rr_state (h r) \<noteq> ''ACCEPTED''))"

lemma fence_for_kept: "fence_kept f g \<Longrightarrow> fence_for lib rfc q g = fence_for lib rfc q f"
  by (simp add: fence_kept_def fence_for_def)

text \<open>A conditional update is a map of one function.\<close>

definition upd :: "('a \<Rightarrow> bool) \<Rightarrow> ('a \<Rightarrow> 'a) \<Rightarrow> 'a \<Rightarrow> 'a" where
  "upd P f x = (if P x then f x else x)"

lemma update_where_upd: "update_where P f = map (upd P f)"
  by (simp add: update_where_def upd_def fun_eq_iff)

lemma row_update_upd: "row_update h \<Longrightarrow> row_update (upd P h)"
  by (simp add: row_update_def upd_def)

lemma fence_update_upd: "fence_update g \<Longrightarrow> fence_update (upd P g)"
  by (simp add: fence_update_def upd_def)

lemma logicals_map: "map fe_logical fs = map fe_logical gs \<Longrightarrow> logicals fs = logicals gs"
proof (induction fs arbitrary: gs)
  case (Cons f fs)
  then obtain g gs' where "gs = g # gs'" "fe_logical f = fe_logical g" "map fe_logical fs = map fe_logical gs'" by auto
  with Cons.IH show ?case by (simp add: logicals_def)
qed (simp add: logicals_def)

lemma fences_wf_map:
  assumes "fences_wf fs" and "fence_update g"
  shows "fences_wf (map g fs)"
proof -
  have k: "fe_owner (g f) = fe_owner f" "fe_scope (g f) = fe_scope f" "fe_logical (g f) = fe_logical f" "fence_ok f \<Longrightarrow> fence_ok (g f)" for f
    using assms(2) by (simp_all add: fence_update_def fence_kept_def)
  have "logicals (map g fs) = logicals fs" by (rule logicals_map) (simp add: k)
  with assms(1) k(4) show ?thesis by (simp add: fences_wf_def comp_def k list_all_iff)
qed

lemma row_backed_kept:
  assumes "row_backed lib rfc fs r" and "\<And>f. f \<in> set fs \<Longrightarrow> \<exists>g \<in> set gs. fence_kept f g"
    and "rr_request_id r' = rr_request_id r" "rr_digest r' = rr_digest r" "rr_request r' = rr_request r"
  shows "row_backed lib rfc gs r'"
proof -
  from assms(1) obtain q f where q: "wf_request lib q" "rr_request_id r = er_request_id q" "rr_digest r = request_digest lib q"
    "rr_request r = PDict (stored_request q)" and f: "f \<in> set fs" "fence_for lib rfc q f" unfolding row_backed_def by blast
  from assms(2) [OF f(1)] obtain g where "g \<in> set gs" "fence_kept f g" by blast
  with f(2) have "\<exists>g \<in> set gs. fence_for lib rfc q g" using fence_for_kept by blast
  with q show ?thesis unfolding row_backed_def by (intro exI [of _ q]) (simp add: assms(3-5))
qed

text \<open>The shape of every transaction but the acceptance of a request.\<close>

definition updated_ledger :: "(request_row \<Rightarrow> bool) \<Rightarrow> (request_row \<Rightarrow> request_row) \<Rightarrow> (fence \<Rightarrow> bool) \<Rightarrow> (fence \<Rightarrow> fence) \<Rightarrow> ledger \<Rightarrow> ledger \<Rightarrow> bool" where
  "updated_ledger P h Q g lg lg' \<longleftrightarrow> lg_legacy lg' = update_where P h (lg_legacy lg) \<and> lg_typed lg' = update_where P h (lg_typed lg) \<and>
     lg_fences lg' = update_where Q g (lg_fences lg)"

lemma updated_ledger_step:
  assumes u: "updated_ledger P h Q g lg lg'" and h0: "row_update h" and g0: "fence_update g"
  shows "ledger_step lib rfc lg lg'"
proof -
  let ?h = "upd P h" and ?g = "upd Q g"
  have h: "row_update ?h" and g: "fence_update ?g" using h0 g0 row_update_upd fence_update_upd by blast+
  have t: "lg_typed lg' = map ?h (lg_typed lg)" and f: "lg_fences lg' = map ?g (lg_fences lg)"
    and l: "lg_legacy lg = [] \<Longrightarrow> lg_legacy lg' = []" using u by (simp_all add: updated_ledger_def update_where_upd)
  have k: "rr_request_id (?h r) = rr_request_id r" "rr_digest (?h r) = rr_digest r" "rr_request (?h r) = rr_request r"
    "rr_state r \<noteq> ''ACCEPTED'' \<Longrightarrow> rr_state (?h r) \<noteq> ''ACCEPTED''" for r
    using h unfolding row_update_def by blast+
  have fences: "\<exists>x \<in> set (lg_fences lg'). fence_kept f x" if "f \<in> set (lg_fences lg)" for f
    using that g unfolding f fence_update_def by auto
  have "ledger_wf lib rfc lg'" if w: "ledger_wf lib rfc lg"
  proof -
    have "row_backed lib rfc (lg_fences lg') (?h r)" if "r \<in> set (lg_typed lg)" for r
    proof -
      from w that have "row_backed lib rfc (lg_fences lg) r" by (simp add: ledger_wf_def)
      then show ?thesis by (rule row_backed_kept) (use fences k in simp_all)
    qed
    moreover have "fences_wf (lg_fences lg')" using w fences_wf_map [OF _ g] by (simp add: ledger_wf_def f)
    moreover have "map rr_request_id (lg_typed lg') = map rr_request_id (lg_typed lg)" by (simp add: t k)
    then have "distinct (map rr_request_id (lg_typed lg'))" using w by (simp only: ledger_wf_def)
    moreover have "lg_legacy lg' = []" using w l by (simp add: ledger_wf_def)
    ultimately show ?thesis unfolding ledger_wf_def by (simp add: t)
  qed
  moreover have "left_accepted rid lg'" if "left_accepted rid lg" for rid
    using that k(4) unfolding left_accepted_def t by (auto simp: k(1))
  moreover have "row_known rid d lg'" if "row_known rid d lg" for rid d
    using that unfolding row_known_def t by (auto simp: k)
  ultimately show ?thesis using fences by (simp add: ledger_step_def ledger_mono_def)
qed

lemma update_ids: "row_update (\<lambda>r. r)" "fence_update (\<lambda>f. f)"
  by (simp_all add: row_update_def fence_update_def)

lemma no_update [simp]: "update_where P (\<lambda>x. x) xs = xs"
  by (simp add: update_where_def)

section \<open>The transactions\<close>

definition stepping :: "pylib \<Rightarrow> (py \<Rightarrow> string res) \<Rightarrow> 'a txn \<Rightarrow> bool" where
  "stepping lib rfc f \<longleftrightarrow> (\<forall>lg x lg'. f lg = Inr (x, lg') \<longrightarrow> ledger_step lib rfc lg lg')"

lemma moved_fence_update: "fence_update (moved_fence st result ts)"
  by (simp add: fence_update_def moved_fence_def fence_kept_def fence_ok_def)

lemma moved_row_update: "st \<noteq> ''ACCEPTED'' \<Longrightarrow> row_update (moved_row st result ts)"
  by (simp add: row_update_def moved_row_def Let_def)

lemma ledger_step_moves:
  assumes u: "updated_ledger P h Q g lg lg'" and "row_update h" and "fence_update g"
  shows "ledger_step lib rfc lg lg'"
  using updated_ledger_step [OF assms] .

lemma ledger_step_cong:
  assumes "ledger_step lib rfc lg lg'" and "lg_legacy lg = [] \<Longrightarrow> lg_legacy lg'' = []" "lg_typed lg'' = lg_typed lg'" "lg_fences lg'' = lg_fences lg'"
  shows "ledger_step lib rfc lg lg''"
  using assms unfolding ledger_step_def ledger_wf_def ledger_mono_def left_accepted_def row_known_def by simp

lemma transition_step: "st \<noteq> ''ACCEPTED'' \<Longrightarrow> stepping lib rfc (transition rid expected st result scope_state ts)"
  unfolding stepping_def
proof (intro allI impI)
  fix lg x lg'
  assume st: "st \<noteq> ''ACCEPTED''" and tr: "transition rid expected st result scope_state ts lg = Inr (x, lg')"
  let ?hit = "\<lambda>r. rr_request_id r = rid \<and> rr_state r = expected"
  let ?enc = "map_option (\<lambda>xs. jnorm (PDict xs)) result"
  let ?fs = "case scope_state of Some s \<Rightarrow> if s \<noteq> [] then s else st | None \<Rightarrow> st"
  let ?up = "lg\<lparr>lg_legacy := update_where ?hit (moved_row st ?enc ts) (lg_legacy lg), lg_typed := update_where ?hit (moved_row st ?enc ts) (lg_typed lg),
    lg_fences := update_where (\<lambda>f. fe_owner f = rid) (moved_fence ?fs ?enc ts) (lg_fences lg)\<rparr>"
  have s: "ledger_step lib rfc lg ?up"
    by (rule updated_ledger_step [OF _ moved_row_update [OF st] moved_fence_update]) (simp add: updated_ledger_def)
  have n: "\<not> list_ex P xs \<Longrightarrow> update_where P f xs = xs" for P :: "request_row \<Rightarrow> bool" and f xs
    by (auto simp: update_where_def list_ex_iff intro: map_idI)
  show "ledger_step lib rfc lg lg'"
  proof (cases "list_ex ?hit (lg_typed lg)")
    case True
    then have "lg' = lg\<lparr>lg_typed := lg_typed ?up, lg_fences := lg_fences ?up\<rparr>" using tr by (simp add: transition_def Let_def del: jnorm.simps(7))
    then show ?thesis by (intro ledger_step_cong [OF s]) (simp_all del: jnorm.simps(7))
  next
    case False
    then have "lg' = lg \<or> lg' = lg\<lparr>lg_legacy := lg_legacy ?up, lg_fences := lg_fences ?up\<rparr>"
      using tr by (auto simp: transition_def Let_def simp del: jnorm.simps(7) split: if_splits)
    then show ?thesis
    proof
      assume "lg' = lg\<lparr>lg_legacy := lg_legacy ?up, lg_fences := lg_fences ?up\<rparr>"
      with False show ?thesis by (intro ledger_step_cong [OF s]) (simp_all add: n del: jnorm.simps(7))
    qed simp
  qed
qed

lemma mark_step: "stepping lib rfc (mark_effect_boundary rid ts)"
proof -
  let ?g = "\<lambda>f. f\<lparr>fe_state := ''EFFECT_BOUNDARY_REACHED'', fe_boundary := True, fe_attempts := 1, fe_updated_at := ts\<rparr>"
  have "fence_update ?g" by (simp add: fence_update_def fence_kept_def fence_ok_def)
  then show ?thesis
    by (auto simp: stepping_def mark_effect_boundary_def updated_ledger_def
        intro!: updated_ledger_step [OF _ update_ids(1), where P = "\<lambda>r. False" and g = ?g and Q = "at_boundary rid"])
qed

lemma reconcile_started_step: "stepping lib rfc (reconcile_started ts)"
proof -
  have "row_update (unknown_row ts)" by (simp add: row_update_def unknown_row_def)
  moreover have "fence_update (\<lambda>f. f\<lparr>fe_state := ''OUTCOME_UNKNOWN'', fe_updated_at := ts\<rparr>)"
    by (simp add: fence_update_def fence_kept_def fence_ok_def)
  ultimately show ?thesis
    unfolding stepping_def reconcile_started_def Let_def by (auto intro!: updated_ledger_step simp: updated_ledger_def)
qed

lemma untouched_step: "lg_legacy lg' = lg_legacy lg \<Longrightarrow> lg_typed lg' = lg_typed lg \<Longrightarrow> lg_fences lg' = lg_fences lg \<Longrightarrow> ledger_step lib rfc lg lg'"
  by (rule ledger_step_cong [OF ledger_step_refl]) simp_all

lemma switch_step: "stepping lib rfc (switch_authority i g j h ts)"
  by (auto simp: stepping_def switch_authority_def Let_def intro!: untouched_step split: if_splits)

lemma fences_only_step:
  "fence_update g \<Longrightarrow> lg_legacy lg' = lg_legacy lg \<Longrightarrow> lg_typed lg' = lg_typed lg \<Longrightarrow> lg_fences lg' = update_where Q g (lg_fences lg) \<Longrightarrow>
     ledger_step lib rfc lg lg'"
  by (rule updated_ledger_step [OF _ update_ids(1), where P = "\<lambda>r. False" and g = g and Q = Q]) (simp_all add: updated_ledger_def)

lemma closed_fence_update: "fence_update (\<lambda>f. f\<lparr>fe_state := st, fe_boundary := True, fe_attempts := 1, fe_result := r, fe_updated_at := ts\<rparr>)"
  by (simp add: fence_update_def fence_kept_def fence_ok_def)

lemma observed_step: "stepping lib rfc (record_reconciliation lib rid sid ''EFFECT_OBSERVED'' ev owner digest ts)"
proof -
  have "reconciled_fence ''EFFECT_OBSERVED'' v ts = (\<lambda>f. f\<lparr>fe_state := ''RECONCILED_EFFECT_OBSERVED'', fe_boundary := True, fe_attempts := 1,
      fe_result := Some v, fe_updated_at := ts\<rparr>)" for v by (simp add: reconciled_fence_def fun_eq_iff)
  then show ?thesis
    by (auto simp: stepping_def record_reconciliation_def Let_def simp del: jnorm.simps(7) split: option.splits
        intro!: fences_only_step [OF closed_fence_update])
qed

lemma retirement_step: "stepping lib rfc (record_target_retirement lib rid sid ev owner digest ts)"
  by (auto simp: stepping_def record_target_retirement_def Let_def simp del: jnorm.simps(7) split: option.splits
      intro!: fences_only_step [OF closed_fence_update])

section \<open>Accepting a request\<close>

lemma logicals_append [simp]: "logicals (fs @ gs) = logicals fs @ logicals gs"
  by (simp add: logicals_def)

lemma in_logicals: "l \<in> set (logicals fs) \<longleftrightarrow> (\<exists>f \<in> set fs. fe_logical f = Some l)"
  by (force simp: logicals_def split: option.splits)

lemma fences_wf_snoc:
  assumes "fences_wf fs" and "\<forall>x \<in> set fs. \<not> fence_clash f x" and "fence_ok f"
  shows "fences_wf (fs @ [f])"
proof -
  have "fe_owner f \<notin> fe_owner ` set fs" "fe_scope f \<notin> fe_scope ` set fs"
    using assms(2) by (force simp: fence_clash_def)+
  moreover have "l \<notin> set (logicals fs)" if "fe_logical f = Some l" for l
    using assms(2) that by (auto simp: fence_clash_def in_logicals)
  then have "distinct (logicals (fs @ [f]))"
    using assms(1) by (cases "fe_logical f") (auto simp: fences_wf_def logicals_def)
  ultimately show ?thesis using assms(1,3) by (simp add: fences_wf_def)
qed

lemma logical_scope_delivery:
  assumes "wf_request lib q" and "operation q \<in> {''restart_ffmpeg'', ''switch_stream_route''}" and "logical_generation_scope_id lib rfc q = Inr l"
  shows "l \<noteq> None"
proof -
  have "delivery_intent q" using assms(2) by (auto simp: operation_def delivery_intent_def DELIVERY_TARGET_INTENTS_def split: if_splits)
  with assms(1) obtain t where "er_ffmpeg_target q = Some t" by (auto simp: wf_request_def wf_identity_def)
  with \<open>delivery_intent q\<close> assms(3) show ?thesis by (auto simp: logical_generation_scope_id_def)
qed

lemma claim_scope_step:
  assumes wf: "wf_request lib q" and c: "claim_scope lib rfc q ts lg = Inr (a, lg')"
  shows "ledger_step lib rfc lg lg'" and "row_known (er_request_id q) (request_digest lib q) lg'"
proof -
  let ?r = "new_row lib q ts"
  from c obtain sid logical where s: "effect_scope_id lib rfc q = Inr sid" "logical_generation_scope_id lib rfc q = Inr logical"
    and fresh: "\<forall>x \<in> set (lg_typed lg). rr_request_id x \<noteq> er_request_id q"
    and nc: "\<forall>x \<in> set (lg_fences lg). \<not> fence_clash (new_fence lib q sid logical ts) x"
    and lg': "lg_legacy lg' = lg_legacy lg" "lg_typed lg' = lg_typed lg @ [?r]" "lg_fences lg' = lg_fences lg @ [new_fence lib q sid logical ts]"
    by (auto simp: claim_scope_def insert_row_def insert_fence_def raise_high_water_def new_row_def simp del: jnorm.simps(7) split: if_splits)
  let ?f = "new_fence lib q sid logical ts"
  have ok: "fence_ok ?f" using logical_scope_delivery [OF wf _ s(2)] by (auto simp: fence_ok_def new_fence_def)
  have ff: "fence_for lib rfc q ?f" using s by (simp add: fence_for_def new_fence_def)
  have r: "rr_request_id ?r = er_request_id q" "rr_digest ?r = request_digest lib q" "rr_request ?r = PDict (stored_request q)"
    by (simp_all add: new_row_def)
  have "ledger_wf lib rfc lg'" if w: "ledger_wf lib rfc lg"
  proof -
    have "row_backed lib rfc (lg_fences lg') x" if "x \<in> set (lg_typed lg)" for x
    proof -
      have kept: "\<exists>g \<in> set (lg_fences lg'). fence_kept f g" if "f \<in> set (lg_fences lg)" for f
        using that by (intro bexI [where x = f]) (simp_all add: lg'(3))
      have "row_backed lib rfc (lg_fences lg) x" using w that by (simp add: ledger_wf_def)
      then show ?thesis by (rule row_backed_kept [OF _ kept refl refl refl])
    qed
    moreover have "row_backed lib rfc (lg_fences lg') ?r"
      unfolding row_backed_def using wf ff r by (intro exI [of _ q]) (simp add: lg'(3))
    moreover have "er_request_id q \<notin> rr_request_id ` set (lg_typed lg)" using fresh by auto
    ultimately show ?thesis using w fences_wf_snoc [OF _ nc ok] by (simp add: ledger_wf_def lg' r)
  qed
  moreover have "\<exists>g \<in> set (lg_fences lg'). fence_kept f g" if "f \<in> set (lg_fences lg)" for f
    using that by (intro bexI [where x = f]) (simp_all add: lg'(3))
  then have "ledger_mono lg lg'"
    using fresh by (auto simp: ledger_mono_def left_accepted_def row_known_def lg'(2) r)
  ultimately show "ledger_step lib rfc lg lg'" by (simp add: ledger_step_def)
  show "row_known (er_request_id q) (request_digest lib q) lg'" by (simp add: row_known_def lg' r)
qed

lemma accept_cases:
  assumes "accept lib rfc q ts lg = Inr (a, lg')"
  shows "(\<exists>r. existing_request lg q = Some r \<and> lg' = lg \<and> a = replay_answer lib q r) \<or> (lg' = lg \<and> \<not> aa_accepted a) \<or>
    claim_scope lib rfc q ts lg = Inr (a, lg')"
proof (cases "existing_request lg q")
  case (Some r)
  with assms show ?thesis by (auto simp: accept_def)
next
  case None
  with assms have "lg' = lg \<and> \<not> aa_accepted a \<or> accept_new lib rfc q ts lg = Inr (a, lg')"
    by (auto simp: accept_def refused_def split: if_splits)
  then show ?thesis
  proof
    assume "accept_new lib rfc q ts lg = Inr (a, lg')"
    then obtain scope where n: "(case scope of
         Some f \<Rightarrow> bindE (effect_scope_id lib rfc q) (\<lambda>sid.
           Inr (held_answer (if fe_scope f = sid then ''EFFECT_SCOPE_ALREADY_CLAIMED'' else ''LOGICAL_GENERATION_PID_INVARIANT_BROKEN'') f, lg))
       | None \<Rightarrow> (case unresolved_fences lg of f # _ \<Rightarrow> Inr (held_answer ''TARGET_EFFECT_UNRESOLVED'' f, lg)
           | [] \<Rightarrow> claim_scope lib rfc q ts lg)) = Inr (a, lg')"
      by (simp only: accept_new_def bindE_eq_Inr) blast
    show ?thesis
    proof (cases scope)
      case None
      with n show ?thesis by (cases "unresolved_fences lg") (auto simp: held_answer_def)
    qed (use n in \<open>auto simp: held_answer_def\<close>)
  qed simp
qed

lemma accept_step: "wf_request lib q \<Longrightarrow> stepping lib rfc (accept lib rfc q ts)"
  unfolding stepping_def using accept_cases claim_scope_step(1) by fastforce

lemma existing_typed: "existing_request lg q = Some r \<Longrightarrow> lg_legacy lg = [] \<Longrightarrow> r \<in> set (lg_typed lg)"
  by (auto simp: existing_request_def find_Some_iff)

lemma accepted_known:
  assumes acc: "accept lib rfc q ts lg = Inr (a, lg')" "aa_accepted a" and wf: "wf_request lib q" "ledger_wf lib rfc lg" and cf: "collision_free lib"
  shows "row_known (er_request_id q) (request_digest lib q) lg'"
  using accept_cases [OF acc(1)]
proof (elim disjE exE conjE)
  fix r assume r: "existing_request lg q = Some r" "lg' = lg" "a = replay_answer lib q r"
  with acc(2) have d: "rr_digest r = request_digest lib q" by (auto simp: replay_answer_def refused_def split: if_splits)
  have m: "r \<in> set (lg_typed lg)" using existing_typed [OF r(1)] wf(2) by (simp add: ledger_wf_def)
  with wf(2) obtain p where p: "wf_request lib p" "rr_request_id r = er_request_id p" "rr_digest r = request_digest lib p"
    unfolding ledger_wf_def row_backed_def by blast
  with d same_digest(1) [OF cf p(1) wf(1)] have "rr_request_id r = er_request_id q" by simp
  with m d r(2) show ?thesis unfolding row_known_def by blast
next
  assume "claim_scope lib rfc q ts lg = Inr (a, lg')"
  with claim_scope_step(2) [OF wf(1)] show ?thesis by blast
qed (use acc(2) in simp)

lemma known_fence:
  assumes "row_known (er_request_id q) (request_digest lib q) lg" and wf: "wf_request lib q" "ledger_wf lib rfc lg" and cf: "collision_free lib"
  shows "\<exists>f \<in> set (lg_fences lg). fence_for lib rfc q f"
proof -
  from assms(1) obtain r where r: "r \<in> set (lg_typed lg)" "rr_digest r = request_digest lib q" by (auto simp: row_known_def)
  with wf(2) obtain p f where p: "wf_request lib p" "rr_digest r = request_digest lib p" "f \<in> set (lg_fences lg)" "fence_for lib rfc p f"
    unfolding ledger_wf_def row_backed_def by blast
  with r(2) same_digest(2) [OF cf p(1) wf(1)] show ?thesis by auto
qed

lemma started_once:
  assumes tr: "transition rid ''ACCEPTED'' ''EXECUTION_STARTED'' None None ts lg = Inr (True, lg')" and wf: "ledger_wf lib rfc lg"
  shows "left_accepted rid lg'" and "\<not> left_accepted rid lg"
proof -
  let ?hit = "\<lambda>r. rr_request_id r = rid \<and> rr_state r = ''ACCEPTED''"
  have l: "lg_legacy lg = []" using wf by (simp add: ledger_wf_def)
  have ex: "list_ex ?hit (lg_typed lg)" using tr by (simp add: transition_def l Let_def)
  then obtain r where r: "r \<in> set (lg_typed lg)" "?hit r" by (auto simp: list_ex_iff)
  have lg': "lg_typed lg' = map (upd ?hit (moved_row ''EXECUTION_STARTED'' None ts)) (lg_typed lg)"
    using tr ex by (auto simp: transition_def Let_def update_where_upd)
  show "\<not> left_accepted rid lg" using r by (auto simp: left_accepted_def)
  have u: "rr_request_id (upd ?hit (moved_row ''EXECUTION_STARTED'' None ts) x) = rr_request_id x" for x
    by (simp add: upd_def moved_row_def Let_def)
  have n: "rr_state (upd ?hit (moved_row ''EXECUTION_STARTED'' None ts) x) \<noteq> ''ACCEPTED''" if "rr_request_id x = rid" for x
    using that by (auto simp: upd_def moved_row_def Let_def)
  show "left_accepted rid lg'" unfolding left_accepted_def lg' using r n by (auto simp: u)
qed

lemma boundary_reserved:
  assumes "mark_effect_boundary rid ts lg = Inr (True, lg')"
  shows "\<exists>f \<in> set (lg_fences lg'). fe_owner f = rid \<and> fe_boundary f"
proof -
  from assms have "length (filter (at_boundary rid) (lg_fences lg)) = 1" by (simp add: mark_effect_boundary_def)
  then obtain f fs where "filter (at_boundary rid) (lg_fences lg) = f # fs" by (cases "filter (at_boundary rid) (lg_fences lg)") auto
  then have "f \<in> set (filter (at_boundary rid) (lg_fences lg))" by simp
  then have f: "f \<in> set (lg_fences lg)" "at_boundary rid f" by simp_all
  let ?g = "\<lambda>f. f\<lparr>fe_state := ''EFFECT_BOUNDARY_REACHED'', fe_boundary := True, fe_attempts := 1, fe_updated_at := ts\<rparr>"
  have "lg_fences lg' = map (upd (at_boundary rid) ?g) (lg_fences lg)" using assms by (auto simp: mark_effect_boundary_def update_where_upd)
  then have "upd (at_boundary rid) ?g f \<in> set (lg_fences lg')" using f(1) by simp
  moreover have "fe_owner (upd (at_boundary rid) ?g f) = rid" "fe_boundary (upd (at_boundary rid) ?g f)"
    using f(2) by (simp_all add: upd_def) (simp add: at_boundary_def)
  ultimately show ?thesis by blast
qed

section \<open>Opening\<close>

lemma update_idle: "(\<And>x. x \<in> set xs \<Longrightarrow> \<not> P x) \<Longrightarrow> update_where P f xs = xs"
  by (auto simp: update_where_def intro: map_idI)

lemma initial_authority_step: "stepping lib rfc (initial_authority i g ts)"
  by (auto simp: stepping_def initial_authority_def intro!: untouched_step split: option.splits)

text \<open>Back-filling finds every scope already fenced: it inserts nothing, and only marks scopes as used up.\<close>

lemma used_up_update: "fence_update (used_up ts)"
  by (simp add: fence_update_def used_up_def fence_kept_def fence_ok_def)

definition fences_step :: "fence list \<Rightarrow> fence list \<Rightarrow> bool" where
  "fences_step fs gs \<longleftrightarrow> (\<exists>h. fence_update h \<and> gs = map h fs)"

lemma fences_step_refl: "fences_step fs fs"
  unfolding fences_step_def by (intro exI [of _ "\<lambda>f. f"]) (simp add: fence_update_def)

lemma fences_step_trans:
  assumes "fences_step a b" and "fences_step b c"
  shows "fences_step a c"
proof -
  from assms obtain g h where g: "fence_update g" "b = map g a" and h: "fence_update h" "c = map h b" by (auto simp: fences_step_def)
  have "fence_kept f (h (g f)) \<and> fe_action (h (g f)) = fe_action f \<and> (fence_ok f \<longrightarrow> fence_ok (h (g f)))" for f
    using g(1) h(1) fence_kept_trans [of f "g f" "h (g f)"] by (simp add: fence_update_def)
  then have "fence_update (h \<circ> g)" by (simp add: fence_update_def)
  then show ?thesis unfolding fences_step_def using g(2) h(2) by (intro exI [of _ "h \<circ> g"]) simp
qed

lemma fences_step_where: "fence_update g \<Longrightarrow> fences_step fs (update_where P g fs)"
  unfolding fences_step_def update_where_upd using fence_update_upd by blast

lemma add_candidate_step:
  assumes "cd_scope c \<in> fe_scope ` set fs"
  shows "fences_step fs (add_candidate ts fs c)"
proof -
  have "list_ex (fence_clash (fence_of_candidate c ts)) fs"
    using assms by (auto simp: list_ex_iff fence_clash_def fence_of_candidate_def)
  then show ?thesis by (simp add: add_candidate_def Let_def fences_step_refl fences_step_where [OF used_up_update])
qed

lemma fences_step_scopes: "fences_step fs gs \<Longrightarrow> fe_scope ` set gs = fe_scope ` set fs"
proof -
  assume "fences_step fs gs"
  then obtain h where "fence_update h" "gs = map h fs" by (auto simp: fences_step_def)
  then have "map fe_scope gs = map fe_scope fs" by (simp add: fence_update_def fence_kept_def)
  then show "fe_scope ` set gs = fe_scope ` set fs" by (metis set_map)
qed

lemma add_candidates_step: "(\<forall>c \<in> set cs. cd_scope c \<in> fe_scope ` set fs) \<Longrightarrow> fences_step fs (fold (\<lambda>c fs. add_candidate ts fs c) cs fs)"
proof (induction cs arbitrary: fs)
  case (Cons c cs)
  then have s: "fences_step fs (add_candidate ts fs c)" by (simp add: add_candidate_step)
  with Cons have "fences_step (add_candidate ts fs c) (fold (\<lambda>c fs. add_candidate ts fs c) cs (add_candidate ts fs c))"
    by (simp add: fences_step_scopes)
  with s show ?case by (auto intro: fences_step_trans)
qed (simp add: fences_step_refl)

lemma fences_step_ledger:
  assumes "fences_step (lg_fences lg) gs"
  shows "ledger_step lib rfc lg (lg\<lparr>lg_fences := gs\<rparr>)"
proof -
  from assms obtain h where h: "fence_update h" "gs = map h (lg_fences lg)" by (auto simp: fences_step_def)
  show ?thesis by (rule fences_only_step [OF h(1), where Q = "\<lambda>f. True"]) (simp_all add: h update_where_def)
qed

lemma typed_candidate_scope:
  assumes "row_backed lib rfc fs r" and "typed_candidate lib rfc r = Inr cs"
  shows "\<forall>c \<in> set cs. cd_scope c \<in> fe_scope ` set fs"
proof -
  from assms(1) obtain q f where q: "wf_request lib q" "rr_request r = PDict (stored_request q)" "f \<in> set fs" "fence_for lib rfc q f"
    unfolding row_backed_def by blast
  with assms(2) have "cs = [candidate_of r (fe_scope f) (rr_identity r)]"
    by (simp add: typed_candidate_def from_stored fence_for_def)
  with q(3) show ?thesis by (simp add: candidate_of_def)
qed

lemma mapE_all: "mapE f xs = Inr ys \<Longrightarrow> y \<in> set ys \<Longrightarrow> \<exists>x \<in> set xs. f x = Inr y"
  by (induction xs arbitrary: ys) auto

lemma backfill_scopes_step: "stepping lib rfc (backfill_effect_scope_fences lib rfc ts)"
  unfolding stepping_def
proof (intro allI impI)
  fix lg x lg'
  assume b: "backfill_effect_scope_fences lib rfc ts lg = Inr (x, lg')"
  show "ledger_step lib rfc lg lg'"
  proof (cases "ledger_wf lib rfc lg")
    case True
    then have l: "lg_legacy lg = []" by (simp add: ledger_wf_def)
    with b obtain typed where t: "mapE (typed_candidate lib rfc) (sort_key rr_accepted_at (lg_typed lg)) = Inr typed"
      and lg': "lg' = lg\<lparr>lg_fences := fold (\<lambda>c fs. add_candidate ts fs c) (concat typed) (lg_fences lg)\<rparr>"
      by (auto simp: backfill_effect_scope_fences_def)
    have "\<forall>c \<in> set (concat typed). cd_scope c \<in> fe_scope ` set (lg_fences lg)"
    proof
      fix c assume "c \<in> set (concat typed)"
      then obtain cs where cs: "cs \<in> set typed" "c \<in> set cs" by auto
      from mapE_all [OF t cs(1)] obtain r where "r \<in> set (lg_typed lg)" "typed_candidate lib rfc r = Inr cs" by auto
      with True cs(2) typed_candidate_scope show "cd_scope c \<in> fe_scope ` set (lg_fences lg)" unfolding ledger_wf_def by blast
    qed
    from fences_step_ledger [OF add_candidates_step [OF this]] show ?thesis by (simp add: lg')
  qed (simp add: ledger_step_def)
qed

lemma plan_delivery:
  "plan_logical lib rfc owners fs = Inr planned \<Longrightarrow> (l, sid) \<in> set planned \<Longrightarrow>
     \<exists>f \<in> set fs. fe_scope f = sid \<and> fe_action f \<in> {''restart_ffmpeg'', ''switch_stream_route''}"
proof (induction fs arbitrary: owners planned)
  case (Cons f fs)
  from Cons.prems(1) obtain lo where lo: "logical_of_fence lib rfc f = Inr lo" by (auto split: option.splits)
  show ?case
  proof (cases lo)
    case None
    with Cons lo show ?thesis by auto
  next
    case (Some x)
    then have "fe_action f \<in> {''restart_ffmpeg'', ''switch_stream_route''}" using lo by (auto simp: logical_of_fence_def split: if_splits)
    moreover from Cons.prems(1) lo Some obtain owners' rest where
      rest: "plan_logical lib rfc owners' fs = Inr rest" "planned = (x, fe_scope f) # rest" by (auto split: if_splits)
    moreover have "(l, sid) \<in> set rest \<Longrightarrow> \<exists>f \<in> set fs. fe_scope f = sid \<and> fe_action f \<in> {''restart_ffmpeg'', ''switch_stream_route''}"
      by (rule Cons.IH [OF rest(1)])
    ultimately show ?thesis using Cons.prems(2) by auto
  qed
qed simp

lemma give_logical_idle:
  assumes "fences_wf fs" and "f \<in> set fs" "fe_scope f = sid" "fe_logical f \<noteq> None"
  shows "give_logical fs (l, sid) = fs"
proof -
  have "x = f" if "x \<in> set fs" "fe_scope x = sid" for x
    using assms that by (auto simp: fences_wf_def distinct_map inj_on_def)
  then show ?thesis unfolding give_logical_def using assms(4) by (auto intro!: update_idle)
qed

lemma backfill_logical_step: "stepping lib rfc (backfill_logical_generation_scopes lib rfc)"
  unfolding stepping_def
proof (intro allI impI)
  fix lg x lg'
  assume b: "backfill_logical_generation_scopes lib rfc lg = Inr (x, lg')"
  show "ledger_step lib rfc lg lg'"
  proof (cases "ledger_wf lib rfc lg")
    case True
    then have w: "fences_wf (lg_fences lg)" by (simp add: ledger_wf_def)
    from b obtain planned where p: "plan_logical lib rfc [] (sort_key fe_created_at (sort_key fe_scope (lg_fences lg))) = Inr planned"
      and lg': "lg' = lg\<lparr>lg_fences := fold (\<lambda>p fs. give_logical fs p) planned (lg_fences lg)\<rparr>"
      by (auto simp: backfill_logical_generation_scopes_def)
    have "fold (\<lambda>p fs. give_logical fs p) ps (lg_fences lg) = lg_fences lg" if "set ps \<subseteq> set planned" for ps
      using that
    proof (induction ps)
      case (Cons lp ps)
      obtain l sid where lp: "lp = (l, sid)" by fastforce
      with Cons.prems plan_delivery [OF p, of l sid] obtain f where f: "f \<in> set (lg_fences lg)" "fe_scope f = sid"
        "fe_action f \<in> {''restart_ffmpeg'', ''switch_stream_route''}" by auto
      with w have "fe_logical f \<noteq> None" unfolding fences_wf_def list_all_iff fence_ok_def by blast
      with give_logical_idle [OF w f(1,2)] Cons lp show ?case by simp
    qed simp
    then show ?thesis by (simp add: lg')
  qed (simp add: ledger_step_def)
qed

lemma txn_step:
  assumes "stepping lib rfc f"
  shows "ledger_step lib rfc lg (snd (txn f lg))"
  using assms by (auto simp: stepping_def txn_def split: sum.splits)

lemma ledger_frame: "state_frame (ledger_step lib rfc)"
  by unfold_locales (simp_all, rule ledger_step_trans)

interpretation ledger_frame: state_frame "ledger_step lib rfc" for lib rfc
  by (rule ledger_frame)

lemma txn_within: "stepping lib rfc f \<Longrightarrow> withinS (ledger_step lib rfc) (txn f)"
  by (simp add: withinS_def txn_step)

lemma open_within: "withinS (ledger_step lib rfc) (open_ledger lib rfc i g ts)"
  unfolding open_ledger_def
  by (intro ledger_frame.within_bind txn_within initial_authority_step backfill_scopes_step backfill_logical_step reconcile_started_step)
    (auto simp: stepping_def)

end
