(* ===== verification/Rb_Server.thy ===== *)
theory Rb_Server
  imports Rb_Ledger
begin

text \<open>
  The effect executor (\<open>src/src/runtime_boundary/server.py\<close>): the handler of one connection, the worker that
  carries out an accepted effect, the closing of fences on evidence, and the life of the process.

  Connections are handled one after the other; a worker thread runs beside them. Its two visible moments, the
  effect and the recording of its outcome, may fall before any access of the handler to the ledger: \<open>x_sched\<close>
  names the jobs that move on at that point. \<open>x_tx\<close> is the fate of a transaction, \<open>x_target\<close> what
  \<open>current_target\<close> returns, \<open>x_effect\<close> what \<open>perform_effect\<close> does. \<open>ex_effects\<close> is a history variable: the
  effects that were started, with the ledger and the target the executor had read last. No code reads it.
\<close>

section \<open>State and environment\<close>

record effect_event =
  ev_request :: effect_request
  ev_target :: "(string \<times> py) list"
  ev_checked_at :: instant
  ev_ledger :: ledger

record job =
  jb_request :: effect_request
  jb_hook_failed :: bool
  jb_target :: "(string \<times> py) list"
  jb_checked_at :: instant
  jb_outcome :: "(string \<times> py) list res option"

text \<open>\<open>OperatorRouteGrant\<close> (\<open>operator_route.py\<close>): the checked values and the clocks at the last use.\<close>

record operator_grant =
  og_values :: "(string \<times> py) list"
  og_executor :: string
  og_expires_at :: seconds
  og_wall :: seconds
  og_elapsed :: seconds
  og_deadline :: seconds

record 'w executor =
  ex_ledger :: ledger
  ex_grant :: "operator_grant option"
  ex_jobs :: "job list"
  ex_effects :: "effect_event list"
  ex_world :: 'w

record 'w xenv =
  x_now :: "('w, instant) act"
  x_text :: "('w, string) act"
  x_target :: "('w, (string \<times> py) list) act"
  x_effect :: "effect_request \<Rightarrow> ('w, (string \<times> py) list) act"
  x_before :: "(effect_request \<Rightarrow> ('w, unit) act) option"
  x_wall :: "('w, seconds) act"
  x_boot :: "('w, seconds) act"
  x_grant_file :: "('w, py) act"
  x_append_event :: "('w, unit) act"
  x_tx :: "('w, tx) act"
  x_read :: "('w, unit) act"
  x_sched :: "('w, nat list) act"
  x_spawn :: "('w, unit) act"
  x_str :: "exn \<Rightarrow> string"
  x_type :: "exn \<Rightarrow> string"

record delivery_config =
  dc_grant_id :: py
  dc_previous_producer :: string
  dc_previous_generation :: int

record server_config =
  sc_uids :: "int list"
  sc_intents :: "string list"
  sc_async :: bool
  sc_verify :: bool
  sc_delivery :: "delivery_config option"
  sc_instance :: string

definition askX :: "('w, 'a) act \<Rightarrow> ('w executor, 'a) act" where
  "askX f s = (case f (ex_world s) of (r, w) \<Rightarrow> (r, s\<lparr>ex_world := w\<rparr>))"

definition on_ledger :: "(ledger, 'a) act \<Rightarrow> ('w executor, 'a) act" where
  "on_ledger f s = (case f (ex_ledger s) of (r, lg) \<Rightarrow> (r, s\<lparr>ex_ledger := lg\<rparr>))"

definition raw_txn :: "'w xenv \<Rightarrow> (string \<Rightarrow> 'a txn) \<Rightarrow> ('w executor, 'a) act" where
  "raw_txn env f = bindS (askX (x_text env)) (\<lambda>ts. bindS (askX (x_tx env)) (\<lambda>tx. case tx of
       Committed \<Rightarrow> on_ledger (txn (f ts))
     | Refused e \<Rightarrow> raiseS e
     | CommittedThen e \<Rightarrow> bindS (on_ledger (txn (f ts))) (\<lambda>_. raiseS e)))"

section \<open>Workers\<close>

definition scope_state_of :: "server_config \<Rightarrow> effect_request \<Rightarrow> string" where
  "scope_state_of cfg q = (if sc_verify cfg \<and> delivery_intent q then ''EFFECT_OBSERVED_AWAITING_VERIFICATION'' else ''EFFECT_OBSERVED'')"

definition with_hook_note :: "bool \<Rightarrow> (string \<times> py) list \<Rightarrow> (string \<times> py) list" where
  "with_hook_note failed result =
     (if failed then aset ''production_behavior_modified_by_audit'' (PBool False) (aset ''audit_hook_failure'' (PBool True) result) else result)"

definition no_effect_result :: "string \<Rightarrow> (string \<times> py) list" where
  "no_effect_result reason = [(''reason'', PStr reason), (''physical_effect_count'', PInt 0)]"

definition dict_of_py :: "py \<Rightarrow> (string \<times> py) list" where
  "dict_of_py v = (case v of PDict xs \<Rightarrow> xs | _ \<Rightarrow> [])"

text \<open>State, scope state and result a worker records for an outcome.\<close>

definition outcome_record :: "'w xenv \<Rightarrow> server_config \<Rightarrow> job \<Rightarrow> (string \<times> py) list res \<Rightarrow> string \<times> string option \<times> (string \<times> py) list" where
  "outcome_record env cfg j r = (case r of
       Inr result \<Rightarrow> (''EFFECT_OBSERVED'', Some (scope_state_of cfg (jb_request j)), with_hook_note (jb_hook_failed j) result)
     | Inl (OutcomeUnknown v) \<Rightarrow> (''OUTCOME_UNKNOWN'', None, dict_of_py v)
     | Inl (EffectRejected why) \<Rightarrow> (''EFFECT_FAILED'', None, no_effect_result why)
     | Inl e \<Rightarrow> (''OUTCOME_UNKNOWN'', None, [(''reason'', PStr ''EXECUTOR_INTERNAL_ERROR''), (''error_type'', PStr (x_type env e))]))"

definition log_effect :: "effect_request \<Rightarrow> (string \<times> py) list \<Rightarrow> instant \<Rightarrow> ('w executor, unit) act" where
  "log_effect q target checked = modS (\<lambda>s. s\<lparr>ex_effects := ex_effects s @ [\<lparr>ev_request = q, ev_target = target, ev_checked_at = checked, ev_ledger = ex_ledger s\<rparr>]\<rparr>)"

definition perform :: "'w xenv \<Rightarrow> effect_request \<Rightarrow> (string \<times> py) list \<Rightarrow> instant \<Rightarrow> ('w executor, (string \<times> py) list) act" where
  "perform env q target checked = bindS (log_effect q target checked) (\<lambda>_. askX (x_effect env q))"

definition worker_step :: "'w xenv \<Rightarrow> server_config \<Rightarrow> nat \<Rightarrow> ('w executor, unit) act" where
  "worker_step env cfg k = bindS (getS (\<lambda>s. if k < length (ex_jobs s) then Some (ex_jobs s ! k) else None)) (\<lambda>job. case job of
       None \<Rightarrow> retS ()
     | Some j \<Rightarrow> (case jb_outcome j of
           None \<Rightarrow> bindS (attemptS (perform env (jb_request j) (jb_target j) (jb_checked_at j))) (\<lambda>r.
             bindS (modS (\<lambda>s. s\<lparr>ex_jobs := (ex_jobs s)[k := j\<lparr>jb_outcome := Some r\<rparr>]\<rparr>)) (\<lambda>_.
             if r = Inl Killed then raiseS Killed else retS ()))
         | Some r \<Rightarrow> (case outcome_record env cfg j r of (st, scope_state, result) \<Rightarrow>
             bindS (modS (\<lambda>s. s\<lparr>ex_jobs := take k (ex_jobs s) @ drop (Suc k) (ex_jobs s)\<rparr>)) (\<lambda>_.
             catch_all (bindS (raw_txn env (transition (er_request_id (jb_request j)) ''EXECUTION_STARTED'' st (Some result) scope_state)) (\<lambda>_. retS ()))
               (\<lambda>e. retS ())))))"

fun run_workers :: "'w xenv \<Rightarrow> server_config \<Rightarrow> nat list \<Rightarrow> ('w executor, unit) act" where
  "run_workers env cfg [] = retS ()"
| "run_workers env cfg (k # ks) = bindS (worker_step env cfg k) (\<lambda>_. run_workers env cfg ks)"

definition sched :: "'w xenv \<Rightarrow> server_config \<Rightarrow> ('w executor, unit) act" where
  "sched env cfg = bindS (askX (x_sched env)) (run_workers env cfg)"

section \<open>Access to the ledger\<close>

definition store :: "'w xenv \<Rightarrow> server_config \<Rightarrow> (string \<Rightarrow> 'a txn) \<Rightarrow> ('w executor, 'a) act" where
  "store env cfg f = bindS (sched env cfg) (\<lambda>_. raw_txn env f)"

definition read :: "'w xenv \<Rightarrow> server_config \<Rightarrow> (ledger \<Rightarrow> 'a res) \<Rightarrow> ('w executor, 'a) act" where
  "read env cfg f = bindS (sched env cfg) (\<lambda>_. bindS (askX (x_read env)) (\<lambda>_. bindS (getS ex_ledger) (\<lambda>lg. liftS (f lg))))"

definition safe_transition ::
    "'w xenv \<Rightarrow> server_config \<Rightarrow> string \<Rightarrow> string \<Rightarrow> (string \<times> py) list \<Rightarrow> string option \<Rightarrow> ('w executor, bool) act" where
  "safe_transition env cfg rid st result scope_state =
     catch_all (store env cfg (transition rid ''EXECUTION_STARTED'' st (Some result) scope_state)) (\<lambda>e. retS False)"

section \<open>Responses\<close>

definition authority_py :: "authority_row \<Rightarrow> (string \<times> py) list" where
  "authority_py a = [(''singleton'', PInt 1), (''producer_id'', PStr (au_producer_id a)), (''producer_generation'', PInt (au_producer_generation a)),
     (''authority_version'', PInt (au_version a)), (''projection_high_water'', PInt (au_high_water a)), (''updated_at'', PStr (au_updated_at a))]"

definition read_authority :: "'w xenv \<Rightarrow> server_config \<Rightarrow> ('w executor, (string \<times> py) list) act" where
  "read_authority env cfg = read env cfg (\<lambda>lg. bindE (authority lg) (\<lambda>a. Inr (authority_py a)))"

definition read_unresolved :: "'w xenv \<Rightarrow> server_config \<Rightarrow> ('w executor, int) act" where
  "read_unresolved env cfg = read env cfg (\<lambda>lg. Inr (int (unresolved_count lg)))"

definition no_retry :: "bool \<Rightarrow> py" where
  "no_retry b = (if b then PBool False else PNone)"

definition response ::
    "'w xenv \<Rightarrow> server_config \<Rightarrow> bool \<Rightarrow> string \<Rightarrow> string \<Rightarrow> effect_request option \<Rightarrow> bool \<Rightarrow> py \<Rightarrow> ('w executor, (string \<times> py) list) act" where
  "response env cfg ok reason st q replay result =
     bindS (catch_all (read_authority env cfg) (\<lambda>e. retS [])) (\<lambda>auth.
     bindS (catch_all (read_unresolved env cfg) (\<lambda>e. retS (- 1))) (\<lambda>n.
     retS [(''schema_version'', PStr ''runtime.effect_response.v1''), (''ok'', PBool ok), (''reason'', PStr reason), (''state'', PStr st),
       (''request_id'', PStr (case q of None \<Rightarrow> [] | Some x \<Rightarrow> er_request_id x)),
       (''correlation_id'', PStr (case q of None \<Rightarrow> [] | Some x \<Rightarrow> rc_correlation_id (er_common x))),
       (''intent_type'', PStr (case q of None \<Rightarrow> [] | Some x \<Rightarrow> er_intent_type x)), (''replay'', PBool replay), (''result'', result),
       (''active_authority'', PDict auth), (''in_flight_count'', PInt n),
       (''automatic_retry'', no_retry (st = ''OUTCOME_UNKNOWN'' \<or> reason \<in> {''LOGICAL_GENERATION_PID_INVARIANT_BROKEN'', ''TARGET_EFFECT_UNRESOLVED''}))]))"

definition rejected :: "'w xenv \<Rightarrow> server_config \<Rightarrow> string \<Rightarrow> effect_request option \<Rightarrow> ('w executor, (string \<times> py) list) act" where
  "rejected env cfg reason q = response env cfg False reason ''REJECTED'' q False PNone"

section \<open>The handler's exceptions\<close>

definition mark_failed :: "'w xenv \<Rightarrow> server_config \<Rightarrow> effect_request option \<Rightarrow> string \<Rightarrow> (string \<times> py) list \<Rightarrow> ('w executor, unit) act" where
  "mark_failed env cfg q st result = (case q of
       None \<Rightarrow> retS ()
     | Some x \<Rightarrow> if er_request_id x = [] then retS () else bindS (safe_transition env cfg (er_request_id x) st result None) (\<lambda>_. retS ()))"

definition handle_exception :: "'w xenv \<Rightarrow> server_config \<Rightarrow> effect_request option \<Rightarrow> exn \<Rightarrow> ('w executor, (string \<times> py) list) act" where
  "handle_exception env cfg q e = (case e of
       OutcomeUnknown v \<Rightarrow> bindS (mark_failed env cfg q ''OUTCOME_UNKNOWN'' (dict_of_py v)) (\<lambda>_.
         response env cfg False ''OUTCOME_UNKNOWN'' ''OUTCOME_UNKNOWN'' q False v)
     | EffectRejected why \<Rightarrow> bindS (mark_failed env cfg q ''EFFECT_FAILED'' (no_effect_result why)) (\<lambda>_.
         response env cfg False why ''EFFECT_FAILED'' q False (PDict (no_effect_result why)))
     | _ \<Rightarrow> if is_value_error e then rejected env cfg (x_str env e) q
            else bindS (mark_failed env cfg q ''OUTCOME_UNKNOWN'' [(''error_type'', PStr (x_type env e))]) (\<lambda>_.
              response env cfg False ''EXECUTOR_INTERNAL_ERROR'' ''OUTCOME_UNKNOWN'' q False PNone))"

definition guarded ::
    "'w xenv \<Rightarrow> server_config \<Rightarrow> effect_request option \<Rightarrow> ('w executor, (string \<times> py) list) act \<Rightarrow> ('w executor, (string \<times> py) list) act" where
  "guarded env cfg q m = catch_all m (handle_exception env cfg q)"

section \<open>An effect request\<close>

definition identity_mismatch :: "pylib \<Rightarrow> effect_request \<Rightarrow> (string \<times> py) list \<Rightarrow> string" where
  "identity_mismatch lib q current =
     (let target = (case map_of current ''ffmpeg_target_identity'' of Some v \<Rightarrow> v | None \<Rightarrow> dget current ''target_identity'');
          route = opt_dict (er_route_transition q);
          instance_drift = (if str_or_empty lib (dget current ''executor_instance_id'') \<noteq> rc_expected_executor_instance_id (er_common q)
            then ''EXECUTOR_INSTANCE_DRIFT'' else []) in
      if delivery_intent q then
        if \<not> py_eq target (opt_py (er_ffmpeg_target q)) then ''TARGET_IDENTITY_DRIFT''
        else if str_or_empty lib (dget current ''ffmpeg_generation'') \<noteq> er_expected_ffmpeg_generation q then ''FFMPEG_GENERATION_DRIFT''
        else if er_intent_type q = ''SWITCH_STREAM_ROUTE'' \<and>
            (\<not> py_eq (dget current ''route'') (dget route ''from_route'') \<or>
             \<not> py_eq (dget current ''route_generation'') (dget route ''expected_route_generation'')) then ''STREAM_ROUTE_GENERATION_DRIFT''
        else instance_drift
      else if \<not> py_eq (dget current ''runtime_identity'') (opt_py (er_runtime_identity q)) then ''RUNTIME_IDENTITY_DRIFT''
      else instance_drift)"

section \<open>The operator's grant\<close>

definition GRANT_FIELDS :: "string list" where
  "GRANT_FIELDS = [''grant_id'', ''producer_id'', ''producer_generation'', ''peer_uid'', ''expires_at'', ''host_id'', ''namespace'', ''pod_uid'',
     ''container_name'', ''container_id'']"

definition grant_values_valid :: "(string \<times> py) list \<Rightarrow> bool" where
  "grant_values_valid vs \<longleftrightarrow> same_keys vs GRANT_FIELDS \<and> dget vs ''peer_uid'' = PInt 0 \<and>
     (case dget vs ''producer_generation'' of PInt n \<Rightarrow> n > 0 | _ \<Rightarrow> False) \<and> finite_num (dget vs ''expires_at'') \<noteq> None \<and>
     list_all (\<lambda>k. is_str (dget vs k) \<and> 1 \<le> str_len (dget vs k) \<and> str_len (dget vs k) \<le> 256)
       (filter (\<lambda>k. k \<notin> {''producer_generation'', ''peer_uid'', ''expires_at''}) GRANT_FIELDS)"

definition new_grant :: "'w xenv \<Rightarrow> server_config \<Rightarrow> (string \<times> py) list \<Rightarrow> ('w executor, operator_grant) act" where
  "new_grant env cfg vs =
     bindS (requireS (grant_values_valid vs) (ValueError ''OPERATOR_ROUTE_GRANT_INVALID'')) (\<lambda>_.
     bindS (askX (x_wall env)) (\<lambda>wall. bindS (askX (x_boot env)) (\<lambda>elapsed.
     let limit = (case finite_num (dget vs ''expires_at'') of None \<Rightarrow> 0 | Some q \<Rightarrow> q); remaining = limit - wall in
     bindS (requireS (0 < remaining \<and> remaining \<le> 86400) (ValueError ''OPERATOR_ROUTE_GRANT_LIFETIME_INVALID'')) (\<lambda>_.
     retS \<lparr>og_values = vs, og_executor = sc_instance cfg, og_expires_at = limit, og_wall = wall, og_elapsed = elapsed,
       og_deadline = elapsed + remaining\<rparr>))))"

definition load_grant :: "'w xenv \<Rightarrow> server_config \<Rightarrow> ('w executor, operator_grant) act" where
  "load_grant env cfg = bindS (askX (x_grant_file env)) (\<lambda>v. bindS (getS ex_grant) (\<lambda>g. case g of
       None \<Rightarrow> (case v of
           PDict vs \<Rightarrow> bindS (new_grant env cfg vs) (\<lambda>g. bindS (modS (\<lambda>s. s\<lparr>ex_grant := Some g\<rparr>)) (\<lambda>_. retS g))
         | _ \<Rightarrow> raiseS TypeError)
     | Some g \<Rightarrow> bindS (requireS (py_eq v (PDict (og_values g))) (EffectRejected ''OPERATOR_GRANT_CHANGED_NEW_SESSION_REQUIRED'')) (\<lambda>_. retS g)))"

definition grant_expired :: "operator_grant \<Rightarrow> seconds \<Rightarrow> seconds \<Rightarrow> bool" where
  "grant_expired g wall elapsed \<longleftrightarrow>
     wall < og_wall g \<or> \<bar>(wall - og_wall g) - (elapsed - og_elapsed g)\<bar> > 2 \<or> wall \<ge> og_expires_at g \<or> elapsed \<ge> og_deadline g"

definition grant_mismatch :: "operator_grant \<Rightarrow> effect_request \<Rightarrow> int \<Rightarrow> string" where
  "grant_mismatch g q uid =
     (let vs = og_values g; c = er_common q; target = opt_dict (er_ffmpeg_target q) in
      if PInt uid \<noteq> dget vs ''peer_uid'' then ''OPERATOR_ROUTE_PEER_UNAUTHORIZED''
      else if er_intent_type q \<noteq> ''SWITCH_STREAM_ROUTE'' then ''OPERATOR_ROUTE_INTENT_INVALID''
      else if \<not> py_eq (dget (opt_dict (er_route_transition q)) ''operator_grant_id'') (dget vs ''grant_id'') \<or> PStr (rc_producer_id c) \<noteq> dget vs ''producer_id'' \<or>
          PInt (rc_producer_generation c) \<noteq> dget vs ''producer_generation'' \<or> rc_expected_executor_instance_id c \<noteq> og_executor g
        then ''OPERATOR_ROUTE_GRANT_BINDING_MISMATCH''
      else if \<not> list_all (\<lambda>k. py_eq (dget target k) (dget vs k)) [''host_id'', ''namespace'', ''pod_uid'', ''container_name'', ''container_id'']
        then ''OPERATOR_ROUTE_TARGET_MISMATCH'' else [])"

definition validate_grant :: "'w xenv \<Rightarrow> operator_grant \<Rightarrow> effect_request \<Rightarrow> int \<Rightarrow> ('w executor, string) act" where
  "validate_grant env g q uid = bindS (askX (x_wall env)) (\<lambda>wall. bindS (askX (x_boot env)) (\<lambda>elapsed.
     if grant_expired g wall elapsed then retS ''OPERATOR_ROUTE_GRANT_EXPIRED_OR_CLOCK_CHANGED''
     else bindS (modS (\<lambda>s. s\<lparr>ex_grant := Some (g\<lparr>og_wall := wall, og_elapsed := elapsed\<rparr>)\<rparr>)) (\<lambda>_. retS (grant_mismatch g q uid))))"

text \<open>The error of the route authorizer, empty where none applies.\<close>

definition grant_error :: "'w xenv \<Rightarrow> server_config \<Rightarrow> effect_request \<Rightarrow> int \<Rightarrow> ('w executor, string) act" where
  "grant_error env cfg q uid =
     (if er_intent_type q \<noteq> ''SWITCH_STREAM_ROUTE'' then retS []
      else if sc_delivery cfg = None then retS ''OPERATOR_ROUTE_GRANT_REQUIRED''
      else bindS (load_grant env cfg) (\<lambda>g. validate_grant env g q uid))"

definition start_worker :: "'w xenv \<Rightarrow> job \<Rightarrow> ('w executor, unit) act" where
  "start_worker env j = bindS (askX (x_spawn env)) (\<lambda>_. modS (\<lambda>s. s\<lparr>ex_jobs := ex_jobs s @ [j]\<rparr>))"

definition run_hook :: "'w xenv \<Rightarrow> effect_request \<Rightarrow> ('w executor, bool) act" where
  "run_hook env q = (case x_before env of
       None \<Rightarrow> retS False
     | Some f \<Rightarrow> catch_all (bindS (askX (f q)) (\<lambda>_. retS False)) (\<lambda>e. retS True))"

text \<open>From the reserved boundary on: hand over to a worker, or carry out the effect here.\<close>

definition execute :: "'w xenv \<Rightarrow> server_config \<Rightarrow> effect_request \<Rightarrow> (string \<times> py) list \<Rightarrow> instant \<Rightarrow> bool \<Rightarrow> ('w executor, (string \<times> py) list) act" where
  "execute env cfg q target checked hook_failed =
     (if sc_async cfg then
        bindS (start_worker env \<lparr>jb_request = q, jb_hook_failed = hook_failed, jb_target = target, jb_checked_at = checked, jb_outcome = None\<rparr>) (\<lambda>_.
        response env cfg True ''EFFECT_ACCEPTED_EXECUTION_STARTED'' ''EXECUTION_STARTED'' (Some q) False
          (PDict [(''execution_async'', PBool True), (''effect_result_pending'', PBool True)]))
      else
        bindS (perform env q target checked) (\<lambda>result0. let result = with_hook_note hook_failed result0 in
        bindS (safe_transition env cfg (er_request_id q) ''EFFECT_OBSERVED'' result (Some (scope_state_of cfg q))) (\<lambda>persisted.
        if persisted then response env cfg True ''EFFECT_OBSERVED'' ''EFFECT_OBSERVED'' (Some q) False (PDict result)
        else response env cfg False ''EFFECT_RESULT_PERSISTENCE_FAILED'' ''OUTCOME_UNKNOWN'' (Some q) False (PDict (aset ''result_persisted'' (PBool False) result)))))"

definition reserve_and_execute ::
    "'w xenv \<Rightarrow> server_config \<Rightarrow> effect_request \<Rightarrow> (string \<times> py) list \<Rightarrow> instant \<Rightarrow> ('w executor, (string \<times> py) list) act" where
  "reserve_and_execute env cfg q target checked =
     bindS (run_hook env q) (\<lambda>hook_failed.
     bindS (store env cfg (mark_effect_boundary (er_request_id q))) (\<lambda>reserved.
     if \<not> reserved then
       bindS (safe_transition env cfg (er_request_id q) ''OUTCOME_UNKNOWN'' [(''reason'', PStr ''EFFECT_SCOPE_BOUNDARY_RESERVATION_FAILED'')] None) (\<lambda>_.
       response env cfg False ''EFFECT_SCOPE_BOUNDARY_RESERVATION_FAILED'' ''OUTCOME_UNKNOWN'' (Some q) False PNone)
     else execute env cfg q target checked hook_failed))"

definition drift_result :: "string \<Rightarrow> (string \<times> py) list" where
  "drift_result mismatch = [(''reason'', PStr ''EFFECT_BOUNDARY_IDENTITY_DRIFT''), (''identity_mismatch'', PStr mismatch), (''physical_effect_count'', PInt 0)]"

text \<open>After \<open>EXECUTION_STARTED\<close> is durable: look at the target again.\<close>

definition revalidate ::
    "pylib \<Rightarrow> 'w xenv \<Rightarrow> server_config \<Rightarrow> int \<Rightarrow> effect_request \<Rightarrow> bool \<Rightarrow> instant \<Rightarrow> ('w executor, (string \<times> py) list) act" where
  "revalidate lib env cfg uid q replay checked =
     bindS (askX (x_target env)) (\<lambda>current. let mismatch = identity_mismatch lib q current in
     if mismatch \<noteq> [] then
       bindS (safe_transition env cfg (er_request_id q) ''EFFECT_FAILED'' (drift_result mismatch) None) (\<lambda>_.
       response env cfg False ''EFFECT_BOUNDARY_IDENTITY_DRIFT'' ''EFFECT_FAILED'' (Some q) replay (PDict (drift_result mismatch)))
     else bindS (grant_error env cfg q uid) (\<lambda>err.
       if err \<noteq> [] then
         bindS (safe_transition env cfg (er_request_id q) ''EFFECT_FAILED'' (no_effect_result err) None) (\<lambda>_.
         response env cfg False err ''EFFECT_FAILED'' (Some q) False PNone)
       else reserve_and_execute env cfg q current checked))"

definition admit ::
    "pylib \<Rightarrow> (py \<Rightarrow> string res) \<Rightarrow> 'w xenv \<Rightarrow> server_config \<Rightarrow> int \<Rightarrow> effect_request \<Rightarrow> instant \<Rightarrow> ('w executor, (string \<times> py) list) act" where
  "admit lib rfc env cfg uid q checked =
     bindS (store env cfg (accept lib rfc q)) (\<lambda>a.
     if \<not> aa_accepted a then response env cfg False (aa_reason a) (aa_state a) (Some q) (aa_replay a) (aa_result a)
     else bindS (store env cfg (transition (er_request_id q) ''ACCEPTED'' ''EXECUTION_STARTED'' None None)) (\<lambda>started.
       if \<not> started then response env cfg False ''EXECUTION_START_TRANSITION_FAILED'' ''OUTCOME_UNKNOWN'' (Some q) False PNone
       else revalidate lib env cfg uid q (aa_replay a) checked))"

text \<open>The checks before the ledger is touched; the request is read by then.\<close>

definition handle_request ::
    "pylib \<Rightarrow> (py \<Rightarrow> string res) \<Rightarrow> 'w xenv \<Rightarrow> server_config \<Rightarrow> int \<Rightarrow> effect_request \<Rightarrow> ('w executor, (string \<times> py) list) act" where
  "handle_request lib rfc env cfg uid q =
     (if er_intent_type q \<notin> set (sc_intents cfg) then rejected env cfg ''INTENT_NOT_OWNED_BY_EXECUTOR'' (Some q)
      else bindS (grant_error env cfg q uid) (\<lambda>err.
      if err \<noteq> [] then rejected env cfg err (Some q)
      else bindS (liftS (parse_instant lib (PStr (rc_issued_at (er_common q))))) (\<lambda>issued. bindS (askX (x_now env)) (\<lambda>now1.
      if issued > now1 then rejected env cfg ''REQUEST_ISSUED_IN_FUTURE'' (Some q)
      else bindS (liftS (parse_instant lib (PStr (rc_expires_at (er_common q))))) (\<lambda>expires. bindS (askX (x_now env)) (\<lambda>now2.
      if expires \<le> now2 then rejected env cfg ''REQUEST_EXPIRED'' (Some q)
      else bindS (askX (x_target env)) (\<lambda>current. let mismatch = identity_mismatch lib q current in
      if mismatch \<noteq> [] then rejected env cfg mismatch (Some q)
      else admit lib rfc env cfg uid q now2)))))))"

section \<open>Queries\<close>

definition view_py :: "request_view \<Rightarrow> (string \<times> py) list" where
  "view_py v = [(''request_id'', PStr (rv_request_id v)), (''state'', PStr (rv_state v)), (''result'', rv_result v),
     (''effect_scope_id'', PStr (rv_scope_id v)), (''effect_scope_state'', PStr (rv_scope_state v)),
     (''effect_boundary_reached'', PBool (rv_boundary v)), (''physical_attempt_count'', PInt (rv_attempts v))]"

definition unknown_view :: "string \<Rightarrow> request_view" where
  "unknown_view rid = \<lparr>rv_request_id = rid, rv_state = ''UNKNOWN'', rv_result = PNone, rv_scope_id = [], rv_scope_state = ''UNKNOWN'',
     rv_boundary = False, rv_attempts = 0\<rparr>"

definition retry_of_view :: "request_view \<Rightarrow> py" where
  "retry_of_view v = no_retry (rv_state v \<in> {''EXECUTION_STARTED'', ''OUTCOME_UNKNOWN''} \<or> rv_scope_state v = ''EFFECT_OBSERVED_AWAITING_VERIFICATION'')"

definition checked_id :: "pylib \<Rightarrow> (string \<times> py) list \<Rightarrow> string \<Rightarrow> string \<Rightarrow> string \<Rightarrow> string res" where
  "checked_id lib xs key wrong_fields invalid =
     (let i = text_of lib (dget xs key) in
      bindE (requireE (same_keys xs [''schema_version'', key]) (ProtocolError wrong_fields)) (\<lambda>_.
      bindE (requireE (i \<noteq> [] \<and> length i \<le> 256) (ProtocolError invalid)) (\<lambda>_. Inr i)))"

definition query_scopes :: "'w xenv \<Rightarrow> server_config \<Rightarrow> (string \<times> py) list \<Rightarrow> ('w executor, (string \<times> py) list) act" where
  "query_scopes env cfg xs =
     bindS (requireS (same_keys xs [''schema_version'']) (ProtocolError ''UNRESOLVED_QUERY_FIELDS_NOT_EXACT'')) (\<lambda>_.
     bindS (read env cfg (\<lambda>lg. Inr (unresolved_scopes lg))) (\<lambda>scopes.
     bindS (read_authority env cfg) (\<lambda>auth.
     retS [(''schema_version'', PStr ''runtime.effect_unresolved_response.v1''), (''ok'', PBool True), (''reason'', PStr ''UNRESOLVED_SCOPES_READ''),
       (''unresolved_count'', PInt (int (length scopes))), (''unresolved_scopes'', PList (map PDict scopes)),
       (''active_authority'', PDict auth), (''automatic_retry'', no_retry (scopes \<noteq> []))])))"

definition query_request :: "pylib \<Rightarrow> 'w xenv \<Rightarrow> server_config \<Rightarrow> (string \<times> py) list \<Rightarrow> ('w executor, (string \<times> py) list) act" where
  "query_request lib env cfg xs =
     bindS (liftS (checked_id lib xs ''request_id'' ''REQUEST_STATUS_QUERY_FIELDS_NOT_EXACT'' ''REQUEST_STATUS_QUERY_ID_INVALID'')) (\<lambda>rid.
     bindS (read env cfg (\<lambda>lg. Inr (request_status lg rid))) (\<lambda>status. retS (case status of
       None \<Rightarrow> [(''schema_version'', PStr ''runtime.effect_request_status_response.v1''), (''ok'', PBool False), (''reason'', PStr ''REQUEST_NOT_FOUND'')]
         @ view_py (unknown_view rid) @ [(''automatic_retry'', PNone)]
     | Some v \<Rightarrow> [(''schema_version'', PStr ''runtime.effect_request_status_response.v1''), (''ok'', PBool True), (''reason'', PStr ''REQUEST_STATUS_READ'')]
         @ view_py v @ [(''automatic_retry'', retry_of_view v)])))"

definition query_correlation :: "pylib \<Rightarrow> 'w xenv \<Rightarrow> server_config \<Rightarrow> (string \<times> py) list \<Rightarrow> ('w executor, (string \<times> py) list) act" where
  "query_correlation lib env cfg xs =
     bindS (liftS (checked_id lib xs ''correlation_id'' ''CORRELATION_STATUS_QUERY_FIELDS_NOT_EXACT'' ''CORRELATION_STATUS_QUERY_ID_INVALID'')) (\<lambda>cid.
     bindS (read env cfg (\<lambda>lg. status_by_correlation lg cid)) (\<lambda>(n, status).
     let head = (\<lambda>ok reason. [(''schema_version'', PStr ''runtime.effect_correlation_status_response.v1''), (''ok'', PBool ok), (''reason'', PStr reason),
           (''correlation_id'', PStr cid), (''matching_count'', PInt (int n))]) in
     retS (case status of
       None \<Rightarrow> head False (if n = 0 then ''CORRELATION_NOT_FOUND'' else ''CORRELATION_AMBIGUOUS'') @ view_py (unknown_view []) @ [(''automatic_retry'', PNone)]
     | Some v \<Rightarrow> head True ''CORRELATION_STATUS_READ'' @ view_py v @ [(''automatic_retry'', retry_of_view v)])))"

section \<open>Closing a fence on evidence\<close>

definition perr :: "bool \<Rightarrow> string \<Rightarrow> unit res" where
  "perr c why = requireE c (ProtocolError why)"

text \<open>\<open>v in {s, t}\<close>: an unhashable value raises.\<close>

definition in_names :: "py \<Rightarrow> string list \<Rightarrow> bool res" where
  "in_names v names = (case v of PList _ \<Rightarrow> Inl TypeError | PDict _ \<Rightarrow> Inl TypeError | PStr s \<Rightarrow> Inr (s \<in> set names) | _ \<Rightarrow> Inr False)"

definition RECONCILIATION_FIELDS :: "string list" where
  "RECONCILIATION_FIELDS = [''schema_version'', ''reconciliation_id'', ''effect_scope_id'', ''owner_request_id'', ''owner_request_digest'', ''resolution'', ''evidence'']"

definition evidence_fields :: "string \<Rightarrow> string list" where
  "evidence_fields resolution = [''schema_version'', ''oracle'', ''observed_at'', ''automatic_retry_count'', ''before_target'', ''observed_target'',
       ''runtime_observation_id'', ''transport'']
     @ (if resolution = ''EFFECT_OBSERVED'' then [''physical_effect_count''] else [''physical_attempt_count'', ''physical_effect_outcome''])"

definition EVIDENCE_V1 :: string where "EVIDENCE_V1 = ''runtime.delayed_exit_reconciliation_evidence.v1''"
definition EVIDENCE_V2 :: string where "EVIDENCE_V2 = ''runtime.delayed_exit_reconciliation_evidence.v2''"

definition evidence_kind :: "(string \<times> py) list \<Rightarrow> string \<Rightarrow> string \<Rightarrow> unit res" where
  "evidence_kind ev resolution schema =
     (if resolution = ''EFFECT_OBSERVED'' then
        bindE (perr (schema \<in> {EVIDENCE_V1, EVIDENCE_V2}) ''RECONCILIATION_EVIDENCE_SCHEMA_INVALID'') (\<lambda>_.
        bindE (perr (dget ev ''oracle'' = PStr (if schema = EVIDENCE_V1 then ''DELAYED_FFMPEG_EXIT_AND_HEALTHY_SUCCESSOR''
          else ''DELAYED_FFMPEG_EXIT_AND_SUCCESSOR_ACK_PROGRESS'')) ''RECONCILIATION_ORACLE_INVALID'') (\<lambda>_.
        perr (py_eq (PInt 1) (dget ev ''physical_effect_count'')) ''RECONCILIATION_ATTEMPT_COUNT_INVALID''))
      else
        bindE (perr (schema = ''runtime.retired_target_reconciliation_evidence.v1'') ''RECONCILIATION_EVIDENCE_SCHEMA_INVALID'') (\<lambda>_.
        bindE (perr (dget ev ''oracle'' = PStr ''EXACT_TARGET_RETIRED_AND_HEALTHY_REPLACEMENT'') ''RECONCILIATION_ORACLE_INVALID'') (\<lambda>_.
        bindE (perr (py_eq (PInt 1) (dget ev ''physical_attempt_count'')) ''RECONCILIATION_ATTEMPT_COUNT_INVALID'') (\<lambda>_.
        bindE (in_names (dget ev ''physical_effect_outcome'') [''UNKNOWN'', ''EFFECT_OBSERVED'']) (\<lambda>b.
        perr b ''RECONCILIATION_ATTEMPT_COUNT_INVALID'')))))"

definition transport_fields :: "string \<Rightarrow> string list" where
  "transport_fields schema = [''bytes_sent'', ''network_down'', ''tcp_probe_ok'']
     @ (if schema = EVIDENCE_V2 then [''ffmpeg_generation'', ''ack_observation_count'', ''bytes_acked_start'', ''bytes_acked_end'', ''bytes_acked_delta'', ''ack_samples'']
        else [])"

definition transport_of :: "(string \<times> py) list \<Rightarrow> string \<Rightarrow> (string \<times> py) list res" where
  "transport_of ev schema = (case dget ev ''transport'' of
       PDict t \<Rightarrow> bindE (perr (same_keys t (transport_fields schema)) ''RECONCILIATION_TRANSPORT_FIELDS_INVALID'') (\<lambda>_.
         bindE (perr ((case dget t ''bytes_sent'' of PInt n \<Rightarrow> n > 0 | _ \<Rightarrow> False) \<and> dget t ''network_down'' = PBool False \<and>
           dget t ''tcp_probe_ok'' = PBool True) ''RECONCILIATION_TRANSPORT_NOT_HEALTHY'') (\<lambda>_. Inr t))
     | _ \<Rightarrow> Inl (ProtocolError ''RECONCILIATION_TRANSPORT_FIELDS_INVALID''))"

text \<open>The aggregate of the acknowledged bytes: the samples, the first and the last count.\<close>

definition ack_aggregate :: "(string \<times> py) list \<Rightarrow> (py list \<times> int \<times> int) res" where
  "ack_aggregate t =
     (case (dget t ''ack_observation_count'', dget t ''bytes_acked_start'', dget t ''bytes_acked_end'', dget t ''bytes_acked_delta'', dget t ''ack_samples'') of
        (PInt count, PInt start, PInt fin, PInt delta, PList acks) \<Rightarrow>
          bindE (perr (3 \<le> count \<and> count \<le> 16 \<and> start \<ge> 0 \<and> fin > start \<and> delta = fin - start \<and> int (length acks) = count)
            ''RECONCILIATION_ACK_AGGREGATE_INVALID'') (\<lambda>_. Inr (acks, start, fin))
      | _ \<Rightarrow> Inl (ProtocolError ''RECONCILIATION_ACK_AGGREGATE_INVALID''))"

definition ack_value :: "pylib \<Rightarrow> (string \<times> py) list \<Rightarrow> py \<Rightarrow> int res" where
  "ack_value lib observed sample = (case sample of
       PDict xs \<Rightarrow>
         bindE (perr (same_keys xs [''observed_at'', ''ffmpeg_pid'', ''ffmpeg_generation'', ''bytes_acked'']) ''RECONCILIATION_ACK_SAMPLES_INVALID'') (\<lambda>_.
         bindE (perr (is_int (dget xs ''ffmpeg_pid'') \<and> dget xs ''ffmpeg_pid'' = dget observed ''ffmpeg_pid'' \<and>
           PStr (str_or_empty lib (dget xs ''ffmpeg_generation'')) = dget observed ''ffmpeg_generation'') ''RECONCILIATION_ACK_GENERATION_MISMATCH'') (\<lambda>_.
         case dget xs ''bytes_acked'' of
           PInt n \<Rightarrow> bindE (perr (n \<ge> 0) ''RECONCILIATION_ACK_SAMPLES_INVALID'') (\<lambda>_. Inr n)
         | _ \<Rightarrow> Inl (ProtocolError ''RECONCILIATION_ACK_SAMPLES_INVALID'')))
     | _ \<Rightarrow> Inl (ProtocolError ''RECONCILIATION_ACK_SAMPLES_INVALID''))"

definition sample_in_time :: "instant \<Rightarrow> instant \<Rightarrow> instant \<Rightarrow> bool" where
  "sample_in_time now t observed_at \<longleftrightarrow>
     \<not> (total_seconds (now - t) < - 1 \<or> total_seconds (now - t) > 30 \<or> t > observed_at + 1000000)"

definition follows :: "(instant \<times> int) option \<Rightarrow> instant \<Rightarrow> int \<Rightarrow> unit res" where
  "follows prev t n = (case prev of
       None \<Rightarrow> Inr ()
     | Some (t0, n0) \<Rightarrow> bindE (perr (t > t0) ''RECONCILIATION_ACK_SAMPLES_INVALID'') (\<lambda>_. perr (n > n0) ''RECONCILIATION_ACK_NOT_CONSECUTIVELY_PROGRESSING''))"

fun check_samples ::
    "pylib \<Rightarrow> 'w xenv \<Rightarrow> (string \<times> py) list \<Rightarrow> instant \<Rightarrow> (instant \<times> int) option \<Rightarrow> py list \<Rightarrow> ('w executor, int list) act" where
  "check_samples lib env observed observed_at prev [] = retS []"
| "check_samples lib env observed observed_at prev (x # xs) =
     bindS (liftS (ack_value lib observed x)) (\<lambda>n.
     bindS (liftS (parse_instant lib (dget (dict_of_py x) ''observed_at''))) (\<lambda>t.
     bindS (askX (x_now env)) (\<lambda>now.
     bindS (liftS (perr (sample_in_time now t observed_at) ''RECONCILIATION_ACK_SAMPLE_STALE_OR_FUTURE'')) (\<lambda>_.
     bindS (liftS (follows prev t n)) (\<lambda>_.
     bindS (check_samples lib env observed observed_at (Some (t, n)) xs) (\<lambda>ns. retS (n # ns)))))))"

definition check_acks :: "pylib \<Rightarrow> 'w xenv \<Rightarrow> (string \<times> py) list \<Rightarrow> instant \<Rightarrow> (string \<times> py) list \<Rightarrow> ('w executor, unit) act" where
  "check_acks lib env observed observed_at t =
     bindS (requireS (PStr (str_or_empty lib (dget t ''ffmpeg_generation'')) = dget observed ''ffmpeg_generation'') (ProtocolError ''RECONCILIATION_ACK_GENERATION_MISMATCH'')) (\<lambda>_.
     bindS (liftS (ack_aggregate t)) (\<lambda>(acks, start, fin).
     bindS (check_samples lib env observed observed_at None acks) (\<lambda>ns.
     requireS (ns \<noteq> [] \<and> hd ns = start \<and> last ns = fin) (ProtocolError ''RECONCILIATION_ACK_AGGREGATE_INVALID''))))"

text \<open>The identity of the successor, or of the replacement.\<close>

definition successor_distinct :: "(string \<times> py) list \<Rightarrow> (string \<times> py) list \<Rightarrow> unit res" where
  "successor_distinct prior observed =
     bindE (perr (list_all (\<lambda>k. dget prior k = dget observed k) [''host_id'', ''host_boot_id'', ''namespace'', ''pod_uid'', ''container_name'', ''container_id''])
       ''RECONCILIATION_RUNTIME_IDENTITY_DRIFT'') (\<lambda>_.
     perr (\<not> (dget prior ''ffmpeg_pid'' = dget observed ''ffmpeg_pid'' \<or> dget prior ''ffmpeg_generation'' = dget observed ''ffmpeg_generation''))
       ''RECONCILIATION_SUCCESSOR_NOT_DISTINCT'')"

definition replacement_distinct :: "(string \<times> py) list \<Rightarrow> (string \<times> py) list \<Rightarrow> unit res" where
  "replacement_distinct prior observed =
     bindE (perr (list_all (\<lambda>k. dget prior k = dget observed k) [''host_id'', ''namespace'', ''container_name'']) ''RECONCILIATION_REPLACEMENT_DOMAIN_MISMATCH'') (\<lambda>_.
     perr (\<not> list_all (\<lambda>k. dget prior k = dget observed k) [''host_boot_id'', ''pod_uid'', ''container_id'']) ''RECONCILIATION_OLD_TARGET_NOT_RETIRED'')"

record closing =
  cl_id :: string
  cl_scope :: string
  cl_owner :: string
  cl_digest :: string
  cl_resolution :: string
  cl_evidence :: "(string \<times> py) list"

definition closing_of :: "pylib \<Rightarrow> (string \<times> py) list \<Rightarrow> closing res" where
  "closing_of lib xs =
     bindE (perr (same_keys xs RECONCILIATION_FIELDS) ''RECONCILIATION_FIELDS_NOT_EXACT'') (\<lambda>_.
     let f = (\<lambda>k. text_of lib (dget xs k)); resolution = f ''resolution'' in
     bindE (perr (list_all (\<lambda>k. f k \<noteq> []) [''reconciliation_id'', ''effect_scope_id'', ''owner_request_id'', ''owner_request_digest'', ''resolution''])
       ''RECONCILIATION_IDENTITY_MISSING'') (\<lambda>_.
     bindE (perr (resolution \<in> {''EFFECT_OBSERVED'', ''TARGET_RETIRED''}) ''AUTOMATIC_RECONCILIATION_RESOLUTION_NOT_ALLOWED'') (\<lambda>_.
     case dget xs ''evidence'' of
       PDict ev \<Rightarrow> bindE (perr (same_keys ev (evidence_fields resolution)) ''RECONCILIATION_EVIDENCE_FIELDS_NOT_EXACT'') (\<lambda>_.
         bindE (evidence_kind ev resolution (str_or_empty lib (dget ev ''schema_version''))) (\<lambda>_.
         Inr \<lparr>cl_id = f ''reconciliation_id'', cl_scope = f ''effect_scope_id'', cl_owner = f ''owner_request_id'', cl_digest = f ''owner_request_digest'',
           cl_resolution = resolution, cl_evidence = ev\<rparr>))
     | _ \<Rightarrow> Inl (ProtocolError ''RECONCILIATION_EVIDENCE_NOT_OBJECT''))))"

definition evidence_age :: "instant \<Rightarrow> instant \<Rightarrow> unit res" where
  "evidence_age now observed_at =
     perr (\<not> (total_seconds (now - observed_at) < - 1 \<or> total_seconds (now - observed_at) > 30)) ''RECONCILIATION_EVIDENCE_STALE_OR_FUTURE''"

text \<open>The targets the evidence speaks of: the fenced one before, the current one now.\<close>

definition bound_targets ::
    "pylib \<Rightarrow> 'w xenv \<Rightarrow> server_config \<Rightarrow> closing \<Rightarrow> ('w executor, (string \<times> py) list \<times> (string \<times> py) list) act" where
  "bound_targets lib env cfg c =
     bindS (liftS (validate_target lib (dget (cl_evidence c) ''before_target''))) (\<lambda>prior.
     bindS (liftS (validate_target lib (dget (cl_evidence c) ''observed_target''))) (\<lambda>observed.
     bindS (read env cfg (\<lambda>lg. Inr (ledger_scope lg (cl_scope c)))) (\<lambda>scope.
     bindS (requireS (case scope of None \<Rightarrow> False | Some f \<Rightarrow> py_eq (fe_identity f) (PDict prior)) (ProtocolError ''RECONCILIATION_BEFORE_TARGET_NOT_BOUND'')) (\<lambda>_.
     bindS (askX (x_target env)) (\<lambda>current.
     bindS (requireS (py_eq (case map_of current ''ffmpeg_target_identity'' of Some v \<Rightarrow> v | None \<Rightarrow> dget current ''target_identity'') (PDict observed))
       (ProtocolError ''RECONCILIATION_OBSERVED_TARGET_NOT_CURRENT'')) (\<lambda>_. retS (prior, observed)))))))"

definition record_closing :: "pylib \<Rightarrow> 'w xenv \<Rightarrow> server_config \<Rightarrow> closing \<Rightarrow> (string \<times> py) list \<Rightarrow> (string \<times> py) list \<Rightarrow> ('w executor, (string \<times> py) list) act" where
  "record_closing lib env cfg c prior observed =
     (if cl_resolution c = ''EFFECT_OBSERVED'' then
        bindS (liftS (successor_distinct prior observed)) (\<lambda>_.
        store env cfg (record_reconciliation lib (cl_id c) (cl_scope c) (cl_resolution c) (cl_evidence c) (Some (cl_owner c)) (Some (cl_digest c))))
      else
        bindS (liftS (replacement_distinct prior observed)) (\<lambda>_.
        store env cfg (record_target_retirement lib (cl_id c) (cl_scope c) (cl_evidence c) (cl_owner c) (cl_digest c))))"

definition reconcile_fence :: "pylib \<Rightarrow> 'w xenv \<Rightarrow> server_config \<Rightarrow> (string \<times> py) list \<Rightarrow> ('w executor, (string \<times> py) list) act" where
  "reconcile_fence lib env cfg xs =
     bindS (liftS (closing_of lib xs)) (\<lambda>c. let ev = cl_evidence c; schema = str_or_empty lib (dget ev ''schema_version'') in
     bindS (liftS (parse_instant lib (dget ev ''observed_at''))) (\<lambda>observed_at. bindS (askX (x_now env)) (\<lambda>now.
     bindS (liftS (evidence_age now observed_at)) (\<lambda>_.
     bindS (requireS (py_eq (PInt 0) (dget ev ''automatic_retry_count'')) (ProtocolError ''RECONCILIATION_ATTEMPT_COUNT_INVALID'')) (\<lambda>_.
     bindS (requireS (text_of lib (dget ev ''runtime_observation_id'') \<noteq> []) (ProtocolError ''RECONCILIATION_OBSERVATION_ID_MISSING'')) (\<lambda>_.
     bindS (bound_targets lib env cfg c) (\<lambda>(prior, observed).
     bindS (liftS (transport_of ev schema)) (\<lambda>t.
     bindS (if schema = EVIDENCE_V2 then check_acks lib env observed observed_at t else retS ()) (\<lambda>_.
     bindS (record_closing lib env cfg c prior observed) (\<lambda>result.
     bindS (read_authority env cfg) (\<lambda>auth. bindS (read_unresolved env cfg) (\<lambda>n. bindS (read_unresolved env cfg) (\<lambda>n'.
     retS ([(''schema_version'', PStr ''runtime.effect_reconciliation_response.v1''), (''ok'', PBool True), (''reason'', PStr ''EFFECT_SCOPE_RECONCILED''),
         (''state'', PStr (if cl_resolution c = ''EFFECT_OBSERVED'' then ''RECONCILED_EFFECT_OBSERVED'' else ''RETIRED_TARGET_OUTCOME_UNKNOWN''))]
       @ result @ [(''active_authority'', PDict auth), (''in_flight_count'', PInt n), (''automatic_retry'', no_retry (n' \<noteq> 0))]))))))))))))))"

section \<open>Handing over the authority\<close>

text \<open>\<open>operator_authority_handoff\<close> of \<open>src/src/stream_core/runtime_boundary_entrypoint.py\<close>; \<open>x_grant\<close> reads the operator's grant file.\<close>

definition HANDOFF_FIELDS :: "string list" where
  "HANDOFF_FIELDS = [''schema_version'', ''grant_id'', ''phase'', ''expected_producer_id'', ''expected_generation'']"

definition rejectE :: "bool \<Rightarrow> string \<Rightarrow> unit res" where
  "rejectE c why = requireE c (EffectRejected why)"

text \<open>Whether value and previous authority name the same producer.\<close>

definition names_producer :: "(string \<times> py) list \<Rightarrow> py \<Rightarrow> py \<Rightarrow> bool" where
  "names_producer xs producer_id generation \<longleftrightarrow>
     py_eq (dget xs ''expected_producer_id'') producer_id \<and> py_eq (dget xs ''expected_generation'') generation"

text \<open>The producer expected now and the one to be: on entering, from the configured authority to that of the grant, and back.\<close>

definition grant_producer :: "operator_grant \<Rightarrow> string \<times> int" where
  "grant_producer g = (case (dget (og_values g) ''producer_id'', dget (og_values g) ''producer_generation'') of
       (PStr i, PInt n) \<Rightarrow> (i, n) | _ \<Rightarrow> ([], 0))"

definition handoff_target :: "delivery_config \<Rightarrow> seconds \<Rightarrow> (string \<times> py) list \<Rightarrow> operator_grant \<Rightarrow> ((string \<times> int) \<times> string \<times> int) res" where
  "handoff_target dc wall xs g =
     (let prev = (dc_previous_producer dc, dc_previous_generation dc); granted = grant_producer g in
      if dget xs ''phase'' = PStr ''enter'' then
        bindE (rejectE (wall < og_expires_at g) ''OPERATOR_ROUTE_GRANT_EXPIRED'') (\<lambda>_.
        bindE (rejectE (names_producer xs (PStr (fst prev)) (PInt (snd prev))) ''OPERATOR_HANDOFF_AUTHORITY_MISMATCH'') (\<lambda>_. Inr (prev, granted)))
      else if dget xs ''phase'' = PStr ''leave'' then
        bindE (rejectE (names_producer xs (PStr (fst granted)) (PInt (snd granted))) ''OPERATOR_HANDOFF_AUTHORITY_MISMATCH'') (\<lambda>_. Inr (granted, prev))
      else Inl (EffectRejected ''OPERATOR_HANDOFF_PHASE_INVALID''))"

definition handoff :: "'w xenv \<Rightarrow> server_config \<Rightarrow> (string \<times> py) list \<Rightarrow> int \<Rightarrow> ('w executor, (string \<times> py) list) act" where
  "handoff env cfg xs uid =
     bindS (liftS (rejectE (same_keys xs HANDOFF_FIELDS) ''OPERATOR_HANDOFF_FIELDS_INVALID'')) (\<lambda>_.
     case sc_delivery cfg of
       None \<Rightarrow> raiseS (EffectRejected ''OPERATOR_HANDOFF_UNAUTHORIZED'')
     | Some dc \<Rightarrow>
         bindS (liftS (rejectE (uid = 0 \<and> py_eq (dget xs ''grant_id'') (dc_grant_id dc)) ''OPERATOR_HANDOFF_UNAUTHORIZED'')) (\<lambda>_.
         bindS (load_grant env cfg) (\<lambda>g.
         bindS (if dget xs ''phase'' = PStr ''enter'' then askX (x_wall env) else retS 0) (\<lambda>wall.
         bindS (liftS (handoff_target dc wall xs g)) (\<lambda>(old, new).
         bindS (store env cfg (switch_authority (fst old) (snd old) (fst new) (snd new))) (\<lambda>d.
         bindS (askX (x_append_event env)) (\<lambda>_.
         retS [(''schema_version'', PStr ''runtime.operator_authority_handoff_response.v1''), (''accepted'', PBool (hd_accepted d)),
           (''reason'', PStr (hd_reason d)), (''producer_id'', PStr (hd_producer_id d)), (''producer_generation'', PInt (hd_producer_generation d)),
           (''authority_version'', PInt (hd_version d))])))))))"

section \<open>A connection\<close>

definition MAX_REQUEST :: nat where "MAX_REQUEST = 65536"

text \<open>\<open>chunk i\<close> is what the \<open>i\<close>-th \<open>recv(4096)\<close> returns or raises; \<open>None\<close> means the fuel was used up.\<close>

fun read_request :: "nat \<Rightarrow> (nat \<Rightarrow> string res) \<Rightarrow> nat \<Rightarrow> string \<Rightarrow> string res option" where
  "read_request 0 chunk i raw = None"
| "read_request (Suc fuel) chunk i raw =
     (if length raw \<le> MAX_REQUEST then (case chunk i of
          Inl e \<Rightarrow> Some (Inl e)
        | Inr c \<Rightarrow> if c = [] then Some (Inr raw)
            else if CHR 0x0A \<in> set c then Some (Inr (raw @ c))
            else read_request fuel chunk (Suc i) (raw @ c))
      else Some (Inr raw))"

record connection =
  cn_uid :: "int res"
  cn_chunk :: "nat \<Rightarrow> string res"
  cn_loads :: "string \<Rightarrow> py res"

definition dispatch ::
    "pylib \<Rightarrow> (py \<Rightarrow> string res) \<Rightarrow> 'w xenv \<Rightarrow> server_config \<Rightarrow> int \<Rightarrow> (string \<times> py) list \<Rightarrow> ('w executor, (string \<times> py) list) act" where
  "dispatch lib rfc env cfg uid xs =
     (let schema = str_or_empty lib (dget xs ''schema_version'') in
      if schema = ''runtime.operator_authority_handoff.v1'' then
        (if uid \<noteq> 0 \<or> sc_delivery cfg = None then rejected env cfg ''OPERATOR_HANDOFF_UNAUTHORIZED'' None else handoff env cfg xs uid)
      else if schema = ''runtime.effect_unresolved_query.v1'' then query_scopes env cfg xs
      else if schema = ''runtime.effect_correlation_status_query.v1'' then query_correlation lib env cfg xs
      else if schema = ''runtime.effect_request_status_query.v1'' then query_request lib env cfg xs
      else if schema = ''runtime.effect_reconciliation_request.v1'' then reconcile_fence lib env cfg xs
      else bindS (liftS (from_mapping lib xs)) (\<lambda>q. guarded env cfg (Some q) (handle_request lib rfc env cfg uid q)))"

definition received :: "connection \<Rightarrow> string res" where
  "received c = (case read_request (MAX_REQUEST + 2) (cn_chunk c) 0 [] of None \<Rightarrow> Inl Diverged | Some r \<Rightarrow> r)"

definition handle_connection ::
    "pylib \<Rightarrow> (py \<Rightarrow> string res) \<Rightarrow> 'w xenv \<Rightarrow> server_config \<Rightarrow> connection \<Rightarrow> ('w executor, (string \<times> py) list) act" where
  "handle_connection lib rfc env cfg c =
     guarded env cfg None (bindS (liftS (cn_uid c)) (\<lambda>uid.
       if uid \<notin> set (sc_uids cfg) then rejected env cfg ''PEER_UID_UNAUTHORIZED'' None
       else bindS (liftS (received c)) (\<lambda>raw.
       if length raw > MAX_REQUEST then rejected env cfg ''REQUEST_TOO_LARGE'' None
       else bindS (liftS (cn_loads c (takeWhile (\<lambda>x. x \<noteq> CHR 0x0A) raw))) (\<lambda>v. case v of
           PDict xs \<Rightarrow> dispatch lib rfc env cfg uid xs
         | _ \<Rightarrow> raiseS (ProtocolError ''REQUEST_NOT_OBJECT'')))))"

definition fallback_response :: "(string \<times> py) list" where
  "fallback_response = [(''schema_version'', PStr ''runtime.effect_response.v1''), (''ok'', PBool False), (''reason'', PStr ''EXECUTOR_INTERNAL_ERROR''),
     (''state'', PStr ''OUTCOME_UNKNOWN''), (''request_id'', PStr []), (''correlation_id'', PStr []), (''intent_type'', PStr []), (''replay'', PBool False),
     (''result'', PDict [(''reason'', PStr ''EXECUTOR_RESPONSE_UNAVAILABLE'')]), (''active_authority'', PDict []), (''in_flight_count'', PInt (- 1)),
     (''automatic_retry'', PBool False)]"

definition serve_one ::
    "pylib \<Rightarrow> (py \<Rightarrow> string res) \<Rightarrow> 'w xenv \<Rightarrow> server_config \<Rightarrow> connection \<Rightarrow> ('w executor, (string \<times> py) list) act" where
  "serve_one lib rfc env cfg c = catch_all (handle_connection lib rfc env cfg c) (\<lambda>e. retS fallback_response)"

fun serve ::
    "pylib \<Rightarrow> (py \<Rightarrow> string res) \<Rightarrow> 'w xenv \<Rightarrow> server_config \<Rightarrow> connection list \<Rightarrow> ('w executor, (string \<times> py) list list) act" where
  "serve lib rfc env cfg [] = bindS (sched env cfg) (\<lambda>_. retS [])"
| "serve lib rfc env cfg (c # cs) = bindS (serve_one lib rfc env cfg c) (\<lambda>r. bindS (serve lib rfc env cfg cs) (\<lambda>rs. retS (r # rs)))"

section \<open>The life of the process\<close>

text \<open>A life begins with the opening of the ledger and ends, in an orderly way or not, with the loss of its workers.\<close>

record 'w xlife =
  xl_env :: "'w xenv"
  xl_config :: server_config
  xl_producer_id :: string
  xl_producer_generation :: int
  xl_connections :: "connection list"

definition executor_life :: "pylib \<Rightarrow> (py \<Rightarrow> string res) \<Rightarrow> 'w xlife \<Rightarrow> ('w executor, (string \<times> py) list list) act" where
  "executor_life lib rfc lf =
     bindS (modS (\<lambda>s. s\<lparr>ex_jobs := [], ex_grant := None\<rparr>)) (\<lambda>_.
     bindS (askX (x_text (xl_env lf))) (\<lambda>ts.
     bindS (on_ledger (open_ledger lib rfc (xl_producer_id lf) (xl_producer_generation lf) ts)) (\<lambda>_.
     serve lib rfc (xl_env lf) (xl_config lf) (xl_connections lf))))"

definition executor_lives :: "pylib \<Rightarrow> (py \<Rightarrow> string res) \<Rightarrow> 'w executor \<Rightarrow> 'w xlife list \<Rightarrow> 'w executor" where
  "executor_lives lib rfc = run (\<lambda>s lf. snd (executor_life lib rfc lf s))"

definition executor_fresh :: "'w \<Rightarrow> 'w executor" where
  "executor_fresh w = \<lparr>ex_ledger = ledger_empty, ex_grant = None, ex_jobs = [], ex_effects = [], ex_world = w\<rparr>"

end
