(* ===== verification/Rb_Calm.thy ===== *)
theory Rb_Calm
  imports Rb_Ledger_Laws Rb_Server
begin

text \<open>
  What the effect executor never does, over every history of connections, worker schedules, storage faults,
  process deaths and restarts. \<open>exec_inv\<close> is the invariant; \<open>calm\<close> is the frame of code that starts no
  effect of its own (workers may still carry out effects that were handed to them); the path from an
  accepted request to its effect is followed step by step (\<open>token\<close>, \<open>armed\<close>).
\<close>

declare act_eval [simp del]

section \<open>The invariant\<close>

definition pending :: "job list \<Rightarrow> effect_request list" where
  "pending js = map jb_request (filter (\<lambda>j. jb_outcome j = None) js)"

definition spent :: "'w executor \<Rightarrow> effect_request list" where
  "spent s = map ev_request (ex_effects s) @ pending (ex_jobs s)"

definition spent_ok :: "pylib \<Rightarrow> (py \<Rightarrow> string res) \<Rightarrow> ledger \<Rightarrow> effect_request \<Rightarrow> bool" where
  "spent_ok lib rfc lg q \<longleftrightarrow> left_accepted (er_request_id q) lg \<and> (\<exists>f \<in> set (lg_fences lg). fence_for lib rfc q f \<and> fe_boundary f)"

definition request_ok :: "pylib \<Rightarrow> effect_request \<Rightarrow> (string \<times> py) list \<Rightarrow> instant \<Rightarrow> bool" where
  "request_ok lib q target checked \<longleftrightarrow> wf_request lib q \<and> identity_mismatch lib q target = [] \<and>
     (\<exists>expires. parse_instant lib (PStr (rc_expires_at (er_common q))) = Inr expires \<and> checked < expires)"

definition event_ok :: "pylib \<Rightarrow> (py \<Rightarrow> string res) \<Rightarrow> effect_event \<Rightarrow> bool" where
  "event_ok lib rfc e \<longleftrightarrow> request_ok lib (ev_request e) (ev_target e) (ev_checked_at e) \<and>
     (\<exists>f \<in> set (lg_fences (ev_ledger e)). fence_for lib rfc (ev_request e) f \<and> fe_boundary f \<and> fe_attempts f = 1)"

definition job_ok :: "pylib \<Rightarrow> job \<Rightarrow> bool" where
  "job_ok lib j \<longleftrightarrow> request_ok lib (jb_request j) (jb_target j) (jb_checked_at j)"

definition exec_inv :: "pylib \<Rightarrow> (py \<Rightarrow> string res) \<Rightarrow> 'w executor \<Rightarrow> bool" where
  "exec_inv lib rfc s \<longleftrightarrow> ledger_wf lib rfc (ex_ledger s) \<and> distinct (map er_request_id (spent s)) \<and>
     (\<forall>q \<in> set (spent s). spent_ok lib rfc (ex_ledger s) q) \<and> (\<forall>e \<in> set (ex_effects s). event_ok lib rfc e) \<and>
     (\<forall>j \<in> set (ex_jobs s). job_ok lib j)"

definition calmX :: "pylib \<Rightarrow> (py \<Rightarrow> string res) \<Rightarrow> 'w executor \<Rightarrow> 'w executor \<Rightarrow> bool" where
  "calmX lib rfc s t \<longleftrightarrow> (exec_inv lib rfc s \<longrightarrow> exec_inv lib rfc t \<and> ledger_mono (ex_ledger s) (ex_ledger t) \<and>
     er_request_id ` set (spent t) \<subseteq> er_request_id ` set (spent s))"

lemma calmX_frame: "state_frame (calmX lib rfc)"
proof unfold_locales
  fix s t u
  assume "calmX lib rfc s t" "calmX lib rfc t u"
  then show "calmX lib rfc s u" unfolding calmX_def using ledger_mono_trans subset_trans by blast
qed (simp add: calmX_def)

interpretation calmX: state_frame "calmX lib rfc" for lib rfc
  by (rule calmX_frame)

lemma spent_ok_mono: "ledger_mono lg lg' \<Longrightarrow> spent_ok lib rfc lg q \<Longrightarrow> spent_ok lib rfc lg' q"
  unfolding spent_ok_def ledger_mono_def by (metis fence_for_kept fence_kept_def)

text \<open>Changes of the ledger alone.\<close>

lemma calm_ledger:
  assumes "ledger_step lib rfc (ex_ledger s) lg"
  shows "calmX lib rfc s (s\<lparr>ex_ledger := lg\<rparr>)"
proof -
  have "exec_inv lib rfc (s\<lparr>ex_ledger := lg\<rparr>) \<and> ledger_mono (ex_ledger s) lg" if i: "exec_inv lib rfc s"
  proof -
    have "ledger_wf lib rfc lg" "ledger_mono (ex_ledger s) lg" using assms i by (simp_all add: exec_inv_def ledger_step_def)
    moreover have "spent (s\<lparr>ex_ledger := lg\<rparr>) = spent s" by (simp add: spent_def)
    ultimately show ?thesis using i by (simp add: exec_inv_def spent_ok_mono)
  qed
  then show ?thesis by (simp add: calmX_def spent_def)
qed

lemma calm_on_ledger: "withinS (ledger_step lib rfc) m \<Longrightarrow> withinS (calmX lib rfc) (on_ledger m)"
  by (auto simp: withinS_def on_ledger_def calm_ledger split: prod.splits) (metis calm_ledger snd_conv)

lemma calmX_same: "ex_ledger t = ex_ledger s \<Longrightarrow> ex_jobs t = ex_jobs s \<Longrightarrow> ex_effects t = ex_effects s \<Longrightarrow> calmX lib rfc s t"
  by (simp add: calmX_def exec_inv_def spent_def)

lemma calmX_ask: "withinS (calmX lib rfc) (askX f)"
  by (auto simp: withinS_def askX_def calmX_same split: prod.splits)

lemma calm_catch_all: "withinS (calmX lib rfc) m \<Longrightarrow> (\<And>e. withinS (calmX lib rfc) (h e)) \<Longrightarrow> withinS (calmX lib rfc) (catch_all m h)"
  unfolding catch_all_def by (intro calmX.within_intros) auto

lemma within_tx:
  "withinS R m \<Longrightarrow> (\<And>e. withinS R (f e)) \<Longrightarrow> (\<And>e. withinS R (g e)) \<Longrightarrow>
     withinS R (case tx of Committed \<Rightarrow> m | Refused e \<Rightarrow> f e | CommittedThen e \<Rightarrow> g e)"
  by (cases tx) auto

lemma calm_raw_txn: "(\<And>ts. stepping lib rfc (f ts)) \<Longrightarrow> withinS (calmX lib rfc) (raw_txn env f)"
  unfolding raw_txn_def by (intro calmX.within_intros within_tx calmX_ask calm_on_ledger txn_within)

section \<open>Workers\<close>

lemma pending_append [simp]: "pending (xs @ ys) = pending xs @ pending ys"
  by (simp add: pending_def)

lemma pending_job [simp]: "pending (j # js) = (if jb_outcome j = None then jb_request j # pending js else pending js)" "pending [] = []"
  by (simp_all add: pending_def)

lemma spent_effect:
  assumes i: "exec_inv lib rfc s" and q: "q \<in> set (spent s)" and rok: "request_ok lib q target checked"
  shows "event_ok lib rfc \<lparr>ev_request = q, ev_target = target, ev_checked_at = checked, ev_ledger = ex_ledger s\<rparr>"
proof -
  from i q obtain f where f: "f \<in> set (lg_fences (ex_ledger s))" "fence_for lib rfc q f" "fe_boundary f"
    by (auto simp: exec_inv_def spent_ok_def)
  with i have "fence_ok f" by (auto simp: exec_inv_def ledger_wf_def fences_wf_def list_all_iff)
  with f rok show ?thesis by (auto simp: event_ok_def fence_ok_def)
qed

lemma calm_perform_job:
  assumes js: "ex_jobs s = xs @ j # ys" and n: "jb_outcome j = None"
  shows "calmX lib rfc s (s\<lparr>ex_effects := ex_effects s @ [\<lparr>ev_request = jb_request j, ev_target = jb_target j, ev_checked_at = jb_checked_at j, ev_ledger = ex_ledger s\<rparr>],
    ex_world := w, ex_jobs := xs @ j\<lparr>jb_outcome := Some r\<rparr> # ys\<rparr>)" (is "calmX lib rfc s ?t")
proof -
  have "exec_inv lib rfc ?t" if i: "exec_inv lib rfc s"
  proof -
    have q: "jb_request j \<in> set (spent s)" and rok: "request_ok lib (jb_request j) (jb_target j) (jb_checked_at j)"
      using i js n by (auto simp: spent_def exec_inv_def job_ok_def)
    from spent_effect [OF i q rok] i js n show ?thesis by (auto simp: exec_inv_def spent_def job_ok_def)
  qed
  then show ?thesis using js n by (auto simp: calmX_def spent_def)
qed

lemma calm_drop_job: "ex_jobs s = xs @ j # ys \<Longrightarrow> calmX lib rfc s (s\<lparr>ex_jobs := xs @ ys\<rparr>)"
  by (auto simp: calmX_def exec_inv_def spent_def)

lemma split_at: "k < length js \<Longrightarrow> \<exists>xs ys. js = xs @ js ! k # ys \<and> length xs = k"
  by (metis id_take_nth_drop length_take min.absorb4)

lemma calm_perform_step:
  assumes k: "k < length (ex_jobs s)" and n: "jb_outcome (ex_jobs s ! k) = None"
  shows "calmX lib rfc s (snd (bindS (attemptS (perform env (jb_request (ex_jobs s ! k)) (jb_target (ex_jobs s ! k)) (jb_checked_at (ex_jobs s ! k)))) (\<lambda>r.
    bindS (modS (\<lambda>s'. s'\<lparr>ex_jobs := (ex_jobs s')[k := (ex_jobs s ! k)\<lparr>jb_outcome := Some r\<rparr>]\<rparr>)) (\<lambda>_.
    if r = Inl Killed then raiseS Killed else retS ())) s))"
proof -
  let ?j = "ex_jobs s ! k"
  obtain xs ys where js: "ex_jobs s = xs @ ?j # ys" "length xs = k" using split_at [OF k] by blast
  obtain r w where x: "x_effect env (jb_request ?j) (ex_world s) = (r, w)" by fastforce
  have "(ex_jobs s)[k := v] = xs @ v # ys" for v using js by (metis list_update_length)
  then show ?thesis
    using calm_perform_job [OF js(1) n, where lib = lib and rfc = rfc and w = w and r = r] x
    by (auto simp: act_eval bindS_def attemptS_def perform_def log_effect_def askX_def split: prod.splits sum.splits)
qed

lemma calm_record_step: "st \<noteq> ''ACCEPTED'' \<Longrightarrow>
  withinS (calmX lib rfc) (catch_all (bindS (raw_txn env (transition rid ''EXECUTION_STARTED'' st r sst)) (\<lambda>_. retS ())) (\<lambda>e. retS ()))"
  by (intro calm_catch_all calmX.within_intros calm_raw_txn transition_step)

lemma outcome_record_state: "outcome_record env cfg j r = (st, sst, res) \<Longrightarrow> st \<noteq> ''ACCEPTED''"
  by (auto simp: outcome_record_def split: sum.splits exn.splits)

lemma calm_drop_step: "k < length (ex_jobs s) \<Longrightarrow> calmX lib rfc s (s\<lparr>ex_jobs := take k (ex_jobs s) @ drop (Suc k) (ex_jobs s)\<rparr>)"
  using split_at [of k "ex_jobs s"] by (auto simp del: append_take_drop_id) (metis calm_drop_job append_eq_conv_conj append_Cons append_assoc append_Nil drop_append id_take_nth_drop)

lemma calm_worker_step: "withinS (calmX lib rfc) (worker_step env cfg k)"
  unfolding withinS_def
proof
  fix s :: "'a executor"
  show "calmX lib rfc s (snd (worker_step env cfg k s))"
  proof (cases "k < length (ex_jobs s)")
    case True
    let ?j = "ex_jobs s ! k"
    show ?thesis
    proof (cases "jb_outcome ?j")
      case None
      with True calm_perform_step [OF True None, of lib rfc env] show ?thesis by (simp add: worker_step_def bindS_def [of "getS _"] act_eval)
    next
      case (Some r)
      obtain st sst res where o: "outcome_record env cfg ?j r = (st, sst, res)" by (metis surj_pair)
      let ?t = "s\<lparr>ex_jobs := take k (ex_jobs s) @ drop (Suc k) (ex_jobs s)\<rparr>"
      have "calmX lib rfc ?t (snd (catch_all (bindS (raw_txn env (transition (er_request_id (jb_request ?j)) ''EXECUTION_STARTED'' st (Some res) sst))
          (\<lambda>_. retS ())) (\<lambda>e. retS ()) ?t))"
        by (rule calm_record_step [OF outcome_record_state [OF o], unfolded withinS_def, rule_format])
      with calm_drop_step [OF True] Some True o show ?thesis
        by (auto simp: worker_step_def bindS_def [of "getS _"] bindS_def [of "modS _"] act_eval intro: calmX.R_trans)
    qed
  qed (simp add: worker_step_def bindS_def act_eval calmX.R_refl)
qed

lemma calm_sched: "withinS (calmX lib rfc) (sched env cfg)"
proof -
  have "withinS (calmX lib rfc) (run_workers env cfg ks)" for ks
    by (induction ks) (simp_all add: calmX.within_basic calmX.within_bind calm_worker_step)
  then show ?thesis unfolding sched_def by (intro calmX.within_intros calmX_ask)
qed

lemma calm_store: "(\<And>ts. stepping lib rfc (f ts)) \<Longrightarrow> withinS (calmX lib rfc) (store env cfg f)"
  unfolding store_def by (intro calmX.within_intros calm_sched calm_raw_txn)

lemma calmX_read: "withinS (calmX lib rfc) (read env cfg f)"
  unfolding read_def by (intro calmX.within_intros calm_sched calmX_ask)

lemma calm_safe_transition: "st \<noteq> ''ACCEPTED'' \<Longrightarrow> withinS (calmX lib rfc) (safe_transition env cfg rid st r sst)"
  unfolding safe_transition_def by (intro calmX.within_intros calm_catch_all calm_store transition_step)

section \<open>Code that starts no effect\<close>

lemma calm_response: "withinS (calmX lib rfc) (response env cfg ok reason st q replay result)"
  unfolding response_def read_authority_def read_unresolved_def by (intro calmX.within_intros calm_catch_all calmX_read)

lemma calm_rejected: "withinS (calmX lib rfc) (rejected env cfg reason q)"
  unfolding rejected_def by (rule calm_response)

lemma calm_mark_failed: "st \<noteq> ''ACCEPTED'' \<Longrightarrow> withinS (calmX lib rfc) (mark_failed env cfg q st result)"
  unfolding mark_failed_def by (intro calmX.within_intros calm_safe_transition)

lemma calm_handle_exception: "withinS (calmX lib rfc) (handle_exception env cfg q e)"
proof (cases e)
  case (OutcomeUnknown v)
  then show ?thesis by (simp add: handle_exception_def calmX.within_bind calm_mark_failed calm_response)
next
  case (EffectRejected v)
  then show ?thesis by (simp add: handle_exception_def calmX.within_bind calm_mark_failed calm_response)
qed (simp_all add: handle_exception_def calmX.within_bind calm_mark_failed calm_response calm_rejected)

lemma calm_mod: "(\<And>s. ex_ledger (f s) = ex_ledger s \<and> ex_jobs (f s) = ex_jobs s \<and> ex_effects (f s) = ex_effects s) \<Longrightarrow> withinS (calmX lib rfc) (modS f)"
  by (intro withinS_mod calmX_same) simp_all

lemma calm_new_grant: "withinS (calmX lib rfc) (new_grant env cfg vs)"
  unfolding new_grant_def Let_def by (intro calmX.within_intros calmX_ask)

lemma within_py:
  "(\<And>xs. v = PDict xs \<Longrightarrow> withinS R (f xs)) \<Longrightarrow> withinS R m \<Longrightarrow> withinS R (case v of PDict xs \<Rightarrow> f xs | _ \<Rightarrow> m)"
  by (cases v) auto

lemma calm_load_grant: "withinS (calmX lib rfc) (load_grant env cfg)"
  unfolding load_grant_def by (intro calmX.within_intros within_py calmX_ask calm_new_grant calm_mod) simp_all

lemma calm_grant_error: "withinS (calmX lib rfc) (grant_error env cfg q uid)"
  unfolding grant_error_def validate_grant_def by (intro calmX.within_intros calmX_ask calm_load_grant calm_mod) simp_all

lemma calm_run_hook: "withinS (calmX lib rfc) (run_hook env q)"
  unfolding run_hook_def by (intro calmX.within_intros calm_catch_all calmX_ask)

lemma calm_queries:
  "withinS (calmX lib rfc) (query_scopes env cfg xs)" "withinS (calmX lib rfc) (query_request l env cfg xs)"
  "withinS (calmX lib rfc) (query_correlation l env cfg xs)"
  unfolding query_scopes_def query_request_def query_correlation_def read_authority_def Let_def
  by (intro calmX.within_intros calmX_read)+

lemma calm_handoff: "withinS (calmX lib rfc) (handoff env cfg xs uid)"
  unfolding handoff_def by (intro calmX.within_intros calmX_ask calm_load_grant calm_store switch_step)

lemma calm_samples: "withinS (calmX lib rfc) (check_samples l env observed oat prev xs)"
  by (induction xs arbitrary: prev) (simp_all add: calmX.within_basic calmX.within_bind calmX_ask)

lemma calm_reconcile: "withinS (calmX lib rfc) (reconcile_fence lib env cfg xs)"
proof -
  have "withinS (calmX lib rfc) (record_closing lib env cfg c prior observed)" for c prior observed
    unfolding record_closing_def
    by (auto intro!: calmX.within_intros calm_store observed_step retirement_step)
  then show ?thesis
    unfolding reconcile_fence_def bound_targets_def check_acks_def read_authority_def read_unresolved_def Let_def
    by (intro calmX.within_intros calmX_ask calmX_read calm_samples)
qed

end
