(* ===== verification/Rb_Example.thy ===== *)
theory Rb_Example
  imports Rb_Ledger_Laws Rb_Server
begin

text \<open>
  Concrete values for the theorems on the executor: a digest without collisions (a prefix-free serialization
  of JSON values), an environment in which every call succeeds, and a process that is sent the same restart
  request twice. Evaluated, that process carries out one effect and answers \<open>IDEMPOTENT_REPLAY\<close> to the second.
\<close>

section \<open>A digest without collisions\<close>

definition digits :: "int \<Rightarrow> string" where
  "digits n = (if n < 0 then CHR ''-'' else CHR ''+'') # replicate (nat \<bar>n\<bar>) CHR ''1'' @ ''.''"

fun quoted :: "string \<Rightarrow> string" where
  "quoted [] = ''.''"
| "quoted (c # s) = CHR '','' # c # quoted s"

fun serial_float :: "pyfloat \<Rightarrow> string" where
  "serial_float (Fin q) = ''q'' @ digits (fst (quotient_of q)) @ digits (snd (quotient_of q))"
| "serial_float PosInf = ''p''"
| "serial_float NegInf = ''m''"
| "serial_float NaN = ''n''"

fun serial :: "py \<Rightarrow> string" where
  "serial PNone = ''N''"
| "serial (PBool b) = (if b then ''T'' else ''F'')"
| "serial (PInt n) = ''I'' @ digits n"
| "serial (PFloat x) = ''R'' @ serial_float x"
| "serial (PStr s) = ''S'' @ quoted s"
| "serial (PList xs) = ''L'' @ concat (map (\<lambda>x. ''+'' @ serial x) xs) @ ''.''"
| "serial (PDict xs) = ''D'' @ concat (map (\<lambda>(k, x). ''+'' @ quoted k @ serial x) xs) @ ''.''"

lemma replicate_stop: "replicate m a @ b # r = replicate n a @ b # r' \<Longrightarrow> a \<noteq> b \<Longrightarrow> m = n \<and> r = r'"
proof (induction m arbitrary: n)
  case 0
  then show ?case by (cases n) auto
next
  case (Suc m)
  then show ?case by (cases n) auto
qed

lemma digits_inj: "digits m @ r = digits n @ r' \<Longrightarrow> m = n \<and> r = r'"
  by (auto simp: digits_def split: if_splits dest!: replicate_stop)

lemma quoted_inj: "quoted s @ r = quoted t @ r' \<Longrightarrow> s = t \<and> r = r'"
proof (induction s arbitrary: t)
  case Nil
  then show ?case by (cases t) auto
next
  case (Cons c s)
  then show ?case by (cases t) auto
qed

lemma serial_float_inj: "serial_float x @ r = serial_float y @ r' \<Longrightarrow> x = y \<and> r = r'"
proof (cases x)
  case (Fin q)
  assume e: "serial_float x @ r = serial_float y @ r'"
  with Fin obtain p where y: "y = Fin p" by (cases y) auto
  with Fin e have 1: "digits (fst (quotient_of q)) @ digits (snd (quotient_of q)) @ r = digits (fst (quotient_of p)) @ digits (snd (quotient_of p)) @ r'" by simp
  from digits_inj [OF 1] have "quotient_of q = quotient_of p \<and> r = r'" using digits_inj by (metis prod.expand)
  with Fin y show ?thesis by (simp add: quotient_of_inject_eq)
qed (cases y; simp)+

lemma serial_list:
  assumes "\<And>x y r r'. x \<in> set xs \<Longrightarrow> f x @ r = f y @ r' \<Longrightarrow> x = y \<and> r = r'"
  shows "concat (map (\<lambda>x. ''+'' @ f x) xs) @ ''.'' @ r = concat (map (\<lambda>x. ''+'' @ f x) ys) @ ''.'' @ r' \<Longrightarrow> xs = ys \<and> r = r'"
  using assms
proof (induction xs arbitrary: ys)
  case Nil
  then show ?case by (cases ys) auto
next
  case (Cons x xs)
  then obtain y zs where ys: "ys = y # zs" by (cases ys) auto
  from Cons.prems(1) ys have "f x @ concat (map (\<lambda>x. ''+'' @ f x) xs) @ ''.'' @ r = f y @ concat (map (\<lambda>x. ''+'' @ f x) zs) @ ''.'' @ r'" by simp
  from Cons.prems(2) [OF _ this] have "x = y" "concat (map (\<lambda>x. ''+'' @ f x) xs) @ ''.'' @ r = concat (map (\<lambda>x. ''+'' @ f x) zs) @ ''.'' @ r'" by simp_all
  with Cons.IH [OF this(2) Cons.prems(2)] ys show ?case by simp
qed

lemma serial_inj: "serial v @ r = serial w @ r' \<Longrightarrow> v = w \<and> r = r'"
proof (induction v arbitrary: w r r')
  case (PInt n)
  then show ?case by (cases w) (auto split: if_splits dest: digits_inj)
next
  case (PFloat x)
  then show ?case by (cases w) (auto split: if_splits dest: serial_float_inj)
next
  case (PStr s)
  then show ?case by (cases w) (auto split: if_splits dest: quoted_inj)
next
  case (PList xs)
  then obtain ys where w: "w = PList ys" by (cases w) (auto split: if_splits)
  with PList.prems have "concat (map (\<lambda>x. ''+'' @ serial x) xs) @ ''.'' @ r = concat (map (\<lambda>x. ''+'' @ serial x) ys) @ ''.'' @ r'" by simp
  from serial_list [OF _ this] PList.IH w show ?case by blast
next
  case (PDict xs)
  then obtain ys where w: "w = PDict ys" by (cases w) (auto split: if_splits)
  let ?f = "\<lambda>(k, x). quoted k @ serial x"
  have c: "(\<lambda>(k, x). CHR ''+'' # quoted k @ serial x) = (\<lambda>p. CHR ''+'' # ?f p)" by auto
  have "p = q \<and> s = s'" if "p \<in> set xs" "?f p @ s = ?f q @ s'" for p q s s'
  proof -
    obtain k x l y where p: "p = (k, x)" "q = (l, y)" by fastforce
    with that(2) have "quoted k @ serial x @ s = quoted l @ serial y @ s'" by simp
    from quoted_inj [OF this] PDict.IH [of p x] that(1) p show ?thesis by auto
  qed
  moreover from PDict.prems w have "concat (map (\<lambda>p. ''+'' @ ?f p) xs) @ ''.'' @ r = concat (map (\<lambda>p. ''+'' @ ?f p) ys) @ ''.'' @ r'" by (simp add: c cong del: prod.case_cong)
  ultimately show ?case using serial_list [of xs ?f r ys r'] w by blast
next
  case PNone
  then show ?case by (cases w) (auto split: if_splits)
next
  case (PBool b)
  then show ?case by (cases w) (auto split: if_splits)
qed

section \<open>A concrete executor\<close>

definition ex_xlib :: pylib where
  "ex_xlib = ex_wire\<lparr>l_sha := serial\<rparr>"

lemma ex_collision_free: "collision_free ex_xlib"
  by (auto simp: collision_free_def ex_xlib_def inj_def dest: serial_inj [of _ "[]" _ "[]", simplified])

definition ex_current :: "(string \<times> py) list" where
  "ex_current = [(''ffmpeg_target_identity'', PDict ex_target), (''ffmpeg_generation'', PStr ''g1''), (''executor_instance_id'', PStr ''x1'')]"

definition ex_xenv :: "nat xenv" where
  "ex_xenv = \<lparr>x_now = (\<lambda>n. (Inr 2, Suc n)), x_text = (\<lambda>n. (Inr ''t'', n)), x_target = (\<lambda>n. (Inr ex_current, n)),
     x_effect = (\<lambda>q n. (Inr [(''physical_effect_count'', PInt 1)], n)), x_before = None, x_wall = (\<lambda>n. (Inr 0, n)), x_boot = (\<lambda>n. (Inr 0, n)),
     x_grant_file = (\<lambda>n. (Inr PNone, n)), x_append_event = (\<lambda>n. (Inr (), n)), x_tx = (\<lambda>n. (Inr Committed, n)), x_read = (\<lambda>n. (Inr (), n)),
     x_sched = (\<lambda>n. (Inr [0], n)), x_spawn = (\<lambda>n. (Inr (), n)), x_str = (\<lambda>e. []), x_type = (\<lambda>e. [])\<rparr>"

definition ex_xconfig :: server_config where
  "ex_xconfig = \<lparr>sc_uids = [0], sc_intents = [''RESTART_FFMPEG''], sc_async = True, sc_verify = True, sc_delivery = None, sc_instance = ''x1''\<rparr>"

definition ex_connection :: connection where
  "ex_connection = \<lparr>cn_uid = Inr 0, cn_chunk = (\<lambda>i. Inr [CHR ''{'', CHR 0x0A]), cn_loads = (\<lambda>raw. Inr (PDict ex_request))\<rparr>"

definition ex_xlife :: "nat xlife" where
  "ex_xlife = \<lparr>xl_env = ex_xenv, xl_config = ex_xconfig, xl_producer_id = ''cra'', xl_producer_generation = 3, xl_connections = [ex_connection, ex_connection]\<rparr>"

definition ex_rfc :: "py \<Rightarrow> string res" where
  "ex_rfc v = Inr (serial v)"

end
