(* ===== verification/Rb_Safety.thy ===== *)
theory Rb_Safety
  imports Rb_Calm Rb_Example
begin

text \<open>
  The path of a request from its acceptance to its effect, step by step: \<open>token\<close> once the request has left
  \<open>ACCEPTED\<close>, \<open>armed\<close> once its fence is at the boundary. The theorems on the effects of any history follow.
\<close>

section \<open>From the accepted request to its effect\<close>

text \<open>The request is past \<open>ACCEPTED\<close>, by this handler, and has started no effect yet.\<close>

definition token :: "pylib \<Rightarrow> (py \<Rightarrow> string res) \<Rightarrow> effect_request \<Rightarrow> 'w executor \<Rightarrow> bool" where
  "token lib rfc q s \<longleftrightarrow> exec_inv lib rfc s \<and> left_accepted (er_request_id q) (ex_ledger s) \<and>
     row_known (er_request_id q) (request_digest lib q) (ex_ledger s) \<and> er_request_id q \<notin> er_request_id ` set (spent s)"

text \<open>Its fence is at the boundary.\<close>

definition armed :: "pylib \<Rightarrow> (py \<Rightarrow> string res) \<Rightarrow> effect_request \<Rightarrow> 'w executor \<Rightarrow> bool" where
  "armed lib rfc q s \<longleftrightarrow> token lib rfc q s \<and> spent_ok lib rfc (ex_ledger s) q"

lemma token_calm: "calmX lib rfc s t \<Longrightarrow> token lib rfc q s \<Longrightarrow> token lib rfc q t"
  unfolding token_def calmX_def ledger_mono_def by blast

lemma armed_calm: "calmX lib rfc s t \<Longrightarrow> armed lib rfc q s \<Longrightarrow> armed lib rfc q t"
proof -
  assume c: "calmX lib rfc s t" and a: "armed lib rfc q s"
  then have "ledger_mono (ex_ledger s) (ex_ledger t)" by (simp add: armed_def token_def calmX_def)
  with c a show "armed lib rfc q t" using token_calm [OF c] spent_ok_mono by (auto simp: armed_def)
qed

lemma calm_wp:
  assumes "withinS (calmX lib rfc) m"
  shows "exec_inv lib rfc s \<Longrightarrow> wpS m (\<lambda>_. exec_inv lib rfc) (\<lambda>_. exec_inv lib rfc) s"
    and "token lib rfc q s \<Longrightarrow> wpS m (\<lambda>_. token lib rfc q) (\<lambda>_. exec_inv lib rfc) s"
    and "armed lib rfc q s \<Longrightarrow> wpS m (\<lambda>_. armed lib rfc q) (\<lambda>_. exec_inv lib rfc) s"
proof -
  show "exec_inv lib rfc s \<Longrightarrow> wpS m (\<lambda>_. exec_inv lib rfc) (\<lambda>_. exec_inv lib rfc) s"
    by (rule withinS_wp [OF assms]) (simp_all add: calmX_def)
  show "token lib rfc q s \<Longrightarrow> wpS m (\<lambda>_. token lib rfc q) (\<lambda>_. exec_inv lib rfc) s"
    by (rule withinS_wp [OF assms], erule token_calm, assumption) (drule token_calm, assumption, simp add: token_def)
  show "armed lib rfc q s \<Longrightarrow> wpS m (\<lambda>_. armed lib rfc q) (\<lambda>_. exec_inv lib rfc) s"
    by (rule withinS_wp [OF assms], erule armed_calm, assumption) (drule armed_calm, assumption, simp add: armed_def token_def)
qed

text \<open>The invariant as a frame.\<close>

definition keepX :: "pylib \<Rightarrow> (py \<Rightarrow> string res) \<Rightarrow> 'w executor \<Rightarrow> 'w executor \<Rightarrow> bool" where
  "keepX lib rfc s t \<longleftrightarrow> (exec_inv lib rfc s \<longrightarrow> exec_inv lib rfc t)"

interpretation keepX: state_frame "keepX lib rfc" for lib rfc
  by unfold_locales (simp_all add: keepX_def)

lemma calm_keep: "withinS (calmX lib rfc) m \<Longrightarrow> withinS (keepX lib rfc) m"
  by (erule withinS_mono) (simp add: calmX_def keepX_def)

lemma keep_wp: "withinS (keepX lib rfc) m \<longleftrightarrow> (\<forall>s. exec_inv lib rfc s \<longrightarrow> wpS m (\<lambda>_. exec_inv lib rfc) (\<lambda>_. exec_inv lib rfc) s)"
proof -
  have "withinS (keepX lib rfc) m \<longleftrightarrow> keepsS (exec_inv lib rfc) m" by (simp add: withinS_def keepX_def keepsS_def)
  then show ?thesis by (simp add: keepsS_wp)
qed

lemma calm_after: "withinS (calmX lib rfc) m \<Longrightarrow> m s = (r, t) \<Longrightarrow> calmX lib rfc s t"
  by (drule withinS_def [THEN iffD1, THEN spec [of _ s]]) simp

text \<open>A stored transaction: the schedule before it, and its result on the state it found.\<close>

lemma store_result:
  assumes st: "\<And>ts. stepping lib rfc (f ts)" and r: "store env cfg f s = (Inr x, t)"
  shows "\<exists>u ts. calmX lib rfc s u \<and> f ts (ex_ledger u) = Inr (x, ex_ledger t) \<and> spent t = spent u \<and> calmX lib rfc u t"
proof -
  from r obtain y u where u: "sched env cfg s = (Inr y, u)" and t: "raw_txn env f u = (Inr x, t)"
    by (auto simp: store_def bindS_eq_Inr)
  have c: "calmX lib rfc s u" by (rule calm_after [OF calm_sched u])
  have ct: "calmX lib rfc u t" by (rule calm_after [OF calm_raw_txn [OF st] t])
  from t obtain ts u1 tx u2 where a: "askX (x_text env) u = (Inr ts, u1)" "askX (x_tx env) u1 = (Inr tx, u2)"
    and m: "(case tx of Committed \<Rightarrow> on_ledger (txn (f ts)) | Refused e \<Rightarrow> raiseS e | CommittedThen e \<Rightarrow> bindS (on_ledger (txn (f ts))) (\<lambda>_. raiseS e)) u2 = (Inr x, t)"
    unfolding raw_txn_def bindS_eq_Inr by blast
  from a have same: "ex_ledger u2 = ex_ledger u" "spent u2 = spent u" by (auto simp: askX_def spent_def split: prod.splits)
  from m have "on_ledger (txn (f ts)) u2 = (Inr x, t)" by (cases tx) (auto simp: bindS_eq_Inr act_eval)
  then have "f ts (ex_ledger u2) = Inr (x, ex_ledger t)" "spent t = spent u2"
    by (auto simp: on_ledger_def txn_def spent_def split: prod.splits sum.splits)
  with same c ct show ?thesis by auto
qed

lemma start_token:
  assumes i: "exec_inv lib rfc s" and k: "row_known (er_request_id q) (request_digest lib q) (ex_ledger s)"
    and r: "store env cfg (transition (er_request_id q) ''ACCEPTED'' ''EXECUTION_STARTED'' None None) s = (Inr True, t)"
  shows "token lib rfc q t"
proof -
  have st: "stepping lib rfc (transition (er_request_id q) ''ACCEPTED'' ''EXECUTION_STARTED'' None None ts)" for ts
    by (rule transition_step) simp
  from store_result [OF st r] obtain u ts where u: "calmX lib rfc s u" "calmX lib rfc u t" "spent t = spent u"
    and tr: "transition (er_request_id q) ''ACCEPTED'' ''EXECUTION_STARTED'' None None ts (ex_ledger u) = Inr (True, ex_ledger t)" by blast
  from u(1) i have iu: "exec_inv lib rfc u" and m: "ledger_mono (ex_ledger s) (ex_ledger u)" by (simp_all add: calmX_def)
  from u(2) iu have it: "exec_inv lib rfc t" and mt: "ledger_mono (ex_ledger u) (ex_ledger t)" by (simp_all add: calmX_def)
  have wf: "ledger_wf lib rfc (ex_ledger u)" using iu by (simp add: exec_inv_def)
  have "er_request_id q \<notin> er_request_id ` set (spent u)"
  proof
    assume "er_request_id q \<in> er_request_id ` set (spent u)"
    then obtain p where "p \<in> set (spent u)" "er_request_id p = er_request_id q" by auto
    with iu have "left_accepted (er_request_id q) (ex_ledger u)" by (auto simp: exec_inv_def spent_ok_def)
    with started_once(2) [OF tr wf] show False by simp
  qed
  moreover have "row_known (er_request_id q) (request_digest lib q) (ex_ledger t)" using k m mt unfolding ledger_mono_def by blast
  ultimately show ?thesis using it started_once(1) [OF tr wf] u(3) by (simp add: token_def)
qed

lemma accept_row:
  assumes i: "exec_inv lib rfc s" and wf: "wf_request lib q" and cf: "collision_free lib"
    and r: "store env cfg (accept lib rfc q) s = (Inr a, t)" and acc: "aa_accepted a"
  shows "exec_inv lib rfc t \<and> row_known (er_request_id q) (request_digest lib q) (ex_ledger t)"
proof -
  from store_result [OF accept_step [OF wf] r] obtain u ts where u: "calmX lib rfc s u" "calmX lib rfc u t"
    and ac: "accept lib rfc q ts (ex_ledger u) = Inr (a, ex_ledger t)" by blast
  from u i have "exec_inv lib rfc u" "exec_inv lib rfc t" by (simp_all add: calmX_def)
  then show ?thesis using accepted_known [OF ac acc wf _ cf] by (simp add: exec_inv_def)
qed

lemma reserve_armed:
  assumes tk: "token lib rfc q s" and wf: "wf_request lib q" and cf: "collision_free lib"
    and r: "store env cfg (mark_effect_boundary (er_request_id q)) s = (Inr True, t)"
  shows "armed lib rfc q t"
proof -
  from store_result [OF mark_step r, of lib rfc] obtain u ts where u: "calmX lib rfc s u" "calmX lib rfc u t"
    and m: "mark_effect_boundary (er_request_id q) ts (ex_ledger u) = Inr (True, ex_ledger t)" by blast
  have tt: "token lib rfc q t" using token_calm u tk by blast
  then have w: "ledger_wf lib rfc (ex_ledger t)" "row_known (er_request_id q) (request_digest lib q) (ex_ledger t)"
    by (simp_all add: token_def exec_inv_def)
  from boundary_reserved [OF m] obtain f where f: "f \<in> set (lg_fences (ex_ledger t))" "fe_owner f = er_request_id q" "fe_boundary f" by blast
  from known_fence [OF w(2) wf w(1) cf] obtain g where g: "g \<in> set (lg_fences (ex_ledger t))" "fence_for lib rfc q g" by blast
  have "g = f" using w(1) f g by (auto simp: ledger_wf_def fences_wf_def distinct_map inj_on_def fence_for_def)
  with f g tt show ?thesis by (auto simp: armed_def spent_ok_def token_def)
qed

lemma wpS_cases: "(\<And>x t. m s = (Inr x, t) \<Longrightarrow> Q x t) \<Longrightarrow> (\<And>e t. m s = (Inl e, t) \<Longrightarrow> R e t) \<Longrightarrow> wpS m Q R s"
  by (auto simp: wpS_def split: prod.splits sum.splits)

lemma inv_after: "withinS (calmX lib rfc) m \<Longrightarrow> exec_inv lib rfc s \<Longrightarrow> m s = (r, t) \<Longrightarrow> exec_inv lib rfc t"
  by (drule calm_after, assumption) (simp add: calmX_def)

abbreviation inv_wp :: "pylib \<Rightarrow> (py \<Rightarrow> string res) \<Rightarrow> ('w executor, 'a) act \<Rightarrow> 'w executor \<Rightarrow> bool" where
  "inv_wp lib rfc m s \<equiv> wpS m (\<lambda>_. exec_inv lib rfc) (\<lambda>_. exec_inv lib rfc) s"

lemma token_inv: "token lib rfc q s \<Longrightarrow> exec_inv lib rfc s" "armed lib rfc q s \<Longrightarrow> token lib rfc q s"
  by (simp_all add: token_def armed_def)

lemma calm_inv_wp: "withinS (calmX lib rfc) m \<Longrightarrow> exec_inv lib rfc s \<Longrightarrow> inv_wp lib rfc m s"
  by (rule calm_wp(1))

lemma spend:
  assumes a: "armed lib rfc q s" and rok: "request_ok lib q target checked"
  shows "exec_inv lib rfc (s\<lparr>ex_effects := ex_effects s @ [\<lparr>ev_request = q, ev_target = target, ev_checked_at = checked, ev_ledger = ex_ledger s\<rparr>]\<rparr>)"
    and "exec_inv lib rfc (s\<lparr>ex_jobs := ex_jobs s @ [\<lparr>jb_request = q, jb_hook_failed = h, jb_target = target, jb_checked_at = checked, jb_outcome = None\<rparr>]\<rparr>)"
proof -
  from a have i: "exec_inv lib rfc s" and n: "er_request_id q \<notin> er_request_id ` set (spent s)" and ok: "spent_ok lib rfc (ex_ledger s) q"
    by (simp_all add: armed_def token_def)
  from ok obtain f where f: "f \<in> set (lg_fences (ex_ledger s))" "fence_for lib rfc q f" "fe_boundary f" by (auto simp: spent_ok_def)
  with i have "fence_ok f" by (auto simp: exec_inv_def ledger_wf_def fences_wf_def list_all_iff)
  with f rok have e: "event_ok lib rfc \<lparr>ev_request = q, ev_target = target, ev_checked_at = checked, ev_ledger = ex_ledger s\<rparr>"
    by (auto simp: event_ok_def fence_ok_def)
  show "exec_inv lib rfc (s\<lparr>ex_effects := ex_effects s @ [\<lparr>ev_request = q, ev_target = target, ev_checked_at = checked, ev_ledger = ex_ledger s\<rparr>]\<rparr>)"
    using i n ok e by (auto simp: exec_inv_def spent_def)
  show "exec_inv lib rfc (s\<lparr>ex_jobs := ex_jobs s @ [\<lparr>jb_request = q, jb_hook_failed = h, jb_target = target, jb_checked_at = checked, jb_outcome = None\<rparr>]\<rparr>)"
    using i n ok rok by (auto simp: exec_inv_def spent_def job_ok_def)
qed

lemma execute_inv:
  assumes a: "armed lib rfc q s" and rok: "request_ok lib q target checked"
  shows "inv_wp lib rfc (execute env cfg q target checked h) s"
proof (cases "sc_async cfg")
  case True
  have "wpS (start_worker env \<lparr>jb_request = q, jb_hook_failed = h, jb_target = target, jb_checked_at = checked, jb_outcome = None\<rparr>)
      (\<lambda>_. exec_inv lib rfc) (\<lambda>_. exec_inv lib rfc) s"
    unfolding start_worker_def wpS_bind
    by (rule wpS_mono [OF calm_wp(3) [OF calmX_ask a]]) (simp_all add: wpS_mod spend(2) [OF _ rok])
  with True show ?thesis by (simp add: execute_def wpS_bind) (erule wpS_mono, rule calm_inv_wp [OF calm_response])
next
  case False
  have "wpS (perform env q target checked) (\<lambda>_. exec_inv lib rfc) (\<lambda>_. exec_inv lib rfc) s"
    unfolding perform_def log_effect_def wpS_bind wpS_mod by (rule calm_inv_wp [OF calmX_ask spend(1) [OF a rok]])
  moreover have "inv_wp lib rfc (bindS (safe_transition env cfg (er_request_id q) ''EFFECT_OBSERVED'' result (Some (scope_state_of cfg q))) (\<lambda>persisted.
        if persisted then response env cfg True ''EFFECT_OBSERVED'' ''EFFECT_OBSERVED'' (Some q) False (PDict result)
        else response env cfg False ''EFFECT_RESULT_PERSISTENCE_FAILED'' ''OUTCOME_UNKNOWN'' (Some q) False (PDict (aset ''result_persisted'' (PBool False) result)))) t"
    if "exec_inv lib rfc t" for result t
    by (rule calm_inv_wp [OF _ that]) (intro calmX.within_intros calm_safe_transition calm_response, simp)
  ultimately show ?thesis using False by (simp add: execute_def wpS_bind [of "perform _ _ _ _"] Let_def) (erule wpS_mono, blast)
qed

lemma reserve_execute_inv:
  assumes tk: "token lib rfc q s" and wf: "wf_request lib q" and cf: "collision_free lib" and rok: "request_ok lib q target checked"
  shows "inv_wp lib rfc (reserve_and_execute env cfg q target checked) s"
proof -
  have st: "wpS (store env cfg (mark_effect_boundary (er_request_id q))) (\<lambda>b u. if b then armed lib rfc q u else exec_inv lib rfc u) (\<lambda>_. exec_inv lib rfc) t"
    if t: "token lib rfc q t" for t
  proof (rule wpS_cases)
    fix b u
    assume m: "store env cfg (mark_effect_boundary (er_request_id q)) t = (Inr b, u)"
    show "if b then armed lib rfc q u else exec_inv lib rfc u"
    proof (cases b)
      case True
      with reserve_armed [OF t wf cf] m show ?thesis by simp
    next
      case False
      with inv_after [OF calm_store [OF mark_step] token_inv(1) [OF t] m] show ?thesis by simp
    qed
  next
    fix e u
    assume "store env cfg (mark_effect_boundary (er_request_id q)) t = (Inl e, u)"
    then show "exec_inv lib rfc u" by (rule inv_after [OF calm_store [OF mark_step] token_inv(1) [OF t]])
  qed
  have rest: "inv_wp lib rfc (if \<not> b then
       bindS (safe_transition env cfg (er_request_id q) ''OUTCOME_UNKNOWN'' [(''reason'', PStr ''EFFECT_SCOPE_BOUNDARY_RESERVATION_FAILED'')] None) (\<lambda>_.
       response env cfg False ''EFFECT_SCOPE_BOUNDARY_RESERVATION_FAILED'' ''OUTCOME_UNKNOWN'' (Some q) False PNone)
     else execute env cfg q target checked h) u" if u: "if b then armed lib rfc q u else exec_inv lib rfc u" for b u h
  proof (cases b)
    case True
    with u execute_inv [OF _ rok] show ?thesis by simp
  next
    case False
    then have i: "exec_inv lib rfc u" using u by simp
    from False show ?thesis by (simp only: if_True not_False_eq_True)
        (rule calm_inv_wp [OF _ i], intro calmX.within_intros calm_safe_transition calm_response, simp)
  qed
  show ?thesis unfolding reserve_and_execute_def wpS_bind [of "run_hook _ _"] wpS_bind [of "store _ _ _"]
    by (rule wpS_mono [OF calm_wp(2) [OF calm_run_hook tk]], rule wpS_mono [OF st], assumption, erule rest)
qed

lemma revalidate_inv:
  assumes tk: "token lib rfc q s" and wf: "wf_request lib q" and cf: "collision_free lib"
    and e: "parse_instant lib (PStr (rc_expires_at (er_common q))) = Inr expires" "checked < expires"
  shows "inv_wp lib rfc (revalidate lib env cfg uid q replay checked) s"
proof -
  have failed: "withinS (calmX lib rfc) (bindS (safe_transition env cfg (er_request_id q) ''EFFECT_FAILED'' v None) (\<lambda>_.
      response env cfg False why ''EFFECT_FAILED'' (Some q) r w))" for v why r w
    by (intro calmX.within_intros calm_safe_transition calm_response) simp
  have go: "inv_wp lib rfc (if err \<noteq> [] then
         bindS (safe_transition env cfg (er_request_id q) ''EFFECT_FAILED'' (no_effect_result err) None) (\<lambda>_.
         response env cfg False err ''EFFECT_FAILED'' (Some q) False PNone)
       else reserve_and_execute env cfg q current checked) u"
    if "token lib rfc q u" "identity_mismatch lib q current = []" for err current u
  proof (cases "err = []")
    case True
    have "request_ok lib q current checked" using wf e that by (auto simp: request_ok_def)
    with True reserve_execute_inv [OF that(1) wf cf] show ?thesis by simp
  qed (simp add: calm_inv_wp [OF failed token_inv(1) [OF that(1)]])
  have each: "inv_wp lib rfc (let mismatch = identity_mismatch lib q current in
     if mismatch \<noteq> [] then
       bindS (safe_transition env cfg (er_request_id q) ''EFFECT_FAILED'' (drift_result mismatch) None) (\<lambda>_.
       response env cfg False ''EFFECT_BOUNDARY_IDENTITY_DRIFT'' ''EFFECT_FAILED'' (Some q) replay (PDict (drift_result mismatch)))
     else bindS (grant_error env cfg q uid) (\<lambda>err.
       if err \<noteq> [] then
         bindS (safe_transition env cfg (er_request_id q) ''EFFECT_FAILED'' (no_effect_result err) None) (\<lambda>_.
         response env cfg False err ''EFFECT_FAILED'' (Some q) False PNone)
       else reserve_and_execute env cfg q current checked)) u" if u: "token lib rfc q u" for current u
  proof (cases "identity_mismatch lib q current = []")
    case True
    have "wpS (grant_error env cfg q uid) (\<lambda>_. token lib rfc q) (\<lambda>_. exec_inv lib rfc) u" by (rule calm_wp(2) [OF calm_grant_error u])
    with True show ?thesis
      by (simp only: Let_def wpS_bind [of "grant_error _ _ _ _"] not_True_eq_False if_False simp_thms)
        (erule wpS_mono, erule go, assumption, assumption)
  qed (simp add: Let_def calm_inv_wp [OF failed token_inv(1) [OF u]])
  show ?thesis unfolding revalidate_def wpS_bind [of "askX _"]
    by (rule wpS_mono [OF calm_wp(2) [OF calmX_ask tk]], erule each)
qed

lemma admit_inv:
  fixes env :: "'w xenv" and s :: "'w executor"
  assumes i: "exec_inv lib rfc s" and wf: "wf_request lib q" and cf: "collision_free lib"
    and e: "parse_instant lib (PStr (rc_expires_at (er_common q))) = Inr expires" "checked < expires"
  shows "inv_wp lib rfc (admit lib rfc env cfg uid q checked) s"
proof -
  let ?start = "store env cfg (transition (er_request_id q) ''ACCEPTED'' ''EXECUTION_STARTED'' None None) :: ('w executor, bool) act"
  have cs: "withinS (calmX lib rfc) ?start" by (rule calm_store [OF transition_step]) simp
  have started: "inv_wp lib rfc (bindS ?start (\<lambda>started.
       if \<not> started then response env cfg False ''EXECUTION_START_TRANSITION_FAILED'' ''OUTCOME_UNKNOWN'' (Some q) False PNone
       else revalidate lib env cfg uid q r checked)) u"
    if u: "exec_inv lib rfc u" "row_known (er_request_id q) (request_digest lib q) (ex_ledger u)" for u r
    unfolding wpS_bind
  proof (rule wpS_cases)
    fix b t
    assume m: "?start u = (Inr b, t)"
    from inv_after [OF cs u(1) m] have t: "exec_inv lib rfc t" .
    show "wpS (if \<not> b then response env cfg False ''EXECUTION_START_TRANSITION_FAILED'' ''OUTCOME_UNKNOWN'' (Some q) False PNone
       else revalidate lib env cfg uid q r checked) (\<lambda>_. exec_inv lib rfc) (\<lambda>_. exec_inv lib rfc) t"
    proof (cases b)
      case True
      then have "token lib rfc q t" using start_token [OF u] m by simp
      from True revalidate_inv [OF this wf cf e] show ?thesis by simp
    qed (simp add: calm_inv_wp [OF calm_response t])
  next
    fix x t
    assume "?start u = (Inl x, t)"
    then show "exec_inv lib rfc t" by (rule inv_after [OF cs u(1)])
  qed
  have ca: "withinS (calmX lib rfc) (store env cfg (accept lib rfc q))" by (rule calm_store [OF accept_step [OF wf]])
  show ?thesis unfolding admit_def wpS_bind [of "store _ _ (accept _ _ _)"]
  proof (rule wpS_cases)
    fix a u
    assume m: "store env cfg (accept lib rfc q) s = (Inr a, u)"
    show "wpS (if \<not> aa_accepted a then response env cfg False (aa_reason a) (aa_state a) (Some q) (aa_replay a) (aa_result a)
     else bindS ?start (\<lambda>started.
       if \<not> started then response env cfg False ''EXECUTION_START_TRANSITION_FAILED'' ''OUTCOME_UNKNOWN'' (Some q) False PNone
       else revalidate lib env cfg uid q (aa_replay a) checked)) (\<lambda>_. exec_inv lib rfc) (\<lambda>_. exec_inv lib rfc) u"
    proof (cases "aa_accepted a")
      case True
      with started accept_row [OF i wf cf m True] show ?thesis by simp
    qed (simp add: calm_inv_wp [OF calm_response inv_after [OF ca i m]])
  next
    fix x u
    assume "store env cfg (accept lib rfc q) s = (Inl x, u)"
    then show "exec_inv lib rfc u" by (rule inv_after [OF ca i])
  qed
qed

lemma handle_keep:
  assumes wf: "wf_request lib q" and cf: "collision_free lib"
  shows "withinS (keepX lib rfc) (handle_request lib rfc env cfg uid q)"
proof -
  have out: "withinS (keepX lib rfc) (rejected env cfg why r)" for why r by (rule calm_keep [OF calm_rejected])
  have ask: "withinS (keepX lib rfc) (askX f)" for f :: "('a, 'b) act" by (rule calm_keep [OF calmX_ask])
  have now: "withinS (keepX lib rfc) (askX (x_now env))" by (rule calm_keep [OF calmX_ask])
  have admitted: "withinS (keepX lib rfc) (if expires \<le> now2 then rejected env cfg ''REQUEST_EXPIRED'' (Some q)
      else bindS (askX (x_target env)) (\<lambda>current. let mismatch = identity_mismatch lib q current in
      if mismatch \<noteq> [] then rejected env cfg mismatch (Some q)
      else admit lib rfc env cfg uid q now2))"
    if e: "parse_instant lib (PStr (rc_expires_at (er_common q))) = Inr expires" for expires now2
  proof (rule withinS_if [OF out])
    assume "\<not> expires \<le> now2"
    then have l: "now2 < expires" by simp
    have "withinS (keepX lib rfc) (admit lib rfc env cfg uid q now2)"
      unfolding keep_wp by (intro allI impI admit_inv [OF _ wf cf e l])
    then show "withinS (keepX lib rfc) (bindS (askX (x_target env)) (\<lambda>current. let mismatch = identity_mismatch lib q current in
      if mismatch \<noteq> [] then rejected env cfg mismatch (Some q)
      else admit lib rfc env cfg uid q now2))"
      by (intro keepX.within_bind withinS_let withinS_if calm_keep [OF calmX_ask] out)
  qed
  show ?thesis unfolding handle_request_def
    by (intro withinS_if out keepX.within_bind [OF calm_keep [OF calm_grant_error]] keepX.within_lift_bind keepX.within_bind [OF now] admitted)
qed

text \<open>What \<open>json.loads\<close> returns is a JSON value.\<close>

definition loads_json :: "connection \<Rightarrow> bool" where
  "loads_json c \<longleftrightarrow> (\<forall>raw v. cn_loads c raw = Inr v \<longrightarrow> wf_json v)"

lemma keep_catch_all: "withinS (keepX lib rfc) m \<Longrightarrow> (\<And>e. withinS (keepX lib rfc) (h e)) \<Longrightarrow> withinS (keepX lib rfc) (catch_all m h)"
  unfolding catch_all_def by (intro keepX.within_catch withinS_if keepX.within_basic)

lemma keep_guarded: "withinS (keepX lib rfc) m \<Longrightarrow> withinS (keepX lib rfc) (guarded env cfg q m)"
  unfolding guarded_def by (intro keep_catch_all calm_keep [OF calm_handle_exception])

lemma dispatch_keep:
  assumes wf: "wf_json (PDict xs)" and cf: "collision_free lib"
  shows "withinS (keepX lib rfc) (dispatch lib rfc env cfg uid xs)"
  unfolding dispatch_def Let_def
  by (intro withinS_if calm_keep [OF calm_rejected] calm_keep [OF calm_handoff] calm_keep [OF calm_queries(1)] calm_keep [OF calm_queries(2)]
      calm_keep [OF calm_queries(3)] calm_keep [OF calm_reconcile] keepX.within_lift_bind keep_guarded handle_keep [OF from_mapping_wf [OF _ wf] cf])

lemma connection_keep:
  assumes l: "loads_json c" and cf: "collision_free lib"
  shows "withinS (keepX lib rfc) (serve_one lib rfc env cfg c)"
proof -
  have "withinS (keepX lib rfc) (case v of PDict xs \<Rightarrow> dispatch lib rfc env cfg uid xs | _ \<Rightarrow> raiseS (ProtocolError ''REQUEST_NOT_OBJECT''))"
    if "cn_loads c raw = Inr v" for raw v uid
    using l that by (intro within_py keepX.within_basic dispatch_keep [OF _ cf]) (auto simp: loads_json_def simp del: wf_json.simps)
  then show ?thesis unfolding serve_one_def handle_connection_def
    by (intro keep_catch_all keep_guarded keepX.within_lift_bind withinS_if calm_keep [OF calm_rejected] keepX.within_basic)
qed

lemma serve_keep: "list_all loads_json cs \<Longrightarrow> collision_free lib \<Longrightarrow> withinS (keepX lib rfc) (serve lib rfc env cfg cs)"
proof (induction cs)
  case Nil
  then show ?case by (simp add: keepX.within_bind keepX.within_basic calm_keep [OF calm_sched])
next
  case (Cons c cs)
  then show ?case by (simp add: keepX.within_bind keepX.within_basic connection_keep)
qed

section \<open>Histories\<close>

lemma restarted_inv: "exec_inv lib rfc s \<Longrightarrow> exec_inv lib rfc (s\<lparr>ex_jobs := [], ex_grant := None\<rparr>)"
  by (auto simp: exec_inv_def spent_def)

lemma life_keep:
  assumes l: "list_all loads_json (xl_connections lf)" and cf: "collision_free lib"
  shows "withinS (keepX lib rfc) (executor_life lib rfc lf)"
  unfolding executor_life_def
  by (intro keepX.within_bind calm_keep [OF calmX_ask] calm_keep [OF calm_on_ledger [OF open_within]] serve_keep l cf withinS_mod)
    (simp add: keepX_def restarted_inv)

lemma fresh_inv: "exec_inv lib rfc (executor_fresh w)"
  by (simp add: exec_inv_def executor_fresh_def spent_def ledger_wf_empty)

lemma history_inv:
  assumes l: "\<forall>lf \<in> set lfs. list_all loads_json (xl_connections lf)" and cf: "collision_free lib"
  shows "exec_inv lib rfc s \<Longrightarrow> exec_inv lib rfc (executor_lives lib rfc s lfs)"
  using l
proof (induction lfs arbitrary: s)
  case (Cons lf lfs)
  then have "withinS (keepX lib rfc) (executor_life lib rfc lf)" by (intro life_keep [OF _ cf]) simp
  then have "exec_inv lib rfc (snd (executor_life lib rfc lf s))" using Cons.prems(1) by (simp add: withinS_def keepX_def)
  with Cons show ?case by (simp add: executor_lives_def)
qed (simp add: executor_lives_def)

definition request_ids :: "effect_event list \<Rightarrow> string list" where
  "request_ids es = map (\<lambda>e. er_request_id (ev_request e)) es"

definition scopes_spent :: "pylib \<Rightarrow> (py \<Rightarrow> string res) \<Rightarrow> effect_event list \<Rightarrow> string res list" where
  "scopes_spent lib rfc es = map (\<lambda>e. effect_scope_id lib rfc (ev_request e)) es"

text \<open>The generations of the encoder that an effect on the delivery was carried out against.\<close>

definition generations_spent :: "pylib \<Rightarrow> (py \<Rightarrow> string res) \<Rightarrow> effect_event list \<Rightarrow> string option res list" where
  "generations_spent lib rfc es = map (\<lambda>e. logical_generation_scope_id lib rfc (ev_request e)) (filter (\<lambda>e. delivery_intent (ev_request e)) es)"

lemma distinct_by:
  assumes "distinct (map f xs)" and "\<And>x y. x \<in> set xs \<Longrightarrow> y \<in> set xs \<Longrightarrow> g x = g y \<Longrightarrow> f x = f y"
  shows "distinct (map g xs)"
proof -
  have d: "distinct xs" "inj_on f (set xs)" using assms(1) by (simp_all add: distinct_map)
  have "inj_on g (set xs)"
  proof (rule inj_onI)
    fix x y
    assume "x \<in> set xs" "y \<in> set xs" "g x = g y"
    with assms(2) [of x y] inj_onD [OF d(2)] show "x = y" by simp
  qed
  with d(1) show ?thesis by (simp add: distinct_map)
qed

lemma event_fence:
  assumes "exec_inv lib rfc s" and "e \<in> set (ex_effects s)"
  shows "\<exists>f \<in> set (lg_fences (ex_ledger s)). fence_for lib rfc (ev_request e) f"
proof -
  have "ev_request e \<in> set (spent s)" using assms(2) by (simp add: spent_def)
  with assms(1) have "spent_ok lib rfc (ex_ledger s) (ev_request e)" by (simp add: exec_inv_def)
  then show ?thesis by (auto simp: spent_ok_def)
qed

lemma event_generation:
  assumes i: "exec_inv lib rfc s" and e: "e \<in> set (ex_effects s)" and d: "delivery_intent (ev_request e)"
    and l: "logical_generation_scope_id lib rfc (ev_request e) = Inr x"
  shows "x \<noteq> None"
proof -
  have "wf_identity lib (ev_request e)" using i e by (simp add: exec_inv_def event_ok_def request_ok_def wf_request_def)
  with d obtain t where "er_ffmpeg_target (ev_request e) = Some t" by (auto simp: wf_identity_def)
  with d l show ?thesis by (auto simp: logical_generation_scope_id_def bindE_eq_Inr)
qed

lemma same_logical:
  assumes "distinct (logicals fs)" and "f \<in> set fs" and "g \<in> set fs" and "fe_logical f = Some l" and "fe_logical g = Some l"
  shows "f = g"
  using assms
proof (induction fs)
  case (Cons x fs)
  have d: "distinct (logicals fs)" and n: "fe_logical x = Some l \<Longrightarrow> l \<notin> set (logicals fs)"
    using Cons.prems(1) logicals_append [of "[x]" fs] by (auto simp: logicals_def split: option.splits)
  have "y \<in> set fs \<Longrightarrow> fe_logical y = Some l \<Longrightarrow> l \<in> set (logicals fs)" for y by (auto simp: in_logicals)
  with Cons d n show ?case by auto
qed simp

lemma history_wf: "exec_inv lib rfc s \<Longrightarrow> fences_wf (lg_fences (ex_ledger s))" "exec_inv lib rfc s \<Longrightarrow> distinct (request_ids (ex_effects s))"
  by (simp_all add: exec_inv_def ledger_wf_def spent_def request_ids_def comp_def)

lemma once_each:
  assumes i: "exec_inv lib rfc s"
  shows "distinct (scopes_spent lib rfc (ex_effects s))" and "distinct (generations_spent lib rfc (ex_effects s))"
proof -
  let ?es = "ex_effects s" and ?fs = "lg_fences (ex_ledger s)" and ?id = "\<lambda>e. er_request_id (ev_request e)"
  have d: "distinct (map ?id ?es)" using history_wf(2) [OF i] by (simp add: request_ids_def)
  have w: "distinct (map fe_scope ?fs)" "distinct (logicals ?fs)" using history_wf(1) [OF i] by (simp_all add: fences_wf_def)
  have own: "?id x = ?id y" if "f = g" "fence_for lib rfc (ev_request x) f" "fence_for lib rfc (ev_request y) g" for x y f g
    using that by (simp add: fence_for_def)
  show "distinct (scopes_spent lib rfc ?es)" unfolding scopes_spent_def
  proof (rule distinct_by [OF d])
    fix x y
    assume xy: "x \<in> set ?es" "y \<in> set ?es" and eq: "effect_scope_id lib rfc (ev_request x) = effect_scope_id lib rfc (ev_request y)"
    from event_fence [OF i xy(1)] obtain f where f: "f \<in> set ?fs" "fence_for lib rfc (ev_request x) f" by blast
    from event_fence [OF i xy(2)] obtain g where g: "g \<in> set ?fs" "fence_for lib rfc (ev_request y) g" by blast
    have "fe_scope f = fe_scope g" using f(2) g(2) eq by (simp add: fence_for_def)
    with w(1) f(1) g(1) have "f = g" by (auto simp: distinct_map dest: inj_onD)
    then show "?id x = ?id y" by (rule own [OF _ f(2) g(2)])
  qed
  show "distinct (generations_spent lib rfc ?es)" unfolding generations_spent_def
  proof (rule distinct_by)
    show "distinct (map ?id (filter (\<lambda>e. delivery_intent (ev_request e)) ?es))" using d by (rule distinct_map_filter)
  next
    fix x y
    assume "x \<in> set (filter (\<lambda>e. delivery_intent (ev_request e)) ?es)" "y \<in> set (filter (\<lambda>e. delivery_intent (ev_request e)) ?es)"
      and eq: "logical_generation_scope_id lib rfc (ev_request x) = logical_generation_scope_id lib rfc (ev_request y)"
    then have x: "x \<in> set ?es" "delivery_intent (ev_request x)" and y: "y \<in> set ?es" by simp_all
    from event_fence [OF i x(1)] obtain f where f: "f \<in> set ?fs" "fence_for lib rfc (ev_request x) f" by blast
    from event_fence [OF i y] obtain g where g: "g \<in> set ?fs" "fence_for lib rfc (ev_request y) g" by blast
    from f(2) have fl: "logical_generation_scope_id lib rfc (ev_request x) = Inr (fe_logical f)" by (simp add: fence_for_def)
    from event_generation [OF i x fl] obtain l where l: "fe_logical f = Some l" by auto
    moreover have "fe_logical g = Some l" using g(2) eq fl l by (simp add: fence_for_def)
    ultimately have "f = g" by (rule same_logical [OF w(2) f(1) g(1)])
    then show "?id x = ?id y" by (rule own [OF _ f(2) g(2)])
  qed
qed

lemma ex_json: "list_all loads_json (xl_connections ex_xlife)"
proof -
  have "wf_json (PDict ex_request)" by code_simp
  then show ?thesis by (simp add: ex_xlife_def ex_connection_def loads_json_def del: wf_json.simps)
qed

text \<open>C2: The executor carries out an effect at most once. Over every history of lives of the process that starts with an empty ledger, with
  any requests, replays, worker schedules, storage faults and kills: no request id, no effect scope and, for effects on the
  delivery, no generation of the encoder occurs twice among the effects that were started.\<close>

theorem effects_at_most_once:
  assumes "collision_free lib" and "\<forall>lf \<in> set lfs. list_all loads_json (xl_connections lf)"
  shows "distinct (request_ids (ex_effects (executor_lives lib rfc (executor_fresh w) lfs))) \<and>
    distinct (scopes_spent lib rfc (ex_effects (executor_lives lib rfc (executor_fresh w) lfs))) \<and>
    distinct (generations_spent lib rfc (ex_effects (executor_lives lib rfc (executor_fresh w) lfs)))"
  using history_inv [OF assms(2,1) fresh_inv] by (intro conjI history_wf(2) once_each)

theorem effects_at_most_once_witness:
  "distinct (generations_spent ex_xlib ex_rfc (ex_effects (executor_lives ex_xlib ex_rfc (executor_fresh 0) [ex_xlife, ex_xlife])))"
  using effects_at_most_once [OF ex_collision_free, of "[ex_xlife, ex_xlife]" ex_rfc 0] ex_json by simp

text \<open>C4: An effect is started only for a request that still holds. For every effect of a history: the target read last before it is the one
  the request names (generation, identity, route, executor instance), the request had not expired when it was checked, and the
  ledger held, durably, the fence of exactly this request, scope and generation with the boundary reached and one attempt
  counted.\<close>

theorem effects_are_admitted:
  assumes "collision_free lib" and "\<forall>lf \<in> set lfs. list_all loads_json (xl_connections lf)"
  shows "\<forall>e \<in> set (ex_effects (executor_lives lib rfc (executor_fresh w) lfs)).
    identity_mismatch lib (ev_request e) (ev_target e) = [] \<and>
    (\<exists>expires. parse_instant lib (PStr (rc_expires_at (er_common (ev_request e)))) = Inr expires \<and> ev_checked_at e < expires) \<and>
    (\<exists>f \<in> set (lg_fences (ev_ledger e)). fe_owner f = er_request_id (ev_request e) \<and> effect_scope_id lib rfc (ev_request e) = Inr (fe_scope f) \<and>
       logical_generation_scope_id lib rfc (ev_request e) = Inr (fe_logical f) \<and> fe_boundary f \<and> fe_attempts f = 1)"
proof
  fix e
  assume "e \<in> set (ex_effects (executor_lives lib rfc (executor_fresh w) lfs))"
  with history_inv [OF assms(2,1) fresh_inv, of rfc w] have "event_ok lib rfc e" by (simp add: exec_inv_def)
  then show "identity_mismatch lib (ev_request e) (ev_target e) = [] \<and>
    (\<exists>expires. parse_instant lib (PStr (rc_expires_at (er_common (ev_request e)))) = Inr expires \<and> ev_checked_at e < expires) \<and>
    (\<exists>f \<in> set (lg_fences (ev_ledger e)). fe_owner f = er_request_id (ev_request e) \<and> effect_scope_id lib rfc (ev_request e) = Inr (fe_scope f) \<and>
       logical_generation_scope_id lib rfc (ev_request e) = Inr (fe_logical f) \<and> fe_boundary f \<and> fe_attempts f = 1)"
    unfolding event_ok_def request_ok_def fence_for_def by blast
qed

theorem effects_are_admitted_witness:
  "list_all (\<lambda>e. identity_mismatch ex_xlib (ev_request e) (ev_target e) = [] \<and> list_ex (\<lambda>f. fe_boundary f \<and> fe_attempts f = 1) (lg_fences (ev_ledger e)))
     (ex_effects (executor_lives ex_xlib ex_rfc (executor_fresh 0) [ex_xlife, ex_xlife]))"
proof -
  have "\<forall>lf \<in> set [ex_xlife, ex_xlife]. list_all loads_json (xl_connections lf)" using ex_json by simp
  from effects_are_admitted [OF ex_collision_free this, of ex_rfc 0] show ?thesis unfolding list_all_iff list_ex_iff by blast
qed

text \<open>C14: The ledger stays consistent. After every history from an empty ledger: every request row is backed by a well-formed request that can be
  read again and by the fence of its scope; owners, scopes and generations of the fences are unique, a fence counts one attempt if
  it reached the boundary and none otherwise, and request ids are unique.\<close>

theorem ledger_stays_consistent:
  assumes "collision_free lib" and "\<forall>lf \<in> set lfs. list_all loads_json (xl_connections lf)"
  shows "ledger_wf lib rfc (ex_ledger (executor_lives lib rfc (executor_fresh w) lfs))"
  using history_inv [OF assms(2,1) fresh_inv] by (simp add: exec_inv_def)

theorem ledger_stays_consistent_witness:
  "ledger_wf ex_xlib ex_rfc (ex_ledger (executor_lives ex_xlib ex_rfc (executor_fresh 0) [ex_xlife, ex_xlife]))"
  using ledger_stays_consistent [OF ex_collision_free, of "[ex_xlife, ex_xlife]" ex_rfc 0] ex_json by simp

end
