(* ===== verification/Rb_Closing.thy ===== *)
theory Rb_Closing
  imports Rb_Example
begin

text \<open>
  What single operations of the executor promise: which request the ledger accepts, what a restart makes of work
  that was in flight, on which evidence a fence is closed, and that reading a request ends.
\<close>

declare act_eval [simp del]

section \<open>Acceptance\<close>

lemma unresolved_none: "unresolved_fences lg = [] \<longleftrightarrow> (\<forall>f \<in> set (lg_fences lg). fe_state f \<notin> set UNRESOLVED_FENCES)"
  by (auto simp: unresolved_fences_def filter_empty_conv simp flip: set_empty)

lemma claimed_none:
  assumes "claimed_scope lib rfc lg q = Inr None"
  shows "\<exists>sid logical. effect_scope_id lib rfc q = Inr sid \<and> logical_generation_scope_id lib rfc q = Inr logical \<and>
    (\<forall>f \<in> set (lg_fences lg). fe_scope f \<noteq> sid \<and> (logical \<noteq> None \<longrightarrow> fe_logical f \<noteq> logical))"
proof -
  from assms obtain logical where l: "logical_generation_scope_id lib rfc q = Inr logical"
    and c: "(case (case logical of None \<Rightarrow> None | Some l \<Rightarrow> find (\<lambda>f. fe_logical f = Some l) (lg_fences lg)) of Some f \<Rightarrow> Inr (Some f)
      | None \<Rightarrow> bindE (effect_scope_id lib rfc q) (\<lambda>sid. Inr (ledger_scope lg sid))) = Inr None"
    by (auto simp only: claimed_scope_def bindE_eq_Inr)
  then have n: "(case logical of None \<Rightarrow> None | Some l \<Rightarrow> find (\<lambda>f. fe_logical f = Some l) (lg_fences lg)) = None"
    by (cases "case logical of None \<Rightarrow> None | Some l \<Rightarrow> find (\<lambda>f. fe_logical f = Some l) (lg_fences lg)") simp_all
  with c obtain sid where s: "effect_scope_id lib rfc q = Inr sid" "ledger_scope lg sid = None" by (auto simp: bindE_eq_Inr)
  have "\<forall>f \<in> set (lg_fences lg). logical \<noteq> None \<longrightarrow> fe_logical f \<noteq> logical" using n by (cases logical) (auto simp: find_None_iff)
  with l s show ?thesis by (auto simp: ledger_scope_def find_None_iff)
qed

definition free_for :: "pylib \<Rightarrow> (py \<Rightarrow> string res) \<Rightarrow> ledger \<Rightarrow> effect_request \<Rightarrow> bool" where
  "free_for lib rfc lg q \<longleftrightarrow> (\<exists>sid logical. effect_scope_id lib rfc q = Inr sid \<and> logical_generation_scope_id lib rfc q = Inr logical \<and>
     (\<forall>f \<in> set (lg_fences lg). fe_state f \<notin> set UNRESOLVED_FENCES \<and> fe_scope f \<noteq> sid \<and> (logical \<noteq> None \<longrightarrow> fe_logical f \<noteq> logical)))"

definition held_by_active :: "ledger \<Rightarrow> effect_request \<Rightarrow> bool" where
  "held_by_active lg q \<longleftrightarrow> (case lg_authority lg of None \<Rightarrow> False
     | Some a \<Rightarrow> au_producer_id a = rc_producer_id (er_common q) \<and> au_producer_generation a = rc_producer_generation (er_common q))"

lemma replay_flag: "aa_replay (replay_answer lib q r)" "\<not> aa_replay (refused why)" "\<not> aa_accepted (refused why)" "\<not> aa_accepted (held_answer why f)"
  by (simp_all add: replay_answer_def refused_def held_answer_def)

text \<open>C12: A new request is accepted only from the active producer and only on a free target: if the ledger accepts a request it did not know,
  the request's producer and generation are the stored authority, no fence at all is unresolved, and no fence, closed ones
  included, has its scope or its generation of the encoder; one row and one fence are added. In every other case
  the ledger is unchanged.\<close>

theorem acceptance_is_exclusive:
  assumes "accept lib rfc q ts lg = Inr (a, lg')"
  shows "if aa_accepted a \<and> \<not> aa_replay a
    then held_by_active lg q \<and> free_for lib rfc lg q \<and> existing_request lg q = None \<and> lg_typed lg' = lg_typed lg @ [new_row lib q ts] \<and>
      (\<exists>sid logical. effect_scope_id lib rfc q = Inr sid \<and> lg_fences lg' = lg_fences lg @ [new_fence lib q sid logical ts])
    else lg' = lg"
proof (cases "existing_request lg q")
  case (Some r)
  with assms show ?thesis by (auto simp: accept_def bindE_eq_Inr replay_flag)
next
  case None
  from assms obtain au where au: "lg_authority lg = Some au"
    by (auto simp: accept_def authority_def bindE_eq_Inr split: option.splits)
  show ?thesis
  proof (cases "held_by_active lg q")
    case False
    with assms None au show ?thesis by (auto simp: accept_def authority_def held_by_active_def replay_flag split: if_splits)
  next
    case True
    with assms None au have "accept_new lib rfc q ts lg = Inr (a, lg')" by (simp add: accept_def authority_def held_by_active_def)
    then obtain sc where sc: "claimed_scope lib rfc lg q = Inr sc" and
      n: "(case sc of Some f \<Rightarrow> bindE (effect_scope_id lib rfc q) (\<lambda>sid.
           Inr (held_answer (if fe_scope f = sid then ''EFFECT_SCOPE_ALREADY_CLAIMED'' else ''LOGICAL_GENERATION_PID_INVARIANT_BROKEN'') f, lg))
         | None \<Rightarrow> (case unresolved_fences lg of f # _ \<Rightarrow> Inr (held_answer ''TARGET_EFFECT_UNRESOLVED'' f, lg) | [] \<Rightarrow> claim_scope lib rfc q ts lg)) = Inr (a, lg')"
      by (auto simp only: accept_new_def bindE_eq_Inr)
    show ?thesis
    proof (cases "sc = None \<and> unresolved_fences lg = []")
      case False
      with n show ?thesis by (cases sc; cases "unresolved_fences lg") (auto simp: bindE_eq_Inr replay_flag)
    next
      case free: True
      with n have c: "claim_scope lib rfc q ts lg = Inr (a, lg')" by simp
      have "free_for lib rfc lg q" using claimed_none [of lib rfc lg q] sc free unfolding free_for_def unresolved_none by blast
      moreover from c obtain sid logical where "effect_scope_id lib rfc q = Inr sid" "lg_typed lg' = lg_typed lg @ [new_row lib q ts]"
        "lg_fences lg' = lg_fences lg @ [new_fence lib q sid logical ts]"
        by (auto simp: claim_scope_def bindE_eq_Inr insert_row_def insert_fence_def raise_high_water_def split: if_splits)
      moreover have "aa_accepted a \<and> \<not> aa_replay a" using c by (auto simp: claim_scope_def bindE_eq_Inr)
      ultimately show ?thesis using True None by auto
    qed
  qed
qed

section \<open>Restart\<close>

text \<open>C31: After a restart nothing looks as if it were still in progress: opening the ledger leaves no request in \<open>EXECUTION_STARTED\<close>, and every
  fence whose request has an unknown outcome is itself past the states a running effect has.\<close>

theorem restart_leaves_nothing_running:
  assumes "open_ledger lib rfc producer_id generation ts lg = (Inr n, lg')"
  shows "(\<forall>r \<in> set (lg_typed lg' @ lg_legacy lg'). rr_state r \<noteq> ''EXECUTION_STARTED'') \<and>
    (\<forall>r \<in> set (lg_typed lg' @ lg_legacy lg'). rr_state r = ''OUTCOME_UNKNOWN'' \<longrightarrow>
       (\<forall>f \<in> set (lg_fences lg'). fe_owner f = rr_request_id r \<longrightarrow> fe_state f \<notin> {''ACCEPTED'', ''EXECUTION_STARTED'', ''EFFECT_BOUNDARY_REACHED''}))"
proof -
  from assms obtain l where "txn (reconcile_started ts) l = (Inr n, lg')" by (auto simp: open_ledger_def bindS_eq_Inr act_eval)
  then have "reconcile_started ts l = Inr (n, lg')" by (auto simp: txn_def split: sum.splits prod.splits)
  then have l: "lg_legacy lg' = update_where (\<lambda>r. rr_state r = ''EXECUTION_STARTED'') (unknown_row ts) (lg_legacy l)"
      "lg_typed lg' = update_where (\<lambda>r. rr_state r = ''EXECUTION_STARTED'') (unknown_row ts) (lg_typed l)"
    and f: "lg_fences lg' = update_where (\<lambda>f. fe_owner f \<in> set (map rr_request_id (filter (\<lambda>r. rr_state r = ''OUTCOME_UNKNOWN'') (lg_typed lg' @ lg_legacy lg')))
        \<and> fe_state f \<in> {''ACCEPTED'', ''EXECUTION_STARTED'', ''EFFECT_BOUNDARY_REACHED''})
      (\<lambda>f. f\<lparr>fe_state := ''OUTCOME_UNKNOWN'', fe_updated_at := ts\<rparr>) (lg_fences l)"
    unfolding reconcile_started_def Let_def by (auto simp del: set_map set_filter set_append)
  define U where "U = set (map rr_request_id (filter (\<lambda>r. rr_state r = ''OUTCOME_UNKNOWN'') (lg_typed lg' @ lg_legacy lg')))"
  have "\<forall>r \<in> set (lg_typed lg' @ lg_legacy lg'). rr_state r \<noteq> ''EXECUTION_STARTED''"
    unfolding l by (auto simp: update_where_def unknown_row_def)
  moreover have "fe_state x \<notin> {''ACCEPTED'', ''EXECUTION_STARTED'', ''EFFECT_BOUNDARY_REACHED''}"
    if r: "r \<in> set (lg_typed lg' @ lg_legacy lg')" "rr_state r = ''OUTCOME_UNKNOWN''" and x: "x \<in> set (lg_fences lg')" "fe_owner x = rr_request_id r" for r x
  proof -
    have "fe_owner x \<in> U" unfolding U_def set_map set_filter x(2) using r by blast
    with x(1) show ?thesis unfolding f U_def [symmetric] by (auto simp: update_where_def)
  qed
  ultimately show ?thesis by blast
qed

section \<open>Reading a request\<close>

lemma read_request_fuel: "MAX_REQUEST + 1 < fuel + length raw \<Longrightarrow> 0 < fuel \<Longrightarrow> read_request fuel chunk i raw \<noteq> None"
proof (induction fuel arbitrary: i raw)
  case (Suc fuel)
  show ?case
  proof (cases "length raw \<le> MAX_REQUEST")
    case True
    then have f: "0 < fuel" using Suc.prems by simp
    have "read_request fuel chunk (Suc i) (raw @ c) \<noteq> None" if "c \<noteq> []" for c
      using that Suc.prems f by (intro Suc.IH) (cases c; simp)+
    then show ?thesis by (auto split: sum.splits)
  qed simp
qed simp

text \<open>Reading a request ends, whatever the peer sends and however it cuts it up, and the executor keeps less than one chunk more than the
  65,536 bytes it allows: the fuel of the model is never used up.\<close>

theorem reading_a_request_ends:
  "read_request (MAX_REQUEST + 2) chunk 0 [] \<noteq> None \<and> received \<lparr>cn_uid = uid, cn_chunk = chunk, cn_loads = loads\<rparr> = the (read_request (MAX_REQUEST + 2) chunk 0 [])"
  using read_request_fuel [of "MAX_REQUEST + 2" "[]" chunk 0] by (auto simp: received_def)

section \<open>The attempts a restart counts\<close>

definition fence_at :: "string \<Rightarrow> string \<Rightarrow> fence list \<Rightarrow> bool" where
  "fence_at sid owner fs \<longleftrightarrow> (\<exists>f \<in> set fs. fe_scope f = sid \<and> fe_owner f = owner)"

definition spent_at :: "string \<Rightarrow> string \<Rightarrow> fence list \<Rightarrow> bool" where
  "spent_at sid owner fs \<longleftrightarrow> (\<exists>f \<in> set fs. fe_scope f = sid \<and> fe_owner f = owner \<and> fe_boundary f \<and> fe_attempts f = 1)"

lemma add_candidate_member:
  assumes "f \<in> set fs"
  shows "(if cd_boundary c \<and> fe_scope f = cd_scope c then used_up ts f else f) \<in> set (add_candidate ts fs c)"
proof -
  have u: "f \<in> set xs \<Longrightarrow> (if P f then g f else f) \<in> set (update_where P g xs)" for P g and xs :: "fence list"
    unfolding update_where_def by (simp only: set_map) (rule imageI)
  from assms have "f \<in> set (if list_ex (fence_clash (fence_of_candidate c ts)) fs then fs else fs @ [fence_of_candidate c ts])" by simp
  from u [OF this, of "\<lambda>x. fe_scope x = cd_scope c" "used_up ts"] this show ?thesis by (auto simp: add_candidate_def Let_def)
qed

lemma used_up_fields [simp]: "fe_scope (used_up ts f) = fe_scope f" "fe_owner (used_up ts f) = fe_owner f" "fe_boundary (used_up ts f)" "fe_attempts (used_up ts f) = 1"
  by (simp_all add: used_up_def)

lemma add_candidate_keeps:
  "fence_at sid owner fs \<Longrightarrow> fence_at sid owner (add_candidate ts fs c)" "spent_at sid owner fs \<Longrightarrow> spent_at sid owner (add_candidate ts fs c)"
proof -
  show "fence_at sid owner fs \<Longrightarrow> fence_at sid owner (add_candidate ts fs c)"
    unfolding fence_at_def by (elim bexE, frule add_candidate_member [of _ _ c ts], erule rev_bexI) simp
  show "spent_at sid owner fs \<Longrightarrow> spent_at sid owner (add_candidate ts fs c)"
    unfolding spent_at_def by (elim bexE, frule add_candidate_member [of _ _ c ts], erule rev_bexI) simp
qed

lemma add_candidate_spends:
  assumes "fence_at sid owner fs" and "cd_boundary c" and "cd_scope c = sid"
  shows "spent_at sid owner (add_candidate ts fs c)"
proof -
  from assms(1) obtain f where f: "f \<in> set fs" "fe_scope f = sid" "fe_owner f = owner" by (auto simp: fence_at_def)
  with add_candidate_member [OF f(1), of c ts] assms(2,3) have "used_up ts f \<in> set (add_candidate ts fs c)" by simp
  then show ?thesis unfolding spent_at_def using f by (intro bexI [where x = "used_up ts f"]) simp_all
qed

lemma add_candidates_spend:
  "c \<in> set cs \<Longrightarrow> cd_boundary c \<Longrightarrow> cd_scope c = sid \<Longrightarrow> fence_at sid owner fs \<Longrightarrow> spent_at sid owner (fold (\<lambda>c fs. add_candidate ts fs c) cs fs)"
proof (induction cs arbitrary: fs)
  case (Cons d cs)
  have keep: "spent_at sid owner fs \<Longrightarrow> spent_at sid owner (fold (\<lambda>c fs. add_candidate ts fs c) cs fs)" for fs
    by (induction cs arbitrary: fs) (simp_all add: add_candidate_keeps(2))
  show ?case
  proof (cases "d = c")
    case True
    with Cons.prems add_candidate_spends keep show ?thesis by simp
  next
    case False
    with Cons show ?thesis by (simp add: add_candidate_keeps(1))
  qed
qed simp

text \<open>C39: A restart counts an attempt for every request that is past \<open>ACCEPTED\<close>, whatever happened to it: also where it failed before the
  boundary and its stored result says \<open>physical_effect_count\<close> is 0.\<close>

theorem restart_counts_an_attempt:
  assumes b: "backfill_effect_scope_fences lib rfc ts lg = Inr ((), lg')"
    and r: "r \<in> set (lg_typed lg)" "rr_state r \<noteq> ''ACCEPTED''" "typed_candidate lib rfc r = Inr [c]"
    and f: "fence_at (cd_scope c) owner (lg_fences lg)"
  shows "spent_at (cd_scope c) owner (lg_fences lg')"
proof -
  from b obtain typed legacy where t: "mapE (typed_candidate lib rfc) (sort_key rr_accepted_at (lg_typed lg)) = Inr typed"
    and lg': "lg_fences lg' = fold (\<lambda>c fs. add_candidate ts fs c) (concat typed @ concat legacy) (lg_fences lg)"
    by (auto simp: backfill_effect_scope_fences_def bindE_eq_Inr)
  have "[c] \<in> set typed" using t r(1,3)
  proof -
    have "\<forall>x \<in> set xs. \<forall>y. f x = Inr y \<longrightarrow> y \<in> set ys" if "mapE f xs = Inr ys" for f :: "request_row \<Rightarrow> candidate list res" and xs ys
      using that by (induction xs arbitrary: ys) (auto simp: bindE_eq_Inr)
    from this [OF t] r(1,3) show ?thesis by simp
  qed
  then have c: "c \<in> set (concat typed @ concat legacy)" by (simp add: rev_bexI)
  have "cd_boundary c" using r(2,3) by (auto simp: typed_candidate_def candidate_of_def bindE_eq_Inr split: sum.splits if_splits)
  then show ?thesis unfolding lg' by (rule add_candidates_spend [OF c _ refl f])
qed

section \<open>Closing a fence\<close>

definition closed_fence :: "closing \<Rightarrow> pylib \<Rightarrow> string \<Rightarrow> fence \<Rightarrow> fence" where
  "closed_fence c lib ts f = (if fe_scope f = cl_scope c
     then f\<lparr>fe_state := (if cl_resolution c = ''EFFECT_OBSERVED'' then ''RECONCILED_EFFECT_OBSERVED'' else ''RETIRED_TARGET_OUTCOME_UNKNOWN''),
       fe_boundary := True, fe_attempts := 1, fe_result := Some (jnorm (PDict (cl_evidence c))), fe_updated_at := ts\<rparr> else f)"

definition ledger_close :: "pylib \<Rightarrow> closing \<Rightarrow> string \<Rightarrow> (string \<times> py) list txn" where
  "ledger_close lib c = (if cl_resolution c = ''EFFECT_OBSERVED''
     then record_reconciliation lib (cl_id c) (cl_scope c) (cl_resolution c) (cl_evidence c) (Some (cl_owner c)) (Some (cl_digest c))
     else record_target_retirement lib (cl_id c) (cl_scope c) (cl_evidence c) (cl_owner c) (cl_digest c))"

text \<open>Closing touches one fence only, and only for its owner: when the ledger records a closing, either it is the replay of a recorded one
  and nothing changes, or the fence of the scope was open, belonged to the named request with the named digest, and is the
  only one that changes; no request row and no authority changes.\<close>

theorem closing_is_exact:
  assumes "ledger_close lib c ts lg = Inr (r, lg')"
  shows "lg' = lg \<or>
    (\<exists>f. ledger_scope lg (cl_scope c) = Some f \<and> fe_owner f = cl_owner c \<and> fe_owner_digest f = cl_digest c \<and> fe_state f \<in> set UNRESOLVED_FENCES) \<and>
    lg_fences lg' = map (closed_fence c lib ts) (lg_fences lg) \<and>
    lg_typed lg' = lg_typed lg \<and> lg_legacy lg' = lg_legacy lg \<and> lg_authority lg' = lg_authority lg"
proof (cases "cl_resolution c = ''EFFECT_OBSERVED''")
  case True
  with assms have a: "record_reconciliation lib (cl_id c) (cl_scope c) ''EFFECT_OBSERVED'' (cl_evidence c) (Some (cl_owner c)) (Some (cl_digest c)) ts lg = Inr (r, lg')"
    by (simp add: ledger_close_def)
  show ?thesis
  proof (cases "find (\<lambda>r. rc_id r = cl_id c) (lg_reconciliations lg)")
    case None
    with a obtain f where "ledger_scope lg (cl_scope c) = Some f" by (auto simp: record_reconciliation_def Let_def bindE_eq_Inr split: option.splits)
    with a None True show ?thesis
      by (auto simp: record_reconciliation_def Let_def bindE_eq_Inr owner_matches_def reconciled_fence_def closed_fence_def update_where_def simp del: jnorm.simps(7))
  qed (use a in \<open>auto simp: record_reconciliation_def Let_def bindE_eq_Inr\<close>)
next
  case False
  with assms have a: "record_target_retirement lib (cl_id c) (cl_scope c) (cl_evidence c) (cl_owner c) (cl_digest c) ts lg = Inr (r, lg')"
    by (simp add: ledger_close_def)
  show ?thesis
  proof (cases "find (\<lambda>r. rc_id r = cl_id c) (lg_retirements lg)")
    case None
    with a obtain f where "ledger_scope lg (cl_scope c) = Some f" by (auto simp: record_target_retirement_def Let_def split: option.splits)
    with a None False show ?thesis
      by (auto simp: record_target_retirement_def Let_def bindE_eq_Inr owner_matches_def closed_fence_def update_where_def UNRESOLVED_FENCES_def
        retirement_states_def simp del: jnorm.simps(7) split: if_splits)
  qed (use a in \<open>auto simp: record_target_retirement_def Let_def bindE_eq_Inr\<close>)
qed

lemma lift_bind_Inr: "bindS (liftS r) f s = (Inr x, t) \<longleftrightarrow> (\<exists>y. r = Inr y \<and> f y s = (Inr x, t))"
  by (cases r) (simp_all add: bindS_def liftS_def)

lemma require_bind_Inr: "bindS (requireS c e) f s = (Inr x, t) \<longleftrightarrow> c \<and> f () s = (Inr x, t)"
  by (cases c) (simp_all add: bindS_def requireS_def liftS_def)

text \<open>With no worker in flight only the handler itself changes the ledger.\<close>

definition idleX :: "'w executor \<Rightarrow> 'w executor \<Rightarrow> bool" where
  "idleX s t \<longleftrightarrow> (ex_jobs s = [] \<longrightarrow> ex_jobs t = [] \<and> ex_ledger t = ex_ledger s)"

interpretation idleX: state_frame idleX
  by unfold_locales (simp_all add: idleX_def)

lemma idle_after: "withinS idleX m \<Longrightarrow> m s = (r, t) \<Longrightarrow> ex_jobs s = [] \<Longrightarrow> ex_jobs t = [] \<and> ex_ledger t = ex_ledger s"
  by (drule withinS_def [THEN iffD1, THEN spec [of _ s]]) (simp add: idleX_def)

lemma idle_ask: "withinS idleX (askX f)"
  by (auto simp: withinS_def askX_def idleX_def split: prod.splits)

lemma idle_worker: "withinS idleX (worker_step env cfg k)"
  unfolding withinS_def
proof
  fix s :: "'a executor"
  show "idleX s (snd (worker_step env cfg k s))"
    by (cases "ex_jobs s = []") (simp_all add: worker_step_def bindS_def getS_def retS_def idleX_def)
qed

lemma idle_sched: "withinS idleX (sched env cfg)"
proof -
  have "withinS idleX (run_workers env cfg ks)" for ks
    by (induction ks) (simp_all add: idleX.within_basic idleX.within_bind idle_worker)
  then show ?thesis unfolding sched_def by (intro idleX.within_intros idle_ask)
qed

lemma idle_read: "withinS idleX (read env cfg f)"
  unfolding read_def by (intro idleX.within_intros idle_sched idle_ask)

lemma idle_samples: "withinS idleX (check_samples l env observed oat prev xs)"
  by (induction xs arbitrary: prev) (simp_all add: idleX.within_basic idleX.within_bind idle_ask)

lemma idle_acks: "withinS idleX (if c then check_acks lib env observed oat t else retS ())"
  unfolding check_acks_def by (intro idleX.within_intros idle_samples)

lemma idle_reads: "withinS idleX (read_authority env cfg)" "withinS idleX (read_unresolved env cfg)"
  unfolding read_authority_def read_unresolved_def by (intro idle_read)+

lemma read_idle:
  assumes r: "read env cfg f s = (Inr x, t)" and n: "ex_jobs s = []"
  shows "f (ex_ledger s) = Inr x"
proof -
  from r obtain u v y z where u: "sched env cfg s = (Inr y, u)" "askX (x_read env) u = (Inr z, v)" and x: "f (ex_ledger v) = Inr x"
    by (auto simp: read_def bindS_eq_Inr liftS_def getS_def)
  from idle_after [OF idle_sched u(1) n] idle_after [OF idle_ask u(2)] x show ?thesis by simp
qed

lemma store_idle:
  assumes r: "store env cfg f s = (Inr x, t)" and n: "ex_jobs s = []"
  shows "\<exists>ts. f ts (ex_ledger s) = Inr (x, ex_ledger t) \<and> ex_jobs t = []"
proof -
  from r obtain y u where u: "sched env cfg s = (Inr y, u)" and t: "raw_txn env f u = (Inr x, t)" by (auto simp: store_def bindS_eq_Inr)
  from t obtain ts u1 tx u2 where a: "askX (x_text env) u = (Inr ts, u1)" "askX (x_tx env) u1 = (Inr tx, u2)"
    and m: "(case tx of Committed \<Rightarrow> on_ledger (txn (f ts)) | Refused e \<Rightarrow> raiseS e | CommittedThen e \<Rightarrow> bindS (on_ledger (txn (f ts))) (\<lambda>_. raiseS e)) u2 = (Inr x, t)"
    unfolding raw_txn_def bindS_eq_Inr by blast
  from idle_after [OF idle_sched u n] idle_after [OF idle_ask a(1)] idle_after [OF idle_ask a(2)]
  have same: "ex_ledger u2 = ex_ledger s" "ex_jobs u2 = []" by simp_all
  from m have "on_ledger (txn (f ts)) u2 = (Inr x, t)" by (cases tx) (auto simp: bindS_eq_Inr raiseS_def)
  with same show ?thesis by (auto simp: on_ledger_def txn_def split: prod.splits sum.splits)
qed

text \<open>What the closing rests on, as the answer to the request that asks for it.\<close>

definition evidence_holds :: "pylib \<Rightarrow> closing \<Rightarrow> (string \<times> py) list \<Rightarrow> (string \<times> py) list \<Rightarrow> bool" where
  "evidence_holds lib c prior observed \<longleftrightarrow>
     validate_target lib (dget (cl_evidence c) ''before_target'') = Inr prior \<and>
     validate_target lib (dget (cl_evidence c) ''observed_target'') = Inr observed \<and>
     py_eq (PInt 0) (dget (cl_evidence c) ''automatic_retry_count'') \<and>
     (\<exists>t. transport_of (cl_evidence c) (str_or_empty lib (dget (cl_evidence c) ''schema_version'')) = Inr t) \<and>
     (if cl_resolution c = ''EFFECT_OBSERVED'' then successor_distinct prior observed else replacement_distinct prior observed) = Inr ()"

lemma closing_recorded:
  assumes "record_closing lib env cfg c prior observed s = (Inr r, t)"
  shows "(if cl_resolution c = ''EFFECT_OBSERVED'' then successor_distinct prior observed else replacement_distinct prior observed) = Inr () \<and>
    store env cfg (ledger_close lib c) s = (Inr r, t)"
  using assms by (cases "cl_resolution c = ''EFFECT_OBSERVED''") (simp_all add: record_closing_def ledger_close_def lift_bind_Inr)

lemma bound_idle:
  assumes b: "bound_targets lib env cfg c s = (Inr (prior, observed), t)" and n: "ex_jobs s = []"
  shows "validate_target lib (dget (cl_evidence c) ''before_target'') = Inr prior" "validate_target lib (dget (cl_evidence c) ''observed_target'') = Inr observed"
    "\<exists>f. ledger_scope (ex_ledger s) (cl_scope c) = Some f \<and> py_eq (fe_identity f) (PDict prior)" "ex_jobs t = []" "ex_ledger t = ex_ledger s"
proof -
  from b obtain sc u where v: "validate_target lib (dget (cl_evidence c) ''before_target'') = Inr prior" "validate_target lib (dget (cl_evidence c) ''observed_target'') = Inr observed"
    and r: "read env cfg (\<lambda>lg. Inr (ledger_scope lg (cl_scope c))) s = (Inr sc, u)"
    and f: "case sc of None \<Rightarrow> False | Some f \<Rightarrow> py_eq (fe_identity f) (PDict prior)"
    unfolding bound_targets_def lift_bind_Inr bindS_eq_Inr [of "read _ _ _"] bindS_eq_Inr [of "askX _"] require_bind_Inr
    by (auto simp: retS_def)
  show "validate_target lib (dget (cl_evidence c) ''before_target'') = Inr prior" "validate_target lib (dget (cl_evidence c) ''observed_target'') = Inr observed"
    by (rule v)+
  from read_idle [OF r n] f show "\<exists>f. ledger_scope (ex_ledger s) (cl_scope c) = Some f \<and> py_eq (fe_identity f) (PDict prior)"
    by (auto split: option.splits)
  have "withinS idleX (bound_targets lib env cfg c)" unfolding bound_targets_def by (intro idleX.within_intros idle_read idle_ask)
  from idle_after [OF this b n] show "ex_jobs t = []" "ex_ledger t = ex_ledger s" by simp_all
qed


section \<open>Types\<close>

text \<open>C40: What the protocol lets through is well typed: a parsed request has trimmed, nonempty identifiers, a positive generation, a lifetime of at
  most 5 s, a known intent, and exactly the kind of identity its intent calls for (an encoder target or a runtime identity,
  never both), with a route transition for a route switch only.\<close>

theorem parsed_requests_well_formed:
  assumes "from_mapping lib xs = Inr q" and "wf_json (PDict xs)"
  shows "wf_request lib q"
  by (rule from_mapping_wf [OF assms])

section \<open>Witnesses\<close>

definition ex_scopes :: "py \<Rightarrow> string res" where "ex_scopes v = Inr ''s''"

text \<open>A ledger that was opened, one with the request accepted, started, and at the boundary, and one where it failed before.\<close>

definition ex_opened :: ledger where "ex_opened = snd (open_ledger ex_wire ex_scopes ''cra'' 3 ''t'' ledger_empty)"
definition ex_accepted :: ledger where "ex_accepted = snd (txn (accept ex_wire ex_scopes ex_req ''t'') ex_opened)"
definition ex_running :: ledger where
  "ex_running = snd (txn (transition ''cra-abc'' ''ACCEPTED'' ''EXECUTION_STARTED'' None None ''t'') ex_accepted)"
definition ex_at_boundary :: ledger where "ex_at_boundary = snd (txn (mark_effect_boundary ''cra-abc'' ''t'') ex_running)"
definition ex_failed :: ledger where
  "ex_failed = snd (txn (transition ''cra-abc'' ''EXECUTION_STARTED'' ''EFFECT_FAILED'' (Some (no_effect_result ''DRIFT'')) None ''t'') ex_running)"

lemma ex_accept: "accept ex_wire ex_scopes ex_req ''t'' ex_opened = Inr (\<lparr>aa_accepted = True, aa_reason = ''ACCEPTED_DURABLE'', aa_state = ''ACCEPTED'',
    aa_replay = False, aa_result = PNone, aa_scope = Some ''s'', aa_owner = None\<rparr>, ex_accepted)"
proof -
  have "case accept ex_wire ex_scopes ex_req ''t'' ex_opened of Inl e \<Rightarrow> False | Inr (a, lg) \<Rightarrow> a = \<lparr>aa_accepted = True, aa_reason = ''ACCEPTED_DURABLE'',
    aa_state = ''ACCEPTED'', aa_replay = False, aa_result = PNone, aa_scope = Some ''s'', aa_owner = None\<rparr>" by code_simp
  then show ?thesis by (auto simp: ex_accepted_def txn_def split: sum.splits)
qed

theorem acceptance_is_exclusive_witness:
  "held_by_active ex_opened ex_req \<and> free_for ex_wire ex_scopes ex_opened ex_req \<and> length (lg_typed ex_accepted) = Suc (length (lg_typed ex_opened))"
  using acceptance_is_exclusive [OF ex_accept] by simp

theorem restart_leaves_nothing_running_witness:
  "list_all (\<lambda>r. rr_state r \<noteq> ''EXECUTION_STARTED'') (lg_typed (snd (open_ledger ex_wire ex_scopes ''cra'' 3 ''t'' ex_running)))"
proof -
  have "fst (open_ledger ex_wire ex_scopes ''cra'' 3 ''t'' ex_running) = Inr 1" by code_simp
  then have "open_ledger ex_wire ex_scopes ''cra'' 3 ''t'' ex_running = (Inr 1, snd (open_ledger ex_wire ex_scopes ''cra'' 3 ''t'' ex_running))"
    by (metis prod.collapse)
  from restart_leaves_nothing_running [OF this] show ?thesis by (simp add: list_all_iff)
qed

theorem restart_counts_an_attempt_witness:
  "list_all (\<lambda>f. \<not> fe_boundary f \<and> fe_attempts f = 0) (lg_fences ex_failed) \<and>
   spent_at ''s'' ''cra-abc'' (lg_fences (snd (txn (backfill_effect_scope_fences ex_wire ex_scopes ''t'') ex_failed)))"
proof -
  have e: "list_all (\<lambda>f. \<not> fe_boundary f \<and> fe_attempts f = 0) (lg_fences ex_failed)" by code_simp
  have k: "case lg_typed ex_failed of [r] \<Rightarrow> rr_state r \<noteq> ''ACCEPTED'' \<and> (case typed_candidate ex_wire ex_scopes r of Inr cs \<Rightarrow> map cd_scope cs = [''s''] | _ \<Rightarrow> False) | _ \<Rightarrow> False"
    by code_simp
  then obtain r c where r: "lg_typed ex_failed = [r]" "rr_state r \<noteq> ''ACCEPTED''" "typed_candidate ex_wire ex_scopes r = Inr [c]" "cd_scope c = ''s''"
    by (auto split: list.splits sum.splits)
  have f: "list_ex (\<lambda>f. fe_scope f = ''s'' \<and> fe_owner f = ''cra-abc'') (lg_fences ex_failed)" by code_simp
  then have f: "fence_at (cd_scope c) ''cra-abc'' (lg_fences ex_failed)" by (auto simp: fence_at_def list_ex_iff r(4))
  have "case backfill_effect_scope_fences ex_wire ex_scopes ''t'' ex_failed of Inl e \<Rightarrow> False | Inr p \<Rightarrow> True" by code_simp
  then obtain lg where b: "backfill_effect_scope_fences ex_wire ex_scopes ''t'' ex_failed = Inr ((), lg)" by (auto split: sum.splits)
  from restart_counts_an_attempt [OF b _ r(2,3) f] e show ?thesis by (simp add: r(1,4) b txn_def)
qed

text \<open>The evidence of a successor: another generation and process of the encoder in the same container.\<close>

definition ex_successor :: "(string \<times> py) list" where
  "ex_successor = [(''host_id'', PStr ''h''), (''host_boot_id'', PStr ''b''), (''namespace'', PStr ''n''), (''pod_uid'', PStr ''pod''),
     (''container_name'', PStr ''stream-engine''), (''container_id'', PStr ''c''), (''ffmpeg_generation'', PStr ''g2''), (''ffmpeg_pid'', PInt 78)]"

definition ex_evidence :: "(string \<times> py) list" where
  "ex_evidence = [(''schema_version'', PStr EVIDENCE_V1), (''oracle'', PStr ''DELAYED_FFMPEG_EXIT_AND_HEALTHY_SUCCESSOR''), (''observed_at'', PStr ''+1''),
     (''automatic_retry_count'', PInt 0), (''before_target'', PDict ex_target), (''observed_target'', PDict ex_successor),
     (''runtime_observation_id'', PStr ''o''), (''transport'', PDict [(''bytes_sent'', PInt 5), (''network_down'', PBool False), (''tcp_probe_ok'', PBool True)]),
     (''physical_effect_count'', PInt 1)]"

definition ex_closing_request :: "(string \<times> py) list" where
  "ex_closing_request = [(''schema_version'', PStr ''runtime.effect_reconciliation_request.v1''), (''reconciliation_id'', PStr ''r1''),
     (''effect_scope_id'', PStr ''s''), (''owner_request_id'', PStr ''cra-abc''), (''owner_request_digest'', PStr ''abc''),
     (''resolution'', PStr ''EFFECT_OBSERVED''), (''evidence'', PDict ex_evidence)]"

definition ex_closing :: closing where
  "ex_closing = \<lparr>cl_id = ''r1'', cl_scope = ''s'', cl_owner = ''cra-abc'', cl_digest = ''abc'', cl_resolution = ''EFFECT_OBSERVED'', cl_evidence = ex_evidence\<rparr>"

theorem closing_is_exact_witness:
  "lg_typed (snd (txn (ledger_close ex_wire ex_closing ''t'') ex_at_boundary)) = lg_typed ex_at_boundary \<and>
   list_all (\<lambda>f. fe_state f = ''RECONCILED_EFFECT_OBSERVED'') (lg_fences (snd (txn (ledger_close ex_wire ex_closing ''t'') ex_at_boundary)))"
proof -
  have "case ledger_close ex_wire ex_closing ''t'' ex_at_boundary of Inl e \<Rightarrow> False | Inr (r, lg) \<Rightarrow> lg_reconciliations lg \<noteq> lg_reconciliations ex_at_boundary"
    by code_simp
  then obtain r lg where a: "ledger_close ex_wire ex_closing ''t'' ex_at_boundary = Inr (r, lg)" "lg \<noteq> ex_at_boundary"
    by (auto split: sum.splits prod.splits)
  have s: "list_all (\<lambda>f. fe_scope f = ''s'') (lg_fences ex_at_boundary)" by code_simp
  from closing_is_exact [OF a(1)] a(2) have c: "lg_typed lg = lg_typed ex_at_boundary" "lg_fences lg = map (closed_fence ex_closing ex_wire ''t'') (lg_fences ex_at_boundary)"
    by simp_all
  have "list_all (\<lambda>f. fe_state f = ''RECONCILED_EFFECT_OBSERVED'') (lg_fences lg)"
    unfolding c using s by (auto simp: list_all_iff closed_fence_def ex_closing_def)
  with c(1) a(1) show ?thesis by (simp add: txn_def)
qed

definition ex_closing_env :: "nat xenv" where
  "ex_closing_env = ex_xenv\<lparr>x_target := (\<lambda>n. (Inr [(''ffmpeg_target_identity'', PDict ex_successor)], n))\<rparr>"

definition ex_executor :: "nat executor" where
  "ex_executor = (executor_fresh 0)\<lparr>ex_ledger := ex_at_boundary\<rparr>"


theorem parsed_requests_well_formed_witness:
  "wf_request ex_wire ex_req"
proof -
  have "wf_json (PDict ex_request)" by code_simp
  with parsed_requests_well_formed [OF ex_req] show ?thesis by blast
qed

end
