(* ===== verification/Fr_Core.thy ===== *)
theory Fr_Core
  imports Rb_Protocol
begin

text \<open>
  The decision core of the Fast Recovery controller: the settings of \<open>watchers/fast_recovery.py\<close> and, of the
  package \<open>watchers/fast_recovery_core\<close>, \<open>policy.py\<close>, \<open>budget.py\<close>, \<open>state.py\<close>, \<open>tcp_metrics.py\<close>,
  \<open>decision.py\<close> and \<open>connectivity_policy.py\<close>.

  The controller keeps its state in a dictionary that it stores as JSON and reads back in the next cycle, so
  the state is an association list of JSON values (\<open>dict\<close>), read with the conversions the code applies. A
  function that updates the dictionary in place returns the new dictionary; a function that raises in
  between raises (the cycle ends and the dictionary is lost). An event is what \<open>append_event\<close> is called
  with: kind, message and further fields.
\<close>

section \<open>Settings\<close>

type_synonym dict = "(string \<times> py) list"
type_synonym event = "string \<times> string \<times> dict"

text \<open>\<open>get\<close> is \<open>os.environ.get(name)\<close>; \<open>fl\<close> is \<open>float(text)\<close>, nothing for a ValueError.\<close>

definition env_text :: "(string \<Rightarrow> string option) \<Rightarrow> string \<Rightarrow> string \<Rightarrow> string" where
  "env_text get n dflt = strip (case get n of None \<Rightarrow> dflt | Some s \<Rightarrow> s)"

definition int_env :: "(string \<Rightarrow> string option) \<Rightarrow> string \<Rightarrow> int \<Rightarrow> int" where
  "int_env get n dflt = (case py_int (PStr (env_text get n (int_str dflt))) of Inl _ \<Rightarrow> dflt | Inr v \<Rightarrow> v)"

definition float_env :: "(string \<Rightarrow> string option) \<Rightarrow> (string \<Rightarrow> pyfloat option) \<Rightarrow> string \<Rightarrow> string \<Rightarrow> pyfloat \<Rightarrow> pyfloat" where
  "float_env get fl n shown dflt = (case fl (env_text get n shown) of None \<Rightarrow> dflt | Some x \<Rightarrow> x)"

definition truth_words :: "string list" where "truth_words = [''1'', ''true'', ''yes'', ''on'']"

definition bool_env :: "(string \<Rightarrow> string option) \<Rightarrow> string \<Rightarrow> bool \<Rightarrow> bool" where
  "bool_env get n dflt \<longleftrightarrow> lower_ascii (env_text get n (if dflt then ''1'' else ''0'')) \<in> set truth_words"

text \<open>\<open>max(a, x)\<close> on floats: a NaN is not larger.\<close>

definition float_max :: "rat \<Rightarrow> pyfloat \<Rightarrow> pyfloat" where
  "float_max a x = (if num_lt (Fin a) x then x else Fin a)"

fun split_comma :: "string \<Rightarrow> string list" where
  "split_comma [] = [[]]"
| "split_comma (c # cs) = (let r = split_comma cs in if c = CHR '','' then [] # r else (c # hd r) # tl r)"

record fr_config =
  k_stream_service :: string
  k_rtmp_host :: string
  k_controller_id :: string
  k_execution_mode :: string
  k_authority_mode :: string
  k_socket :: string
  k_producer_id :: string
  k_producer_generation :: int
  k_runtime_mode :: string
  k_gpu_preflight :: bool
  k_require_established :: bool
  k_net_fail_confirm :: int
  k_stall_confirm :: int
  k_warning_confirm :: int
  k_warning_local_ok :: bool
  k_warning_distinct :: bool
  k_url_preservation :: bool
  k_status_max_age :: int
  k_stall_lastsnd_ms :: int
  k_stall_notsent :: int
  k_stall_unacked :: int
  k_min_uptime :: int
  k_missing_restart :: int
  k_missing_backoff :: int
  k_restart_guard :: int
  k_failure_backoff :: int
  k_hourly_budget :: int
  k_daily_budget :: int
  k_restart_cost :: int
  k_override_after :: int
  k_samples_max :: int
  k_send_sample_log :: int
  k_low_enabled :: bool
  k_low_max_mbps :: pyfloat
  k_low_notsent :: int
  k_low_unacked :: int
  k_low_lastsnd_ms :: int
  k_ping_targets :: "string list"
  k_observation_set :: bool
  k_supervisor :: string
  k_enforcement :: string

text \<open>The module's settings, read once when the process starts. Paths, timeouts and probe targets belong to the calls outside.\<close>

definition load_config :: "(string \<Rightarrow> string option) \<Rightarrow> (string \<Rightarrow> pyfloat option) \<Rightarrow> fr_config" where
  "load_config get fl = (let e = env_text get; i = int_env get; b = bool_env get in
     \<lparr>k_stream_service = e ''FR_STREAM_SERVICE'' ''adsb-streamnew-youtube-stream.service'',
      k_rtmp_host = e ''FR_RTMP_HOST'' ''a.rtmp.youtube.com'',
      k_controller_id = e ''FR_CONTROLLER_ID'' ''dell_fast_recovery'', k_execution_mode = e ''FR_EXECUTION_MODE'' ''execute'',
      k_authority_mode = upper_ascii (e ''FR_EFFECT_AUTHORITY_MODE'' ''LEGACY_DIRECT''), k_socket = e ''FR_EFFECT_EXECUTOR_SOCKET'' [],
      k_producer_id = e ''FR_EFFECT_PRODUCER_ID'' ''legacy-in-pod'',
      k_producer_generation = max 1 (i ''FR_EFFECT_PRODUCER_GENERATION'' 1),
      k_runtime_mode = upper_ascii (e ''FR_CONTROLLER_RUNTIME_MODE'' ''LEGACY''),
      k_gpu_preflight = b ''FR_GPU_PREFLIGHT_ENABLED'' True,
      k_require_established = b ''FR_FFMPEG_MISSING_REQUIRE_CURRENT_POD_ESTABLISHED'' True,
      k_net_fail_confirm = max 1 (i ''FR_NET_FAIL_CONFIRM'' 1), k_stall_confirm = max 1 (i ''FR_STALL_CONFIRM'' 2),
      k_warning_confirm = max 1 (i ''FR_REMOTE_WARNING_CONFIRM'' 1),
      k_warning_local_ok = b ''FR_REMOTE_WARNING_REQUIRE_LOCAL_OK'' True,
      k_warning_distinct = b ''FR_REMOTE_WARNING_CONFIRM_DISTINCT_STATS'' True,
      k_url_preservation = b ''FR_URL_PRESERVATION_MODE'' True, k_status_max_age = max 15 (i ''FR_YTW_STATUS_MAX_AGE_SEC'' 180),
      k_stall_lastsnd_ms = max 1000 (i ''FR_STALL_LASTSND_MS'' 4000), k_stall_notsent = max 4096 (i ''FR_STALL_NOTSENT_BYTES'' 8192),
      k_stall_unacked = max 8 (i ''FR_STALL_UNACKED'' 64), k_min_uptime = max 0 (i ''FR_MIN_FFMPEG_UPTIME_SEC'' 20),
      k_missing_restart = max 5 (i ''FR_FFMPEG_MISSING_RESTART_SEC'' 20),
      k_missing_backoff = max 0 (i ''FR_FFMPEG_MISSING_SUCCESS_BACKOFF_SEC'' 60),
      k_restart_guard = max 1 (i ''FR_RESTART_GUARD_SEC'' 5), k_failure_backoff = max 1 (i ''FR_RESTART_FAILURE_BACKOFF_SEC'' 30),
      k_hourly_budget = max 0 (i ''FR_HOURLY_DOWNTIME_BUDGET_SEC'' 300), k_daily_budget = max 0 (i ''FR_DAILY_DOWNTIME_BUDGET_SEC'' 1800),
      k_restart_cost = max 1 (i ''FR_RESTART_DOWNTIME_COST_SEC'' 30), k_override_after = max 0 (i ''FR_BUDGET_EMERGENCY_OVERRIDE_SEC'' 90),
      k_samples_max = max 120 (i ''FR_SAMPLES_MAX'' 1024), k_send_sample_log = max 0 (i ''FR_TCP_SEND_SAMPLE_LOG_SEC'' 60),
      k_low_enabled = b ''FR_LOW_UPLOAD_PRESSURE_ENABLED'' True,
      k_low_max_mbps = float_max (1 / 10) (float_env get fl ''FR_LOW_UPLOAD_PRESSURE_MAX_MBPS'' ''3.2'' (Fin (16 / 5))),
      k_low_notsent = max 4096 (i ''FR_LOW_UPLOAD_PRESSURE_NOTSENT_BYTES'' 524288),
      k_low_unacked = max 8 (i ''FR_LOW_UPLOAD_PRESSURE_UNACKED'' 256), k_low_lastsnd_ms = max 100 (i ''FR_LOW_UPLOAD_PRESSURE_LASTSND_MS'' 1000),
      k_ping_targets = filter (\<lambda>x. x \<noteq> []) (map strip (split_comma (e ''FR_PUBLIC_PING_TARGETS'' ''1.1.1.1,8.8.8.8''))),
      k_observation_set = (get ''FR_RUNTIME_OBSERVATION_FILE'' \<noteq> None),
      k_supervisor = lower_ascii (e ''STREAM_RUNTIME_SUPERVISOR'' ''systemd''),
      k_enforcement = lower_ascii (e ''MAINTENANCE_ENFORCEMENT_ENABLED'' ''0'')\<rparr>)"

text \<open>The settings in force are in range, whatever the environment holds.\<close>

definition wf_config :: "fr_config \<Rightarrow> bool" where
  "wf_config k \<longleftrightarrow> k_producer_generation k \<ge> 1 \<and> k_net_fail_confirm k \<ge> 1 \<and> k_stall_confirm k \<ge> 1 \<and> k_warning_confirm k \<ge> 1 \<and>
     k_missing_restart k \<ge> 5 \<and> k_missing_backoff k \<ge> 0 \<and> k_restart_guard k \<ge> 1 \<and> k_failure_backoff k \<ge> 1 \<and> k_hourly_budget k \<ge> 0 \<and>
     k_daily_budget k \<ge> 0 \<and> k_restart_cost k \<ge> 1 \<and> k_override_after k \<ge> 0 \<and> k_samples_max k \<ge> 120"

lemma load_config_wf: "wf_config (load_config get fl)"
  by (simp add: wf_config_def load_config_def Let_def)

section \<open>Reading the state\<close>

text \<open>\<open>d.get(k, x)\<close>, \<open>int(d.get(k, 0) or 0)\<close>, \<open>int(d.get(k, 0))\<close>, \<open>str(d.get(k, x))\<close>.\<close>

definition dget_or :: "dict \<Rightarrow> string \<Rightarrow> py \<Rightarrow> py" where
  "dget_or d k x = (case map_of d k of None \<Rightarrow> x | Some v \<Rightarrow> v)"

definition int_at :: "dict \<Rightarrow> string \<Rightarrow> int res" where
  "int_at d k = int_or_0 (dget d k)"

definition int_at_raw :: "dict \<Rightarrow> string \<Rightarrow> int res" where
  "int_at_raw d k = py_int (dget_or d k (PInt 0))"

definition str_at :: "pylib \<Rightarrow> dict \<Rightarrow> string \<Rightarrow> string" where
  "str_at lib d k = py_str (l_repr lib) (dget_or d k (PStr []))"

definition dict_items :: "py \<Rightarrow> dict list" where
  "dict_items v = (case v of PList xs \<Rightarrow> concat (map (\<lambda>x. case x of PDict d \<Rightarrow> [d] | _ \<Rightarrow> []) xs) | _ \<Rightarrow> [])"

text \<open>An f-string is a concatenation; \<open>shown\<close> is \<open>str\<close> of a number or a truth value.\<close>

definition shown :: "int \<Rightarrow> string" where "shown = int_str"
definition shown_bool :: "bool \<Rightarrow> string" where "shown_bool b = (if b then ''True'' else ''False'')"

section \<open>Downtime budget (\<open>budget.py\<close>)\<close>

fun used_downtime :: "dict list \<Rightarrow> int \<Rightarrow> int \<Rightarrow> int \<Rightarrow> int res" where
  "used_downtime [] now window cost = Inr 0"
| "used_downtime (e # es) now window cost =
     bindE (int_or_0 (dget e ''ts'')) (\<lambda>ts.
     bindE (if ts \<le> 0 \<or> now - ts > window then Inr 0
            else py_int (py_or (dget_or e ''downtime_sec'' (PInt cost)) (PInt cost))) (\<lambda>n.
     bindE (used_downtime es now window cost) (\<lambda>rest. Inr (n + rest))))"

definition used_downtime_budget_sec :: "dict list \<Rightarrow> int \<Rightarrow> int \<Rightarrow> int \<Rightarrow> int res" where
  "used_downtime_budget_sec events now window cost = bindE (used_downtime events now window cost) (\<lambda>n. Inr (max 0 n))"

definition emergency_budget_override_active :: "string \<Rightarrow> int \<Rightarrow> int \<Rightarrow> int \<Rightarrow> bool" where
  "emergency_budget_override_active kind first_ts now override_after =
     (if override_after \<le> 0 then False
      else if kind \<notin> {''remote_warning'', ''network_down'', ''tcp_stall'', ''low_upload_pressure''} then False
      else if first_ts \<le> 0 then False
      else now - first_ts \<ge> override_after)"

definition restart_failure_backoff_left :: "int \<Rightarrow> int \<Rightarrow> int \<Rightarrow> int" where
  "restart_failure_backoff_left now last_failure backoff =
     (if last_failure \<le> 0 \<or> backoff \<le> 0 then 0
      else let left = last_failure + backoff - now in if left > 0 then left else 0)"

section \<open>Typed intents (\<open>policy.py\<close>)\<close>

definition RESTART_FFMPEG :: string where "RESTART_FFMPEG = ''RESTART_FFMPEG''"
definition RECONCILE_FFMPEG :: string where "RECONCILE_FFMPEG = ''RECONCILE_FFMPEG''"
definition ESCALATE_RUNTIME_RECOVERY :: string where "ESCALATE_RUNTIME_RECOVERY = ''ESCALATE_RUNTIME_RECOVERY''"
definition NO_ACTION :: string where "NO_ACTION = ''NO_ACTION''"

record intent_decision =
  d_reason_kind :: string
  d_failure_domain :: string
  d_intent_type :: string
  d_target_type :: string
  d_effect_owner :: string
  d_effect_scope :: string
  d_automatic_retry :: bool
  d_verification :: string
  d_decision_reason :: string

definition typed_decision :: "string \<Rightarrow> string \<Rightarrow> string \<Rightarrow> string \<Rightarrow> string \<Rightarrow> string \<Rightarrow> string \<Rightarrow> string \<Rightarrow> intent_decision" where
  "typed_decision kind domain intent target owner scope verification why =
     \<lparr>d_reason_kind = kind, d_failure_domain = domain, d_intent_type = intent, d_target_type = target, d_effect_owner = owner,
      d_effect_scope = scope, d_automatic_retry = False, d_verification = verification, d_decision_reason = why\<rparr>"

definition decision_dict :: "intent_decision \<Rightarrow> dict" where
  "decision_dict d = [(''reason_kind'', PStr (d_reason_kind d)), (''failure_domain'', PStr (d_failure_domain d)),
     (''intent_type'', PStr (d_intent_type d)), (''target_type'', PStr (d_target_type d)), (''effect_owner'', PStr (d_effect_owner d)),
     (''effect_scope'', PStr (d_effect_scope d)), (''automatic_retry'', PBool (d_automatic_retry d)),
     (''verification'', PStr (d_verification d)), (''decision_reason'', PStr (d_decision_reason d))]"

definition no_action :: "string \<Rightarrow> string \<Rightarrow> string \<Rightarrow> string \<Rightarrow> string \<Rightarrow> intent_decision" where
  "no_action kind domain target verification why = typed_decision kind domain NO_ACTION target ''none'' ''none'' verification why"

text \<open>\<open>o1\<close> is the runtime observation, empty when there is none.\<close>

definition missing_intent :: "pylib \<Rightarrow> dict \<Rightarrow> intent_decision" where
  "missing_intent lib o1 =
     (let kind = ''ffmpeg_missing'';
          runtime_valid = (str_or_empty lib (dget o1 ''runtime_snapshot_status'') = ''VALID'' \<and> is_dict (dget o1 ''runtime_identity''));
          lifecycle = py_str (l_repr lib) (py_or (dget o1 ''runtime_lifecycle_state'') (PStr ''UNKNOWN''));
          cardinality = py_str (l_repr lib) (py_or (dget o1 ''managed_child_cardinality'') (PStr ''UNKNOWN'')) in
      if runtime_valid \<and> lifecycle = ''RESTART_DELAY'' \<and> cardinality = ''0''
      then typed_decision kind ''FFMPEG_LOCAL'' RECONCILE_FFMPEG ''RuntimeIdentity'' ''stream-engine-effect-executor'' ''ffmpeg_child_convergence''
        ''exactly one new managed FFmpeg child observed'' ''owner runtime is stable and waiting to restart a missing child''
      else if runtime_valid \<and> cardinality = ''1''
      then no_action kind ''OBSERVATION_SKEW'' ''RuntimeIdentity'' ''refresh observation'' ''runtime already owns one managed FFmpeg child''
      else if runtime_valid \<and> lifecycle \<in> {''INITIALIZING'', ''STARTING_FFMPEG'', ''CONNECTIVITY_WAIT'', ''STOPPING''}
      then no_action kind ''STARTUP_OR_CONNECTIVITY_TRANSIENT'' ''RuntimeIdentity'' ''wait for lifecycle transition and fresh observation''
        (''runtime lifecycle '' @ lifecycle @ '' is not a reconcile boundary'')
      else if runtime_valid \<and> cardinality \<notin> {''2+'', ''UNKNOWN''}
      then typed_decision kind ''RUNTIME_LOCAL'' ESCALATE_RUNTIME_RECOVERY ''RuntimeIdentity'' ''legacy-runtime-recovery-adapter'' ''runtime''
        ''new runtime and FFmpeg identity with transport progress'' ''missing child cannot be safely reconciled by the narrow executor''
      else no_action kind ''UNKNOWN'' ''RuntimeIdentity'' ''obtain fresh runtime identity and exact child cardinality''
        ''runtime identity or child cardinality is unavailable/unsafe'')"

definition select_recovery_intent :: "pylib \<Rightarrow> string \<Rightarrow> dict \<Rightarrow> intent_decision" where
  "select_recovery_intent lib kind o1 =
     (if kind \<in> {''tcp_stall'', ''remote_warning''}
      then typed_decision kind ''DELIVERY_PATH'' RESTART_FFMPEG ''FfmpegTargetIdentity'' ''stream-engine-effect-executor'' ''ffmpeg_child''
        ''new exact FFmpeg generation and positive transport progress'' ''legacy k8s policy terminates the current FFmpeg child''
      else if kind = ''ffmpeg_missing'' then missing_intent lib o1
      else if kind = ''network_down''
      then no_action kind ''UNKNOWN_NETWORK'' ''none'' ''connectivity recovery observation''
        ''production branch persists connectivity wait and returns without mutation''
      else if kind \<in> {''low_upload_pressure'', ''healthy'', ''startup_transient'', ''target_unavailable'', []}
      then no_action kind ''NONE_OR_INSUFFICIENT_EVIDENCE'' ''none'' ''continued observation'' ''legacy policy does not select a physical recovery effect''
      else no_action kind ''UNKNOWN'' ''none'' ''policy inventory update required'' ''UNMODELED_POLICY_PATH'')"

section \<open>The stored state (\<open>state.py\<close>)\<close>

definition trim_samples :: "py \<Rightarrow> int \<Rightarrow> dict list" where
  "trim_samples raw maxlen = (let ds = dict_items raw in drop (length ds - nat maxlen) ds)"

text \<open>One item of the list of restarts: left out, or its time, cost and reason. A number that does not fit an integer raises.\<close>

definition handled_int :: "py \<Rightarrow> int option res" where
  "handled_int v = (case py_int v of
       Inr n \<Rightarrow> Inr (Some n) | Inl e \<Rightarrow> if e = TypeError \<or> is_value_error e then Inr None else Inl e)"

definition restart_entry :: "py \<Rightarrow> int \<Rightarrow> string \<Rightarrow> dict" where
  "restart_entry ts downtime reason = [(''ts'', ts), (''downtime_sec'', PInt (max 1 downtime)), (''reason'', PStr reason)]"

definition kept_entry :: "int \<Rightarrow> py \<Rightarrow> int \<Rightarrow> int \<Rightarrow> string \<Rightarrow> dict list" where
  "kept_entry now raw ts downtime reason = (if ts \<le> 0 \<or> now - ts > 86400 then [] else [restart_entry raw downtime reason])"

definition trim_entry :: "pylib \<Rightarrow> int \<Rightarrow> int \<Rightarrow> py \<Rightarrow> dict list res" where
  "trim_entry lib now cost item = (case item of
       PInt n \<Rightarrow> Inr (kept_entry now item n cost ''legacy'')
     | PBool b \<Rightarrow> Inr (kept_entry now item (if b then 1 else 0) cost ''legacy'')
     | PDict d \<Rightarrow>
         bindE (handled_int (py_or (dget d ''ts'') (PInt 0))) (\<lambda>r. case r of
             None \<Rightarrow> Inr []
           | Some ts \<Rightarrow> bindE (handled_int (py_or (dget_or d ''downtime_sec'' (PInt cost)) (PInt cost))) (\<lambda>dt.
               Inr (kept_entry now (PInt ts) ts (case dt of None \<Rightarrow> cost | Some n \<Rightarrow> n) (str_at lib d ''reason''))))
     | _ \<Rightarrow> Inr [])"

definition entry_ts :: "dict \<Rightarrow> int" where
  "entry_ts e = (case py_int (dget e ''ts'') of Inr n \<Rightarrow> n | Inl _ \<Rightarrow> 0)"

definition trim_restart_events :: "pylib \<Rightarrow> py \<Rightarrow> int \<Rightarrow> int \<Rightarrow> dict list res" where
  "trim_restart_events lib raw now cost =
     bindE (mapE (trim_entry lib now cost) (case raw of PList xs \<Rightarrow> xs | _ \<Rightarrow> [])) (\<lambda>es. Inr (sort_key entry_ts (concat es)))"

definition events_py :: "dict list \<Rightarrow> py" where "events_py es = PList (map PDict es)"

text \<open>\<open>content\<close> is what reading and decoding the file gives; every ordinary exception means the default state.\<close>

definition load_state_file :: "pylib \<Rightarrow> py res \<Rightarrow> int \<Rightarrow> dict \<Rightarrow> int \<Rightarrow> int \<Rightarrow> dict res" where
  "load_state_file lib content now dflt samples_max cost = (case content of
       Inl e \<Rightarrow> if is_exception e then Inr dflt else Inl e
     | Inr (PDict payload) \<Rightarrow>
         (let s = aupdate dflt payload in
          bindE (trim_restart_events lib (dget_or s ''restart_events'' (PList [])) now cost) (\<lambda>es.
          let s1 = aset ''restart_events'' (events_py es) s in
          Inr (aset ''samples'' (events_py (trim_samples (dget_or s1 ''samples'' (PList [])) samples_max)) s1)))
     | Inr _ \<Rightarrow> Inr dflt)"

section \<open>Transport readings (\<open>tcp_metrics.py\<close>, \<open>decision.py\<close>)\<close>

definition send_mbps :: "int \<Rightarrow> int \<Rightarrow> rat option" where
  "send_mbps bytes_delta elapsed =
     (if elapsed \<le> 0 then None else Some (py_round 3 (of_int (max 0 bytes_delta * 8) / of_int (elapsed * 1000000))))"

record tcp_reading =
  tr_metrics :: dict
  tr_bytes_sent :: int
  tr_prev_bytes_sent :: int
  tr_prev_bytes_ts :: int
  tr_bytes_delta :: int
  tr_elapsed :: int
  tr_mbps :: "rat option"
  tr_notsent :: int
  tr_unacked :: int
  tr_lastsnd_ms :: int
  tr_stall :: bool
  tr_low_upload :: bool

record network_reading =
  nr_gateway :: string
  nr_gateway_ok :: bool
  nr_public_ok :: int
  nr_dns_ok :: bool
  nr_tcp_ok :: bool
  nr_down :: bool

definition low_upload_pressure_now ::
    "fr_config \<Rightarrow> dict \<Rightarrow> int \<Rightarrow> rat option \<Rightarrow> int \<Rightarrow> int \<Rightarrow> int \<Rightarrow> bool \<Rightarrow> bool \<Rightarrow> bool \<Rightarrow> bool" where
  "low_upload_pressure_now k metrics elapsed mbps notsent unacked lastsnd down tcp_probe stall \<longleftrightarrow>
     (let queue = (notsent \<ge> k_low_notsent k \<or> unacked \<ge> k_low_unacked k \<or> lastsnd \<ge> k_low_lastsnd_ms k) in
      k_low_enabled k \<and> metrics \<noteq> [] \<and> elapsed > 0 \<and>
      (case mbps of None \<Rightarrow> False | Some q \<Rightarrow> num_le (Fin q) (k_low_max_mbps k)) \<and> queue \<and> \<not> down \<and> tcp_probe \<and> \<not> stall)"

definition reset_pid_dependent_state :: "int \<Rightarrow> dict \<Rightarrow> dict res" where
  "reset_pid_dependent_state pid d = bindE (int_at_raw d ''last_pid'') (\<lambda>p. if p = pid then Inr d else
     Inr (aset ''last_bytes_sent_ts'' (PInt 0) (aset ''last_bytes_sent'' (PInt 0)
       (aset ''low_upload_pressure_streak'' (PInt 0) (aset ''stall_streak'' (PInt 0) d)))))"

definition tcp_observation :: "fr_config \<Rightarrow> dict \<Rightarrow> int \<Rightarrow> dict \<Rightarrow> bool \<Rightarrow> bool \<Rightarrow> tcp_reading res" where
  "tcp_observation k d now metrics down tcp_probe =
     bindE (int_at_raw metrics ''bytes_sent'') (\<lambda>bytes_sent.
     bindE (int_at_raw metrics ''notsent'') (\<lambda>notsent.
     bindE (int_at_raw metrics ''unacked'') (\<lambda>unacked.
     bindE (int_at_raw metrics ''lastsnd_ms'') (\<lambda>lastsnd.
     bindE (int_at d ''last_bytes_sent'') (\<lambda>prev.
     bindE (int_at d ''last_bytes_sent_ts'') (\<lambda>prev_ts.
     let delta = max 0 (bytes_sent - prev);
         elapsed = (if prev_ts > 0 then max 0 (now - prev_ts) else 0);
         mbps = send_mbps delta elapsed;
         stall = (metrics \<noteq> [] \<and> delta = 0 \<and> lastsnd \<ge> k_stall_lastsnd_ms k \<and>
           (notsent \<ge> k_stall_notsent k \<or> unacked \<ge> k_stall_unacked k)) in
     Inr \<lparr>tr_metrics = metrics, tr_bytes_sent = bytes_sent, tr_prev_bytes_sent = prev, tr_prev_bytes_ts = prev_ts,
       tr_bytes_delta = delta, tr_elapsed = elapsed, tr_mbps = mbps, tr_notsent = notsent, tr_unacked = unacked,
       tr_lastsnd_ms = lastsnd, tr_stall = stall,
       tr_low_upload = low_upload_pressure_now k metrics elapsed mbps notsent unacked lastsnd down tcp_probe stall\<rparr>))))))"

definition network_observation :: "string \<Rightarrow> bool \<Rightarrow> int \<Rightarrow> bool \<Rightarrow> bool \<Rightarrow> network_reading" where
  "network_observation gateway gateway_ok public_ok dns_ok tcp_ok =
     \<lparr>nr_gateway = gateway, nr_gateway_ok = gateway_ok, nr_public_ok = public_ok, nr_dns_ok = dns_ok, nr_tcp_ok = tcp_ok,
      nr_down = ((\<not> dns_ok \<and> \<not> tcp_ok) \<or> (\<not> gateway_ok \<and> public_ok = 0 \<and> \<not> tcp_ok))\<rparr>"

definition update_streak :: "string \<Rightarrow> bool \<Rightarrow> dict \<Rightarrow> (int \<times> dict) res" where
  "update_streak key active d =
     bindE (if active then bindE (int_at d key) (\<lambda>n. Inr (n + 1)) else Inr 0) (\<lambda>streak. Inr (streak, aset key (PInt streak) d))"

definition opt_float :: "rat option \<Rightarrow> py" where
  "opt_float q = (case q of None \<Rightarrow> PNone | Some x \<Rightarrow> PFloat (Fin x))"

definition sample_row :: "int \<Rightarrow> int \<Rightarrow> tcp_reading \<Rightarrow> bool \<Rightarrow> bool \<Rightarrow> dict res" where
  "sample_row now pid tcp down warning =
     bindE (int_at (tr_metrics tcp) ''bytes_acked'') (\<lambda>acked.
     bindE (int_at (tr_metrics tcp) ''send_q'') (\<lambda>send_q.
     bindE (int_at (tr_metrics tcp) ''rto_ms'') (\<lambda>rto.
     Inr [(''ts'', PInt now), (''pid'', PInt pid), (''bytes_sent_delta'', PInt (tr_bytes_delta tcp)), (''bytes_sent'', PInt (tr_bytes_sent tcp)),
       (''bytes_acked'', PInt acked), (''send_q'', PInt send_q), (''notsent'', PInt (tr_notsent tcp)), (''unacked'', PInt (tr_unacked tcp)),
       (''lastsnd_ms'', PInt (tr_lastsnd_ms tcp)), (''rto_ms'', PInt rto), (''network_down'', PBool down), (''remote_warning'', PBool warning),
       (''low_upload_pressure'', PBool (tr_low_upload tcp)), (''send_mbps'', opt_float (tr_mbps tcp))])))"

definition restart_metrics :: "tcp_reading \<Rightarrow> bool \<Rightarrow> bool \<Rightarrow> dict res" where
  "restart_metrics tcp down warning =
     bindE (int_at (tr_metrics tcp) ''bytes_acked'') (\<lambda>acked.
     bindE (int_at (tr_metrics tcp) ''send_q'') (\<lambda>send_q.
     bindE (int_at (tr_metrics tcp) ''rto_ms'') (\<lambda>rto.
     Inr [(''bytes_sent_delta'', PInt (tr_bytes_delta tcp)), (''bytes_sent'', PInt (tr_bytes_sent tcp)), (''bytes_acked'', PInt acked),
       (''bytes_elapsed_sec'', PInt (tr_elapsed tcp)), (''send_mbps'', opt_float (tr_mbps tcp)), (''send_q'', PInt send_q),
       (''lastsnd_ms'', PInt (tr_lastsnd_ms tcp)), (''notsent'', PInt (tr_notsent tcp)), (''unacked'', PInt (tr_unacked tcp)),
       (''rto_ms'', PInt rto), (''network_down'', PBool down), (''remote_warning'', PBool warning), (''low_upload_pressure'', PBool (tr_low_upload tcp))])))"

definition select_restart_reason :: "fr_config \<Rightarrow> dict \<Rightarrow> int \<Rightarrow> string \<Rightarrow> network_reading \<Rightarrow> tcp_reading \<Rightarrow> (string \<times> string) res" where
  "select_restart_reason k d warning_streak warning_reason net tcp =
     (if k_url_preservation k \<and> warning_streak \<ge> k_warning_confirm k
      then Inr (''remote_warning'', ''youtube pre-loss warning while broadcast live: '' @ warning_reason)
      else bindE (int_at_raw d ''net_fail_streak'') (\<lambda>net_fail.
      if net_fail \<ge> k_net_fail_confirm k
      then Inr (''network_down'', ''network down: gw_ok='' @ shown_bool (nr_gateway_ok net) @ '' public_ok_count='' @ shown (nr_public_ok net) @
        '' dns_ok='' @ shown_bool (nr_dns_ok net) @ '' tcp_probe_ok='' @ shown_bool (nr_tcp_ok net))
      else bindE (int_at_raw d ''stall_streak'') (\<lambda>stall.
      if stall \<ge> k_stall_confirm k
      then Inr (''tcp_stall'', ''tcp stall: bytes_delta='' @ shown (tr_bytes_delta tcp) @ '' lastsnd_ms='' @ shown (tr_lastsnd_ms tcp) @
        '' notsent='' @ shown (tr_notsent tcp) @ '' unacked='' @ shown (tr_unacked tcp))
      else Inr ([], []))))"

text \<open>The time the reason first held.\<close>

definition update_active_reason :: "pylib \<Rightarrow> int \<Rightarrow> string \<Rightarrow> string \<Rightarrow> dict \<Rightarrow> (int \<times> dict) res" where
  "update_active_reason lib now kind reason d =
     (if reason \<noteq> [] then
        (let d1 = (if str_at lib d ''active_reason_kind'' \<noteq> kind
                   then aset ''active_reason_first_ts'' (PInt now) (aset ''active_reason_kind'' (PStr kind) d) else d) in
         bindE (py_int (py_or (dget_or d1 ''active_reason_first_ts'' (PInt now)) (PInt now))) (\<lambda>first. Inr (first, d1)))
      else Inr (0, adel ''active_reason_first_ts'' (adel ''active_reason_kind'' d)))"

definition mark_latest_transport_sample :: "int \<Rightarrow> int \<Rightarrow> int \<Rightarrow> string option \<Rightarrow> dict \<Rightarrow> dict" where
  "mark_latest_transport_sample pid bytes_sent now last_reason d =
     (let d1 = aset ''last_bytes_sent_ts'' (PInt now) (aset ''last_bytes_sent'' (PInt bytes_sent) (aset ''last_pid'' (PInt pid) d)) in
      case last_reason of None \<Rightarrow> d1 | Some r \<Rightarrow> aset ''last_reason'' (PStr r) d1)"

definition HINT_FIELDS :: "string list" where
  "HINT_FIELDS = [''api_live_state'', ''oauth_life_cycle_status'', ''oauth_stream_status'', ''oauth_stream_health_status'', ''remote_source'', ''remote_status'']"

definition youtube_hint :: "dict \<Rightarrow> dict" where
  "youtube_hint payload = map (\<lambda>f. (f, dget_or payload f (PStr []))) HINT_FIELDS"

definition clear_recovery_streaks :: "dict \<Rightarrow> dict" where
  "clear_recovery_streaks d = aupdate d
     [(''net_fail_streak'', PInt 0), (''stall_streak'', PInt 0), (''low_upload_pressure_streak'', PInt 0), (''remote_warning_streak'', PInt 0),
      (''remote_warning_last_stats_ts'', PInt 0), (''remote_warning_last_sample_key'', PStr []), (''remote_warning_last_probe_ts'', PInt 0),
      (''remote_warning_context_key'', PStr []), (''remote_warning_recovery_episode_id'', PStr []), (''remote_warning_ffmpeg_generation'', PStr [])]"

section \<open>Waiting for the network (\<open>connectivity_policy.py\<close>)\<close>

definition network_fields :: "network_reading \<Rightarrow> dict" where
  "network_fields net = [(''connectivity_gateway_present'', PBool (nr_gateway net \<noteq> [])), (''connectivity_gateway_ok'', PBool (nr_gateway_ok net)),
     (''connectivity_public_ok_count'', PInt (nr_public_ok net)), (''connectivity_dns_ok'', PBool (nr_dns_ok net)),
     (''connectivity_tcp_probe_ok'', PBool (nr_tcp_ok net))]"

definition mark_wait :: "int \<Rightarrow> network_reading \<Rightarrow> int \<Rightarrow> dict \<Rightarrow> event list \<times> dict" where
  "mark_wait now net pid d =
     (let was_active = (dget d ''connectivity_wait_active'' = PBool True);
          events = (if was_active then [] else [(''connectivity_wait'', ''network unavailable; runtime restart intentionally suppressed'',
            [(''trigger'', PStr ''network_down''), (''ffmpeg_pid'', PInt pid), (''gateway_present'', PBool (nr_gateway net \<noteq> [])),
             (''gateway_ok'', PBool (nr_gateway_ok net)), (''public_ok_count'', PInt (nr_public_ok net)), (''dns_ok'', PBool (nr_dns_ok net)),
             (''tcp_probe_ok'', PBool (nr_tcp_ok net)), (''recovery_scope'', PStr ''connectivity_restore'')])]);
          d1 = (if was_active then d else aset ''connectivity_wait_since_ts'' (PInt now) d) in
      (events, aupdate d1 ((''connectivity_wait_active'', PBool True) # (''connectivity_last_observed_ts'', PInt now) # network_fields net
         @ [(''last_reason'', PStr ''network unavailable; runtime restart suppressed until connectivity recovers'')])))"

definition clear_wait :: "int \<Rightarrow> network_reading \<Rightarrow> dict \<Rightarrow> (event list \<times> dict) res" where
  "clear_wait now net d =
     bindE (if dget d ''connectivity_wait_active'' = PBool True
            then bindE (py_int (py_or (dget_or d ''connectivity_wait_since_ts'' (PInt now)) (PInt now))) (\<lambda>since.
              Inr ([(''connectivity_recovered'', ''network probes recovered; normal fast recovery actions re-enabled'',
                  [(''trigger'', PStr ''network_down''), (''active_sec'', PInt (max 0 (now - since))), (''recovery_scope'', PStr ''connectivity_restore'')])],
                aset ''connectivity_recovered_ts'' (PInt now) d))
            else Inr ([], d)) (\<lambda>(events, d1).
     Inr (events, aupdate (aset ''connectivity_last_observed_ts'' (PInt now) (aset ''connectivity_wait_active'' (PBool False) d1)) (network_fields net)))"

end
