(* ===== verification/Fr_Warning.thy ===== *)
theory Fr_Warning
  imports Fr_Core
begin

text \<open>
  \<open>watchers/fast_recovery_core/remote_warning.py\<close>: what the YouTube watchdog's status file says about the
  broadcast, and the streak of distinct warnings. The contents of the status and quota files are arguments
  (a decoded value, or the exception of reading them). A reading taken before the last restart never warns,
  and a streak counts each remote sample once.
\<close>

section \<open>Time stamps\<close>

text \<open>\<open>parse_iso_ts\<close> of \<open>fast_recovery.py\<close>: whole seconds, 0 for what is no time stamp.\<close>

definition epoch_of :: "instant \<Rightarrow> int" where
  "epoch_of t = trunc (total_seconds t)"

definition parse_iso_ts :: "pylib \<Rightarrow> string \<Rightarrow> int res" where
  "parse_iso_ts lib v = (let s = replace_char CHR ''Z'' ''+00:00'' (strip v) in
     if strip v = [] then Inr 0
     else (case l_fromiso lib s of
         None \<Rightarrow> Inr 0
       | Some (False, t) \<Rightarrow> Inr (epoch_of t)
       | Some (True, _) \<Rightarrow> (case l_utc lib s of
             Inr t \<Rightarrow> Inr (epoch_of t)
           | Inl e \<Rightarrow> if e = TypeError \<or> is_value_error e then Inr 0 else Inl e)))"

definition stamp_at :: "pylib \<Rightarrow> dict \<Rightarrow> string \<Rightarrow> int res" where
  "stamp_at lib d key = parse_iso_ts lib (strip (str_at lib d key))"

definition stripped_at :: "pylib \<Rightarrow> dict \<Rightarrow> string \<Rightarrow> string" where
  "stripped_at lib d key = text_of lib (dget d key)"

definition remote_probe_epoch :: "pylib \<Rightarrow> dict \<Rightarrow> int res" where
  "remote_probe_epoch lib payload =
     bindE (stamp_at lib payload ''remote_probe_ts_utc'') (\<lambda>probe.
     if probe > 0 then Inr probe
     else bindE (stamp_at lib payload ''oauth_checked_ts_utc'') (\<lambda>oauth.
       bindE (stamp_at lib payload ''data_api_checked_ts_utc'') (\<lambda>api.
       if oauth > 0 \<or> api > 0 then Inr (max oauth api) else stamp_at lib payload ''ts_utc'')))"

definition remote_warning_sample_key :: "pylib \<Rightarrow> dict \<Rightarrow> string res" where
  "remote_warning_sample_key lib payload =
     (let sample_id = stripped_at lib payload ''remote_sample_id'' in
      if sample_id \<noteq> [] then Inr (''id:'' @ sample_id)
      else bindE (remote_probe_epoch lib payload) (\<lambda>probe.
      if probe > 0 then
        (let source = strip (str_or_empty lib (py_or (dget payload ''remote_sample_source'') (py_or (dget payload ''remote_probe_source'') (dget payload ''remote_source'')))) in
         Inr (''probe:'' @ shown probe @ '':'' @ source @ '':'' @ stripped_at lib payload ''recovery_episode_id'' @ '':'' @ stripped_at lib payload ''ffmpeg_generation''))
      else bindE (stamp_at lib payload ''ts_utc'') (\<lambda>stats. Inr (if stats > 0 then ''stats:'' @ shown stats else []))))"

definition remote_warning_context :: "pylib \<Rightarrow> dict \<Rightarrow> string \<times> string \<times> string" where
  "remote_warning_context lib payload =
     (let episode = stripped_at lib payload ''recovery_episode_id''; generation = stripped_at lib payload ''ffmpeg_generation'' in
      (''episode='' @ episode @ ''|ffmpeg_generation='' @ generation, episode, generation))"

section \<open>Sources and quota\<close>

definition API_REMOTE_SOURCES :: "string list" where
  "API_REMOTE_SOURCES = [''data_api'', ''data_api_oauth'', ''data_api_search'', ''data_api_videos'', ''oauth'', ''oauth_api'', ''oauth_livebroadcasts'',
     ''oauth_livestreams'', ''oauth_probe'', ''search.list'', ''videos.list'', ''livebroadcasts.list'', ''livestreams.list'', ''youtube_api'']"

definition SOURCE_ALIASES :: "(string \<times> string) list" where
  "SOURCE_ALIASES = [(''oauth_livebroadcasts'', ''oauth_api''), (''oauth_livestreams'', ''oauth_api''), (''oauth_probe'', ''oauth_api''),
     (''data_api_search'', ''data_api''), (''data_api_videos'', ''data_api''), (''search.list'', ''data_api''), (''videos.list'', ''data_api''),
     (''livebroadcasts.list'', ''oauth_api''), (''livestreams.list'', ''oauth_api'')]"

definition normalize_remote_source :: "string \<Rightarrow> string" where
  "normalize_remote_source raw = (let source = lower_ascii (strip raw) in
     if source = [] then [] else case map_of SOURCE_ALIASES source of None \<Rightarrow> source | Some a \<Rightarrow> a)"

definition is_api_remote_source :: "string \<Rightarrow> bool" where
  "is_api_remote_source source \<longleftrightarrow> normalize_remote_source source \<in> {''data_api'', ''oauth_api'', ''data_api_oauth'', ''youtube_api''}
     \<or> source \<in> set API_REMOTE_SOURCES"

definition quota_guard_active_from_state :: "pylib \<Rightarrow> py res \<Rightarrow> int \<Rightarrow> (bool \<times> string) res" where
  "quota_guard_active_from_state lib content now = (case content of
       Inl e \<Rightarrow> if is_exception e then Inr (False, ''quota state unavailable'') else Inl e
     | Inr (PDict payload) \<Rightarrow>
         if \<not> py_truthy (dget_or payload ''quota_exhausted'' (PBool False)) then Inr (False, ''quota state inactive'')
         else bindE (int_at payload ''quota_exhausted_until_ts'') (\<lambda>until.
           if until > 0 \<and> now \<ge> until then Inr (False, ''quota state expired'')
           else (let s = strip (str_at lib payload ''quota_exhausted_source'') in
             Inr (True, ''quota state active (source='' @ (if s = [] then ''unknown'' else s) @ '')'')))
     | Inr _ \<Rightarrow> Inr (False, ''quota state invalid''))"

section \<open>The warning\<close>

definition LIVE_LIKE_LIFECYCLE :: "string list" where
  "LIVE_LIKE_LIFECYCLE = [''live'', ''liveStarting'', ''testing'', ''testStarting'']"

text \<open>The pid the watchdog reports, 0 when it is no number.\<close>

definition reported_pid :: "dict \<Rightarrow> int res" where
  "reported_pid payload = bindE (handled_int (py_or (dget payload ''ffmpeg_pid'') (PInt 0))) (\<lambda>r. Inr (case r of None \<Rightarrow> 0 | Some n \<Rightarrow> n))"

definition ingest_ok :: "dict \<Rightarrow> int \<Rightarrow> bool" where
  "ingest_ok payload pid \<longleftrightarrow> dget payload ''local_ok'' = PBool True \<and> dget payload ''stream_active'' = PBool True \<and>
     dget payload ''ingest_connected'' = PBool True \<and> pid > 1"

definition quota_suppressed :: "string \<Rightarrow> string \<Rightarrow> string" where
  "quota_suppressed source why = ''youtube watchdog quota guard active (suppressed source='' @ source @ ''; '' @ why @ '')''"

text \<open>The part after the time and ingest checks: what the status says about the broadcast.\<close>

definition warning_of_status :: "pylib \<Rightarrow> dict \<Rightarrow> bool \<Rightarrow> string \<Rightarrow> bool \<times> string \<times> dict" where
  "warning_of_status lib payload quota why =
     (let source0 = lower_ascii (strip (str_at lib payload ''remote_source'')); status = lower_ascii (strip (str_at lib payload ''remote_status''));
          reason = strip (str_at lib payload ''remote_reason'') in
      if status = ''warning'' then
        (let source = (if source0 = [] then ''unknown'' else source0) in
         if quota \<and> is_api_remote_source source then (False, quota_suppressed source why, payload)
         else (True, (if reason = [] then ''remote warning source='' @ source else reason), payload))
      else
        (let lifecycle = strip (str_at lib payload ''oauth_life_cycle_status''); stream = lower_ascii (strip (str_at lib payload ''oauth_stream_status''));
             health = lower_ascii (strip (str_at lib payload ''oauth_stream_health_status'')); api = strip (str_at lib payload ''api_live_state'');
             reasons = (if stream = ''inactive'' then [''streamStatus=inactive''] else []) @ (if health = ''nodata'' then [''healthStatus=noData''] else []) in
         if \<not> (api = ''live'' \<or> lifecycle \<in> set LIVE_LIKE_LIFECYCLE)
         then (False, ''broadcast not live-like (api='' @ (if api = [] then ''-'' else api) @ '' lifecycle='' @ (if lifecycle = [] then ''-'' else lifecycle) @ '')'', payload)
         else if reasons \<noteq> [] then
           (let source = (if source0 = [] then ''data_api_oauth'' else source0) in
            if quota \<and> is_api_remote_source source then (False, quota_suppressed source why, payload)
            else (True, hd reasons @ concat (map (\<lambda>r. '', '' @ r) (tl reasons)), aset ''remote_source'' (PStr source) payload))
         else (False, ''youtube stream status looks normal'', payload)))"

definition read_youtube_live_warning :: "pylib \<Rightarrow> fr_config \<Rightarrow> py res \<Rightarrow> py res \<Rightarrow> int \<Rightarrow> int \<Rightarrow> (bool \<times> string \<times> dict) res" where
  "read_youtube_live_warning lib k stats quota now last_restart =
     (if \<not> k_url_preservation k then Inr (False, ''url preservation mode disabled'', [])
      else (case stats of
          Inl e \<Rightarrow> if is_exception e then Inr (False, ''youtube stats unavailable'', []) else Inl e
        | Inr (PDict payload) \<Rightarrow>
            bindE (parse_iso_ts lib (str_at lib payload ''ts_utc'')) (\<lambda>stats_ts.
            bindE (remote_probe_epoch lib payload) (\<lambda>probe.
            if stats_ts \<le> 0 then Inr (False, ''youtube stats timestamp missing'', payload)
            else if probe \<le> 0 then Inr (False, ''youtube remote probe timestamp missing'', payload)
            else if last_restart > 0 \<and> probe \<le> last_restart
            then Inr (False, ''youtube remote probe older than last restart ('' @ shown probe @ ''<='' @ shown last_restart @ '')'', payload)
            else if now - probe > k_status_max_age k then Inr (False, ''youtube remote probe stale ('' @ shown (now - probe) @ ''s)'', payload)
            else bindE (if k_warning_local_ok k then bindE (reported_pid payload) (\<lambda>pid. Inr (ingest_ok payload pid, pid)) else Inr (True, 0)) (\<lambda>(ok, pid).
            if \<not> ok then
              (let sh = (\<lambda>f. py_str (l_repr lib) (dget payload f)) in
               Inr (False, ''youtube remote warning ignored until local ingest re-established (local_ok='' @ sh ''local_ok'' @ '' stream_active='' @ sh ''stream_active''
                 @ '' ingest_connected='' @ sh ''ingest_connected'' @ '' ffmpeg_pid='' @ shown pid @ '')'', payload))
            else bindE (quota_guard_active_from_state lib quota now) (\<lambda>(state_guard, why).
            Inr (warning_of_status lib payload (py_truthy (dget_or payload ''quota_guard_active'' (PBool False)) \<or> state_guard) why)))))
        | Inr _ \<Rightarrow> Inr (False, ''youtube stats format invalid'', [])))"

section \<open>The streak of warnings\<close>

definition cleared_warning :: "dict \<Rightarrow> dict" where
  "cleared_warning d = aupdate d [(''remote_warning_streak'', PInt 0), (''remote_warning_last_stats_ts'', PInt 0), (''remote_warning_last_sample_key'', PStr []),
     (''remote_warning_last_probe_ts'', PInt 0), (''remote_warning_context_key'', PStr []), (''remote_warning_recovery_episode_id'', PStr []),
     (''remote_warning_ffmpeg_generation'', PStr [])]"

text \<open>A sample that was not counted yet, recorded with its identity.\<close>

definition count_warning :: "pylib \<Rightarrow> dict \<Rightarrow> string \<Rightarrow> int \<Rightarrow> dict \<Rightarrow> (int \<times> dict) res" where
  "count_warning lib payload key stats d =
     (case remote_warning_context lib payload of (context_key, episode, generation) \<Rightarrow>
      bindE (int_at d ''remote_warning_streak'') (\<lambda>n.
      bindE (remote_probe_epoch lib payload) (\<lambda>probe.
      let d1 = aset ''remote_warning_streak'' (PInt (n + 1)) d;
          d2 = (if stats > 0 then aset ''remote_warning_last_stats_ts'' (PInt stats) d1 else d1);
          d3 = (if key \<noteq> [] then aset ''remote_warning_last_sample_key'' (PStr key) d2 else d2);
          d4 = aset ''remote_warning_ffmpeg_generation'' (PStr generation) (aset ''remote_warning_recovery_episode_id'' (PStr episode)
            (aset ''remote_warning_context_key'' (PStr context_key) d3)) in
      Inr (n + 1, if probe > 0 then aset ''remote_warning_last_probe_ts'' (PInt probe) d4 else d4))))"

definition new_context :: "pylib \<Rightarrow> dict \<Rightarrow> dict \<Rightarrow> dict" where
  "new_context lib payload d =
     (let last = str_or_empty lib (dget d ''remote_warning_context_key'') in
      if last \<noteq> [] \<and> fst (remote_warning_context lib payload) \<noteq> last
      then aset ''remote_warning_last_probe_ts'' (PInt 0) (aset ''remote_warning_last_stats_ts'' (PInt 0)
        (aset ''remote_warning_last_sample_key'' (PStr []) (aset ''remote_warning_streak'' (PInt 0) d)))
      else d)"

definition update_remote_warning_streak :: "pylib \<Rightarrow> fr_config \<Rightarrow> bool \<Rightarrow> dict \<Rightarrow> dict \<Rightarrow> (int \<times> dict) res" where
  "update_remote_warning_streak lib k warning payload d =
     (if \<not> warning then Inr (0, cleared_warning d)
      else if \<not> k_warning_distinct k
      then bindE (int_at d ''remote_warning_streak'') (\<lambda>n. Inr (n + 1, aset ''remote_warning_streak'' (PInt (n + 1)) d))
      else bindE (reported_pid payload) (\<lambda>pid.
      if \<not> ingest_ok payload pid then Inr (0, aset ''remote_warning_streak'' (PInt 0) d)
      else (let d1 = new_context lib payload d in
      bindE (parse_iso_ts lib (str_at lib payload ''ts_utc'')) (\<lambda>stats.
      bindE (remote_warning_sample_key lib payload) (\<lambda>key.
      if key \<noteq> [] \<and> key = str_or_empty lib (dget d1 ''remote_warning_last_sample_key'')
      then bindE (int_at d1 ''remote_warning_streak'') (\<lambda>n. Inr (n, d1))
      else bindE (int_at d1 ''remote_warning_last_stats_ts'') (\<lambda>last_stats.
      if key = [] \<and> stats > 0 \<and> stats = last_stats
      then bindE (int_at d1 ''remote_warning_streak'') (\<lambda>n. Inr (n, d1))
      else count_warning lib payload key stats d1))))))"

section \<open>A sample counts once\<close>

lemma aset_twice: "aset key v (aset key v xs) = aset key v xs"
  by (induction key v xs rule: aset.induct) auto

lemma counted_sample:
  assumes "count_warning lib payload key stats d = Inr (n, d')" and "key \<noteq> []"
  shows "map_of d' ''remote_warning_streak'' = Some (PInt n)" and "map_of d' ''remote_warning_last_sample_key'' = Some (PStr key)"
    and "map_of d' ''remote_warning_context_key'' = Some (PStr (fst (remote_warning_context lib payload)))"
  using assms by (auto simp: count_warning_def Let_def split: prod.splits)


definition ex_warning :: dict where
  "ex_warning = [(''local_ok'', PBool True), (''stream_active'', PBool True), (''ingest_connected'', PBool True), (''ffmpeg_pid'', PInt 77),
     (''remote_sample_id'', PStr ''s1'')]"

definition ex_counted :: dict where
  "ex_counted = [(''remote_warning_streak'', PInt 1), (''remote_warning_last_sample_key'', PStr ''id:s1''),
     (''remote_warning_context_key'', PStr ''episode=|ffmpeg_generation=''), (''remote_warning_recovery_episode_id'', PStr []),
     (''remote_warning_ffmpeg_generation'', PStr [])]"

definition ex_defaults :: fr_config where
  "ex_defaults = load_config (\<lambda>_. None) (\<lambda>_. None)"


end
