(* ===== verification/Fr_Effect.thy ===== *)
theory Fr_Effect
  imports Fr_Core
begin

text \<open>
  \<open>watchers/fast_recovery_core/effect_contract.py\<close>: what the controller reads of the runtime and says to the
  effect executor. The executor's side of the same messages is \<open>Rb_Protocol\<close>: the theorem of this theory says
  that every request the controller builds from a readable observation is one the executor's protocol accepts,
  with the same intent and identity.
\<close>

section \<open>The runtime observation\<close>

text \<open>\<open>content\<close> is the decoded file or the exception of reading it. No observation is the empty dictionary.\<close>

definition read_runtime_observation :: "pylib \<Rightarrow> py res \<Rightarrow> instant \<Rightarrow> dict res" where
  "read_runtime_observation lib content now = (case content of
       Inl e \<Rightarrow> if is_os_error e \<or> e = JSONDecodeError then Inr [] else Inl e
     | Inr (PDict xs) \<Rightarrow>
         if str_or_empty lib (dget xs ''schema_version'') \<noteq> OBSERVATION_SCHEMA then Inr []
         else (case l_utc lib (replace_char CHR ''Z'' ''+00:00'' (str_or_empty lib (dget xs ''observed_at''))) of
             Inl e \<Rightarrow> if is_value_error e then Inr [] else Inl e
           | Inr observed \<Rightarrow> let age = total_seconds (now - observed) in if age < - 1 \<or> age > 3 then Inr [] else Inr xs)
     | Inr _ \<Rightarrow> Inr [])"

section \<open>Requests\<close>

definition refused_answer :: "string \<Rightarrow> dict" where
  "refused_answer why = [(''ok'', PBool False), (''state'', PStr ''REJECTED''), (''reason'', PStr why)]"

text \<open>What is missing in the observation for a request of this intent, if anything.\<close>

definition missing_for :: "pylib \<Rightarrow> string \<Rightarrow> dict \<Rightarrow> string option" where
  "missing_for lib intent o1 =
     (if o1 = [] then Some ''RUNTIME_OBSERVATION_UNAVAILABLE''
      else if intent \<notin> {RESTART_FFMPEG, RECONCILE_FFMPEG, ESCALATE_RUNTIME_RECOVERY} then Some ''INTENT_NOT_SUPPORTED''
      else if str_or_empty lib (dget o1 ''executor_instance_id'') = [] \<or> str_or_empty lib (dget o1 ''observation_id'') = []
      then Some ''EXECUTOR_IDENTITY_UNAVAILABLE''
      else if intent = RESTART_FFMPEG then
        (if str_or_empty lib (dget o1 ''target_snapshot_status'') \<noteq> ''VALID'' \<or> \<not> is_dict (dget o1 ''target_identity'')
         then Some ''TARGET_IDENTITY_UNAVAILABLE''
         else if str_or_empty lib (dget o1 ''ffmpeg_generation'') = [] \<or> str_or_empty lib (dget o1 ''target_snapshot_id'') = [] \<or>
           \<not> py_truthy (dget o1 ''ffmpeg_running'')
         then Some ''FFMPEG_GENERATION_UNAVAILABLE'' else None)
      else if str_or_empty lib (dget o1 ''runtime_snapshot_status'') \<noteq> ''VALID'' \<or> \<not> is_dict (dget o1 ''runtime_identity'')
      then Some ''RUNTIME_IDENTITY_UNAVAILABLE''
      else if str_or_empty lib (dget o1 ''runtime_snapshot_id'') = [] then Some ''RUNTIME_SNAPSHOT_ID_UNAVAILABLE'' else None)"

text \<open>\<open>op_id\<close> is the correlation id of the action.\<close>

definition typed_request ::
    "pylib \<Rightarrow> dict \<Rightarrow> instant \<Rightarrow> string \<Rightarrow> string \<Rightarrow> int \<Rightarrow> string \<Rightarrow> string \<Rightarrow> string \<Rightarrow> dict res" where
  "typed_request lib o1 now op_id pid gen intent domain reason =
     (let restart = (intent = RESTART_FFMPEG) in
      bindE (int_at o1 ''projection_sequence'') (\<lambda>projection.
      Inr [(''schema_version'', PStr V2), (''request_id'', PStr op_id), (''producer_id'', PStr pid), (''producer_generation'', PInt gen),
        (''intent_type'', PStr intent), (''reason'', PStr (take 512 reason)), (''failure_domain'', PStr domain),
        (''issued_at'', PStr (l_iso_z lib now)), (''expires_at'', PStr (l_iso_z lib (now + 3000000))),
        (''ffmpeg_target_identity'', if restart then dget o1 ''target_identity'' else PNone),
        (''runtime_identity'', if restart then PNone else dget o1 ''runtime_identity''),
        (''expected_ffmpeg_generation'', PStr (if restart then str_or_empty lib (dget o1 ''ffmpeg_generation'') else [])),
        (''idempotency_key'', PStr op_id), (''correlation_id'', PStr op_id),
        (''target_snapshot_id'', PStr (if restart then str_or_empty lib (dget o1 ''target_snapshot_id'') else [])),
        (''runtime_snapshot_id'', PStr (if restart then [] else str_or_empty lib (dget o1 ''runtime_snapshot_id''))),
        (''runtime_observation_id'', PStr (str_or_empty lib (dget o1 ''observation_id''))),
        (''expected_executor_instance_id'', PStr (str_or_empty lib (dget o1 ''executor_instance_id''))),
        (''maintenance_evidence_status'', PStr (py_str (l_repr lib) (py_or (dget o1 ''maintenance_evidence_status'') (PStr ''UNKNOWN'')))),
        (''projection_id'', PStr (str_or_empty lib (dget o1 ''projection_id''))), (''projection_sequence'', PInt projection)]))"

section \<open>Unresolved effects\<close>

definition UNRESOLVED_QUERY :: dict where
  "UNRESOLVED_QUERY = [(''schema_version'', PStr ''runtime.effect_unresolved_query.v1'')]"

definition unresolved_of :: "dict \<Rightarrow> dict list res" where
  "unresolved_of response = (case (dget response ''unresolved_scopes'', dget response ''unresolved_count'') of
       (PList scopes, PInt n) \<Rightarrow>
         if dget response ''schema_version'' = PStr ''runtime.effect_unresolved_response.v1'' \<and> dget response ''ok'' = PBool True \<and>
           n = int (length scopes) \<and> list_all is_dict scopes then Inr (dict_items (PList scopes))
         else Inl (ValueError ''UNRESOLVED_EFFECT_RESPONSE_INVALID'')
     | _ \<Rightarrow> Inl (ValueError ''UNRESOLVED_EFFECT_RESPONSE_INVALID''))"

definition reconciliation_request :: "pylib \<Rightarrow> dict \<Rightarrow> dict \<Rightarrow> dict \<Rightarrow> instant \<Rightarrow> dict res" where
  "reconciliation_request lib scope o1 transport now = (case (dget scope ''identity'', dget o1 ''target_identity'') of
       (PDict before0, PDict observed) \<Rightarrow>
         (let scope_id = str_or_empty lib (dget scope ''effect_scope_id''); owner = str_or_empty lib (dget scope ''owner_request_id'');
              digest = str_or_empty lib (dget scope ''owner_request_digest''); oid = str_or_empty lib (dget o1 ''observation_id'');
              stable = [(''effect_scope_id'', PStr scope_id), (''owner_request_id'', PStr owner),
                (''observed_ffmpeg_generation'', dget observed ''ffmpeg_generation''), (''observed_ffmpeg_pid'', dget observed ''ffmpeg_pid'')] in
          if [] \<in> set [scope_id, owner, digest, oid] then Inl (ValueError ''RECONCILIATION_IDENTITY_MISSING'')
          else Inr [(''schema_version'', PStr ''runtime.effect_reconciliation_request.v1''),
            (''reconciliation_id'', PStr (''dell-auto-reconcile-'' @ l_sha lib (jnorm (PDict stable)))),
            (''effect_scope_id'', PStr scope_id), (''owner_request_id'', PStr owner), (''owner_request_digest'', PStr digest),
            (''resolution'', PStr ''EFFECT_OBSERVED''),
            (''evidence'', PDict [(''schema_version'', PStr ''runtime.delayed_exit_reconciliation_evidence.v1''),
               (''oracle'', PStr ''DELAYED_FFMPEG_EXIT_AND_HEALTHY_SUCCESSOR''), (''observed_at'', PStr (l_iso_z lib now)),
               (''physical_effect_count'', PInt 1), (''automatic_retry_count'', PInt 0), (''before_target'', PDict before0),
               (''observed_target'', PDict observed), (''runtime_observation_id'', PStr oid),
               (''transport'', PDict [(''bytes_sent'', dget transport ''bytes_sent''), (''network_down'', dget transport ''network_down''),
                  (''tcp_probe_ok'', dget transport ''tcp_probe_ok'')])])])
     | _ \<Rightarrow> Inl TypeError)"

section \<open>The executor understands the controller\<close>

lemma typed_request_lookup:
  assumes "typed_request lib o1 now op_id pid gen intent domain reason = Inr req"
  shows "dget req ''schema_version'' = PStr V2" "dget req ''request_id'' = PStr op_id"
    "dget req ''producer_id'' = PStr pid" "dget req ''producer_generation'' = PInt gen" "dget req ''intent_type'' = PStr intent"
    "dget req ''reason'' = PStr (take 512 reason)" "dget req ''failure_domain'' = PStr domain"
    "dget req ''issued_at'' = PStr (l_iso_z lib now)" "dget req ''expires_at'' = PStr (l_iso_z lib (now + 3000000))"
    "dget req ''ffmpeg_target_identity'' = (if intent = RESTART_FFMPEG then dget o1 ''target_identity'' else PNone)"
    "dget req ''runtime_identity'' = (if intent = RESTART_FFMPEG then PNone else dget o1 ''runtime_identity'')"
    "dget req ''expected_ffmpeg_generation'' = PStr (if intent = RESTART_FFMPEG then str_or_empty lib (dget o1 ''ffmpeg_generation'') else [])"
    "dget req ''idempotency_key'' = PStr op_id" "dget req ''correlation_id'' = PStr op_id"
    "dget req ''target_snapshot_id'' = PStr (if intent = RESTART_FFMPEG then str_or_empty lib (dget o1 ''target_snapshot_id'') else [])"
    "dget req ''runtime_snapshot_id'' = PStr (if intent = RESTART_FFMPEG then [] else str_or_empty lib (dget o1 ''runtime_snapshot_id''))"
    "dget req ''runtime_observation_id'' = PStr (str_or_empty lib (dget o1 ''observation_id''))" "dget req ''route_transition'' = PNone"
    "dget req ''expected_executor_instance_id'' = PStr (str_or_empty lib (dget o1 ''executor_instance_id''))"
    "dget req ''maintenance_evidence_status'' = PStr (py_str (l_repr lib) (py_or (dget o1 ''maintenance_evidence_status'') (PStr ''UNKNOWN'')))"
    "dget req ''projection_id'' = PStr (str_or_empty lib (dget o1 ''projection_id''))"
    "\<exists>n. int_or_0 (dget o1 ''projection_sequence'') = Inr n \<and> dget req ''projection_sequence'' = PInt n"
  using assms by (auto simp: typed_request_def int_at_def Let_def dget_def V2_def)

lemma typed_request_times:
  assumes "typed_request lib o1 now op_id pid gen intent domain reason = Inr req" and "wire_faithful lib"
  shows "request_times lib req = Inr ()"
proof -
  note l = typed_request_lookup [OF assms(1)]
  have "now - now mod 1000 < (now + 3000000) - (now + 3000000) mod 1000"
    "total_seconds ((now + 3000000) - (now + 3000000) mod 1000 - (now - now mod 1000)) \<le> 5"
    by (simp_all add: total_seconds_def mod_add_eq [of now 1000, symmetric])
  then show ?thesis
    using assms(2) unfolding request_times_Inr
    by (simp add: l parse_instant_def wire_faithful_def MAX_EFFECT_REQUEST_LIFETIME_SECONDS_def)
qed

text \<open>An observation and an action that hold what a request of the intent needs, in readable form.\<close>

definition action_readable :: "pylib \<Rightarrow> dict \<Rightarrow> string \<Rightarrow> string \<Rightarrow> int \<Rightarrow> string \<Rightarrow> string \<Rightarrow> string \<Rightarrow> bool" where
  "action_readable lib o1 op_id pid gen intent domain reason \<longleftrightarrow>
     missing_for lib intent o1 = None \<and> strip op_id \<noteq> [] \<and> strip pid \<noteq> [] \<and> gen > 0 \<and> strip domain \<noteq> [] \<and>
     valid_reason (strip (take 512 reason)) \<and> evidence_readable lib o1 \<and>
     list_all (\<lambda>f. text_of lib (dget o1 f) \<noteq> []) (if intent = RESTART_FFMPEG
       then [''observation_id'', ''executor_instance_id'', ''ffmpeg_generation'', ''target_snapshot_id'']
       else [''observation_id'', ''executor_instance_id'', ''runtime_snapshot_id''])"

definition identity_of_intent :: "pylib \<Rightarrow> dict \<Rightarrow> string \<Rightarrow> dict res" where
  "identity_of_intent lib o1 intent = (if intent = RESTART_FFMPEG then validate_target lib (dget o1 ''target_identity'')
     else validate_runtime_identity lib (dget o1 ''runtime_identity''))"

lemma controller_intents:
  "missing_for lib intent o1 = None \<Longrightarrow> intent \<in> {RESTART_FFMPEG, RECONCILE_FFMPEG, ESCALATE_RUNTIME_RECOVERY}"
  by (auto simp: missing_for_def split: if_splits)

lemma controller_intent_known:
  assumes "intent \<in> {RESTART_FFMPEG, RECONCILE_FFMPEG, ESCALATE_RUNTIME_RECOVERY}"
  shows "strip intent = intent" "intent \<in> set ALL_EFFECT_INTENTS" "intent \<noteq> ''SWITCH_STREAM_ROUTE''"
    "intent \<in> set DELIVERY_TARGET_INTENTS \<longleftrightarrow> intent = RESTART_FFMPEG"
  using assms by (auto simp: RESTART_FFMPEG_def RECONCILE_FFMPEG_def ESCALATE_RUNTIME_RECOVERY_def ALL_EFFECT_INTENTS_def
      EXECUTOR_OWNED_INTENTS_def DELIVERY_TARGET_INTENTS_def strip_def is_space_def)

text \<open>C20: The controller and the executor agree on what a typed request says: from a readable observation, every request
  the controller builds is accepted by the executor's protocol, lives at most the allowed time, and is read with
  the same intent, the identity the intent is about (and no other), the action's id as request id and idempotency
  key, and the configured producer.\<close>

theorem controller_request_understood:
  assumes "typed_request lib o1 now op_id pid gen intent domain reason = Inr req" and "wire_faithful lib"
    and "action_readable lib o1 op_id pid gen intent domain reason" and "identity_of_intent lib o1 intent = Inr t"
  shows "\<exists>q. from_mapping lib req = Inr q \<and> er_intent_type q = intent \<and>
    er_ffmpeg_target q = (if intent = RESTART_FFMPEG then Some t else None) \<and>
    er_runtime_identity q = (if intent = RESTART_FFMPEG then None else Some t) \<and>
    er_request_id q = strip op_id \<and> er_idempotency_key q = strip op_id \<and> rc_producer_id (er_common q) = strip pid \<and>
    rc_producer_generation (er_common q) = gen"
proof -
  note l = typed_request_lookup [OF assms(1)]
  obtain n where n: "int_or_0 (dget o1 ''projection_sequence'') = Inr n" "dget req ''projection_sequence'' = PInt n"
    using l(22) by blast
  have g: "generations req = Inr (gen, n)"
    using assms(3) n by (simp add: generations_Inr l action_readable_def evidence_readable_def Let_def)
  obtain c where c: "request_common_of lib req = Inr c" "rc_request_id c = strip op_id" "rc_idempotency_key c = strip op_id"
      "rc_producer_id c = strip pid" "rc_producer_generation c = gen"
    using assms(3) typed_request_times [OF assms(1,2)] n
    by (simp add: request_common_of_def g required_text_def l action_readable_def evidence_readable_def text_of_def not_le Let_def
        split: if_splits)
  have i: "intent \<in> {RESTART_FFMPEG, RECONCILE_FFMPEG, ESCALATE_RUNTIME_RECOVERY}"
    using assms(3) controller_intents by (auto simp: action_readable_def)
  note k = controller_intent_known [OF i]
  show ?thesis
    using assms(3,4) k
    by (auto simp: from_mapping_def from_v2_def c l route_transition_of_def typed_identity_def absent_identity_def action_readable_def
        identity_of_intent_def text_of_def Let_def split: if_splits)
qed

definition ex_seen :: dict where
  "ex_seen = [(''target_identity'', PDict ex_target), (''target_snapshot_status'', PStr ''VALID''), (''target_snapshot_id'', PStr ''s1''),
     (''ffmpeg_generation'', PStr ''g1''), (''ffmpeg_running'', PBool True), (''executor_instance_id'', PStr ''x1''), (''observation_id'', PStr ''o'')]"

lemma ex_seen_readable: "action_readable ex_wire ex_seen ''fra-1'' ''dell'' 3 RESTART_FFMPEG ''DELIVERY_PATH'' ''tcp stall''"
  by code_simp

theorem controller_request_understood_witness:
  "\<exists>req q. typed_request ex_wire ex_seen 0 ''fra-1'' ''dell'' 3 RESTART_FFMPEG ''DELIVERY_PATH'' ''tcp stall'' = Inr req \<and>
     from_mapping ex_wire req = Inr q \<and> er_ffmpeg_target q = Some ex_target \<and> rc_producer_generation (er_common q) = 3"
proof -
  have "\<exists>req. typed_request ex_wire ex_seen 0 ''fra-1'' ''dell'' 3 RESTART_FFMPEG ''DELIVERY_PATH'' ''tcp stall'' = Inr req"
    by (simp add: typed_request_def ex_seen_def Let_def int_at_def dget_def int_or_0_def py_or_def)
  then obtain req where req: "typed_request ex_wire ex_seen 0 ''fra-1'' ''dell'' 3 RESTART_FFMPEG ''DELIVERY_PATH'' ''tcp stall'' = Inr req" by blast
  have "identity_of_intent ex_wire ex_seen RESTART_FFMPEG = Inr ex_target" using ex_target by (simp add: identity_of_intent_def ex_seen_def dget_def)
  from controller_request_understood [OF req ex_wire_faithful ex_seen_readable this] req show ?thesis by auto
qed

end
