(* ===== verification/Fr_Sample.thy ===== *)
theory Fr_Sample
  imports Fr_Core
begin

text \<open>
  \<open>watchers/fast_recovery_core/tcp_send_sample.py\<close>: the upload rate the controller logs. A rate is reported only
  between two readings of one producer, FFmpeg generation, process and connection, in the order the producer
  numbered them and timed by the producer's own clock; the consumer's monotonic clock only guards against jumps.
\<close>

definition SAMPLE_KEY :: string where "SAMPLE_KEY = ''tcp_send_sample_source_v2''"

definition bind_runtime_metrics :: "dict \<Rightarrow> int \<Rightarrow> dict" where
  "bind_runtime_metrics o1 tick = (case dget o1 ''tcp_metrics'' of
       PDict metrics \<Rightarrow> if metrics = [] then [] else aupdate metrics
         [(''sample_observed_at'', dget o1 ''observed_at''), (''sample_producer_instance_id'', dget o1 ''producer_instance_id''),
          (''sample_ffmpeg_generation'', dget o1 ''ffmpeg_generation''), (''sample_source_sequence'', dget o1 ''sequence''),
          (''sample_consumer_monotonic_ns'', PInt tick)]
     | _ \<Rightarrow> [])"

text \<open>\<open>str.split()\<close>: the maximal runs of characters that are no space.\<close>

fun words_from :: "string \<Rightarrow> string \<Rightarrow> string list" where
  "words_from acc [] = (if acc = [] then [] else [rev acc])"
| "words_from acc (c # cs) = (if is_space c then (if acc = [] then [] else [rev acc]) @ words_from [] cs else words_from (c # acc) cs)"

definition words :: "string \<Rightarrow> string list" where "words = words_from []"

fun positive :: "py \<Rightarrow> int option" where
  "positive (PInt n) = (if n > 0 then Some n else None)"
| "positive v = None"

definition source_instant :: "pylib \<Rightarrow> string \<Rightarrow> int option" where
  "source_instant lib s = (let z = replace_char CHR ''Z'' ''+00:00'' s in
     case l_fromiso lib z of Some (True, _) \<Rightarrow> (case l_utc lib z of Inr t \<Rightarrow> positive (PInt t) | Inl e \<Rightarrow> None) | _ \<Rightarrow> None)"

text \<open>The connection: none, its digest, or a text that is no established connection.\<close>

definition connection_of :: "pylib \<Rightarrow> py \<Rightarrow> py option" where
  "connection_of lib conn = (if \<not> py_truthy conn then Some PNone
     else (let parts = words (py_str (l_repr lib) conn) in
       if length parts < 5 \<or> hd parts \<noteq> ''ESTAB'' then None
       else Some (PStr (l_sha lib (PStr (parts ! 3 @ [CHR 0x00] @ parts ! 4))))))"

text \<open>\<open>_snapshot\<close>; the caller handles each of its exceptions alike, so an exception is \<open>None\<close>.\<close>

definition snapshot_of :: "pylib \<Rightarrow> int \<Rightarrow> int \<Rightarrow> dict \<Rightarrow> dict option" where
  "snapshot_of lib pid bytes_sent metrics =
     (case (dget metrics ''sample_observed_at'', dget metrics ''sample_producer_instance_id'', dget metrics ''sample_ffmpeg_generation'') of
        (PStr observed_at, PStr producer, PStr generation) \<Rightarrow>
          (case (source_instant lib observed_at, connection_of lib (dget metrics ''conn''), positive (PInt pid),
                 positive (dget metrics ''sample_source_sequence''), positive (dget metrics ''sample_consumer_monotonic_ns'')) of
             (Some us, Some conn, Some p, Some sequence, Some tick) \<Rightarrow>
               if strip producer = [] \<or> strip generation = [] \<or> bytes_sent < 0 \<or> \<not> py_eq (dget metrics ''bytes_sent'') (PInt bytes_sent) then None
               else Some [(''identity'', PList [PStr producer, PStr generation, PInt p, conn]), (''observed_at'', PStr observed_at),
                 (''observed_us'', PInt us), (''sequence'', PInt sequence), (''consumer_monotonic_ns'', PInt tick), (''bytes_sent'', PInt bytes_sent)]
           | _ \<Rightarrow> None)
      | _ \<Rightarrow> None)"

definition SNAPSHOT_KEYS :: "string list" where
  "SNAPSHOT_KEYS = [''identity'', ''observed_at'', ''observed_us'', ''sequence'', ''consumer_monotonic_ns'', ''bytes_sent'']"

fun nat_like :: "py \<Rightarrow> bool" where "nat_like (PInt n) = (n \<ge> 0)" | "nat_like v = False"

definition well_kept :: "py \<Rightarrow> bool" where
  "well_kept v = (case v of
       PDict d \<Rightarrow> set SNAPSHOT_KEYS \<subseteq> fst ` set d \<and>
         list_all (\<lambda>k. positive (dget d k) \<noteq> None) [''observed_us'', ''sequence'', ''consumer_monotonic_ns''] \<and> nat_like (dget d ''bytes_sent'')
     | _ \<Rightarrow> False)"

definition num_at :: "dict \<Rightarrow> string \<Rightarrow> int" where
  "num_at d k = (case dget d k of PInt n \<Rightarrow> n | _ \<Rightarrow> 0)"

definition restart_baseline :: "dict \<Rightarrow> dict \<Rightarrow> dict" where
  "restart_baseline current d = aset SAMPLE_KEY (PDict [(''baseline'', PDict current), (''seen'', PDict current)]) d"

text \<open>Whether the reading continues the series: same identity and counters and clocks that did not jump.\<close>

definition continues :: "dict \<Rightarrow> dict \<Rightarrow> dict \<Rightarrow> bool" where
  "continues current baseline seen \<longleftrightarrow>
     py_eq (dget current ''identity'') (dget baseline ''identity'') \<and> py_eq (dget baseline ''identity'') (dget seen ''identity'') \<and>
     num_at current ''bytes_sent'' \<ge> num_at seen ''bytes_sent'' \<and>
     (let seen_elapsed = num_at current ''observed_us'' - num_at seen ''observed_us'';
          tick = (of_int (num_at current ''consumer_monotonic_ns'' - num_at seen ''consumer_monotonic_ns'') / 1000 :: rat) in
      seen_elapsed > 0 \<and> tick > 0 \<and> \<bar>of_int seen_elapsed - tick\<bar> \<le> 6000000) \<and>
     num_at seen ''bytes_sent'' \<ge> num_at baseline ''bytes_sent'' \<and> num_at seen ''observed_us'' \<ge> num_at baseline ''observed_us''"

definition sample_payload :: "pylib \<Rightarrow> int \<Rightarrow> int \<Rightarrow> dict \<Rightarrow> dict \<Rightarrow> dict \<Rightarrow> dict" where
  "sample_payload lib pid bytes_sent metrics current baseline =
     (let elapsed = num_at current ''observed_us'' - num_at baseline ''observed_us'';
          delta = num_at current ''bytes_sent'' - num_at baseline ''bytes_sent'';
          parts = (case dget current ''identity'' of PList xs \<Rightarrow> xs | _ \<Rightarrow> []) in
      [(''ffmpeg_pid'', PInt pid), (''sample_interval_sec'', PFloat (Fin (total_seconds elapsed))), (''bytes_sent_delta'', PInt delta),
       (''bytes_sent'', PInt bytes_sent), (''mbps'', PFloat (Fin (py_round 3 (of_int (delta * 8) / of_int elapsed)))),
       (''sample_schema_version'', PStr ''ffmpeg_tcp_send_sample.v2''), (''sample_time_source'', PStr ''runtime_observation.observed_at''),
       (''sample_start_observed_at'', dget baseline ''observed_at''), (''sample_end_observed_at'', dget current ''observed_at''),
       (''sample_source_sequence_start'', dget baseline ''sequence''), (''sample_source_sequence_end'', dget current ''sequence''),
       (''sample_producer_instance_id'', parts ! 0), (''sample_ffmpeg_generation'', parts ! 1), (''sample_connection_id'', parts ! 3),
       (''sample_identity_scope'', PStr (if py_truthy (parts ! 3) then ''socket_endpoints'' else ''ffmpeg_generation''))]
      @ map (\<lambda>f. (f, dget_or metrics f (PInt 0))) [''bytes_acked'', ''send_q'', ''notsent'', ''unacked'', ''lastsnd_ms'', ''rto_ms'']
      @ [(''conn'', PStr (str_or_empty lib (dget metrics ''conn'')))])"

definition source_timed_sample :: "pylib \<Rightarrow> int \<Rightarrow> int \<Rightarrow> dict \<Rightarrow> int \<Rightarrow> dict \<Rightarrow> dict option \<times> dict" where
  "source_timed_sample lib pid bytes_sent metrics interval d = (case snapshot_of lib pid bytes_sent metrics of
       None \<Rightarrow> (None, adel SAMPLE_KEY d)
     | Some current \<Rightarrow>
         if interval \<le> 0 then (None, d)
         else (let saved = (case dget d SAMPLE_KEY of PDict s \<Rightarrow> s | _ \<Rightarrow> []) in
           (case (dget saved ''baseline'', dget saved ''seen'') of
              (PDict baseline, PDict seen) \<Rightarrow>
                if \<not> (well_kept (PDict baseline) \<and> well_kept (PDict seen)) then (None, restart_baseline current d)
                else (let same = (py_eq (dget current ''identity'') (dget baseline ''identity'') \<and> py_eq (dget baseline ''identity'') (dget seen ''identity'')) in
                  if same \<and> num_at current ''sequence'' \<le> num_at seen ''sequence'' then (None, d)
                  else if \<not> continues current baseline seen then (None, restart_baseline current d)
                  else (let saved1 = aset ''seen'' (PDict current) saved in
                    if num_at current ''observed_us'' - num_at baseline ''observed_us'' < interval * 1000000
                    then (None, aset SAMPLE_KEY (PDict saved1) d)
                    else (Some (sample_payload lib pid bytes_sent metrics current baseline),
                      aset SAMPLE_KEY (PDict (aset ''baseline'' (PDict current) saved1)) d)))
            | _ \<Rightarrow> (None, restart_baseline current d))))"

text \<open>
  A reported rate is measured over at least the configured interval of the producer's clock, within one identity,
  between a stored reading and a later one in the producer's order, with counters that never went back.
\<close>

lemma sample_sound:
  assumes "source_timed_sample lib pid bytes_sent metrics interval d = (Some payload, d')"
  obtains current baseline seen where
    "snapshot_of lib pid bytes_sent metrics = Some current" "continues current baseline seen"
    "num_at seen ''sequence'' < num_at current ''sequence''"
    "interval * 1000000 \<le> num_at current ''observed_us'' - num_at baseline ''observed_us''" "interval > 0"
    "payload = sample_payload lib pid bytes_sent metrics current baseline"
    "\<exists>saved. dget d SAMPLE_KEY = PDict saved \<and> dget saved ''baseline'' = PDict baseline \<and> dget saved ''seen'' = PDict seen"
  using assms
  by (auto simp: source_timed_sample_def Let_def dget_def [of "[]"] continues_def not_le not_less
      split: option.splits if_splits py.splits)

end
