(* ===== verification/Fr_Loop.thy ===== *)
theory Fr_Loop
  imports Fr_Warning Fr_Effect Fr_Sample
begin

text \<open>
  \<open>watchers/fast_recovery.py\<close>: one cycle of the Fast Recovery controller (\<open>main\<close>), with the functions it
  calls. A cycle reads the stored state, observes FFmpeg, the network and YouTube's status, updates its
  streaks, and at most once asks for a recovery: a typed request to the effect executor when a socket is
  configured, otherwise a signal to FFmpeg or a restart of the unit.

  The state of a cycle is \<open>fr\<close>: the dictionary of \<open>main\<close>, the state file, and the calls of \<open>append_event\<close>.
  \<open>fr_effects\<close> is a history variable: the recoveries that left the process, with the dictionary and the time
  of the cycle (\<open>fr_now\<close>) at that moment; no code reads it. \<open>fenv\<close> lists the calls that reach outside; each
  may answer anything or raise. Commands and probes (\<open>systemctl\<close>, \<open>pgrep\<close>, \<open>ps\<close>, \<open>ss\<close>, \<open>ping\<close>, \<open>kubectl\<close>,
  sockets) are such calls, as are the restart context that is written for the engine and the maintenance audit,
  whose exceptions \<open>audit_mp03\<close> drops.
\<close>

section \<open>State and environment\<close>

datatype effect_call = TypedRequest bool dict | SignalChild int | RestartUnit

record fr_effect =
  fx_call :: effect_call
  fx_kind :: string
  fx_now :: int
  fx_state :: dict

record 'w fr =
  fr_state :: dict
  fr_stored :: "py option"
  fr_log :: "event list"
  fr_effects :: "fr_effect list"
  fr_now :: int
  fr_world :: 'w

record 'w fenv =
  f_time :: "('w, int) act"
  f_tick :: "('w, int) act"
  f_now :: "('w, instant) act"
  f_uuid :: "('w, string) act"
  f_state_read :: "('w, unit) act"
  f_state_tx :: "('w, tx) act"
  f_observation :: "bool \<Rightarrow> ('w, py) act"
  f_exchange :: "bool \<Rightarrow> dict \<Rightarrow> ('w, py) act"
  f_main_pid :: "('w, int) act"
  f_child_pid :: "int \<Rightarrow> ('w, int) act"
  f_pgrep :: "('w, int) act"
  f_elapsed :: "int \<Rightarrow> ('w, int) act"
  f_gateway :: "('w, string) act"
  f_ping :: "string \<Rightarrow> ('w, bool) act"
  f_dns :: "('w, bool) act"
  f_tcp :: "('w, bool) act"
  f_ss :: "int \<Rightarrow> ('w, dict) act"
  f_stats :: "('w, py) act"
  f_quota :: "('w, py) act"
  f_signal :: "int \<Rightarrow> string \<Rightarrow> ('w, bool \<times> string) act"
  f_restart_unit :: "string \<Rightarrow> ('w, bool \<times> string) act"
  f_context :: "dict \<Rightarrow> string \<Rightarrow> ('w, dict) act"
  f_gpu :: "('w, dict) act"
  f_established :: "('w, dict) act"
  f_audit :: "string \<Rightarrow> string \<Rightarrow> ('w, unit) act"
  f_write_snapshot :: "('w, unit) act"
  f_utc_text :: "int \<Rightarrow> string"
  f_type :: "exn \<Rightarrow> string"

definition askF :: "('w, 'a) act \<Rightarrow> ('w fr, 'a) act" where
  "askF f s = (case f (fr_world s) of (r, w) \<Rightarrow> (r, s\<lparr>fr_world := w\<rparr>))"

text \<open>Reading the dictionary, changing it, and changing it with a result.\<close>

definition lookF :: "(dict \<Rightarrow> 'a res) \<Rightarrow> ('w fr, 'a) act" where
  "lookF f = bindS (getS fr_state) (\<lambda>d. liftS (f d))"

definition putF :: "(dict \<Rightarrow> dict) \<Rightarrow> ('w fr, unit) act" where
  "putF f = modS (\<lambda>s. s\<lparr>fr_state := f (fr_state s)\<rparr>)"

definition updF :: "(dict \<Rightarrow> ('a \<times> dict) res) \<Rightarrow> ('w fr, 'a) act" where
  "updF f = bindS (getS fr_state) (\<lambda>d. bindS (liftS (f d)) (\<lambda>(x, d'). bindS (putF (\<lambda>_. d')) (\<lambda>_. retS x)))"

definition emit :: "string \<Rightarrow> string \<Rightarrow> dict \<Rightarrow> ('w fr, unit) act" where
  "emit kind message extra = modS (\<lambda>s. s\<lparr>fr_log := fr_log s @ [(kind, message, extra)]\<rparr>)"

definition emit_all :: "event list \<Rightarrow> ('w fr, unit) act" where
  "emit_all es = modS (\<lambda>s. s\<lparr>fr_log := fr_log s @ es\<rparr>)"

definition say :: "string \<Rightarrow> ('w fr, unit) act" where
  "say reason = putF (aset ''last_reason'' (PStr reason))"

definition audit_mp03 :: "'w fenv \<Rightarrow> string \<Rightarrow> string \<Rightarrow> ('w fr, unit) act" where
  "audit_mp03 env phase what = catch_all (askF (f_audit env phase what)) (\<lambda>_. retS ())"

section \<open>The state file\<close>

definition DEFAULT_STATE :: dict where
  "DEFAULT_STATE =
     [(''last_pid'', PInt 0), (''last_bytes_sent'', PInt 0), (''net_fail_streak'', PInt 0), (''stall_streak'', PInt 0),
      (''remote_warning_streak'', PInt 0), (''remote_warning_last_stats_ts'', PInt 0), (''remote_warning_last_sample_key'', PStr []),
      (''remote_warning_last_probe_ts'', PInt 0), (''remote_warning_context_key'', PStr []), (''remote_warning_recovery_episode_id'', PStr []),
      (''remote_warning_ffmpeg_generation'', PStr []), (''last_restart_ts'', PInt 0), (''last_restart_failure_ts'', PInt 0),
      (''restart_failure_count'', PInt 0), (''last_reason'', PStr []), (''last_budget_block_key'', PStr []), (''last_budget_block_ts'', PInt 0),
      (''last_gpu_restart_block_key'', PStr []), (''last_gpu_restart_block_ts'', PInt 0), (''last_startup_restart_block_key'', PStr []),
      (''last_startup_restart_block_ts'', PInt 0), (''last_tcp_send_sample_ts'', PInt 0), (''last_tcp_send_sample_pid'', PInt 0),
      (''last_tcp_send_sample_bytes_sent'', PInt 0), (''observed_ts'', PInt 0), (''connectivity_wait_active'', PBool False),
      (''connectivity_wait_since_ts'', PInt 0), (''connectivity_last_observed_ts'', PInt 0), (''connectivity_recovered_ts'', PInt 0),
      (''connectivity_gateway_present'', PBool False), (''connectivity_gateway_ok'', PBool False), (''connectivity_public_ok_count'', PInt 0),
      (''connectivity_dns_ok'', PBool False), (''connectivity_tcp_probe_ok'', PBool False), (''restart_events'', PList []),
      (''pending_recovery_actions'', PList []), (''samples'', PList [])]"

definition load_state :: "pylib \<Rightarrow> fr_config \<Rightarrow> 'w fenv \<Rightarrow> int \<Rightarrow> ('w fr, unit) act" where
  "load_state lib k env now =
     bindS (attemptS (bindS (askF (f_state_read env)) (\<lambda>_. bindS (getS fr_stored) (\<lambda>v. liftS (case v of
         None \<Rightarrow> Inl FileNotFoundError | Some x \<Rightarrow> Inr x))))) (\<lambda>content.
     bindS (liftS (load_state_file lib content now DEFAULT_STATE (k_samples_max k) (k_restart_cost k))) (\<lambda>d. putF (\<lambda>_. d)))"

definition save_state :: "'w fenv \<Rightarrow> ('w fr, unit) act" where
  "save_state env =
     bindS (askF (f_time env)) (\<lambda>t. bindS (putF (aset ''observed_ts'' (PInt t))) (\<lambda>_.
     bindS (askF (f_state_tx env)) (\<lambda>tx. let keep = modS (\<lambda>s. s\<lparr>fr_stored := Some (PDict (fr_state s))\<rparr>) in case tx of
         Committed \<Rightarrow> keep | Refused e \<Rightarrow> raiseS e | CommittedThen e \<Rightarrow> bindS keep (\<lambda>_. raiseS e))))"

definition finish :: "'w fenv \<Rightarrow> ('w fr, int) act" where
  "finish env = bindS (save_state env) (\<lambda>_. retS 0)"

section \<open>Observations\<close>

definition observe :: "pylib \<Rightarrow> 'w fenv \<Rightarrow> bool \<Rightarrow> ('w fr, dict) act" where
  "observe lib env escalation =
     bindS (attemptS (askF (f_observation env escalation))) (\<lambda>content.
     bindS (askF (f_now env)) (\<lambda>now. liftS (read_runtime_observation lib content now)))"

definition k8s_supervisor_active :: "fr_config \<Rightarrow> bool" where
  "k8s_supervisor_active k \<longleftrightarrow> k_socket k \<noteq> [] \<or> k_supervisor k \<in> {''k8s'', ''k3s'', ''kubernetes''}"

definition get_child_ffmpeg_pid :: "'w fenv \<Rightarrow> int \<Rightarrow> ('w fr, int) act" where
  "get_child_ffmpeg_pid env main_pid = (if main_pid \<le> 1 then retS 0 else askF (f_child_pid env main_pid))"

definition get_k8s_stream_ffmpeg_pid :: "pylib \<Rightarrow> fr_config \<Rightarrow> 'w fenv \<Rightarrow> ('w fr, int) act" where
  "get_k8s_stream_ffmpeg_pid lib k env =
     (if k_socket k = [] then askF (f_pgrep env)
      else bindS (observe lib env False) (\<lambda>o1. bindS (liftS (int_at o1 ''protocol_ffmpeg_pid'')) (\<lambda>pid.
        retS (if py_truthy (dget o1 ''ffmpeg_running'') \<and> pid > 1 then pid else 0))))"

definition get_stream_ffmpeg_pid :: "pylib \<Rightarrow> fr_config \<Rightarrow> 'w fenv \<Rightarrow> int \<Rightarrow> ('w fr, int) act" where
  "get_stream_ffmpeg_pid lib k env main_pid =
     bindS (get_child_ffmpeg_pid env main_pid) (\<lambda>pid. if pid > 1 then retS pid
     else if k_supervisor k \<in> {''k8s'', ''k3s'', ''kubernetes''} then get_k8s_stream_ffmpeg_pid lib k env else retS 0)"

definition get_process_elapsed_sec :: "pylib \<Rightarrow> fr_config \<Rightarrow> 'w fenv \<Rightarrow> int \<Rightarrow> ('w fr, int) act" where
  "get_process_elapsed_sec lib k env pid =
     (if k_socket k \<noteq> [] then
        bindS (observe lib env False) (\<lambda>o1. bindS (liftS (int_at o1 ''protocol_ffmpeg_pid'')) (\<lambda>p.
        if p = pid then bindS (liftS (int_at o1 ''ffmpeg_uptime_sec'')) (\<lambda>n. retS (max 0 n)) else retS 0))
      else if pid \<le> 1 then retS 0 else askF (f_elapsed env pid))"

definition parse_ffmpeg_tcp_metrics :: "pylib \<Rightarrow> fr_config \<Rightarrow> 'w fenv \<Rightarrow> int \<Rightarrow> ('w fr, dict) act" where
  "parse_ffmpeg_tcp_metrics lib k env pid =
     (if k_socket k \<noteq> [] then
        bindS (observe lib env False) (\<lambda>o1. bindS (liftS (int_at o1 ''protocol_ffmpeg_pid'')) (\<lambda>p.
        if p \<noteq> pid then retS [] else bindS (askF (f_tick env)) (\<lambda>tick. retS (bind_runtime_metrics o1 tick))))
      else askF (f_ss env pid))"

fun count_pings :: "'w fenv \<Rightarrow> string list \<Rightarrow> ('w fr, int) act" where
  "count_pings env [] = retS 0"
| "count_pings env (t # ts) = bindS (askF (f_ping env t)) (\<lambda>ok. bindS (count_pings env ts) (\<lambda>n. retS (if ok then n + 1 else n)))"

definition current_network_observation :: "fr_config \<Rightarrow> 'w fenv \<Rightarrow> ('w fr, network_reading) act" where
  "current_network_observation k env =
     bindS (askF (f_gateway env)) (\<lambda>gateway. bindS (if gateway = [] then retS False else askF (f_ping env gateway)) (\<lambda>gateway_ok.
     bindS (count_pings env (k_ping_targets k)) (\<lambda>public_ok. bindS (askF (f_dns env)) (\<lambda>dns. bindS (askF (f_tcp env)) (\<lambda>tcp.
     retS (network_observation gateway gateway_ok public_ok dns tcp))))))"

definition mark_connectivity_wait :: "int \<Rightarrow> network_reading \<Rightarrow> int \<Rightarrow> ('w fr, unit) act" where
  "mark_connectivity_wait now net pid = bindS (updF (\<lambda>d. Inr (mark_wait now net pid d))) emit_all"

definition clear_connectivity_wait :: "int \<Rightarrow> network_reading \<Rightarrow> ('w fr, unit) act" where
  "clear_connectivity_wait now net = bindS (updF (clear_wait now net)) emit_all"

section \<open>Pending recoveries\<close>

definition last16 :: "'a list \<Rightarrow> 'a list" where "last16 xs = drop (length xs - 16) xs"

definition pending_actions :: "dict \<Rightarrow> dict list" where
  "pending_actions d = dict_items (dget d ''pending_recovery_actions'')"

definition set_pending :: "dict list \<Rightarrow> dict \<Rightarrow> dict" where
  "set_pending ps = aset ''pending_recovery_actions'' (events_py (last16 ps))"

definition remember_pending_recovery :: "dict \<Rightarrow> int \<Rightarrow> string \<Rightarrow> string \<Rightarrow> int \<Rightarrow> dict \<Rightarrow> dict" where
  "remember_pending_recovery action now kind reason pid d = set_pending (pending_actions d @
     [aupdate action [(''requested_at_ts'', PInt now), (''trigger'', PStr kind), (''reason'', PStr reason), (''requested_ffmpeg_pid'', PInt pid)]]) d"

text \<open>The local entries by owner; of two with one owner the later counts.\<close>

definition local_pending :: "pylib \<Rightarrow> dict list \<Rightarrow> (string \<times> dict) list" where
  "local_pending lib items = fold (\<lambda>item. aset (str_or_empty lib (py_or (dget item ''recovery_action_id'') (dget item ''owner_request_id''))) item) items []"

definition identity_of_scope :: "dict \<Rightarrow> dict" where
  "identity_of_scope scope = (case dget scope ''identity'' of PDict i \<Rightarrow> i | _ \<Rightarrow> [])"

definition pending_of_scope :: "pylib \<Rightarrow> (string \<times> dict) list \<Rightarrow> dict \<Rightarrow> dict res" where
  "pending_of_scope lib local scope =
     (let owner = str_or_empty lib (dget scope ''owner_request_id''); identity = identity_of_scope scope;
          existing = (case map_of local owner of None \<Rightarrow> [] | Some x \<Rightarrow> x) in
      bindE (int_at identity ''ffmpeg_pid'') (\<lambda>pid.
      Inr (aupdate existing [(''recovery_action_id'', PStr owner), (''owner_request_id'', PStr owner),
        (''owner_request_digest'', PStr (str_or_empty lib (dget scope ''owner_request_digest''))),
        (''effect_scope_id'', PStr (str_or_empty lib (dget scope ''effect_scope_id''))),
        (''executor_scope_state'', PStr (py_str (l_repr lib) (py_or (dget scope ''state'') (PStr ''UNKNOWN'')))),
        (''requested_ffmpeg_pid'', PInt pid), (''requested_ffmpeg_generation'', PStr (str_or_empty lib (dget identity ''ffmpeg_generation''))),
        (''executor_identity'', PDict identity)])))"

definition sync_pending_recovery_from_executor :: "pylib \<Rightarrow> dict list \<Rightarrow> dict \<Rightarrow> (unit \<times> dict) res" where
  "sync_pending_recovery_from_executor lib scopes d =
     bindE (mapE (pending_of_scope lib (local_pending lib (pending_actions d))) scopes) (\<lambda>ps. Inr ((), set_pending ps d))"

text \<open>\<open>EffectClient.execute\<close>: the answer is a JSON object, anything else an exception.\<close>

definition exchange :: "'w fenv \<Rightarrow> bool \<Rightarrow> dict \<Rightarrow> ('w fr, dict) act" where
  "exchange env escalation request = bindS (askF (f_exchange env escalation request)) (\<lambda>v. case v of
     PDict xs \<Rightarrow> retS xs | _ \<Rightarrow> raiseS (ValueError ''RESPONSE_INVALID''))"

text \<open>Nothing when the ledger could not be read.\<close>

definition read_executor_unresolved_scopes :: "pylib \<Rightarrow> fr_config \<Rightarrow> 'w fenv \<Rightarrow> ('w fr, dict list option) act" where
  "read_executor_unresolved_scopes lib k env =
     (if k_socket k = [] then retS (Some [])
      else bindS (catch_all (bindS (exchange env False UNRESOLVED_QUERY) (\<lambda>r. bindS (liftS (unresolved_of r)) (\<lambda>scopes. retS (Some scopes))))
         (\<lambda>e. bindS (say (''effect ledger unavailable; new action suppressed: '' @ f_type env e)) (\<lambda>_. retS None))) (\<lambda>r. case r of
           None \<Rightarrow> retS None
         | Some scopes \<Rightarrow> bindS (updF (sync_pending_recovery_from_executor lib scopes)) (\<lambda>_. retS (Some scopes))))"

section \<open>Policy and authority\<close>

definition record_typed_policy_decision :: "pylib \<Rightarrow> fr_config \<Rightarrow> 'w fenv \<Rightarrow> string \<Rightarrow> ('w fr, intent_decision) act" where
  "record_typed_policy_decision lib k env kind =
     bindS (if k_runtime_mode k \<noteq> ''LEGACY'' then observe lib env False else retS []) (\<lambda>o1.
     let dec = select_recovery_intent lib kind o1 in
     bindS (if k_runtime_mode k \<noteq> ''LEGACY''
            then emit ''typed_policy_decision'' (d_decision_reason dec) (aset ''physical_effect_count'' (PInt 0) (decision_dict dec)) else retS ()) (\<lambda>_.
     retS dec))"

definition planned_recovery_scope :: "pylib \<Rightarrow> fr_config \<Rightarrow> 'w fenv \<Rightarrow> string \<Rightarrow> ('w fr, string) act" where
  "planned_recovery_scope lib k env kind =
     (if k_socket k \<noteq> [] then bindS (observe lib env False) (\<lambda>o1. retS (d_effect_scope (select_recovery_intent lib kind o1)))
      else retS (if k8s_supervisor_active k \<and> kind \<in> {''tcp_stall'', ''remote_warning''} then ''ffmpeg_child'' else ''runtime''))"

definition effect_authority_active :: "pylib \<Rightarrow> fr_config \<Rightarrow> 'w fenv \<Rightarrow> ('w fr, bool) act" where
  "effect_authority_active lib k env =
     (if k_socket k = [] then retS (k_authority_mode k \<noteq> ''SHADOW_ONLY'')
      else if k_authority_mode k = ''SHADOW_ONLY'' then retS False
      else if k_authority_mode k \<noteq> ''AUTO_FENCED'' then retS True
      else bindS (observe lib env False) (\<lambda>o1.
        if str_or_empty lib (dget o1 ''active_producer_id'') \<noteq> k_producer_id k then retS False
        else bindS (liftS (int_at o1 ''active_producer_generation'')) (\<lambda>g. retS (g = k_producer_generation k))))"

definition validate_controller_runtime_contract :: "fr_config \<Rightarrow> unit res" where
  "validate_controller_runtime_contract k =
     bindE (requireE (k_enforcement k \<notin> set truth_words) (RuntimeError ''P2_ENFORCEMENT_NOT_AUTHORIZED'')) (\<lambda>_.
     if k_runtime_mode k = ''SHADOW_OBSERVER_ONLY'' then
       bindE (requireE (k_authority_mode k = ''SHADOW_ONLY'') (RuntimeError ''SHADOW_CONTROLLER_AUTHORITY_MODE_INVALID'')) (\<lambda>_.
       requireE (\<not> k_gpu_preflight k) (RuntimeError ''SHADOW_CONTROLLER_GPU_PREFLIGHT_CAPABILITY_NOT_ALLOWED''))
     else if k_runtime_mode k = ''NARROW_EXECUTOR_ONLY'' then
       bindE (requireE (k_socket k \<noteq> []) (RuntimeError ''EFFECT_EXECUTOR_SOCKET_REQUIRED'')) (\<lambda>_.
       requireE (k_authority_mode k = ''AUTO_FENCED'') (RuntimeError ''AUTO_FENCED_AUTHORITY_REQUIRED''))
     else Inr ())"

definition new_recovery_action :: "fr_config \<Rightarrow> 'w fenv \<Rightarrow> int \<Rightarrow> string \<Rightarrow> int \<Rightarrow> int \<Rightarrow> string \<Rightarrow> bool \<Rightarrow> ('w fr, dict) act" where
  "new_recovery_action k env now kind first pid scope active =
     bindS (askF (f_uuid env)) (\<lambda>u. retS
       [(''recovery_action_id'', PStr (''fra-'' @ shown now @ ''-'' @ take 12 u)), (''controller_id'', PStr (k_controller_id k)),
        (''execution_mode'', PStr (k_execution_mode k)), (''execute'', PBool active),
        (''idempotency_key'', PStr (k_controller_id k @ '':'' @ scope @ '':'' @ shown pid @ '':'' @ (if kind = [] then ''unknown'' else kind))),
        (''requested_signal'', PStr (if scope = ''ffmpeg_child'' then ''SIGTERM'' else [])), (''recovery_scope'', PStr scope),
        (''recovery_episode_started_ts'', PInt (if first \<noteq> 0 then first else now))])"

section \<open>Carrying out a recovery\<close>

definition note_effect :: "effect_call \<Rightarrow> string \<Rightarrow> ('w fr, unit) act" where
  "note_effect call kind = modS (\<lambda>s. s\<lparr>fr_effects := fr_effects s @
     [\<lparr>fx_call = call, fx_kind = kind, fx_now = fr_now s, fx_state = fr_state s\<rparr>]\<rparr>)"

definition execute_typed_effect_request ::
    "pylib \<Rightarrow> fr_config \<Rightarrow> 'w fenv \<Rightarrow> bool \<Rightarrow> string \<Rightarrow> string \<Rightarrow> string \<Rightarrow> string \<Rightarrow> string \<Rightarrow> ('w fr, dict) act" where
  "execute_typed_effect_request lib k env escalation kind intent domain reason correlation =
     bindS (observe lib env escalation) (\<lambda>o1. case missing_for lib intent o1 of
       Some why \<Rightarrow> retS (refused_answer why)
     | None \<Rightarrow> bindS (askF (f_now env)) (\<lambda>now.
         bindS (if correlation \<noteq> [] then retS correlation else bindS (askF (f_uuid env)) (\<lambda>u. retS (''fra-'' @ u))) (\<lambda>op_id.
         bindS (liftS (typed_request lib o1 now op_id (k_producer_id k) (k_producer_generation k) intent domain reason)) (\<lambda>request.
         bindS (note_effect (TypedRequest escalation request) kind) (\<lambda>_. exchange env escalation request)))))"

definition answer_detail :: "pylib \<Rightarrow> dict \<Rightarrow> string" where
  "answer_detail lib response = py_str (l_repr lib) (dget_or response ''state'' (PStr ''UNKNOWN'')) @ '': '' @
     py_str (l_repr lib) (dget_or response ''reason'' (PStr ''UNKNOWN''))"

definition retry_of :: "dict \<Rightarrow> bool option" where
  "retry_of response = (case dget response ''automatic_retry'' of PBool b \<Rightarrow> Some b | _ \<Rightarrow> None)"

definition restart_ffmpeg_child :: "'w fenv \<Rightarrow> string \<Rightarrow> int \<Rightarrow> string \<Rightarrow> ('w fr, bool \<times> string) act" where
  "restart_ffmpeg_child env kind pid reason =
     (if pid \<le> 1 then bindS (audit_mp03 env ''EFFECT_RETURNED'' ''restart_ffmpeg'') (\<lambda>_. retS (False, ''invalid ffmpeg pid''))
      else bindS (audit_mp03 env ''EFFECT_BOUNDARY'' ''restart_ffmpeg'') (\<lambda>_. bindS (note_effect (SignalChild pid) kind) (\<lambda>_.
        bindS (askF (f_signal env pid reason)) (\<lambda>r. bindS (audit_mp03 env ''EFFECT_RETURNED'' ''restart_ffmpeg'') (\<lambda>_. retS r)))))"

definition restart_stream :: "'w fenv \<Rightarrow> string \<Rightarrow> string \<Rightarrow> ('w fr, bool \<times> string) act" where
  "restart_stream env kind reason =
     bindS (audit_mp03 env ''EFFECT_BOUNDARY'' ''restart_runtime'') (\<lambda>_. bindS (note_effect RestartUnit kind) (\<lambda>_.
     bindS (askF (f_restart_unit env reason)) (\<lambda>r. bindS (audit_mp03 env ''EFFECT_RETURNED'' ''restart_runtime'') (\<lambda>_. retS r))))"

text \<open>Whether it went well, the detail, the scope, and what the executor says about an automatic retry. \<open>configured_paths\<close> reads
  the environment itself, without the default the module has for the observation file.\<close>

definition execute_recovery_action_with_policy ::
    "pylib \<Rightarrow> fr_config \<Rightarrow> 'w fenv \<Rightarrow> string \<Rightarrow> string \<Rightarrow> int \<Rightarrow> string \<Rightarrow> ('w fr, bool \<times> string \<times> string \<times> bool option) act" where
  "execute_recovery_action_with_policy lib k env kind reason pid correlation =
     (if k_socket k \<noteq> [] then
        bindS (observe lib env False) (\<lambda>o1. let dec = select_recovery_intent lib kind o1 in
        if d_intent_type dec = NO_ACTION then retS (False, ''typed policy no action: '' @ d_decision_reason dec, ''none'', None)
        else bindS (requireS (k_observation_set k) KeyError) (\<lambda>_.
          catch_all
            (bindS (execute_typed_effect_request lib k env (d_intent_type dec = ESCALATE_RUNTIME_RECOVERY) kind (d_intent_type dec)
                (d_failure_domain dec) reason correlation) (\<lambda>r.
             retS (py_truthy (dget r ''ok''), answer_detail lib r, d_effect_scope dec, retry_of r)))
            (\<lambda>e. retS (False, ''typed effect executor unavailable: '' @ f_type env e, d_effect_scope dec, None))))
      else
        (let child = (k8s_supervisor_active k \<and> kind \<in> {''tcp_stall'', ''remote_warning''}) in
         bindS (audit_mp03 env ''ADMISSION'' (if child then ''restart_ffmpeg'' else ''restart_runtime'')) (\<lambda>_.
         if child then bindS (restart_ffmpeg_child env kind pid reason) (\<lambda>(ok, detail). retS (ok, detail, ''ffmpeg_child'', None))
         else bindS (restart_stream env kind reason) (\<lambda>(ok, detail). retS (ok, detail, ''runtime'', None)))))"

section \<open>Events of a recovery\<close>

definition append_recovery_requested :: "dict \<Rightarrow> string \<Rightarrow> string \<Rightarrow> int \<Rightarrow> int \<Rightarrow> dict \<Rightarrow> ('w fr, unit) act" where
  "append_recovery_requested action kind reason pid uptime metrics = emit ''recovery_requested'' reason
     (aupdate action [(''trigger'', PStr kind), (''ffmpeg_pid'', PInt pid), (''ffmpeg_uptime_sec'', PInt uptime), (''transport_snapshot'', PDict metrics)])"

definition opt_bool :: "bool option \<Rightarrow> py" where
  "opt_bool b = (case b of None \<Rightarrow> PNone | Some x \<Rightarrow> PBool x)"

definition append_recovery_dispatch_result :: "pylib \<Rightarrow> dict \<Rightarrow> string \<Rightarrow> string \<Rightarrow> int \<Rightarrow> bool \<Rightarrow> string \<Rightarrow> bool option \<Rightarrow> ('w fr, unit) act" where
  "append_recovery_dispatch_result lib action kind reason pid ok detail retry =
     (let scope = py_str (l_repr lib) (py_or (dget action ''recovery_scope'') (PStr ''runtime'')) in
      emit (if \<not> ok \<and> retry = Some False then ''recovery_outcome_unknown'' else if \<not> ok then ''recovery_action_failed''
            else if scope = ''ffmpeg_child'' then ''recovery_signal_sent'' else ''recovery_action_dispatched'') reason
        (aupdate action [(''trigger'', PStr kind), (''ffmpeg_pid'', PInt pid), (''dispatch_ok'', PBool ok), (''automatic_retry'', opt_bool retry),
          (''process_still_running_after_dispatch'', PBool (ok \<and> scope = ''ffmpeg_child'' \<and> contains ''owns final child cleanup'' detail)),
          (''detail'', PStr detail)]))"

definition add_restart :: "pylib \<Rightarrow> fr_config \<Rightarrow> int \<Rightarrow> string \<Rightarrow> dict list \<Rightarrow> dict list res" where
  "add_restart lib k now kind events = trim_restart_events lib (events_py (events @
     [[(''ts'', PInt now), (''downtime_sec'', PInt (k_restart_cost k)), (''reason'', PStr kind)]])) now (k_restart_cost k)"

definition unknown_if_empty :: "string \<Rightarrow> string" where "unknown_if_empty kind = (if kind = [] then ''unknown'' else kind)"

definition record_unresolved_recovery_dispatch ::
    "pylib \<Rightarrow> fr_config \<Rightarrow> dict \<Rightarrow> int \<Rightarrow> string \<Rightarrow> string \<Rightarrow> int \<Rightarrow> string \<Rightarrow> dict list \<Rightarrow> ('w fr, unit) act" where
  "record_unresolved_recovery_dispatch lib k action now kind reason pid detail events =
     bindS (putF (remember_pending_recovery action now kind reason pid)) (\<lambda>_.
     bindS (liftS (add_restart lib k now (unknown_if_empty kind) events)) (\<lambda>es.
     putF (\<lambda>d. aupdate d [(''restart_events'', events_py es), (''last_restart_ts'', PInt now), (''last_restart_failure_ts'', PInt 0),
       (''restart_failure_count'', PInt 0), (''last_reason'', PStr (''effect outcome unresolved; automatic retry suppressed: '' @ detail))])))"

definition write_transport_snapshot ::
    "fr_config \<Rightarrow> 'w fenv \<Rightarrow> int \<Rightarrow> int \<Rightarrow> int \<Rightarrow> tcp_reading \<Rightarrow> network_reading \<Rightarrow> bool \<Rightarrow> ('w fr, dict) act" where
  "write_transport_snapshot k env now pid uptime tcp net warning =
     bindS (liftS (restart_metrics tcp (nr_down net) warning)) (\<lambda>metrics.
     bindS (catchS (askF (f_write_snapshot env)) (\<lambda>e. if is_exception e then retS () else raiseS e)) (\<lambda>_. retS
       [(''ts_utc'', PStr (f_utc_text env now)), (''controller_id'', PStr (k_controller_id k)), (''ffmpeg_pid'', PInt pid),
        (''ffmpeg_uptime_sec'', PInt uptime), (''metrics'', PDict metrics),
        (''network'', PDict [(''gateway_ok'', PBool (nr_gateway_ok net)), (''public_ok_count'', PInt (nr_public_ok net)),
           (''dns_ok'', PBool (nr_dns_ok net)), (''tcp_probe_ok'', PBool (nr_tcp_ok net)), (''network_down'', PBool (nr_down net))])]))"

section \<open>Recoveries that completed\<close>

definition sub_dict :: "dict \<Rightarrow> string \<Rightarrow> dict" where
  "sub_dict d key = (case dget d key of PDict x \<Rightarrow> x | _ \<Rightarrow> [])"

text \<open>The snapshot shows progress on a working network.\<close>

definition transport_proven :: "dict \<Rightarrow> bool res" where
  "transport_proven snapshot = bindE (int_at (sub_dict snapshot ''metrics'') ''bytes_sent'') (\<lambda>n.
     Inr (n > 0 \<and> \<not> py_truthy (dget (sub_dict snapshot ''network'') ''network_down'') \<and>
       py_truthy (dget (sub_dict snapshot ''network'') ''tcp_probe_ok'')))"

text \<open>Whether the item still waits: it asked about the FFmpeg process that is running.\<close>

definition still_pending :: "int \<Rightarrow> dict \<Rightarrow> bool res" where
  "still_pending pid item = bindE (int_at item ''requested_ffmpeg_pid'') (\<lambda>p. Inr (p > 1 \<and> p = pid))"

fun split_pending :: "int \<Rightarrow> dict list \<Rightarrow> (dict list \<times> dict list) res" where
  "split_pending pid [] = Inr ([], [])"
| "split_pending pid (x # xs) = bindE (still_pending pid x) (\<lambda>w. bindE (split_pending pid xs) (\<lambda>(done1, rest).
     Inr (if w then (done1, x # rest) else (x # done1, rest))))"

definition ACTION_FIELDS :: "string list" where
  "ACTION_FIELDS = [''recovery_action_id'', ''controller_id'', ''execution_mode'', ''execute'', ''idempotency_key'', ''requested_signal'', ''recovery_scope'', ''trigger'']"

definition completed_event :: "pylib \<Rightarrow> int \<Rightarrow> int \<Rightarrow> int \<Rightarrow> dict \<Rightarrow> dict \<Rightarrow> dict list \<Rightarrow> dict \<Rightarrow> event res" where
  "completed_event lib now pid uptime snapshot hint completed item =
     bindE (int_at item ''requested_ffmpeg_pid'') (\<lambda>requested.
     bindE (py_int (py_or (dget_or item ''requested_at_ts'' (PInt now)) (PInt now))) (\<lambda>at0.
     Inr (''recovery_completed'', py_str (l_repr lib) (py_or (dget item ''reason'') (PStr ''recovery completed'')),
       map (\<lambda>f. (f, dget item f)) ACTION_FIELDS
       @ [(''requested_ffmpeg_pid'', PInt requested), (''ffmpeg_pid'', PInt pid), (''ffmpeg_uptime_sec'', PInt uptime),
          (''recovery_elapsed_sec'', PInt (max 0 (now - at0))),
          (''same_idempotency_action_count'', PInt (int (length (filter (\<lambda>x. py_eq (dget x ''idempotency_key'') (dget item ''idempotency_key'')) completed)))),
          (''transport_snapshot'', PDict snapshot), (''youtube_hint'', PDict hint)])))"

fun emit_completed :: "pylib \<Rightarrow> int \<Rightarrow> int \<Rightarrow> int \<Rightarrow> dict \<Rightarrow> dict \<Rightarrow> dict list \<Rightarrow> dict list \<Rightarrow> ('w fr, unit) act" where
  "emit_completed lib now pid uptime snapshot hint completed [] = retS ()"
| "emit_completed lib now pid uptime snapshot hint completed (x # xs) =
     bindS (liftS (completed_event lib now pid uptime snapshot hint completed x)) (\<lambda>e.
     bindS (emit_all [e]) (\<lambda>_. emit_completed lib now pid uptime snapshot hint completed xs))"

definition maybe_record_recovery_completed :: "pylib \<Rightarrow> int \<Rightarrow> int \<Rightarrow> int \<Rightarrow> dict \<Rightarrow> dict \<Rightarrow> ('w fr, unit) act" where
  "maybe_record_recovery_completed lib now pid uptime snapshot hint =
     bindS (getS (\<lambda>s. pending_actions (fr_state s))) (\<lambda>pending.
     if pending = [] \<or> pid \<le> 1 then retS ()
     else bindS (liftS (transport_proven snapshot)) (\<lambda>ok. if \<not> ok then retS ()
     else bindS (liftS (split_pending pid pending)) (\<lambda>(completed, remaining).
       bindS (emit_completed lib now pid uptime snapshot hint completed completed) (\<lambda>_. putF (set_pending remaining)))))"

definition STABLE_FIELDS :: "string list" where
  "STABLE_FIELDS = [''host_id'', ''host_boot_id'', ''namespace'', ''pod_uid'', ''container_name'', ''container_id'']"

text \<open>The unresolved scope is about an FFmpeg process that the observed one, in the same container, has replaced.\<close>

definition replaced_target :: "pylib \<Rightarrow> dict \<Rightarrow> dict \<Rightarrow> bool res" where
  "replaced_target lib prior observed =
     (if \<exists>f \<in> set STABLE_FIELDS. \<not> py_eq (dget prior f) (dget observed f) then Inr False
      else bindE (int_at prior ''ffmpeg_pid'') (\<lambda>p. bindE (int_at observed ''ffmpeg_pid'') (\<lambda>q.
        Inr (p \<noteq> q \<and> str_or_empty lib (dget prior ''ffmpeg_generation'') \<noteq> str_or_empty lib (dget observed ''ffmpeg_generation'')))))"

definition transport_claim :: "dict \<Rightarrow> dict res" where
  "transport_claim snapshot = bindE (int_at (sub_dict snapshot ''metrics'') ''bytes_sent'') (\<lambda>n.
     Inr [(''bytes_sent'', PInt n), (''network_down'', PBool (py_truthy (dget (sub_dict snapshot ''network'') ''network_down''))),
       (''tcp_probe_ok'', PBool (py_truthy (dget (sub_dict snapshot ''network'') ''tcp_probe_ok'')))])"

definition reconcile_scope :: "pylib \<Rightarrow> 'w fenv \<Rightarrow> int \<Rightarrow> int \<Rightarrow> int \<Rightarrow> dict \<Rightarrow> dict \<Rightarrow> dict \<Rightarrow> dict \<Rightarrow> dict \<Rightarrow> ('w fr, bool) act" where
  "reconcile_scope lib env now pid uptime o1 observed snapshot hint scope = (case dget scope ''identity'' of
       PDict prior \<Rightarrow>
         bindS (liftS (replaced_target lib prior observed)) (\<lambda>go. if \<not> go then retS False
         else bindS (catch_all (bindS (liftS (transport_claim snapshot)) (\<lambda>claim. bindS (askF (f_now env)) (\<lambda>at0.
             bindS (liftS (reconciliation_request lib scope o1 claim at0)) (\<lambda>request.
             bindS (exchange env False request) (\<lambda>r. retS (Some r))))))
           (\<lambda>e. bindS (say (''effect reconciliation pending: '' @ f_type env e)) (\<lambda>_. retS None))) (\<lambda>answer. case answer of
             None \<Rightarrow> retS False
           | Some r \<Rightarrow>
               if dget r ''ok'' \<noteq> PBool True \<or> dget r ''state'' \<noteq> PStr ''RECONCILED_EFFECT_OBSERVED''
               then bindS (say (''effect reconciliation rejected: '' @ py_str (l_repr lib) (dget_or r ''reason'' (PStr ''UNKNOWN'')))) (\<lambda>_. retS False)
               else bindS (liftS (int_at prior ''ffmpeg_pid'')) (\<lambda>p.
                 bindS (liftS (parse_iso_ts lib (str_or_empty lib (dget scope ''created_at'')))) (\<lambda>created.
                 bindS (emit ''recovery_completed'' ''delayed FFmpeg exit reconciled from executor ledger''
                   [(''recovery_action_id'', dget scope ''owner_request_id''), (''effect_scope_id'', dget scope ''effect_scope_id''),
                    (''reconciliation_id'', dget r ''reconciliation_id''), (''reconciliation_evidence_digest'', dget r ''evidence_digest''),
                    (''requested_ffmpeg_pid'', PInt p), (''requested_ffmpeg_generation'', PStr (str_or_empty lib (dget prior ''ffmpeg_generation''))),
                    (''ffmpeg_pid'', PInt pid), (''ffmpeg_uptime_sec'', PInt uptime), (''recovery_elapsed_sec'', PInt (max 0 (now - created))),
                    (''same_idempotency_action_count'', PInt 1), (''transport_snapshot'', PDict snapshot), (''youtube_hint'', PDict hint),
                    (''append_only_reconciliation'', PBool True), (''automatic_retry_count'', PInt 0)]) (\<lambda>_. retS True)))))
     | _ \<Rightarrow> retS False)"

fun reconcile_scopes :: "pylib \<Rightarrow> 'w fenv \<Rightarrow> int \<Rightarrow> int \<Rightarrow> int \<Rightarrow> dict \<Rightarrow> dict \<Rightarrow> dict \<Rightarrow> dict \<Rightarrow> dict list \<Rightarrow> ('w fr, bool) act" where
  "reconcile_scopes lib env now pid uptime o1 observed snapshot hint [] = retS False"
| "reconcile_scopes lib env now pid uptime o1 observed snapshot hint (s # ss) =
     bindS (reconcile_scope lib env now pid uptime o1 observed snapshot hint s) (\<lambda>a.
     bindS (reconcile_scopes lib env now pid uptime o1 observed snapshot hint ss) (\<lambda>b. retS (a \<or> b)))"

definition maybe_reconcile_delayed_executor_effects ::
    "pylib \<Rightarrow> 'w fenv \<Rightarrow> dict list \<Rightarrow> int \<Rightarrow> int \<Rightarrow> int \<Rightarrow> dict \<Rightarrow> dict \<Rightarrow> ('w fr, bool) act" where
  "maybe_reconcile_delayed_executor_effects lib env scopes now pid uptime snapshot hint =
     (if scopes = [] \<or> pid \<le> 1 then retS False
      else bindS (observe lib env False) (\<lambda>o1. case dget o1 ''target_identity'' of
          PDict observed \<Rightarrow> bindS (liftS (transport_proven snapshot)) (\<lambda>ok.
            if \<not> ok then retS False else reconcile_scopes lib env now pid uptime o1 observed snapshot hint scopes)
        | _ \<Rightarrow> retS False))"

section \<open>Gates before a recovery\<close>

text \<open>An event that repeats is recorded again after a minute at the earliest; \<open>key\<close> and \<open>ts\<close> name where the last one is kept.\<close>

definition record_once :: "pylib \<Rightarrow> 'w fenv \<Rightarrow> string \<Rightarrow> string \<Rightarrow> string \<Rightarrow> event \<Rightarrow> ('w fr, unit) act" where
  "record_once lib env key ts block_key e =
     bindS (askF (f_time env)) (\<lambda>now. bindS (lookF (\<lambda>d. Inr (str_at lib d key))) (\<lambda>last_key. bindS (lookF (\<lambda>d. int_at d ts)) (\<lambda>last_ts.
     if block_key \<noteq> last_key \<or> now - last_ts \<ge> 60
     then bindS (emit_all [e]) (\<lambda>_. putF (\<lambda>d. aset ts (PInt now) (aset key (PStr block_key) d))) else retS ())))"

definition maybe_record_budget_block :: "pylib \<Rightarrow> 'w fenv \<Rightarrow> string \<Rightarrow> string \<Rightarrow> dict \<Rightarrow> ('w fr, unit) act" where
  "maybe_record_budget_block lib env block_key reason extra =
     record_once lib env ''last_budget_block_key'' ''last_budget_block_ts'' block_key (''restart_budget_block'', reason, extra)"

definition maybe_record_budget_override :: "pylib \<Rightarrow> 'w fenv \<Rightarrow> string \<Rightarrow> string \<Rightarrow> dict \<Rightarrow> ('w fr, unit) act" where
  "maybe_record_budget_override lib env block_key reason extra =
     record_once lib env ''last_budget_override_key'' ''last_budget_override_ts'' block_key (''restart_budget_override'', reason, extra)"

text \<open>One budget: the reason it blocks the restart, or nothing.\<close>

definition budget_gate :: "pylib \<Rightarrow> fr_config \<Rightarrow> 'w fenv \<Rightarrow> bool \<Rightarrow> string \<Rightarrow> string \<Rightarrow> int \<Rightarrow> int \<Rightarrow> string \<times> int \<times> int \<times> int \<Rightarrow> ('w fr, string option) act" where
  "budget_gate lib k env with_window kind reason first now b = (case b of (name, used, budget, window) \<Rightarrow>
     if budget > 0 \<and> used + k_restart_cost k > budget then
       (let block = name @ '' downtime budget exceeded ('' @ shown used @ ''+'' @ shown (k_restart_cost k) @ ''>'' @ shown budget @ ''s)'';
            block_key = name @ '':'' @ shown used @ '':'' @ kind; w = (if with_window then [(''window_sec'', PInt window)] else []) in
        if emergency_budget_override_active kind first now (k_override_after k)
        then bindS (maybe_record_budget_override lib env block_key (block @ ''; emergency override after '' @ shown (now - first) @ ''s'')
          ([(''trigger'', PStr kind), (''reason'', PStr reason), (''reason_first_ts'', PInt first)] @ w @ [(''override_after_sec'', PInt (k_override_after k))])) (\<lambda>_. retS None)
        else bindS (maybe_record_budget_block lib env block_key block ([(''trigger'', PStr kind), (''reason'', PStr reason)] @ w)) (\<lambda>_. retS (Some block)))
     else retS None)"

definition budget_gates :: "pylib \<Rightarrow> fr_config \<Rightarrow> 'w fenv \<Rightarrow> bool \<Rightarrow> string \<Rightarrow> string \<Rightarrow> int \<Rightarrow> int \<Rightarrow> int \<Rightarrow> int \<Rightarrow> ('w fr, string option) act" where
  "budget_gates lib k env with_window kind reason first now used_hour used_day =
     bindS (budget_gate lib k env with_window kind reason first now (''hourly'', used_hour, k_hourly_budget k, 3600)) (\<lambda>r. case r of
       Some block \<Rightarrow> retS (Some block)
     | None \<Rightarrow> budget_gate lib k env with_window kind reason first now (''daily'', used_day, k_daily_budget k, 86400))"

definition runtime_gpu_restart_block :: "pylib \<Rightarrow> fr_config \<Rightarrow> 'w fenv \<Rightarrow> ('w fr, dict) act" where
  "runtime_gpu_restart_block lib k env =
     (if k_socket k \<noteq> [] then
        bindS (observe lib env False) (\<lambda>o1. retS (if o1 = []
          then [(''available'', PBool False), (''status'', PStr ''runtime_observation_unavailable''), (''restart_blocked'', PBool False),
            (''error'', PStr ''effect executor performs target validation'')]
          else [(''available'', PBool True), (''status'', PStr (if py_truthy (dget o1 ''ffmpeg_running'') then ''stream_engine_owner_active'' else ''ffmpeg_missing'')),
            (''restart_blocked'', PBool False), (''stream_engine_running'', PBool True), (''effect_executor_revalidates_target'', PBool True)]))
      else if \<not> k_gpu_preflight k \<or> \<not> k8s_supervisor_active k then retS []
      else askF (f_gpu env))"

definition block_restart_if_gpu_preflight_fails :: "pylib \<Rightarrow> fr_config \<Rightarrow> 'w fenv \<Rightarrow> string \<Rightarrow> string \<Rightarrow> ('w fr, bool) act" where
  "block_restart_if_gpu_preflight_fails lib k env trigger reason =
     bindS (runtime_gpu_restart_block lib k env) (\<lambda>gpu. if \<not> py_truthy (dget gpu ''restart_blocked'') then retS False
     else (let sh = (\<lambda>v. py_str (l_repr lib) v); why = py_or (dget gpu ''restart_block_reason'') (dget gpu ''status'') in
       bindS (record_once lib env ''last_gpu_restart_block_key'' ''last_gpu_restart_block_ts''
         (trigger @ '':'' @ sh (dget gpu ''status'') @ '':'' @ sh (dget gpu ''restart_block_reason''))
         (''restart_blocked_gpu'', sh (py_or why (PStr ''gpu preflight blocked restart'')),
          [(''trigger'', PStr trigger), (''reason'', PStr reason), (''gpu_status'', PDict gpu)])) (\<lambda>_.
       bindS (say (''restart blocked by GPU preflight: '' @ sh (py_or why (PStr ''gpu preflight'')))) (\<lambda>_. retS True))))"

definition current_stream_establishment :: "pylib \<Rightarrow> fr_config \<Rightarrow> 'w fenv \<Rightarrow> ('w fr, dict) act" where
  "current_stream_establishment lib k env =
     (if k_socket k \<noteq> [] then
        bindS (observe lib env False) (\<lambda>o1. retS (if o1 = []
          then [(''established'', PBool False), (''reason'', PStr ''runtime observation unavailable'')]
          else [(''established'', PBool (py_truthy (dget o1 ''stream_established''))),
            (''reason'', PStr (if py_truthy (dget o1 ''stream_established'') then ''stream-engine reports established FFmpeg delivery''
               else ''stream-engine has not established FFmpeg delivery'')),
            (''pod_uid'', PStr (str_or_empty lib (dget o1 ''pod_uid''))), (''pod_name'', PStr (str_or_empty lib (dget o1 ''pod_name'')))]))
      else if \<not> k_require_established k \<or> \<not> k8s_supervisor_active k
      then retS [(''established'', PBool True), (''reason'', PStr ''current Pod establishment gate disabled'')]
      else askF (f_established env))"

definition block_ffmpeg_missing_restart_before_established :: "pylib \<Rightarrow> fr_config \<Rightarrow> 'w fenv \<Rightarrow> string \<Rightarrow> ('w fr, bool) act" where
  "block_ffmpeg_missing_restart_before_established lib k env reason =
     bindS (current_stream_establishment lib k env) (\<lambda>est. if py_truthy (dget est ''established'') then retS False
     else (let detail = py_str (l_repr lib) (py_or (dget est ''reason'') (PStr ''current Pod has not established streaming'')) in
       bindS (record_once lib env ''last_startup_restart_block_key'' ''last_startup_restart_block_ts'' (''ffmpeg_missing:'' @ detail)
         (''restart_blocked_startup'', detail, [(''trigger'', PStr ''ffmpeg_missing''), (''reason'', PStr reason), (''establishment'', PDict est)])) (\<lambda>_.
       bindS (say (''restart blocked before current Pod established streaming: '' @ detail)) (\<lambda>_. retS True))))"

definition maybe_append_tcp_send_sample :: "pylib \<Rightarrow> fr_config \<Rightarrow> int \<Rightarrow> int \<Rightarrow> int \<Rightarrow> dict \<Rightarrow> ('w fr, unit) act" where
  "maybe_append_tcp_send_sample lib k now pid bytes_sent metrics =
     (if k_socket k \<noteq> [] then
        bindS (updF (\<lambda>d. Inr (source_timed_sample lib pid bytes_sent metrics (k_send_sample_log k) d))) (\<lambda>p. case p of
          None \<Rightarrow> retS () | Some payload \<Rightarrow> emit ''tcp_send_sample'' ''ffmpeg tcp send sample'' payload)
      else if k_send_sample_log k \<le> 0 \<or> pid \<le> 1 \<or> metrics = [] then retS ()
      else
        (let keep = putF (\<lambda>d. aset ''last_tcp_send_sample_bytes_sent'' (PInt bytes_sent) (aset ''last_tcp_send_sample_pid'' (PInt pid)
           (aset ''last_tcp_send_sample_ts'' (PInt now) d))) in
         bindS (lookF (\<lambda>d. int_at d ''last_tcp_send_sample_pid'')) (\<lambda>last_pid. bindS (lookF (\<lambda>d. int_at d ''last_tcp_send_sample_ts'')) (\<lambda>last_ts.
         bindS (lookF (\<lambda>d. int_at d ''last_tcp_send_sample_bytes_sent'')) (\<lambda>last_bytes.
         if last_pid \<noteq> pid \<or> last_ts \<le> 0 \<or> last_bytes \<le> 0 \<or> bytes_sent < last_bytes then keep
         else if max 0 (now - last_ts) < k_send_sample_log k then retS ()
         else (let elapsed = max 0 (now - last_ts); delta = max 0 (bytes_sent - last_bytes) in
           bindS (liftS (mapE (\<lambda>f. bindE (int_at metrics f) (\<lambda>n. Inr (f, PInt n))) [''bytes_acked'', ''send_q'', ''notsent'', ''unacked'', ''lastsnd_ms'', ''rto_ms''])) (\<lambda>counts.
           bindS (emit ''tcp_send_sample'' ''ffmpeg tcp send sample''
             ([(''ffmpeg_pid'', PInt pid), (''sample_interval_sec'', PInt elapsed), (''bytes_sent_delta'', PInt delta), (''bytes_sent'', PInt bytes_sent),
               (''mbps'', PFloat (Fin (if elapsed > 0 then py_round 3 (of_int (delta * 8) / of_int (elapsed * 1000000)) else 0)))]
              @ counts @ [(''conn'', PStr (py_str (l_repr lib) (py_or (dget_or metrics ''conn'' (PStr [])) (PStr []))))])) (\<lambda>_. keep))))))))"

section \<open>The outcome of a recovery\<close>

definition ZERO_SAMPLE :: dict where
  "ZERO_SAMPLE = [(''last_tcp_send_sample_pid'', PInt 0), (''last_tcp_send_sample_bytes_sent'', PInt 0)]"

definition NO_WARNING :: dict where
  "NO_WARNING = [(''net_fail_streak'', PInt 0), (''stall_streak'', PInt 0), (''low_upload_pressure_streak'', PInt 0), (''remote_warning_streak'', PInt 0),
     (''remote_warning_last_sample_key'', PStr []), (''remote_warning_last_probe_ts'', PInt 0), (''remote_warning_context_key'', PStr []),
     (''remote_warning_recovery_episode_id'', PStr []), (''remote_warning_ffmpeg_generation'', PStr [])]"

text \<open>What the state holds after a restart in the live branch, carried out or only planned by an inactive producer.\<close>

definition after_restart :: "int \<Rightarrow> dict list \<Rightarrow> string \<Rightarrow> dict \<Rightarrow> dict" where
  "after_restart now es reason d =
     aupdate (clear_recovery_streaks (aupdate d [(''restart_events'', events_py es), (''last_restart_ts'', PInt now),
         (''last_restart_failure_ts'', PInt 0), (''restart_failure_count'', PInt 0)]))
       ([(''last_bytes_sent'', PInt 0), (''last_bytes_sent_ts'', PInt 0)] @ ZERO_SAMPLE @ [(''last_reason'', PStr reason)])"

section \<open>FFmpeg is missing\<close>

definition plan_operation :: "fr_config \<Rightarrow> string \<Rightarrow> intent_decision \<Rightarrow> string" where
  "plan_operation k kind dec = (if k_socket k \<noteq> [] then lower_ascii (d_intent_type dec)
     else if k8s_supervisor_active k \<and> kind \<in> {''tcp_stall'', ''remote_warning''} then ''restart_ffmpeg'' else ''restart_runtime'')"

definition missing_outcome ::
    "pylib \<Rightarrow> fr_config \<Rightarrow> int \<Rightarrow> int \<Rightarrow> string \<Rightarrow> dict list \<Rightarrow> dict \<Rightarrow> bool \<Rightarrow> dict \<Rightarrow> bool \<times> string \<times> string \<times> bool option \<Rightarrow> ('w fr, unit) act" where
  "missing_outcome lib k now absent_for reason events action active context answer = (case answer of (ok, detail, scope, retry) \<Rightarrow>
     bindS (append_recovery_dispatch_result lib (aset ''recovery_scope'' (PStr scope) action) ''ffmpeg_missing'' reason 0 ok detail retry) (\<lambda>_.
     bindS (emit (if \<not> active then ''shadow_recovery_candidate'' else if ok then ''restart'' else ''restart_failed'') reason
       (aupdate action [(''trigger'', PStr ''ffmpeg_missing''), (''missing_for_sec'', PInt absent_for), (''detail'', PStr detail),
         (''restart_context'', PDict context), (''physical_effect_count'', if active then PNone else PInt 0)])) (\<lambda>_.
     if ok then
       bindS (if active then putF (remember_pending_recovery action now ''ffmpeg_missing'' reason 0) else retS ()) (\<lambda>_.
       bindS (liftS (add_restart lib k now ''ffmpeg_missing'' events)) (\<lambda>es.
       putF (\<lambda>d. aupdate d [(''restart_events'', events_py es), (''last_restart_ts'', PInt now),
         (''last_reason'', PStr (if active then ''restarted: ffmpeg pid missing'' else ''shadow would restart: ffmpeg pid missing'')),
         (''ffmpeg_missing_first_ts'', PInt 0), (''ffmpeg_missing_success_backoff_until'', PInt (now + k_missing_backoff k)),
         (''restart_failure_count'', PInt 0)])))
     else if retry = Some False then
       record_unresolved_recovery_dispatch lib k (aset ''recovery_scope'' (PStr scope) action) now ''ffmpeg_missing'' reason 0 detail events
     else
       bindS (lookF (\<lambda>d. int_at d ''restart_failure_count'')) (\<lambda>n.
       putF (\<lambda>d. aupdate d [(''last_restart_failure_ts'', PInt now), (''restart_failure_count'', PInt (n + 1)),
         (''last_reason'', PStr (''restart failed: '' @ detail))])))))"

text \<open>The recovery of a missing FFmpeg, past the budgets and the gates.\<close>

definition recover_missing ::
    "pylib \<Rightarrow> fr_config \<Rightarrow> 'w fenv \<Rightarrow> int \<Rightarrow> int \<Rightarrow> string \<Rightarrow> dict list \<Rightarrow> ('w fr, unit) act" where
  "recover_missing lib k env now first reason events = (let kind = ''ffmpeg_missing'' in
     bindS (record_typed_policy_decision lib k env kind) (\<lambda>dec.
     if k_socket k \<noteq> [] \<and> d_intent_type dec = NO_ACTION then say (''typed policy no action: '' @ d_decision_reason dec)
     else
       bindS (planned_recovery_scope lib k env kind) (\<lambda>scope.
       bindS (effect_authority_active lib k env) (\<lambda>active.
       bindS (new_recovery_action k env now kind first 0 scope active) (\<lambda>action.
       bindS (askF (f_context env action reason)) (\<lambda>context.
       bindS (append_recovery_requested action kind reason 0 0 []) (\<lambda>_.
       let correlation = str_or_empty lib (dget action ''recovery_action_id'') in
       bindS (audit_mp03 env ''ACTION_PLAN_CREATED'' (plan_operation k kind dec)) (\<lambda>_.
       bindS (if \<not> active then retS (True, ''shadow producer inactive; physical effect skipped'', scope, None)
              else execute_recovery_action_with_policy lib k env kind reason 0 correlation) (\<lambda>answer.
       missing_outcome lib k now (now - first) reason events action active context answer)))))))))"

definition restart_missing :: "pylib \<Rightarrow> fr_config \<Rightarrow> 'w fenv \<Rightarrow> int \<Rightarrow> int \<Rightarrow> string \<Rightarrow> ('w fr, unit) act" where
  "restart_missing lib k env now first reason = (let kind = ''ffmpeg_missing'' in
     bindS (lookF (\<lambda>d. trim_restart_events lib (dget_or d ''restart_events'' (PList [])) now (k_restart_cost k))) (\<lambda>events.
     bindS (putF (aset ''restart_events'' (events_py events))) (\<lambda>_.
     bindS (liftS (used_downtime_budget_sec events now 3600 (k_restart_cost k))) (\<lambda>used_hour.
     bindS (liftS (used_downtime_budget_sec events now 86400 (k_restart_cost k))) (\<lambda>used_day.
     bindS (budget_gates lib k env True kind reason first now used_hour used_day) (\<lambda>blocked. case blocked of
       Some block \<Rightarrow> putF (\<lambda>d. aupdate d ([(''last_reason'', PStr block), (''last_pid'', PInt 0), (''last_bytes_sent'', PInt 0)] @ ZERO_SAMPLE))
     | None \<Rightarrow>
         bindS (block_ffmpeg_missing_restart_before_established lib k env reason) (\<lambda>b. if b then retS ()
         else bindS (block_restart_if_gpu_preflight_fails lib k env kind reason) (\<lambda>g. if g then retS ()
         else recover_missing lib k env now first reason events))))))))"

text \<open>The wait of a missing FFmpeg that is not restarted in this cycle.\<close>

definition wait_missing :: "pylib \<Rightarrow> fr_config \<Rightarrow> 'w fenv \<Rightarrow> string \<Rightarrow> bool \<Rightarrow> int \<Rightarrow> ('w fr, unit) act" where
  "wait_missing lib k env reason held success_left =
     bindS (putF (\<lambda>d. aupdate d ([(''last_pid'', PInt 0), (''last_bytes_sent'', PInt 0), (''last_bytes_sent_ts'', PInt 0)] @ NO_WARNING
       @ [(''last_reason'', PStr (if held then reason @ ''; restart guard/backoff active'' else reason))] @ ZERO_SAMPLE))) (\<lambda>_.
     bindS (if success_left > 0 then say (reason @ ''; success backoff active ('' @ shown success_left @ ''s remaining)'') else retS ()) (\<lambda>_.
     bindS (record_typed_policy_decision lib k env ''ffmpeg_missing'') (\<lambda>_. retS ())))"

definition ffmpeg_missing_cycle :: "pylib \<Rightarrow> fr_config \<Rightarrow> 'w fenv \<Rightarrow> int \<Rightarrow> int \<Rightarrow> ('w fr, unit) act" where
  "ffmpeg_missing_cycle lib k env now last_restart =
     bindS (lookF (\<lambda>d. int_at d ''ffmpeg_missing_first_ts'')) (\<lambda>first0.
     let first = (if first0 \<le> 0 then now else first0); absent_for = now - first;
         reason = ''ffmpeg pid not found for '' @ shown absent_for @ ''s''; due = (absent_for \<ge> k_missing_restart k);
         guard = (now - last_restart < k_restart_guard k) in
     bindS (putF (aset ''ffmpeg_missing_first_ts'' (PInt first))) (\<lambda>_.
     bindS (lookF (\<lambda>d. int_at d ''last_restart_failure_ts'')) (\<lambda>failed_at.
     let backoff_left = restart_failure_backoff_left now failed_at (k_failure_backoff k) in
     bindS (lookF (\<lambda>d. int_at d ''ffmpeg_missing_success_backoff_until'')) (\<lambda>until.
     let success_left = max 0 (until - now) in
     bindS (getS (\<lambda>s. dget (fr_state s) ''connectivity_wait_active'' = PBool True)) (\<lambda>waiting.
     bindS (if waiting \<or> due then bindS (current_network_observation k env) (\<lambda>net.
              if nr_down net then
                bindS (mark_connectivity_wait now net 0) (\<lambda>_.
                bindS (putF (\<lambda>d. aupdate d ([(''last_pid'', PInt 0), (''last_bytes_sent'', PInt 0), (''last_bytes_sent_ts'', PInt 0)] @ ZERO_SAMPLE))) (\<lambda>_. retS True))
              else bindS (clear_connectivity_wait now net) (\<lambda>_. retS False))
            else retS False) (\<lambda>down.
     if down then retS ()
     else if due \<and> \<not> guard \<and> backoff_left \<le> 0 \<and> success_left \<le> 0 then restart_missing lib k env now first reason
     else wait_missing lib k env reason (guard \<or> backoff_left > 0 \<or> success_left > 0) success_left))))))"

section \<open>FFmpeg is running\<close>

definition live_outcome ::
    "pylib \<Rightarrow> fr_config \<Rightarrow> int \<Rightarrow> int \<Rightarrow> int \<Rightarrow> string \<Rightarrow> string \<Rightarrow> dict list \<Rightarrow> tcp_reading \<Rightarrow> dict \<Rightarrow> dict \<Rightarrow> dict \<Rightarrow> dict \<Rightarrow> int \<Rightarrow>
       bool \<times> string \<times> string \<times> bool option \<Rightarrow> ('w fr, unit) act" where
  "live_outcome lib k now pid uptime kind reason events tcp metrics hint context action0 failures answer = (case answer of (ok, detail, scope, retry) \<Rightarrow>
     let action = aset ''recovery_scope'' (PStr scope) action0; mark = putF (mark_latest_transport_sample pid (tr_bytes_sent tcp) now None) in
     bindS (append_recovery_dispatch_result lib action kind reason pid ok detail retry) (\<lambda>_.
     if ok then
       bindS (putF (remember_pending_recovery action now kind reason pid)) (\<lambda>_.
       bindS (liftS (add_restart lib k now (unknown_if_empty kind) events)) (\<lambda>es.
       bindS (putF (\<lambda>d. aupdate (after_restart now es reason d) [(''last_budget_block_key'', PStr []), (''last_budget_block_ts'', PInt 0)])) (\<lambda>_.
       emit ''restart'' reason (aupdate action0 [(''trigger'', PStr kind), (''ffmpeg_pid'', PInt pid), (''ffmpeg_uptime_sec'', PInt uptime),
         (''metrics'', PDict metrics), (''restart_context'', PDict context), (''recovery_scope'', PStr scope), (''youtube_hint'', PDict hint)]))))
     else if retry = Some False then
       bindS (record_unresolved_recovery_dispatch lib k action now kind reason pid detail events) (\<lambda>_. mark)
     else
       bindS (putF (\<lambda>d. aupdate d [(''last_restart_failure_ts'', PInt now), (''restart_failure_count'', PInt (failures + 1)),
         (''last_reason'', PStr (''restart failed ('' @ shown (failures + 1) @ ''): '' @ reason))])) (\<lambda>_.
       bindS mark (\<lambda>_.
       emit ''restart_failed'' reason (aupdate action0 [(''trigger'', PStr kind), (''ffmpeg_pid'', PInt pid), (''ffmpeg_uptime_sec'', PInt uptime),
         (''restart_failure_count'', PInt (failures + 1)), (''backoff_sec'', PInt (k_failure_backoff k)), (''detail'', PStr detail),
         (''recovery_scope'', PStr scope)])))))"

definition recover_live ::
    "pylib \<Rightarrow> fr_config \<Rightarrow> 'w fenv \<Rightarrow> int \<Rightarrow> int \<Rightarrow> int \<Rightarrow> string \<Rightarrow> string \<Rightarrow> int \<Rightarrow> dict list \<Rightarrow> tcp_reading \<Rightarrow> dict \<Rightarrow> dict \<Rightarrow> int \<Rightarrow> ('w fr, unit) act" where
  "recover_live lib k env now pid uptime kind reason first events tcp metrics hint failures =
     bindS (planned_recovery_scope lib k env kind) (\<lambda>scope.
     bindS (record_typed_policy_decision lib k env kind) (\<lambda>dec.
     bindS (effect_authority_active lib k env) (\<lambda>active.
     bindS (new_recovery_action k env now kind first pid scope active) (\<lambda>action.
     bindS (askF (f_context env action reason)) (\<lambda>context.
     bindS (append_recovery_requested action kind reason pid uptime metrics) (\<lambda>_.
     let correlation = str_or_empty lib (dget action ''recovery_action_id'') in
     bindS (audit_mp03 env ''ACTION_PLAN_CREATED'' (plan_operation k kind dec)) (\<lambda>_.
     if \<not> active then
       bindS (liftS (add_restart lib k now (unknown_if_empty kind) events)) (\<lambda>es.
       bindS (putF (after_restart now es (''shadow would execute: '' @ reason))) (\<lambda>_.
       emit ''shadow_recovery_candidate'' reason (aupdate action [(''trigger'', PStr kind), (''ffmpeg_pid'', PInt pid), (''ffmpeg_uptime_sec'', PInt uptime),
         (''metrics'', PDict metrics), (''physical_effect_count'', PInt 0), (''effect_authority_mode'', PStr (k_authority_mode k)),
         (''active_producer'', PBool False)])))
     else bindS (execute_recovery_action_with_policy lib k env kind reason pid correlation)
       (live_outcome lib k now pid uptime kind reason events tcp metrics hint context action failures))))))))"

text \<open>The guards a confirmed reason has to pass: the time since the last restart, the backoff after a failure, the budgets, the GPU.\<close>

definition restart_live ::
    "pylib \<Rightarrow> fr_config \<Rightarrow> 'w fenv \<Rightarrow> int \<Rightarrow> int \<Rightarrow> int \<Rightarrow> int \<Rightarrow> string \<Rightarrow> string \<Rightarrow> int \<Rightarrow> tcp_reading \<Rightarrow> network_reading \<Rightarrow> bool \<Rightarrow> dict \<Rightarrow> ('w fr, unit) act" where
  "restart_live lib k env now last_restart pid uptime kind reason first tcp net warning hint =
     (let mark = (\<lambda>why. putF (mark_latest_transport_sample pid (tr_bytes_sent tcp) now why)) in
      if reason \<noteq> [] \<and> now - last_restart < k_restart_guard k
      then mark (Some (''restart guard active ('' @ shown (now - last_restart) @ ''s<'' @ shown (k_restart_guard k) @ ''s)''))
      else bindS (lookF (\<lambda>d. int_at d ''last_restart_failure_ts'')) (\<lambda>failed_at. bindS (lookF (\<lambda>d. int_at d ''restart_failure_count'')) (\<lambda>failures.
      let backoff_left = restart_failure_backoff_left now failed_at (k_failure_backoff k) in
      if reason \<noteq> [] \<and> backoff_left > 0
      then mark (Some (''restart failure backoff active ('' @ shown backoff_left @ ''s<'' @ shown (k_failure_backoff k) @ ''s)''))
      else
        bindS (lookF (\<lambda>d. trim_restart_events lib (dget_or d ''restart_events'' (PList [])) now (k_restart_cost k))) (\<lambda>events.
        bindS (putF (aset ''restart_events'' (events_py events))) (\<lambda>_.
        if reason = [] then bindS (mark (Some ''healthy'')) (\<lambda>_. bindS (record_typed_policy_decision lib k env ''healthy'') (\<lambda>_. retS ()))
        else
          bindS (liftS (used_downtime_budget_sec events now 3600 (k_restart_cost k))) (\<lambda>used_hour.
          bindS (liftS (used_downtime_budget_sec events now 86400 (k_restart_cost k))) (\<lambda>used_day.
          bindS (budget_gates lib k env False kind reason first now used_hour used_day) (\<lambda>blocked. case blocked of
            Some block \<Rightarrow> bindS (say block) (\<lambda>_. mark None)
          | None \<Rightarrow>
              bindS (liftS (restart_metrics tcp (nr_down net) warning)) (\<lambda>metrics.
              bindS (block_restart_if_gpu_preflight_fails lib k env (unknown_if_empty kind) reason) (\<lambda>g. if g then mark None
              else recover_live lib k env now pid uptime kind reason first events tcp metrics hint failures))))))))))"

definition UNRESOLVED_REASON :: string where
  "UNRESOLVED_REASON = ''effect outcome unresolved; automatic retry suppressed until reconciliation''"

text \<open>The streaks of one cycle; the sample of the upload rate is taken in between.\<close>

definition measure_live ::
    "pylib \<Rightarrow> fr_config \<Rightarrow> 'w fenv \<Rightarrow> int \<Rightarrow> int \<Rightarrow> ('w fr, tcp_reading \<times> network_reading) act" where
  "measure_live lib k env now pid =
     bindS (parse_ffmpeg_tcp_metrics lib k env pid) (\<lambda>metrics.
     bindS (updF (\<lambda>d. bindE (reset_pid_dependent_state pid d) (\<lambda>d'. Inr ((), d')))) (\<lambda>_.
     bindS (current_network_observation k env) (\<lambda>net.
     bindS (updF (update_streak ''net_fail_streak'' (nr_down net))) (\<lambda>_.
     bindS (lookF (\<lambda>d. tcp_observation k d now metrics (nr_down net) (nr_tcp_ok net))) (\<lambda>tcp.
     bindS (maybe_append_tcp_send_sample lib k now pid (tr_bytes_sent tcp) metrics) (\<lambda>_.
     bindS (updF (update_streak ''stall_streak'' (tr_stall tcp))) (\<lambda>_.
     bindS (updF (update_streak ''low_upload_pressure_streak'' (tr_low_upload tcp))) (\<lambda>_. retS (tcp, net)))))))))"

text \<open>Completed recoveries and what is left unresolved: \<open>None\<close> ends the cycle, otherwise the scopes that are left.\<close>

definition settle_pending ::
    "pylib \<Rightarrow> fr_config \<Rightarrow> 'w fenv \<Rightarrow> dict list \<Rightarrow> int \<Rightarrow> int \<Rightarrow> int \<Rightarrow> int \<Rightarrow> dict \<Rightarrow> dict \<Rightarrow> ('w fr, dict list option) act" where
  "settle_pending lib k env unresolved now pid uptime bytes_sent snapshot hint =
     (if k_socket k \<noteq> [] then
        bindS (maybe_reconcile_delayed_executor_effects lib env unresolved now pid uptime snapshot hint) (\<lambda>reconciled.
        bindS (read_executor_unresolved_scopes lib k env) (\<lambda>r. case r of
          None \<Rightarrow> retS None
        | Some scopes \<Rightarrow>
            if reconciled then
              bindS (putF (mark_latest_transport_sample pid bytes_sent now (Some ''delayed effect reconciled; candidate evaluation deferred to next cycle''))) (\<lambda>_. retS None)
            else retS (Some scopes)))
      else bindS (maybe_record_recovery_completed lib now pid uptime snapshot hint) (\<lambda>_. retS (Some unresolved)))"

text \<open>The sample of this cycle, the network, and the reason to restart, if there is one.\<close>

definition evaluate_live ::
    "pylib \<Rightarrow> fr_config \<Rightarrow> 'w fenv \<Rightarrow> int \<Rightarrow> int \<Rightarrow> int \<Rightarrow> int \<Rightarrow> tcp_reading \<Rightarrow> network_reading \<Rightarrow> bool \<Rightarrow> string \<Rightarrow> int \<Rightarrow> dict \<Rightarrow> ('w fr, unit) act" where
  "evaluate_live lib k env now last_restart pid uptime tcp net warning warning_reason warning_streak hint =
     bindS (liftS (sample_row now pid tcp (nr_down net) warning)) (\<lambda>row.
     bindS (putF (\<lambda>d. aset ''samples'' (events_py (trim_samples (events_py (trim_samples (dget_or d ''samples'' (PList [])) (k_samples_max k) @ [row]))
       (k_samples_max k))) d)) (\<lambda>_.
     if nr_down net then
       bindS (record_typed_policy_decision lib k env ''network_down'') (\<lambda>_.
       bindS (mark_connectivity_wait now net pid) (\<lambda>_.
       bindS (putF (aset ''remote_warning_streak'' (PInt 0))) (\<lambda>_. putF (mark_latest_transport_sample pid (tr_bytes_sent tcp) now None))))
     else
       bindS (clear_connectivity_wait now net) (\<lambda>_.
       bindS (lookF (\<lambda>d. select_restart_reason k d warning_streak warning_reason net tcp)) (\<lambda>(kind, reason).
       bindS (updF (update_active_reason lib now kind reason)) (\<lambda>first.
       restart_live lib k env now last_restart pid uptime kind reason first tcp net warning hint)))))"

definition ffmpeg_live_cycle :: "pylib \<Rightarrow> fr_config \<Rightarrow> 'w fenv \<Rightarrow> int \<Rightarrow> int \<Rightarrow> int \<Rightarrow> int \<Rightarrow> dict list \<Rightarrow> ('w fr, unit) act" where
  "ffmpeg_live_cycle lib k env now last_restart pid uptime unresolved =
     bindS (measure_live lib k env now pid) (\<lambda>(tcp, net).
     bindS (attemptS (askF (f_stats env))) (\<lambda>stats. bindS (attemptS (askF (f_quota env))) (\<lambda>quota.
     bindS (liftS (read_youtube_live_warning lib k stats quota now last_restart)) (\<lambda>(warning, warning_reason, payload).
     bindS (updF (update_remote_warning_streak lib k warning payload)) (\<lambda>warning_streak.
     bindS (write_transport_snapshot k env now pid uptime tcp net warning) (\<lambda>snapshot.
     let hint = youtube_hint payload in
     bindS (settle_pending lib k env unresolved now pid uptime (tr_bytes_sent tcp) snapshot hint) (\<lambda>r. case r of
       None \<Rightarrow> retS ()
     | Some scopes \<Rightarrow>
         bindS (getS (\<lambda>s. length (pending_actions (fr_state s)))) (\<lambda>n.
         if scopes \<noteq> [] \<or> n > 0 then putF (mark_latest_transport_sample pid (tr_bytes_sent tcp) now (Some UNRESOLVED_REASON))
         else evaluate_live lib k env now last_restart pid uptime tcp net warning warning_reason warning_streak hint))))))))"

definition warmup_cycle :: "pylib \<Rightarrow> fr_config \<Rightarrow> 'w fenv \<Rightarrow> int \<Rightarrow> int \<Rightarrow> int \<Rightarrow> ('w fr, unit) act" where
  "warmup_cycle lib k env now pid uptime =
     bindS (getS (\<lambda>s. dget (fr_state s) ''connectivity_wait_active'' = PBool True)) (\<lambda>waiting.
     bindS (if waiting then bindS (current_network_observation k env) (\<lambda>net.
              if nr_down net then mark_connectivity_wait now net pid else clear_connectivity_wait now net) else retS ()) (\<lambda>_.
     bindS (putF (\<lambda>d. aupdate d ([(''last_pid'', PInt pid), (''last_bytes_sent'', PInt 0), (''last_bytes_sent_ts'', PInt now)] @ NO_WARNING
       @ [(''last_reason'', PStr (''ffmpeg warmup ('' @ shown uptime @ ''s<'' @ shown (k_min_uptime k) @ ''s)''))]))) (\<lambda>_.
     bindS (record_typed_policy_decision lib k env ''startup_transient'') (\<lambda>_. retS ()))))"

section \<open>One cycle\<close>

definition main_body :: "pylib \<Rightarrow> fr_config \<Rightarrow> 'w fenv \<Rightarrow> int \<Rightarrow> int \<Rightarrow> dict list \<Rightarrow> ('w fr, unit) act" where
  "main_body lib k env now last_restart unresolved =
     bindS (askF (f_main_pid env)) (\<lambda>main_pid. bindS (get_stream_ffmpeg_pid lib k env main_pid) (\<lambda>pid.
     bindS (get_process_elapsed_sec lib k env pid) (\<lambda>uptime. bindS (askF (f_uuid env)) (\<lambda>_.
     bindS (audit_mp03 env ''OBSERVATION'' ''observe_fast_recovery_loop'') (\<lambda>_.
     bindS (getS (\<lambda>s. length (pending_actions (fr_state s)))) (\<lambda>n.
     if pid \<le> 1 \<and> (unresolved \<noteq> [] \<or> n > 0) then
       putF (\<lambda>d. aupdate d ([(''last_reason'', PStr UNRESOLVED_REASON), (''last_pid'', PInt 0), (''last_bytes_sent'', PInt 0)] @ ZERO_SAMPLE))
     else if pid \<le> 1 then ffmpeg_missing_cycle lib k env now last_restart
     else bindS (putF (aset ''ffmpeg_missing_first_ts'' (PInt 0))) (\<lambda>_.
       if uptime < k_min_uptime k then warmup_cycle lib k env now pid uptime
       else ffmpeg_live_cycle lib k env now last_restart pid uptime unresolved)))))))"

definition main_cycle :: "pylib \<Rightarrow> fr_config \<Rightarrow> 'w fenv \<Rightarrow> ('w fr, int) act" where
  "main_cycle lib k env =
     bindS (liftS (validate_controller_runtime_contract k)) (\<lambda>_.
     bindS (askF (f_time env)) (\<lambda>now. bindS (modS (\<lambda>s. s\<lparr>fr_now := now\<rparr>)) (\<lambda>_.
     bindS (load_state lib k env now) (\<lambda>_.
     bindS (lookF (\<lambda>d. int_at d ''last_restart_ts'')) (\<lambda>last_restart.
     bindS (read_executor_unresolved_scopes lib k env) (\<lambda>r.
     bindS (case r of None \<Rightarrow> retS () | Some unresolved \<Rightarrow> main_body lib k env now last_restart unresolved) (\<lambda>_.
     finish env)))))))"

end
