(* ===== verification/Fr_Frame.thy ===== *)
theory Fr_Frame
  imports Fr_Loop
begin

text \<open>
  What the parts of a Fast Recovery cycle leave alone. \<open>idleF\<close> relates the states around code that touches
  neither the dictionary nor the file and sends nothing; \<open>steadyF K\<close> those around code that sends nothing and
  keeps the entries named by \<open>K\<close>; \<open>sends\<close> those around code that sends at most one recovery, decided on the
  dictionary it started with.
\<close>

declare act_eval [simp del]

section \<open>Dictionaries\<close>

lemma map_of_aupdate: "map_of (aupdate xs ys) key = (case map_of (rev ys) key of None \<Rightarrow> map_of xs key | Some v \<Rightarrow> Some v)"
  by (induction xs ys rule: aupdate.induct) (auto simp: map_add_def split: option.splits)

lemma map_of_aupdate_other: "key \<notin> fst ` set ys \<Longrightarrow> map_of (aupdate xs ys) key = map_of xs key"
  by (simp add: map_of_aupdate map_of_eq_None_iff [THEN iffD2])

lemma dget_cong: "map_of d key = map_of d' key \<Longrightarrow> dget d key = dget d' key"
  by (simp add: dget_def)

lemma int_at_cong: "map_of d key = map_of d' key \<Longrightarrow> int_at d key = int_at d' key"
  by (simp add: int_at_def dget_def)

section \<open>Frames\<close>

definition idleF :: "'w fr \<Rightarrow> 'w fr \<Rightarrow> bool" where
  "idleF s t \<longleftrightarrow> fr_state t = fr_state s \<and> fr_stored t = fr_stored s \<and> fr_effects t = fr_effects s \<and> fr_now t = fr_now s"

definition steadyF :: "string set \<Rightarrow> 'w fr \<Rightarrow> 'w fr \<Rightarrow> bool" where
  "steadyF K s t \<longleftrightarrow> fr_stored t = fr_stored s \<and> fr_effects t = fr_effects s \<and> fr_now t = fr_now s \<and>
     (\<forall>key \<in> K. map_of (fr_state t) key = map_of (fr_state s) key)"

interpretation idleF: state_frame idleF by unfold_locales (auto simp: idleF_def)

interpretation steadyF: state_frame "steadyF K" for K by unfold_locales (auto simp: steadyF_def)

lemma idle_steady: "withinS idleF m \<Longrightarrow> withinS (steadyF K) m"
  by (rule withinS_mono, assumption) (simp add: idleF_def steadyF_def)

lemma steady_mono: "steadyF K s t \<Longrightarrow> L \<subseteq> K \<Longrightarrow> steadyF L s t"
  by (auto simp: steadyF_def)

lemma within_attempt: "withinS R m \<Longrightarrow> withinS R (attemptS m)"
  by (simp add: withinS_def attemptS_def split: prod.splits) (metis snd_conv)

lemma idleF_ask: "withinS idleF (askF f)"
  by (simp add: withinS_def askF_def idleF_def split: prod.splits)

lemma idle_look: "withinS idleF (lookF f)"
  unfolding lookF_def by (intro idleF.within_intros)

lemma idle_catch_all: "withinS idleF m \<Longrightarrow> (\<And>e. withinS idleF (h e)) \<Longrightarrow> withinS idleF (catch_all m h)"
  unfolding catch_all_def by (intro idleF.within_intros) auto

lemma idle_emit: "withinS idleF (emit kind message extra)" "withinS idleF (emit_all es)"
  by (simp_all add: withinS_def emit_def emit_all_def modS_def idleF_def)

lemma idle_observe: "withinS idleF (observe lib env esc)"
  unfolding observe_def by (intro idleF.within_intros within_attempt idleF_ask)

lemma idle_audit: "withinS idleF (audit_mp03 env phase what)"
  unfolding audit_mp03_def by (intro idle_catch_all idleF_ask idleF.within_intros)

lemma idle_exchange: "withinS idleF (exchange env esc request)"
  unfolding exchange_def by (intro idleF.within_intros idleF_ask) (auto split: py.splits intro: idleF.within_intros)

lemmas idle_basics = idleF_ask idle_look idle_emit idle_observe idle_audit idle_exchange within_attempt

lemma steady_put: "(\<And>d key. key \<in> K \<Longrightarrow> map_of (f d) key = map_of d key) \<Longrightarrow> withinS (steadyF K) (putF f)"
  by (simp add: withinS_def putF_def modS_def steadyF_def)

lemma steady_upd:
  assumes "\<And>d x d' key. f d = Inr (x, d') \<Longrightarrow> key \<in> K \<Longrightarrow> map_of d' key = map_of d key"
  shows "withinS (steadyF K) (updF f)"
  using assms by (auto simp: withinS_def updF_def putF_def bindS_def getS_def liftS_def modS_def retS_def steadyF_def split: sum.splits)

lemma steady_say: "''last_reason'' \<notin> K \<Longrightarrow> withinS (steadyF K) (say why)"
  unfolding say_def by (rule steady_put) auto

section \<open>Parts that are idle\<close>

lemma idle_typed: "withinS idleF (record_typed_policy_decision lib k env kind)"
  unfolding record_typed_policy_decision_def Let_def by (intro idleF.within_intros idle_basics)

lemma idle_planned: "withinS idleF (planned_recovery_scope lib k env kind)"
  unfolding planned_recovery_scope_def by (intro idleF.within_intros idle_basics)

lemma idle_active: "withinS idleF (effect_authority_active lib k env)"
  unfolding effect_authority_active_def by (intro idleF.within_intros idle_basics)

lemma idle_action: "withinS idleF (new_recovery_action k env now kind first pid scope active)"
  unfolding new_recovery_action_def by (intro idleF.within_intros idle_basics)

lemma idle_requested: "withinS idleF (append_recovery_requested action kind reason pid uptime metrics)"
  unfolding append_recovery_requested_def by (rule idle_emit)

lemma idle_result: "withinS idleF (append_recovery_dispatch_result lib action kind reason pid ok detail retry)"
  unfolding append_recovery_dispatch_result_def Let_def by (rule idle_emit)

lemma idle_pings: "withinS idleF (count_pings env ts)"
  by (induction ts) (auto intro!: idleF.within_intros idleF_ask)

lemma idle_network: "withinS idleF (current_network_observation k env)"
  unfolding current_network_observation_def by (intro idleF.within_intros idle_basics idle_pings)

lemma idle_pid: "withinS idleF (get_stream_ffmpeg_pid lib k env main_pid)"
  unfolding get_stream_ffmpeg_pid_def get_child_ffmpeg_pid_def get_k8s_stream_ffmpeg_pid_def
  by (intro idleF.within_intros idle_basics)

lemma idle_elapsed: "withinS idleF (get_process_elapsed_sec lib k env pid)"
  unfolding get_process_elapsed_sec_def by (intro idleF.within_intros idle_basics)

lemma idle_metrics: "withinS idleF (parse_ffmpeg_tcp_metrics lib k env pid)"
  unfolding parse_ffmpeg_tcp_metrics_def by (intro idleF.within_intros idle_basics)

lemma idle_snapshot: "withinS idleF (write_transport_snapshot k env now pid uptime tcp net warning)"
  unfolding write_transport_snapshot_def by (intro idleF.within_intros idle_basics)

lemma idle_emit_completed: "withinS idleF (emit_completed lib now pid uptime snapshot hint completed xs)"
  by (induction xs) (auto intro!: idleF.within_intros idle_emit)

lemma idle_gpu: "withinS idleF (runtime_gpu_restart_block lib k env)"
  unfolding runtime_gpu_restart_block_def by (intro idleF.within_intros idle_basics)

lemma idle_establishment: "withinS idleF (current_stream_establishment lib k env)"
  unfolding current_stream_establishment_def by (intro idleF.within_intros idle_basics)

lemmas idle_parts = idle_basics idle_typed idle_planned idle_active idle_action idle_requested idle_result idle_pings idle_network
  idle_pid idle_elapsed idle_metrics idle_snapshot idle_emit_completed idle_gpu idle_establishment

section \<open>Parts that keep entries\<close>

definition GATE_KEYS :: "string set" where
  "GATE_KEYS = {''last_reason'', ''last_budget_block_key'', ''last_budget_block_ts'', ''last_budget_override_key'', ''last_budget_override_ts'',
     ''last_gpu_restart_block_key'', ''last_gpu_restart_block_ts'', ''last_startup_restart_block_key'', ''last_startup_restart_block_ts''}"

lemma steady_once: "key \<notin> K \<Longrightarrow> ts \<notin> K \<Longrightarrow> withinS (steadyF K) (record_once lib env key ts block_key e)"
  unfolding record_once_def
  by (intro steadyF.within_intros idle_steady [OF idleF_ask] idle_steady [OF idle_look] idle_steady [OF idle_emit(2)] steady_put) auto

lemma steady_budget_gate: "K \<inter> GATE_KEYS = {} \<Longrightarrow> withinS (steadyF K) (budget_gate lib k env w kind reason first now b)"
  unfolding budget_gate_def Let_def maybe_record_budget_block_def maybe_record_budget_override_def
  by (intro steadyF.within_intros steady_once) (auto simp: GATE_KEYS_def)

lemma steady_budget_gates: "K \<inter> GATE_KEYS = {} \<Longrightarrow> withinS (steadyF K) (budget_gates lib k env w kind reason first now uh ud)"
  unfolding budget_gates_def by (intro steadyF.within_intros steady_budget_gate) auto

lemma steady_gpu_gate: "K \<inter> GATE_KEYS = {} \<Longrightarrow> withinS (steadyF K) (block_restart_if_gpu_preflight_fails lib k env trigger reason)"
  unfolding block_restart_if_gpu_preflight_fails_def Let_def
  by (intro steadyF.within_intros steady_once steady_say idle_steady [OF idle_gpu]) (auto simp: GATE_KEYS_def)

lemma steady_established_gate: "K \<inter> GATE_KEYS = {} \<Longrightarrow> withinS (steadyF K) (block_ffmpeg_missing_restart_before_established lib k env reason)"
  unfolding block_ffmpeg_missing_restart_before_established_def Let_def
  by (intro steadyF.within_intros steady_once steady_say idle_steady [OF idle_establishment]) (auto simp: GATE_KEYS_def)

end
