(* ===== verification/Fr_Safety.thy ===== *)
theory Fr_Safety
  imports Fr_Frame
begin

text \<open>
  What a Fast Recovery cycle may send, and what it leaves in its state: a recovery leaves the process only past
  every gate (\<open>permitted\<close>), and a cycle that tried one leaves the time of the attempt in the state, so that the
  guards of later cycles count from it (\<open>outcome_of\<close>).
\<close>

section \<open>What may be sent\<close>

definition holds_at :: "dict \<Rightarrow> string \<Rightarrow> (int \<Rightarrow> bool) \<Rightarrow> bool" where
  "holds_at d key P = (case int_at d key of Inr n \<Rightarrow> P n | Inl e \<Rightarrow> False)"

text \<open>The guard after a restart and the backoff after a failure are over.\<close>

definition passes :: "fr_config \<Rightarrow> int \<Rightarrow> dict \<Rightarrow> bool" where
  "passes k now d \<longleftrightarrow> holds_at d ''last_restart_ts'' (\<lambda>t. now - t \<ge> k_restart_guard k) \<and>
     holds_at d ''last_restart_failure_ts'' (\<lambda>t. restart_failure_backoff_left now t (k_failure_backoff k) \<le> 0)"

definition fits :: "int \<Rightarrow> int \<Rightarrow> int res \<Rightarrow> bool" where
  "fits budget cost used \<longleftrightarrow> (case used of Inr u \<Rightarrow> budget = 0 \<or> u + cost \<le> budget | Inl e \<Rightarrow> False)"

definition within_budget :: "fr_config \<Rightarrow> int \<Rightarrow> dict \<Rightarrow> bool" where
  "within_budget k now d \<longleftrightarrow> (let es = dict_items (dget d ''restart_events''); c = k_restart_cost k in
     fits (k_hourly_budget k) c (used_downtime_budget_sec es now 3600 c) \<and> fits (k_daily_budget k) c (used_downtime_budget_sec es now 86400 c))"

text \<open>The reason has held so long that the budgets no longer apply.\<close>

definition emergency :: "pylib \<Rightarrow> fr_config \<Rightarrow> int \<Rightarrow> string \<Rightarrow> dict \<Rightarrow> bool" where
  "emergency lib k now kind d \<longleftrightarrow> k_override_after k > 0 \<and> str_at lib d ''active_reason_kind'' = kind \<and>
     holds_at d ''active_reason_first_ts'' (\<lambda>t. t > 0 \<and> now - t \<ge> k_override_after k)"

definition confirmed :: "fr_config \<Rightarrow> int \<Rightarrow> string \<Rightarrow> dict \<Rightarrow> bool" where
  "confirmed k now kind d \<longleftrightarrow>
     (if kind = ''tcp_stall'' then (case int_at_raw d ''stall_streak'' of Inr n \<Rightarrow> n \<ge> k_stall_confirm k | Inl e \<Rightarrow> False)
      else if kind = ''remote_warning'' then k_url_preservation k \<and> holds_at d ''remote_warning_streak'' (\<lambda>n. n \<ge> k_warning_confirm k)
      else kind = ''ffmpeg_missing'' \<and> holds_at d ''ffmpeg_missing_first_ts'' (\<lambda>t. now - t \<ge> k_missing_restart k) \<and>
        holds_at d ''ffmpeg_missing_success_backoff_until'' (\<lambda>t. t \<le> now))"

text \<open>The recovery is the one the reason calls for, at the receiver that owns it.\<close>

definition fitting_call :: "fr_config \<Rightarrow> string \<Rightarrow> effect_call \<Rightarrow> bool" where
  "fitting_call k kind call = (case call of
       TypedRequest escalation request \<Rightarrow> k_socket k \<noteq> [] \<and>
         (if kind = ''ffmpeg_missing''
          then dget request ''intent_type'' = PStr (if escalation then ESCALATE_RUNTIME_RECOVERY else RECONCILE_FFMPEG)
          else \<not> escalation \<and> dget request ''intent_type'' = PStr RESTART_FFMPEG)
     | SignalChild pid \<Rightarrow> k_socket k = [] \<and> k8s_supervisor_active k \<and> kind \<noteq> ''ffmpeg_missing'' \<and> pid > 1
     | RestartUnit \<Rightarrow> k_socket k = [] \<and> (kind = ''ffmpeg_missing'' \<or> \<not> k8s_supervisor_active k))"

definition permitted :: "pylib \<Rightarrow> fr_config \<Rightarrow> fr_effect \<Rightarrow> bool" where
  "permitted lib k x \<longleftrightarrow> (let d = fx_state x; now = fx_now x; kind = fx_kind x in
     k_authority_mode k \<noteq> ''SHADOW_ONLY'' \<and> fitting_call k kind (fx_call x) \<and> confirmed k now kind d \<and>
     pending_actions d = [] \<and> dget d ''connectivity_wait_active'' = PBool False \<and> passes k now d \<and>
     (within_budget k now d \<or> kind \<noteq> ''ffmpeg_missing'' \<and> emergency lib k now kind d))"

section \<open>Sending\<close>

definition sent_by :: "(effect_call \<Rightarrow> bool) \<Rightarrow> string \<Rightarrow> 'w fr \<Rightarrow> 'w fr \<Rightarrow> bool" where
  "sent_by P kind s t \<longleftrightarrow> fr_stored t = fr_stored s \<and> fr_now t = fr_now s \<and> (fr_effects t = fr_effects s \<or>
     (\<exists>c. P c \<and> fr_effects t = fr_effects s @ [\<lparr>fx_call = c, fx_kind = kind, fx_now = fr_now s, fx_state = fr_state s\<rparr>]))"

definition sends :: "(effect_call \<Rightarrow> bool) \<Rightarrow> string \<Rightarrow> ('w fr, 'a) act \<Rightarrow> bool" where
  "sends P kind m \<longleftrightarrow> withinS (sent_by P kind) m"

lemma sends_steady: "withinS (steadyF K) m \<Longrightarrow> sends P kind m"
  unfolding sends_def by (rule withinS_mono, assumption) (simp add: steadyF_def sent_by_def)

lemma sends_idle: "withinS idleF m \<Longrightarrow> sends P kind m"
  by (rule sends_steady [of "{}"]) (rule idle_steady)

lemma sends_after_idle:
  assumes "withinS idleF m" and "\<And>x. sends P kind (f x)"
  shows "sends P kind (bindS m f)"
  unfolding sends_def withinS_def
proof
  fix s
  obtain r t where m: "m s = (r, t)" by fastforce
  with assms(1) have i: "idleF s t" by (metis withinS_def snd_conv)
  show "sent_by P kind s (snd (bindS m f s))"
  proof (cases r)
    case (Inr x)
    with assms(2) [of x] have "sent_by P kind t (snd (f x t))" by (simp add: sends_def withinS_def)
    with m i Inr show ?thesis by (simp add: bindS_def sent_by_def idleF_def)
  qed (use m i in \<open>simp add: bindS_def sent_by_def idleF_def\<close>)
qed

lemma sends_then_steady:
  assumes "sends P kind m" and "\<And>x. withinS (steadyF {}) (f x)"
  shows "sends P kind (bindS m f)"
  unfolding sends_def withinS_def
proof
  fix s
  obtain r t where m: "m s = (r, t)" by fastforce
  with assms(1) have i: "sent_by P kind s t" by (metis sends_def withinS_def snd_conv)
  show "sent_by P kind s (snd (bindS m f s))"
  proof (cases r)
    case (Inr x)
    with assms(2) [of x] have "steadyF {} t (snd (f x t))" by (simp add: withinS_def)
    with m i Inr show ?thesis by (auto simp: bindS_def sent_by_def steadyF_def)
  qed (use m i in \<open>simp add: bindS_def\<close>)
qed

lemma sends_catch_all: "sends P kind m \<Longrightarrow> sends P kind (catch_all m (\<lambda>e. retS (g e)))"
  by (auto simp: sends_def withinS_def catch_all_def catchS_def raiseS_def retS_def split: prod.splits sum.splits) (metis snd_conv)+

lemma sends_note: "P c \<Longrightarrow> sends P kind (note_effect c kind)"
  by (auto simp: sends_def withinS_def note_effect_def modS_def sent_by_def)

lemma sends_mono: "sends P kind m \<Longrightarrow> (\<And>c. P c \<Longrightarrow> Q c) \<Longrightarrow> sends Q kind m"
  unfolding sends_def by (rule withinS_mono, assumption) (auto simp: sent_by_def)

lemma sends_if: "(b \<Longrightarrow> sends P kind m) \<Longrightarrow> (\<not> b \<Longrightarrow> sends P kind m') \<Longrightarrow> sends P kind (if b then m else m')" by simp

text \<open>The actions themselves keep the dictionary.\<close>

definition keeps_dict :: "'w fr \<Rightarrow> 'w fr \<Rightarrow> bool" where
  "keeps_dict s t \<longleftrightarrow> fr_state t = fr_state s"

interpretation keeps_dict: state_frame keeps_dict by unfold_locales (auto simp: keeps_dict_def)

lemma keeps_idle: "withinS idleF m \<Longrightarrow> withinS keeps_dict m"
  by (rule withinS_mono, assumption) (simp add: idleF_def keeps_dict_def)

lemma keeps_note: "withinS keeps_dict (note_effect c kind)"
  by (simp add: withinS_def note_effect_def modS_def keeps_dict_def)

lemma keeps_catch_all: "withinS keeps_dict m \<Longrightarrow> (\<And>e. withinS keeps_dict (h e)) \<Longrightarrow> withinS keeps_dict (catch_all m h)"
  unfolding catch_all_def by (intro keeps_dict.within_intros) auto

lemma typed_intent:
  "kind \<in> {''tcp_stall'', ''remote_warning''} \<Longrightarrow> d_intent_type (select_recovery_intent lib kind o1) = RESTART_FFMPEG"
  "d_intent_type (select_recovery_intent lib ''ffmpeg_missing'' o1) \<in> {RECONCILE_FFMPEG, ESCALATE_RUNTIME_RECOVERY, NO_ACTION}"
  by (auto simp: select_recovery_intent_def missing_intent_def typed_decision_def no_action_def Let_def)

lemma typed_request_intent: "typed_request lib o1 now op_id pid gen intent domain reason = Inr req \<Longrightarrow> dget req ''intent_type'' = PStr intent"
  by (rule typed_request_lookup(5))

lemma sends_typed:
  "sends (\<lambda>c. \<exists>req. c = TypedRequest esc req \<and> dget req ''intent_type'' = PStr intent) kind
     (execute_typed_effect_request lib k env esc kind intent domain reason correlation)" (is "sends ?P _ _")
proof -
  have r: "sends ?P kind (bindS (liftS (typed_request lib o1 now op_id pid gen intent domain reason))
      (\<lambda>request. bindS (note_effect (TypedRequest esc request) kind) (\<lambda>_. exchange env esc request)))" for o1 now op_id pid gen
  proof (cases "typed_request lib o1 now op_id pid gen intent domain reason")
    case (Inl e)
    then show ?thesis by (simp add: sends_def withinS_def bindS_def liftS_def sent_by_def)
  next
    case (Inr req)
    have "sends ?P kind (bindS (note_effect (TypedRequest esc req) kind) (\<lambda>_. exchange env esc req))"
      by (intro sends_then_steady sends_note idle_steady idle_exchange) (use typed_request_intent [OF Inr] in auto)
    with Inr show ?thesis by (simp add: sends_def withinS_def bindS_def liftS_def)
  qed
  have h: "withinS idleF (if correlation \<noteq> [] then retS correlation else bindS (askF (f_uuid env)) (\<lambda>u. retS (''fra-'' @ u)))"
    by (intro idleF.within_intros idleF_ask)
  have o: "sends ?P kind (case missing_for lib intent o1 of Some why \<Rightarrow> retS (refused_answer why) | None \<Rightarrow> g)"
    if "sends ?P kind g" for o1 g
    using that by (auto split: option.split intro!: sends_idle idleF.within_intros)
  show ?thesis
    unfolding execute_typed_effect_request_def
    by (rule sends_after_idle [OF idle_observe]) (intro o sends_after_idle [OF idleF_ask] sends_after_idle [OF h] r)
qed

lemma keeps_typed: "withinS keeps_dict (execute_typed_effect_request lib k env esc kind intent domain reason correlation)"
  unfolding execute_typed_effect_request_def
  by (intro keeps_dict.within_intros keeps_note keeps_idle idle_parts)

lemma sends_execute:
  assumes "kind = ''ffmpeg_missing'' \<or> kind \<in> {''tcp_stall'', ''remote_warning''} \<and> pid > 1"
  shows "sends (fitting_call k kind) kind (execute_recovery_action_with_policy lib k env kind reason pid correlation)"
proof (cases "k_socket k = []")
  case True
  have "sends (fitting_call k kind) kind (restart_ffmpeg_child env kind pid reason)" if "k8s_supervisor_active k \<and> kind \<in> {''tcp_stall'', ''remote_warning''}"
    unfolding restart_ffmpeg_child_def
    by (intro sends_if sends_idle idleF.within_intros idle_parts sends_after_idle [OF idle_audit] sends_then_steady sends_note
        idle_steady) (use that assms True in \<open>auto simp: fitting_call_def\<close>)
  moreover have "sends (fitting_call k kind) kind (restart_stream env kind reason)" if "\<not> (k8s_supervisor_active k \<and> kind \<in> {''tcp_stall'', ''remote_warning''})"
    unfolding restart_stream_def
    by (intro sends_after_idle [OF idle_audit] sends_then_steady sends_note idle_steady idleF.within_intros idle_parts)
      (use that assms True in \<open>auto simp: fitting_call_def\<close>)
  moreover have "withinS (steadyF {}) (case r of (ok, detail) \<Rightarrow> retS (ok, detail, scope, retry))" for r :: "bool \<times> string" and scope retry
    by (cases r) (simp add: steadyF.within_basic)
  ultimately show ?thesis
    unfolding execute_recovery_action_with_policy_def Let_def using True
    by (simp, intro conjI impI sends_after_idle [OF idle_audit]) (auto intro!: sends_then_steady)
next
  case False
  have c: "fitting_call k kind c" if "\<exists>req. c = TypedRequest (d_intent_type dec = ESCALATE_RUNTIME_RECOVERY) req \<and> dget req ''intent_type'' = PStr (d_intent_type dec)"
    and "dec = select_recovery_intent lib kind o1" and "d_intent_type dec \<noteq> NO_ACTION" for c dec o1
    using that False assms typed_intent(1) [of kind lib o1] typed_intent(2) [of lib o1]
    by (auto simp: fitting_call_def RESTART_FFMPEG_def ESCALATE_RUNTIME_RECOVERY_def)
  have g: "sends (fitting_call k kind) kind (let dec = select_recovery_intent lib kind o1 in
      if d_intent_type dec = NO_ACTION then retS (False, x dec, ''none'', None)
      else bindS (requireS (k_observation_set k) KeyError) (\<lambda>_. catch_all
          (bindS (execute_typed_effect_request lib k env (d_intent_type dec = ESCALATE_RUNTIME_RECOVERY) kind (d_intent_type dec)
                (d_failure_domain dec) reason correlation) (\<lambda>r. retS (y dec r)))
            (\<lambda>e. retS (z dec e))))" for o1 and x :: "intent_decision \<Rightarrow> string" and y z
    unfolding Let_def
    by (intro sends_if sends_idle [OF idleF.within_basic(1)] sends_after_idle [OF idleF.within_basic(5)] sends_catch_all sends_then_steady
        sends_mono [OF sends_typed] steadyF.within_basic) (auto intro: c)
  show ?thesis
    unfolding execute_recovery_action_with_policy_def if_P [OF False] by (rule sends_after_idle [OF idle_observe]) (rule g)
qed

lemma keeps_execute: "withinS keeps_dict (execute_recovery_action_with_policy lib k env kind reason pid correlation)"
  unfolding execute_recovery_action_with_policy_def restart_ffmpeg_child_def restart_stream_def Let_def
  by (intro keeps_dict.within_intros keeps_note keeps_typed keeps_catch_all keeps_idle idle_parts)

section \<open>What an attempt leaves behind\<close>

text \<open>The attempt counts as a restart, or as a failure.\<close>

definition restarted :: "pylib \<Rightarrow> fr_config \<Rightarrow> int \<Rightarrow> string \<Rightarrow> dict list \<Rightarrow> dict \<Rightarrow> dict \<Rightarrow> bool" where
  "restarted lib k now kind events d d' \<longleftrightarrow> map_of d' ''last_restart_ts'' = Some (PInt now) \<and>
     map_of d' ''last_restart_failure_ts'' \<in> {map_of d ''last_restart_failure_ts'', Some (PInt 0)} \<and>
     (case add_restart lib k now kind events of Inr es \<Rightarrow> map_of d' ''restart_events'' = Some (events_py es) | Inl e \<Rightarrow> False)"

definition failed :: "int \<Rightarrow> dict list \<Rightarrow> dict \<Rightarrow> dict \<Rightarrow> bool" where
  "failed now events d d' \<longleftrightarrow> map_of d' ''last_restart_ts'' = map_of d ''last_restart_ts'' \<and> map_of d' ''last_restart_failure_ts'' = Some (PInt now) \<and>
     map_of d' ''restart_events'' = Some (events_py events)"

definition tried :: "pylib \<Rightarrow> fr_config \<Rightarrow> int \<Rightarrow> string \<Rightarrow> dict list \<Rightarrow> dict \<Rightarrow> dict \<Rightarrow> bool" where
  "tried lib k now kind events d d' \<longleftrightarrow> restarted lib k now kind events d d' \<or> failed now events d d'"

lemma wp_put: "wpS (putF f) Q R s \<longleftrightarrow> Q () (s\<lparr>fr_state := f (fr_state s)\<rparr>)"
  by (simp add: putF_def wp_simps)

lemma wp_look: "wpS (lookF f) Q R s \<longleftrightarrow> (case f (fr_state s) of Inl e \<Rightarrow> R e s | Inr x \<Rightarrow> Q x s)"
  by (simp add: lookF_def wp_simps)

lemma wp_emit: "wpS (emit kind message extra) Q R s \<longleftrightarrow> Q () (s\<lparr>fr_log := fr_log s @ [(kind, message, extra)]\<rparr>)"
  "wpS (emit_all es) Q R s \<longleftrightarrow> Q () (s\<lparr>fr_log := fr_log s @ es\<rparr>)"
  by (simp_all add: emit_def emit_all_def wp_simps)

lemma wp_upd: "wpS (updF f) Q R s \<longleftrightarrow> (case f (fr_state s) of Inl e \<Rightarrow> R e s | Inr (x, d) \<Rightarrow> Q x (s\<lparr>fr_state := d\<rparr>))"
  by (auto simp: updF_def wp_simps wp_put split: sum.splits prod.splits)

lemmas fr_wp = wp_simps wp_put wp_look wp_emit wp_upd

lemma map_of_set_pending: "map_of (set_pending ps d) key = (if key = ''pending_recovery_actions'' then Some (events_py (last16 ps)) else map_of d key)"
  by (simp add: set_pending_def)

lemma remember_other: "key \<noteq> ''pending_recovery_actions'' \<Longrightarrow> map_of (remember_pending_recovery action now kind reason pid d) key = map_of d key"
  by (simp add: remember_pending_recovery_def map_of_set_pending)

lemma missing_outcome_post:
  assumes "map_of (fr_state s) ''restart_events'' = Some (events_py events)"
  shows "wpS (missing_outcome lib k now absent_for reason events action active context answer)
    (\<lambda>_ t. steadyF {} s t \<and> tried lib k now (unknown_if_empty ''ffmpeg_missing'') events (fr_state s) (fr_state t)) (\<lambda>_ t. steadyF {} s t) s"
proof -
  obtain ok detail scope retry where a: "answer = (ok, detail, scope, retry)" by (cases answer)
  consider "ok" | "\<not> ok" "retry = Some False" | "\<not> ok" "retry \<noteq> Some False" by blast
  then show ?thesis
    using assms unfolding missing_outcome_def a append_recovery_dispatch_result_def record_unresolved_recovery_dispatch_def Let_def
    by cases (simp add: fr_wp steadyF_def tried_def restarted_def failed_def map_of_aupdate remember_other unknown_if_empty_def split: sum.split)+
qed

lemma live_outcome_post:
  assumes "map_of (fr_state s) ''restart_events'' = Some (events_py events)"
  shows "wpS (live_outcome lib k now pid uptime kind reason events tcp metrics hint context action failures answer)
    (\<lambda>_ t. steadyF {} s t \<and> tried lib k now (unknown_if_empty kind) events (fr_state s) (fr_state t)) (\<lambda>_ t. steadyF {} s t) s"
proof -
  obtain ok detail scope retry where a: "answer = (ok, detail, scope, retry)" by (cases answer)
  show ?thesis
    using assms unfolding live_outcome_def a append_recovery_dispatch_result_def record_unresolved_recovery_dispatch_def Let_def
    by (auto simp: fr_wp steadyF_def tried_def restarted_def failed_def map_of_aupdate remember_other after_restart_def ZERO_SAMPLE_def
        clear_recovery_streaks_def mark_latest_transport_sample_def split: sum.split)
qed

section \<open>One attempt\<close>

definition fields_of :: "'w fr \<Rightarrow> dict \<times> py option \<times> fr_effect list \<times> int" where
  "fields_of s = (fr_state s, fr_stored s, fr_effects s, fr_now s)"

lemma wp_idle:
  assumes "withinS idleF m" and "fields_of s = F" and "\<And>x t. fields_of t = F \<Longrightarrow> wpS (f x) Q R t" and "\<And>e t. fields_of t = F \<Longrightarrow> R e t"
  shows "wpS (bindS m f) Q R s"
  unfolding wpS_bind using assms(1)
  by (rule withinS_wp) (use assms(2-4) in \<open>auto simp: idleF_def fields_of_def\<close>)

definition sent_from :: "fr_config \<Rightarrow> string \<Rightarrow> dict \<times> py option \<times> fr_effect list \<times> int \<Rightarrow> 'w fr \<Rightarrow> bool" where
  "sent_from k kind F t = (case F of (d, S, E, n) \<Rightarrow> fr_stored t = S \<and> fr_now t = n \<and> (fr_effects t = E \<or>
     (\<exists>c. k_authority_mode k \<noteq> ''SHADOW_ONLY'' \<and> fitting_call k kind c \<and>
        fr_effects t = E @ [\<lparr>fx_call = c, fx_kind = kind, fx_now = n, fx_state = d\<rparr>])))"

lemma sent_from_same: "fields_of t = F \<Longrightarrow> sent_from k kind F t"
  by (auto simp: sent_from_def fields_of_def)

lemma sent_from_steady: "fields_of s = F \<Longrightarrow> steadyF {} s t \<Longrightarrow> sent_from k kind F t"
  by (auto simp: sent_from_def fields_of_def steadyF_def)

lemma sent_from_then: "sent_from k kind F t \<Longrightarrow> steadyF {} t u \<Longrightarrow> sent_from k kind F u"
  by (auto simp: sent_from_def steadyF_def split: prod.splits)

lemma active_wp: "fields_of s = F \<Longrightarrow> wpS (effect_authority_active lib k env)
    (\<lambda>b t. fields_of t = F \<and> (b \<longrightarrow> k_authority_mode k \<noteq> ''SHADOW_ONLY'')) (\<lambda>e t. fields_of t = F) s"
proof (cases "k_authority_mode k = ''SHADOW_ONLY''")
  case True
  then have "effect_authority_active lib k env = retS False" by (simp add: effect_authority_active_def)
  then show "fields_of s = F \<Longrightarrow> ?thesis" by (simp add: wp_simps)
next
  case False
  then show "fields_of s = F \<Longrightarrow> ?thesis" by (intro withinS_wp [OF idle_active]) (auto simp: idleF_def fields_of_def)
qed

lemma execute_wp:
  assumes "kind = ''ffmpeg_missing'' \<or> kind \<in> {''tcp_stall'', ''remote_warning''} \<and> pid > 1" and "k_authority_mode k \<noteq> ''SHADOW_ONLY''"
    and "fields_of s = F"
  shows "wpS (execute_recovery_action_with_policy lib k env kind reason pid correlation)
    (\<lambda>x t. sent_from k kind F t \<and> fr_state t = fst F) (\<lambda>e t. sent_from k kind F t) s"
proof -
  let ?m = "execute_recovery_action_with_policy lib k env kind reason pid correlation"
  have "sent_by (fitting_call k kind) kind s (snd (?m s))" "fr_state (snd (?m s)) = fr_state s"
    using sends_execute [OF assms(1), of k lib env reason correlation] keeps_execute [of lib k env kind reason pid correlation]
    by (simp_all add: sends_def withinS_def keeps_dict_def)
  with assms(2,3) show ?thesis
    by (auto simp: wpS_def sent_by_def sent_from_def fields_of_def split: prod.splits sum.splits)
qed

lemma attempt_wp:
  assumes "kind = ''ffmpeg_missing'' \<or> kind \<in> {''tcp_stall'', ''remote_warning''} \<and> pid > 1" and "k_authority_mode k \<noteq> ''SHADOW_ONLY''"
    and "fields_of s = F"
    and "\<And>answer t. fr_state t = fst F \<Longrightarrow> wpS (h answer) (\<lambda>_ u. steadyF {} t u \<and> G (fr_state u)) (\<lambda>_ u. steadyF {} t u) t"
  shows "wpS (bindS (execute_recovery_action_with_policy lib k env kind reason pid correlation) h)
    (\<lambda>_ t. sent_from k kind F t \<and> G (fr_state t)) (\<lambda>_ t. sent_from k kind F t) s"
  unfolding wpS_bind
proof (rule wpS_mono [OF execute_wp [OF assms(1-3)]])
  show "wpS (h x) (\<lambda>_ t. sent_from k kind F t \<and> G (fr_state t)) (\<lambda>_ t. sent_from k kind F t) t"
    if "sent_from k kind F t \<and> fr_state t = fst F" for x t
  proof -
    have "wpS (h x) (\<lambda>_ u. steadyF {} t u \<and> G (fr_state u)) (\<lambda>_ u. steadyF {} t u) t" using assms(4) that by blast
    then show ?thesis by (rule wpS_mono) (use that in \<open>auto intro: sent_from_then\<close>)
  qed
qed simp

lemma recover_live_wp:
  assumes F: "fields_of s = (d, S, E, n)" and e: "map_of d ''restart_events'' = Some (events_py events)"
    and kind: "kind \<in> {''tcp_stall'', ''remote_warning''}" "pid > 1"
  shows "wpS (recover_live lib k env now pid uptime kind reason first events tcp metrics hint failures)
    (\<lambda>_ t. sent_from k kind (d, S, E, n) t \<and> tried lib k now (unknown_if_empty kind) events d (fr_state t))
    (\<lambda>_ t. sent_from k kind (d, S, E, n) t) s"
proof -
  let ?F = "(d, S, E, n)"
  let ?Q = "\<lambda>_ t. sent_from k kind ?F t \<and> tried lib k now (unknown_if_empty kind) events d (fr_state t)"
  let ?R = "\<lambda>_ t. sent_from k kind ?F t"
  note same = sent_from_same [of _ ?F]
  have act: "wpS (bindS (execute_recovery_action_with_policy lib k env kind reason pid correlation)
      (live_outcome lib k now pid uptime kind reason events tcp metrics hint ctx action failures)) ?Q ?R t"
    if "fields_of t = ?F" "k_authority_mode k \<noteq> ''SHADOW_ONLY''" for t action ctx correlation
    by (rule attempt_wp [OF _ that(2,1)]) (use kind e live_outcome_post in \<open>auto simp: fields_of_def\<close>)
  have idle: "wpS (bindS (liftS (add_restart lib k now (unknown_if_empty kind) events)) (\<lambda>es.
      bindS (putF (after_restart now es why)) (\<lambda>_. emit what reason extra))) ?Q ?R t" if "fields_of t = ?F" for t why what extra
    using that by (auto simp: fr_wp same sent_from_def fields_of_def tried_def restarted_def after_restart_def clear_recovery_streaks_def
        ZERO_SAMPLE_def map_of_aupdate split: sum.split)
  show ?thesis
    unfolding recover_live_def Let_def
    apply (rule wp_idle [OF idle_planned F])
     apply (rule wp_idle [OF idle_typed], assumption)
      apply (subst wpS_bind)
      apply (rule wpS_mono [OF active_wp], assumption)
       apply (rule wp_idle [OF idle_action], blast)
        apply (rule wp_idle [OF idleF_ask], assumption)
         apply (rule wp_idle [OF idle_requested], assumption)
          apply (rule wp_idle [OF idle_audit], assumption)
           apply (auto simp: wpS_if intro!: act idle same)
    done
qed

section \<open>Past the gates\<close>

definition KEEP :: "string set" where
  "KEEP = {''last_restart_ts'', ''last_restart_failure_ts'', ''restart_events'', ''pending_recovery_actions'', ''connectivity_wait_active'',
     ''stall_streak'', ''remote_warning_streak'', ''active_reason_kind'', ''active_reason_first_ts'', ''ffmpeg_missing_first_ts'',
     ''ffmpeg_missing_success_backoff_until''}"

text \<open>All conditions on a recovery but who asks for it.\<close>

definition ready :: "pylib \<Rightarrow> fr_config \<Rightarrow> int \<Rightarrow> string \<Rightarrow> dict \<Rightarrow> bool" where
  "ready lib k now kind d \<longleftrightarrow> confirmed k now kind d \<and> pending_actions d = [] \<and> dget d ''connectivity_wait_active'' = PBool False \<and>
     passes k now d \<and> (within_budget k now d \<or> kind \<noteq> ''ffmpeg_missing'' \<and> emergency lib k now kind d)"

lemma permitted_ready: "permitted lib k x \<longleftrightarrow> k_authority_mode k \<noteq> ''SHADOW_ONLY'' \<and> fitting_call k (fx_kind x) (fx_call x) \<and>
    ready lib k (fx_now x) (fx_kind x) (fx_state x)"
  by (auto simp: permitted_def ready_def Let_def)

lemma ready_keep:
  assumes "\<forall>key \<in> KEEP. map_of d' key = map_of d key"
  shows "ready lib k now kind d' = ready lib k now kind d"
proof -
  have m: "map_of d' key = map_of d key" if "key \<in> KEEP" for key using assms that by blast
  have i: "int_at d' key = int_at d key" "int_at_raw d' key = int_at_raw d key" "dget d' key = dget d key" "str_at lib d' key = str_at lib d key"
    if "key \<in> KEEP" for key
    using m [OF that] by (simp_all add: int_at_def int_at_raw_def dget_def dget_or_def str_at_def)
  show ?thesis
    by (simp add: ready_def confirmed_def passes_def within_budget_def emergency_def holds_at_def pending_actions_def i KEEP_def)
qed

lemma dict_items_events [simp]: "dict_items (events_py es) = es"
proof -
  have "concat (map (\<lambda>x. case x of PDict d \<Rightarrow> [d] | _ \<Rightarrow> []) (map PDict es)) = es" by (induction es) auto
  then show ?thesis by (simp add: dict_items_def events_py_def)
qed

lemma budget_gate_wp:
  assumes "K \<inter> GATE_KEYS = {}"
  shows "wpS (budget_gate lib k env w kind reason first now (name, used, budget, window))
    (\<lambda>r t. steadyF K s t \<and> (r = None \<longrightarrow> budget \<le> 0 \<or> used + k_restart_cost k \<le> budget \<or>
       emergency_budget_override_active kind first now (k_override_after k))) (\<lambda>_ t. steadyF K s t) s"
proof (cases "budget > 0 \<and> used + k_restart_cost k > budget \<and> \<not> emergency_budget_override_active kind first now (k_override_after k)")
  case True
  have K: "''last_budget_block_key'' \<notin> K" "''last_budget_block_ts'' \<notin> K" using assms by (auto simp: GATE_KEYS_def)
  show ?thesis
    using True unfolding budget_gate_def Let_def maybe_record_budget_block_def
    by (simp add: wpS_bind, intro conjI impI withinS_wp [OF steady_once [OF K]]) (simp_all add: wp_simps)
next
  case False
  then show ?thesis
    by (intro withinS_wp [OF steady_budget_gate [OF assms, of lib k env w kind reason first now "(name, used, budget, window)"]]) auto
qed

lemma budget_gates_wp:
  fixes s :: "'w fr"
  assumes "K \<inter> GATE_KEYS = {}" and "k_hourly_budget k \<ge> 0" and "k_daily_budget k \<ge> 0"
  shows "wpS (budget_gates lib k env w kind reason first now uh ud)
    (\<lambda>r t. steadyF K s t \<and> (r = None \<longrightarrow> fits (k_hourly_budget k) (k_restart_cost k) (Inr uh) \<and> fits (k_daily_budget k) (k_restart_cost k) (Inr ud) \<or>
       emergency_budget_override_active kind first now (k_override_after k))) (\<lambda>_ t. steadyF K s t) s"
  unfolding budget_gates_def wpS_bind
proof (rule wpS_mono [OF budget_gate_wp [OF assms(1)]])
  fix r :: "string option" and t :: "'w fr"
  assume h: "steadyF K s t \<and> (r = None \<longrightarrow> k_hourly_budget k \<le> 0 \<or> uh + k_restart_cost k \<le> k_hourly_budget k \<or>
    emergency_budget_override_active kind first now (k_override_after k))"
  show "wpS (case r of None \<Rightarrow> budget_gate lib k env w kind reason first now (''daily'', ud, k_daily_budget k, 86400) | Some block \<Rightarrow> retS (Some block))
    (\<lambda>r t. steadyF K s t \<and> (r = None \<longrightarrow> fits (k_hourly_budget k) (k_restart_cost k) (Inr uh) \<and> fits (k_daily_budget k) (k_restart_cost k) (Inr ud) \<or>
       emergency_budget_override_active kind first now (k_override_after k))) (\<lambda>_ t. steadyF K s t) t"
  proof (cases r)
    case None
    with h assms show ?thesis
      by (auto simp: fits_def intro!: wpS_mono [OF budget_gate_wp [OF assms(1)]] intro: steadyF.R_trans)
  qed (use h in \<open>simp add: wp_simps\<close>)
qed simp

section \<open>The end of a cycle\<close>

definition allowed :: "pylib \<Rightarrow> fr_config \<Rightarrow> int \<Rightarrow> fr_effect list \<Rightarrow> 'w fr \<Rightarrow> bool" where
  "allowed lib k now E t \<longleftrightarrow> fr_effects t = E \<or> (\<exists>x. permitted lib k x \<and> fx_now x = now \<and> fr_effects t = E @ [x])"

definition stop_end :: "pylib \<Rightarrow> fr_config \<Rightarrow> py option \<Rightarrow> fr_effect list \<Rightarrow> int \<Rightarrow> 'w fr \<Rightarrow> bool" where
  "stop_end lib k S E now t \<longleftrightarrow> fr_stored t = S \<and> fr_now t = now \<and> allowed lib k now E t"

definition trimmed :: "pylib \<Rightarrow> fr_config \<Rightarrow> int \<Rightarrow> dict \<Rightarrow> (dict list \<Rightarrow> bool) \<Rightarrow> bool" where
  "trimmed lib k now d P \<longleftrightarrow> (case trim_restart_events lib (dget_or d ''restart_events'' (PList [])) now (k_restart_cost k) of Inr es \<Rightarrow> P es | Inl e \<Rightarrow> False)"

text \<open>No attempt: the marks stay, the list of restarts stays or is trimmed.\<close>

definition quiet_end :: "pylib \<Rightarrow> fr_config \<Rightarrow> int \<Rightarrow> dict \<Rightarrow> dict \<Rightarrow> bool" where
  "quiet_end lib k now d d' \<longleftrightarrow> map_of d' ''last_restart_ts'' = map_of d ''last_restart_ts'' \<and>
     map_of d' ''last_restart_failure_ts'' = map_of d ''last_restart_failure_ts'' \<and>
     (map_of d' ''restart_events'' = map_of d ''restart_events'' \<or> trimmed lib k now d (\<lambda>es. map_of d' ''restart_events'' = Some (events_py es)))"

definition step_end :: "pylib \<Rightarrow> fr_config \<Rightarrow> dict \<Rightarrow> py option \<Rightarrow> fr_effect list \<Rightarrow> int \<Rightarrow> 'w fr \<Rightarrow> bool" where
  "step_end lib k d S E now t \<longleftrightarrow> fr_stored t = S \<and> fr_now t = now \<and>
     ((fr_effects t = E \<and> quiet_end lib k now d (fr_state t)) \<or>
      (passes k now d \<and> allowed lib k now E t \<and> trimmed lib k now d (\<lambda>es. \<exists>kind. tried lib k now kind es d (fr_state t))))"

definition MARKS :: "string set" where "MARKS = {''last_restart_ts'', ''last_restart_failure_ts'', ''restart_events''}"

lemma step_end_cong: "\<forall>key \<in> MARKS. map_of d' key = map_of d key \<Longrightarrow> step_end lib k d' S E now t = step_end lib k d S E now t"
  by (simp add: step_end_def quiet_end_def trimmed_def tried_def restarted_def failed_def passes_def holds_at_def int_at_def dget_def dget_or_def MARKS_def)

lemma quiet_step: "fields_of t = (d', S, E, now) \<Longrightarrow> quiet_end lib k now d d' \<Longrightarrow> step_end lib k d S E now t"
  by (simp add: fields_of_def step_end_def)

lemma stop_same: "fields_of t = (d', S, E, now) \<Longrightarrow> stop_end lib k S E now t"
  by (simp add: fields_of_def stop_end_def allowed_def)

lemma stop_steady: "fields_of s = (d', S, E, now) \<Longrightarrow> steadyF K s t \<Longrightarrow> stop_end lib k S E now t"
  by (simp add: fields_of_def stop_end_def allowed_def steadyF_def)

lemma sent_stop: "sent_from k kind (d, S, E, now) t \<Longrightarrow> ready lib k now kind d \<Longrightarrow> stop_end lib k S E now t"
  by (auto simp: sent_from_def stop_end_def allowed_def permitted_ready)

lemma quiet_end_same: "\<forall>key \<in> MARKS. map_of d' key = map_of d key \<Longrightarrow> quiet_end lib k now d d'"
  by (simp add: quiet_end_def MARKS_def)

lemma quiet_then: "quiet_end lib k now d d1 \<Longrightarrow> \<forall>key \<in> MARKS. map_of d2 key = map_of d1 key \<Longrightarrow> quiet_end lib k now d d2"
  by (simp add: quiet_end_def MARKS_def)

lemma quiet_trim: "trim_restart_events lib (dget_or d ''restart_events'' (PList [])) now (k_restart_cost k) = Inr es \<Longrightarrow>
    quiet_end lib k now d (aset ''restart_events'' (events_py es) d)"
  by (simp add: quiet_end_def trimmed_def)

lemma mark_other: "key \<notin> {''last_pid'', ''last_bytes_sent'', ''last_bytes_sent_ts'', ''last_reason''} \<Longrightarrow>
    map_of (mark_latest_transport_sample pid b now why d) key = map_of d key"
  by (auto simp: mark_latest_transport_sample_def Let_def split: option.split)

lemma wp_quiet_put:
  assumes "fields_of s = (d', S, E, now)" and "quiet_end lib k now d d'" and "\<And>key. key \<in> MARKS \<Longrightarrow> map_of (f d') key = map_of d' key"
  shows "wpS (putF f) (\<lambda>_. step_end lib k d S E now) R s"
  using assms by (auto simp: fr_wp fields_of_def step_end_def intro: quiet_then)

lemma quiet_mark: "fields_of s = (d', S, E, now) \<Longrightarrow> quiet_end lib k now d d' \<Longrightarrow>
    wpS (putF (mark_latest_transport_sample pid b n why)) (\<lambda>_. step_end lib k d S E now) R s"
  by (rule wp_quiet_put) (auto simp: mark_other MARKS_def)

lemma wp_quiet_steady:
  assumes "fields_of s = (d', S, E, now)" and "quiet_end lib k now d d'" and "withinS (steadyF MARKS) m"
  shows "wpS m (\<lambda>_. step_end lib k d S E now) (\<lambda>_. stop_end lib k S E now) s"
  by (rule withinS_wp [OF assms(3)])
    (use assms(1,2) in \<open>auto simp: fields_of_def step_end_def steadyF_def stop_end_def allowed_def intro: quiet_then\<close>)

text \<open>The attempt: from a dictionary that has passed the gates and keeps what they looked at.\<close>

lemma attempt_end:
  assumes "passes k now d" and "trim_restart_events lib (dget_or d ''restart_events'' (PList [])) now (k_restart_cost k) = Inr es"
    and "ready lib k now kind d'" and "\<forall>key \<in> KEEP. map_of d' key = map_of (aset ''restart_events'' (events_py es) d) key"
    and "wpS m (\<lambda>_ t. sent_from k kind (d', S, E, now) t \<and> tried lib k now kind' es d' (fr_state t)) (\<lambda>_ t. sent_from k kind (d', S, E, now) t) s"
  shows "wpS m (\<lambda>_. step_end lib k d S E now) (\<lambda>_. stop_end lib k S E now) s"
proof (rule wpS_mono [OF assms(5)])
  fix x t
  assume t: "sent_from k kind (d', S, E, now) t \<and> tried lib k now kind' es d' (fr_state t)"
  have "map_of d' ''last_restart_ts'' = map_of d ''last_restart_ts''" "map_of d' ''last_restart_failure_ts'' = map_of d ''last_restart_failure_ts''"
    using assms(4) by (simp_all add: KEEP_def)
  with t have "tried lib k now kind' es d (fr_state t)" by (simp add: tried_def restarted_def failed_def)
  moreover have "stop_end lib k S E now t" using t sent_stop assms(3) by blast
  ultimately show "step_end lib k d S E now t"
    using assms(1,2) by (auto simp: step_end_def stop_end_def trimmed_def)
qed (use assms(3) sent_stop in blast)

section \<open>FFmpeg is running\<close>

definition clear_to_act :: "pylib \<Rightarrow> fr_config \<Rightarrow> int \<Rightarrow> string \<Rightarrow> int \<Rightarrow> dict \<Rightarrow> bool" where
  "clear_to_act lib k now kind first d \<longleftrightarrow> confirmed k now kind d \<and> pending_actions d = [] \<and> dget d ''connectivity_wait_active'' = PBool False \<and>
     (emergency_budget_override_active kind first now (k_override_after k) \<longrightarrow> emergency lib k now kind d)"

lemma clear_to_act_other:
  assumes "clear_to_act lib k now kind first d" and "\<forall>key \<in> KEEP - {''restart_events''}. map_of d' key = map_of d key"
  shows "clear_to_act lib k now kind first d'"
proof -
  have m: "map_of d' key = map_of d key" if "key \<in> KEEP - {''restart_events''}" for key using assms(2) that by blast
  have i: "int_at d' key = int_at d key" "int_at_raw d' key = int_at_raw d key" "dget d' key = dget d key" "str_at lib d' key = str_at lib d key"
    if "key \<in> KEEP - {''restart_events''}" for key
    using m [OF that] by (simp_all add: int_at_def int_at_raw_def dget_def dget_or_def str_at_def)
  have "clear_to_act lib k now kind first d' = clear_to_act lib k now kind first d"
    by (simp add: clear_to_act_def confirmed_def emergency_def holds_at_def pending_actions_def i KEEP_def)
  with assms(1) show ?thesis by simp
qed

lemma no_override_missing [simp]: "\<not> emergency_budget_override_active ''ffmpeg_missing'' first now after"
  by (simp add: emergency_budget_override_active_def)

lemma gates_ready:
  assumes "clear_to_act lib k now kind first d" and "passes k now d"
    and "used_downtime_budget_sec es now 3600 (k_restart_cost k) = Inr uh" and "used_downtime_budget_sec es now 86400 (k_restart_cost k) = Inr ud"
    and "fits (k_hourly_budget k) (k_restart_cost k) (Inr uh) \<and> fits (k_daily_budget k) (k_restart_cost k) (Inr ud) \<or>
       emergency_budget_override_active kind first now (k_override_after k)"
  shows "ready lib k now kind (aset ''restart_events'' (events_py es) d)"
proof -
  let ?d = "aset ''restart_events'' (events_py es) d"
  have c: "clear_to_act lib k now kind first ?d" using clear_to_act_other [OF assms(1), of ?d] by (simp add: KEEP_def)
  have p: "passes k now ?d" using assms(2) by (simp add: passes_def holds_at_def int_at_def dget_def)
  have "dget ?d ''restart_events'' = events_py es" by (simp add: dget_def)
  then have "within_budget k now ?d \<or> emergency_budget_override_active kind first now (k_override_after k)"
    using assms(3-5) by (auto simp: within_budget_def Let_def)
  then show ?thesis
  proof
    assume "within_budget k now ?d"
    with c p show ?thesis by (simp add: ready_def clear_to_act_def)
  next
    assume o: "emergency_budget_override_active kind first now (k_override_after k)"
    then have "kind \<noteq> ''ffmpeg_missing''" by auto
    with c p o show ?thesis by (simp add: ready_def clear_to_act_def)
  qed
qed

lemma KEEP_gates: "KEEP \<inter> GATE_KEYS = {}" "MARKS \<inter> GATE_KEYS = {}" "MARKS \<subseteq> KEEP" by (auto simp: KEEP_def GATE_KEYS_def MARKS_def)

lemma steady_fields: "steadyF K s t \<Longrightarrow> fields_of s = (d, S, E, n) \<Longrightarrow> fields_of t = (fr_state t, S, E, n) \<and> (\<forall>key \<in> K. map_of (fr_state t) key = map_of d key)"
  by (simp add: steadyF_def fields_of_def)

text \<open>Past guard and backoff, with a reason: the budgets, the GPU, the attempt.\<close>

definition live_gates ::
    "pylib \<Rightarrow> fr_config \<Rightarrow> 'w fenv \<Rightarrow> int \<Rightarrow> int \<Rightarrow> int \<Rightarrow> string \<Rightarrow> string \<Rightarrow> int \<Rightarrow> tcp_reading \<Rightarrow> network_reading \<Rightarrow> bool \<Rightarrow> dict \<Rightarrow> int \<Rightarrow>
       dict list \<Rightarrow> ('w fr, unit) act" where
  "live_gates lib k env now pid uptime kind reason first tcp net warning hint failures events =
     bindS (liftS (used_downtime_budget_sec events now 3600 (k_restart_cost k))) (\<lambda>used_hour.
     bindS (liftS (used_downtime_budget_sec events now 86400 (k_restart_cost k))) (\<lambda>used_day.
     bindS (budget_gates lib k env False kind reason first now used_hour used_day) (\<lambda>blocked. case blocked of
       Some block \<Rightarrow> bindS (say block) (\<lambda>_. putF (mark_latest_transport_sample pid (tr_bytes_sent tcp) now None))
     | None \<Rightarrow>
         bindS (liftS (restart_metrics tcp (nr_down net) warning)) (\<lambda>metrics.
         bindS (block_restart_if_gpu_preflight_fails lib k env (unknown_if_empty kind) reason) (\<lambda>g.
         if g then putF (mark_latest_transport_sample pid (tr_bytes_sent tcp) now None)
         else recover_live lib k env now pid uptime kind reason first events tcp metrics hint failures)))))"

lemma steady_mark: "withinS (steadyF MARKS) (putF (mark_latest_transport_sample pid b now why))"
  by (rule steady_put) (auto simp: mark_other MARKS_def)

lemma live_gates_wp:
  assumes F: "fields_of s = (aset ''restart_events'' (events_py es) d, S, E, now)" and "wf_config k"
    and t: "trim_restart_events lib (dget_or d ''restart_events'' (PList [])) now (k_restart_cost k) = Inr es"
    and c: "clear_to_act lib k now kind first d" and p: "passes k now d" and kind: "kind \<in> {''tcp_stall'', ''remote_warning''}" "pid > 1"
  shows "wpS (live_gates lib k env now pid uptime kind reason first tcp net warning hint failures es)
    (\<lambda>_. step_end lib k d S E now) (\<lambda>_. stop_end lib k S E now) s"
proof (cases "used_downtime_budget_sec es now 3600 (k_restart_cost k)")
  case (Inl e)
  then show ?thesis using stop_same [OF F] by (simp add: live_gates_def wp_simps)
next
  case uh: (Inr uh)
  show ?thesis
  proof (cases "used_downtime_budget_sec es now 86400 (k_restart_cost k)")
    case (Inl e)
    then show ?thesis using uh stop_same [OF F] by (simp add: live_gates_def wp_simps)
  next
    case ud: (Inr ud)
    let ?d = "aset ''restart_events'' (events_py es) d"
    have q: "quiet_end lib k now d d'" if "\<forall>key \<in> KEEP. map_of d' key = map_of ?d key" for d'
      using that KEEP_gates(3) by (intro quiet_then [OF quiet_trim [OF t]]) blast
    show ?thesis
      unfolding live_gates_def uh ud
      apply (simp only: wpS_bind [of "liftS _"] wpS_lift sum.case)
      apply (subst wpS_bind)
      apply (rule wpS_mono [OF budget_gates_wp [OF KEEP_gates(1)]])
         apply (use \<open>wf_config k\<close> in \<open>simp add: wf_config_def\<close>)
        apply (use \<open>wf_config k\<close> in \<open>simp add: wf_config_def\<close>)
       prefer 2
       apply (rule stop_steady [OF F], assumption)
    proof -
      fix r :: "string option" and u
      assume u: "steadyF KEEP s u \<and> (r = None \<longrightarrow> fits (k_hourly_budget k) (k_restart_cost k) (Inr uh) \<and> fits (k_daily_budget k) (k_restart_cost k) (Inr ud) \<or>
         emergency_budget_override_active kind first now (k_override_after k))"
      from steady_fields [OF conjunct1 [OF u] F] have Fu: "fields_of u = (fr_state u, S, E, now)" and
        ku: "\<forall>key \<in> KEEP. map_of (fr_state u) key = map_of ?d key" by simp_all
      note qm = wp_quiet_steady [OF Fu q [OF ku]]
      have g: "wpS (bindS (block_restart_if_gpu_preflight_fails lib k env (unknown_if_empty kind) reason) (\<lambda>g.
          if g then putF (mark_latest_transport_sample pid (tr_bytes_sent tcp) now None)
          else recover_live lib k env now pid uptime kind reason first es tcp metrics hint failures))
          (\<lambda>_. step_end lib k d S E now) (\<lambda>_. stop_end lib k S E now) u"
        if "ready lib k now kind ?d" for metrics
        unfolding wpS_bind
      proof (rule withinS_wp [OF steady_gpu_gate [OF KEEP_gates(1)]])
        fix g v
        assume "steadyF KEEP u v"
        from steady_fields [OF this Fu] ku have Fv: "fields_of v = (fr_state v, S, E, now)" and
          kv: "\<forall>key \<in> KEEP. map_of (fr_state v) key = map_of ?d key" by simp_all
        have e: "map_of (fr_state v) ''restart_events'' = Some (events_py es)" using kv by (simp add: KEEP_def)
        have "ready lib k now kind (fr_state v)" using ready_keep [OF kv] that by simp
        then have "wpS (recover_live lib k env now pid uptime kind reason first es tcp metrics hint failures)
          (\<lambda>_. step_end lib k d S E now) (\<lambda>_. stop_end lib k S E now) v"
          by (rule attempt_end [OF p t _ kv recover_live_wp [OF Fv e kind]])
        then show "wpS (if g then putF (mark_latest_transport_sample pid (tr_bytes_sent tcp) now None)
          else recover_live lib k env now pid uptime kind reason first es tcp metrics hint failures)
          (\<lambda>_. step_end lib k d S E now) (\<lambda>_. stop_end lib k S E now) v"
          using quiet_mark [OF Fv q [OF kv]] by simp
      qed (rule stop_steady [OF Fu])
      show "wpS (case r of Some block \<Rightarrow> bindS (say block) (\<lambda>_. putF (mark_latest_transport_sample pid (tr_bytes_sent tcp) now None))
         | None \<Rightarrow> bindS (liftS (restart_metrics tcp (nr_down net) warning)) (\<lambda>metrics.
             bindS (block_restart_if_gpu_preflight_fails lib k env (unknown_if_empty kind) reason) (\<lambda>g.
             if g then putF (mark_latest_transport_sample pid (tr_bytes_sent tcp) now None)
             else recover_live lib k env now pid uptime kind reason first es tcp metrics hint failures)))
         (\<lambda>_. step_end lib k d S E now) (\<lambda>_. stop_end lib k S E now) u"
      proof (cases r)
        case None
        with u have "ready lib k now kind ?d" using gates_ready [OF c p uh ud] by simp
        from g [OF this] None stop_same [OF Fu] show ?thesis by (auto simp: wpS_bind wpS_lift split: sum.split)
      next
        case (Some block)
        have "withinS (steadyF MARKS) (bindS (say block) (\<lambda>_. putF (mark_latest_transport_sample pid (tr_bytes_sent tcp) now None)))"
          by (intro steadyF.within_bind steady_mark steady_say) (simp add: MARKS_def)
        from qm [OF this] Some show ?thesis by simp
      qed
    qed
  qed
qed

lemma restart_live_wp:
  assumes F: "fields_of s = (d, S, E, now)" and "wf_config k" and l: "int_at d ''last_restart_ts'' = Inr last_restart"
    and c: "reason \<noteq> [] \<Longrightarrow> clear_to_act lib k now kind first d \<and> kind \<in> {''tcp_stall'', ''remote_warning''}" and "pid > 1"
  shows "wpS (restart_live lib k env now last_restart pid uptime kind reason first tcp net warning hint)
    (\<lambda>_. step_end lib k d S E now) (\<lambda>_. stop_end lib k S E now) s"
proof -
  let ?Q = "\<lambda>_. step_end lib k d S E now"
  let ?R = "\<lambda>_. stop_end lib k S E now"
  have fd: "fr_state s = d" using F by (simp add: fields_of_def)
  have q: "quiet_end lib k now d d" by (rule quiet_end_same) simp
  note mark = quiet_mark [OF F q]
  have tail: "wpS (bindS (putF (aset ''restart_events'' (events_py es))) (\<lambda>_. if reason = [] then
      bindS (putF (mark_latest_transport_sample pid (tr_bytes_sent tcp) now (Some ''healthy''))) (\<lambda>_. bindS (record_typed_policy_decision lib k env ''healthy'') (\<lambda>_. retS ()))
      else live_gates lib k env now pid uptime kind reason first tcp net warning hint failures es)) ?Q ?R s"
    if t: "trim_restart_events lib (dget_or d ''restart_events'' (PList [])) now (k_restart_cost k) = Inr es"
      and p: "reason \<noteq> [] \<longrightarrow> passes k now d" for es failures
  proof -
    let ?s = "s\<lparr>fr_state := aset ''restart_events'' (events_py es) d\<rparr>"
    have Fs: "fields_of ?s = (aset ''restart_events'' (events_py es) d, S, E, now)" using F by (simp add: fields_of_def)
    have "wpS (bindS (putF (mark_latest_transport_sample pid (tr_bytes_sent tcp) now (Some ''healthy''))) (\<lambda>_.
        bindS (record_typed_policy_decision lib k env ''healthy'') (\<lambda>_. retS ()))) ?Q ?R ?s"
      by (rule wp_quiet_steady [OF Fs quiet_trim [OF t]]) (intro steadyF.within_intros steady_mark idle_steady idle_typed)
    moreover have "wpS (live_gates lib k env now pid uptime kind reason first tcp net warning hint failures es) ?Q ?R ?s" if "reason \<noteq> []"
      using live_gates_wp [OF Fs assms(2) t _ p [rule_format, OF that], of kind first] c [OF that] assms(5) by blast
    ultimately show ?thesis by (simp add: wpS_bind wp_put fd)
  qed
  have stop: "stop_end lib k S E now s" by (rule stop_same [OF F])
  show ?thesis
  proof (cases "reason \<noteq> [] \<and> now - last_restart < k_restart_guard k")
    case True
    show ?thesis unfolding restart_live_def Let_def by (simp only: if_P [OF True]) (rule mark)
  next
    case g: False
    show ?thesis
    proof (cases "int_at d ''last_restart_failure_ts''")
      case (Inl e)
      show ?thesis using stop unfolding restart_live_def Let_def by (simp only: if_not_P [OF g] Inl wpS_bind wp_look fd sum.case)
    next
      case fa: (Inr failed_at)
      show ?thesis
      proof (cases "int_at d ''restart_failure_count''")
        case (Inl e)
        show ?thesis using stop unfolding restart_live_def Let_def by (simp only: if_not_P [OF g] fa Inl wpS_bind wp_look fd sum.case)
      next
        case fc: (Inr failures)
        show ?thesis
        proof (cases "reason \<noteq> [] \<and> restart_failure_backoff_left now failed_at (k_failure_backoff k) > 0")
          case True
          show ?thesis unfolding restart_live_def Let_def
            by (simp only: if_not_P [OF g] fa fc if_P [OF True] wpS_bind wp_look fd sum.case) (rule mark)
        next
          case b: False
          have p: "reason \<noteq> [] \<longrightarrow> passes k now d" using g b l fa by (auto simp: passes_def holds_at_def)
          show ?thesis
          proof (cases "trim_restart_events lib (dget_or d ''restart_events'' (PList [])) now (k_restart_cost k)")
            case (Inl e)
            show ?thesis using stop unfolding restart_live_def Let_def
              by (simp only: if_not_P [OF g] fa fc if_not_P [OF b] Inl wpS_bind wp_look fd sum.case)
          next
            case (Inr es)
            show ?thesis using tail [OF Inr p, of failures] unfolding restart_live_def Let_def live_gates_def
              by (simp only: if_not_P [OF g] fa fc if_not_P [OF b] Inr wpS_bind wp_look fd sum.case)
          qed
        qed
      qed
    qed
  qed
qed

end
