(* ===== verification/Fr_Cycle.thy ===== *)
theory Fr_Cycle
  imports Fr_Safety
begin

text \<open>
  A whole cycle of the Fast Recovery controller, and histories of cycles: every recovery a cycle sends is
  permitted, there is at most one, and two of them keep their distance.
\<close>

section \<open>Carrying facts through a cycle\<close>

text \<open>The state agrees with \<open>F\<close>, the dictionary at the entries of \<open>K\<close>.\<close>

definition framed :: "string set \<Rightarrow> dict \<times> py option \<times> fr_effect list \<times> int \<Rightarrow> 'w fr \<Rightarrow> bool" where
  "framed K F t \<longleftrightarrow> (case F of (d, S, E, n) \<Rightarrow> fr_stored t = S \<and> fr_effects t = E \<and> fr_now t = n \<and> (\<forall>key \<in> K. map_of (fr_state t) key = map_of d key))"

lemma framed_fields: "fields_of s = F \<Longrightarrow> framed K F s"
  by (auto simp: framed_def fields_of_def)

lemma framed_steady: "framed K F s \<Longrightarrow> steadyF L s t \<Longrightarrow> framed (K \<inter> L) F t"
  by (auto simp: framed_def steadyF_def)

lemma framed_same: "framed K F s \<Longrightarrow> steadyF K s t \<Longrightarrow> framed K F t"
  using framed_steady [of K F s K t] by simp

lemma wp_framed:
  assumes "withinS (steadyF K) m" and "framed K F s"
    and "\<And>x t. framed K F t \<Longrightarrow> wpS (f x) Q R t" and "\<And>e t. framed K F t \<Longrightarrow> R e t"
  shows "wpS (bindS m f) Q R s"
  unfolding wpS_bind using assms(1) by (rule withinS_wp) (use assms(2-4) framed_same in blast)+

lemma wp_framed_idle:
  assumes "withinS idleF m" and "framed K F s"
    and "\<And>x t. framed K F t \<Longrightarrow> wpS (f x) Q R t" and "\<And>e t. framed K F t \<Longrightarrow> R e t"
  shows "wpS (bindS m f) Q R s"
  by (rule wp_framed [OF idle_steady [OF assms(1)] assms(2-4)])

lemma framed_here: "framed K (d, S, E, n) t \<Longrightarrow> fields_of t = (fr_state t, S, E, n)"
  by (simp add: framed_def fields_of_def)

lemma framed_at: "framed K (d, S, E, n) t \<Longrightarrow> key \<in> K \<Longrightarrow> map_of (fr_state t) key = map_of d key"
  by (simp add: framed_def)

lemma framed_stop: "framed K (d, S, E, n) t \<Longrightarrow> stop_end lib k S E n t"
  by (simp add: framed_def stop_end_def allowed_def)

lemma framed_quiet: "framed K (d, S, E, n) t \<Longrightarrow> MARKS \<subseteq> K \<Longrightarrow> quiet_end lib k n d (fr_state t)"
  by (rule quiet_end_same) (auto simp: framed_def)

lemma framed_step: "framed K (d, S, E, n) t \<Longrightarrow> MARKS \<subseteq> K \<Longrightarrow> step_end lib k d S E n t"
  by (rule quiet_step [OF framed_here framed_quiet])

section \<open>FFmpeg is missing\<close>

lemma recover_missing_end:
  assumes p: "passes k now d" and t: "trim_restart_events lib (dget_or d ''restart_events'' (PList [])) now (k_restart_cost k) = Inr es"
    and r: "ready lib k now ''ffmpeg_missing'' d'" and kv: "\<forall>key \<in> KEEP. map_of d' key = map_of (aset ''restart_events'' (events_py es) d) key"
    and F: "fields_of s = (d', S, E, now)"
  shows "wpS (recover_missing lib k env now first reason es) (\<lambda>_. step_end lib k d S E now) (\<lambda>_. stop_end lib k S E now) s"
proof -
  let ?F = "(d', S, E, now)"
  let ?kind = "unknown_if_empty ''ffmpeg_missing''"
  let ?Q = "\<lambda>_ t. sent_from k ''ffmpeg_missing'' ?F t \<and> tried lib k now ?kind es d' (fr_state t)"
  let ?R = "\<lambda>_ t. sent_from k ''ffmpeg_missing'' ?F t"
  have q: "quiet_end lib k now d d'" using kv KEEP_gates(3) by (intro quiet_then [OF quiet_trim [OF t]]) blast
  have e: "map_of d' ''restart_events'' = Some (events_py es)" using kv by (simp add: KEEP_def)
  note same = sent_from_same [of _ ?F]
  have act: "wpS (bindS (execute_recovery_action_with_policy lib k env ''ffmpeg_missing'' reason 0 correlation)
      (missing_outcome lib k now (now - first) reason es action True ctx)) ?Q ?R t"
    if "fields_of t = ?F" "k_authority_mode k \<noteq> ''SHADOW_ONLY''" for t action ctx correlation
    by (rule attempt_wp [OF _ that(2,1)]) (use e missing_outcome_post in \<open>auto simp: fields_of_def\<close>)
  have shadow: "wpS (missing_outcome lib k now (now - first) reason es action False ctx answer) ?Q ?R t" if "fields_of t = ?F" for t action ctx answer
  proof (rule wpS_mono [OF missing_outcome_post])
    show "map_of (fr_state t) ''restart_events'' = Some (events_py es)" using that e by (simp add: fields_of_def)
  qed (use that in \<open>auto intro: sent_from_steady simp: fields_of_def\<close>)
  have rest: "wpS (bindS (planned_recovery_scope lib k env ''ffmpeg_missing'') (\<lambda>scope.
       bindS (effect_authority_active lib k env) (\<lambda>active.
       bindS (new_recovery_action k env now ''ffmpeg_missing'' first 0 scope active) (\<lambda>action.
       bindS (askF (f_context env action reason)) (\<lambda>ctx.
       bindS (append_recovery_requested action ''ffmpeg_missing'' reason 0 0 []) (\<lambda>_.
       bindS (audit_mp03 env ''ACTION_PLAN_CREATED'' (plan_operation k ''ffmpeg_missing'' dec)) (\<lambda>_.
       bindS (if \<not> active then retS (True, ''shadow producer inactive; physical effect skipped'', scope, None)
              else execute_recovery_action_with_policy lib k env ''ffmpeg_missing'' reason 0 (str_or_empty lib (dget action ''recovery_action_id''))) (\<lambda>answer.
       missing_outcome lib k now (now - first) reason es action active ctx answer))))))))
     ?Q ?R t" if "fields_of t = ?F" for t dec
    apply (rule wp_idle [OF idle_planned that])
     apply (subst wpS_bind)
     apply (rule wpS_mono [OF active_wp], assumption)
      apply (rule wp_idle [OF idle_action], blast)
       apply (rule wp_idle [OF idleF_ask], assumption)
        apply (rule wp_idle [OF idle_requested], assumption)
         apply (rule wp_idle [OF idle_audit], assumption)
    subgoal for scope u active
      by (cases active) (simp_all add: act shadow wpS_bind [of "retS _"] wpS_ret)
         apply (auto intro: same)
    done
  have none: "wpS (say why) (\<lambda>_. step_end lib k d S E now) (\<lambda>_. stop_end lib k S E now) t" if "fields_of t = ?F" for t why
    unfolding say_def by (rule wp_quiet_put [OF that q]) (auto simp: MARKS_def)
  show ?thesis
    unfolding recover_missing_def Let_def
    by (rule wp_idle [OF idle_typed F]) (auto simp only: split: if_split intro!: none attempt_end [OF p t r kv rest] stop_same)
qed

lemma framed_keep:
  assumes "framed KEEP (aset ''restart_events'' (events_py es) d, S, E, now) t" and "trim_restart_events lib (dget_or d ''restart_events'' (PList [])) now (k_restart_cost k) = Inr es"
  shows "quiet_end lib k now d (fr_state t)"
  using assms(1) KEEP_gates(3) by (intro quiet_then [OF quiet_trim [OF assms(2)]]) (auto simp: framed_def)

lemma restart_missing_end:
  assumes F: "fields_of s = (d, S, E, now)" and wf: "wf_config k"
    and c: "clear_to_act lib k now ''ffmpeg_missing'' first d" and p: "passes k now d"
  shows "wpS (restart_missing lib k env now first reason) (\<lambda>_. step_end lib k d S E now) (\<lambda>_. stop_end lib k S E now) s"
proof -
  let ?Q = "\<lambda>_. step_end lib k d S E now"
  let ?R = "\<lambda>_. stop_end lib k S E now"
  have fd: "fr_state s = d" using F by (simp add: fields_of_def)
  have budgets: "k_hourly_budget k \<ge> 0" "k_daily_budget k \<ge> 0" using wf by (simp_all add: wf_config_def)
  show ?thesis
  proof (cases "trim_restart_events lib (dget_or d ''restart_events'' (PList [])) now (k_restart_cost k)")
    case (Inl e)
    then show ?thesis using stop_same [OF F] by (simp add: restart_missing_def Let_def fr_wp fd)
  next
    case t: (Inr es)
    let ?d = "aset ''restart_events'' (events_py es) d"
    let ?s = "s\<lparr>fr_state := ?d\<rparr>"
    have Fs: "fields_of ?s = (?d, S, E, now)" using F by (simp add: fields_of_def)
    have gates: "wpS (bindS (block_ffmpeg_missing_restart_before_established lib k env reason) (\<lambda>b. if b then retS ()
         else bindS (block_restart_if_gpu_preflight_fails lib k env ''ffmpeg_missing'' reason) (\<lambda>g. if g then retS ()
         else recover_missing lib k env now first reason es))) ?Q ?R u"
      if u: "framed KEEP (?d, S, E, now) u" and r: "ready lib k now ''ffmpeg_missing'' ?d" for u
    proof -
      have go: "wpS (recover_missing lib k env now first reason es) ?Q ?R v" if v: "framed KEEP (?d, S, E, now) v" for v
      proof -
        have kv: "\<forall>key \<in> KEEP. map_of (fr_state v) key = map_of ?d key" using v by (simp add: framed_def)
        have "ready lib k now ''ffmpeg_missing'' (fr_state v)" using ready_keep [OF kv] r by simp
        then show ?thesis by (rule recover_missing_end [OF p t _ kv framed_here [OF v]])
      qed
      have idle: "wpS (retS ()) ?Q ?R v" if "framed KEEP (?d, S, E, now) v" for v
        using quiet_step [OF framed_here framed_keep] that t by (simp add: wpS_ret)
      show ?thesis
        by (rule wp_framed [OF steady_established_gate [OF KEEP_gates(1)] u])
          (auto simp only: split: if_split intro!: idle go framed_stop wp_framed [OF steady_gpu_gate [OF KEEP_gates(1)]])
    qed
    have blocked: "wpS (putF (\<lambda>d. aupdate d ([(''last_reason'', PStr block), (''last_pid'', PInt 0), (''last_bytes_sent'', PInt 0)] @ ZERO_SAMPLE))) ?Q ?R u"
      if "framed KEEP (?d, S, E, now) u" for u block
      by (rule wp_quiet_put [OF framed_here [OF that] framed_keep [OF that t]]) (auto simp: MARKS_def map_of_aupdate ZERO_SAMPLE_def)
    have "wpS (bindS (budget_gates lib k env True ''ffmpeg_missing'' reason first now uh ud) (\<lambda>blocked. case blocked of
        Some block \<Rightarrow> putF (\<lambda>d. aupdate d ([(''last_reason'', PStr block), (''last_pid'', PInt 0), (''last_bytes_sent'', PInt 0)] @ ZERO_SAMPLE))
      | None \<Rightarrow>
         bindS (block_ffmpeg_missing_restart_before_established lib k env reason) (\<lambda>b. if b then retS ()
         else bindS (block_restart_if_gpu_preflight_fails lib k env ''ffmpeg_missing'' reason) (\<lambda>g. if g then retS ()
         else recover_missing lib k env now first reason es)))) ?Q ?R ?s"
      if uh: "used_downtime_budget_sec es now 3600 (k_restart_cost k) = Inr uh" and ud: "used_downtime_budget_sec es now 86400 (k_restart_cost k) = Inr ud" for uh ud
      unfolding wpS_bind [of "budget_gates _ _ _ _ _ _ _ _ _ _"]
    proof (rule wpS_mono [OF budget_gates_wp [OF KEEP_gates(1) budgets]])
      fix r :: "string option" and u
      assume u: "steadyF KEEP ?s u \<and> (r = None \<longrightarrow> fits (k_hourly_budget k) (k_restart_cost k) (Inr uh) \<and> fits (k_daily_budget k) (k_restart_cost k) (Inr ud) \<or>
         emergency_budget_override_active ''ffmpeg_missing'' first now (k_override_after k))"
      then have fu: "framed KEEP (?d, S, E, now) u" using framed_same [OF framed_fields [OF Fs]] by blast
      show "wpS (case r of Some block \<Rightarrow> putF (\<lambda>d. aupdate d ([(''last_reason'', PStr block), (''last_pid'', PInt 0), (''last_bytes_sent'', PInt 0)] @ ZERO_SAMPLE))
         | None \<Rightarrow> bindS (block_ffmpeg_missing_restart_before_established lib k env reason) (\<lambda>b. if b then retS ()
         else bindS (block_restart_if_gpu_preflight_fails lib k env ''ffmpeg_missing'' reason) (\<lambda>g. if g then retS ()
         else recover_missing lib k env now first reason es))) ?Q ?R u"
      proof (cases r)
        case None
        with u have "ready lib k now ''ffmpeg_missing'' ?d" using gates_ready [OF c p uh ud] by simp
        from gates [OF fu this] None show ?thesis by simp
      qed (use blocked [OF fu] in simp)
    qed (use framed_same [OF framed_fields [OF Fs]] framed_stop in blast)
    then show ?thesis
      using stop_same [OF Fs] unfolding restart_missing_def Let_def
      by (simp only: wpS_bind [of "lookF _"] wpS_bind [of "putF _"] wpS_bind [of "liftS _"] wpS_lift wp_look wp_put fd t sum.case)
        (auto simp only: split: sum.split)
  qed
qed

text \<open>The entries a cycle looks at while it decides, the wait for the network aside.\<close>

definition WATCHED :: "string set" where
  "WATCHED = insert ''net_fail_streak'' KEEP - {''connectivity_wait_active''}"

lemma MARKS_WATCHED: "MARKS \<subseteq> WATCHED" by (auto simp: MARKS_def WATCHED_def KEEP_def)

definition WAIT_KEYS :: "string set" where
  "WAIT_KEYS = {''connectivity_wait_active'', ''connectivity_wait_since_ts'', ''connectivity_last_observed_ts'', ''connectivity_recovered_ts'',
     ''connectivity_gateway_present'', ''connectivity_gateway_ok'', ''connectivity_public_ok_count'', ''connectivity_dns_ok'',
     ''connectivity_tcp_probe_ok'', ''last_reason''}"

lemma WATCHED_wait: "key \<in> WATCHED \<Longrightarrow> key \<notin> WAIT_KEYS"
  by (simp only: WATCHED_def KEEP_def) (elim DiffE insertE emptyE; simp add: WAIT_KEYS_def)

lemma network_fields_keys: "key \<notin> WAIT_KEYS \<Longrightarrow> map_of (aupdate d (network_fields net)) key = map_of d key"
  by (rule map_of_aupdate_other) (simp add: network_fields_def WAIT_KEYS_def)

lemma clear_wait_result:
  assumes "clear_wait now net d = Inr (es, d')"
  shows "dget d' ''connectivity_wait_active'' = PBool False" and "key \<in> WATCHED \<Longrightarrow> map_of d' key = map_of d key"
proof -
  obtain d1 where d': "d' = aupdate (aset ''connectivity_last_observed_ts'' (PInt now) (aset ''connectivity_wait_active'' (PBool False) d1)) (network_fields net)"
    and d1: "d1 = d \<or> d1 = aset ''connectivity_recovered_ts'' (PInt now) d"
    using assms by (auto simp: clear_wait_def split: if_splits)
  show "dget d' ''connectivity_wait_active'' = PBool False"
    unfolding d' dget_def by (subst map_of_aupdate_other) (simp_all add: network_fields_def)
  assume "key \<in> WATCHED"
  from WATCHED_wait [OF this] d1 show "map_of d' key = map_of d key"
    unfolding d' by (subst network_fields_keys) (auto simp: WAIT_KEYS_def)
qed

lemma mark_wait_other: "mark_wait now net pid d = (es, d') \<Longrightarrow> key \<in> WATCHED \<Longrightarrow> map_of d' key = map_of d key"
proof (drule WATCHED_wait)
  assume "mark_wait now net pid d = (es, d')" and k: "key \<notin> WAIT_KEYS"
  then have "d' = aupdate (if dget d ''connectivity_wait_active'' = PBool True then d else aset ''connectivity_wait_since_ts'' (PInt now) d)
      ((''connectivity_wait_active'', PBool True) # (''connectivity_last_observed_ts'', PInt now) # network_fields net
         @ [(''last_reason'', PStr ''network unavailable; runtime restart suppressed until connectivity recovers'')])"
    by (simp add: mark_wait_def Let_def)
  moreover have "map_of (aupdate e ((''connectivity_wait_active'', PBool True) # (''connectivity_last_observed_ts'', PInt now) # network_fields net
         @ [(''last_reason'', PStr ''network unavailable; runtime restart suppressed until connectivity recovers'')])) key = map_of e key" for e
    by (rule map_of_aupdate_other) (use k in \<open>simp add: network_fields_def WAIT_KEYS_def\<close>)
  ultimately show "map_of d' key = map_of d key" using k by (auto simp: WAIT_KEYS_def simp del: aupdate.simps)
qed

lemma steady_mark_wait: "withinS (steadyF WATCHED) (mark_connectivity_wait now net pid)"
  unfolding mark_connectivity_wait_def
  by (intro steadyF.within_intros steady_upd idle_steady [OF idle_emit(2)]) (auto dest: mark_wait_other)

lemma clear_wait_wp: "wpS (clear_connectivity_wait now net)
    (\<lambda>_ t. steadyF WATCHED s t \<and> dget (fr_state t) ''connectivity_wait_active'' = PBool False) (\<lambda>_ t. steadyF WATCHED s t) s"
  unfolding clear_connectivity_wait_def
  by (auto simp: fr_wp steadyF_def dest: clear_wait_result split: sum.split prod.split)

lemma steady_aupdate: "fst ` set ys \<inter> K = {} \<Longrightarrow> withinS (steadyF K) (putF (\<lambda>d. aupdate d ys))"
  by (rule steady_put, rule map_of_aupdate_other) auto

lemma steady_wait_missing: "withinS (steadyF MARKS) (wait_missing lib k env reason held success_left)"
  unfolding wait_missing_def
  by (intro steadyF.within_intros steady_aupdate steady_say idle_steady [OF idle_typed]) (simp_all add: MARKS_def NO_WARNING_def ZERO_SAMPLE_def)

lemma missing_network_wp:
  "wpS (if waiting \<or> due then bindS (current_network_observation k env) (\<lambda>net.
          if nr_down net then
            bindS (mark_connectivity_wait now net 0) (\<lambda>_.
            bindS (putF (\<lambda>d. aupdate d ([(''last_pid'', PInt 0), (''last_bytes_sent'', PInt 0), (''last_bytes_sent_ts'', PInt 0)] @ ZERO_SAMPLE))) (\<lambda>_. retS True))
          else bindS (clear_connectivity_wait now net) (\<lambda>_. retS False))
        else retS False)
     (\<lambda>down t. steadyF WATCHED s t \<and> (due \<and> \<not> down \<longrightarrow> dget (fr_state t) ''connectivity_wait_active'' = PBool False)) (\<lambda>_ t. steadyF WATCHED s t) s"
proof -
  let ?Q = "\<lambda>down t. steadyF WATCHED s t \<and> (due \<and> \<not> down \<longrightarrow> dget (fr_state t) ''connectivity_wait_active'' = PBool False)"
  let ?R = "\<lambda>_ t. steadyF WATCHED s t"
  let ?zero = "\<lambda>d. aupdate d ([(''last_pid'', PInt 0), (''last_bytes_sent'', PInt 0), (''last_bytes_sent_ts'', PInt 0)] @ ZERO_SAMPLE)"
  have z: "map_of (?zero d) key = map_of d key" if "key \<in> WATCHED" for d key
    by (rule map_of_aupdate_other) (use that in \<open>auto simp: WATCHED_def KEEP_def ZERO_SAMPLE_def\<close>)
  have down: "wpS (bindS (mark_connectivity_wait now net 0) (\<lambda>_. bindS (putF ?zero) (\<lambda>_. retS True))) ?Q ?R t" if "steadyF WATCHED s t" for t net
    unfolding wpS_bind wpS_ret wp_put
    by (rule withinS_wp [OF steady_mark_wait]) (use that z steadyF.R_trans [OF that] in \<open>auto simp: steadyF_def simp del: aupdate.simps\<close>)
  have up: "wpS (bindS (clear_connectivity_wait now net) (\<lambda>_. retS False)) ?Q ?R t" if "steadyF WATCHED s t" for t net
    unfolding wpS_bind wpS_ret by (rule wpS_mono [OF clear_wait_wp]) (use steadyF.R_trans [OF that] in auto)
  have net: "wpS (bindS (current_network_observation k env) (\<lambda>net. if nr_down net then bindS (mark_connectivity_wait now net 0) (\<lambda>_. bindS (putF ?zero) (\<lambda>_. retS True))
      else bindS (clear_connectivity_wait now net) (\<lambda>_. retS False))) ?Q ?R s"
    unfolding wpS_bind [of "current_network_observation _ _"]
    by (rule withinS_wp [OF idle_steady [OF idle_network]]) (auto simp only: split: if_split intro!: down up)
  show ?thesis
    unfolding wpS_if wpS_ret by (use net steadyF.R_refl in \<open>auto simp only: split: if_split\<close>)
qed

lemma missing_cycle_end:
  assumes F: "fields_of s = (d, S, E, now)" and wf: "wf_config k" and l: "int_at d ''last_restart_ts'' = Inr last_restart"
    and none: "pending_actions d = []"
  shows "wpS (ffmpeg_missing_cycle lib k env now last_restart) (\<lambda>_. step_end lib k d S E now) (\<lambda>_. stop_end lib k S E now) s"
proof -
  let ?Q = "\<lambda>_. step_end lib k d S E now"
  let ?R = "\<lambda>_. stop_end lib k S E now"
  have fd: "fr_state s = d" using F by (simp add: fields_of_def)
  have stop: "stop_end lib k S E now (s\<lparr>fr_state := d'\<rparr>)" for d' using F by (simp add: fields_of_def stop_end_def allowed_def)
  have fin: "wpS (if down then retS () else if due \<and> \<not> now - last_restart < k_restart_guard k \<and> restart_failure_backoff_left now failed_at (k_failure_backoff k) \<le> 0 \<and>
        max 0 (until - now) \<le> 0 then restart_missing lib k env now first reason else wait_missing lib k env reason held left) ?Q ?R t"
    if t: "framed WATCHED (aset ''ffmpeg_missing_first_ts'' (PInt first) d, S, E, now) t"
      and w: "due \<and> \<not> down \<longrightarrow> dget (fr_state t) ''connectivity_wait_active'' = PBool False"
      and fa: "int_at d ''last_restart_failure_ts'' = Inr failed_at" and u: "int_at d ''ffmpeg_missing_success_backoff_until'' = Inr until"
      and due: "due = (now - first \<ge> k_missing_restart k)" for t down due failed_at until first reason held left
  proof -
    let ?d1 = "aset ''ffmpeg_missing_first_ts'' (PInt first) d"
    have m: "map_of (fr_state t) key = map_of ?d1 key" if "key \<in> WATCHED" for key using framed_at [OF t that] .
    have marks: "\<forall>key \<in> MARKS. map_of (fr_state t) key = map_of d key" using m MARKS_WATCHED by (auto simp: MARKS_def)
    have Ft: "fields_of t = (fr_state t, S, E, now)" by (rule framed_here [OF t])
    have at: "int_at (fr_state t) ''last_restart_ts'' = Inr last_restart" "int_at (fr_state t) ''last_restart_failure_ts'' = Inr failed_at"
      "int_at (fr_state t) ''ffmpeg_missing_success_backoff_until'' = Inr until" "int_at (fr_state t) ''ffmpeg_missing_first_ts'' = Inr first"
      "pending_actions (fr_state t) = []"
      using l fa u none m by (simp_all add: int_at_def dget_def pending_actions_def WATCHED_def KEEP_def)
    have "wpS (restart_missing lib k env now first reason) ?Q ?R t"
      if "\<not> down" "due \<and> \<not> now - last_restart < k_restart_guard k \<and> restart_failure_backoff_left now failed_at (k_failure_backoff k) \<le> 0 \<and> max 0 (until - now) \<le> 0"
    proof -
      have "passes k now (fr_state t)" using that at by (simp add: passes_def holds_at_def)
      moreover have "clear_to_act lib k now ''ffmpeg_missing'' first (fr_state t)"
        using that at w due by (simp add: clear_to_act_def confirmed_def holds_at_def)
      ultimately show ?thesis using restart_missing_end [OF Ft wf] unfolding step_end_cong [OF marks] by blast
    qed
    moreover have "wpS (wait_missing lib k env reason held left) ?Q ?R t"
      by (rule wp_quiet_steady [OF Ft quiet_end_same [OF marks] steady_wait_missing])
    moreover have "wpS (retS ()) ?Q ?R t" using quiet_step [OF Ft quiet_end_same [OF marks]] by (simp add: wpS_ret)
    ultimately show ?thesis by (auto simp only: split: if_split)
  qed
  have run: "wpS (bindS (if waiting \<or> due then bindS (current_network_observation k env) (\<lambda>net.
              if nr_down net then
                bindS (mark_connectivity_wait now net 0) (\<lambda>_.
                bindS (putF (\<lambda>d. aupdate d ([(''last_pid'', PInt 0), (''last_bytes_sent'', PInt 0), (''last_bytes_sent_ts'', PInt 0)] @ ZERO_SAMPLE))) (\<lambda>_. retS True))
              else bindS (clear_connectivity_wait now net) (\<lambda>_. retS False))
            else retS False) (\<lambda>down.
        if down then retS () else if due \<and> \<not> now - last_restart < k_restart_guard k \<and> restart_failure_backoff_left now failed_at (k_failure_backoff k) \<le> 0 \<and>
        max 0 (until - now) \<le> 0 then restart_missing lib k env now first reason else wait_missing lib k env reason held left)) ?Q ?R
      (s\<lparr>fr_state := aset ''ffmpeg_missing_first_ts'' (PInt first) d\<rparr>)"
    if fa: "int_at d ''last_restart_failure_ts'' = Inr failed_at" and u: "int_at d ''ffmpeg_missing_success_backoff_until'' = Inr until"
      and due: "due = (now - first \<ge> k_missing_restart k)" for waiting due failed_at until first reason held left
  proof -
    let ?s = "s\<lparr>fr_state := aset ''ffmpeg_missing_first_ts'' (PInt first) d\<rparr>"
    have Fs: "framed WATCHED (aset ''ffmpeg_missing_first_ts'' (PInt first) d, S, E, now) ?s" using F by (simp add: framed_def fields_of_def)
    show ?thesis
      unfolding wpS_bind [of "if _ then _ else _"]
    proof (rule wpS_mono [OF missing_network_wp])
      show "wpS (if down then retS () else if due \<and> \<not> now - last_restart < k_restart_guard k \<and> restart_failure_backoff_left now failed_at (k_failure_backoff k) \<le> 0 \<and>
          max 0 (until - now) \<le> 0 then restart_missing lib k env now first reason else wait_missing lib k env reason held left) ?Q ?R t"
        if "steadyF WATCHED ?s t \<and> (due \<and> \<not> down \<longrightarrow> dget (fr_state t) ''connectivity_wait_active'' = PBool False)" for down t
        by (rule fin [OF framed_same [OF Fs] _ fa u due]) (use that in auto)
    qed (rule framed_stop, erule framed_same [OF Fs])
  qed
  show ?thesis
  proof (cases "int_at d ''ffmpeg_missing_first_ts''")
    case (Inl e)
    then show ?thesis using stop [of d] F by (simp add: ffmpeg_missing_cycle_def fr_wp fd stop_same)
  next
    case f: (Inr first0)
    define first where "first = (if first0 \<le> 0 then now else first0)"
    have i: "int_at (aset ''ffmpeg_missing_first_ts'' (PInt first) d) ''last_restart_failure_ts'' = int_at d ''last_restart_failure_ts''"
      "int_at (aset ''ffmpeg_missing_first_ts'' (PInt first) d) ''ffmpeg_missing_success_backoff_until'' = int_at d ''ffmpeg_missing_success_backoff_until''"
      by (simp_all add: int_at_def dget_def)
    have sel: "fr_state (s\<lparr>fr_state := x\<rparr>) = x" for x by simp
    have "wpS (ffmpeg_missing_cycle lib k env now last_restart) ?Q ?R s"
      if "int_at d ''last_restart_failure_ts'' = Inr failed_at" "int_at d ''ffmpeg_missing_success_backoff_until'' = Inr until" for failed_at until
      unfolding ffmpeg_missing_cycle_def Let_def
      by (simp only: wpS_bind [of "lookF _"] wpS_bind [of "putF _"] wpS_bind [of "getS _"] wp_look wp_put wpS_get fd f sum.case first_def [symmetric] sel
          i that) (rule run [OF that refl])
    moreover have "wpS (ffmpeg_missing_cycle lib k env now last_restart) ?Q ?R s" if "int_at d ''last_restart_failure_ts'' = Inl e" for e
      using stop that by (simp add: ffmpeg_missing_cycle_def Let_def wpS_bind [of "lookF _"] wpS_bind [of "putF _"] wp_look wp_put fd f first_def [symmetric] i)
    moreover have "wpS (ffmpeg_missing_cycle lib k env now last_restart) ?Q ?R s"
      if "int_at d ''last_restart_failure_ts'' = Inr failed_at" "int_at d ''ffmpeg_missing_success_backoff_until'' = Inl e" for failed_at e
      using stop that by (simp add: ffmpeg_missing_cycle_def Let_def wpS_bind [of "lookF _"] wpS_bind [of "putF _"] wp_look wp_put fd f first_def [symmetric] i)
    ultimately show ?thesis
      by (cases "int_at d ''last_restart_failure_ts''"; cases "int_at d ''ffmpeg_missing_success_backoff_until''") blast+
  qed
qed

section \<open>FFmpeg is running\<close>

lemma streak_result: "update_streak key active d = Inr (n, d') \<Longrightarrow> d' = aset key (PInt n) d \<and> (\<not> active \<longrightarrow> n = 0)"
  by (auto simp: update_streak_def split: if_splits)

lemma sample_other:
  assumes "key \<noteq> SAMPLE_KEY"
  shows "map_of (snd (source_timed_sample lib pid b metrics interval d)) key = map_of d key"
proof (cases "snapshot_of lib pid b metrics")
  case (Some current)
  define saved where "saved = (case dget d SAMPLE_KEY of PDict s \<Rightarrow> s | _ \<Rightarrow> [])"
  have two: "map_of (snd (case (v, w) of (PDict x, PDict y) \<Rightarrow> f x y | _ \<Rightarrow> g)) key = map_of d key"
    if "\<And>x y. map_of (snd (f x y)) key = map_of d key" and "map_of (snd g) key = map_of d key" for v w f and g :: "dict option \<times> dict"
    using that by (cases v; cases w) simp_all
  show ?thesis
  proof (cases "interval \<le> 0")
    case False
    show ?thesis
      unfolding source_timed_sample_def Some option.case Let_def saved_def [symmetric] if_not_P [OF False]
      by (rule two) (use assms in \<open>simp_all add: restart_baseline_def\<close>)
  qed (simp add: source_timed_sample_def Some)
qed (use assms in \<open>simp add: source_timed_sample_def\<close>)

lemma WATCHED_other: "key \<in> WATCHED \<Longrightarrow>
    key \<notin> {SAMPLE_KEY, ''last_tcp_send_sample_bytes_sent'', ''last_tcp_send_sample_pid'', ''last_tcp_send_sample_ts'', ''last_reason'', ''samples'',
      ''low_upload_pressure_streak'', ''last_bytes_sent'', ''last_bytes_sent_ts'', ''last_pid''}"
  by (simp only: WATCHED_def KEEP_def) (elim DiffE insertE emptyE; simp add: SAMPLE_KEY_def)

lemma steady_tcp_sample: "withinS (steadyF WATCHED) (maybe_append_tcp_send_sample lib k now pid b metrics)"
proof -
  have m: "key \<noteq> SAMPLE_KEY" "key \<noteq> ''last_tcp_send_sample_bytes_sent''" "key \<noteq> ''last_tcp_send_sample_pid''" "key \<noteq> ''last_tcp_send_sample_ts''"
    if "key \<in> WATCHED" for key using WATCHED_other [OF that] by simp_all
  have u: "withinS (steadyF WATCHED) (updF (\<lambda>d. Inr (source_timed_sample lib pid b metrics (k_send_sample_log k) d)))"
  proof (rule steady_upd)
    fix d x d' key
    assume "Inr (source_timed_sample lib pid b metrics (k_send_sample_log k) d) = (Inr (x, d') :: (dict option \<times> dict) res)" and "key \<in> WATCHED"
    then show "map_of d' key = map_of d key" using sample_other [OF m(1), of key lib pid b metrics "k_send_sample_log k" d] by simp
  qed
  have p: "withinS (steadyF WATCHED) (putF (\<lambda>d. aset ''last_tcp_send_sample_bytes_sent'' (PInt b) (aset ''last_tcp_send_sample_pid'' (PInt pid)
      (aset ''last_tcp_send_sample_ts'' (PInt now) d))))"
    by (rule steady_put) (simp add: m)
  show ?thesis
    unfolding maybe_append_tcp_send_sample_def Let_def
    by (intro steadyF.within_intros u p idle_steady [OF idle_look] idle_steady [OF idle_emit(1)])
qed

lemma steady_streak: "key \<notin> K \<Longrightarrow> withinS (steadyF K) (updF (update_streak key active))"
  by (rule steady_upd) (drule streak_result, auto)

lemma steady_reset: "withinS (steadyF (WATCHED - {''stall_streak''})) (updF (\<lambda>d. bindE (reset_pid_dependent_state pid d) (\<lambda>d'. Inr ((), d'))))"
  by (rule steady_upd) (auto simp: reset_pid_dependent_state_def dest!: WATCHED_other split: if_splits)

lemma int_raw_put: "int_at_raw d' key = int_at_raw d key" if "map_of d' key = map_of d key"
  using that by (simp add: int_at_raw_def dget_or_def)

lemma measure_live_wp:
  fixes s :: "'w fr"
  assumes "framed (WATCHED - {''net_fail_streak'', ''stall_streak''}) F s"
  shows "wpS (measure_live lib k env now pid)
    (\<lambda>(tcp, net) t. framed (WATCHED - {''net_fail_streak'', ''stall_streak''}) F t \<and> (nr_down net \<or> int_at_raw (fr_state t) ''net_fail_streak'' = Inr 0))
    (\<lambda>_ t. framed (WATCHED - {''net_fail_streak'', ''stall_streak''}) F t) s"
proof -
  let ?K = "WATCHED - {''net_fail_streak'', ''stall_streak''}"
  let ?L = "WATCHED - {''stall_streak''}"
  let ?Q = "\<lambda>(tcp, net) t. framed ?K F t \<and> (nr_down net \<or> int_at_raw (fr_state t) ''net_fail_streak'' = Inr 0)"
  let ?R = "\<lambda>_ t. framed ?K F t"
  have weak: "withinS (steadyF ?L) m" if "withinS (steadyF WATCHED) m" for m :: "('w fr, 'b) act"
    using that by (rule withinS_mono) (auto elim: steady_mono)
  have strip: "framed ?K F v" if "framed ?K F u" "steadyF ?L u v" for u v :: "'w fr"
    using that by (auto simp: framed_def steadyF_def split: prod.splits)
  have out: "''stall_streak'' \<notin> ?L" "''low_upload_pressure_streak'' \<notin> ?L" by (simp_all add: WATCHED_def KEEP_def)
  have after: "wpS (bindS (lookF (\<lambda>d. tcp_observation k d now metrics (nr_down net) (nr_tcp_ok net))) (\<lambda>tcp.
     bindS (maybe_append_tcp_send_sample lib k now pid (tr_bytes_sent tcp) metrics) (\<lambda>_.
     bindS (updF (update_streak ''stall_streak'' (tr_stall tcp))) (\<lambda>_.
     bindS (updF (update_streak ''low_upload_pressure_streak'' (tr_low_upload tcp))) (\<lambda>_. retS (tcp, net)))))) ?Q ?R t"
    if t: "framed ?K F t" and n: "nr_down net \<or> int_at_raw (fr_state t) ''net_fail_streak'' = Inr 0" for t :: "'w fr" and metrics net
  proof -
    have keep: "framed ?K F u \<and> (nr_down net \<or> int_at_raw (fr_state u) ''net_fail_streak'' = Inr 0)" if u: "framed ?L (fields_of t) u" for u :: "'w fr"
    proof -
      have "map_of (fr_state u) ''net_fail_streak'' = map_of (fr_state t) ''net_fail_streak''"
        using u by (simp add: framed_def fields_of_def WATCHED_def)
      from int_raw_put [OF this] n have "nr_down net \<or> int_at_raw (fr_state u) ''net_fail_streak'' = Inr 0" by presburger
      moreover have "steadyF ?L t u" using u unfolding framed_def fields_of_def steadyF_def by simp
      ultimately show ?thesis using strip [OF t] by blast
    qed
    then have stop: "framed ?K F u" if "framed ?L (fields_of t) u" for u :: "'w fr" using that by blast
    show ?thesis
      apply (rule wp_framed_idle [OF idle_look framed_fields [OF refl]])
       apply (rule wp_framed [OF weak [OF steady_tcp_sample]], assumption)
        apply (rule wp_framed [OF steady_streak [OF out(1)]], assumption)
         apply (rule wp_framed [OF steady_streak [OF out(2)]], assumption)
          apply (simp add: wpS_ret keep)
         apply (erule stop)+
      done
  qed
  have down: "wpS (bindS (updF (update_streak ''net_fail_streak'' (nr_down net))) (\<lambda>_. bindS (lookF (\<lambda>d. tcp_observation k d now metrics (nr_down net) (nr_tcp_ok net))) (\<lambda>tcp.
     bindS (maybe_append_tcp_send_sample lib k now pid (tr_bytes_sent tcp) metrics) (\<lambda>_.
     bindS (updF (update_streak ''stall_streak'' (tr_stall tcp))) (\<lambda>_.
     bindS (updF (update_streak ''low_upload_pressure_streak'' (tr_low_upload tcp))) (\<lambda>_. retS (tcp, net))))))) ?Q ?R t"
    if t: "framed ?K F t" for t :: "'w fr" and metrics net
  proof (cases "update_streak ''net_fail_streak'' (nr_down net) (fr_state t)")
    case (Inl e)
    then show ?thesis using t by (simp add: wpS_bind [of "updF _"] wp_upd)
  next
    case (Inr r)
    obtain n d' where r: "r = (n, d')" by (cases r)
    from streak_result [OF Inr [unfolded r]] have d': "d' = aset ''net_fail_streak'' (PInt n) (fr_state t)" and n: "\<not> nr_down net \<longrightarrow> n = 0" by auto
    have "framed ?K F (t\<lparr>fr_state := d'\<rparr>)" using t d' by (auto simp: framed_def split: prod.splits)
    moreover have "nr_down net \<or> int_at_raw (fr_state (t\<lparr>fr_state := d'\<rparr>)) ''net_fail_streak'' = Inr 0"
      using n d' by (auto simp: int_at_raw_def dget_or_def)
    ultimately show ?thesis using after [of "t\<lparr>fr_state := d'\<rparr>"] Inr r by (simp add: wpS_bind [of "updF _"] wp_upd)
  qed
  have reset: "withinS (steadyF ?K) (updF (\<lambda>d. bindE (reset_pid_dependent_state pid d) (\<lambda>d'. Inr ((), d'))))"
    using steady_reset by (rule withinS_mono) (auto elim: steady_mono)
  show ?thesis
    unfolding measure_live_def
    apply (rule wp_framed_idle [OF idle_metrics assms])
     apply (rule wp_framed [OF reset], assumption)
      apply (rule wp_framed_idle [OF idle_network], assumption)
       apply (erule down)
      apply assumption+
    done
qed

definition WARNING_KEYS :: "string set" where
  "WARNING_KEYS = {''remote_warning_streak'', ''remote_warning_last_stats_ts'', ''remote_warning_last_sample_key'', ''remote_warning_last_probe_ts'',
     ''remote_warning_context_key'', ''remote_warning_recovery_episode_id'', ''remote_warning_ffmpeg_generation''}"

lemma int_at_PInt: "map_of d key = Some (PInt n) \<Longrightarrow> int_at d key = Inr n"
  by (auto simp: int_at_def dget_def int_or_0_def py_or_def)

lemma int_at_put: "int_at (aset key (PInt n) d) key = Inr n"
  by (rule int_at_PInt) simp

lemma count_result:
  assumes "count_warning lib payload key stats d = Inr (n, d')"
  shows "int_at d' ''remote_warning_streak'' = Inr n \<and> (\<forall>x. x \<notin> WARNING_KEYS \<longrightarrow> map_of d' x = map_of d x)"
proof -
  have "map_of d' ''remote_warning_streak'' = Some (PInt n)" using assms by (auto simp: count_warning_def Let_def split: prod.splits)
  moreover have "map_of d' x = map_of d x" if "x \<notin> WARNING_KEYS" for x
    using assms that by (auto simp: count_warning_def Let_def WARNING_KEYS_def split: prod.splits)
  ultimately show ?thesis by (simp add: int_at_PInt)
qed

lemma warning_cases:
  assumes "update_remote_warning_streak lib k warning payload d = Inr (n, d')"
  shows "d' = cleared_warning d \<and> n = 0 \<or> d' = aset ''remote_warning_streak'' (PInt n) d \<or>
      d' = new_context lib payload d \<and> int_at (new_context lib payload d) ''remote_warning_streak'' = Inr n \<or>
      (\<exists>key stats. count_warning lib payload key stats (new_context lib payload d) = Inr (n, d'))"
  using assms by (simp add: update_remote_warning_streak_def Let_def split: if_splits) blast+

lemma warning_result:
  assumes "update_remote_warning_streak lib k warning payload d = Inr (n, d')"
  shows "int_at d' ''remote_warning_streak'' = Inr n \<and> (\<forall>x. x \<notin> WARNING_KEYS \<longrightarrow> map_of d' x = map_of d x)"
proof -
  have c: "map_of (new_context lib payload d) x = map_of d x" if "x \<notin> WARNING_KEYS" for x
    using that by (simp add: new_context_def Let_def WARNING_KEYS_def)
  have cleared: "int_at (cleared_warning d) ''remote_warning_streak'' = Inr 0" by (simp add: cleared_warning_def int_at_def dget_def int_or_0_def py_or_def)
  have other: "map_of (cleared_warning d) x = map_of d x" if "x \<notin> WARNING_KEYS" for x
    unfolding cleared_warning_def by (rule map_of_aupdate_other) (use that in \<open>simp add: WARNING_KEYS_def\<close>)
  show ?thesis
    using warning_cases [OF assms] c cleared other count_result [of lib payload _ _ "new_context lib payload d" n d']
    by (elim disjE exE conjE) (simp_all add: int_at_put, simp_all add: WARNING_KEYS_def)
qed

lemma select_result:
  assumes "select_restart_reason k d ws why net tcp = Inr (kind, reason)" and "reason \<noteq> []" and "int_at_raw d ''net_fail_streak'' = Inr 0" and "wf_config k"
  shows "kind = ''remote_warning'' \<and> k_url_preservation k \<and> ws \<ge> k_warning_confirm k \<or>
    kind = ''tcp_stall'' \<and> (\<exists>n. int_at_raw d ''stall_streak'' = Inr n \<and> n \<ge> k_stall_confirm k)"
  using assms by (auto simp: select_restart_reason_def wf_config_def split: if_splits)

lemma active_result:
  assumes "update_active_reason lib now kind reason d = Inr (first, d')"
  shows "x \<notin> {''active_reason_kind'', ''active_reason_first_ts''} \<Longrightarrow> map_of d' x = map_of d x"
    and "reason \<noteq> [] \<Longrightarrow> emergency_budget_override_active kind first now (k_override_after k) \<Longrightarrow> emergency lib k now kind d'"
proof -
  show "map_of d' x = map_of d x" if "x \<notin> {''active_reason_kind'', ''active_reason_first_ts''}"
    using assms that by (auto simp: update_active_reason_def Let_def split: if_splits)
  assume r: "reason \<noteq> []" and o: "emergency_budget_override_active kind first now (k_override_after k)"
  have k: "str_at lib d' ''active_reason_kind'' = kind"
    using assms r by (auto simp: update_active_reason_def Let_def str_at_def dget_or_def split: if_splits)
  have f: "py_int (py_or (dget_or d' ''active_reason_first_ts'' (PInt now)) (PInt now)) = Inr first"
    using assms r by (auto simp: update_active_reason_def Let_def split: if_splits)
  have o': "k_override_after k > 0" "first > 0" "now - first \<ge> k_override_after k" using o by (auto simp: emergency_budget_override_active_def split: if_splits)
  have "int_at d' ''active_reason_first_ts'' = Inr first"
    using f o' by (auto simp: int_at_def dget_def dget_or_def int_or_0_def py_or_def split: option.splits if_splits)
  then show "emergency lib k now kind d'" using k o' by (simp add: emergency_def holds_at_def)
qed

lemma clear_confirmed:
  assumes sel: "select_restart_reason k d ws why net tcp = Inr (kind, reason)" and r: "reason \<noteq> []" and nf: "int_at_raw d ''net_fail_streak'' = Inr 0"
    and wf: "wf_config k" and act: "update_active_reason lib now kind reason d = Inr (first, d')"
    and ws: "int_at d ''remote_warning_streak'' = Inr ws" and none: "pending_actions d = []" and wait: "dget d ''connectivity_wait_active'' = PBool False"
  shows "clear_to_act lib k now kind first d' \<and> kind \<in> {''tcp_stall'', ''remote_warning''}"
proof -
  have m: "map_of d' key = map_of d key" if "key \<in> {''stall_streak'', ''remote_warning_streak'', ''pending_recovery_actions'', ''connectivity_wait_active''}" for key
    using that by (intro active_result(1) [OF act]) auto
  have i: "int_at_raw d' ''stall_streak'' = int_at_raw d ''stall_streak''" "int_at d' ''remote_warning_streak'' = int_at d ''remote_warning_streak''"
    "pending_actions d' = pending_actions d" "dget d' ''connectivity_wait_active'' = dget d ''connectivity_wait_active''"
    by (simp_all add: m int_at_raw_def int_at_def dget_or_def dget_def pending_actions_def)
  show ?thesis
    using select_result [OF sel r nf wf] active_result(2) [OF act r] ws none wait
    by (auto simp: clear_to_act_def confirmed_def holds_at_def i)
qed

lemma reason_restart_wp:
  assumes F: "fields_of t = (d, S, E, now)" and wf: "wf_config k" and l: "int_at d ''last_restart_ts'' = Inr last_restart" and pid: "pid > 1"
    and nf: "int_at_raw d ''net_fail_streak'' = Inr 0" and ws: "int_at d ''remote_warning_streak'' = Inr ws"
    and none: "pending_actions d = []" and wait: "dget d ''connectivity_wait_active'' = PBool False"
  shows "wpS (bindS (lookF (\<lambda>d. select_restart_reason k d ws why net tcp)) (\<lambda>(kind, reason).
       bindS (updF (update_active_reason lib now kind reason)) (\<lambda>first.
       restart_live lib k env now last_restart pid uptime kind reason first tcp net warning hint)))
     (\<lambda>_. step_end lib k d S E now) (\<lambda>_. stop_end lib k S E now) t"
proof -
  have fd: "fr_state t = d" using F by (simp add: fields_of_def)
  have "wpS (restart_live lib k env now last_restart pid uptime kind reason first tcp net warning hint)
      (\<lambda>_. step_end lib k d S E now) (\<lambda>_. stop_end lib k S E now) (t\<lparr>fr_state := d'\<rparr>)"
    if sel: "select_restart_reason k d ws why net tcp = Inr (kind, reason)" and act: "update_active_reason lib now kind reason d = Inr (first, d')"
    for kind reason first d'
  proof -
    have marks: "\<forall>key \<in> MARKS. map_of d' key = map_of d key" using active_result(1) [OF act] by (simp add: MARKS_def)
    have "int_at d' ''last_restart_ts'' = Inr last_restart" using marks l by (simp add: int_at_def dget_def MARKS_def)
    moreover have "fields_of (t\<lparr>fr_state := d'\<rparr>) = (d', S, E, now)" using F by (simp add: fields_of_def)
    ultimately have "wpS (restart_live lib k env now last_restart pid uptime kind reason first tcp net warning hint)
      (\<lambda>_. step_end lib k d' S E now) (\<lambda>_. stop_end lib k S E now) (t\<lparr>fr_state := d'\<rparr>)"
      using restart_live_wp [of "t\<lparr>fr_state := d'\<rparr>" d' S E now k last_restart reason lib kind first pid] clear_confirmed [OF sel _ nf wf act ws none wait] wf pid
      by blast
    then show ?thesis unfolding step_end_cong [OF marks] .
  qed
  then show ?thesis
    using stop_same [OF F] by (auto simp: wpS_bind [of "lookF _"] wpS_bind [of "updF _"] wp_look wp_upd fd split: sum.split prod.split)
qed

lemma evaluate_live_wp:
  assumes F: "fields_of s = (d, S, E, now)" and wf: "wf_config k" and l: "int_at d ''last_restart_ts'' = Inr last_restart" and pid: "pid > 1"
    and nf: "nr_down net \<or> int_at_raw d ''net_fail_streak'' = Inr 0" and ws: "int_at d ''remote_warning_streak'' = Inr ws"
    and none: "pending_actions d = []"
  shows "wpS (evaluate_live lib k env now last_restart pid uptime tcp net warning why ws hint)
     (\<lambda>_. step_end lib k d S E now) (\<lambda>_. stop_end lib k S E now) s"
proof (cases "sample_row now pid tcp (nr_down net) warning")
  case (Inl e)
  then show ?thesis using stop_same [OF F] by (simp add: evaluate_live_def wp_simps)
next
  case (Inr row)
  let ?Q = "\<lambda>_. step_end lib k d S E now"
  let ?R = "\<lambda>_. stop_end lib k S E now"
  let ?put = "\<lambda>d. aset ''samples'' (events_py (trim_samples (events_py (trim_samples (dget_or d ''samples'' (PList [])) (k_samples_max k) @ [row])) (k_samples_max k))) d"
  have put: "withinS (steadyF WATCHED) (putF ?put)" by (rule steady_put) (auto simp: WATCHED_def KEEP_def)
  have down: "wpS (bindS (record_typed_policy_decision lib k env ''network_down'') (\<lambda>_.
       bindS (mark_connectivity_wait now net pid) (\<lambda>_.
       bindS (putF (aset ''remote_warning_streak'' (PInt 0))) (\<lambda>_. putF (mark_latest_transport_sample pid (tr_bytes_sent tcp) now None))))) ?Q ?R t"
    if t: "framed WATCHED (d, S, E, now) t" for t :: "'a fr"
  proof (rule wp_quiet_steady [OF framed_here [OF t] framed_quiet [OF t MARKS_WATCHED]])
    have w: "withinS (steadyF MARKS) (mark_connectivity_wait now net pid)"
      using steady_mark_wait by (rule withinS_mono) (erule steady_mono [OF _ MARKS_WATCHED])
    show "withinS (steadyF MARKS) (bindS (record_typed_policy_decision lib k env ''network_down'') (\<lambda>_.
       bindS (mark_connectivity_wait now net pid) (\<lambda>_.
       bindS (putF (aset ''remote_warning_streak'' (PInt 0))) (\<lambda>_. putF (mark_latest_transport_sample pid (tr_bytes_sent tcp) now None)))))"
      by (intro steadyF.within_intros w idle_steady [OF idle_typed] steady_mark steady_put) (auto simp: MARKS_def)
  qed
  have up: "wpS (bindS (clear_connectivity_wait now net) (\<lambda>_.
       bindS (lookF (\<lambda>d. select_restart_reason k d ws why net tcp)) (\<lambda>(kind, reason).
       bindS (updF (update_active_reason lib now kind reason)) (\<lambda>first.
       restart_live lib k env now last_restart pid uptime kind reason first tcp net warning hint)))) ?Q ?R t"
    if t: "framed WATCHED (d, S, E, now) t" and nd: "\<not> nr_down net" for t :: "'a fr"
    unfolding wpS_bind [of "clear_connectivity_wait _ _"]
  proof (rule wpS_mono [OF clear_wait_wp])
    fix u :: "'a fr"
    assume u: "steadyF WATCHED t u \<and> dget (fr_state u) ''connectivity_wait_active'' = PBool False"
    then have fu: "framed WATCHED (d, S, E, now) u" using framed_same [OF t] by blast
    have m: "map_of (fr_state u) key = map_of d key" if "key \<in> WATCHED" for key using framed_at [OF fu that] .
    have marks: "\<forall>key \<in> MARKS. map_of (fr_state u) key = map_of d key" using m MARKS_WATCHED by blast
    have i: "int_at (fr_state u) ''last_restart_ts'' = Inr last_restart" "int_at_raw (fr_state u) ''net_fail_streak'' = Inr 0"
      "int_at (fr_state u) ''remote_warning_streak'' = Inr ws" "pending_actions (fr_state u) = []"
      using l nf nd ws none by (simp_all add: int_at_def int_at_raw_def dget_def dget_or_def pending_actions_def m WATCHED_def KEEP_def)
    show "wpS (bindS (lookF (\<lambda>d. select_restart_reason k d ws why net tcp)) (\<lambda>(kind, reason).
       bindS (updF (update_active_reason lib now kind reason)) (\<lambda>first.
       restart_live lib k env now last_restart pid uptime kind reason first tcp net warning hint))) ?Q ?R u"
      using reason_restart_wp [OF framed_here [OF fu] wf i(1) pid i(2,3,4)] u unfolding step_end_cong [OF marks] by blast
  qed (rule framed_stop, erule framed_same [OF t])
  show ?thesis
    unfolding evaluate_live_def Inr
    apply (simp only: wpS_bind [of "liftS _"] wpS_lift sum.case)
    apply (rule wp_framed [OF put framed_fields [OF F]])
     apply (simp only: split: if_split)
     apply (intro conjI impI)
      apply (erule down)
     apply (erule up, assumption)
    apply (erule framed_stop)
    done
qed

lemma steady_catch_all: "withinS (steadyF K) m \<Longrightarrow> (\<And>e. withinS (steadyF K) (h e)) \<Longrightarrow> withinS (steadyF K) (catch_all m h)"
  unfolding catch_all_def by (intro steadyF.within_intros) auto

lemma steady_scopes:
  assumes "''pending_recovery_actions'' \<notin> K" and "''last_reason'' \<notin> K"
  shows "withinS (steadyF K) (read_executor_unresolved_scopes lib k env)"
proof -
  have "withinS (steadyF K) (updF (sync_pending_recovery_from_executor lib scopes))" for scopes
    by (rule steady_upd) (use assms in \<open>auto simp: sync_pending_recovery_from_executor_def map_of_set_pending\<close>)
  then show ?thesis
    unfolding read_executor_unresolved_scopes_def
    by (intro steadyF.within_intros steady_catch_all idle_steady [OF idle_exchange] steady_say assms)
qed

lemma steady_reconcile_scope:
  assumes "''last_reason'' \<notin> K"
  shows "withinS (steadyF K) (reconcile_scope lib env now pid uptime o1 observed snapshot hint scope)"
proof (cases "dget scope ''identity''")
  case (PDict prior)
  show ?thesis
    unfolding reconcile_scope_def PDict py.case
    by (intro steadyF.within_intros steady_catch_all idle_steady [OF idle_exchange] idle_steady [OF idleF_ask] idle_steady [OF idle_emit(1)] steady_say assms)
qed (simp_all add: reconcile_scope_def steadyF.within_basic)

lemma steady_reconcile:
  assumes "''last_reason'' \<notin> K"
  shows "withinS (steadyF K) (maybe_reconcile_delayed_executor_effects lib env scopes now pid uptime snapshot hint)"
proof -
  have r: "withinS (steadyF K) (reconcile_scopes lib env now pid uptime o1 observed snapshot hint scopes)" for o1 observed scopes
    by (induction scopes) (auto intro!: steadyF.within_intros steady_reconcile_scope assms)
  have c: "withinS (steadyF K) (case v of PDict observed \<Rightarrow> f observed | _ \<Rightarrow> retS False)" if "\<And>x. withinS (steadyF K) (f x)" for v and f :: "dict \<Rightarrow> ('a fr, bool) act"
    using that by (cases v) (simp_all add: steadyF.within_basic)
  show ?thesis
    unfolding maybe_reconcile_delayed_executor_effects_def
    by (intro steadyF.within_intros c r idle_steady [OF idle_observe])
qed

lemma steady_completed:
  assumes "''pending_recovery_actions'' \<notin> K"
  shows "withinS (steadyF K) (maybe_record_recovery_completed lib now pid uptime snapshot hint)"
proof -
  have "withinS (steadyF K) (putF (set_pending ps))" for ps by (rule steady_put) (use assms in \<open>auto simp: map_of_set_pending\<close>)
  then show ?thesis
    unfolding maybe_record_recovery_completed_def
    by (intro steadyF.within_intros idle_steady [OF idle_emit_completed])
qed

definition SETTLED :: "string set" where
  "SETTLED = WATCHED - {''pending_recovery_actions''}"

lemma SETTLED_out: "''pending_recovery_actions'' \<notin> SETTLED" "''last_reason'' \<notin> SETTLED" "MARKS \<subseteq> SETTLED"
  by (auto simp: SETTLED_def WATCHED_def KEEP_def MARKS_def)

lemma steady_settle: "withinS (steadyF SETTLED) (settle_pending lib k env unresolved now pid uptime b snapshot hint)"
proof -
  have "withinS (steadyF SETTLED) (putF (mark_latest_transport_sample pid b now why))" for why
    by (rule steady_put, rule mark_other) (auto simp: SETTLED_def WATCHED_def KEEP_def)
  then show ?thesis
    unfolding settle_pending_def
    by (intro steadyF.within_intros steady_reconcile steady_scopes steady_completed SETTLED_out)
qed

lemma live_cycle_end:
  fixes s :: "'w fr"
  assumes F: "fields_of s = (d, S, E, now)" and wf: "wf_config k" and l: "int_at d ''last_restart_ts'' = Inr last_restart" and pid: "pid > 1"
  shows "wpS (ffmpeg_live_cycle lib k env now last_restart pid uptime unresolved) (\<lambda>_. step_end lib k d S E now) (\<lambda>_. stop_end lib k S E now) s"
proof -
  let ?Q = "\<lambda>_. step_end lib k d S E now"
  let ?R = "\<lambda>_. stop_end lib k S E now"
  let ?K = "WATCHED - {''net_fail_streak'', ''stall_streak''}"
  have tail: "wpS (case r of None \<Rightarrow> retS () | Some scopes \<Rightarrow>
         bindS (getS (\<lambda>s. length (pending_actions (fr_state s)))) (\<lambda>n.
         if scopes \<noteq> [] \<or> n > 0 then putF (mark_latest_transport_sample pid (tr_bytes_sent tcp) now (Some UNRESOLVED_REASON))
         else evaluate_live lib k env now last_restart pid uptime tcp net warning why ws hint)) ?Q ?R t"
    if t: "framed MARKS (d, S, E, now) t" and nf: "nr_down net \<or> int_at_raw (fr_state t) ''net_fail_streak'' = Inr 0"
      and ws: "int_at (fr_state t) ''remote_warning_streak'' = Inr ws" for t :: "'w fr" and tcp net warning why ws hint and r :: "dict list option"
  proof -
    have marks: "\<forall>key \<in> MARKS. map_of (fr_state t) key = map_of d key" using t by (simp add: framed_def)
    have l': "int_at (fr_state t) ''last_restart_ts'' = Inr last_restart" using marks l by (simp add: int_at_def dget_def MARKS_def)
    note Ft = framed_here [OF t]
    have "wpS (evaluate_live lib k env now last_restart pid uptime tcp net warning why ws hint) ?Q ?R t" if "pending_actions (fr_state t) = []"
      using evaluate_live_wp [OF Ft wf l' pid nf ws that] unfolding step_end_cong [OF marks] .
    moreover have "wpS (putF (mark_latest_transport_sample pid (tr_bytes_sent tcp) now (Some UNRESOLVED_REASON))) ?Q ?R t"
      by (rule quiet_mark [OF Ft quiet_end_same [OF marks]])
    moreover have "step_end lib k d S E now t" by (rule quiet_step [OF Ft quiet_end_same [OF marks]])
    ultimately show ?thesis
      by (cases r) (simp_all only: option.case wpS_ret wpS_bind [of "getS _"] wpS_get, auto split: if_split)
  qed
  let ?tail = "\<lambda>tcp net warning why ws hint r. (case r of None \<Rightarrow> retS () | Some scopes \<Rightarrow>
         bindS (getS (\<lambda>s. length (pending_actions (fr_state s)))) (\<lambda>n.
         if scopes \<noteq> [] \<or> n > 0 then putF (mark_latest_transport_sample pid (tr_bytes_sent tcp) now (Some UNRESOLVED_REASON))
         else evaluate_live lib k env now last_restart pid uptime tcp net warning why ws hint))"
  have settle: "wpS (bindS (write_transport_snapshot k env now pid uptime tcp net warning) (\<lambda>snapshot.
      bindS (settle_pending lib k env unresolved now pid uptime (tr_bytes_sent tcp) snapshot hint) (?tail tcp net warning why ws hint))) ?Q ?R t"
    if t: "framed MARKS (d, S, E, now) t" and nf: "nr_down net \<or> int_at_raw (fr_state t) ''net_fail_streak'' = Inr 0"
      and ws: "int_at (fr_state t) ''remote_warning_streak'' = Inr ws" for t :: "'w fr" and tcp net warning why ws hint
  proof -
    have u: "framed MARKS (d, S, E, now) u \<and> (nr_down net \<or> int_at_raw (fr_state u) ''net_fail_streak'' = Inr 0) \<and>
        int_at (fr_state u) ''remote_warning_streak'' = Inr ws" if u: "framed SETTLED (fields_of t) u" for u :: "'w fr"
    proof -
      have m: "map_of (fr_state u) key = map_of (fr_state t) key" if "key \<in> SETTLED" for key
        using u that by (simp add: framed_def fields_of_def)
      have "map_of (fr_state u) ''net_fail_streak'' = map_of (fr_state t) ''net_fail_streak''"
        "map_of (fr_state u) ''remote_warning_streak'' = map_of (fr_state t) ''remote_warning_streak''"
        by (rule m, simp add: SETTLED_def WATCHED_def KEEP_def)+
      with nf ws have "(nr_down net \<or> int_at_raw (fr_state u) ''net_fail_streak'' = Inr 0) \<and> int_at (fr_state u) ''remote_warning_streak'' = Inr ws"
        by (simp add: int_at_raw_def int_at_def dget_or_def dget_def)
      moreover have "framed MARKS (d, S, E, now) u"
        using t u SETTLED_out(3) unfolding framed_def fields_of_def by (auto dest!: subsetD)
      ultimately show ?thesis by blast
    qed
    show ?thesis
      apply (rule wp_framed_idle [OF idle_snapshot framed_fields [OF refl]])
       apply (rule wp_framed [OF steady_settle], assumption)
        apply (rule tail, blast dest: u, blast dest: u, blast dest: u)
       apply (rule framed_stop, blast dest: u)+
      done
  qed
  have warn: "wpS (bindS (updF (update_remote_warning_streak lib k warning payload)) (\<lambda>ws. bindS (write_transport_snapshot k env now pid uptime tcp net warning) (\<lambda>snapshot.
      bindS (settle_pending lib k env unresolved now pid uptime (tr_bytes_sent tcp) snapshot hint) (?tail tcp net warning why ws hint)))) ?Q ?R t"
    if t: "framed ?K (d, S, E, now) t" and nf: "nr_down net \<or> int_at_raw (fr_state t) ''net_fail_streak'' = Inr 0"
    for t :: "'w fr" and tcp net warning payload why hint
  proof (cases "update_remote_warning_streak lib k warning payload (fr_state t)")
    case (Inl e)
    then show ?thesis using framed_stop [OF t] by (simp add: wpS_bind [of "updF _"] wp_upd)
  next
    case (Inr r)
    obtain ws d' where r: "r = (ws, d')" by (cases r)
    note w = warning_result [OF Inr [unfolded r]]
    have m: "map_of d' key = map_of (fr_state t) key" if "key \<in> insert ''net_fail_streak'' MARKS" for key
    proof -
      have "insert ''net_fail_streak'' MARKS \<inter> WARNING_KEYS = {}" by (simp add: MARKS_def WARNING_KEYS_def)
      with that w show ?thesis by blast
    qed
    have "framed MARKS (d, S, E, now) (t\<lparr>fr_state := d'\<rparr>)"
      using t m by (simp add: framed_def MARKS_def WATCHED_def KEEP_def)
    moreover have "nr_down net \<or> int_at_raw (fr_state (t\<lparr>fr_state := d'\<rparr>)) ''net_fail_streak'' = Inr 0"
      using nf m by (simp add: int_at_raw_def dget_or_def)
    ultimately show ?thesis using settle [of "t\<lparr>fr_state := d'\<rparr>"] w Inr r by (simp add: wpS_bind [of "updF _"] wp_upd)
  qed
  show ?thesis
    unfolding ffmpeg_live_cycle_def wpS_bind [of "measure_live _ _ _ _ _"] Let_def
  proof (rule wpS_mono [OF measure_live_wp [OF framed_fields [OF F]]], clarify)
    fix tcp :: tcp_reading and net :: network_reading and t :: "'w fr"
    assume t: "framed ?K (d, S, E, now) t" and nf: "nr_down net \<or> int_at_raw (fr_state t) ''net_fail_streak'' = Inr 0"
    have keep: "framed ?K (d, S, E, now) u" "nr_down net \<or> int_at_raw (fr_state u) ''net_fail_streak'' = Inr 0" if "fields_of u = fields_of t" for u :: "'w fr"
      using that t nf by (simp_all add: framed_def fields_of_def)
    show "wpS (bindS (attemptS (askF (f_stats env))) (\<lambda>stats. bindS (attemptS (askF (f_quota env))) (\<lambda>quota.
     bindS (liftS (read_youtube_live_warning lib k stats quota now last_restart)) (\<lambda>(warning, warning_reason, payload).
     bindS (updF (update_remote_warning_streak lib k warning payload)) (\<lambda>warning_streak.
     bindS (write_transport_snapshot k env now pid uptime tcp net warning) (\<lambda>snapshot.
     bindS (settle_pending lib k env unresolved now pid uptime (tr_bytes_sent tcp) snapshot (youtube_hint payload))
       (?tail tcp net warning warning_reason warning_streak (youtube_hint payload)))))))) ?Q ?R t"
      apply (rule wp_idle [OF within_attempt [OF idleF_ask] refl])
       apply (rule wp_idle [OF within_attempt [OF idleF_ask]], assumption)
        apply (rule wp_idle [OF idleF.within_basic(3)], assumption)
      subgoal for stats u quota v answer w
        by (cases answer) (simp only: prod.case, rule warn [OF keep])
        apply (rule framed_stop, erule keep)+
      done
  qed (erule framed_stop)
qed

section \<open>One cycle\<close>

lemma warmup_end:
  fixes s :: "'w fr"
  assumes F: "fields_of s = (d, S, E, now)"
  shows "wpS (warmup_cycle lib k env now pid uptime) (\<lambda>_. step_end lib k d S E now) (\<lambda>_. stop_end lib k S E now) s"
proof (rule wp_quiet_steady [OF F quiet_end_same])
  have w: "withinS (steadyF MARKS) (mark_connectivity_wait now net pid)" for net
    using steady_mark_wait by (rule withinS_mono) (erule steady_mono [OF _ MARKS_WATCHED])
  have c: "withinS (steadyF MARKS) (clear_connectivity_wait now net)" for net
  proof -
    have "withinS (steadyF WATCHED) (updF (clear_wait now net))" by (rule steady_upd) (rule clear_wait_result(2))
    then have "withinS (steadyF MARKS) (updF (clear_wait now net))" by (rule withinS_mono) (erule steady_mono [OF _ MARKS_WATCHED])
    then show ?thesis unfolding clear_connectivity_wait_def by (intro steadyF.within_bind idle_steady [OF idle_emit(2)])
  qed
  show "withinS (steadyF MARKS) (warmup_cycle lib k env now pid uptime)"
    unfolding warmup_cycle_def
    by (intro steadyF.within_intros w c idle_steady [OF idle_network] idle_steady [OF idle_typed] steady_aupdate) (simp add: NO_WARNING_def MARKS_def)
qed simp

lemma main_body_end:
  fixes s :: "'w fr"
  assumes F: "fields_of s = (d, S, E, now)" and wf: "wf_config k" and l: "int_at d ''last_restart_ts'' = Inr last_restart"
  shows "wpS (main_body lib k env now last_restart unresolved) (\<lambda>_. step_end lib k d S E now) (\<lambda>_. stop_end lib k S E now) s"
proof -
  let ?Q = "\<lambda>_. step_end lib k d S E now"
  let ?R = "\<lambda>_. stop_end lib k S E now"
  let ?zero = "\<lambda>d. aupdate d ([(''last_reason'', PStr UNRESOLVED_REASON), (''last_pid'', PInt 0), (''last_bytes_sent'', PInt 0)] @ ZERO_SAMPLE)"
  let ?body = "\<lambda>pid uptime. bindS (getS (\<lambda>s. length (pending_actions (fr_state s)))) (\<lambda>n.
     if pid \<le> 1 \<and> (unresolved \<noteq> [] \<or> n > 0) then putF ?zero
     else if pid \<le> 1 then ffmpeg_missing_cycle lib k env now last_restart
     else bindS (putF (aset ''ffmpeg_missing_first_ts'' (PInt 0))) (\<lambda>_.
       if uptime < k_min_uptime k then warmup_cycle lib k env now pid uptime
       else ffmpeg_live_cycle lib k env now last_restart pid uptime unresolved))"
  have body: "wpS (?body pid uptime) ?Q ?R t" if t: "fields_of t = (d, S, E, now)" for t :: "'w fr" and pid uptime
  proof -
    have fd: "fr_state t = d" using t by (simp add: fields_of_def)
    have z: "wpS (putF ?zero) ?Q ?R t"
      by (rule wp_quiet_put [OF t quiet_end_same]) (simp, rule map_of_aupdate_other, auto simp: MARKS_def ZERO_SAMPLE_def)
    let ?d = "aset ''ffmpeg_missing_first_ts'' (PInt 0) d"
    let ?t = "t\<lparr>fr_state := ?d\<rparr>"
    have ft: "fields_of ?t = (?d, S, E, now)" using t by (simp add: fields_of_def)
    have marks: "\<forall>key \<in> MARKS. map_of ?d key = map_of d key" by (simp add: MARKS_def)
    have l': "int_at ?d ''last_restart_ts'' = Inr last_restart" using l by (simp add: int_at_def dget_def)
    have "wpS (ffmpeg_live_cycle lib k env now last_restart pid uptime unresolved) ?Q ?R ?t" if "\<not> pid \<le> 1"
      using live_cycle_end [OF ft wf l', of pid lib env uptime unresolved] that unfolding step_end_cong [OF marks] by simp
    moreover have "wpS (warmup_cycle lib k env now pid uptime) ?Q ?R ?t"
      using warmup_end [OF ft, of lib k env pid uptime] unfolding step_end_cong [OF marks] .
    moreover have "wpS (ffmpeg_missing_cycle lib k env now last_restart) ?Q ?R t" if "pending_actions d = []"
      by (rule missing_cycle_end [OF t wf l that])
    ultimately show ?thesis
      using z by (simp only: wpS_bind [of "getS _"] wpS_get wpS_bind [of "putF _"] wp_put wpS_if fd) (auto split: if_split)
  qed
  show ?thesis
    unfolding main_body_def
    apply (rule wp_idle [OF idleF_ask F])
     apply (rule wp_idle [OF idle_pid], assumption)
      apply (rule wp_idle [OF idle_elapsed], assumption)
       apply (rule wp_idle [OF idleF_ask], assumption)
        apply (rule wp_idle [OF idle_audit], assumption)
         apply (erule body)
        apply (erule stop_same)+
    done
qed

text \<open>The file can be read, and the clock stands after 1970.\<close>

definition reads :: "'w fenv \<Rightarrow> bool" where
  "reads env \<longleftrightarrow> (\<forall>w. fst (f_state_read env w) = Inr ())"

definition ticks :: "'w fenv \<Rightarrow> bool" where
  "ticks env \<longleftrightarrow> (\<forall>w. case fst (f_time env w) of Inr n \<Rightarrow> n > 0 | Inl e \<Rightarrow> True)"

definition stored_content :: "py option \<Rightarrow> py res" where
  "stored_content v = (case v of None \<Rightarrow> Inl FileNotFoundError | Some x \<Rightarrow> Inr x)"

definition loaded :: "pylib \<Rightarrow> fr_config \<Rightarrow> 'w fenv \<Rightarrow> py option \<Rightarrow> int \<Rightarrow> dict \<Rightarrow> bool" where
  "loaded lib k env S now d \<longleftrightarrow> (ticks env \<longrightarrow> now > 0) \<and> (\<exists>content. (reads env \<longrightarrow> content = stored_content S) \<and>
     load_state_file lib content now DEFAULT_STATE (k_samples_max k) (k_restart_cost k) = Inr d)"

text \<open>What a cycle that returns leaves: the state file holds the dictionary it ended with.\<close>

definition cycled :: "pylib \<Rightarrow> fr_config \<Rightarrow> 'w fenv \<Rightarrow> 'w fr \<Rightarrow> 'w fr \<Rightarrow> bool" where
  "cycled lib k env s t \<longleftrightarrow> (\<exists>now d n u. loaded lib k env (fr_stored s) now d \<and> step_end lib k d (fr_stored s) (fr_effects s) now (u :: 'w fr) \<and>
     fr_effects t = fr_effects u \<and> fr_stored t = Some (PDict (aset ''observed_ts'' (PInt n) (fr_state u))))"

definition at_most_one :: "pylib \<Rightarrow> fr_config \<Rightarrow> 'w fr \<Rightarrow> 'w fr \<Rightarrow> bool" where
  "at_most_one lib k s t \<longleftrightarrow> fr_effects t = fr_effects s \<or> (\<exists>x. permitted lib k x \<and> fr_effects t = fr_effects s @ [x])"

lemma stop_one: "stop_end lib k S (fr_effects s) now t \<Longrightarrow> at_most_one lib k s t"
  by (auto simp: stop_end_def allowed_def at_most_one_def)

lemma step_one: "step_end lib k d S (fr_effects s) now t \<Longrightarrow> at_most_one lib k s t"
  by (auto simp: step_end_def allowed_def at_most_one_def)

lemma finish_wp:
  fixes t :: "'w fr"
  assumes "loaded lib k env (fr_stored s) now d" and "step_end lib k d (fr_stored s) (fr_effects s) now t"
  shows "wpS (finish env) (\<lambda>_ u. cycled lib k env s u) (\<lambda>_ u. at_most_one lib k s u) t"
proof -
  have one: "at_most_one lib k s u" if "fr_effects u = fr_effects t" for u :: "'w fr"
    using step_one [OF assms(2)] that by (simp add: at_most_one_def)
  have cyc: "cycled lib k env s u" if "fr_effects u = fr_effects t" "fr_stored u = Some (PDict (aset ''observed_ts'' (PInt n) (fr_state t)))" for u :: "'w fr" and n
    using assms that unfolding cycled_def by blast
  have keep: "wpS (bindS (askF (f_state_tx env)) (\<lambda>tx. case tx of
        Committed \<Rightarrow> modS (\<lambda>s. s\<lparr>fr_stored := Some (PDict (fr_state s))\<rparr>) | Refused e \<Rightarrow> raiseS e
      | CommittedThen e \<Rightarrow> bindS (modS (\<lambda>s. s\<lparr>fr_stored := Some (PDict (fr_state s))\<rparr>)) (\<lambda>_. raiseS e)))
     (\<lambda>_ u. cycled lib k env s u) (\<lambda>_ u. at_most_one lib k s u) u"
    if u: "fr_effects u = fr_effects t" "fr_state u = aset ''observed_ts'' (PInt n) (fr_state t)" for u :: "'w fr" and n
    apply (rule wp_idle [OF idleF_ask refl])
    subgoal for tx v
      by (cases tx) (use u in \<open>auto simp: wp_simps fields_of_def intro!: one cyc [of _ n]\<close>)
    using u by (simp add: fields_of_def one)
  show ?thesis
    unfolding finish_def save_state_def Let_def wpS_bind [of _ "\<lambda>_. retS 0"] wpS_ret
    apply (rule wp_idle [OF idleF_ask refl])
     apply (simp only: wpS_bind [of "putF _"] wp_put)
     apply (rule keep)
      apply (auto simp: fields_of_def one)
    done
qed

lemma wp_ask: "wpS (askF f) Q R s \<longleftrightarrow> (case f (fr_world s) of (Inl e, w) \<Rightarrow> R e (s\<lparr>fr_world := w\<rparr>) | (Inr x, w) \<Rightarrow> Q x (s\<lparr>fr_world := w\<rparr>))"
  by (simp add: wpS_def askF_def split: prod.split sum.split)

lemma wp_attempt: "wpS (attemptS m) Q R s \<longleftrightarrow> wpS m (\<lambda>x. Q (Inr x)) (\<lambda>e. Q (Inl e)) s"
  by (simp add: wpS_def attemptS_def split: prod.split sum.split)

lemma load_state_wp:
  fixes t :: "'w fr"
  assumes "ticks env \<longrightarrow> now > 0"
  shows "wpS (load_state lib k env now) (\<lambda>_ u. \<exists>d. fields_of u = (d, fr_stored t, fr_effects t, fr_now t) \<and> loaded lib k env (fr_stored t) now d)
    (\<lambda>_ u. fr_effects u = fr_effects t) t"
proof (cases "f_state_read env (fr_world t)")
  case (Pair r w)
  have "reads env \<Longrightarrow> r = Inr ()" using Pair by (metis fst_conv reads_def)
  then show ?thesis
    using assms Pair
    by (cases r; cases "fr_stored t")
      (auto simp: load_state_def fr_wp wp_ask wp_attempt loaded_def stored_content_def fields_of_def split: sum.split)
qed

lemma main_cycle_wp:
  fixes s :: "'w fr"
  assumes wf: "wf_config k"
  shows "wpS (main_cycle lib k env) (\<lambda>_ t. cycled lib k env s t) (\<lambda>_ t. at_most_one lib k s t) s"
proof -
  let ?Q = "\<lambda>_ t. cycled lib k env s t"
  let ?R = "\<lambda>_ t. at_most_one lib k s t"
  have same: "at_most_one lib k s t" if "fr_effects t = fr_effects s" for t :: "'w fr" using that by (simp add: at_most_one_def)
  have rest: "wpS (bindS (lookF (\<lambda>d. int_at d ''last_restart_ts'')) (\<lambda>last_restart.
     bindS (read_executor_unresolved_scopes lib k env) (\<lambda>r.
     bindS (case r of None \<Rightarrow> retS () | Some unresolved \<Rightarrow> main_body lib k env now last_restart unresolved) (\<lambda>_. finish env)))) ?Q ?R u"
    if u: "fields_of u = (d, fr_stored s, fr_effects s, now)" and ld: "loaded lib k env (fr_stored s) now d" for u :: "'w fr" and d now
  proof (cases "int_at d ''last_restart_ts''")
    case (Inl e)
    then show ?thesis using u by (simp add: wpS_bind [of "lookF _"] wp_look fields_of_def same)
  next
    case (Inr last_restart)
    have out: "''pending_recovery_actions'' \<notin> MARKS" "''last_reason'' \<notin> MARKS" by (simp_all add: MARKS_def)
    have go: "wpS (bindS (case r of None \<Rightarrow> retS () | Some unresolved \<Rightarrow> main_body lib k env now last_restart unresolved) (\<lambda>_. finish env)) ?Q ?R v"
      if v: "framed MARKS (d, fr_stored s, fr_effects s, now) v" for v :: "'w fr" and r :: "dict list option"
    proof -
      have marks: "\<forall>key \<in> MARKS. map_of (fr_state v) key = map_of d key" using v by (simp add: framed_def)
      have l: "int_at (fr_state v) ''last_restart_ts'' = Inr last_restart" using marks Inr by (simp add: int_at_def dget_def MARKS_def)
      have "wpS (case r of None \<Rightarrow> retS () | Some unresolved \<Rightarrow> main_body lib k env now last_restart unresolved)
          (\<lambda>_. step_end lib k d (fr_stored s) (fr_effects s) now) (\<lambda>_. stop_end lib k (fr_stored s) (fr_effects s) now) v"
        using main_body_end [OF framed_here [OF v] wf l] framed_step [OF v] unfolding step_end_cong [OF marks]
        by (cases r) (simp_all add: wpS_ret)
      then show ?thesis unfolding wpS_bind [of _ "\<lambda>_. finish env"] by (rule wpS_mono) (auto intro: finish_wp [OF ld] stop_one)
    qed
    have "wpS (bindS (read_executor_unresolved_scopes lib k env) (\<lambda>r.
       bindS (case r of None \<Rightarrow> retS () | Some unresolved \<Rightarrow> main_body lib k env now last_restart unresolved) (\<lambda>_. finish env))) ?Q ?R u"
      by (rule wp_framed [OF steady_scopes [OF out] framed_fields [OF u] go]) (auto intro: stop_one framed_stop)
    moreover have "fr_state u = d" using u by (simp add: fields_of_def)
    ultimately show ?thesis using Inr by (simp add: wpS_bind [of "lookF _"] wp_look)
  qed
  have load: "wpS (bindS (load_state lib k env now) (\<lambda>_. bindS (lookF (\<lambda>d. int_at d ''last_restart_ts'')) (\<lambda>last_restart.
     bindS (read_executor_unresolved_scopes lib k env) (\<lambda>r.
     bindS (case r of None \<Rightarrow> retS () | Some unresolved \<Rightarrow> main_body lib k env now last_restart unresolved) (\<lambda>_. finish env))))) ?Q ?R t"
    if t: "fr_stored t = fr_stored s" "fr_effects t = fr_effects s" "fr_now t = now" and n: "ticks env \<longrightarrow> now > 0" for t :: "'w fr" and now
    unfolding wpS_bind [of "load_state _ _ _ _"]
    by (rule wpS_mono [OF load_state_wp [OF n]]) (use t rest same in \<open>auto simp only:\<close>)
  have "wpS (bindS (askF (f_time env)) (\<lambda>now. bindS (modS (\<lambda>s. s\<lparr>fr_now := now\<rparr>)) (\<lambda>_. bindS (load_state lib k env now) (\<lambda>_.
     bindS (lookF (\<lambda>d. int_at d ''last_restart_ts'')) (\<lambda>last_restart.
     bindS (read_executor_unresolved_scopes lib k env) (\<lambda>r.
     bindS (case r of None \<Rightarrow> retS () | Some unresolved \<Rightarrow> main_body lib k env now last_restart unresolved) (\<lambda>_. finish env))))))) ?Q ?R s"
  proof (cases "f_time env (fr_world s)")
    case (Pair r w)
    have "ticks env \<longrightarrow> now > 0" if "r = Inr now" for now
      unfolding ticks_def using Pair that by (metis fst_conv old.sum.simps(6))
    then show ?thesis
      using Pair by (cases r) (simp_all add: wpS_bind [of "askF _"] wpS_bind [of "modS _"] wpS_mod wp_ask same load)
  qed
  then show ?thesis
    unfolding main_cycle_def wpS_bind [of "liftS _"] wpS_lift by (cases "validate_controller_runtime_contract k") (simp_all add: same)
qed

end
