(* ===== verification/Fr_History.thy ===== *)
theory Fr_History
  imports Fr_Cycle
begin

text \<open>
  Cycles of the Fast Recovery controller one after the other. The state file carries the marks of one cycle to
  the next, and the dictionary it holds has no key twice (\<open>keyed\<close>), as every dictionary of the program.
\<close>

section \<open>No key twice\<close>

definition unique_keys :: "dict \<Rightarrow> bool" where
  "unique_keys d \<longleftrightarrow> distinct (map fst d)"

lemma unique_aset [simp]: "unique_keys d \<Longrightarrow> unique_keys (aset key v d)"
  by (simp add: unique_keys_def distinct_aset)

lemma unique_adel [simp]: "unique_keys d \<Longrightarrow> unique_keys (adel key d)"
  by (simp add: unique_keys_def adel_def distinct_map_filter)

lemma unique_aupdate [simp]: "unique_keys d \<Longrightarrow> unique_keys (aupdate d ys)"
  by (induction d ys rule: aupdate.induct) auto

lemma unique_rev: "unique_keys d \<Longrightarrow> map_of (rev d) = map_of d"
  by (simp add: unique_keys_def rev_map [symmetric] map_of_inject_set)

definition keyed :: "'w fr \<Rightarrow> 'w fr \<Rightarrow> bool" where
  "keyed s t \<longleftrightarrow> (unique_keys (fr_state s) \<longrightarrow> unique_keys (fr_state t))"

interpretation keyed: state_frame keyed by unfold_locales (auto simp: keyed_def)

lemma keyed_idle: "withinS idleF m \<Longrightarrow> withinS keyed m"
  by (rule withinS_mono, assumption) (simp add: idleF_def keyed_def)

lemma keyed_put: "(\<And>d. unique_keys d \<Longrightarrow> unique_keys (f d)) \<Longrightarrow> withinS keyed (putF f)"
  by (simp add: withinS_def putF_def modS_def keyed_def)

lemma keyed_upd:
  assumes "\<And>d x d'. f d = Inr (x, d') \<Longrightarrow> unique_keys d \<Longrightarrow> unique_keys d'"
  shows "withinS keyed (updF f)"
  using assms by (auto simp: withinS_def updF_def putF_def bindS_def getS_def liftS_def modS_def retS_def keyed_def split: sum.splits)

lemma keyed_note: "withinS keyed (note_effect c kind)"
  by (simp add: withinS_def note_effect_def modS_def keyed_def)

lemma keyed_catch_all: "withinS keyed m \<Longrightarrow> (\<And>e. withinS keyed (h e)) \<Longrightarrow> withinS keyed (catch_all m h)"
  unfolding catch_all_def by (intro keyed.within_intros) auto

lemma unique_updates:
  "unique_keys d \<Longrightarrow> unique_keys (set_pending ps d)"
  "unique_keys d \<Longrightarrow> unique_keys (remember_pending_recovery action now kind reason pid d)"
  "unique_keys d \<Longrightarrow> unique_keys (mark_latest_transport_sample pid b now why d)"
  "unique_keys d \<Longrightarrow> unique_keys (clear_recovery_streaks d)"
  "unique_keys d \<Longrightarrow> unique_keys (after_restart now es reason d)"
  by (simp_all add: set_pending_def remember_pending_recovery_def mark_latest_transport_sample_def clear_recovery_streaks_def after_restart_def Let_def
      del: aupdate.simps split: option.split)

lemma keyed_say: "withinS keyed (say why)"
  unfolding say_def by (rule keyed_put) simp

lemma keyed_once: "withinS keyed (record_once lib env key ts block_key e)"
  unfolding record_once_def by (intro keyed.within_intros keyed_idle [OF idleF_ask] keyed_idle [OF idle_look] keyed_idle [OF idle_emit(2)] keyed_put) simp

lemma keyed_gates:
  "withinS keyed (budget_gates lib k env w kind reason first now uh ud)"
  "withinS keyed (block_restart_if_gpu_preflight_fails lib k env trigger reason)"
  "withinS keyed (block_ffmpeg_missing_restart_before_established lib k env reason)"
  unfolding budget_gates_def budget_gate_def maybe_record_budget_block_def maybe_record_budget_override_def
    block_restart_if_gpu_preflight_fails_def block_ffmpeg_missing_restart_before_established_def
  by (intro keyed.within_intros keyed_once keyed_say keyed_idle [OF idle_gpu] keyed_idle [OF idle_establishment])+

lemma keyed_execute: "withinS keyed (execute_recovery_action_with_policy lib k env kind reason pid correlation)"
  by (rule withinS_mono [OF keeps_execute]) (simp add: keeps_dict_def keyed_def)

lemma keyed_outcomes:
  "withinS keyed (missing_outcome lib k now absent_for reason events action active ctx answer)"
  "withinS keyed (live_outcome lib k now pid uptime kind reason events tcp metrics hint ctx action failures answer)"
  unfolding missing_outcome_def live_outcome_def record_unresolved_recovery_dispatch_def Let_def
  by (intro keyed.within_intros keyed_idle [OF idle_emit(1)] keyed_idle [OF idle_look] keyed_idle [OF idle_result] keyed_put;
      simp add: unique_updates del: aupdate.simps)+

lemmas keyed_parts = keyed_gates keyed_execute keyed_outcomes keyed_say keyed_once idle_parts [THEN keyed_idle]

lemma keyed_recoveries:
  "withinS keyed (recover_missing lib k env now first reason events)"
  "withinS keyed (recover_live lib k env now pid uptime kind reason first events tcp metrics hint failures)"
  unfolding recover_missing_def recover_live_def Let_def
  by (intro keyed.within_intros keyed_parts keyed_put; simp add: unique_updates)+

lemma keyed_restarts:
  "withinS keyed (restart_missing lib k env now first reason)"
  "withinS keyed (restart_live lib k env now last_restart pid uptime kind reason first tcp net warning hint)"
  unfolding restart_missing_def restart_live_def Let_def
  by (intro keyed.within_intros keyed_parts keyed_recoveries keyed_put; simp add: unique_updates del: aupdate.simps)+

lemma unique_warning: "update_remote_warning_streak lib k warning payload d = Inr (n, d') \<Longrightarrow> unique_keys d \<Longrightarrow> unique_keys d'"
proof (drule warning_cases)
  assume "unique_keys d"
  then have "unique_keys (new_context lib payload d)" by (simp add: new_context_def Let_def)
  then have "unique_keys d'" if "count_warning lib payload key stats (new_context lib payload d) = Inr (n, d')" for key stats
    using that by (auto simp: count_warning_def Let_def split: prod.splits)
  moreover have "unique_keys (cleared_warning d)" using \<open>unique_keys d\<close> by (simp add: cleared_warning_def del: aupdate.simps)
  moreover assume "d' = cleared_warning d \<and> n = 0 \<or> d' = aset ''remote_warning_streak'' (PInt n) d \<or>
      d' = new_context lib payload d \<and> int_at (new_context lib payload d) ''remote_warning_streak'' = Inr n \<or>
      (\<exists>key stats. count_warning lib payload key stats (new_context lib payload d) = Inr (n, d'))"
  ultimately show "unique_keys d'" using \<open>unique_keys d\<close> \<open>unique_keys (new_context lib payload d)\<close> by (elim disjE exE conjE) simp_all
qed

lemma unique_wait:
  "clear_wait now net d = Inr (es, d') \<Longrightarrow> unique_keys d \<Longrightarrow> unique_keys d'"
  "mark_wait now net pid d = (es, d') \<Longrightarrow> unique_keys d \<Longrightarrow> unique_keys d'"
  by (auto simp: clear_wait_def mark_wait_def Let_def simp del: aupdate.simps split: if_splits)

lemma unique_sample: "unique_keys d \<Longrightarrow> unique_keys (snd (source_timed_sample lib pid b metrics interval d))"
proof (cases "snapshot_of lib pid b metrics")
  case (Some current)
  define saved where "saved = (case dget d SAMPLE_KEY of PDict s \<Rightarrow> s | _ \<Rightarrow> [])"
  have two: "unique_keys (snd (case (v, w) of (PDict x, PDict y) \<Rightarrow> f x y | _ \<Rightarrow> g))"
    if "\<And>x y. unique_keys (snd (f x y))" and "unique_keys (snd g)" for v w f and g :: "dict option \<times> dict"
    using that by (cases v; cases w) simp_all
  assume d: "unique_keys d"
  show ?thesis
  proof (cases "interval \<le> 0")
    case False
    show ?thesis
      unfolding source_timed_sample_def Some option.case Let_def saved_def [symmetric] if_not_P [OF False]
      by (rule two) (use d in \<open>simp_all add: restart_baseline_def\<close>)
  qed (use d in \<open>simp add: source_timed_sample_def Some\<close>)
qed (simp add: source_timed_sample_def)

lemma keyed_updates:
  "withinS keyed (updF (update_remote_warning_streak lib k warning payload))"
  "withinS keyed (updF (clear_wait now net))"
  "withinS keyed (updF (\<lambda>d. Inr (mark_wait now net pid d)))"
  "withinS keyed (updF (\<lambda>d. Inr (source_timed_sample lib pid b metrics interval d)))"
  "withinS keyed (updF (update_streak key active))"
  "withinS keyed (updF (update_active_reason lib now kind reason))"
  "withinS keyed (updF (sync_pending_recovery_from_executor lib scopes))"
  "withinS keyed (updF (\<lambda>d. bindE (reset_pid_dependent_state pid d) (\<lambda>d'. Inr ((), d'))))"
proof -
  show "withinS keyed (updF (update_remote_warning_streak lib k warning payload))" by (rule keyed_upd) (rule unique_warning)
  show "withinS keyed (updF (clear_wait now net))" by (rule keyed_upd) (rule unique_wait)
  show "withinS keyed (updF (\<lambda>d. Inr (mark_wait now net pid d)))" by (rule keyed_upd) (auto dest: unique_wait(2))
  show "withinS keyed (updF (\<lambda>d. Inr (source_timed_sample lib pid b metrics interval d)))"
    by (rule keyed_upd) (metis unique_sample snd_conv sum.inject(2))
  show "withinS keyed (updF (update_streak key active))" by (rule keyed_upd) (auto dest!: streak_result)
  show "withinS keyed (updF (update_active_reason lib now kind reason))"
    by (rule keyed_upd) (auto simp: update_active_reason_def Let_def split: if_splits)
  show "withinS keyed (updF (sync_pending_recovery_from_executor lib scopes))"
    by (rule keyed_upd) (auto simp: sync_pending_recovery_from_executor_def unique_updates)
  show "withinS keyed (updF (\<lambda>d. bindE (reset_pid_dependent_state pid d) (\<lambda>d'. Inr ((), d'))))"
    by (rule keyed_upd) (auto simp: reset_pid_dependent_state_def split: if_splits)
qed

lemma keyed_waits: "withinS keyed (mark_connectivity_wait now net pid)" "withinS keyed (clear_connectivity_wait now net)"
  unfolding mark_connectivity_wait_def clear_connectivity_wait_def by (intro keyed.within_intros keyed_updates keyed_idle [OF idle_emit(2)])+

lemma keyed_scopes: "withinS keyed (read_executor_unresolved_scopes lib k env)"
  unfolding read_executor_unresolved_scopes_def by (intro keyed.within_intros keyed_catch_all keyed_updates keyed_parts)

lemma keyed_settle: "withinS keyed (settle_pending lib k env unresolved now pid uptime b snapshot hint)"
proof -
  have r: "withinS keyed (maybe_reconcile_delayed_executor_effects lib env unresolved now pid uptime snapshot hint)"
  proof -
    have scope: "withinS keyed (reconcile_scope lib env now pid uptime o1 observed snapshot hint scope)" for o1 observed scope
    proof (cases "dget scope ''identity''")
      case (PDict prior)
      show ?thesis
        unfolding reconcile_scope_def PDict py.case by (intro keyed.within_intros keyed_catch_all keyed_parts)
    qed (simp_all add: reconcile_scope_def keyed.within_basic)
    have scopes: "withinS keyed (reconcile_scopes lib env now pid uptime o1 observed snapshot hint xs)" for o1 observed xs
      by (induction xs) (auto intro!: keyed.within_intros scope)
    have c: "withinS keyed (case v of PDict observed \<Rightarrow> f observed | _ \<Rightarrow> retS False)" if "\<And>x. withinS keyed (f x)" for v and f :: "dict \<Rightarrow> ('a fr, bool) act"
      using that by (cases v) (simp_all add: keyed.within_basic)
    show ?thesis
      unfolding maybe_reconcile_delayed_executor_effects_def by (intro keyed.within_intros c scopes keyed_parts)
  qed
  have c: "withinS keyed (maybe_record_recovery_completed lib now pid uptime snapshot hint)"
    unfolding maybe_record_recovery_completed_def by (intro keyed.within_intros keyed_parts keyed_put; simp add: unique_updates)
  show ?thesis
    unfolding settle_pending_def by (intro keyed.within_intros r c keyed_scopes keyed_put; simp add: unique_updates)
qed

lemma keyed_measure: "withinS keyed (measure_live lib k env now pid)"
  unfolding measure_live_def maybe_append_tcp_send_sample_def Let_def
  by (intro keyed.within_intros keyed_updates keyed_parts keyed_put; simp)

lemma keyed_missing: "withinS keyed (ffmpeg_missing_cycle lib k env now last_restart)"
  unfolding ffmpeg_missing_cycle_def wait_missing_def Let_def
  by (intro keyed.within_intros keyed_updates keyed_waits keyed_restarts keyed_parts keyed_put; simp del: aupdate.simps)

lemma keyed_evaluate: "withinS keyed (evaluate_live lib k env now last_restart pid uptime tcp net warning why ws hint)"
  unfolding evaluate_live_def
  by (intro keyed.within_intros keyed_updates keyed_waits keyed_restarts keyed_parts keyed_put; simp add: unique_updates)

lemma keyed_live: "withinS keyed (ffmpeg_live_cycle lib k env now last_restart pid uptime unresolved)"
  unfolding ffmpeg_live_cycle_def Let_def
  by (intro keyed.within_intros keyed_updates keyed_settle keyed_measure keyed_evaluate keyed_parts idleF_ask keyed_put; simp add: unique_updates)

lemma keyed_warmup: "withinS keyed (warmup_cycle lib k env now pid uptime)"
  unfolding warmup_cycle_def
  by (intro keyed.within_intros keyed_waits keyed_parts keyed_put; simp del: aupdate.simps)

lemma keyed_body: "withinS keyed (main_body lib k env now last_restart unresolved)"
  unfolding main_body_def by (intro keyed.within_intros keyed_missing keyed_live keyed_warmup keyed_parts keyed_put; simp del: aupdate.simps)

lemma unique_default: "unique_keys DEFAULT_STATE"
  by (simp add: unique_keys_def DEFAULT_STATE_def)

lemma unique_load: "load_state_file lib content now DEFAULT_STATE m c = Inr d \<Longrightarrow> unique_keys d"
  using unique_default by (auto simp: load_state_file_def Let_def simp del: aupdate.simps split: sum.splits py.splits if_splits)

lemma wp_keyed:
  assumes "withinS keyed m" and "unique_keys (fr_state t)" and "\<And>x u. unique_keys (fr_state u) \<Longrightarrow> wpS (f x) Q (\<lambda>_ _. True) u"
  shows "wpS (bindS m f) Q (\<lambda>_ _. True) t"
  unfolding wpS_bind by (rule withinS_wp [OF assms(1)]) (use assms in \<open>auto simp: keyed_def\<close>)

lemma main_cycle_unique:
  fixes s :: "'w fr"
  shows "wpS (main_cycle lib k env) (\<lambda>_ t. \<exists>d. fr_stored t = Some (PDict d) \<and> unique_keys d) (\<lambda>_ _. True) s"
proof -
  let ?Q = "\<lambda>_ t. \<exists>d. fr_stored t = Some (PDict d) \<and> unique_keys d"
  have fin: "wpS (finish env) ?Q (\<lambda>_ _. True) t" if "unique_keys (fr_state t)" for t :: "'w fr"
    using that by (auto simp: finish_def save_state_def Let_def fr_wp wp_ask split: prod.split sum.split tx.split)
  have body: "withinS keyed (case r of None \<Rightarrow> retS () | Some unresolved \<Rightarrow> main_body lib k env now last_restart unresolved)" for r now last_restart
    by (intro keyed.within_intros keyed_body)
  have load: "wpS (bindS (load_state lib k env now) (\<lambda>_. bindS (lookF (\<lambda>d. int_at d ''last_restart_ts'')) (\<lambda>last_restart.
     bindS (read_executor_unresolved_scopes lib k env) (\<lambda>r.
     bindS (case r of None \<Rightarrow> retS () | Some unresolved \<Rightarrow> main_body lib k env now last_restart unresolved) (\<lambda>_. finish env))))) ?Q (\<lambda>_ _. True) t" for t :: "'w fr" and now
  proof -
    have "wpS (load_state lib k env now) (\<lambda>_ u. unique_keys (fr_state u)) (\<lambda>_ _. True) t"
      using unique_load by (cases "f_state_read env (fr_world t)"; cases "fst (f_state_read env (fr_world t))"; cases "fr_stored t")
        (auto simp: load_state_def fr_wp wp_ask wp_attempt split: sum.split)
    then show ?thesis
      unfolding wpS_bind [of "load_state _ _ _ _"]
      by (rule wpS_mono) (auto intro!: wp_keyed keyed_idle [OF idle_look] keyed_scopes body fin)
  qed
  show ?thesis
    unfolding main_cycle_def
    by (cases "validate_controller_runtime_contract k"; cases "f_time env (fr_world s)"; cases "fst (f_time env (fr_world s))")
      (simp_all add: wpS_bind [of "liftS _"] wpS_bind [of "askF _"] wpS_bind [of "modS _"] wpS_lift wpS_mod wp_ask load)
qed

section \<open>The marks\<close>

text \<open>A mark of a time that is not before \<open>T\<close>.\<close>

definition marked :: "int \<Rightarrow> dict \<Rightarrow> bool" where
  "marked T d \<longleftrightarrow> holds_at d ''last_restart_ts'' (\<lambda>t. t \<ge> T) \<or> holds_at d ''last_restart_failure_ts'' (\<lambda>t. t \<ge> T \<and> t > 0)"

definition distance :: "fr_config \<Rightarrow> int" where
  "distance k = min (k_restart_guard k) (k_failure_backoff k)"

lemma passes_marked: "passes k now d \<Longrightarrow> marked T d \<Longrightarrow> wf_config k \<Longrightarrow> now - T \<ge> distance k"
  by (auto simp: passes_def marked_def holds_at_def restart_failure_backoff_left_def wf_config_def distance_def Let_def split: sum.splits if_splits)

lemma marked_cong: "\<forall>key \<in> MARKS. map_of d' key = map_of d key \<Longrightarrow> marked T d' = marked T d"
  by (simp add: marked_def holds_at_def int_at_def dget_def MARKS_def)

lemma marked_mono: "marked T d \<Longrightarrow> T' \<le> T \<Longrightarrow> marked T' d"
  by (auto simp: marked_def holds_at_def split: sum.splits)

lemma marked_observed: "marked T (aset ''observed_ts'' v d) = marked T d"
  by (rule marked_cong) (simp add: MARKS_def)

lemma tried_marks: "tried lib k now kind es d d' \<Longrightarrow> now > 0 \<Longrightarrow> marked now d'"
  by (auto simp: tried_def restarted_def failed_def marked_def holds_at_def int_at_PInt)

lemma loaded_marks:
  assumes "loaded lib k env (Some (PDict p)) now d" and "reads env" and "unique_keys p"
  shows "marked T d = marked T p"
proof -
  have "load_state_file lib (Inr (PDict p)) now DEFAULT_STATE (k_samples_max k) (k_restart_cost k) = Inr d"
    using assms by (auto simp: loaded_def stored_content_def)
  then have md: "map_of d key = map_of (aupdate DEFAULT_STATE p) key" if "key \<in> {''last_restart_ts'', ''last_restart_failure_ts''}" for key
    using that by (auto simp: load_state_file_def Let_def)
  have dflt: "map_of DEFAULT_STATE key = Some (PInt 0)" if "key \<in> {''last_restart_ts'', ''last_restart_failure_ts''}" for key
  proof -
    have "map_of DEFAULT_STATE ''last_restart_ts'' = Some (PInt 0)" "map_of DEFAULT_STATE ''last_restart_failure_ts'' = Some (PInt 0)"
      by (simp_all add: DEFAULT_STATE_def)
    with that show ?thesis by blast
  qed
  have "int_at d key = int_at p key" if key: "key \<in> {''last_restart_ts'', ''last_restart_failure_ts''}" for key
  proof (cases "map_of p key")
    case None
    then have "map_of d key = Some (PInt 0)" by (simp only: md [OF key] dflt [OF key] map_of_aupdate unique_rev [OF assms(3)] option.case)
    then show ?thesis using None by (simp add: int_at_PInt) (simp add: int_at_def dget_def int_or_0_def py_or_def)
  next
    case (Some v)
    then have "map_of d key = map_of p key" by (simp only: md [OF key] map_of_aupdate unique_rev [OF assms(3)] option.case)
    then show ?thesis by (rule int_at_cong)
  qed
  then show ?thesis by (simp add: marked_def holds_at_def)
qed

section \<open>Histories\<close>

definition spaced :: "fr_config \<Rightarrow> fr_effect list \<Rightarrow> bool" where
  "spaced k = successively (\<lambda>x y. fx_now y - fx_now x \<ge> distance k)"

definition history_inv :: "fr_config \<Rightarrow> 'w fr \<Rightarrow> bool" where
  "history_inv k s \<longleftrightarrow> spaced k (fr_effects s) \<and> (fr_effects s \<noteq> [] \<longrightarrow>
     (\<exists>p. fr_stored s = Some (PDict p) \<and> unique_keys p \<and> marked (fx_now (last (fr_effects s))) p))"

lemma cycled_inv:
  fixes s t :: "'w fr"
  assumes c: "cycled lib k env s t" and wf: "wf_config k" and env: "reads env" "ticks env" and inv: "history_inv k s"
    and u: "\<exists>d. fr_stored t = Some (PDict d) \<and> unique_keys d"
  shows "history_inv k t"
proof -
  from c obtain now d n and v :: "'w fr" where ld: "loaded lib k env (fr_stored s) now d" and step: "step_end lib k d (fr_stored s) (fr_effects s) now v"
    and eff: "fr_effects t = fr_effects v" and st: "fr_stored t = Some (PDict (aset ''observed_ts'' (PInt n) (fr_state v)))"
    unfolding cycled_def by blast
  have now: "now > 0" using ld env by (simp add: loaded_def)
  have uk: "unique_keys (aset ''observed_ts'' (PInt n) (fr_state v))" using u st by auto
  have md: "marked (fx_now (last (fr_effects s))) d" if "fr_effects s \<noteq> []"
  proof -
    from inv that obtain p where p: "fr_stored s = Some (PDict p)" "unique_keys p" "marked (fx_now (last (fr_effects s))) p" by (auto simp: history_inv_def)
    then show ?thesis using loaded_marks [of lib k env p now d] ld env(1) by simp
  qed
  have sp: "spaced k (fr_effects s)" using inv by (simp add: history_inv_def)
  from step consider (quiet) "fr_effects v = fr_effects s" "quiet_end lib k now d (fr_state v)"
    | (tried) es kind where "passes k now d" "allowed lib k now (fr_effects s) v" "tried lib k now kind es d (fr_state v)"
    by (auto simp: step_end_def trimmed_def split: sum.splits)
  then show ?thesis
  proof cases
    case quiet
    have "marked T (fr_state v) = marked T d" for T
      using quiet(2) by (simp add: quiet_end_def marked_def holds_at_def int_at_def dget_def)
    then show ?thesis using md sp st eff uk quiet(1) by (simp add: history_inv_def marked_observed)
  next
    case tried
    have m: "marked now (fr_state v)" by (rule tried_marks [OF tried(3) now])
    have far: "now - fx_now (last (fr_effects s)) \<ge> distance k" if "fr_effects s \<noteq> []" using passes_marked [OF tried(1) md [OF that] wf] .
    have "distance k \<ge> 0" using wf by (simp add: distance_def wf_config_def)
    from tried(2) consider "fr_effects v = fr_effects s" | x where "fx_now x = now" "fr_effects v = fr_effects s @ [x]" by (auto simp: allowed_def)
    then show ?thesis
    proof cases
      case 1
      have "marked (fx_now (last (fr_effects s))) (fr_state v)" if "fr_effects s \<noteq> []"
        by (rule marked_mono [OF m]) (use far [OF that] \<open>distance k \<ge> 0\<close> in simp)
      with 1 show ?thesis using sp st eff uk by (simp add: history_inv_def marked_observed)
    next
      case 2
      have "spaced k (fr_effects s @ [x])" using sp far 2 by (auto simp: spaced_def successively_append_iff)
      with 2 show ?thesis using m st eff uk by (simp add: history_inv_def marked_observed)
    qed
  qed
qed

text \<open>
  Cycles one after the other, each in a process of its own. A cycle that returns has read the state file and
  written it; one that breaks off without a recovery leaves the file as it was.
\<close>

inductive fr_history :: "pylib \<Rightarrow> fr_config \<Rightarrow> 'w fr \<Rightarrow> bool" for lib k where
  started: "fr_effects s = [] \<Longrightarrow> fr_history lib k s"
| returned: "fr_history lib k s \<Longrightarrow> reads env \<Longrightarrow> ticks env \<Longrightarrow> main_cycle lib k env s = (Inr rc, t) \<Longrightarrow> fr_history lib k t"
| broke_off: "fr_history lib k s \<Longrightarrow> main_cycle lib k env s = (Inl e, t) \<Longrightarrow> fr_effects t = fr_effects s \<Longrightarrow> fr_stored t = fr_stored s \<Longrightarrow> fr_history lib k t"

lemma history_spaced:
  assumes "fr_history lib k s" and wf: "wf_config k"
  shows "history_inv k s"
  using assms(1)
proof induction
  case (started s)
  then show ?case by (simp add: history_inv_def spaced_def)
next
  case (returned s env rc t)
  show ?case
    by (rule cycled_inv [OF wpS_Inr [OF main_cycle_wp [OF wf] returned(4)] wf returned(2,3,5) wpS_Inr [OF main_cycle_unique returned(4)]])
next
  case (broke_off s env e t)
  then show ?case by (simp add: history_inv_def)
qed

section \<open>Results\<close>

text \<open>C6: Whatever the state file, the clock, the probes, the executor and the commands answer or raise, a cycle sends at most one recovery, and
  only one that is permitted: the producer is not shadowing, the reason is confirmed and the recovery is the one it calls for, at the
  receiver that owns it; no earlier recovery is unresolved; the network is up; the guard after the last restart and the backoff after the
  last failure are over; and the restart fits the hourly and the daily downtime budget, unless the same reason other than a missing FFmpeg
  has held for the whole override time.\<close>

theorem recoveries_are_permitted:
  "fr_effects (snd (main_cycle lib (load_config get fl) env s)) = fr_effects s \<or>
   (\<exists>x. permitted lib (load_config get fl) x \<and> fr_effects (snd (main_cycle lib (load_config get fl) env s)) = fr_effects s @ [x])"
proof -
  let ?k = "load_config get fl"
  have "wpS (main_cycle lib ?k env) (\<lambda>_ t. at_most_one lib ?k s t) (\<lambda>_ t. at_most_one lib ?k s t) s"
    by (rule wpS_mono [OF main_cycle_wp [OF load_config_wf]]) (auto simp: cycled_def at_most_one_def dest!: step_one)
  then show ?thesis by (auto simp: wpS_def at_most_one_def split: prod.splits sum.splits)
qed

text \<open>C15: Recoveries keep their distance across processes: as long as cycles that return have read and written the state file and a cycle that
  breaks off has sent nothing, any two successive recoveries of a history are at least the restart guard or the failure backoff apart,
  whichever is shorter, even when the clock is set back in between.\<close>

theorem recoveries_keep_distance:
  assumes "fr_history lib (load_config get fl) s"
  shows "successively (\<lambda>x y. fx_now y - fx_now x \<ge> min (k_restart_guard (load_config get fl)) (k_failure_backoff (load_config get fl))) (fr_effects s)"
  using history_spaced [OF assms load_config_wf] by (simp add: history_inv_def spaced_def distance_def)

end
