(* ===== verification/Fr_Example.thy ===== *)
theory Fr_Example
  imports Fr_History
begin

text \<open>
  A controller with the default settings and a history in which it sends two recoveries: FFmpeg has been missing
  since second 100, the network answers, and the unit does not restart, at second 1000 and again at second 1040.
\<close>

definition ex_fenv :: "int \<Rightarrow> unit fenv" where
  "ex_fenv now = \<lparr>f_time = retS now, f_tick = retS 0, f_now = retS 0, f_uuid = retS ''u'', f_state_read = retS (), f_state_tx = retS Committed,
     f_observation = (\<lambda>_. retS PNone), f_exchange = (\<lambda>_ _. retS PNone), f_main_pid = retS 0, f_child_pid = (\<lambda>_. retS 0), f_pgrep = retS 0,
     f_elapsed = (\<lambda>_. retS 0), f_gateway = retS ''192.0.2.1'', f_ping = (\<lambda>_. retS True), f_dns = retS True, f_tcp = retS True, f_ss = (\<lambda>_. retS []),
     f_stats = retS PNone, f_quota = retS PNone, f_signal = (\<lambda>_ _. retS (False, [])), f_restart_unit = (\<lambda>_. retS (False, ''systemctl failed'')),
     f_context = (\<lambda>_ _. retS []), f_gpu = retS [], f_established = retS [], f_audit = (\<lambda>_ _. retS ()), f_write_snapshot = retS (),
     f_utc_text = (\<lambda>_. []), f_type = (\<lambda>_. [])\<rparr>"

definition ex_fr :: "unit fr" where
  "ex_fr = \<lparr>fr_state = [], fr_stored = Some (PDict [(''ffmpeg_missing_first_ts'', PInt 100)]), fr_log = [], fr_effects = [], fr_now = 0, fr_world = ()\<rparr>"

lemma ex_fenv_sel:
  "f_time (ex_fenv n) = retS n"
  "f_uuid (ex_fenv n) = retS ''u''"
  "f_state_read (ex_fenv n) = retS ()"
  "f_state_tx (ex_fenv n) = retS Committed"
  "f_main_pid (ex_fenv n) = retS 0"
  "f_gateway (ex_fenv n) = retS ''192.0.2.1''"
  "f_ping (ex_fenv n) = (\<lambda>_. retS True)"
  "f_dns (ex_fenv n) = retS True"
  "f_tcp (ex_fenv n) = retS True"
  "f_restart_unit (ex_fenv n) = (\<lambda>_. retS (False, ''systemctl failed''))"
  "f_context (ex_fenv n) = (\<lambda>_ _. retS [])"
  "f_audit (ex_fenv n) = (\<lambda>_ _. retS ())"
  by (simp_all add: ex_fenv_def)

lemma ex_defaults_sel:
  "k_socket ex_defaults = []"
  "k_authority_mode ex_defaults = ''LEGACY_DIRECT''"
  "k_runtime_mode ex_defaults = ''LEGACY''"
  "k_supervisor ex_defaults = ''systemd''"
  "k_enforcement ex_defaults = ''0''"
  "k_controller_id ex_defaults = ''dell_fast_recovery''"
  "k_execution_mode ex_defaults = ''execute''"
  "k_ping_targets ex_defaults = [''1.1.1.1'', ''8.8.8.8'']"
  "k_missing_restart ex_defaults = 20"
  "k_restart_guard ex_defaults = 5"
  "k_failure_backoff ex_defaults = 30"
  "k_hourly_budget ex_defaults = 300"
  "k_daily_budget ex_defaults = 1800"
  "k_restart_cost ex_defaults = 30"
  "k_samples_max ex_defaults = 1024"
  unfolding ex_defaults_def load_config_def Let_def fr_config.select_convs by code_simp+

text \<open>What the evaluation of a cycle unfolds.\<close>

lemmas ex_actions = ex_fenv_sel ex_defaults_sel askF_def bindS_def liftS_def getS_def modS_def retS_def putF_def lookF_def updF_def emit_def
  emit_all_def say_def audit_mp03_def catch_all_def catchS_def attemptS_def raiseS_def

lemmas ex_code = load_state_def load_state_file_def trim_restart_events_def dget_or_def dget_def Let_def trim_samples_def events_py_def
  dict_items_def main_cycle_def validate_controller_runtime_contract_def read_executor_unresolved_scopes_def main_body_def
  get_stream_ffmpeg_pid_def get_child_ffmpeg_pid_def get_process_elapsed_sec_def ffmpeg_missing_cycle_def int_at_def int_or_0_def py_or_def
  current_network_observation_def network_observation_def clear_connectivity_wait_def clear_wait_def network_fields_def restart_missing_def
  used_downtime_budget_sec_def budget_gates_def budget_gate_def block_ffmpeg_missing_restart_before_established_def
  current_stream_establishment_def k8s_supervisor_active_def block_restart_if_gpu_preflight_fails_def runtime_gpu_restart_block_def
  recover_missing_def record_typed_policy_decision_def planned_recovery_scope_def effect_authority_active_def new_recovery_action_def
  append_recovery_requested_def execute_recovery_action_with_policy_def restart_stream_def note_effect_def missing_outcome_def
  append_recovery_dispatch_result_def finish_def save_state_def pending_actions_def truth_words_def

text \<open>The marks of a missing FFmpeg: the last failure and the number of failures.\<close>

definition idle_since :: "dict \<Rightarrow> int \<Rightarrow> int \<Rightarrow> bool" where
  "idle_since d f c \<longleftrightarrow> map_of d ''last_restart_ts'' = Some (PInt 0) \<and> map_of d ''last_restart_failure_ts'' = Some (PInt f) \<and>
     map_of d ''ffmpeg_missing_success_backoff_until'' = None \<and> map_of d ''ffmpeg_missing_first_ts'' = Some (PInt 100) \<and>
     map_of d ''connectivity_wait_active'' = Some (PBool False) \<and> map_of d ''restart_events'' = Some (PList []) \<and>
     map_of d ''samples'' = Some (PList []) \<and> map_of d ''pending_recovery_actions'' = Some (PList []) \<and> map_of d ''restart_failure_count'' = Some (PInt c)"

lemma first_failure:
  assumes "fr_stored s = Some (PDict p)" and "idle_since (aupdate DEFAULT_STATE p) 0 0"
  shows "case main_cycle ex_wire ex_defaults (ex_fenv 1000) s of (r, t) \<Rightarrow> r = Inr 0 \<and> map fx_now (fr_effects t) = map fx_now (fr_effects s) @ [1000] \<and>
     (case fr_stored t of Some (PDict p) \<Rightarrow> idle_since p 1000 1 | _ \<Rightarrow> False)"
proof -
  note h = assms(2) [unfolded idle_since_def]
  show ?thesis by (simp add: ex_actions ex_code assms(1) h restart_failure_backoff_left_def idle_since_def)
qed

lemma second_failure:
  assumes "fr_stored s = Some (PDict p)" and "idle_since (aupdate DEFAULT_STATE p) 1000 1"
  shows "case main_cycle ex_wire ex_defaults (ex_fenv 1040) s of (r, t) \<Rightarrow> r = Inr 0 \<and> map fx_now (fr_effects t) = map fx_now (fr_effects s) @ [1040] \<and>
     (case fr_stored t of Some (PDict p) \<Rightarrow> idle_since p 1040 2 | _ \<Rightarrow> False)"
proof -
  note h = assms(2) [unfolded idle_since_def]
  show ?thesis by (simp add: ex_actions ex_code assms(1) h restart_failure_backoff_left_def idle_since_def)
qed

lemma idle_load:
  assumes "unique_keys p" and "idle_since p f c"
  shows "idle_since (aupdate DEFAULT_STATE p) f c"
proof -
  have "map_of DEFAULT_STATE ''ffmpeg_missing_success_backoff_until'' = None" by (simp add: DEFAULT_STATE_def)
  with assms(2) show ?thesis by (simp add: idle_since_def map_of_aupdate unique_rev [OF assms(1)])
qed

definition ex_first :: "unit fr" where "ex_first = snd (main_cycle ex_wire ex_defaults (ex_fenv 1000) ex_fr)"
definition ex_second :: "unit fr" where "ex_second = snd (main_cycle ex_wire ex_defaults (ex_fenv 1040) ex_first)"

theorem recoveries_keep_distance_witness:
  "map fx_now (fr_effects ex_second) = [1000, 1040] \<and>
   successively (\<lambda>x y. fx_now y - fx_now x \<ge> min (k_restart_guard (load_config (\<lambda>_. None) (\<lambda>_. None)))
     (k_failure_backoff (load_config (\<lambda>_. None) (\<lambda>_. None)))) (fr_effects ex_second)"
proof -
  have env: "reads (ex_fenv n)" "n > 0 \<Longrightarrow> ticks (ex_fenv n)" for n by (simp_all add: reads_def ticks_def ex_fenv_sel retS_def)
  have "idle_since (aupdate DEFAULT_STATE [(''ffmpeg_missing_first_ts'', PInt 100)]) 0 0"
    by (simp add: idle_since_def DEFAULT_STATE_def)
  from first_failure [OF _ this, of ex_fr] have 1: "main_cycle ex_wire ex_defaults (ex_fenv 1000) ex_fr = (Inr 0, ex_first)"
      "map fx_now (fr_effects ex_first) = [1000]" and st: "case fr_stored ex_first of Some (PDict p) \<Rightarrow> idle_since p 1000 1 | _ \<Rightarrow> False"
    by (auto simp: ex_first_def ex_fr_def split: prod.splits)
  from wpS_Inr [OF main_cycle_unique 1(1)] st obtain p where p: "fr_stored ex_first = Some (PDict p)" "unique_keys p" "idle_since p 1000 1" by auto
  from second_failure [OF p(1) idle_load [OF p(2,3)]] 1(2) have 2: "main_cycle ex_wire ex_defaults (ex_fenv 1040) ex_first = (Inr 0, ex_second)"
      "map fx_now (fr_effects ex_second) = [1000, 1040]"
    by (auto simp: ex_second_def split: prod.splits)
  have "fr_history ex_wire ex_defaults ex_fr" by (rule fr_history.started) (simp add: ex_fr_def)
  from fr_history.returned [OF fr_history.returned [OF this env(1) env(2) 1(1)] env(1) env(2) 2(1)]
  have "fr_history ex_wire (load_config (\<lambda>_. None) (\<lambda>_. None)) ex_second" by (simp add: ex_defaults_def)
  from recoveries_keep_distance [OF this] 2(2) show ?thesis by simp
qed

end
