(* ===== verification/Spec2Isabelle.thy ===== *)
theory Spec2Isabelle
  imports Py_Prelude Fallback_Loop Forward_Keeper Manual_Maintenance Cra_Replication Cra_Agent_Safety Cra_Verify Rb_Safety Rb_Closing Fr_Example
begin

text \<open>
  Verification of the recovery core of the live stream system.

  \<^bold>\<open>The program.\<close> A home host produces one stream and sends it to a cloud relay, which forwards it to YouTube
  and Twitch. Five groups of Python processes act on the stream when something fails, and each effect must
  happen for a reason, at most once, and never while an operator works on the stream:

  \<^item> the self-healing tools (\<open>ops/selfheal\<close>): a fallback controller that starts and stops a direct backup to
    YouTube, a keeper of the relay's forwards, the operator's maintenance tool, and the session they all consult;
  \<^item> the recovery agent (\<open>recovery-control/src/cra\<close>): it detects stalled FFmpeg transports, decides under a
    signed policy, and asks the executor for a restart; a second thread replicates its audit log to the
  \<^item> central service (\<open>recovery-control/src/cra/central\<close>), which publishes policies, stores audit records and
    checks them;
  \<^item> the effect executor (\<open>src/runtime_boundary\<close>): it alone performs the effect, fenced by a durable ledger;
  \<^item> the Fast Recovery controller (\<open>src/watchers/fast_recovery.py\<close>): one cycle per start of the process; it watches FFmpeg,
    its TCP connection, the network and YouTube's status, and recovers within downtime budgets, through the executor
    where one is configured.

  The agent sends its requests to the executor over a socket (\<open>agent_request_understood\<close> relates the two sides:
  what the one builds the other accepts, with the same identities), and closes the executor's fences after a recovery it has verified. The
  fallback controller and the keeper read the maintenance session under its file lock. The Fast Recovery controller speaks the
  executor's protocol too (\<open>controller_request_understood\<close>), asks it for unresolved effects before it acts, and keeps
  its own memory in a state file from one cycle to the next.

  \<^bold>\<open>Theories.\<close> \<open>Py_Prelude\<close> models what the sources use of Python: decoded JSON values (\<open>py\<close>), exceptions,
  code that raises (\<open>res\<close>), code whose state changes survive an exception (\<open>act\<close>, with weakest preconditions
  \<open>wpS\<close> and frames \<open>withinS\<close>), dictionaries in insertion order, the locales \<open>invariant_system\<close>, \<open>state_frame\<close>
  and \<open>hold_timer\<close>.

  Self-healing, one theory per file: \<open>Clock_Contract\<close> (\<open>clock_contract.py\<close>), \<open>Maintenance_State\<close>
  (\<open>maintenance_state.py\<close>), \<open>Route_Assessment\<close> (\<open>route_assessment.py\<close>), \<open>Fallback_Controller\<close>
  (\<open>fallback_controller.py\<close>) with \<open>Fallback_Loop\<close> (its runs), \<open>Forward_Keeper\<close> (\<open>forward_keeper.py\<close>),
  \<open>Manual_Maintenance\<close> (\<open>manual_maintenance.py\<close>). A controller is a record with the attributes of its class
  and one function per method; a cycle of its loop is a function from the record and the inputs of the cycle to
  the next record and the requests made; a run folds cycles over a list of inputs.

  Recovery agent and central service: \<open>Cra_Json\<close> (\<open>signing.py\<close>), \<open>Cra_Policy\<close> (\<open>policy.py\<close>),
  \<open>Cra_Binding\<close> (\<open>runtime_binding.py\<close>), \<open>Cra_Observe\<close> (\<open>observe.py\<close>), \<open>Cra_Decide\<close> (\<open>decide.py\<close>),
  \<open>Cra_Store\<close> (\<open>store.py\<close>: tables are lists of rows, methods are transactions), \<open>Cra_Effect\<close> (\<open>effect.py\<close>,
  \<open>recovery.py\<close>), \<open>Cra_Sync\<close> (\<open>sync.py\<close>, \<open>audit_ack.py\<close>), \<open>Cra_Agent\<close> (\<open>agent.py\<close>), \<open>Cra_Central\<close>
  (\<open>central/store.py\<close>, \<open>server.py\<close>, \<open>cli.py\<close>), \<open>Cra_Verify\<close> (\<open>central/verify.py\<close>). \<open>Cra_Agent_Frame\<close> says
  what each part of the agent leaves alone, \<open>Cra_Agent_Safety\<close> proves the guarantees over all histories of its
  processes, \<open>Cra_Replication\<close> composes agent, network and service.

  Effect executor: \<open>Rb_Protocol\<close> (\<open>model.py\<close>, the target identity of \<open>cra_dell_recovery/models.py\<close>,
  \<open>effect_scope.py\<close>), \<open>Rb_Ledger\<close> (\<open>ledger.py\<close>), \<open>Rb_Server\<close> (\<open>server.py\<close>, \<open>operator_route.py\<close> and the hand-off of
  \<open>stream_core/runtime_boundary_entrypoint.py\<close>). \<open>Rb_Ledger_Laws\<close> holds the ledger's invariant and what every
  transaction keeps, \<open>Rb_Calm\<close> the frame of code that starts no effect, \<open>Rb_Safety\<close> the path of a request to
  its effect and the theorems over all histories, \<open>Rb_Closing\<close> acceptance, restart and the closing of fences,
  \<open>Rb_Example\<close> concrete values.

  Fast Recovery controller: \<open>Fr_Core\<close> (the configuration, and \<open>budget.py\<close>, \<open>policy.py\<close>, \<open>state.py\<close>, \<open>tcp_metrics.py\<close>,
  \<open>decision.py\<close>, \<open>connectivity_policy.py\<close> of \<open>watchers/fast_recovery_core\<close>), \<open>Fr_Warning\<close> (\<open>remote_warning.py\<close>), \<open>Fr_Effect\<close>
  (\<open>effect_contract.py\<close>), \<open>Fr_Sample\<close> (\<open>tcp_send_sample.py\<close>), \<open>Fr_Loop\<close> (\<open>fast_recovery.py\<close>: \<open>main_cycle\<close> is one call of
  \<open>main\<close>; the state dictionary, the state file and the recoveries sent are fields of \<open>fr\<close>, what it reads is \<open>fenv\<close>).
  \<open>Fr_Frame\<close> says which keys of the state each part leaves alone, \<open>Fr_Safety\<close> and \<open>Fr_Cycle\<close> follow a cycle to the
  recovery it sends and the marks it leaves, \<open>Fr_History\<close> joins cycles, \<open>Fr_Example\<close> runs two of them.

  \<^bold>\<open>What is shown.\<close> Over any history of processes that are started, fail, are killed at any call and restarted:
  the agent sends at most one request per FFmpeg generation, only on warranted evidence and within its
  budgets; the executor starts at most one effect per request, idempotency key and fence, and only for the
  target it has just read; the maintenance tool sends each effect once and releases the inhibition only at a
  successful completion; the backup is started and stopped only after the windows the controller promises, and a
  sustained failure does start it; the Fast Recovery controller sends at most one recovery per cycle, only for a confirmed
  reason past its guards and budgets, and keeps recoveries apart from cycle to cycle as long as its state file can be
  read and written. Ledgers and databases keep their invariants; the audit log rebuilds the actions (refinement) and its acknowledged part is stored centrally; formats survive a round trip; loops over
  sockets end; errors fail closed.

  \<^bold>\<open>Method.\<close> The world outside (clocks, files, sockets, databases, HTTP, subprocesses) is an environment that may
  answer anything or raise at every call, and may depend on everything that happened before; histories are
  inductive relations over process lives. A database transaction commits, is refused, or commits with the
  process failing right after (\<open>tx\<close>). Concurrency is interleaving: the synchronisation thread of the agent and the
  worker of the executor may move before any access to the shared database.

  \<^bold>\<open>Parameters and hypotheses.\<close> \<open>pylib\<close> holds what the sources use of Python's libraries (SHA-256 of the
  canonical JSON text, text of numbers, parsing of time stamps, \<open>ipaddress\<close>); \<open>rfc\<close> is the digest over the package
  \<open>rfc8785\<close>; signature verification is a parameter. Hypotheses on them are named (\<open>collision_free\<close>: different
  normal forms have different digests; \<open>loads_json\<close> and \<open>wf_json\<close>: \<open>json.loads\<close> yields objects with distinct keys;
  \<open>from_agent\<close>, \<open>from_central\<close>: a valid signature is on something the party signed), and the
  witnesses instantiate them.

  \<^bold>\<open>Bounds and fuel.\<close> The receive loops (\<open>recv_loop\<close> with \<open>MAX_MESSAGE + 2\<close>, \<open>read_request\<close> with
  \<open>MAX_REQUEST + 2\<close> iterations) never use up their fuel, which is proved (\<open>send_terminates\<close>,
  \<open>reading_a_request_ends\<close>). The two waiting loops of the maintenance tool end by the clock; their bound is a
  parameter and the safety theorems hold for every value of it, with \<open>Diverged\<close> as the outcome of a used-up
  bound. Seconds are exact rationals; the rounding of binary floats is not modelled. Python integers are \<open>int\<close>.

  \<^bold>\<open>Not modelled.\<close> Adapters around subprocesses, SSH, kubectl and systemd, HTTP servers and clients below the decoded
  request, argument parsing, logging, the creation and migration of SQL schemas, file system protocols (temporary
  file, rename, fsync) below their outcome. Connections to the executor are handled one after the other. Outside
  the recovery core the repository holds reporting, monitoring, rendering, music selection and deployment code,
  which the manifest lists part by part: it observes or produces the stream and takes no recovery decision, apart from
  the older watchdogs for systemd and the YouTube API. Of the Fast Recovery controller the probes (ping, DNS, TCP, \<open>ss\<close>,
  \<open>/proc\<close>), the GPU check, the audit writer, the context file of a restart and the wait after a signal are the environment.
\<close>

end
